(* ===== verification/Prelude.thy ===== *)
theory Prelude
  imports Main "HOL-Library.State_Monad" "HOL-Library.Word"
begin

section \<open>Prelude: stateful programs, Go errors, effect relations\<close>

text \<open>
  Generic material shared by every component. A Go method that reads and writes the
  fields of its receiver is a value of \<open>('s, 'a) state\<close> (HOL-Library.State_Monad):
  \<open>'s\<close> is the receiver's state and \<open>'a\<close> what the method returns, so the
  \<open>do\<close> blocks of the model follow the statements of the source. A Go result
  \<open>(T, error)\<close> is the pair \<open>'a \<times> gerror option\<close>: Go returns both parts,
  and several callers use the first part although the second is an error.
  A result \<open>error\<close> alone is a \<open>gerror option\<close>, with \<open>None\<close> for \<open>nil\<close>.
  Logging is not modelled.
\<close>

named_theorems run_simps \<open>unfold the constants that runs of stateful programs are made of\<close>
named_theorems go_defs \<open>string constants of the model packages\<close>


subsection \<open>Stateful programs\<close>

abbreviation ret :: "'a \<Rightarrow> ('s, 'a) state" where
  "ret \<equiv> State_Monad.return"

definition gets :: "('s \<Rightarrow> 'a) \<Rightarrow> ('s, 'a) state" where
  "gets f = State (\<lambda>s. (f s, s))"

definition modify :: "('s \<Rightarrow> 's) \<Rightarrow> ('s, unit) state" where
  "modify f = State (\<lambda>s. ((), f s))"

text \<open>Run an action that the environment decides, on the part of the state it owns.\<close>

definition zoom :: "('s \<Rightarrow> 't) \<Rightarrow> ('t \<Rightarrow> 's \<Rightarrow> 's) \<Rightarrow> ('t, 'a) state \<Rightarrow> ('s, 'a) state" where
  "zoom rd wr m = State (\<lambda>s. (fst (run_state m (rd s)), wr (snd (run_state m (rd s))) s))"

definition whenM :: "bool \<Rightarrow> ('s, unit) state \<Rightarrow> ('s, unit) state" where
  "whenM b m = (if b then m else ret ())"

text \<open>Call a method and drop its result (Go's \<open>if err := ...; err != nil { log }\<close>).\<close>

definition call :: "('s, 'a) state \<Rightarrow> ('s, unit) state" where
  "call m = do { _ \<leftarrow> m; ret () }"

lemma run_gets [simp]: "run_state (gets f) s = (f s, s)"
  by (simp add: gets_def)

lemma run_modify [simp]: "run_state (modify f) s = ((), f s)"
  by (simp add: modify_def)

lemma run_zoom [simp]:
  "run_state (zoom rd wr m) s = (fst (run_state m (rd s)), wr (snd (run_state m (rd s))) s)"
  by (simp add: zoom_def)

lemma run_when [simp]:
  "run_state (whenM b m) s = (if b then run_state m s else ((), s))"
  by (simp add: whenM_def)

lemma run_call [simp]: "run_state (call m) s = ((), snd (run_state m s))"
  by (simp add: call_def split: prod.split)

text \<open>The value and the final state of a run, for statements about one of the two.\<close>

abbreviation val_of :: "('s, 'a) state \<Rightarrow> 's \<Rightarrow> 'a" where
  "val_of m s \<equiv> fst (run_state m s)"

abbreviation exec_of :: "('s, 'a) state \<Rightarrow> 's \<Rightarrow> 's" where
  "exec_of m s \<equiv> snd (run_state m s)"

lemma run_bind_proj:
  "run_state (State_Monad.bind m f) s = run_state (f (val_of m s)) (exec_of m s)"
  by (simp add: case_prod_beta)


subsection \<open>Go errors\<close>

text \<open>
  An error value: one made from a text (\<open>errors.New\<close>, \<open>errors.Errorf\<close>,
  \<open>fmt.Errorf\<close>), or one that carries a \<open>MySQLError\<close> of the driver in its chain,
  with its number and its text (\<open>errors.WithStack\<close> keeps the chain, so it is the
  identity here).
\<close>

datatype gerror = GoErr string | MySQLErr nat string

primrec err_text :: "gerror \<Rightarrow> string" where
  "err_text (GoErr t) = t"
| "err_text (MySQLErr n t) = t"

type_synonym 'a res = "'a \<times> gerror option"

text \<open>
  \<open>for _, x := range xs { if err := f(x); err != nil { return err } }; return nil\<close>
\<close>

fun until_err :: "('x \<Rightarrow> ('s, gerror option) state) \<Rightarrow> 'x list \<Rightarrow> ('s, gerror option) state" where
  "until_err f [] = ret None"
| "until_err f (x # xs) = do {
     e \<leftarrow> f x;
     (case e of Some err \<Rightarrow> ret (Some err) | None \<Rightarrow> until_err f xs) }"

text \<open>\<open>for _, x := range xs { f(x) }\<close>\<close>

fun for_each :: "('x \<Rightarrow> ('s, unit) state) \<Rightarrow> 'x list \<Rightarrow> ('s, unit) state" where
  "for_each f [] = ret ()"
| "for_each f (x # xs) = do { f x; for_each f xs }"

text \<open>
  \<open>if err := m; err != nil { return err }; k\<close> for a method that returns an error only.
\<close>

definition or_err :: "('s, gerror option) state \<Rightarrow> ('s, gerror option) state \<Rightarrow> ('s, gerror option) state" where
  "or_err m k = do { e \<leftarrow> m; (case e of Some err \<Rightarrow> ret (Some err) | None \<Rightarrow> k) }"

lemma run_or_err:
  "run_state (or_err m k) s =
     (case val_of m s of
        Some err \<Rightarrow> (Some err, exec_of m s)
      | None \<Rightarrow> run_state k (exec_of m s))"
  by (simp add: or_err_def case_prod_beta split: option.split)


subsection \<open>Effect relations\<close>

text \<open>
  A reflexive and transitive relation between the states before and after a method:
  ``these fields are kept'', ``the view never goes back''. The rules below carry such a
  relation through the control structure of a \<open>do\<close> block; a component interprets the
  locale with its own relation and proves its methods by these rules.
\<close>

locale effect_rel =
  fixes R :: "'s \<Rightarrow> 's \<Rightarrow> bool"
  assumes R_refl: "R s s"
    and R_trans: "R s t \<Longrightarrow> R t u \<Longrightarrow> R s u"
begin

lemma eff_ret [intro!]: "state_io_rel R (ret x)"
  by (simp add: state_io_rel_def R_refl)

lemma eff_gets [intro!]: "state_io_rel R (gets f)"
  by (simp add: state_io_rel_def R_refl)

lemma eff_modify: "(\<And>s. R s (f s)) \<Longrightarrow> state_io_rel R (modify f)"
  by (simp add: state_io_rel_def)

lemma eff_bind [intro]:
  assumes "state_io_rel R m" and "\<And>x. state_io_rel R (f x)"
  shows "state_io_rel R (State_Monad.bind m f)"
  using assms by (auto simp: state_io_rel_def case_prod_beta intro: R_trans)

lemma eff_if [intro!]:
  "(b \<Longrightarrow> state_io_rel R m) \<Longrightarrow> (\<not> b \<Longrightarrow> state_io_rel R n) \<Longrightarrow> state_io_rel R (if b then m else n)"
  by simp

lemma eff_when [intro!]: "(b \<Longrightarrow> state_io_rel R m) \<Longrightarrow> state_io_rel R (whenM b m)"
  by (simp add: whenM_def eff_ret)

lemma eff_call [intro!]: "state_io_rel R m \<Longrightarrow> state_io_rel R (call m)"
  by (simp add: state_io_rel_def)

lemma eff_case_option [intro!]:
  "state_io_rel R m \<Longrightarrow> (\<And>x. state_io_rel R (f x)) \<Longrightarrow>
   state_io_rel R (case z of None \<Rightarrow> m | Some x \<Rightarrow> f x)"
  by (cases z) simp_all

lemma eff_case_prod [intro!]:
  "(\<And>x y. state_io_rel R (f x y)) \<Longrightarrow> state_io_rel R (case p of (x, y) \<Rightarrow> f x y)"
  by (cases p) simp

lemma eff_or_err [intro!]:
  "state_io_rel R m \<Longrightarrow> state_io_rel R k \<Longrightarrow> state_io_rel R (or_err m k)"
  unfolding or_err_def by (rule eff_bind) auto

lemma eff_until_err: "(\<And>x. state_io_rel R (f x)) \<Longrightarrow> state_io_rel R (until_err f xs)"
  by (induction xs) auto

lemma eff_for_each: "(\<And>x. state_io_rel R (f x)) \<Longrightarrow> state_io_rel R (for_each f xs)"
  by (induction xs) auto

lemma eff_run: "state_io_rel R m \<Longrightarrow> R s (exec_of m s)"
  by (simp add: state_io_rel_def)

end

text \<open>The commonest effect relation: the value of an observer is kept.\<close>

definition keeps :: "('s \<Rightarrow> 'v) \<Rightarrow> 's \<Rightarrow> 's \<Rightarrow> bool" where
  "keeps f s t \<longleftrightarrow> f t = f s"

lemma keepsI [intro]: "f t = f s \<Longrightarrow> keeps f s t"
  by (simp add: keeps_def)

interpretation keeps: effect_rel "keeps f" for f :: "'s \<Rightarrow> 'v"
  by unfold_locales (simp_all add: keeps_def)

lemma keeps_zoom:
  "(\<And>t s. f (wr t s) = f s) \<Longrightarrow> state_io_rel (keeps f) (zoom rd wr m)"
  by (simp add: state_io_rel_def keeps_def)

lemma keeps_run: "state_io_rel (keeps f) m \<Longrightarrow> f (exec_of m s) = f s"
  by (simp add: state_io_rel_def keeps_def)

end
