(* ===== verification/GoStrings.thy ===== *)
theory GoStrings
  imports Prelude "HOL-Library.Char_ord" "HOL-Library.List_Lexorder"
begin

section \<open>The standard library's string functions\<close>

text \<open>
  What the source uses of \<open>strings\<close>, \<open>strconv\<close> and \<open>fmt\<close>. A Go string is a
  list of bytes, here \<open>string\<close>; case mapping and trimming are those of ASCII, which is
  all that the identifiers, addresses and GTID sets of the program hold.
  \<open>strings.Compare\<close> is the lexicographic order of HOL-Library.List_Lexorder over the
  byte values (HOL-Library.Char_ord).
\<close>

subsection \<open>strings\<close>

text \<open>\<open>strings.Split(s, sep)\<close> for a separator of one byte; never empty.\<close>

fun split_on :: "char \<Rightarrow> string \<Rightarrow> string list" where
  "split_on c [] = [[]]"
| "split_on c (x # xs) =
     (if x = c then [] # split_on c xs
      else (case split_on c xs of [] \<Rightarrow> [[x]] | y # ys \<Rightarrow> (x # y) # ys))"

text \<open>\<open>strings.Join(xs, sep)\<close>\<close>

fun join :: "string \<Rightarrow> string list \<Rightarrow> string" where
  "join sep [] = []"
| "join sep [x] = x"
| "join sep (x # y # ys) = x @ sep @ join sep (y # ys)"

fun has_prefix :: "string \<Rightarrow> string \<Rightarrow> bool" where
  "has_prefix s [] = True"
| "has_prefix [] (p # ps) = False"
| "has_prefix (x # xs) (p # ps) = (x = p \<and> has_prefix xs ps)"

definition has_suffix :: "string \<Rightarrow> string \<Rightarrow> bool" where
  "has_suffix s p = has_prefix (rev s) (rev p)"

fun contains :: "string \<Rightarrow> string \<Rightarrow> bool" where
  "contains [] sub = (sub = [])"
| "contains (x # xs) sub = (has_prefix (x # xs) sub \<or> contains xs sub)"

definition is_space :: "char \<Rightarrow> bool" where
  "is_space c = (c = CHR '' '' \<or> (9 \<le> (of_char c :: nat) \<and> (of_char c :: nat) \<le> 13))"

definition trim_space :: "string \<Rightarrow> string" where
  "trim_space s = rev (dropWhile is_space (rev (dropWhile is_space s)))"

text \<open>\<open>strings.TrimSuffix\<close> and \<open>strings.Trim\<close> with a cutset of one byte.\<close>

definition trim_suffix :: "string \<Rightarrow> string \<Rightarrow> string" where
  "trim_suffix s p = (if has_suffix s p then take (length s - length p) s else s)"

definition trim_char :: "char \<Rightarrow> string \<Rightarrow> string" where
  "trim_char c s = rev (dropWhile ((=) c) (rev (dropWhile ((=) c) s)))"

definition upper_char :: "char \<Rightarrow> char" where
  "upper_char c = (if 97 \<le> (of_char c :: nat) \<and> (of_char c :: nat) \<le> 122
                   then char_of ((of_char c :: nat) - 32) else c)"

definition lower_char :: "char \<Rightarrow> char" where
  "lower_char c = (if 65 \<le> (of_char c :: nat) \<and> (of_char c :: nat) \<le> 90
                   then char_of ((of_char c :: nat) + 32) else c)"

definition to_upper :: "string \<Rightarrow> string" where
  "to_upper s = map upper_char s"

definition to_lower :: "string \<Rightarrow> string" where
  "to_lower s = map lower_char s"

text \<open>\<open>strings.ReplaceAll(s, "'", "''")\<close> and its kin: one byte replaced by a text.\<close>

definition replace_char :: "char \<Rightarrow> string \<Rightarrow> string \<Rightarrow> string" where
  "replace_char c r s = concat (map (\<lambda>x. if x = c then r else [x]) s)"

text \<open>\<open>filepath.Clean\<close> and \<open>filepath.Join\<close> on Unix; the stack holds the elements in reverse.\<close>

definition clean_step :: "bool \<Rightarrow> string list \<Rightarrow> string \<Rightarrow> string list" where
  "clean_step rooted st e =
     (if e = [] \<or> e = ''.'' then st
      else if e = ''..'' then
        (case st of [] \<Rightarrow> (if rooted then [] else [''..''])
         | x # xs \<Rightarrow> (if x = ''..'' then ''..'' # st else xs))
      else e # st)"

definition path_clean :: "string \<Rightarrow> string" where
  "path_clean s =
     (let rooted = (take 1 s = ''/'');
          body = join ''/'' (rev (foldl (clean_step rooted) [] (split_on CHR ''/'' s)));
          p = (if rooted then ''/'' @ body else body)
      in if p = [] then ''.'' else p)"

definition path_join :: "string list \<Rightarrow> string" where
  "path_join es = (let xs = filter (\<lambda>e. e \<noteq> []) es in if xs = [] then [] else path_clean (join ''/'' xs))"

lemma split_on_nonempty [simp]: "split_on c s \<noteq> []"
  by (cases s) (auto split: list.splits)

lemma split_on_single: "c \<notin> set s \<Longrightarrow> split_on c s = [s]"
  by (induction s) auto

lemma split_on_append:
  "c \<notin> set a \<Longrightarrow> split_on c (a @ c # b) = a # split_on c b"
  by (induction a) auto

text \<open>Splitting what was joined gives the parts back.\<close>

lemma split_join:
  "xs \<noteq> [] \<Longrightarrow> \<forall>x \<in> set xs. c \<notin> set x \<Longrightarrow> split_on c (join [c] xs) = xs"
proof (induction xs rule: induct_list012)
  case (2 x)
  then show ?case by (simp add: split_on_single)
next
  case (3 x y zs)
  then have "split_on c (x @ c # join [c] (y # zs)) = x # split_on c (join [c] (y # zs))"
    by (intro split_on_append) simp
  with 3 show ?case by simp
qed simp

lemma split_on_no_sep: "x \<in> set (split_on c s) \<Longrightarrow> c \<notin> set x"
proof (induction s arbitrary: x)
  case (Cons a s)
  obtain y ys where s: "split_on c s = y # ys"
    by (cases "split_on c s") auto
  with Cons show ?case by (auto split: if_splits)
qed simp

lemma join_split: "join [c] (split_on c s) = s"
proof (induction s)
  case (Cons a s)
  obtain y ys where s: "split_on c s = y # ys"
    by (cases "split_on c s") auto
  with Cons show ?case by (cases ys) auto
qed simp


subsection \<open>strconv and fmt\<close>

definition digit :: "nat \<Rightarrow> char" where
  "digit d = char_of (48 + d)"

definition is_digit :: "char \<Rightarrow> bool" where
  "is_digit c = (48 \<le> (of_char c :: nat) \<and> (of_char c :: nat) \<le> 57)"

definition digit_val :: "char \<Rightarrow> nat" where
  "digit_val c = of_char c - 48"

text \<open>The value of an \<open>int\<close> (64 bits) after an addition.\<close>

definition wrap64 :: "int \<Rightarrow> int" where
  "wrap64 i = (i + 2 ^ 63) mod 2 ^ 64 - 2 ^ 63"

text \<open>The decimal digits of a number, most significant first.\<close>

fun dec :: "nat \<Rightarrow> string" where
  "dec n = (if n < 10 then [digit n] else dec (n div 10) @ [digit (n mod 10)])"

declare dec.simps [simp del]

definition itoa :: "int \<Rightarrow> string" where
  "itoa i = (if i < 0 then CHR ''-'' # dec (nat (- i)) else dec (nat i))"

definition digits_val :: "string \<Rightarrow> nat" where
  "digits_val s = foldl (\<lambda>n c. 10 * n + digit_val c) 0 s"

text \<open>
  \<open>strconv.ParseUint(s, 10, 64)\<close>: digits only, no sign. A text that is not a number
  gives 0, a number that does not fit gives the largest value; both come with an error.
\<close>

definition syntax_err :: gerror where
  "syntax_err = GoErr ''invalid syntax''"

definition range_err :: gerror where
  "range_err = GoErr ''value out of range''"

definition parse_uint64 :: "string \<Rightarrow> 64 word res" where
  "parse_uint64 s =
     (if s = [] \<or> \<not> list_all is_digit s then (0, Some syntax_err)
      else if digits_val s < 2 ^ 64 then (of_nat (digits_val s), None)
      else (- 1, Some range_err))"

text \<open>
  \<open>strconv.Atoi\<close> on a 64-bit platform: an optional sign, then digits; out of range it
  gives the nearest \<open>int\<close> and an error.
\<close>

definition atoi_digits :: "bool \<Rightarrow> string \<Rightarrow> int res" where
  "atoi_digits neg s =
     (if s = [] \<or> \<not> list_all is_digit s then (0, Some syntax_err)
      else (let v = int (digits_val s) in
        if neg then (if v \<le> 2 ^ 63 then (- v, None) else (- (2 ^ 63), Some range_err))
        else (if v < 2 ^ 63 then (v, None) else (2 ^ 63 - 1, Some range_err))))"

definition atoi :: "string \<Rightarrow> int res" where
  "atoi s = (case s of
       [] \<Rightarrow> (0, Some syntax_err)
     | c # cs \<Rightarrow> if c = CHR ''-'' then atoi_digits True cs
                else if c = CHR ''+'' then atoi_digits False cs
                else atoi_digits False s)"

text \<open>\<open>fmt.Sprintf("%016d", v)\<close> of an unsigned value.\<close>

definition pad16 :: "nat \<Rightarrow> string" where
  "pad16 n = replicate (16 - length (dec n)) (CHR ''0'') @ dec n"

lemma of_char_digit: "d < 10 \<Longrightarrow> (of_char (digit d) :: nat) = 48 + d"
  by (simp add: digit_def of_char_of)

lemma is_digit_digit [simp]: "d < 10 \<Longrightarrow> is_digit (digit d)"
  by (simp add: is_digit_def of_char_digit)

lemma digit_val_digit [simp]: "d < 10 \<Longrightarrow> digit_val (digit d) = d"
  by (simp add: digit_val_def of_char_digit)

lemma dec_not_empty [simp]: "dec n \<noteq> []"
  by (subst dec.simps) simp

lemma digits_val_snoc: "digits_val (s @ [c]) = 10 * digits_val s + digit_val c"
  by (simp add: digits_val_def)

lemma dec_digits [simp]: "list_all is_digit (dec n)"
proof (induction n rule: dec.induct)
  case (1 n)
  then show ?case by (cases "n < 10") (simp_all add: dec.simps [of n])
qed

text \<open>Printing a number and reading it back.\<close>

lemma digits_val_dec [simp]: "digits_val (dec n) = n"
proof (induction n rule: dec.induct)
  case (1 n)
  then show ?case
    by (cases "n < 10")
       (simp_all add: dec.simps [of n] digits_val_snoc, simp add: digits_val_def)
qed

lemma dec_inj [simp]: "dec m = dec n \<longleftrightarrow> m = n"
  using digits_val_dec by metis

lemma is_digit_no: "is_digit c \<Longrightarrow> c \<noteq> CHR ''-'' \<and> c \<noteq> CHR ''+'' \<and> c \<noteq> CHR '':'' \<and> c \<noteq> CHR '',''"
  by (auto simp: is_digit_def)

lemma dec_no_sep: "\<not> is_digit c \<Longrightarrow> c \<notin> set (dec n)"
  using dec_digits [of n] by (auto simp: list_all_iff)

lemma atoi_dec:
  assumes "n < 2 ^ 63"
  shows "atoi (dec n) = (int n, None)"
proof (cases "dec n")
  case Nil
  then show ?thesis by simp
next
  case (Cons c cs)
  with dec_digits [of n] have "is_digit c" by simp
  then have "atoi (dec n) = atoi_digits False (dec n)"
    using is_digit_no [of c] by (simp add: atoi_def Cons)
  also have "\<dots> = (int n, None)"
    using assms by (simp add: atoi_digits_def)
  finally show ?thesis .
qed

lemma atoi_itoa: "0 \<le> p \<Longrightarrow> p < 2 ^ 63 \<Longrightarrow> atoi (itoa p) = (p, None)"
  using atoi_dec [of "nat p"] by (simp add: itoa_def)

lemma parse_uint64_dec:
  "n < 2 ^ 64 \<Longrightarrow> parse_uint64 (dec n) = (of_nat n, None)"
  by (simp add: parse_uint64_def)


subsection \<open>Numbers of equal width compare as texts\<close>

lemma digits_val_Cons: "digits_val (c # cs) = digit_val c * 10 ^ length cs + digits_val cs"
proof -
  have "foldl (\<lambda>n c. 10 * n + digit_val c) a cs =
        a * 10 ^ length cs + foldl (\<lambda>n c. 10 * n + digit_val c) 0 cs" for a
  proof (induction cs rule: rev_induct)
    case (snoc x xs)
    then show ?case by (simp add: algebra_simps)
  qed simp
  from this [of "digit_val c"] show ?thesis
    by (simp add: digits_val_def)
qed

lemma digits_val_bound: "list_all is_digit s \<Longrightarrow> digits_val s < 10 ^ length s"
proof (induction s)
  case (Cons c s)
  then have "digit_val c \<le> 9" by (auto simp: digit_val_def is_digit_def)
  then have "digit_val c * 10 ^ length s \<le> 9 * 10 ^ length s"
    by (rule mult_le_mono1)
  moreover have "digits_val s < 10 ^ length s" using Cons by simp
  ultimately show ?case by (simp only: digits_val_Cons list.size add_Suc_right add_0_right power_Suc)
qed (simp add: digits_val_def)

lemma is_digit_less: "is_digit a \<Longrightarrow> is_digit b \<Longrightarrow> a < b \<longleftrightarrow> digit_val a < digit_val b"
  by (auto simp: is_digit_def digit_val_def less_char_def)

lemma is_digit_eq: "is_digit a \<Longrightarrow> is_digit b \<Longrightarrow> digit_val a = digit_val b \<longleftrightarrow> a = b"
  using is_digit_less [of a b] is_digit_less [of b a] by auto

lemma digits_less_iff:
  assumes "length a = length b" "list_all is_digit a" "list_all is_digit b"
  shows "a < b \<longleftrightarrow> digits_val a < digits_val b"
  using assms
proof (induction a b rule: list_induct2)
  case (Cons x xs y ys)
  have bounds: "digits_val xs < 10 ^ length xs" "digits_val ys < 10 ^ length xs"
    using Cons.prems Cons.hyps digits_val_bound [of xs] digits_val_bound [of ys] by simp_all
  consider "digit_val x < digit_val y" | "x = y" | "digit_val y < digit_val x"
    using is_digit_eq [of x y] Cons.prems by fastforce
  then show ?case
  proof cases
    case 1
    then have "Suc (digit_val x) * 10 ^ length xs \<le> digit_val y * 10 ^ length xs"
      by (intro mult_le_mono1) simp
    with 1 bounds Cons show ?thesis
      using is_digit_less [of x y] by (simp add: digits_val_Cons)
  next
    case 2
    with Cons show ?thesis by (simp add: digits_val_Cons)
  next
    case 3
    then have "Suc (digit_val y) * 10 ^ length xs \<le> digit_val x * 10 ^ length xs"
      by (intro mult_le_mono1) simp
    moreover have "\<not> x < y" "x \<noteq> y"
      using 3 is_digit_less [of x y] is_digit_eq [of x y] Cons.prems by auto
    ultimately show ?thesis
      using bounds Cons by (simp add: digits_val_Cons)
  qed
qed (simp add: digits_val_def)

lemma dec_length: "n < 10 ^ k \<Longrightarrow> 0 < k \<Longrightarrow> length (dec n) \<le> k"
proof (induction n arbitrary: k rule: dec.induct)
  case (1 n)
  show ?case
  proof (cases "n < 10")
    case True
    with 1 show ?thesis by (simp add: dec.simps [of n])
  next
    case False
    with 1 obtain j where k: "k = Suc j" "0 < j" by (cases k; cases "k - 1") auto
    with 1 False have "length (dec (n div 10)) \<le> j"
      by (intro "1.IH") auto
    with False k show ?thesis by (simp add: dec.simps [of n])
  qed
qed

lemma digits_val_zeros: "digits_val (replicate k (CHR ''0'') @ s) = digits_val s"
  by (induction k) (simp_all add: digits_val_Cons digit_val_def)

lemma pad16_digits: "list_all is_digit (pad16 n)"
  using dec_digits [of n] by (auto simp: pad16_def list_all_iff is_digit_def)

lemma pad16_length: "n < 10 ^ 16 \<Longrightarrow> length (pad16 n) = 16"
  using dec_length [of n 16] by (simp add: pad16_def)

lemma pad16_less_iff: "m < 10 ^ 16 \<Longrightarrow> n < 10 ^ 16 \<Longrightarrow> pad16 m < pad16 n \<longleftrightarrow> m < n"
  using digits_less_iff [of "pad16 m" "pad16 n"]
  by (simp add: pad16_length pad16_digits) (simp add: pad16_def digits_val_zeros)

lemma pad16_eq_iff: "pad16 m = pad16 n \<longleftrightarrow> m = n"
  by (metis digits_val_dec digits_val_zeros pad16_def)

lemma to_upper_digits: "list_all is_digit s \<Longrightarrow> to_upper s = s"
  by (induction s) (auto simp: to_upper_def upper_char_def is_digit_def)

lemma to_upper_append: "to_upper (a @ b) = to_upper a @ to_upper b"
  by (simp add: to_upper_def)

lemma append_less_iff: "(c @ a :: string) < c @ b \<longleftrightarrow> a < b"
  by (induction c) simp_all

end
