(* ===== verification/Model.thy ===== *)
theory Model
  imports GoStrings
begin

section \<open>The data of internal/base/model\<close>

text \<open>
  The request and response types of the RPCs, the return codes, and the constants of the
  MySQL side. Return codes, member states and replication modes are strings in the source
  (they travel over RPC and are compared as strings), so they are strings here.
\<close>

subsection \<open>Return codes (error.go)\<close>

definition OK :: string where "OK = ''OK''"
definition ErrorRPCCall :: string where "ErrorRPCCall = ''ErrorRpcCall''"
definition ErrorMySQLDown :: string where "ErrorMySQLDown = ''ErrorMySQLDown''"
definition ErrorInvalidGTID :: string where "ErrorInvalidGTID = ''ErrorInvalidGTID''"
definition ErrorInvalidViewID :: string where "ErrorInvalidViewID = ''ErrorInvalidViewID''"
definition ErrorVoteNotGranted :: string where "ErrorVoteNotGranted = ''ErrorVoteNotGranted''"
definition ErrorInvalidRequest :: string where "ErrorInvalidRequest = ''ErrorInvalidRequest''"
definition ErrorChangeMaster :: string where "ErrorChangeMaster = ''ErrorChangeMaster''"
definition ErrorMGRAlreadyRunningOK :: string where
  "ErrorMGRAlreadyRunningOK = ''ErrorMGRAlreadyRunningOK''"
definition RPCError_MySQLUnpromotable :: string where
  "RPCError_MySQLUnpromotable = ''RPCError_MySQLUnpromotable''"

lemmas code_defs [go_defs] =
  OK_def ErrorRPCCall_def ErrorMySQLDown_def ErrorInvalidGTID_def ErrorInvalidViewID_def
  ErrorVoteNotGranted_def ErrorInvalidRequest_def ErrorChangeMaster_def
  ErrorMGRAlreadyRunningOK_def RPCError_MySQLUnpromotable_def

text \<open>The codes a vote or heartbeat request can be answered with are different.\<close>

lemma codes_distinct [simp]:
  "ErrorInvalidRequest \<noteq> OK" "ErrorInvalidViewID \<noteq> OK" "ErrorMySQLDown \<noteq> OK"
  "ErrorInvalidGTID \<noteq> OK" "ErrorVoteNotGranted \<noteq> OK" "ErrorChangeMaster \<noteq> OK"
  "ErrorMGRAlreadyRunningOK \<noteq> OK" "ErrorRPCCall \<noteq> OK" "RPCError_MySQLUnpromotable \<noteq> OK"
  "OK \<noteq> ErrorInvalidRequest" "OK \<noteq> ErrorInvalidViewID" "OK \<noteq> ErrorMySQLDown"
  "OK \<noteq> ErrorInvalidGTID" "OK \<noteq> ErrorVoteNotGranted" "OK \<noteq> ErrorChangeMaster"
  "OK \<noteq> ErrorMGRAlreadyRunningOK" "OK \<noteq> ErrorRPCCall" "OK \<noteq> RPCError_MySQLUnpromotable"
  "ErrorInvalidViewID \<noteq> ErrorInvalidRequest" "ErrorInvalidRequest \<noteq> ErrorInvalidViewID"
  "ErrorInvalidGTID \<noteq> ErrorInvalidViewID" "ErrorInvalidViewID \<noteq> ErrorInvalidGTID"
  "ErrorMySQLDown \<noteq> ErrorInvalidViewID" "ErrorInvalidViewID \<noteq> ErrorMySQLDown"
  "ErrorMySQLDown \<noteq> ErrorInvalidGTID" "ErrorInvalidGTID \<noteq> ErrorMySQLDown"
  "ErrorMGRAlreadyRunningOK \<noteq> ErrorInvalidViewID" "ErrorInvalidViewID \<noteq> ErrorMGRAlreadyRunningOK"
  "ErrorMGRAlreadyRunningOK \<noteq> ErrorInvalidGTID" "ErrorInvalidGTID \<noteq> ErrorMGRAlreadyRunningOK"
  "ErrorMGRAlreadyRunningOK \<noteq> ErrorMySQLDown" "ErrorMySQLDown \<noteq> ErrorMGRAlreadyRunningOK"
  "ErrorVoteNotGranted \<noteq> ErrorInvalidRequest" "ErrorInvalidRequest \<noteq> ErrorVoteNotGranted"
  by (simp_all add: go_defs)


subsection \<open>MySQL (mysql.go)\<close>

type_synonym MysqlState = string
type_synonym MysqlReplMode = string

definition MysqlAlive :: MysqlState where "MysqlAlive = ''ALIVE''"
definition MysqlDead :: MysqlState where "MysqlDead = ''DEAD''"
definition ReplModeSemiSync :: MysqlReplMode where "ReplModeSemiSync = ''semi-sync''"
definition ReplModeMGR :: MysqlReplMode where "ReplModeMGR = ''group-replication''"
definition MGRRolePrimary :: string where "MGRRolePrimary = ''PRIMARY''"
definition MGRRoleSecondary :: string where "MGRRoleSecondary = ''SECONDARY''"
definition MGRStateOnline :: string where "MGRStateOnline = ''ONLINE''"
definition MGRStateRecovering :: string where "MGRStateRecovering = ''RECOVERING''"
definition MGRStateOffline :: string where "MGRStateOffline = ''OFFLINE''"

lemmas mysql_consts [go_defs] =
  MysqlAlive_def MysqlDead_def ReplModeSemiSync_def ReplModeMGR_def MGRRolePrimary_def
  MGRRoleSecondary_def MGRStateOnline_def MGRStateRecovering_def MGRStateOffline_def

lemma mysql_consts_distinct [simp]:
  "MysqlAlive \<noteq> MysqlDead" "MysqlDead \<noteq> MysqlAlive"
  "ReplModeSemiSync \<noteq> ReplModeMGR" "ReplModeMGR \<noteq> ReplModeSemiSync"
  "MGRRolePrimary \<noteq> MGRRoleSecondary" "MGRRoleSecondary \<noteq> MGRRolePrimary"
  by (simp_all add: go_defs)

record GTID =
  Master_Log_File :: string
  Read_Master_Log_Pos :: "64 word"
  Relay_Master_Log_File :: string
  Slave_IO_Running :: bool
  Slave_IO_Running_Str :: string
  Slave_SQL_Running :: bool
  Slave_SQL_Running_Str :: string
  Retrieved_GTID_Set :: string
  Executed_GTID_Set :: string
  Txns_Behind_Master :: string
  Last_Error_Message :: string
  Seconds_Behind_Master :: string
  Slave_SQL_Running_State :: string
  Last_Error :: string
  Last_IO_Error :: string
  Last_SQL_Error :: string

text \<open>Go's zero value \<open>model.GTID{}\<close>.\<close>

definition zero_GTID :: GTID where
  "zero_GTID = \<lparr>Master_Log_File = [], Read_Master_Log_Pos = 0, Relay_Master_Log_File = [],
     Slave_IO_Running = False, Slave_IO_Running_Str = [], Slave_SQL_Running = False,
     Slave_SQL_Running_Str = [], Retrieved_GTID_Set = [], Executed_GTID_Set = [],
     Txns_Behind_Master = [], Last_Error_Message = [], Seconds_Behind_Master = [],
     Slave_SQL_Running_State = [], Last_Error = [], Last_IO_Error = [], Last_SQL_Error = []\<rparr>"

record MGRStatus =
  mgr_Role :: string
  mgr_State :: string
  mgr_PrimaryUUID :: string

text \<open>Replication coordinates of a master (raft.go, \<open>Repl\<close>).\<close>

record Repl =
  Master_Host :: string
  Master_Port :: int
  Repl_User :: string
  Repl_Password :: string
  Repl_GTID_Purged :: string


subsection \<open>Raft requests and responses (raft.go)\<close>

text \<open>The fields of the embedded \<open>Raft\<close> struct of a request or response.\<close>

record RaftHeader =
  EpochID :: "64 word"
  ViewID :: "64 word"
  Leader :: string
  From :: string
  To :: string
  StateName :: string
  CmtStateName :: string
  UUID :: string

definition zero_header :: RaftHeader where
  "zero_header = \<lparr>EpochID = 0, ViewID = 0, Leader = [], From = [], To = [], StateName = [],
     CmtStateName = [], UUID = []\<rparr>"

record RaftRPCRequest =
  req_Raft :: RaftHeader
  req_Repl :: Repl
  req_GTID :: GTID
  req_Peers :: "string list"
  req_IdlePeers :: "string list"

record RaftRPCResponse =
  rsp_Raft :: RaftHeader
  rsp_GTID :: GTID
  rsp_Relay_Master_Log_File :: string
  RetCode :: string

definition NewRaftRPCResponse :: "string \<Rightarrow> RaftRPCResponse" where
  "NewRaftRPCResponse code =
     \<lparr>rsp_Raft = zero_header, rsp_GTID = zero_GTID, rsp_Relay_Master_Log_File = [], RetCode = code\<rparr>"

definition zero_Repl :: Repl where
  "zero_Repl = \<lparr>Master_Host = [], Master_Port = 0, Repl_User = [], Repl_Password = [],
     Repl_GTID_Purged = []\<rparr>"

definition NewRaftRPCRequest :: RaftRPCRequest where
  "NewRaftRPCRequest = \<lparr>req_Raft = zero_header, req_Repl = zero_Repl, req_GTID = zero_GTID,
     req_Peers = [], req_IdlePeers = []\<rparr>"

abbreviation GetViewID :: "RaftRPCRequest \<Rightarrow> 64 word" where
  "GetViewID req \<equiv> ViewID (req_Raft req)"

abbreviation GetEpochID :: "RaftRPCRequest \<Rightarrow> 64 word" where
  "GetEpochID req \<equiv> EpochID (req_Raft req)"

abbreviation GetFrom :: "RaftRPCRequest \<Rightarrow> string" where
  "GetFrom req \<equiv> From (req_Raft req)"

abbreviation GetUUIDof :: "RaftRPCRequest \<Rightarrow> string" where
  "GetUUIDof req \<equiv> UUID (req_Raft req)"

text \<open>Counters of a raft instance (\<open>RaftStats\<close>, without the uptime), all \<open>uint64\<close> and updated with wrap-around.\<close>

record RaftStats =
  Pings :: "64 word"
  HaEnables :: "64 word"
  LeaderPromotes :: "64 word"
  LeaderDegrades :: "64 word"
  LeaderGetHeartbeatRequests :: "64 word"
  LeaderGetVoteRequests :: "64 word"
  LeaderPurgeBinlogs :: "64 word"
  LeaderPurgeBinlogFails :: "64 word"
  LessHearbeatAcks :: "64 word"
  LessCmtHearbeatAcks :: "64 word"
  CandidatePromotes :: "64 word"
  CandidateDegrades :: "64 word"
  StateUptimes :: "64 word"
  RaftMysqlStatus :: string

definition zero_RaftStats :: RaftStats where
  "zero_RaftStats = \<lparr>Pings = 0, HaEnables = 0, LeaderPromotes = 0, LeaderDegrades = 0, LeaderGetHeartbeatRequests = 0,
     LeaderGetVoteRequests = 0, LeaderPurgeBinlogs = 0, LeaderPurgeBinlogFails = 0,
     LessHearbeatAcks = 0, LessCmtHearbeatAcks = 0, CandidatePromotes = 0,
     CandidateDegrades = 0, StateUptimes = 0, RaftMysqlStatus = []\<rparr>"

end
