(* ===== verification/SqlConn.thy ===== *)
theory SqlConn
  imports Model
begin

section \<open>Statements sent to the MySQL server (mysql_connect.go)\<close>

text \<open>
  The server, the driver below \<open>database/sql\<close> and the clock are not part of the
  source. They are the argument \<open>E\<close> of the definitions: a \<open>dbenv\<close> says how each
  call is answered and how it changes the outside world, whose type \<open>'w\<close> is left
  open. Everything proved for all \<open>E\<close> holds for every server, failing ones included.
  \<open>timer_first d\<close> says whether a timer of \<open>d\<close> milliseconds fires before the answer
  to the statement that was just sent: Go's \<open>select\<close> over the two channels.
  A statement whose timer fires first has been sent all the same.
\<close>

type_synonym row = "(string \<times> string) list"

text \<open>\<open>row["c"]\<close> of a \<open>map[string]string\<close>: the empty string for a missing key.\<close>

definition col :: "row \<Rightarrow> string \<Rightarrow> string" where
  "col r c = (case map_of r c of None \<Rightarrow> [] | Some v \<Rightarrow> v)"

record 'w dbenv =
  sql_open :: "string \<Rightarrow> 'w \<Rightarrow> gerror option \<times> 'w"
  sql_query :: "string \<Rightarrow> 'w \<Rightarrow> row list res \<times> 'w"
  sql_exec :: "string \<Rightarrow> 'w \<Rightarrow> gerror option \<times> 'w"
  sql_conn :: "'w \<Rightarrow> gerror option \<times> 'w"
  conn_exec :: "string \<Rightarrow> 'w \<Rightarrow> gerror option \<times> 'w"
  conn_close :: "'w \<Rightarrow> 'w"
  timer_first :: "int \<Rightarrow> 'w \<Rightarrow> bool \<times> 'w"
  db_ping :: "'w \<Rightarrow> gerror option \<times> 'w"
  db_close :: "'w \<Rightarrow> 'w"
  sleep_ms :: "int \<Rightarrow> 'w \<Rightarrow> 'w"

text \<open>\<open>'%s'\<close> and \<open>`%s`\<close> in the format strings.\<close>

definition quoted :: "string \<Rightarrow> string" where
  "quoted s = CHR 0x27 # s @ [CHR 0x27]"

definition backquoted :: "string \<Rightarrow> string" where
  "backquoted s = CHR 0x60 # s @ [CHR 0x60]"

definition Query :: "'w dbenv \<Rightarrow> string \<Rightarrow> ('w, row list res) state" where
  "Query E q = do {
     r \<leftarrow> State (sql_query E q);
     (case snd r of Some err \<Rightarrow> ret ([], Some err) | None \<Rightarrow> ret (fst r, None)) }"

definition timeout_err :: "string \<Rightarrow> int \<Rightarrow> string \<Rightarrow> gerror" where
  "timeout_err what maxTime q =
     GoErr (what @ ''.timeout['' @ itoa maxTime @ '', '' @ q @ '']'')"

definition QueryWithTimeout :: "'w dbenv \<Rightarrow> int \<Rightarrow> string \<Rightarrow> ('w, row list res) state" where
  "QueryWithTimeout E maxTime q = do {
     r \<leftarrow> Query E q;
     late \<leftarrow> State (timer_first E maxTime);
     (if late then ret ([], Some (timeout_err ''db.query'' maxTime q)) else ret r) }"

definition Execute :: "'w dbenv \<Rightarrow> string \<Rightarrow> ('w, gerror option) state" where
  "Execute E q = State (sql_exec E q)"

definition ExecuteWithTimeout :: "'w dbenv \<Rightarrow> int \<Rightarrow> string \<Rightarrow> ('w, gerror option) state" where
  "ExecuteWithTimeout E maxTime q = do {
     e \<leftarrow> State (sql_exec E q);
     late \<leftarrow> State (timer_first E maxTime);
     (if late then ret (Some (timeout_err ''db.Exec'' maxTime q)) else ret e) }"

definition executeConnWithTimeout :: "'w dbenv \<Rightarrow> int \<Rightarrow> string \<Rightarrow> ('w, gerror option) state" where
  "executeConnWithTimeout E maxTime q =
     (if maxTime \<le> 0 then State (conn_exec E q)
      else do {
        e \<leftarrow> State (conn_exec E q);
        late \<leftarrow> State (timer_first E maxTime);
        (if late then ret (Some (timeout_err ''db.Exec'' maxTime q)) else ret e) })"

definition ExecuteSuperQueryListWithTimeout ::
    "'w dbenv \<Rightarrow> int \<Rightarrow> string list \<Rightarrow> ('w, gerror option) state" where
  "ExecuteSuperQueryListWithTimeout E maxTime queryList =
     (if queryList = [] then ret None
      else do {
        e \<leftarrow> State (sql_conn E);
        (case e of Some err \<Rightarrow> ret (Some err)
         | None \<Rightarrow> do {
             r \<leftarrow> until_err (executeConnWithTimeout E maxTime) queryList;
             modify (conn_close E);
             ret r }) })"

definition ExecuteSuperQueryList :: "'w dbenv \<Rightarrow> string list \<Rightarrow> ('w, gerror option) state" where
  "ExecuteSuperQueryList E queryList = ExecuteSuperQueryListWithTimeout E 0 queryList"

lemmas sql_conn_defs = Query_def QueryWithTimeout_def Execute_def ExecuteWithTimeout_def
  executeConnWithTimeout_def ExecuteSuperQueryListWithTimeout_def ExecuteSuperQueryList_def

lemma QueryWithTimeout_err_rows:
  "val_of (QueryWithTimeout E t q) w = (rows, Some e) \<Longrightarrow> rows = []"
  by (auto simp: QueryWithTimeout_def Query_def case_prod_beta split: if_splits option.splits)


subsection \<open>A recording server\<close>

text \<open>
  A concrete environment for the witnesses and for the statements about the order of
  statements: it remembers what it was sent and fails the statements it is told to.
\<close>

record tape =
  sent :: "string list"
  failing :: "string list"
  answers :: "(string \<times> row list) list"

definition tape_send :: "string \<Rightarrow> tape \<Rightarrow> gerror option \<times> tape" where
  "tape_send q w = ((if q \<in> set (failing w) then Some (GoErr q) else None), w\<lparr>sent := sent w @ [q]\<rparr>)"

definition tape_env :: "tape dbenv" where
  "tape_env = \<lparr>
     sql_open = (\<lambda>c w. (None, w)),
     sql_query = (\<lambda>q w. (if q \<in> set (failing w) then ([], Some (GoErr q))
        else (case map_of (answers w) q of None \<Rightarrow> [] | Some rs \<Rightarrow> rs, None), w\<lparr>sent := sent w @ [q]\<rparr>)),
     sql_exec = tape_send,
     sql_conn = (\<lambda>w. (None, w)),
     conn_exec = tape_send,
     conn_close = (\<lambda>w. w),
     timer_first = (\<lambda>d w. (False, w)),
     db_ping = (\<lambda>w. (None, w)),
     db_close = (\<lambda>w. w),
     sleep_ms = (\<lambda>n w. w)\<rparr>"

text \<open>
  On the recording server a list of statements on one session is sent up to the first one
  that fails, that one included, and its error is the result.
\<close>

fun sent_prefix :: "string list \<Rightarrow> string list \<Rightarrow> string list" where
  "sent_prefix bad [] = []"
| "sent_prefix bad (q # qs) = q # (if q \<in> set bad then [] else sent_prefix bad qs)"

lemma tape_conn_exec:
  "run_state (executeConnWithTimeout tape_env t q) w = tape_send q w"
  by (simp add: executeConnWithTimeout_def tape_env_def case_prod_beta)

lemma tape_until_err:
  "run_state (until_err (executeConnWithTimeout tape_env t) qs) w =
     (map_option GoErr (List.find (\<lambda>q. q \<in> set (failing w)) qs),
      w\<lparr>sent := sent w @ sent_prefix (failing w) qs\<rparr>)"
  by (induction qs arbitrary: w) (auto simp: tape_conn_exec tape_send_def)

lemma tape_super_query:
  "run_state (ExecuteSuperQueryListWithTimeout tape_env t qs) w =
     (map_option GoErr (List.find (\<lambda>q. q \<in> set (failing w)) qs),
      w\<lparr>sent := sent w @ sent_prefix (failing w) qs\<rparr>)"
proof (cases qs)
  case (Cons q rest)
  have "sql_conn tape_env w = (None, w)" "conn_close tape_env = (\<lambda>w. w)"
    by (simp_all add: tape_env_def)
  with Cons show ?thesis
    by (simp add: ExecuteSuperQueryListWithTimeout_def tape_until_err del: until_err.simps
        sent_prefix.simps find.simps)
qed (simp add: ExecuteSuperQueryListWithTimeout_def)

end
