(* ===== verification/MysqlBase.thy ===== *)
theory MysqlBase
  imports SqlConn
begin

section \<open>The statements of each MySQL version (mysqlbase.go, mysql56/57/80.go)\<close>

text \<open>
  A \<open>MysqlHandler\<close> is its version and the three settings of \<open>MysqlBase\<close>. Every method
  of \<open>MysqlBase\<close> is a program over the outside world; the methods that a version
  overrides are dispatched by the \<open>handler_\<close> definitions, as the interface call does.
  A call inside \<open>MysqlBase\<close> to another of its methods is not dispatched (Go's embedding).
\<close>

datatype mysql_version = Mysql56 | Mysql57 | Mysql80

record handler =
  version :: mysql_version
  replMode :: MysqlReplMode
  queryTimeout :: int
  mgrQueryTimeout :: int

definition getMysqlHandler :: "string \<Rightarrow> mysql_version" where
  "getMysqlHandler name =
     (if name = ''mysql56'' then Mysql56
      else if name = ''mysql57'' then Mysql57
      else if name = ''mysql80'' then Mysql80
      else Mysql57)"

definition SetReplMode :: "MysqlReplMode \<Rightarrow> handler \<Rightarrow> handler" where
  "SetReplMode m h = h\<lparr>replMode := m\<rparr>"

definition SetQueryTimeout :: "int \<Rightarrow> handler \<Rightarrow> handler" where
  "SetQueryTimeout t h = h\<lparr>queryTimeout := t, mgrQueryTimeout := t * 2\<rparr>"

subsection \<open>Health, read-only, GTID arithmetic\<close>

definition MysqlBase_Ping :: "'w dbenv \<Rightarrow> handler \<Rightarrow> ('w, string res) state" where
  "MysqlBase_Ping E h = do {
     (rows, e) \<leftarrow> QueryWithTimeout E (queryTimeout h) ''SHOW SLAVE STATUS'';
     (case e of Some err \<Rightarrow> ret ([], Some err)
      | None \<Rightarrow> ret (case rows of [] \<Rightarrow> [] | r # _ \<Rightarrow> col r ''Relay_Master_Log_File'', None)) }"

definition set_read_only_cmds :: "bool \<Rightarrow> string list" where
  "set_read_only_cmds readonly = (let enabled = (if readonly then 1 else 0) in
     [''SET GLOBAL read_only = '' @ itoa enabled, ''SET GLOBAL super_read_only = '' @ itoa enabled])"

definition MysqlBase_SetReadOnly :: "'w dbenv \<Rightarrow> handler \<Rightarrow> bool \<Rightarrow> ('w, gerror option) state" where
  "MysqlBase_SetReadOnly E h readonly =
     ExecuteSuperQueryListWithTimeout E (queryTimeout h) (set_read_only_cmds readonly)"

definition MysqlBase_GTIDSubtract ::
    "'w dbenv \<Rightarrow> handler \<Rightarrow> string \<Rightarrow> string \<Rightarrow> ('w, row list res) state" where
  "MysqlBase_GTIDSubtract E h gtid1 gtid2 =
     QueryWithTimeout E (queryTimeout h)
       (''SELECT GTID_SUBTRACT('' @ quoted gtid1 @ '', '' @ quoted gtid2 @ '') RES'')"

text \<open>The loop of \<open>GTIDDiff\<close> over the intervals of one uuid.\<close>

fun gtid_diff_loop :: "string list \<Rightarrow> int \<Rightarrow> int res" where
  "gtid_diff_loop [] diff = (diff, None)"
| "gtid_diff_loop (a # rest) diff =
     (let v = split_on CHR ''-'' a; (b, err) = atoi (hd v) in
      case err of Some x \<Rightarrow> (0, Some x)
      | None \<Rightarrow>
        (if length v = 1 then gtid_diff_loop rest (wrap64 (diff + 1))
         else (let (e, err2) = atoi (v ! 1) in
           case err2 of Some x \<Rightarrow> (0, Some x)
           | None \<Rightarrow> gtid_diff_loop rest (wrap64 (diff + e - b + 1)))))"

definition MysqlBase_GTIDDiff ::
    "'w dbenv \<Rightarrow> handler \<Rightarrow> string \<Rightarrow> string \<Rightarrow> ('w, string res) state" where
  "MysqlBase_GTIDDiff E h gtid1 gtid2 = do {
     (rows, e) \<leftarrow> MysqlBase_GTIDSubtract E h gtid1 gtid2;
     ret (case e of Some err \<Rightarrow> ([], Some err)
      | None \<Rightarrow> (case rows of [] \<Rightarrow> ([], None)
         | r # _ \<Rightarrow>
           (if col r ''RES'' = [] then (''0'', None)
            else (case gtid_diff_loop (tl (split_on CHR '':'' (col r ''RES''))) 0 of
                (d, None) \<Rightarrow> (itoa d, None)
              | (_, Some err) \<Rightarrow> ([], Some err))))) }"

definition mgr_received_query :: string where
  "mgr_received_query = ''SELECT RECEIVED_TRANSACTION_SET,LAST_ERROR_MESSAGE FROM performance_schema.replication_connection_status WHERE CHANNEL_NAME='' @ quoted ''group_replication_applier''"

definition MysqlBase_GetMGRGTID :: "'w dbenv \<Rightarrow> handler \<Rightarrow> ('w, GTID res) state" where
  "MysqlBase_GetMGRGTID E h = do {
     (rows, e) \<leftarrow> QueryWithTimeout E (queryTimeout h) ''SHOW MASTER STATUS'';
     (case e of Some err \<Rightarrow> ret (zero_GTID, Some err)
      | None \<Rightarrow> do {
          let gtid = (case rows of [] \<Rightarrow> zero_GTID | r # _ \<Rightarrow>
            zero_GTID\<lparr>Master_Log_File := col r ''File'',
              Read_Master_Log_Pos := fst (parse_uint64 (col r ''Position'')),
              Executed_GTID_Set := col r ''Executed_Gtid_Set''\<rparr>);
          (rows2, e2) \<leftarrow> QueryWithTimeout E (queryTimeout h) mgr_received_query;
          (case e2 of Some err \<Rightarrow> ret (gtid, Some err)
           | None \<Rightarrow> do {
               let gtid2 = (case rows2 of [] \<Rightarrow> gtid | r # _ \<Rightarrow>
                 gtid\<lparr>Retrieved_GTID_Set := col r ''RECEIVED_TRANSACTION_SET'',
                   Last_Error_Message := col r ''LAST_ERROR_MESSAGE''\<rparr>);
               (diff, e3) \<leftarrow> MysqlBase_GTIDDiff E h (Retrieved_GTID_Set gtid2) (Executed_GTID_Set gtid2);
               ret (case e3 of Some _ \<Rightarrow> (gtid2, None)
                    | None \<Rightarrow> (gtid2\<lparr>Txns_Behind_Master := diff\<rparr>, None)) }) }) }"

definition MysqlBase_GTIDBigger ::
    "'w dbenv \<Rightarrow> handler \<Rightarrow> string \<Rightarrow> string \<Rightarrow> ('w, bool res) state" where
  "MysqlBase_GTIDBigger E h gtid1 gtid2 = do {
     (rows, e) \<leftarrow> MysqlBase_GTIDSubtract E h gtid1 gtid2;
     ret (case e of Some err \<Rightarrow> (False, Some err)
      | None \<Rightarrow> (case rows of [] \<Rightarrow> (False, None) | r # _ \<Rightarrow> (col r ''RES'' \<noteq> [], None))) }"


subsection \<open>Group replication\<close>

definition mgr_running_query :: string where
  "mgr_running_query = ''SELECT MEMBER_ID,MEMBER_STATE,SERVICE_STATE FROM performance_schema.replication_group_members gm JOIN performance_schema.replication_connection_status cs WHERE gm.CHANNEL_NAME=cs.CHANNEL_NAME AND ((SERVICE_STATE='' @ quoted ''OFF'' @ '') OR (MEMBER_STATE='' @ quoted ''ERROR'' @ '' AND SERVICE_STATE='' @ quoted ''ON'' @ ''))''"

definition MysqlBase_IsMGRRunningOK :: "'w dbenv \<Rightarrow> handler \<Rightarrow> ('w, bool res) state" where
  "MysqlBase_IsMGRRunningOK E h = do {
     (rows, e) \<leftarrow> QueryWithTimeout E (queryTimeout h) mgr_running_query;
     ret (case e of Some err \<Rightarrow> (False, Some err) | None \<Rightarrow> (rows = [], None)) }"

definition MysqlBase_StartMGR :: "'w dbenv \<Rightarrow> handler \<Rightarrow> ('w, gerror option) state" where
  "MysqlBase_StartMGR E h = ExecuteWithTimeout E (mgrQueryTimeout h) ''START GROUP_REPLICATION''"

definition MysqlBase_StopMGR :: "'w dbenv \<Rightarrow> handler \<Rightarrow> ('w, gerror option) state" where
  "MysqlBase_StopMGR E h = ExecuteWithTimeout E (queryTimeout h * 2) ''STOP GROUP_REPLICATION''"

definition list_sep :: string where
  "list_sep = '','' @ [CHR 0x0A] @ ''  ''"

definition MGRChangeMasterToCommands :: "Repl \<Rightarrow> string list" where
  "MGRChangeMasterToCommands master =
     [''CHANGE MASTER TO'' @ [CHR 0x0A] @ ''  '' @
      join list_sep
        [''MASTER_USER = '' @ quoted (Repl_User master),
         ''MASTER_PASSWORD = '' @ quoted (Repl_Password master)] @
      '' FOR CHANNEL '' @ quoted ''group_replication_recovery'']"

definition mgr_change_master_cmds :: "Repl \<Rightarrow> string list" where
  "mgr_change_master_cmds master =
     [''STOP GROUP_REPLICATION''] @ MGRChangeMasterToCommands master @
     [''SET GLOBAL group_replication_bootstrap_group=OFF'', ''START GROUP_REPLICATION'']"

definition MysqlBase_MGRChangeMasterTo :: "'w dbenv \<Rightarrow> handler \<Rightarrow> Repl \<Rightarrow> ('w, gerror option) state" where
  "MysqlBase_MGRChangeMasterTo E h master =
     ExecuteSuperQueryListWithTimeout E (mgrQueryTimeout h) (mgr_change_master_cmds master)"

definition MysqlBase_GetMGRStats :: "'w dbenv \<Rightarrow> handler \<Rightarrow> ('w, row list res) state" where
  "MysqlBase_GetMGRStats E h = do {
     (rows, e) \<leftarrow> QueryWithTimeout E (queryTimeout h)
        ''SELECT MEMBER_ID,MEMBER_HOST,MEMBER_STATE FROM performance_schema.replication_group_members'';
     (if e \<noteq> None \<or> rows = [] then ret ([], e) else ret (rows, None)) }"

definition MysqlBase_GetMGRMasterUUID :: "'w dbenv \<Rightarrow> handler \<Rightarrow> ('w, string res) state" where
  "MysqlBase_GetMGRMasterUUID E h = do {
     (rows, e) \<leftarrow> QueryWithTimeout E (queryTimeout h)
        (''SELECT VARIABLE_VALUE FROM performance_schema.global_status where VARIABLE_NAME='' @ quoted ''group_replication_primary_member'');
     ret (case e of Some err \<Rightarrow> ([], Some err)
      | None \<Rightarrow> (case rows of [r] \<Rightarrow> (col r ''VARIABLE_VALUE'', None)
                | _ \<Rightarrow> ([], Some (GoErr ''get.group.replication.master.failed'')))) }"

definition MysqlBase_GetServerID :: "'w dbenv \<Rightarrow> handler \<Rightarrow> ('w, string res) state" where
  "MysqlBase_GetServerID E h = do {
     (rows, e) \<leftarrow> QueryWithTimeout E (queryTimeout h) ''select @@server_uuid'';
     ret (case e of Some err \<Rightarrow> ([], Some err)
      | None \<Rightarrow> (case rows of [r] \<Rightarrow> (col r ''@@server_uuid'', None)
                | _ \<Rightarrow> ([], Some (GoErr ''get.group.replication.master.failed'')))) }"

definition member_live :: "row \<Rightarrow> bool" where
  "member_live r = (col r ''MEMBER_STATE'' = MGRStateOnline \<or> col r ''MEMBER_STATE'' = MGRStateRecovering)"

text \<open>The loop of \<open>mgrGroupView\<close>: live and tot members.\<close>

fun group_view_loop :: "row list \<Rightarrow> int \<Rightarrow> int \<Rightarrow> int \<times> int" where
  "group_view_loop [] live tot = (live, tot)"
| "group_view_loop (r # rs) live tot =
     group_view_loop rs (if member_live r then live + 1 else live) (tot + 1)"

definition mgrGroupView :: "'w dbenv \<Rightarrow> handler \<Rightarrow> ('w, (int \<times> int) res) state" where
  "mgrGroupView E h = do {
     (rows, e) \<leftarrow> MysqlBase_GetMGRStats E h;
     ret (case e of Some err \<Rightarrow> ((0, 0), Some err) | None \<Rightarrow> (group_view_loop rows 0 0, None)) }"

definition groupReplicationLocalAddress :: "'w dbenv \<Rightarrow> handler \<Rightarrow> ('w, string res) state" where
  "groupReplicationLocalAddress E h = do {
     (rows, e) \<leftarrow> QueryWithTimeout E (queryTimeout h) ''SELECT @@GLOBAL.group_replication_local_address'';
     ret (case e of Some err \<Rightarrow> ([], Some err)
      | None \<Rightarrow> (case rows of [] \<Rightarrow> ([], Some (GoErr ''group_replication_local_address.not.found''))
                | r # _ \<Rightarrow> (col r ''@@GLOBAL.group_replication_local_address'', None))) }"

definition force_members_cmd :: "string \<Rightarrow> string" where
  "force_members_cmd addr = ''SET GLOBAL group_replication_force_members = '' @ quoted addr"

definition mgr_change_to_master_cmds :: "bool \<Rightarrow> string \<Rightarrow> Repl \<Rightarrow> string list" where
  "mgr_change_to_master_cmds useForce forceAddr master =
     (if useForce then [force_members_cmd forceAddr] else []) @
     [''STOP GROUP_REPLICATION''] @ MGRChangeMasterToCommands master @
     [''SET GLOBAL group_replication_bootstrap_group=ON'', ''START GROUP_REPLICATION'',
      ''SET GLOBAL group_replication_bootstrap_group=OFF''] @
     (if forceAddr \<noteq> [] then [force_members_cmd []] else [])"

definition MysqlBase_ChangeToMaster :: "'w dbenv \<Rightarrow> handler \<Rightarrow> Repl \<Rightarrow> ('w, gerror option) state" where
  "MysqlBase_ChangeToMaster E h master =
     (if replMode h = ReplModeMGR then do {
        ((live, tot), e) \<leftarrow> mgrGroupView E h;
        (case e of Some err \<Rightarrow> ret (Some err)
         | None \<Rightarrow>
           (if live = 1 \<and> tot \<ge> 1 then do {
              (addr, e2) \<leftarrow> groupReplicationLocalAddress E h;
              (case e2 of Some err \<Rightarrow> ret (Some err)
               | None \<Rightarrow> ExecuteSuperQueryListWithTimeout E (queryTimeout h)
                   (mgr_change_to_master_cmds True addr master)) }
            else ExecuteSuperQueryListWithTimeout E (queryTimeout h)
                   (mgr_change_to_master_cmds False [] master))) }
      else ExecuteSuperQueryListWithTimeout E (queryTimeout h) [''STOP SLAVE'', ''RESET SLAVE ALL''])"


subsection \<open>Replication threads and coordinates\<close>

definition MysqlBase_GetSlaveGTID :: "'w dbenv \<Rightarrow> handler \<Rightarrow> ('w, GTID res) state" where
  "MysqlBase_GetSlaveGTID E h = do {
     (rows, e) \<leftarrow> QueryWithTimeout E (queryTimeout h) ''SHOW SLAVE STATUS'';
     ret (case e of Some err \<Rightarrow> (zero_GTID, Some err)
      | None \<Rightarrow> (case rows of [] \<Rightarrow> (zero_GTID, None) | r # _ \<Rightarrow>
         (zero_GTID\<lparr>Master_Log_File := col r ''Master_Log_File'',
            Read_Master_Log_Pos := fst (parse_uint64 (col r ''Read_Master_Log_Pos'')),
            Retrieved_GTID_Set := col r ''Retrieved_Gtid_Set'',
            Executed_GTID_Set := col r ''Executed_Gtid_Set'',
            Slave_IO_Running := (col r ''Slave_IO_Running'' = ''Yes''),
            Slave_IO_Running_Str := col r ''Slave_IO_Running'',
            Slave_SQL_Running := (col r ''Slave_SQL_Running'' = ''Yes''),
            Slave_SQL_Running_Str := col r ''Slave_SQL_Running'',
            Seconds_Behind_Master := col r ''Seconds_Behind_Master'',
            Last_Error := col r ''Last_Error'',
            Last_IO_Error := col r ''Last_IO_Error'',
            Last_SQL_Error := col r ''Last_SQL_Error'',
            Slave_SQL_Running_State := col r ''Slave_SQL_Running_State''\<rparr>, None))) }"

definition MysqlBase_GetMasterGTID :: "'w dbenv \<Rightarrow> handler \<Rightarrow> ('w, GTID res) state" where
  "MysqlBase_GetMasterGTID E h = do {
     (rows, e) \<leftarrow> QueryWithTimeout E (queryTimeout h) ''SHOW MASTER STATUS'';
     ret (case e of Some err \<Rightarrow> (zero_GTID, Some err)
      | None \<Rightarrow> (case rows of [] \<Rightarrow> (zero_GTID, None) | r # _ \<Rightarrow>
         (zero_GTID\<lparr>Master_Log_File := col r ''File'',
            Read_Master_Log_Pos := fst (parse_uint64 (col r ''Position'')),
            Executed_GTID_Set := col r ''Executed_Gtid_Set'',
            Seconds_Behind_Master := ''0'',
            Slave_IO_Running := True,
            Slave_SQL_Running := True\<rparr>, None))) }"

definition MysqlBase_GetUUID :: "'w dbenv \<Rightarrow> handler \<Rightarrow> ('w, string res) state" where
  "MysqlBase_GetUUID E h = do {
     (rows, e) \<leftarrow> QueryWithTimeout E (queryTimeout h) ''SELECT @@SERVER_UUID'';
     ret (case e of Some err \<Rightarrow> ([], Some err)
      | None \<Rightarrow> (case rows of [] \<Rightarrow> ([], None) | r # _ \<Rightarrow> (col r ''@@SERVER_UUID'', None))) }"

definition MysqlBase_StartSlaveIOThread :: "'w dbenv \<Rightarrow> handler \<Rightarrow> ('w, gerror option) state" where
  "MysqlBase_StartSlaveIOThread E h = ExecuteWithTimeout E (queryTimeout h) ''START SLAVE IO_THREAD''"

definition MysqlBase_StopSlaveIOThread :: "'w dbenv \<Rightarrow> handler \<Rightarrow> ('w, gerror option) state" where
  "MysqlBase_StopSlaveIOThread E h = ExecuteWithTimeout E (queryTimeout h) ''STOP SLAVE IO_THREAD''"

definition MysqlBase_StartSlave :: "'w dbenv \<Rightarrow> handler \<Rightarrow> ('w, gerror option) state" where
  "MysqlBase_StartSlave E h = ExecuteWithTimeout E (queryTimeout h) ''START SLAVE''"

definition MysqlBase_StopSlave :: "'w dbenv \<Rightarrow> handler \<Rightarrow> ('w, gerror option) state" where
  "MysqlBase_StopSlave E h = ExecuteWithTimeout E (queryTimeout h) ''STOP SLAVE''"

definition changeMasterToCommands :: "Repl \<Rightarrow> string list" where
  "changeMasterToCommands master =
     [''CHANGE MASTER TO'' @ [CHR 0x0A] @ ''  '' @
      join list_sep
        [''MASTER_HOST = '' @ quoted (Master_Host master),
         ''MASTER_PORT = '' @ itoa (Master_Port master),
         ''MASTER_USER = '' @ quoted (Repl_User master),
         ''MASTER_PASSWORD = '' @ quoted (Repl_Password master),
         ''MASTER_AUTO_POSITION = 1'']]"

definition change_master_cmds :: "Repl \<Rightarrow> string list" where
  "change_master_cmds master =
     [''STOP SLAVE''] @
     (if Repl_GTID_Purged master \<noteq> [] then
        [''RESET MASTER'', ''RESET SLAVE ALL'',
         ''SET GLOBAL gtid_purged='' @ quoted (Repl_GTID_Purged master)]
      else []) @
     changeMasterToCommands master @ [''START SLAVE'']"

definition MysqlBase_ChangeMasterTo :: "'w dbenv \<Rightarrow> handler \<Rightarrow> Repl \<Rightarrow> ('w, gerror option) state" where
  "MysqlBase_ChangeMasterTo E h master =
     ExecuteSuperQueryListWithTimeout E (queryTimeout h) (change_master_cmds master)"

definition MysqlBase_WaitUntilAfterGTID ::
    "'w dbenv \<Rightarrow> handler \<Rightarrow> string \<Rightarrow> ('w, gerror option) state" where
  "MysqlBase_WaitUntilAfterGTID E h targetGTID =
     Execute E (''SELECT WAIT_UNTIL_SQL_THREAD_AFTER_GTIDS('' @ quoted targetGTID @ '')'')"

text \<open>
  The loop declares an \<open>err\<close> of its own, so the outer one that the message prints is
  always \<open>nil\<close>.
\<close>

fun wait_relay_loop :: "'w dbenv \<Rightarrow> handler \<Rightarrow> int \<Rightarrow> nat \<Rightarrow> ('w, gerror option) state" where
  "wait_relay_loop E h interval 0 = ret (Some (GoErr ''wait.until.after.gtid.failed[<nil>]''))"
| "wait_relay_loop E h interval (Suc n) = do {
     (gtid, e) \<leftarrow> MysqlBase_GetMGRGTID E h;
     (if e = None \<and> Txns_Behind_Master gtid = ''0'' then ret None
      else do { modify (sleep_ms E (interval * 1000)); wait_relay_loop E h interval n }) }"

definition MysqlBase_WaitApplyRelayLog :: "'w dbenv \<Rightarrow> handler \<Rightarrow> int \<Rightarrow> int \<Rightarrow> ('w, gerror option) state" where
  "MysqlBase_WaitApplyRelayLog E h retry interval = wait_relay_loop E h interval (nat retry)"

definition MysqlBase_GetGTIDSubtract ::
    "'w dbenv \<Rightarrow> handler \<Rightarrow> string \<Rightarrow> string \<Rightarrow> ('w, string res) state" where
  "MysqlBase_GetGTIDSubtract E h subsetGTID setGTID = do {
     (rows, e) \<leftarrow> QueryWithTimeout E (queryTimeout h)
        (''SELECT GTID_SUBTRACT('' @ quoted subsetGTID @ '','' @ quoted setGTID @ '') as gtid_sub'');
     ret (case e of Some err \<Rightarrow> ([], Some err)
      | None \<Rightarrow> (case rows of [] \<Rightarrow> ([], None) | r # _ \<Rightarrow> (col r ''gtid_sub'', None))) }"


subsection \<open>System variables, semi-sync, binlogs\<close>

definition MysqlBase_SetGlobalSysVar :: "'w dbenv \<Rightarrow> handler \<Rightarrow> string \<Rightarrow> ('w, gerror option) state" where
  "MysqlBase_SetGlobalSysVar E h varsql =
     (if \<not> has_prefix varsql ''SET GLOBAL''
      then ret (Some (GoErr (''['' @ varsql @ ''].must.be.startwith:SET GLOBAL'')))
      else ExecuteWithTimeout E (queryTimeout h) varsql)"

definition MysqlBase_ResetMaster :: "'w dbenv \<Rightarrow> handler \<Rightarrow> ('w, gerror option) state" where
  "MysqlBase_ResetMaster E h = ExecuteWithTimeout E (queryTimeout h) ''RESET MASTER''"

definition MysqlBase_ResetSlave :: "'w dbenv \<Rightarrow> handler \<Rightarrow> ('w, gerror option) state" where
  "MysqlBase_ResetSlave E h = ExecuteWithTimeout E (queryTimeout h) ''RESET SLAVE''"

definition MysqlBase_ResetSlaveAll :: "'w dbenv \<Rightarrow> handler \<Rightarrow> ('w, gerror option) state" where
  "MysqlBase_ResetSlaveAll E h =
     ExecuteSuperQueryListWithTimeout E (queryTimeout h) [''STOP SLAVE'', ''RESET SLAVE ALL'']"

definition MysqlBase_PurgeBinlogsTo :: "'w dbenv \<Rightarrow> handler \<Rightarrow> string \<Rightarrow> ('w, gerror option) state" where
  "MysqlBase_PurgeBinlogsTo E h binlog =
     ExecuteWithTimeout E (queryTimeout h) (''PURGE BINARY LOGS TO '' @ quoted binlog)"

definition MysqlBase_EnableSemiSyncMaster :: "'w dbenv \<Rightarrow> handler \<Rightarrow> ('w, gerror option) state" where
  "MysqlBase_EnableSemiSyncMaster E h =
     ExecuteWithTimeout E (queryTimeout h) ''SET GLOBAL rpl_semi_sync_master_enabled=ON''"

definition MysqlBase_SetSemiWaitSlaveCount :: "'w dbenv \<Rightarrow> handler \<Rightarrow> int \<Rightarrow> ('w, gerror option) state" where
  "MysqlBase_SetSemiWaitSlaveCount E h count =
     ExecuteWithTimeout E (queryTimeout h)
       (''SET GLOBAL rpl_semi_sync_master_wait_for_slave_count = '' @ itoa count)"

definition MysqlBase_DisableSemiSyncMaster :: "'w dbenv \<Rightarrow> handler \<Rightarrow> ('w, gerror option) state" where
  "MysqlBase_DisableSemiSyncMaster E h =
     ExecuteWithTimeout E (queryTimeout h) ''SET GLOBAL rpl_semi_sync_master_enabled=OFF''"

definition MysqlBase_SetSemiSyncMasterTimeout :: "'w dbenv \<Rightarrow> handler \<Rightarrow> 64 word \<Rightarrow> ('w, gerror option) state" where
  "MysqlBase_SetSemiSyncMasterTimeout E h timeout =
     ExecuteWithTimeout E (queryTimeout h)
       (''SET GLOBAL rpl_semi_sync_master_timeout='' @ dec (unat timeout))"


subsection \<open>Users\<close>

definition mysqlReplPrivileges :: "string list" where
  "mysqlReplPrivileges = [''REPLICATION SLAVE'', ''REPLICATION CLIENT'']"

definition mysqlNormalPrivileges :: "string list" where
  "mysqlNormalPrivileges =
     [''ALTER'', ''ALTER ROUTINE'', ''CREATE'', ''CREATE ROUTINE'', ''CREATE TEMPORARY TABLES'',
      ''CREATE VIEW'', ''DELETE'', ''DROP'', ''EXECUTE'', ''EVENT'', ''INDEX'', ''INSERT'',
      ''LOCK TABLES'', ''PROCESS'', ''RELOAD'', ''SELECT'', ''SHOW DATABASES'', ''SHOW VIEW'',
      ''UPDATE'', ''TRIGGER'', ''REFERENCES'', ''REPLICATION SLAVE'', ''REPLICATION CLIENT'']"

definition MysqlBase_CheckUserExists ::
    "'w dbenv \<Rightarrow> handler \<Rightarrow> string \<Rightarrow> string \<Rightarrow> ('w, bool res) state" where
  "MysqlBase_CheckUserExists E h user host = do {
     (rows, e) \<leftarrow> Query E (''SELECT User FROM mysql.user WHERE User = '' @ quoted user @
        '' and Host = '' @ quoted host);
     ret (case e of Some err \<Rightarrow> (False, Some err) | None \<Rightarrow> (rows \<noteq> [], None)) }"

record MysqlUser =
  mu_User :: string
  mu_Host :: string
  mu_SuperPriv :: string

definition MysqlBase_GetUser :: "'w dbenv \<Rightarrow> handler \<Rightarrow> ('w, MysqlUser list res) state" where
  "MysqlBase_GetUser E h = do {
     (rows, e) \<leftarrow> Query E ''SELECT User, Host, Super_priv FROM mysql.user'';
     ret (case e of Some err \<Rightarrow> ([], Some err)
      | None \<Rightarrow> (map (\<lambda>v. \<lparr>mu_User = col v ''User'', mu_Host = col v ''Host'',
                          mu_SuperPriv = col v ''Super_priv''\<rparr>) rows, None)) }"

definition require_x509 :: "string \<Rightarrow> string \<Rightarrow> string" where
  "require_x509 ssltype query = (if to_upper ssltype = ''YES'' then query @ '' REQUIRE X509'' else query)"

definition MysqlBase_CreateUser ::
    "'w dbenv \<Rightarrow> handler \<Rightarrow> string \<Rightarrow> string \<Rightarrow> string \<Rightarrow> string \<Rightarrow> ('w, gerror option) state" where
  "MysqlBase_CreateUser E h user host passwd ssltype =
     Execute E (require_x509 ssltype (''CREATE USER '' @ backquoted user @ ''@'' @ backquoted host @
       '' IDENTIFIED BY '' @ quoted passwd))"

definition Mysql56_CreateUser ::
    "'w dbenv \<Rightarrow> handler \<Rightarrow> string \<Rightarrow> string \<Rightarrow> string \<Rightarrow> string \<Rightarrow> ('w, gerror option) state" where
  "Mysql56_CreateUser E h user host passwd ssltype =
     Execute E (require_x509 ssltype (''GRANT USAGE ON *.* TO '' @ backquoted user @ ''@'' @
       backquoted host @ '' IDENTIFIED BY '' @ quoted passwd))"

definition MysqlBase_DropUser :: "'w dbenv \<Rightarrow> handler \<Rightarrow> string \<Rightarrow> string \<Rightarrow> ('w, gerror option) state" where
  "MysqlBase_DropUser E h user host =
     Execute E (''DROP USER '' @ backquoted user @ ''@'' @ backquoted host)"

definition create_repl_user_cmds :: "string \<Rightarrow> string \<Rightarrow> string list" where
  "create_repl_user_cmds user passwd =
     [''SET sql_log_bin=0'', ''SET GLOBAL read_only=off'',
      ''CREATE USER '' @ backquoted user @ '' IDENTIFIED BY '' @ quoted passwd,
      ''GRANT '' @ join '','' mysqlReplPrivileges @ '' ON *.* TO '' @ backquoted user,
      ''SET GLOBAL super_read_only=on'', ''SET sql_log_bin=1'']"

definition MysqlBase_CreateReplUserWithoutBinlog ::
    "'w dbenv \<Rightarrow> handler \<Rightarrow> string \<Rightarrow> string \<Rightarrow> ('w, gerror option) state" where
  "MysqlBase_CreateReplUserWithoutBinlog E h user passwd =
     ExecuteSuperQueryList E (create_repl_user_cmds user passwd)"

definition MysqlBase_ChangeUserPasswd ::
    "'w dbenv \<Rightarrow> handler \<Rightarrow> string \<Rightarrow> string \<Rightarrow> string \<Rightarrow> ('w, gerror option) state" where
  "MysqlBase_ChangeUserPasswd E h user host passwd =
     Execute E (''ALTER USER '' @ backquoted user @ ''@'' @ backquoted host @
       '' IDENTIFIED BY '' @ quoted passwd)"

definition Mysql56_ChangeUserPasswd ::
    "'w dbenv \<Rightarrow> handler \<Rightarrow> string \<Rightarrow> string \<Rightarrow> string \<Rightarrow> ('w, gerror option) state" where
  "Mysql56_ChangeUserPasswd E h user host passwd =
     Execute E (''SET PASSWORD FOR '' @ backquoted user @ ''@'' @ backquoted host @
       '' = PASSWORD('' @ quoted passwd @ '')'')"

definition MysqlBase_GrantNormalPrivileges ::
    "'w dbenv \<Rightarrow> handler \<Rightarrow> string \<Rightarrow> string \<Rightarrow> ('w, gerror option) state" where
  "MysqlBase_GrantNormalPrivileges E h user host =
     Execute E (''GRANT '' @ join '','' mysqlNormalPrivileges @ '' ON *.* TO '' @
       backquoted user @ ''@'' @ backquoted host)"

definition MysqlBase_GrantReplicationPrivileges ::
    "'w dbenv \<Rightarrow> handler \<Rightarrow> string \<Rightarrow> ('w, gerror option) state" where
  "MysqlBase_GrantReplicationPrivileges E h user =
     Execute E (''GRANT '' @ join '','' mysqlReplPrivileges @ '' ON *.* TO '' @ backquoted user)"

text \<open>
  \<open>CreateUser\<close> is dispatched statically in each version: \<open>MysqlBase\<close> calls its own,
  \<open>Mysql56\<close> calls its own. The privileges are checked one by one, upper-cased and
  trimmed, but sent as they came.
\<close>

definition clean_priv :: "string \<Rightarrow> string" where
  "clean_priv p = to_upper (trim_space p)"

definition privs_list :: "string \<Rightarrow> string list" where
  "privs_list privs = split_on CHR '','' (trim_suffix privs '','')"

definition bad_priv :: "string \<Rightarrow> string option" where
  "bad_priv privs = List.find (\<lambda>p. p \<notin> set mysqlNormalPrivileges) (map clean_priv (privs_list privs))"

definition create_user_with_privileges ::
    "(string \<Rightarrow> string \<Rightarrow> string \<Rightarrow> string \<Rightarrow> ('w, gerror option) state) \<Rightarrow> (string \<Rightarrow> string) \<Rightarrow> 'w dbenv \<Rightarrow>
     string \<Rightarrow> string \<Rightarrow> string \<Rightarrow> string \<Rightarrow> string \<Rightarrow> string \<Rightarrow> string \<Rightarrow> ('w, gerror option) state" where
  "create_user_with_privileges create who E user passwd database table host privs ssl =
     (case bad_priv privs of
        Some p \<Rightarrow> ret (Some (GoErr (''can'' @ [CHR 0x27] @ ''t create '' @ who host @ '' with privileges['' @ p @ '']'')))
      | None \<Rightarrow>
        (let upperSSL = to_upper ssl in
         if upperSSL \<noteq> ''YES'' \<and> upperSSL \<noteq> ''NO''
         then ret (Some (GoErr (''wrong ssl_type['' @ ssl @ ''], it should be '' @ quoted ''YES'' @ '' or '' @ quoted ''NO'')))
         else do {
           e \<leftarrow> create user host passwd upperSSL;
           (case e of
              Some err \<Rightarrow> ret (Some (GoErr (''create '' @ who host @ '' with privileges['' @
                 trim_suffix privs '','' @ ''] require ssl_type['' @ ssl @ ''] failed: ['' @ err_text err @ '']'')))
            | None \<Rightarrow> Execute E (''GRANT '' @ trim_suffix privs '','' @ '' ON '' @ database @ ''.'' @ table @
                '' TO '' @ backquoted user @ ''@'' @ backquoted host)) }))"

definition MysqlBase_CreateUserWithPrivileges ::
    "'w dbenv \<Rightarrow> handler \<Rightarrow> string \<Rightarrow> string \<Rightarrow> string \<Rightarrow> string \<Rightarrow> string \<Rightarrow> string \<Rightarrow> string \<Rightarrow>
     ('w, gerror option) state" where
  "MysqlBase_CreateUserWithPrivileges E h user passwd database table host privs ssl =
     create_user_with_privileges (MysqlBase_CreateUser E h) (\<lambda>_. ''user['' @ user @ '']'') E
       user passwd database table host privs ssl"

definition Mysql56_CreateUserWithPrivileges ::
    "'w dbenv \<Rightarrow> handler \<Rightarrow> string \<Rightarrow> string \<Rightarrow> string \<Rightarrow> string \<Rightarrow> string \<Rightarrow> string \<Rightarrow> string \<Rightarrow>
     ('w, gerror option) state" where
  "Mysql56_CreateUserWithPrivileges E h user passwd database table host privs ssl =
     create_user_with_privileges (Mysql56_CreateUser E h)
       (\<lambda>host. ''user['' @ user @ '']@['' @ host @ '']'') E
       user passwd database table host privs ssl"

definition grant_all_privileges ::
    "(string \<Rightarrow> string \<Rightarrow> string \<Rightarrow> string \<Rightarrow> ('w, gerror option) state) \<Rightarrow> 'w dbenv \<Rightarrow>
     string \<Rightarrow> string \<Rightarrow> string \<Rightarrow> string \<Rightarrow> ('w, gerror option) state" where
  "grant_all_privileges create E user host passwd ssl =
     (let upperSSL = to_upper ssl in
      if upperSSL \<noteq> ''YES'' \<and> upperSSL \<noteq> ''NO''
      then ret (Some (GoErr (''wrong ssl_type['' @ ssl @ ''], it should be '' @ quoted ''YES'' @ '' or '' @ quoted ''NO'')))
      else do {
        e \<leftarrow> create user host passwd upperSSL;
        (case e of
           Some err \<Rightarrow> ret (Some (GoErr (''create user['' @ user @ '']@['' @ host @
              ''] with all privileges require ssl_type['' @ ssl @ ''] failed: ['' @ err_text err @ '']'')))
         | None \<Rightarrow> Execute E (''GRANT ALL ON *.* TO '' @ backquoted user @ ''@'' @ backquoted host @
             '' WITH GRANT OPTION'')) })"

definition MysqlBase_GrantAllPrivileges ::
    "'w dbenv \<Rightarrow> handler \<Rightarrow> string \<Rightarrow> string \<Rightarrow> string \<Rightarrow> string \<Rightarrow> ('w, gerror option) state" where
  "MysqlBase_GrantAllPrivileges E h = grant_all_privileges (MysqlBase_CreateUser E h) E"

definition Mysql56_GrantAllPrivileges ::
    "'w dbenv \<Rightarrow> handler \<Rightarrow> string \<Rightarrow> string \<Rightarrow> string \<Rightarrow> string \<Rightarrow> ('w, gerror option) state" where
  "Mysql56_GrantAllPrivileges E h = grant_all_privileges (Mysql56_CreateUser E h) E"


subsection \<open>What the versions override\<close>

definition Mysql80_GetMGRStats :: "'w dbenv \<Rightarrow> handler \<Rightarrow> ('w, row list res) state" where
  "Mysql80_GetMGRStats E h = do {
     (rows, e) \<leftarrow> QueryWithTimeout E (queryTimeout h)
        ''SELECT MEMBER_ID,MEMBER_HOST,MEMBER_STATE,MEMBER_ROLE FROM performance_schema.replication_group_members'';
     (if e \<noteq> None \<or> rows = [] then ret ([], e) else ret (rows, None)) }"

definition unknown_MGRStatus :: MGRStatus where
  "unknown_MGRStatus = \<lparr>mgr_Role = ''UNKNOWN'', mgr_State = ''UNKNOWN'', mgr_PrimaryUUID = []\<rparr>"

text \<open>The \<open>break\<close>ing loop of 5.7 and the fallback for a single row without a state.\<close>

definition mgr57_state :: "string \<Rightarrow> row list \<Rightarrow> string" where
  "mgr57_state myid rows =
     (let st = (case List.find (\<lambda>v. col v ''MEMBER_ID'' = myid) rows of
                  None \<Rightarrow> ''UNKNOWN'' | Some v \<Rightarrow> col v ''MEMBER_STATE'')
      in if st = [] \<and> length rows = 1 then col (hd rows) ''MEMBER_STATE'' else st)"

definition Mysql57_GetLocalMGRStat :: "'w dbenv \<Rightarrow> handler \<Rightarrow> ('w, MGRStatus res) state" where
  "Mysql57_GetLocalMGRStat E h = do {
     (myid, e) \<leftarrow> MysqlBase_GetServerID E h;
     (case e of Some err \<Rightarrow> ret (unknown_MGRStatus, Some err)
      | None \<Rightarrow> do {
          (rows, e2) \<leftarrow> MysqlBase_GetMGRStats E h;
          (case e2 of Some err \<Rightarrow> ret (unknown_MGRStatus, Some err)
           | None \<Rightarrow>
             (if rows = [] then ret (unknown_MGRStatus\<lparr>mgr_State := MGRStateOffline\<rparr>, None)
              else do {
                let st = unknown_MGRStatus\<lparr>mgr_State := mgr57_state myid rows\<rparr>;
                (pid, e3) \<leftarrow> MysqlBase_GetMGRMasterUUID E h;
                (case e3 of Some err \<Rightarrow> ret (st, Some err)
                 | None \<Rightarrow> ret (st\<lparr>mgr_Role := (if pid = myid then MGRRolePrimary else MGRRoleSecondary),
                                 mgr_PrimaryUUID := pid\<rparr>, None)) })) }) }"

fun mgr80_loop :: "string \<Rightarrow> row list \<Rightarrow> MGRStatus \<Rightarrow> MGRStatus" where
  "mgr80_loop myid [] st = st"
| "mgr80_loop myid (v # vs) st =
     (let st1 = (if col v ''MEMBER_ID'' = myid
                 then st\<lparr>mgr_State := col v ''MEMBER_STATE'', mgr_Role := col v ''MEMBER_ROLE''\<rparr> else st);
          st2 = (if col v ''MEMBER_ROLE'' = MGRRolePrimary
                 then st1\<lparr>mgr_PrimaryUUID := col v ''MEMBER_ID''\<rparr> else st1)
      in mgr80_loop myid vs st2)"

definition Mysql80_GetLocalMGRStat :: "'w dbenv \<Rightarrow> handler \<Rightarrow> ('w, MGRStatus res) state" where
  "Mysql80_GetLocalMGRStat E h = do {
     (myid, e) \<leftarrow> MysqlBase_GetServerID E h;
     (case e of Some err \<Rightarrow> ret (unknown_MGRStatus, Some err)
      | None \<Rightarrow> do {
          (rows, e2) \<leftarrow> Mysql80_GetMGRStats E h;
          (case e2 of Some err \<Rightarrow> ret (unknown_MGRStatus, Some err)
           | None \<Rightarrow>
             (if rows = [] then ret (unknown_MGRStatus\<lparr>mgr_State := MGRStateOffline\<rparr>, None)
              else (let st = mgr80_loop myid rows unknown_MGRStatus in
                ret (if mgr_State st = [] \<and> length rows = 1
                     then st\<lparr>mgr_State := col (hd rows) ''MEMBER_STATE''\<rparr> else st, None)))) }) }"

definition handler_GetMGRStats :: "'w dbenv \<Rightarrow> handler \<Rightarrow> ('w, row list res) state" where
  "handler_GetMGRStats E h =
     (case version h of Mysql80 \<Rightarrow> Mysql80_GetMGRStats E h | _ \<Rightarrow> MysqlBase_GetMGRStats E h)"

text \<open>
  \<open>Mysql56\<close> has no \<open>GetLocalMGRStat\<close>: the call goes to the \<open>MysqlHandler\<close> embedded
  in \<open>MysqlBase\<close>, which is \<open>nil\<close>, so the Go program panics. \<open>None\<close> stands for that.
\<close>

definition handler_GetLocalMGRStat :: "'w dbenv \<Rightarrow> handler \<Rightarrow> ('w, MGRStatus res) state option" where
  "handler_GetLocalMGRStat E h =
     (case version h of
        Mysql56 \<Rightarrow> None
      | Mysql57 \<Rightarrow> Some (Mysql57_GetLocalMGRStat E h)
      | Mysql80 \<Rightarrow> Some (Mysql80_GetLocalMGRStat E h))"

definition handler_SetSemiWaitSlaveCount :: "'w dbenv \<Rightarrow> handler \<Rightarrow> int \<Rightarrow> ('w, gerror option) state" where
  "handler_SetSemiWaitSlaveCount E h count =
     (case version h of Mysql56 \<Rightarrow> ret None | _ \<Rightarrow> MysqlBase_SetSemiWaitSlaveCount E h count)"

definition handler_CreateUser ::
    "'w dbenv \<Rightarrow> handler \<Rightarrow> string \<Rightarrow> string \<Rightarrow> string \<Rightarrow> string \<Rightarrow> ('w, gerror option) state" where
  "handler_CreateUser E h = (case version h of Mysql56 \<Rightarrow> Mysql56_CreateUser E h | _ \<Rightarrow> MysqlBase_CreateUser E h)"

definition handler_ChangeUserPasswd ::
    "'w dbenv \<Rightarrow> handler \<Rightarrow> string \<Rightarrow> string \<Rightarrow> string \<Rightarrow> ('w, gerror option) state" where
  "handler_ChangeUserPasswd E h =
     (case version h of Mysql56 \<Rightarrow> Mysql56_ChangeUserPasswd E h | _ \<Rightarrow> MysqlBase_ChangeUserPasswd E h)"

definition handler_CreateUserWithPrivileges ::
    "'w dbenv \<Rightarrow> handler \<Rightarrow> string \<Rightarrow> string \<Rightarrow> string \<Rightarrow> string \<Rightarrow> string \<Rightarrow> string \<Rightarrow> string \<Rightarrow>
     ('w, gerror option) state" where
  "handler_CreateUserWithPrivileges E h =
     (case version h of Mysql56 \<Rightarrow> Mysql56_CreateUserWithPrivileges E h
      | _ \<Rightarrow> MysqlBase_CreateUserWithPrivileges E h)"

definition handler_GrantAllPrivileges ::
    "'w dbenv \<Rightarrow> handler \<Rightarrow> string \<Rightarrow> string \<Rightarrow> string \<Rightarrow> string \<Rightarrow> ('w, gerror option) state" where
  "handler_GrantAllPrivileges E h =
     (case version h of Mysql56 \<Rightarrow> Mysql56_GrantAllPrivileges E h | _ \<Rightarrow> MysqlBase_GrantAllPrivileges E h)"

end
