(* ===== verification/GtidSet.thy ===== *)
theory GtidSet
  imports Model "HOL-Library.Product_Lexorder" "HOL-Library.Multiset"
begin

section \<open>Union of GTID sets (sort.go, GTIDSetUnion of api.go)\<close>

text \<open>
  \<open>GTIDSetUnion\<close> merges two texts \<open>uuid:1-3:7,uuid2:4\<close>. It is pure, so it is a
  function on strings. The Go map from uuids to intervals is an association list in the
  order of first occurrence; the order in which Go walks the map is not determined, and
  the last sort of the function makes the result independent of it. Interval ends are
  Go \<open>int\<close>s; the one addition on them that can leave 64 bits is written with its
  wrap-around (\<open>wrap64\<close>).

  What is shown: the text denotes the union of the two sets of transactions, for all
  inputs; it does not depend on the order of the arguments; and on interval ends below
  the largest \<open>int\<close> the intervals of each uuid come out sorted, with a gap between
  neighbours.
\<close>

subsection \<open>The code\<close>

definition ArraySlice_Less :: "int \<times> int \<Rightarrow> int \<times> int \<Rightarrow> bool" where
  "ArraySlice_Less a b =
     (if fst a < fst b then True
      else if fst a > fst b then False
      else if snd a < snd b then True
      else False)"

text \<open>\<open>sort.Sort(ArraySlice(s))\<close>: insertion by \<open>Less\<close>.\<close>

fun ArraySlice_insert :: "int \<times> int \<Rightarrow> (int \<times> int) list \<Rightarrow> (int \<times> int) list" where
  "ArraySlice_insert x [] = [x]"
| "ArraySlice_insert x (y # ys) =
     (if ArraySlice_Less y x then y # ArraySlice_insert x ys else x # y # ys)"

definition ArraySlice_sort :: "(int \<times> int) list \<Rightarrow> (int \<times> int) list" where
  "ArraySlice_sort xs = foldr ArraySlice_insert xs []"

text \<open>\<open>res[uuid] = append(res[uuid], setv[1:]...)\<close> or \<open>res[uuid] = setv[1:]\<close>.\<close>

fun res_add :: "string \<Rightarrow> string list \<Rightarrow> (string \<times> string list) list \<Rightarrow> (string \<times> string list) list" where
  "res_add u ivs [] = [(u, ivs)]"
| "res_add u ivs ((v, old) # res) =
     (if u = v then (v, old @ ivs) # res else (v, old) # res_add u ivs res)"

definition set_uuid :: "string \<Rightarrow> string" where
  "set_uuid s = hd (split_on CHR '':'' s)"

definition set_intervals :: "string \<Rightarrow> string list" where
  "set_intervals s = tl (split_on CHR '':'' s)"

definition group_sets :: "string list \<Rightarrow> (string \<times> string list) list" where
  "group_sets sets = fold (\<lambda>s. res_add (set_uuid s) (set_intervals s)) sets []"

text \<open>The two ends of an interval text; errors of \<open>Atoi\<close> are ignored.\<close>

definition interval_ends :: "string \<Rightarrow> int \<times> int" where
  "interval_ends values =
     (let interval = split_on CHR ''-'' values
      in (fst (atoi (interval ! 0)), fst (atoi (interval ! (length interval - 1)))))"

fun union_loop :: "(int \<times> int) list \<Rightarrow> (int \<times> int) list \<Rightarrow> (int \<times> int) list" where
  "union_loop [] unionSet = unionSet"
| "union_loop ((start, stop) # rest) unionSet =
     union_loop rest
       (if unionSet \<noteq> [] \<and> start \<le> wrap64 (snd (last unionSet) + 1)
        then (if snd (last unionSet) < stop
              then butlast unionSet @ [(fst (last unionSet), stop)]
              else unionSet)
        else unionSet @ [(start, stop)])"

definition interval_text :: "int \<times> int \<Rightarrow> string" where
  "interval_text v = (if fst v = snd v then itoa (fst v) else itoa (fst v) @ ''-'' @ itoa (snd v))"

definition union_text :: "string \<times> string list \<Rightarrow> string" where
  "union_text r =
     fst r @ '':'' @
     join '':'' (map interval_text (union_loop (ArraySlice_sort (map interval_ends (snd r))) []))"

definition GTIDSetUnion :: "string \<Rightarrow> string \<Rightarrow> string" where
  "GTIDSetUnion gtidSet1 gtidSet2 =
     (if gtidSet1 = [] then gtidSet2
      else if gtidSet2 = [] then gtidSet1
      else (let sets = split_on CHR '','' gtidSet1 @ split_on CHR '','' gtidSet2
            in join '','' (sort (map union_text (group_sets sets)))))"


subsection \<open>Sorting intervals\<close>

lemma ArraySlice_Less_lex: "ArraySlice_Less a b \<longleftrightarrow> a < b"
  by (auto simp: ArraySlice_Less_def less_prod_def)

lemma ArraySlice_insert_insort: "sorted xs \<Longrightarrow> ArraySlice_insert x xs = insort x xs"
  by (induction xs) (auto simp: ArraySlice_Less_lex insort_is_Cons)

lemma ArraySlice_sort_sort: "ArraySlice_sort xs = sort xs"
  by (induction xs) (simp_all add: ArraySlice_sort_def ArraySlice_insert_insort)


subsection \<open>Grouping by uuid\<close>

lemma res_add_map_of:
  "map_of (res_add u ivs res) =
   (map_of res)(u \<mapsto> (case map_of res u of None \<Rightarrow> ivs | Some old \<Rightarrow> old @ ivs))"
  by (induction res) (auto simp: fun_eq_iff)

lemma res_add_keys: "fst ` set (res_add u ivs res) = insert u (fst ` set res)"
  by (induction u ivs res rule: res_add.induct) (simp_all add: insert_commute)

lemma res_add_distinct: "distinct (map fst res) \<Longrightarrow> distinct (map fst (res_add u ivs res))"
  by (induction res) (auto simp: res_add_keys simp flip: image_set)

text \<open>What the map holds: for each uuid that occurs, its intervals in the order they came.\<close>

definition intervals_of :: "string list \<Rightarrow> string \<Rightarrow> string list" where
  "intervals_of sets u = concat (map set_intervals (filter (\<lambda>s. set_uuid s = u) sets))"

lemma group_sets_map_of:
  "map_of (group_sets sets) u =
     (if u \<in> set_uuid ` set sets then Some (intervals_of sets u) else None)"
  unfolding group_sets_def
proof (induction sets arbitrary: u rule: rev_induct)
  case (snoc s sets)
  have none: "intervals_of sets v = []" if "v \<notin> set_uuid ` set sets" for v
    using that by (auto simp: intervals_of_def filter_empty_conv image_iff)
  have snoc_of: "intervals_of (sets @ [s]) v =
      intervals_of sets v @ (if set_uuid s = v then set_intervals s else [])" for v
    by (simp add: intervals_of_def)
  show ?case
    by (simp add: res_add_map_of snoc snoc_of none)
qed simp

lemma group_sets_distinct: "distinct (map fst (group_sets sets))"
  unfolding group_sets_def
  by (induction sets rule: rev_induct) (simp_all add: res_add_distinct)

lemma group_sets_set:
  "set (group_sets sets) = (\<lambda>u. (u, intervals_of sets u)) ` set_uuid ` set sets"
proof -
  have "(u, ivs) \<in> set (group_sets sets) \<longleftrightarrow>
        u \<in> set_uuid ` set sets \<and> ivs = intervals_of sets u" for u ivs
    using group_sets_map_of [of sets u] map_of_eq_Some_iff [OF group_sets_distinct, of sets u ivs]
    by (auto split: if_splits)
  then show ?thesis by auto
qed


subsection \<open>The transactions a text denotes\<close>

text \<open>
  Transaction numbers start at 1. The set of a text is read off the text alone: its
  parts at commas, their uuid and their intervals.
\<close>

definition interval_txns :: "int \<times> int \<Rightarrow> int set" where
  "interval_txns v = {fst v..snd v}"

definition entry_txns :: "string \<Rightarrow> (string \<times> int) set" where
  "entry_txns s = {(u, n). u = set_uuid s \<and> 0 < n \<and>
     (\<exists>iv \<in> set (set_intervals s). n \<in> interval_txns (interval_ends iv))}"

definition gtid_txns :: "string \<Rightarrow> (string \<times> int) set" where
  "gtid_txns text = \<Union> (entry_txns ` set (split_on CHR '','' text))"

definition int_max :: int where
  "int_max = 2 ^ 63 - 1"

lemma wrap64_small: "0 \<le> i \<Longrightarrow> i \<le> int_max \<Longrightarrow> wrap64 i = i"
  by (simp add: wrap64_def int_max_def)

lemma wrap64_max: "wrap64 (int_max + 1) = - (2 ^ 63)"
  by (simp add: wrap64_def int_max_def)

lemma atoi_no_minus:
  assumes "CHR ''-'' \<notin> set s"
  shows "0 \<le> fst (atoi s) \<and> fst (atoi s) \<le> int_max"
proof -
  have "0 \<le> fst (atoi_digits False t) \<and> fst (atoi_digits False t) \<le> int_max" for t
    by (auto simp: atoi_digits_def int_max_def Let_def)
  moreover have "\<not> (\<exists>cs. s = CHR ''-'' # cs)" using assms by auto
  ultimately show ?thesis
    by (auto simp: atoi_def int_max_def split: list.splits)
qed

lemma interval_ends_range:
  "interval_ends v = (a, b) \<Longrightarrow> 0 \<le> a \<and> a \<le> int_max \<and> 0 \<le> b \<and> b \<le> int_max"
proof -
  have "CHR ''-'' \<notin> set (split_on CHR ''-'' v ! i)" if "i < length (split_on CHR ''-'' v)" for i
    using split_on_no_sep nth_mem [OF that] by blast
  from this [of 0] this [of "length (split_on CHR ''-'' v) - 1"]
  have "CHR ''-'' \<notin> set (split_on CHR ''-'' v ! 0)"
       "CHR ''-'' \<notin> set (split_on CHR ''-'' v ! (length (split_on CHR ''-'' v) - 1))"
    by auto
  from this [THEN atoi_no_minus]
  show "interval_ends v = (a, b) \<Longrightarrow> ?thesis"
    by (auto simp: interval_ends_def Let_def)
qed


subsection \<open>The merging loop\<close>

abbreviation ends_ok :: "int \<times> int \<Rightarrow> bool" where
  "ends_ok v \<equiv> 0 \<le> fst v \<and> fst v \<le> int_max \<and> 0 \<le> snd v \<and> snd v \<le> int_max"

lemma interval_ends_ok: "ends_ok (interval_ends v)"
  using interval_ends_range [of v] by (cases "interval_ends v") auto

lemma union_loop_snoc_last:
  "xs \<noteq> [] \<Longrightarrow> xs = butlast xs @ [(fst (last xs), snd (last xs))]"
  by simp

text \<open>One step keeps the union of all intervals.\<close>

lemma merge_denotes:
  assumes "acc \<noteq> []" "fst (last acc) \<le> a" "a \<le> wrap64 (snd (last acc) + 1)"
    and "ends_ok (last acc)" "0 \<le> a"
  shows "\<Union> (interval_txns ` set (if snd (last acc) < b then butlast acc @ [(fst (last acc), b)] else acc))
         = \<Union> (interval_txns ` set acc) \<union> {a..b}"
proof -
  obtain ys l r where acc: "acc = ys @ [(l, r)]"
    using assms(1) by (cases acc rule: rev_cases) auto
  have "a \<le> r + 1"
  proof (cases "r = int_max")
    case True
    with assms acc show ?thesis by (simp add: wrap64_max)
  next
    case False
    with assms acc show ?thesis by (simp add: wrap64_small)
  qed
  moreover have "l \<le> a" using assms(2) acc by simp
  ultimately show ?thesis
    by (auto simp: acc interval_txns_def)
qed

lemma union_loop_denotes:
  assumes "sorted xs" "\<forall>v \<in> set xs. ends_ok v" "\<forall>v \<in> set acc. ends_ok v"
    and "\<forall>v \<in> set xs. acc \<noteq> [] \<longrightarrow> fst (last acc) \<le> fst v"
  shows "\<Union> (interval_txns ` set (union_loop xs acc)) =
         \<Union> (interval_txns ` set acc) \<union> \<Union> (interval_txns ` set xs)
       \<and> (\<forall>v \<in> set (union_loop xs acc). ends_ok v)"
  using assms
proof (induction xs acc rule: union_loop.induct)
  case (2 a b rest acc)
  let ?merge = "acc \<noteq> [] \<and> a \<le> wrap64 (snd (last acc) + 1)"
  let ?acc = "if ?merge
        then (if snd (last acc) < b then butlast acc @ [(fst (last acc), b)] else acc)
        else acc @ [(a, b)]"
  have le: "\<forall>v \<in> set rest. a \<le> fst v"
    using "2.prems"(1) by (auto simp: less_eq_prod_def)
  have la: "acc \<noteq> [] \<longrightarrow> ends_ok (last acc) \<and> fst (last acc) \<le> a"
    using "2.prems" by auto
  have ok: "\<forall>v \<in> set ?acc. ends_ok v"
    using "2.prems" la by (auto dest: in_set_butlastD)
  have lst: "\<forall>v \<in> set rest. ?acc \<noteq> [] \<longrightarrow> fst (last ?acc) \<le> fst v"
    using le la by force
  have den: "\<Union> (interval_txns ` set ?acc) = \<Union> (interval_txns ` set acc) \<union> {a..b}"
  proof (cases ?merge)
    case True
    then have "?acc = (if snd (last acc) < b then butlast acc @ [(fst (last acc), b)] else acc)"
      by simp
    moreover have "0 \<le> a" using "2.prems"(2) by simp
    ultimately show ?thesis
      using merge_denotes [of acc a b] True la by argo
  qed (auto simp: interval_txns_def)
  have "sorted rest" "\<forall>v \<in> set rest. ends_ok v"
    using "2.prems" by auto
  note IH = "2.IH" [OF this ok lst]
  have step: "union_loop ((a, b) # rest) acc = union_loop rest ?acc"
    by (rule union_loop.simps)
  have cons: "\<Union> (interval_txns ` set ((a, b) # rest)) = {a..b} \<union> \<Union> (interval_txns ` set rest)"
    by (simp add: interval_txns_def)
  show ?case
    unfolding step cons using IH unfolding den by blast
qed auto


subsection \<open>Printing and reading back\<close>

lemma itoa_nonneg: "0 \<le> i \<Longrightarrow> itoa i = dec (nat i)"
  by (simp add: itoa_def)

lemma dec_seps:
  "CHR ''-'' \<notin> set (dec n)" "CHR '':'' \<notin> set (dec n)" "CHR '','' \<notin> set (dec n)"
  by (rule dec_no_sep, simp add: is_digit_def)+

lemma interval_ends_text: "ends_ok v \<Longrightarrow> interval_ends (interval_text v) = v"
  by (cases v)
     (auto simp: interval_text_def interval_ends_def split_on_single split_on_append
        itoa_nonneg dec_seps atoi_dec int_max_def nat_less_iff)

lemma interval_text_seps:
  "ends_ok v \<Longrightarrow> CHR '':'' \<notin> set (interval_text v) \<and> CHR '','' \<notin> set (interval_text v)"
  by (auto simp: interval_text_def itoa_nonneg dec_seps)

lemma join_chars: "c \<in> set (join sep xs) \<Longrightarrow> c \<in> set sep \<or> (\<exists>x \<in> set xs. c \<in> set x)"
  by (induction xs rule: induct_list012) auto

lemma split_on_chars: "x \<in> set (split_on c s) \<Longrightarrow> set x \<subseteq> set s"
proof (induction s arbitrary: x)
  case (Cons a s)
  obtain y ys where "split_on c s = y # ys" by (cases "split_on c s") auto
  with Cons show ?case by (fastforce split: if_splits)
qed simp

lemma set_uuid_seps:
  assumes "s \<in> set (split_on CHR '','' t)"
  shows "CHR '':'' \<notin> set (set_uuid s)" "CHR '','' \<notin> set (set_uuid s)"
proof -
  have "set_uuid s \<in> set (split_on CHR '':'' s)"
    by (simp add: set_uuid_def)
  with split_on_no_sep split_on_chars [of _ "CHR '':''" s] split_on_no_sep [OF assms]
  show "CHR '':'' \<notin> set (set_uuid s)" "CHR '','' \<notin> set (set_uuid s)"
    by (blast, blast)
qed

text \<open>The intervals the loop produces for one uuid.\<close>

abbreviation merged :: "string list \<Rightarrow> (int \<times> int) list" where
  "merged ivs \<equiv> union_loop (ArraySlice_sort (map interval_ends ivs)) []"

lemma merged_denotes:
  "\<Union> (interval_txns ` set (merged ivs)) = (\<Union>iv \<in> set ivs. interval_txns (interval_ends iv))"
  "\<forall>v \<in> set (merged ivs). ends_ok v"
  using union_loop_denotes [of "sort (map interval_ends ivs)" "[]"] interval_ends_ok
  by (auto simp: ArraySlice_sort_sort)

lemma union_text_split:
  assumes "CHR '':'' \<notin> set u"
  shows "set_uuid (union_text (u, ivs)) = u"
    and "merged ivs \<noteq> [] \<Longrightarrow> map interval_ends (set_intervals (union_text (u, ivs))) = merged ivs"
    and "merged ivs = [] \<Longrightarrow> set_intervals (union_text (u, ivs)) = [[]]"
proof -
  let ?ts = "map interval_text (merged ivs)"
  have sp: "split_on CHR '':'' (union_text (u, ivs)) = u # split_on CHR '':'' (join '':'' ?ts)"
    unfolding union_text_def fst_conv snd_conv append_Cons append_Nil
    by (rule split_on_append) (rule assms)
  then show "set_uuid (union_text (u, ivs)) = u"
    by (simp add: set_uuid_def)
  show "set_intervals (union_text (u, ivs)) = [[]]" if "merged ivs = []"
    using sp that by (simp add: set_intervals_def)
  show "map interval_ends (set_intervals (union_text (u, ivs))) = merged ivs" if "merged ivs \<noteq> []"
  proof -
    have "split_on CHR '':'' (join '':'' ?ts) = ?ts"
      by (rule split_join) (use that merged_denotes(2) [of ivs] interval_text_seps in auto)
    then show ?thesis
      using merged_denotes(2) [of ivs] interval_ends_text
      by (simp add: sp set_intervals_def map_idI)
  qed
qed

lemma union_text_txns:
  assumes "CHR '':'' \<notin> set u"
  shows "entry_txns (union_text (u, ivs)) =
         {(v, n). v = u \<and> 0 < n \<and> (\<exists>iv \<in> set ivs. n \<in> interval_txns (interval_ends iv))}"
proof (cases "merged ivs = []")
  case True
  have "interval_ends [] = (0, 0)"
    by (simp add: interval_ends_def atoi_def)
  with True merged_denotes(1) [of ivs] show ?thesis
    by (auto simp: entry_txns_def union_text_split [OF assms] interval_txns_def)
next
  case False
  have "(\<exists>iv \<in> set (set_intervals (union_text (u, ivs))). n \<in> interval_txns (interval_ends iv)) \<longleftrightarrow>
        n \<in> \<Union> (interval_txns ` set (map interval_ends (set_intervals (union_text (u, ivs)))))" for n
    by auto
  then show ?thesis
    by (auto simp: entry_txns_def union_text_split [OF assms] False merged_denotes(1))
qed

lemma union_text_no_comma:
  assumes "CHR '','' \<notin> set u" shows "CHR '','' \<notin> set (union_text (u, ivs))"
proof
  assume "CHR '','' \<in> set (union_text (u, ivs))"
  with assms have "CHR '','' \<in> set (join '':'' (map interval_text (merged ivs)))"
    by (auto simp: union_text_def)
  from join_chars [OF this] merged_denotes(2) [of ivs] interval_text_seps show False
    by auto
qed


lemma entry_txns_intervals_of:
  "(\<Union>s \<in> set sets. entry_txns s) =
   (\<Union>u \<in> set_uuid ` set sets. {(v, n). v = u \<and> 0 < n \<and>
      (\<exists>iv \<in> set (intervals_of sets u). n \<in> interval_txns (interval_ends iv))})"
  by (auto simp: entry_txns_def intervals_of_def)

lemma group_text_txns:
  assumes "\<forall>s \<in> set sets. CHR '':'' \<notin> set (set_uuid s)"
  shows "\<Union> (entry_txns ` set (sort (map union_text (group_sets sets)))) = (\<Union>s \<in> set sets. entry_txns s)"
proof -
  have "\<Union> (entry_txns ` set (sort (map union_text (group_sets sets)))) =
        (\<Union>u \<in> set_uuid ` set sets. entry_txns (union_text (u, intervals_of sets u)))"
    by (simp add: group_sets_set image_image)
  also have "\<dots> = (\<Union>u \<in> set_uuid ` set sets. {(v, n). v = u \<and> 0 < n \<and>
      (\<exists>iv \<in> set (intervals_of sets u). n \<in> interval_txns (interval_ends iv))})"
    by (rule SUP_cong) (use assms union_text_txns in auto)
  finally show ?thesis
    by (simp only: entry_txns_intervals_of)
qed

lemma gtid_txns_empty: "gtid_txns [] = {}"
  by (simp add: gtid_txns_def entry_txns_def set_intervals_def)

lemma split_group_text:
  fixes s1 s2
  defines "sets \<equiv> split_on CHR '','' s1 @ split_on CHR '','' s2"
  shows "split_on CHR '','' (join '','' (sort (map union_text (group_sets sets)))) =
         sort (map union_text (group_sets sets))"
proof (rule split_join)
  have "set_uuid (hd sets) \<in> fst ` set (group_sets sets)"
    by (simp add: sets_def group_sets_set image_image)
  then have "set (sort (map union_text (group_sets sets))) \<noteq> {}" by auto
  then show "sort (map union_text (group_sets sets)) \<noteq> []"
    by (metis set_empty)
  show "\<forall>x \<in> set (sort (map union_text (group_sets sets))). CHR '','' \<notin> set x"
    using set_uuid_seps(2) [of _ s1] set_uuid_seps(2) [of _ s2]
    by (auto simp: sets_def group_sets_set intro!: union_text_no_comma)
qed

subsection \<open>The order of the arguments\<close>

lemma intervals_of_mset:
  "mset a = mset b \<Longrightarrow> mset (intervals_of a u) = mset (intervals_of b u)"
proof -
  have "mset (concat (map set_intervals xs)) = (\<Sum>x \<in># mset xs. mset (set_intervals x))" for xs
    by (induction xs) simp_all
  moreover assume "mset a = mset b"
  then have "mset (filter (\<lambda>s. set_uuid s = u) a) = mset (filter (\<lambda>s. set_uuid s = u) b)"
    by (simp add: mset_filter)
  ultimately show ?thesis
    by (simp add: intervals_of_def)
qed

lemma merged_mset: "mset a = mset b \<Longrightarrow> merged a = merged b"
  by (simp add: ArraySlice_sort_sort) (metis mset_map sorted_list_of_multiset_mset)

lemma group_text_mset:
  assumes "mset a = mset b"
  shows "sort (map union_text (group_sets a)) = sort (map union_text (group_sets b))"
proof -
  have set_eq: "set a = set b" using assms by (metis set_mset_mset)
  let ?f = "\<lambda>sets u. (u, intervals_of sets u)"
  have ms: "mset (group_sets sets) = image_mset (?f sets) (mset_set (set_uuid ` set sets))" for sets
  proof -
    have "distinct (group_sets sets)"
      using group_sets_distinct [of sets] by (simp add: distinct_map)
    then have "mset (group_sets sets) = mset_set (set (group_sets sets))"
      by (simp add: mset_set_set)
    also have "\<dots> = image_mset (?f sets) (mset_set (set_uuid ` set sets))"
      by (simp add: group_sets_set image_mset_mset_set inj_on_def)
    finally show ?thesis .
  qed
  have "union_text (u, intervals_of a u) = union_text (u, intervals_of b u)" for u
    unfolding union_text_def using merged_mset [OF intervals_of_mset [OF assms]] by simp
  then have "mset (map union_text (group_sets a)) = mset (map union_text (group_sets b))"
    by (simp add: ms set_eq image_mset.compositionality comp_def)
  then show ?thesis by (metis sorted_list_of_multiset_mset)
qed

subsection \<open>The shape of the result\<close>

text \<open>Intervals in increasing order, none empty, and a gap between any two of them.\<close>

definition separated :: "(int \<times> int) list \<Rightarrow> bool" where
  "separated vs \<longleftrightarrow> sorted_wrt (\<lambda>v w. snd v + 1 < fst w) vs \<and> (\<forall>v \<in> set vs. fst v \<le> snd v)"

lemma separated_snoc:
  "separated (vs @ [(a, b)]) \<longleftrightarrow> separated vs \<and> (\<forall>v \<in> set vs. snd v + 1 < a) \<and> a \<le> b"
  by (auto simp: separated_def sorted_wrt_append)

lemma separated_snoc2:
  "separated (vs @ [(l, r), (a, b)]) \<longleftrightarrow>
   separated (vs @ [(l, r)]) \<and> (\<forall>v \<in> set vs. snd v + 1 < a) \<and> r + 1 < a \<and> a \<le> b"
  using separated_snoc [of "vs @ [(l, r)]" a b] by auto

lemma union_loop_separated:
  assumes "\<forall>v \<in> set xs. 0 \<le> fst v \<and> fst v \<le> snd v \<and> snd v < int_max"
    and "\<forall>v \<in> set acc. 0 \<le> fst v \<and> snd v < int_max" "separated acc"
  shows "separated (union_loop xs acc)"
  using assms
proof (induction xs acc rule: union_loop.induct)
  case (2 a b rest acc)
  let ?acc = "if acc \<noteq> [] \<and> a \<le> wrap64 (snd (last acc) + 1)
        then (if snd (last acc) < b then butlast acc @ [(fst (last acc), b)] else acc)
        else acc @ [(a, b)]"
  have ab: "0 \<le> a" "a \<le> b" "b < int_max" using "2.prems"(1) by auto
  have "separated ?acc \<and> (\<forall>v \<in> set ?acc. 0 \<le> fst v \<and> snd v < int_max)"
  proof (cases acc rule: rev_cases)
    case Nil
    with ab show ?thesis by (simp add: separated_def)
  next
    case (snoc ys lr)
    obtain l r where lr: "lr = (l, r)" by force
    have w: "wrap64 (r + 1) = r + 1"
      using "2.prems"(2,3) snoc lr by (intro wrap64_small) (auto simp: separated_def)
    have "\<forall>v \<in> set ys. snd v + 1 < l" "l \<le> r"
      using "2.prems"(3) snoc lr by (auto simp: separated_snoc)
    moreover from this have "\<forall>v \<in> set ys. snd v + 1 < a" if "\<not> a \<le> r + 1"
      using that by force
    ultimately show ?thesis
      using "2.prems"(2,3) snoc lr ab w by (auto simp: separated_snoc separated_snoc2)
  qed
  with "2.IH" "2.prems"(1) show ?case by simp
qed simp

lemma merged_separated:
  assumes "\<forall>iv \<in> set ivs. fst (interval_ends iv) \<le> snd (interval_ends iv) \<and> snd (interval_ends iv) < int_max"
  shows "separated (merged ivs)"
proof (rule union_loop_separated)
  show "\<forall>v \<in> set (ArraySlice_sort (map interval_ends ivs)). 0 \<le> fst v \<and> fst v \<le> snd v \<and> snd v < int_max"
    using assms interval_ends_ok by (auto simp: ArraySlice_sort_sort)
qed (simp_all add: separated_def)


subsection \<open>Properties\<close>

text \<open>
  C17: the text that \<open>GTIDSetUnion\<close> returns denotes exactly the
  transactions of its two arguments, whatever they are: overlapping, adjacent, repeated or
  empty intervals, repeated uuids, numbers that do not parse.
\<close>

theorem GTIDSetUnion_denotes:
  "gtid_txns (GTIDSetUnion s1 s2) = gtid_txns s1 \<union> gtid_txns s2"
proof (cases "s1 = [] \<or> s2 = []")
  case False
  let ?sets = "split_on CHR '','' s1 @ split_on CHR '','' s2"
  have "gtid_txns (GTIDSetUnion s1 s2) = \<Union> (entry_txns ` set (sort (map union_text (group_sets ?sets))))"
    using False by (simp add: GTIDSetUnion_def gtid_txns_def Let_def split_group_text del: sort_append)
  also have "\<dots> = (\<Union>s \<in> set ?sets. entry_txns s)"
    by (rule group_text_txns) (use set_uuid_seps(1) in auto)
  finally show ?thesis
    by (auto simp: gtid_txns_def)
qed (auto simp: gtid_txns_empty GTIDSetUnion_def)

text \<open>
  The order of the arguments does not matter for the text
  either, so two members that hold the two halves of a set compare the same text.
\<close>

lemma GTIDSetUnion_commute: "GTIDSetUnion s1 s2 = GTIDSetUnion s2 s1"
  unfolding GTIDSetUnion_def Let_def
  using group_text_mset [of "split_on CHR '','' s1 @ split_on CHR '','' s2"
      "split_on CHR '','' s2 @ split_on CHR '','' s1"]
  by auto

text \<open>
  The intervals that the result holds for a uuid are in
  increasing order, none is empty, and neighbours are separated by at least one missing
  transaction, when the intervals of the arguments are well formed.
\<close>

lemma GTIDSetUnion_separated:
  assumes "s1 \<noteq> []" "s2 \<noteq> []"
    and "\<forall>s \<in> set (split_on CHR '','' s1 @ split_on CHR '','' s2). \<forall>iv \<in> set (set_intervals s).
           fst (interval_ends iv) \<le> snd (interval_ends iv) \<and> snd (interval_ends iv) < int_max"
    and "e \<in> set (split_on CHR '','' (GTIDSetUnion s1 s2))"
    and "set_intervals e \<noteq> [[]]"
  shows "separated (map interval_ends (set_intervals e))"
proof -
  let ?sets = "split_on CHR '','' s1 @ split_on CHR '','' s2"
  from assms(1,2,4) obtain u where u: "u \<in> set_uuid ` set ?sets" and e: "e = union_text (u, intervals_of ?sets u)"
    by (auto simp: GTIDSetUnion_def Let_def split_group_text group_sets_set)
  have "CHR '':'' \<notin> set u"
    using u set_uuid_seps(1) by auto
  from union_text_split(2,3) [OF this, of "intervals_of ?sets u"] assms(5) e
  have "map interval_ends (set_intervals e) = merged (intervals_of ?sets u)"
    by blast
  moreover have "separated (merged (intervals_of ?sets u))"
    by (rule merged_separated) (use assms(3) in \<open>force simp: intervals_of_def\<close>)
  ultimately show ?thesis by simp
qed

lemma GTIDSetUnion_separated_example:
  "GTIDSetUnion ''a:4-6:1'' ''b:7,a:2-3'' = ''a:1-6,b:7'' \<and>
   separated (map interval_ends (set_intervals ''a:1-6''))"
proof
  show eq: "GTIDSetUnion ''a:4-6:1'' ''b:7,a:2-3'' = ''a:1-6,b:7''" by code_simp
  have ends: "\<forall>s \<in> set (split_on CHR '','' ''a:4-6:1'' @ split_on CHR '','' ''b:7,a:2-3'').
      \<forall>iv \<in> set (set_intervals s).
        fst (interval_ends iv) \<le> snd (interval_ends iv) \<and> snd (interval_ends iv) < int_max"
    by code_simp
  have mem: "''a:1-6'' \<in> set (split_on CHR '','' ''a:1-6,b:7'')" and ne: "set_intervals ''a:1-6'' \<noteq> [[]]"
    by code_simp+
  show "separated (map interval_ends (set_intervals ''a:1-6''))"
    by (rule GTIDSetUnion_separated [OF _ _ ends _ ne]) (simp_all only: eq mem, simp_all)
qed

end
