(* ===== verification/Mysql.thy ===== *)
theory Mysql
  imports MysqlBase GtidSet
begin

section \<open>The local MySQL as the HA layer sees it (mysql.go, attr.go, api.go, stats.go)\<close>

text \<open>
  \<open>'w mysql\<close> is the struct \<open>Mysql\<close> with the outside world it talks to. Its mutable
  fields are those of the Go struct: the pool (open or not), the state and option, the
  last ping entry, the count of failed pings and the reason of death. \<open>my_panicked\<close>
  records that a call would have ended the process (\<open>GetLocalMGRStat\<close> on MySQL 5.6).
  The mutexes of the struct make each operation on a field atomic, and the model runs one
  method at a time.

  Shown here: what a ping does to state, counter and option on every branch, when a dead
  MySQL defers a failover, and that comparing two binlog coordinates as padded upper-case
  text is comparing them as numbers.
\<close>

record BackupConfig =
  bk_SSHHost :: string
  bk_SSHUser :: string
  bk_SSHPasswd :: string
  bk_SSHPort :: int
  bk_BackupDir :: string
  bk_XtrabackupBinDir :: string
  bk_BackupIOPSLimits :: int
  bk_UseMemory :: string
  bk_Parallel :: int
  bk_MysqldMonitorInterval :: int
  bk_MaxAllowedLocalTrxCount :: int
  bk_Admin :: string
  bk_Passwd :: string
  bk_Host :: string
  bk_Port :: int
  bk_Basedir :: string
  bk_DefaultsFile :: string

record MysqlConfig =
  mc_Admin :: string
  mc_Passwd :: string
  mc_Host :: string
  mc_Port :: int
  mc_Basedir :: string
  mc_Version :: string
  mc_DefaultsFile :: string
  mc_ReplMode :: MysqlReplMode
  mc_PingTimeout :: int
  mc_AdmitDefeatPingCnt :: int
  mc_MaxOpenConns :: int
  mc_MaxIdleConns :: int
  mc_FailoverOnTooManyConnections :: bool
  mc_SemiSyncTimeoutForTwoNodes :: "64 word"
  mc_MasterSysVars :: string
  mc_SlaveSysVars :: string
  mc_MonitorDisabled :: bool
  mc_ReplHost :: string
  mc_ReplUser :: string
  mc_ReplPasswd :: string
  mc_ReplGtidPurged :: string
  mc_Backup :: "BackupConfig option"

definition MysqlReadonly :: string where "MysqlReadonly = ''READONLY''"
definition MysqlReadwrite :: string where "MysqlReadwrite = ''READWRITE''"

lemma options_distinct [simp]:
  "MysqlReadonly \<noteq> MysqlReadwrite" "MysqlReadwrite \<noteq> MysqlReadonly"
  "MysqlReadonly \<noteq> []" "MysqlReadwrite \<noteq> []"
  by (simp_all add: MysqlReadonly_def MysqlReadwrite_def)

record 'w mysql =
  my_conf :: MysqlConfig
  my_db :: bool
  my_state :: MysqlState
  my_option :: string
  my_handler :: handler
  my_Relay_Master_Log_File :: string
  my_downs :: int
  my_deadDueToTooManyConnections :: bool
  my_MysqlDowns :: "64 word"
  my_panicked :: bool
  my_world :: 'w

definition NewMysql :: "MysqlConfig \<Rightarrow> int \<Rightarrow> 'w \<Rightarrow> 'w mysql" where
  "NewMysql conf qt w =
     \<lparr>my_conf = conf, my_db = False, my_state = MysqlDead, my_option = [],
      my_handler = SetQueryTimeout qt (SetReplMode (mc_ReplMode conf)
        \<lparr>version = getMysqlHandler (mc_Version conf), replMode = [], queryTimeout = 0,
         mgrQueryTimeout = 0\<rparr>),
      my_Relay_Master_Log_File = [], my_downs = 0, my_deadDueToTooManyConnections = False,
      my_MysqlDowns = 0, my_panicked = False, my_world = w\<rparr>"


subsection \<open>Fields (attr.go, stats.go)\<close>

definition SetMysqlHandler :: "handler \<Rightarrow> ('w mysql, unit) state" where
  "SetMysqlHandler h = modify (\<lambda>m. m\<lparr>my_handler := h\<rparr>)"

definition GetMysqlHandler :: "('w mysql, handler) state" where
  "GetMysqlHandler = gets my_handler"

definition Mysql_setState :: "MysqlState \<Rightarrow> ('w mysql, unit) state" where
  "Mysql_setState st = modify (\<lambda>m. m\<lparr>my_state := st\<rparr>)"

definition Mysql_SetState :: "MysqlState \<Rightarrow> ('w mysql, unit) state" where
  "Mysql_SetState st = Mysql_setState st"

definition Mysql_getState :: "('w mysql, MysqlState) state" where
  "Mysql_getState = gets my_state"

definition Mysql_setOption :: "string \<Rightarrow> ('w mysql, unit) state" where
  "Mysql_setOption opt = modify (\<lambda>m. m\<lparr>my_option := opt\<rparr>)"

definition Mysql_getOption :: "('w mysql, string) state" where
  "Mysql_getOption = gets my_option"

definition IncMysqlDowns :: "('w mysql, unit) state" where
  "IncMysqlDowns = modify (\<lambda>m. m\<lparr>my_MysqlDowns := my_MysqlDowns m + 1\<rparr>)"

definition Mysql_getStats :: "('w mysql, 64 word) state" where
  "Mysql_getStats = gets my_MysqlDowns"

definition setDeadDueToTooManyConnections :: "bool \<Rightarrow> ('w mysql, unit) state" where
  "setDeadDueToTooManyConnections v = modify (\<lambda>m. m\<lparr>my_deadDueToTooManyConnections := v\<rparr>)"

definition clearDeadDueToTooManyConnections :: "('w mysql, unit) state" where
  "clearDeadDueToTooManyConnections = setDeadDueToTooManyConnections False"

definition erTooManyConnections :: nat where
  "erTooManyConnections = 1040"

text \<open>\<open>mysql_errors.go\<close>\<close>

definition isTooManyConnections :: "gerror option \<Rightarrow> bool" where
  "isTooManyConnections err = (case err of
       None \<Rightarrow> False
     | Some (MySQLErr number t) \<Rightarrow> number = erTooManyConnections
     | Some (GoErr t) \<Rightarrow> contains t ''Too many connections'')"


subsection \<open>The pool and the calls through it\<close>

definition on_world :: "('w, 'a) state \<Rightarrow> ('w mysql, 'a) state" where
  "on_world k = zoom my_world (\<lambda>w m. m\<lparr>my_world := w\<rparr>) k"

text \<open>The pool limits of \<open>configureDBPool\<close>, handed to \<open>database/sql\<close>.\<close>

definition configureDBPool :: "MysqlConfig \<Rightarrow> int \<times> int" where
  "configureDBPool conf =
     (let maxOpen = (if mc_MaxOpenConns conf \<le> 0 then 2 else mc_MaxOpenConns conf);
          maxIdle = (if mc_MaxIdleConns conf \<le> 0 then maxOpen else mc_MaxIdleConns conf)
      in (maxOpen, maxIdle))"

definition connstr :: "MysqlConfig \<Rightarrow> string" where
  "connstr c = mc_Admin c @ '':'' @ mc_Passwd c @ ''@tcp('' @ mc_Host c @ '':'' @ itoa (mc_Port c) @ '')/''"

definition Mysql_getDB :: "'w dbenv \<Rightarrow> ('w mysql, gerror option) state" where
  "Mysql_getDB E = do {
     db \<leftarrow> gets my_db;
     (if db then ret None
      else do {
        c \<leftarrow> gets my_conf;
        e \<leftarrow> on_world (State (sql_open E (connstr c)));
        (case e of Some err \<Rightarrow> ret (Some err)
         | None \<Rightarrow> do { modify (\<lambda>m. m\<lparr>my_db := True\<rparr>); ret None }) }) }"

definition resetDB :: "'w dbenv \<Rightarrow> ('w mysql, unit) state" where
  "resetDB E = do {
     db \<leftarrow> gets my_db;
     whenM db (do {
       on_world (modify (db_close E));
       modify (\<lambda>m. m\<lparr>my_db := False\<rparr>) }) }"

text \<open>
  \<open>db, err := m.getDB(); if err != nil { return ..., err }; return m.mysqlHandler.X(db, ...)\<close>:
  the body of most methods of api.go.
\<close>

definition with_db :: "'w dbenv \<Rightarrow> (gerror \<Rightarrow> 'a) \<Rightarrow> (handler \<Rightarrow> ('w, 'a) state) \<Rightarrow> ('w mysql, 'a) state" where
  "with_db E failed k = do {
     e \<leftarrow> Mysql_getDB E;
     (case e of Some err \<Rightarrow> ret (failed err)
      | None \<Rightarrow> do { h \<leftarrow> gets my_handler; on_world (k h) }) }"

abbreviation with_db_err ::
    "'w dbenv \<Rightarrow> (handler \<Rightarrow> ('w, gerror option) state) \<Rightarrow> ('w mysql, gerror option) state" where
  "with_db_err E k \<equiv> with_db E Some k"


subsection \<open>Ping\<close>

definition handlePingFailure :: "'w dbenv \<Rightarrow> gerror \<Rightarrow> int \<Rightarrow> ('w mysql, unit) state" where
  "handlePingFailure E err downsLimits = do {
     downs \<leftarrow> gets my_downs;
     whenM (downs > downsLimits) (do {
       setDeadDueToTooManyConnections (isTooManyConnections (Some err));
       resetDB E;
       Mysql_setState MysqlDead });
     IncMysqlDowns;
     modify (\<lambda>m. m\<lparr>my_downs := my_downs m + 1\<rparr>) }"

definition ping_check_user :: "'w dbenv \<Rightarrow> ('w mysql, unit) state" where
  "ping_check_user E = do {
     h \<leftarrow> gets my_handler;
     c \<leftarrow> gets my_conf;
     (exists, e) \<leftarrow> on_world (MysqlBase_CheckUserExists E h (mc_ReplUser c) ''%'');
     whenM (e = None \<and> \<not> exists)
       (call (on_world (MysqlBase_CreateReplUserWithoutBinlog E h (mc_ReplUser c) (mc_ReplPasswd c)))) }"

definition Mysql_Ping :: "'w dbenv \<Rightarrow> ('w mysql, unit) state" where
  "Mysql_Ping E = do {
     downsLimits \<leftarrow> gets (\<lambda>m. mc_AdmitDefeatPingCnt (my_conf m));
     e \<leftarrow> Mysql_getDB E;
     (case e of Some err \<Rightarrow> handlePingFailure E err downsLimits
      | None \<Rightarrow> do {
          h \<leftarrow> gets my_handler;
          (pe, e2) \<leftarrow> on_world (MysqlBase_Ping E h);
          (case e2 of Some err \<Rightarrow> handlePingFailure E err downsLimits
           | None \<Rightarrow> do {
               ping_check_user E;
               modify (\<lambda>m. m\<lparr>my_downs := 0\<rparr>);
               clearDeadDueToTooManyConnections;
               Mysql_setState MysqlAlive;
               modify (\<lambda>m. m\<lparr>my_Relay_Master_Log_File := pe\<rparr>) }) }) }"

definition ShouldDeferFailover :: "('w mysql, bool) state" where
  "ShouldDeferFailover = gets (\<lambda>m.
     (if mc_FailoverOnTooManyConnections (my_conf m) then False
      else my_state m = MysqlDead \<and> my_deadDueToTooManyConnections m))"

definition Warmup :: "'w dbenv \<Rightarrow> ('w mysql, gerror option) state" where
  "Warmup E = with_db_err E (\<lambda>h. State (db_ping E))"

text \<open>
  \<open>PingStart\<close> warms the pool up and leaves the pings to a ticker: a sequence of \<open>Mysql_Ping\<close>s.
\<close>

definition PingStart :: "'w dbenv \<Rightarrow> ('w mysql, unit) state" where
  "PingStart E = call (Warmup E)"

text \<open>
  \<open>WaitMysqlWorks\<close> pings until MySQL is alive or the timer fires; \<open>rounds\<close> is the number
  of pings that finish before the timer, which the clock decides.
\<close>

fun ping_rounds :: "'w dbenv \<Rightarrow> nat \<Rightarrow> ('w mysql, bool) state" where
  "ping_rounds E 0 = ret False"
| "ping_rounds E (Suc n) = do {
     Mysql_Ping E;
     st \<leftarrow> Mysql_getState;
     (if st = MysqlAlive then ret True
      else do { on_world (modify (sleep_ms E 1000)); ping_rounds E n }) }"

definition Mysql_WaitMysqlWorks :: "'w dbenv \<Rightarrow> nat \<Rightarrow> int \<Rightarrow> ('w mysql, gerror option) state" where
  "Mysql_WaitMysqlWorks E rounds timeout = do {
     alive \<leftarrow> ping_rounds E rounds;
     ret (if alive then None
          else Some (GoErr (''WaitMysqlWorks.Timeout['' @ itoa timeout @ ''ms]''))) }"


subsection \<open>Coordinates\<close>

definition Mysql_GetMGRGTID :: "'w dbenv \<Rightarrow> ('w mysql, GTID res) state" where
  "Mysql_GetMGRGTID E = with_db E (\<lambda>e. (zero_GTID, Some e)) (MysqlBase_GetMGRGTID E)"

definition Mysql_GetUUID :: "'w dbenv \<Rightarrow> ('w mysql, string res) state" where
  "Mysql_GetUUID E = with_db E (\<lambda>e. ([], Some e)) (MysqlBase_GetUUID E)"

definition Mysql_GetMasterGTID :: "'w dbenv \<Rightarrow> ('w mysql, GTID res) state" where
  "Mysql_GetMasterGTID E = with_db E (\<lambda>e. (zero_GTID, Some e)) (MysqlBase_GetMasterGTID E)"

definition Mysql_GetSlaveGTID :: "'w dbenv \<Rightarrow> ('w mysql, GTID res) state" where
  "Mysql_GetSlaveGTID E = with_db E (\<lambda>e. (zero_GTID, Some e)) (MysqlBase_GetSlaveGTID E)"

definition Mysql_GetReplMode :: "('w mysql, MysqlReplMode) state" where
  "Mysql_GetReplMode = gets (\<lambda>m. replMode (my_handler m))"

definition Mysql_SetReplMode :: "MysqlReplMode \<Rightarrow> ('w mysql, unit) state" where
  "Mysql_SetReplMode mode = modify (\<lambda>m. m\<lparr>my_handler := SetReplMode mode (my_handler m)\<rparr>)"

text \<open>\<open>(gtid, err)\<close>: the GTID is the zero value when there is an error.\<close>

definition on_err_zero :: "GTID res \<Rightarrow> GTID res" where
  "on_err_zero r = (case snd r of Some err \<Rightarrow> (zero_GTID, Some err) | None \<Rightarrow> (fst r, None))"

definition Mysql_GetGTID :: "'w dbenv \<Rightarrow> ('w mysql, GTID res) state" where
  "Mysql_GetGTID E = do {
     mode \<leftarrow> Mysql_GetReplMode;
     (if mode = ReplModeMGR then do { r \<leftarrow> Mysql_GetMGRGTID E; ret (on_err_zero r) }
      else do {
        (gtid, e) \<leftarrow> Mysql_GetSlaveGTID E;
        (case e of Some err \<Rightarrow> ret (zero_GTID, Some err)
         | None \<Rightarrow>
           (if Slave_IO_Running_Str gtid = [] \<and> Slave_SQL_Running_Str gtid = []
            then do { r \<leftarrow> Mysql_GetMasterGTID E; ret (on_err_zero r) }
            else ret (gtid, None))) }) }"

definition Mysql_Promotable :: "'w dbenv \<Rightarrow> ('w mysql, bool) state" where
  "Mysql_Promotable E = do {
     st \<leftarrow> Mysql_getState;
     (if st = MysqlAlive then do {
        (gtid, e) \<leftarrow> Mysql_GetGTID E;
        (case e of Some err \<Rightarrow> ret False
         | None \<Rightarrow> do {
             mode \<leftarrow> Mysql_GetReplMode;
             ret (if mode = ReplModeSemiSync then Slave_SQL_Running gtid
                  else Txns_Behind_Master gtid = ''0'' \<or> Txns_Behind_Master gtid = []) }) }
      else ret False) }"

definition MGRGTIDGreaterThan :: "'w dbenv \<Rightarrow> GTID \<Rightarrow> ('w mysql, bool \<times> GTID res) state" where
  "MGRGTIDGreaterThan E gtid = do {
     (this, e) \<leftarrow> Mysql_GetGTID E;
     (case e of Some err \<Rightarrow> ret (False, this, Some err)
      | None \<Rightarrow> do {
          let my_union = GTIDSetUnion (Executed_GTID_Set this) (Retrieved_GTID_Set this);
          let from_union = GTIDSetUnion (Executed_GTID_Set gtid) (Retrieved_GTID_Set gtid);
          e2 \<leftarrow> Mysql_getDB E;
          (case e2 of Some err \<Rightarrow> ret (False, this, Some err)
           | None \<Rightarrow> do {
               h \<leftarrow> gets my_handler;
               (r, e3) \<leftarrow> on_world (MysqlBase_GTIDBigger E h my_union from_union);
               ret (e3 = None \<and> r, this, None) }) }) }"

definition binlog_key :: "GTID \<Rightarrow> string" where
  "binlog_key g = to_upper (Master_Log_File g @ '':'' @ pad16 (unat (Read_Master_Log_Pos g)))"

definition seconds_less :: "GTID \<Rightarrow> GTID \<Rightarrow> bool option" where
  "seconds_less this gtid =
     (case (atoi (Seconds_Behind_Master this), atoi (Seconds_Behind_Master gtid)) of
        ((thislag, None), (gtidlag, None)) \<Rightarrow> Some (thislag < gtidlag)
      | _ \<Rightarrow> None)"

definition binlog_greater :: "GTID \<Rightarrow> GTID \<Rightarrow> bool" where
  "binlog_greater this gtid =
     (let a = binlog_key this; b = binlog_key gtid in
      if a = b then (case seconds_less this gtid of Some lt \<Rightarrow> lt | None \<Rightarrow> False)
      else b < a)"

definition SemiSyncGTIDGreaterThan :: "'w dbenv \<Rightarrow> GTID \<Rightarrow> ('w mysql, bool \<times> GTID res) state" where
  "SemiSyncGTIDGreaterThan E gtid = do {
     (this, e) \<leftarrow> Mysql_GetGTID E;
     (case e of Some err \<Rightarrow> ret (False, this, Some err)
      | None \<Rightarrow> ret (binlog_greater this gtid, this, None)) }"

definition Mysql_GTIDGreaterThan :: "'w dbenv \<Rightarrow> GTID \<Rightarrow> ('w mysql, bool \<times> GTID res) state" where
  "Mysql_GTIDGreaterThan E gtid = do {
     mode \<leftarrow> Mysql_GetReplMode;
     (if mode = ReplModeMGR then MGRGTIDGreaterThan E gtid else SemiSyncGTIDGreaterThan E gtid) }"

definition Mysql_GetLocalGTID :: "'w dbenv \<Rightarrow> string \<Rightarrow> ('w mysql, string res) state" where
  "Mysql_GetLocalGTID E gtid =
     (if gtid = [] then ret ([], None)
      else do {
        (uuid, e) \<leftarrow> Mysql_GetUUID E;
        ret (case e of Some err \<Rightarrow> ([], Some err)
         | None \<Rightarrow> (case List.find (\<lambda>g. contains g uuid) (split_on CHR '','' gtid) of
              None \<Rightarrow> ([], None) | Some g \<Rightarrow> (g, None))) })"

definition Mysql_GetGTIDSubtract :: "'w dbenv \<Rightarrow> string \<Rightarrow> string \<Rightarrow> ('w mysql, string res) state" where
  "Mysql_GetGTIDSubtract E subsetGTID setGTID =
     with_db E (\<lambda>e. ([], Some e)) (\<lambda>h. MysqlBase_GetGTIDSubtract E h subsetGTID setGTID)"

definition Mysql_CheckGTID :: "'w dbenv \<Rightarrow> GTID \<Rightarrow> GTID \<Rightarrow> ('w mysql, bool) state" where
  "Mysql_CheckGTID E followerGTID candidateGTID = do {
     (fGTID, _) \<leftarrow> Mysql_GetLocalGTID E (Executed_GTID_Set followerGTID);
     (cGTID, _) \<leftarrow> Mysql_GetLocalGTID E (Executed_GTID_Set candidateGTID);
     (if fGTID = [] then ret False
      else if cGTID = [] then ret False
      else do {
        (sub, e) \<leftarrow> Mysql_GetGTIDSubtract E fGTID cGTID;
        ret (e = None \<and> sub \<noteq> []) }) }"


subsection \<open>Role changes\<close>

definition Mysql_SetReadOnly :: "'w dbenv \<Rightarrow> ('w mysql, gerror option) state" where
  "Mysql_SetReadOnly E = do {
     e \<leftarrow> with_db_err E (\<lambda>h. MysqlBase_SetReadOnly E h True);
     (case e of Some err \<Rightarrow> ret (Some err)
      | None \<Rightarrow> do { Mysql_setOption MysqlReadonly; ret None }) }"

definition Mysql_SetReadWrite :: "'w dbenv \<Rightarrow> ('w mysql, gerror option) state" where
  "Mysql_SetReadWrite E = do {
     e \<leftarrow> with_db_err E (\<lambda>h. MysqlBase_SetReadOnly E h False);
     (case e of Some err \<Rightarrow> ret (Some err)
      | None \<Rightarrow> do { Mysql_setOption MysqlReadwrite; ret None }) }"


subsection \<open>Methods that hand the call to the handler\<close>

definition Mysql_StartSlaveIOThread :: "'w dbenv \<Rightarrow> ('w mysql, gerror option) state" where
  "Mysql_StartSlaveIOThread E = with_db_err E (MysqlBase_StartSlaveIOThread E)"

definition Mysql_StopSlaveIOThread :: "'w dbenv \<Rightarrow> ('w mysql, gerror option) state" where
  "Mysql_StopSlaveIOThread E = with_db_err E (MysqlBase_StopSlaveIOThread E)"

definition Mysql_StartSlave :: "'w dbenv \<Rightarrow> ('w mysql, gerror option) state" where
  "Mysql_StartSlave E = with_db_err E (MysqlBase_StartSlave E)"

definition Mysql_StopSlave :: "'w dbenv \<Rightarrow> ('w mysql, gerror option) state" where
  "Mysql_StopSlave E = with_db_err E (MysqlBase_StopSlave E)"

definition Mysql_ChangeMasterTo :: "'w dbenv \<Rightarrow> Repl \<Rightarrow> ('w mysql, gerror option) state" where
  "Mysql_ChangeMasterTo E repl = with_db_err E (\<lambda>h. MysqlBase_ChangeMasterTo E h repl)"

definition Mysql_IsMGRRunningOK :: "'w dbenv \<Rightarrow> ('w mysql, bool res) state" where
  "Mysql_IsMGRRunningOK E = with_db E (\<lambda>e. (False, Some e)) (MysqlBase_IsMGRRunningOK E)"

definition Mysql_StartMGR :: "'w dbenv \<Rightarrow> ('w mysql, gerror option) state" where
  "Mysql_StartMGR E = with_db_err E (MysqlBase_StartMGR E)"

definition Mysql_StopMGR :: "'w dbenv \<Rightarrow> ('w mysql, gerror option) state" where
  "Mysql_StopMGR E = with_db_err E (MysqlBase_StopMGR E)"

definition Mysql_MGRChangeMasterTo :: "'w dbenv \<Rightarrow> Repl \<Rightarrow> ('w mysql, gerror option) state" where
  "Mysql_MGRChangeMasterTo E repl = with_db_err E (\<lambda>h. MysqlBase_MGRChangeMasterTo E h repl)"

definition Mysql_ResetSlave :: "'w dbenv \<Rightarrow> ('w mysql, gerror option) state" where
  "Mysql_ResetSlave E = with_db_err E (MysqlBase_ResetSlave E)"

definition Mysql_ChangeToMaster :: "'w dbenv \<Rightarrow> Repl \<Rightarrow> ('w mysql, gerror option) state" where
  "Mysql_ChangeToMaster E repl = with_db_err E (\<lambda>h. MysqlBase_ChangeToMaster E h repl)"

definition Mysql_ResetSlaveAll :: "'w dbenv \<Rightarrow> ('w mysql, gerror option) state" where
  "Mysql_ResetSlaveAll E = with_db_err E (MysqlBase_ResetSlaveAll E)"

definition Mysql_WaitUntilAfterGTID :: "'w dbenv \<Rightarrow> string \<Rightarrow> ('w mysql, gerror option) state" where
  "Mysql_WaitUntilAfterGTID E targetGTID = with_db_err E (\<lambda>h. MysqlBase_WaitUntilAfterGTID E h targetGTID)"

definition Mysql_GetMGRStats :: "'w dbenv \<Rightarrow> ('w mysql, row list res) state" where
  "Mysql_GetMGRStats E = with_db E (\<lambda>e. ([], Some e)) (handler_GetMGRStats E)"

definition Mysql_GetMGRMasterUUID :: "'w dbenv \<Rightarrow> ('w mysql, string res) state" where
  "Mysql_GetMGRMasterUUID E = with_db E (\<lambda>e. ([], Some e)) (MysqlBase_GetMGRMasterUUID E)"

definition Mysql_WaitApplyRelayLog :: "'w dbenv \<Rightarrow> int \<Rightarrow> int \<Rightarrow> ('w mysql, gerror option) state" where
  "Mysql_WaitApplyRelayLog E retry interval = with_db_err E (\<lambda>h. MysqlBase_WaitApplyRelayLog E h retry interval)"

text \<open>The call that panics on MySQL 5.6; the value it would return is never seen.\<close>

definition nil_deref :: gerror where
  "nil_deref = GoErr ''invalid memory address or nil pointer dereference''"

definition Mysql_GetLocalMGRStat :: "'w dbenv \<Rightarrow> ('w mysql, MGRStatus res) state" where
  "Mysql_GetLocalMGRStat E = do {
     e \<leftarrow> Mysql_getDB E;
     (case e of Some err \<Rightarrow> ret (unknown_MGRStatus, Some err)
      | None \<Rightarrow> do {
          h \<leftarrow> gets my_handler;
          (case handler_GetLocalMGRStat E h of
             None \<Rightarrow> do {
               modify (\<lambda>m. m\<lparr>my_panicked := True\<rparr>);
               ret (unknown_MGRStatus, Some nil_deref) }
           | Some k \<Rightarrow> on_world k) }) }"

definition GetRepl :: "('w mysql, Repl) state" where
  "GetRepl = gets (\<lambda>m. \<lparr>Master_Host = mc_ReplHost (my_conf m), Master_Port = mc_Port (my_conf m),
     Repl_User = mc_ReplUser (my_conf m), Repl_Password = mc_ReplPasswd (my_conf m),
     Repl_GTID_Purged = []\<rparr>)"

definition GetReplGtidPurged :: "('w mysql, string) state" where
  "GetReplGtidPurged = gets (\<lambda>m. mc_ReplGtidPurged (my_conf m))"

definition RelayMasterLogFile :: "('w mysql, string) state" where
  "RelayMasterLogFile = gets my_Relay_Master_Log_File"

definition Mysql_SetGlobalSysVar :: "'w dbenv \<Rightarrow> string \<Rightarrow> ('w mysql, gerror option) state" where
  "Mysql_SetGlobalSysVar E varsql = with_db_err E (\<lambda>h. MysqlBase_SetGlobalSysVar E h varsql)"

text \<open>The loop over the variables: it goes on after an error and keeps the last one.\<close>

fun set_vars_loop :: "'w dbenv \<Rightarrow> string list \<Rightarrow> gerror option \<Rightarrow> ('w mysql, gerror option) state" where
  "set_vars_loop E [] err = ret err"
| "set_vars_loop E (v # vs) err = do {
     e \<leftarrow> Mysql_SetGlobalSysVar E (''SET GLOBAL '' @ v);
     set_vars_loop E vs (case e of Some x \<Rightarrow> Some x | None \<Rightarrow> err) }"

definition Mysql_SetMasterGlobalSysVar :: "'w dbenv \<Rightarrow> ('w mysql, gerror option) state" where
  "Mysql_SetMasterGlobalSysVar E = do {
     vars \<leftarrow> gets (\<lambda>m. mc_MasterSysVars (my_conf m));
     (if vars = [] then ret None else set_vars_loop E (split_on CHR '';'' vars) None) }"

definition Mysql_SetSlaveGlobalSysVar :: "'w dbenv \<Rightarrow> ('w mysql, gerror option) state" where
  "Mysql_SetSlaveGlobalSysVar E = do {
     vars \<leftarrow> gets (\<lambda>m. mc_SlaveSysVars (my_conf m));
     (if vars = [] then ret None else set_vars_loop E (split_on CHR '';'' vars) None) }"

definition Mysql_ResetMaster :: "'w dbenv \<Rightarrow> ('w mysql, gerror option) state" where
  "Mysql_ResetMaster E = with_db_err E (MysqlBase_ResetMaster E)"

definition Mysql_PurgeBinlogsTo :: "'w dbenv \<Rightarrow> string \<Rightarrow> ('w mysql, gerror option) state" where
  "Mysql_PurgeBinlogsTo E binlog = with_db_err E (\<lambda>h. MysqlBase_PurgeBinlogsTo E h binlog)"

definition Mysql_EnableSemiSyncMaster :: "'w dbenv \<Rightarrow> ('w mysql, gerror option) state" where
  "Mysql_EnableSemiSyncMaster E = with_db_err E (MysqlBase_EnableSemiSyncMaster E)"

definition Mysql_SetSemiWaitSlaveCount :: "'w dbenv \<Rightarrow> int \<Rightarrow> ('w mysql, gerror option) state" where
  "Mysql_SetSemiWaitSlaveCount E cnt = with_db_err E (\<lambda>h. handler_SetSemiWaitSlaveCount E h cnt)"

definition Mysql_DisableSemiSyncMaster :: "'w dbenv \<Rightarrow> ('w mysql, gerror option) state" where
  "Mysql_DisableSemiSyncMaster E = with_db_err E (MysqlBase_DisableSemiSyncMaster E)"

definition Mysql_SetSemiSyncMasterTimeout :: "'w dbenv \<Rightarrow> 64 word \<Rightarrow> ('w mysql, gerror option) state" where
  "Mysql_SetSemiSyncMasterTimeout E timeout = with_db_err E (\<lambda>h. MysqlBase_SetSemiSyncMasterTimeout E h timeout)"

definition Mysql_CheckUserExists :: "'w dbenv \<Rightarrow> string \<Rightarrow> string \<Rightarrow> ('w mysql, bool res) state" where
  "Mysql_CheckUserExists E user host = with_db E (\<lambda>e. (False, Some e)) (\<lambda>h. MysqlBase_CheckUserExists E h user host)"

definition Mysql_GetUser :: "'w dbenv \<Rightarrow> ('w mysql, MysqlUser list res) state" where
  "Mysql_GetUser E = with_db E (\<lambda>e. ([], Some e)) (MysqlBase_GetUser E)"

definition Mysql_CreateUser :: "'w dbenv \<Rightarrow> string \<Rightarrow> string \<Rightarrow> string \<Rightarrow> string \<Rightarrow> ('w mysql, gerror option) state" where
  "Mysql_CreateUser E user host passwd ssltype = with_db_err E (\<lambda>h. handler_CreateUser E h user host passwd ssltype)"

definition Mysql_DropUser :: "'w dbenv \<Rightarrow> string \<Rightarrow> string \<Rightarrow> ('w mysql, gerror option) state" where
  "Mysql_DropUser E user host = with_db_err E (\<lambda>h. MysqlBase_DropUser E h user host)"

definition Mysql_ChangeUserPasswd :: "'w dbenv \<Rightarrow> string \<Rightarrow> string \<Rightarrow> string \<Rightarrow> ('w mysql, gerror option) state" where
  "Mysql_ChangeUserPasswd E user host passwd = with_db_err E (\<lambda>h. handler_ChangeUserPasswd E h user host passwd)"

definition Mysql_CreateReplUserWithoutBinlog :: "'w dbenv \<Rightarrow> string \<Rightarrow> string \<Rightarrow> ('w mysql, gerror option) state" where
  "Mysql_CreateReplUserWithoutBinlog E user passwd = with_db_err E (\<lambda>h. MysqlBase_CreateReplUserWithoutBinlog E h user passwd)"

definition Mysql_GrantNormalPrivileges :: "'w dbenv \<Rightarrow> string \<Rightarrow> string \<Rightarrow> ('w mysql, gerror option) state" where
  "Mysql_GrantNormalPrivileges E user host = with_db_err E (\<lambda>h. MysqlBase_GrantNormalPrivileges E h user host)"

definition Mysql_CreateUserWithPrivileges :: "'w dbenv \<Rightarrow> string \<Rightarrow> string \<Rightarrow> string \<Rightarrow> string \<Rightarrow> string \<Rightarrow> string \<Rightarrow> string \<Rightarrow> ('w mysql, gerror option) state" where
  "Mysql_CreateUserWithPrivileges E user passwd database table host privs ssl = with_db_err E (\<lambda>h. handler_CreateUserWithPrivileges E h user passwd database table host privs ssl)"

definition Mysql_GrantReplicationPrivileges :: "'w dbenv \<Rightarrow> string \<Rightarrow> ('w mysql, gerror option) state" where
  "Mysql_GrantReplicationPrivileges E user = with_db_err E (\<lambda>h. MysqlBase_GrantReplicationPrivileges E h user)"

definition Mysql_GrantAllPrivileges :: "'w dbenv \<Rightarrow> string \<Rightarrow> string \<Rightarrow> string \<Rightarrow> string \<Rightarrow> ('w mysql, gerror option) state" where
  "Mysql_GrantAllPrivileges E user host passwd ssl = with_db_err E (\<lambda>h. handler_GrantAllPrivileges E h user host passwd ssl)"


subsection \<open>What calls through the pool leave alone\<close>

text \<open>Everything but the pool and the outside world.\<close>

definition mysql_view ::
    "'w mysql \<Rightarrow> MysqlConfig \<times> MysqlState \<times> string \<times> handler \<times> string \<times> int \<times> bool \<times> 64 word \<times> bool" where
  "mysql_view m = (my_conf m, my_state m, my_option m, my_handler m, my_Relay_Master_Log_File m,
     my_downs m, my_deadDueToTooManyConnections m, my_MysqlDowns m, my_panicked m)"

lemma mysql_view_world [simp]:
  "mysql_view (m\<lparr>my_world := w\<rparr>) = mysql_view m" "mysql_view (m\<lparr>my_db := b\<rparr>) = mysql_view m"
  by (simp_all add: mysql_view_def)

lemma on_world_view [intro!]: "state_io_rel (keeps mysql_view) (on_world k)"
  unfolding on_world_def by (rule keeps_zoom) simp

lemma getDB_view [intro!]: "state_io_rel (keeps mysql_view) (Mysql_getDB E)"
  unfolding Mysql_getDB_def by (auto intro!: keeps.eff_bind keeps.eff_modify)

lemma resetDB_view [intro!]: "state_io_rel (keeps mysql_view) (resetDB E)"
  unfolding resetDB_def by (auto intro!: keeps.eff_bind keeps.eff_modify)

lemma with_db_view [intro!]: "state_io_rel (keeps mysql_view) (with_db E d k)"
  unfolding with_db_def by (auto intro!: keeps.eff_bind)

lemma ping_check_user_view [intro!]: "state_io_rel (keeps mysql_view) (ping_check_user E)"
  unfolding ping_check_user_def by (auto intro!: keeps.eff_bind)

lemma GetGTID_view [intro!]: "state_io_rel (keeps mysql_view) (Mysql_GetGTID E)"
  unfolding Mysql_GetGTID_def Mysql_GetReplMode_def Mysql_GetMGRGTID_def Mysql_GetSlaveGTID_def
    Mysql_GetMasterGTID_def
  by (auto intro!: keeps.eff_bind)

lemma set_vars_loop_view: "state_io_rel (keeps mysql_view) (set_vars_loop E vs err)"
  by (induction vs arbitrary: err) (auto intro!: keeps.eff_bind simp: Mysql_SetGlobalSysVar_def)

lemmas view_runs = getDB_view [THEN keeps_run] resetDB_view [THEN keeps_run]
  with_db_view [THEN keeps_run] on_world_view [THEN keeps_run] ping_check_user_view [THEN keeps_run]

lemma view_fields:
  "mysql_view m = mysql_view n \<Longrightarrow>
     my_conf m = my_conf n \<and> my_state m = my_state n \<and> my_option m = my_option n \<and>
     my_handler m = my_handler n \<and> my_downs m = my_downs n \<and>
     my_deadDueToTooManyConnections m = my_deadDueToTooManyConnections n \<and>
     my_Relay_Master_Log_File m = my_Relay_Master_Log_File n"
  by (simp add: mysql_view_def)

lemmas with_db_fields = view_fields [OF with_db_view [THEN keeps_run]]
lemmas getDB_fields = view_fields [OF getDB_view [THEN keeps_run]]
lemmas on_world_fields = view_fields [OF on_world_view [THEN keeps_run]]
lemmas resetDB_fields = view_fields [OF resetDB_view [THEN keeps_run]]
lemmas check_user_fields = view_fields [OF ping_check_user_view [THEN keeps_run]]


subsection \<open>Pings\<close>

lemma resetDB_closed: "\<not> my_db (exec_of (resetDB E) m)"
  by (simp add: resetDB_def on_world_def case_prod_beta)

text \<open>What one failed ping does.\<close>

lemma run_handlePingFailure:
  fixes m :: "'w mysql" and E :: "'w dbenv" and err :: gerror and lim :: int
  defines "r \<equiv> exec_of (handlePingFailure E err lim) m"
  shows "my_downs r = my_downs m + 1"
    and "my_state r = (if my_downs m > lim then MysqlDead else my_state m)"
    and "my_deadDueToTooManyConnections r =
           (if my_downs m > lim then isTooManyConnections (Some err) else my_deadDueToTooManyConnections m)"
    and "my_conf r = my_conf m" and "my_option r = my_option m" and "my_handler r = my_handler m"
    and "my_downs m > lim \<Longrightarrow> \<not> my_db r"
    and "my_Relay_Master_Log_File r = my_Relay_Master_Log_File m"
  by (simp_all add: r_def handlePingFailure_def setDeadDueToTooManyConnections_def Mysql_setState_def
      IncMysqlDowns_def case_prod_beta resetDB_fields resetDB_closed)

text \<open>The error a ping fails with, if it fails.\<close>

definition ping_error :: "'w dbenv \<Rightarrow> 'w mysql \<Rightarrow> gerror option" where
  "ping_error E m = (case run_state (Mysql_getDB E) m of
       (Some err, _) \<Rightarrow> Some err
     | (None, m1) \<Rightarrow> snd (val_of (on_world (MysqlBase_Ping E (my_handler m1))) m1))"

text \<open>The binlog file that a ping which succeeds has read.\<close>

definition ping_file :: "'w dbenv \<Rightarrow> 'w mysql \<Rightarrow> string" where
  "ping_file E m = (let m1 = exec_of (Mysql_getDB E) m in
     fst (val_of (on_world (MysqlBase_Ping E (my_handler m1))) m1))"

lemma run_Ping:
  fixes m :: "'w mysql" and E :: "'w dbenv"
  defines "r \<equiv> exec_of (Mysql_Ping E) m"
  defines "lim \<equiv> mc_AdmitDefeatPingCnt (my_conf m)"
  shows "ping_error E m = None \<Longrightarrow>
           my_state r = MysqlAlive \<and> my_downs r = 0 \<and> \<not> my_deadDueToTooManyConnections r \<and>
           my_Relay_Master_Log_File r = ping_file E m"
    and "ping_error E m = Some err \<Longrightarrow>
           my_downs r = my_downs m + 1 \<and>
           my_state r = (if my_downs m > lim then MysqlDead else my_state m) \<and>
           my_deadDueToTooManyConnections r =
             (if my_downs m > lim then isTooManyConnections (Some err) else my_deadDueToTooManyConnections m) \<and>
           (my_downs m > lim \<longrightarrow> \<not> my_db r) \<and>
           my_Relay_Master_Log_File r = my_Relay_Master_Log_File m"
    and "my_conf r = my_conf m" and "my_option r = my_option m"
  by (auto simp: r_def lim_def Mysql_Ping_def ping_error_def ping_file_def case_prod_beta run_handlePingFailure
      getDB_fields on_world_fields check_user_fields clearDeadDueToTooManyConnections_def
      setDeadDueToTooManyConnections_def Mysql_setState_def split: option.splits prod.splits)

text \<open>A run of pings.\<close>

definition pings :: "'w dbenv \<Rightarrow> nat \<Rightarrow> 'w mysql \<Rightarrow> 'w mysql" where
  "pings E n = (exec_of (Mysql_Ping E)) ^^ n"

lemma pings_Suc: "pings E (Suc n) m = exec_of (Mysql_Ping E) (pings E n m)"
  by (simp add: pings_def)

lemma failing_pings:
  assumes "\<And>m' :: 'w mysql. \<exists>err. ping_error E m' = Some err \<and> isTooManyConnections (Some err) = many"
    and "my_downs m = 0" and "0 \<le> mc_AdmitDefeatPingCnt (my_conf m)"
  shows "my_downs (pings E n m) = int n \<and> my_conf (pings E n m) = my_conf m \<and>
     my_state (pings E n m) =
       (if int n > mc_AdmitDefeatPingCnt (my_conf m) + 1 then MysqlDead else my_state m) \<and>
     my_deadDueToTooManyConnections (pings E n m) =
       (if int n > mc_AdmitDefeatPingCnt (my_conf m) + 1 then many else my_deadDueToTooManyConnections m)"
proof (induction n)
  case (Suc n)
  obtain err where "ping_error E (pings E n m) = Some err" "isTooManyConnections (Some err) = many"
    using assms(1) by blast
  with Suc run_Ping(2) [OF this(1)] run_Ping(3) [of E "pings E n m"] show ?case
    by (auto simp: pings_Suc)
qed (use assms in \<open>simp add: pings_def\<close>)


subsection \<open>Properties\<close>

text \<open>The results of \<open>n\<close> pings, and how many of the last ones failed in a row.\<close>

definition ping_errors :: "'w dbenv \<Rightarrow> nat \<Rightarrow> 'w mysql \<Rightarrow> gerror option list" where
  "ping_errors E n m = map (\<lambda>k. ping_error E (pings E k m)) [0..<n]"

definition failed_last :: "'w dbenv \<Rightarrow> nat \<Rightarrow> 'w mysql \<Rightarrow> nat" where
  "failed_last E n m = length (takeWhile (\<lambda>e. e \<noteq> None) (rev (ping_errors E n m)))"

lemma failed_last_simps [simp]:
  "failed_last E 0 m = 0"
  "failed_last E (Suc n) m = (if ping_error E (pings E n m) = None then 0 else Suc (failed_last E n m))"
  by (simp_all add: failed_last_def ping_errors_def)

lemma failed_last_le: "failed_last E n m \<le> n"
  by (induction n) auto

lemma pings_fields: "my_conf (pings E n m) = my_conf m" "my_option (pings E n m) = my_option m"
  by (induction n) (simp_all add: pings_Suc run_Ping(3,4), simp_all add: pings_def)


text \<open>
  When every ping fails, a MySQL that was alive is still taken for
  alive after \<open>limit + 1\<close> pings and dead from the next one on; a failover is then held
  back exactly when the failures are ``too many connections'' and the configuration does
  not ask for a failover in that case.
\<close>

lemma failing_pings_defer:
  assumes "\<And>m' :: 'w mysql. \<exists>err. ping_error E m' = Some err \<and> isTooManyConnections (Some err) = many"
    and "my_downs (m :: 'w mysql) = 0" and "0 \<le> mc_AdmitDefeatPingCnt (my_conf m)"
    and "my_state m = MysqlAlive"
  shows "my_state (pings E n m) =
           (if int n \<ge> mc_AdmitDefeatPingCnt (my_conf m) + 2 then MysqlDead else MysqlAlive) \<and>
         val_of ShouldDeferFailover (pings E n m) =
           (int n \<ge> mc_AdmitDefeatPingCnt (my_conf m) + 2 \<and> many \<and>
            \<not> mc_FailoverOnTooManyConnections (my_conf m))"
  using failing_pings [OF assms(1-3), of n] assms(4)
  by (auto simp: ShouldDeferFailover_def)

definition too_many_env :: "unit dbenv" where
  "too_many_env = \<lparr>
     sql_open = (\<lambda>c w. (None, w)),
     sql_query = (\<lambda>q w. (([], Some (MySQLErr 1040 ''Too many connections'')), w)),
     sql_exec = (\<lambda>q w. (None, w)), sql_conn = (\<lambda>w. (None, w)), conn_exec = (\<lambda>q w. (None, w)),
     conn_close = (\<lambda>w. w), timer_first = (\<lambda>d w. (False, w)), db_ping = (\<lambda>w. (None, w)),
     db_close = (\<lambda>w. w), sleep_ms = (\<lambda>n w. w)\<rparr>"

definition conf0 :: MysqlConfig where
  "conf0 = \<lparr>mc_Admin = ''root'', mc_Passwd = [], mc_Host = ''h'', mc_Port = 3306, mc_Basedir = [],
     mc_Version = ''mysql80'', mc_DefaultsFile = [], mc_ReplMode = ReplModeSemiSync, mc_PingTimeout = 1000,
     mc_AdmitDefeatPingCnt = 2, mc_MaxOpenConns = 0, mc_MaxIdleConns = 0,
     mc_FailoverOnTooManyConnections = False, mc_SemiSyncTimeoutForTwoNodes = 10000,
     mc_MasterSysVars = [], mc_SlaveSysVars = [], mc_MonitorDisabled = False, mc_ReplHost = ''h'', mc_ReplUser = ''repl'',
     mc_ReplPasswd = ''pw'', mc_ReplGtidPurged = [], mc_Backup = None\<rparr>"

lemma too_many_fails:
  "ping_error too_many_env m = Some (MySQLErr 1040 ''Too many connections'')"
  by (auto simp: ping_error_def Mysql_getDB_def on_world_def too_many_env_def MysqlBase_Ping_def
      QueryWithTimeout_def Query_def)

lemma failing_pings_defer_example:
  "val_of ShouldDeferFailover
     (pings too_many_env 4 ((NewMysql conf0 1000 ())\<lparr>my_state := MysqlAlive\<rparr>)) = True"
  using failing_pings_defer [of too_many_env True "(NewMysql conf0 1000 ())\<lparr>my_state := MysqlAlive\<rparr>" 4]
  by (simp add: too_many_fails isTooManyConnections_def erTooManyConnections_def NewMysql_def conf0_def)

text \<open>
  Whatever the server does, \<open>SetReadOnly\<close> and
  \<open>SetReadWrite\<close> change the option only when all their statements went through, and
  then to the value they stand for; they touch neither state nor failure counter.
\<close>

lemma SetReadOnly_option:
  "my_option (exec_of (Mysql_SetReadOnly E) m) =
     (if val_of (Mysql_SetReadOnly E) m = None then MysqlReadonly else my_option m) \<and>
   my_option (exec_of (Mysql_SetReadWrite E) m) =
     (if val_of (Mysql_SetReadWrite E) m = None then MysqlReadwrite else my_option m) \<and>
   my_state (exec_of (Mysql_SetReadOnly E) m) = my_state m \<and>
   my_state (exec_of (Mysql_SetReadWrite E) m) = my_state m \<and>
   my_downs (exec_of (Mysql_SetReadOnly E) m) = my_downs m \<and>
   my_downs (exec_of (Mysql_SetReadWrite E) m) = my_downs m"
  by (auto simp: Mysql_SetReadOnly_def Mysql_SetReadWrite_def Mysql_setOption_def case_prod_beta
      with_db_fields split: option.splits)


lemma binlog_key_append:
  "binlog_key g = to_upper (Master_Log_File g @ '':'') @ pad16 (unat (Read_Master_Log_Pos g))"
proof -
  have "binlog_key g = to_upper ((Master_Log_File g @ '':'') @ pad16 (unat (Read_Master_Log_Pos g)))"
    by (simp add: binlog_key_def)
  then show ?thesis
    by (simp only: to_upper_append [of "Master_Log_File g @ '':''"] to_upper_digits [OF pad16_digits])
qed

lemma binlog_same_file:
  assumes "to_upper (Master_Log_File g) = to_upper (Master_Log_File h)"
    and "unat (Read_Master_Log_Pos g) < 10 ^ 16" "unat (Read_Master_Log_Pos h) < 10 ^ 16"
  shows "binlog_key g < binlog_key h \<longleftrightarrow> Read_Master_Log_Pos g < Read_Master_Log_Pos h"
    and "binlog_key g = binlog_key h \<longleftrightarrow> Read_Master_Log_Pos g = Read_Master_Log_Pos h"
proof -
  have "to_upper (Master_Log_File g @ '':'') = to_upper (Master_Log_File h @ '':'')"
    using assms(1) by (simp add: to_upper_append)
  then show "binlog_key g < binlog_key h \<longleftrightarrow> Read_Master_Log_Pos g < Read_Master_Log_Pos h"
    and "binlog_key g = binlog_key h \<longleftrightarrow> Read_Master_Log_Pos g = Read_Master_Log_Pos h"
    using assms(2,3)
    by (simp_all add: binlog_key_append append_less_iff pad16_less_iff pad16_eq_iff word_less_nat_alt
        word_unat_eq_iff)
qed

text \<open>
  In semi-sync mode \<open>GTIDGreaterThan\<close> answers whether the local
  binlog position is the greater one when both are in the same file (file names compare
  without regard to case) and positions have at most 16 digits; at equal positions the
  smaller replication lag wins, and without both lags nobody is greater.
\<close>

lemma SemiSync_compare:
  assumes "val_of (Mysql_GetGTID E) m = (this, None)"
    and "replMode (my_handler m) = ReplModeSemiSync"
    and "to_upper (Master_Log_File this) = to_upper (Master_Log_File gtid)"
    and "unat (Read_Master_Log_Pos this) < 10 ^ 16" "unat (Read_Master_Log_Pos gtid) < 10 ^ 16"
  shows "val_of (Mysql_GTIDGreaterThan E gtid) m =
    (if Read_Master_Log_Pos this = Read_Master_Log_Pos gtid
     then seconds_less this gtid = Some True
     else Read_Master_Log_Pos gtid < Read_Master_Log_Pos this,
     this, None)"
  using assms(1,2) binlog_same_file [OF assms(3-5)]
    binlog_same_file [OF assms(3) [symmetric] assms(5,4)]
  by (auto simp: Mysql_GTIDGreaterThan_def Mysql_GetReplMode_def SemiSyncGTIDGreaterThan_def
      binlog_greater_def Let_def case_prod_beta split: option.split)

definition slave_tape :: tape where
  "slave_tape = \<lparr>sent = [], failing = [],
     answers = [(''SHOW SLAVE STATUS'', [[(''Master_Log_File'', ''mysql-bin.000007''),
       (''Read_Master_Log_Pos'', ''194''), (''Slave_IO_Running'', ''Yes''),
       (''Slave_SQL_Running'', ''Yes''), (''Seconds_Behind_Master'', ''0'')]])]\<rparr>"

definition gtid_at :: "string \<Rightarrow> 64 word \<Rightarrow> string \<Rightarrow> GTID" where
  "gtid_at file pos lag = zero_GTID\<lparr>Master_Log_File := file, Read_Master_Log_Pos := pos,
     Slave_IO_Running := True, Slave_IO_Running_Str := ''Yes'', Slave_SQL_Running := True,
     Slave_SQL_Running_Str := ''Yes'', Seconds_Behind_Master := lag\<rparr>"

lemma slave_tape_GTID:
  "val_of (Mysql_GetGTID tape_env) (NewMysql conf0 1000 slave_tape) =
     (gtid_at ''mysql-bin.000007'' 194 ''0'', None)"
  by (simp add: Mysql_GetGTID_def Mysql_GetReplMode_def NewMysql_def conf0_def SetReplMode_def
      SetQueryTimeout_def Mysql_GetSlaveGTID_def with_db_def Mysql_getDB_def on_world_def
      tape_env_def slave_tape_def MysqlBase_GetSlaveGTID_def QueryWithTimeout_def Query_def col_def
      gtid_at_def zero_GTID_def parse_uint64_def is_digit_def digits_val_def digit_val_def)

lemma SemiSync_compare_example:
  "val_of (Mysql_GTIDGreaterThan tape_env (gtid_at ''mysql-bin.000007'' 120 ''3''))
     (NewMysql conf0 1000 slave_tape) = (True, gtid_at ''mysql-bin.000007'' 194 ''0'', None)"
  by (subst SemiSync_compare [OF slave_tape_GTID])
     (simp_all add: NewMysql_def conf0_def SetReplMode_def SetQueryTimeout_def gtid_at_def)

end
