(* ===== verification/Driver.thy ===== *)
theory Driver
  imports Model
begin

section \<open>The database driver interface (internal/database/driver/driver.go)\<close>

text \<open>
  A driver is a record of its operations over the state of the instance it drives. A
  \<open>context.Context\<close> is the value of its \<open>Err()\<close>: \<open>None\<close> while it is not cancelled;
  one operation sees one value. The optional interface \<open>MGRLifecycle\<close>, which the callers
  reach by a type assertion, is an optional field. \<open>Health.Details\<close> is not modelled: no
  modelled code reads it.

  The locales \<open>driver_fence\<close> and \<open>driver_contract\<close> state what the HA layer relies on.
\<close>

definition EngineMySQL :: int where "EngineMySQL = 1"
definition EnginePostgreSQL :: int where "EnginePostgreSQL = 2"
definition EngineUnknown :: int where "EngineUnknown = 4"

datatype Role = RoleUnknown | RolePrimary | RoleReplica | RoleReadOnly | RoleInvalid

record PrimaryRef =
  MemberID :: string
  pr_Host :: string
  pr_Port :: int

definition zero_PrimaryRef :: PrimaryRef where
  "zero_PrimaryRef = \<lparr>MemberID = [], pr_Host = [], pr_Port = 0\<rparr>"

record Health =
  Alive :: bool
  Writable :: bool
  HealthRole :: Role
  LastError :: string

definition zero_Health :: Health where
  "zero_Health = \<lparr>Alive = False, Writable = False, HealthRole = RoleUnknown, LastError = []\<rparr>"

type_synonym ctx_err = "gerror option"

record 'd mgr_ops =
  IsMGRMode :: "('d, bool) state"
  MGRPrimaryPhase1Done :: "ctx_err \<Rightarrow> ('d, bool res) state"
  MGRClusterWritableReady :: "ctx_err \<Rightarrow> ('d, bool res) state"
  ApplyPrimaryMGRPhase2 :: "ctx_err \<Rightarrow> ('d, gerror option) state"
  MGRReplicaJoined :: "ctx_err \<Rightarrow> ('d, bool res) state"

record 'd driver_ops =
  EngineType :: int
  Promotable :: "ctx_err \<Rightarrow> ('d, bool \<times> string) state"
  ReplicationLagBytes :: "ctx_err \<Rightarrow> ('d, int res) state"
  ApplyPrimary :: "ctx_err \<Rightarrow> ('d, gerror option) state"
  ApplyReplica :: "ctx_err \<Rightarrow> PrimaryRef \<Rightarrow> ('d, gerror option) state"
  Demote :: "ctx_err \<Rightarrow> ('d, gerror option) state"
  Status :: "ctx_err \<Rightarrow> ('d, Health res) state"
  SetupBootstrap :: "ctx_err \<Rightarrow> ('d, gerror option) state"
  MGRLifecycle :: "'d mgr_ops option"

text \<open>
  \<open>if err := ctx.Err(); err != nil { return failed(err) }; k\<close>, the first statement of the
  driver methods.
\<close>

definition ctx_guard :: "ctx_err \<Rightarrow> (gerror \<Rightarrow> 'a) \<Rightarrow> ('d, 'a) state \<Rightarrow> ('d, 'a) state" where
  "ctx_guard ctx failed k = (case ctx of Some err \<Rightarrow> ret (failed err) | None \<Rightarrow> k)"

lemma ctx_guard_simps [simp]:
  "ctx_guard None failed k = k" "ctx_guard (Some err) failed k = ret (failed err)"
  by (simp_all add: ctx_guard_def)

text \<open>
  What the reconciler needs of a driver. \<open>open_for_writes\<close> is the driver's own record of
  whether the instance accepts writes; questions do not change it, and a demotion or a replica
  set-up that reports success has closed it. Both drivers promise this.
\<close>

locale driver_fence =
  fixes D :: "'d driver_ops" and open_for_writes :: "'d \<Rightarrow> bool"
  assumes status_keeps: "open_for_writes (exec_of (Status D ctx) d) = open_for_writes d"
    and promotable_keeps: "open_for_writes (exec_of (Promotable D ctx) d) = open_for_writes d"
    and demote_closes: "val_of (Demote D ctx) d = None \<Longrightarrow> \<not> open_for_writes (exec_of (Demote D ctx) d)"
    and demote_never_opens: "open_for_writes (exec_of (Demote D ctx) d) \<Longrightarrow> open_for_writes d"
    and replica_never_opens:
      "open_for_writes (exec_of (ApplyReplica D ctx p) d) \<Longrightarrow> open_for_writes d"
    and joined_keeps:
      "MGRLifecycle D = Some g \<Longrightarrow> open_for_writes (exec_of (MGRReplicaJoined g ctx) d) = open_for_writes d"
    and mgr_mode_keeps:
      "MGRLifecycle D = Some g \<Longrightarrow> open_for_writes (exec_of (IsMGRMode g) d) = open_for_writes d"
begin

text \<open>A demotion followed by a replica set-up leaves the instance closed.\<close>

lemma demote_then_replica:
  assumes "val_of (Demote D ctx) d = None"
  shows "\<not> open_for_writes (exec_of (ApplyReplica D ctx p) (exec_of (Demote D ctx) d))"
  using assms demote_closes replica_never_opens by blast

end

text \<open>
  A driver whose \<open>Status\<close> moreover reports that record whatever the server answers, and calls
  an instance primary only when it is writable: the MySQL driver.
\<close>

locale driver_contract = driver_fence +
  assumes status_reports:
      "val_of (Status D ctx) d = (h, None) \<Longrightarrow> Writable h = open_for_writes d"
    and status_role: "val_of (Status D ctx) d = (h, None) \<Longrightarrow> HealthRole h = RolePrimary \<Longrightarrow> Writable h"

end
