(* ===== verification/MysqlDriver.thy ===== *)
theory MysqlDriver
  imports Mysql Driver
begin

section \<open>The MySQL driver (driver.go)\<close>

text \<open>
  \<open>Driver\<close> wraps a \<open>Mysql\<close> and the MySQL configuration \<open>c\<close>; its methods are
  programs over the \<open>mysql\<close> state. \<open>mysql_driver_ops\<close> packs them as the driver
  interface and is shown to fulfil \<open>driver_contract\<close> on every server.
\<close>

definition replFromConf :: "MysqlConfig \<Rightarrow> Repl" where
  "replFromConf c = \<lparr>Master_Host = mc_ReplHost c, Master_Port = mc_Port c,
     Repl_User = mc_ReplUser c, Repl_Password = mc_ReplPasswd c,
     Repl_GTID_Purged = mc_ReplGtidPurged c\<rparr>"

definition ensureReplUser :: "'w dbenv \<Rightarrow> MysqlConfig \<Rightarrow> ('w mysql, gerror option) state" where
  "ensureReplUser E c = do {
     (exists, e) \<leftarrow> Mysql_CheckUserExists E (mc_ReplUser c) ''%'';
     (case e of Some err \<Rightarrow> ret (Some err)
      | None \<Rightarrow>
        (if \<not> exists then Mysql_CreateReplUserWithoutBinlog E (mc_ReplUser c) (mc_ReplPasswd c)
         else ret None)) }"

definition Driver_SetupBootstrap ::
    "'w dbenv \<Rightarrow> MysqlConfig \<Rightarrow> nat \<Rightarrow> ctx_err \<Rightarrow> ('w mysql, gerror option) state" where
  "Driver_SetupBootstrap E c rounds ctx = ctx_guard ctx Some (do {
     e \<leftarrow> Mysql_WaitMysqlWorks E rounds (60 * 1000);
     (case e of Some err \<Rightarrow> ret (Some err)
      | None \<Rightarrow> do {
          _ \<leftarrow> Mysql_GetGTID E;
          or_err (ensureReplUser E c) (or_err (Mysql_SetReadOnly E)
            (if mc_ReplMode c \<noteq> ReplModeMGR then Mysql_StartSlave E else ret None)) }) })"

definition Driver_Promotable :: "'w dbenv \<Rightarrow> ctx_err \<Rightarrow> ('w mysql, bool \<times> string) state" where
  "Driver_Promotable E ctx = ctx_guard ctx (\<lambda>err. (False, err_text err)) (do {
     ok \<leftarrow> Mysql_Promotable E;
     ret (if ok then (True, []) else (False, ''mysql.not.promotable'')) })"

definition Driver_ReplicationLagBytes :: "'w dbenv \<Rightarrow> ctx_err \<Rightarrow> ('w mysql, int res) state" where
  "Driver_ReplicationLagBytes E ctx = ctx_guard ctx (\<lambda>err. (0, Some err)) (do {
     (gtid, e) \<leftarrow> Mysql_GetGTID E;
     ret (case e of Some err \<Rightarrow> (0, Some err)
      | None \<Rightarrow>
        (if Seconds_Behind_Master gtid \<noteq> []
         then (case atoi (Seconds_Behind_Master gtid) of (v, None) \<Rightarrow> (v, None) | (_, Some _) \<Rightarrow> (0, None))
         else (0, None))) })"


subsection \<open>Group replication\<close>

definition mgrAlreadyPrimary :: "'w dbenv \<Rightarrow> ('w mysql, bool) state" where
  "mgrAlreadyPrimary E = do {
     (ok, _) \<leftarrow> Mysql_IsMGRRunningOK E;
     (if \<not> ok then ret False
      else do {
        (status, e) \<leftarrow> Mysql_GetLocalMGRStat E;
        ret (e = None \<and> mgr_Role status = MGRRolePrimary) }) }"

definition applyPrimaryMGR :: "'w dbenv \<Rightarrow> MysqlConfig \<Rightarrow> ctx_err \<Rightarrow> ('w mysql, gerror option) state" where
  "applyPrimaryMGR E c ctx = ctx_guard ctx Some (
     or_err (Mysql_WaitApplyRelayLog E 15 2) (do {
       already \<leftarrow> mgrAlreadyPrimary E;
       (if already then Mysql_SetReadOnly E
        else do {
          (running, _) \<leftarrow> Mysql_IsMGRRunningOK E;
          or_err (if \<not> running then Mysql_SetMasterGlobalSysVar E else ret None)
            (or_err (Mysql_ChangeToMaster E (replFromConf c)) (Mysql_SetReadOnly E)) }) }))"

definition Driver_IsMGRMode :: "MysqlConfig \<Rightarrow> ('w mysql, bool) state" where
  "Driver_IsMGRMode c = ret (mc_ReplMode c = ReplModeMGR)"

definition Driver_MGRPrimaryPhase1Done :: "'w dbenv \<Rightarrow> MysqlConfig \<Rightarrow> ctx_err \<Rightarrow> ('w mysql, bool res) state" where
  "Driver_MGRPrimaryPhase1Done E c ctx = ctx_guard ctx (\<lambda>err. (False, Some err))
     (if mc_ReplMode c \<noteq> ReplModeMGR then ret (False, None)
      else do { b \<leftarrow> mgrAlreadyPrimary E; ret (b, None) })"

text \<open>The loop over the members: how many are live, and whether the primary is one of them.\<close>

fun writable_loop :: "string \<Rightarrow> row list \<Rightarrow> int \<Rightarrow> bool \<Rightarrow> int \<times> bool" where
  "writable_loop uuid [] cnt masterOK = (cnt, masterOK)"
| "writable_loop uuid (r # rs) cnt masterOK =
     (if member_live r
      then writable_loop uuid rs (cnt + 1) (if col r ''MEMBER_ID'' = uuid then True else masterOK)
      else writable_loop uuid rs cnt masterOK)"

definition mgrQuorum :: int where
  "mgrQuorum = 2"

definition Driver_MGRClusterWritableReady ::
    "'w dbenv \<Rightarrow> MysqlConfig \<Rightarrow> ctx_err \<Rightarrow> ('w mysql, bool res) state" where
  "Driver_MGRClusterWritableReady E c ctx = ctx_guard ctx (\<lambda>err. (False, Some err))
     (if mc_ReplMode c \<noteq> ReplModeMGR then ret (False, None)
      else do {
        (rows, e) \<leftarrow> Mysql_GetMGRStats E;
        (case e of Some err \<Rightarrow> ret (False, Some err)
         | None \<Rightarrow> do {
             (uuid, e2) \<leftarrow> Mysql_GetMGRMasterUUID E;
             ret (case e2 of Some err \<Rightarrow> (False, Some err)
              | None \<Rightarrow> (let (cnt, masterOK) = writable_loop uuid rows 0 False
                         in (masterOK \<and> cnt \<ge> mgrQuorum, None))) }) })"

definition Driver_MGRReplicaJoined :: "'w dbenv \<Rightarrow> MysqlConfig \<Rightarrow> ctx_err \<Rightarrow> ('w mysql, bool res) state" where
  "Driver_MGRReplicaJoined E c ctx = ctx_guard ctx (\<lambda>err. (False, Some err))
     (if mc_ReplMode c \<noteq> ReplModeMGR then ret (False, None)
      else do {
        (status, e) \<leftarrow> Mysql_GetLocalMGRStat E;
        ret (case e of Some err \<Rightarrow> (False, Some err)
         | None \<Rightarrow>
           (if mgr_Role status \<noteq> MGRRoleSecondary then (False, None)
            else (mgr_State status = MGRStateOnline \<or> mgr_State status = MGRStateRecovering, None))) })"


subsection \<open>Role changes\<close>

definition applyPrimarySemiSync :: "'w dbenv \<Rightarrow> MysqlConfig \<Rightarrow> ('w mysql, gerror option) state" where
  "applyPrimarySemiSync E c = do {
     (gtid, e) \<leftarrow> Mysql_GetGTID E;
     (case e of Some err \<Rightarrow> ret (Some err)
      | None \<Rightarrow>
        or_err (Mysql_WaitUntilAfterGTID E (Retrieved_GTID_Set gtid))
        (or_err (Mysql_ChangeToMaster E (replFromConf c))
        (or_err (Mysql_EnableSemiSyncMaster E)
        (or_err (Mysql_SetMasterGlobalSysVar E)
          (Mysql_SetReadWrite E))))) }"

definition Driver_ApplyPrimary :: "'w dbenv \<Rightarrow> MysqlConfig \<Rightarrow> ctx_err \<Rightarrow> ('w mysql, gerror option) state" where
  "Driver_ApplyPrimary E c ctx = ctx_guard ctx Some
     (if mc_ReplMode c = ReplModeMGR then applyPrimaryMGR E c ctx else applyPrimarySemiSync E c)"

definition replica_repl :: "MysqlConfig \<Rightarrow> string \<Rightarrow> PrimaryRef \<Rightarrow> Repl" where
  "replica_repl c purged primary =
     (let r = replFromConf c;
          r1 = (if pr_Host primary \<noteq> [] then r\<lparr>Master_Host := pr_Host primary\<rparr> else r);
          r2 = (if pr_Port primary \<noteq> 0 then r1\<lparr>Master_Port := pr_Port primary\<rparr> else r1)
      in r2\<lparr>Repl_GTID_Purged := purged\<rparr>)"

definition Driver_ApplyReplica ::
    "'w dbenv \<Rightarrow> MysqlConfig \<Rightarrow> ctx_err \<Rightarrow> PrimaryRef \<Rightarrow> ('w mysql, gerror option) state" where
  "Driver_ApplyReplica E c ctx primary = ctx_guard ctx Some (do {
     purged \<leftarrow> GetReplGtidPurged;
     let repl = replica_repl c purged primary;
     whenM (mc_ReplMode c \<noteq> ReplModeMGR) (do {
       call (Mysql_DisableSemiSyncMaster E);
       call (Mysql_SetSlaveGlobalSysVar E);
       call (Mysql_StartSlave E) });
     or_err (Mysql_SetReadOnly E)
       (if mc_ReplMode c = ReplModeMGR then Mysql_MGRChangeMasterTo E repl
        else or_err (Mysql_ChangeMasterTo E repl) (Mysql_StartSlave E)) })"

definition Driver_Demote :: "'w dbenv \<Rightarrow> ctx_err \<Rightarrow> ('w mysql, gerror option) state" where
  "Driver_Demote E ctx = ctx_guard ctx Some (Mysql_SetReadOnly E)"

definition Driver_Status :: "ctx_err \<Rightarrow> ('w mysql, Health res) state" where
  "Driver_Status ctx = ctx_guard ctx (\<lambda>err. (zero_Health, Some err)) (do {
     opt \<leftarrow> Mysql_getOption;
     st \<leftarrow> Mysql_getState;
     ret (\<lparr>Alive = (st = MysqlAlive), Writable = (opt = MysqlReadwrite),
           HealthRole = (if opt = MysqlReadwrite then RolePrimary else RoleReplica),
           LastError = []\<rparr>, None) })"

definition ChangeToMasterRepl :: "'w dbenv \<Rightarrow> MysqlConfig \<Rightarrow> ctx_err \<Rightarrow> ('w mysql, gerror option) state" where
  "ChangeToMasterRepl E c ctx = ctx_guard ctx Some (Mysql_ChangeToMaster E (replFromConf c))"

definition EnableReadWrite :: "'w dbenv \<Rightarrow> ctx_err \<Rightarrow> ('w mysql, gerror option) state" where
  "EnableReadWrite E ctx = ctx_guard ctx Some (Mysql_SetReadWrite E)"

definition Driver_ApplyPrimaryMGRPhase2 :: "'w dbenv \<Rightarrow> ctx_err \<Rightarrow> ('w mysql, gerror option) state" where
  "Driver_ApplyPrimaryMGRPhase2 E ctx = EnableReadWrite E ctx"

definition mysql_mgr_ops :: "'w dbenv \<Rightarrow> MysqlConfig \<Rightarrow> 'w mysql mgr_ops" where
  "mysql_mgr_ops E c = \<lparr>IsMGRMode = Driver_IsMGRMode c,
     MGRPrimaryPhase1Done = Driver_MGRPrimaryPhase1Done E c,
     MGRClusterWritableReady = Driver_MGRClusterWritableReady E c,
     ApplyPrimaryMGRPhase2 = Driver_ApplyPrimaryMGRPhase2 E,
     MGRReplicaJoined = Driver_MGRReplicaJoined E c\<rparr>"

definition mysql_driver_ops :: "'w dbenv \<Rightarrow> MysqlConfig \<Rightarrow> nat \<Rightarrow> 'w mysql driver_ops" where
  "mysql_driver_ops E c rounds = \<lparr>EngineType = EngineMySQL, Promotable = Driver_Promotable E,
     ReplicationLagBytes = Driver_ReplicationLagBytes E, ApplyPrimary = Driver_ApplyPrimary E c,
     ApplyReplica = Driver_ApplyReplica E c, Demote = Driver_Demote E, Status = Driver_Status,
     SetupBootstrap = Driver_SetupBootstrap E c rounds, MGRLifecycle = Some (mysql_mgr_ops E c)\<rparr>"


subsection \<open>The option through the driver's operations\<close>

text \<open>The record the driver keeps of whether it opened the instance for writes.\<close>

definition mysql_open :: "'w mysql \<Rightarrow> bool" where
  "mysql_open m = (my_option m = MysqlReadwrite)"

lemma view_option: "mysql_view m = mysql_view n \<Longrightarrow> my_option m = my_option n"
  by (simp add: mysql_view_def)

lemma keeps_view_option:
  "state_io_rel (keeps mysql_view) k \<Longrightarrow> state_io_rel (keeps my_option) k"
  by (auto simp: state_io_rel_def keeps_def dest: view_option)

lemma with_db_option [intro!]: "state_io_rel (keeps my_option) (with_db E d k)"
  by (rule keeps_view_option) auto

lemma world_option [intro!]:
  "state_io_rel (keeps my_option) (on_world k)" "state_io_rel (keeps my_option) (Mysql_getDB E)"
  by (rule keeps_view_option, auto)+

lemma GetGTID_option [intro!]: "state_io_rel (keeps my_option) (Mysql_GetGTID E)"
  by (rule keeps_view_option) auto

lemma set_vars_option [intro!]: "state_io_rel (keeps my_option) (set_vars_loop E vs err)"
  by (rule keeps_view_option) (rule set_vars_loop_view)

lemma sysvars_option [intro!]:
  "state_io_rel (keeps my_option) (Mysql_SetSlaveGlobalSysVar E)"
  "state_io_rel (keeps my_option) (Mysql_SetMasterGlobalSysVar E)"
  unfolding Mysql_SetSlaveGlobalSysVar_def Mysql_SetMasterGlobalSysVar_def
  by (auto intro!: keeps.eff_bind)

lemma LocalMGRStat_option [intro!]: "state_io_rel (keeps my_option) (Mysql_GetLocalMGRStat E)"
  unfolding Mysql_GetLocalMGRStat_def
  by (auto intro!: keeps.eff_bind keeps.eff_modify split: option.split)

text \<open>The hand-over methods used by the driver.\<close>

lemmas handover_defs = Mysql_DisableSemiSyncMaster_def Mysql_StartSlave_def
  Mysql_MGRChangeMasterTo_def Mysql_ChangeMasterTo_def Mysql_IsMGRRunningOK_def

lemma Promotable_option: "state_io_rel (keeps my_option) (Driver_Promotable E ctx)"
  unfolding Driver_Promotable_def Mysql_Promotable_def Mysql_getState_def Mysql_GetReplMode_def ctx_guard_def
  by (auto intro!: keeps.eff_bind split: option.split)

lemma Status_keeps: "exec_of (Driver_Status ctx) m = m"
  by (cases ctx) (simp_all add: Driver_Status_def Mysql_getOption_def Mysql_getState_def)

lemma Joined_option: "state_io_rel (keeps my_option) (Driver_MGRReplicaJoined E c ctx)"
  unfolding Driver_MGRReplicaJoined_def ctx_guard_def
  by (auto intro!: keeps.eff_bind split: option.split)

text \<open>The relation ``an instance that is open afterwards was open before''.\<close>

definition no_opening :: "'w mysql \<Rightarrow> 'w mysql \<Rightarrow> bool" where
  "no_opening m n \<longleftrightarrow> (mysql_open n \<longrightarrow> mysql_open m)"

interpretation no_opening: effect_rel no_opening
  by unfold_locales (auto simp: no_opening_def)

lemma keeps_no_opening: "state_io_rel (keeps my_option) k \<Longrightarrow> state_io_rel no_opening k"
  by (simp add: state_io_rel_def keeps_def no_opening_def mysql_open_def)

lemmas handover_no_opening = with_db_option [THEN keeps_no_opening] sysvars_option [THEN keeps_no_opening]

lemma run_SetReadOnly_option:
  "my_option (exec_of (Mysql_SetReadOnly E) m) =
     (if val_of (Mysql_SetReadOnly E) m = None then MysqlReadonly else my_option m)"
  by (auto simp: Mysql_SetReadOnly_def Mysql_setOption_def case_prod_beta with_db_fields split: option.splits)

lemma SetReadOnly_no_opening: "state_io_rel no_opening (Mysql_SetReadOnly E)"
  by (auto simp: state_io_rel_def no_opening_def mysql_open_def run_SetReadOnly_option split: if_splits)

lemma ApplyReplica_no_opening: "state_io_rel no_opening (Driver_ApplyReplica E c ctx p)"
  unfolding Driver_ApplyReplica_def GetReplGtidPurged_def Let_def ctx_guard_def handover_defs
  by (auto intro!: no_opening.eff_bind no_opening.eff_gets SetReadOnly_no_opening handover_no_opening
      split: option.split)

lemma Demote_no_opening: "state_io_rel no_opening (Driver_Demote E ctx)"
  by (cases ctx) (auto simp: Driver_Demote_def intro: SetReadOnly_no_opening)

lemma mysql_driver_sel [simp]:
  "Status (mysql_driver_ops E c rounds) = Driver_Status"
  "Promotable (mysql_driver_ops E c rounds) = Driver_Promotable E"
  "Demote (mysql_driver_ops E c rounds) = Driver_Demote E"
  "ApplyReplica (mysql_driver_ops E c rounds) = Driver_ApplyReplica E c"
  "ApplyPrimary (mysql_driver_ops E c rounds) = Driver_ApplyPrimary E c"
  "MGRLifecycle (mysql_driver_ops E c rounds) = Some (mysql_mgr_ops E c)"
  "MGRReplicaJoined (mysql_mgr_ops E c) = Driver_MGRReplicaJoined E c"
  "IsMGRMode (mysql_mgr_ops E c) = Driver_IsMGRMode c"
  by (simp_all add: mysql_driver_ops_def mysql_mgr_ops_def)

interpretation mysql_driver: driver_contract "mysql_driver_ops E c rounds" mysql_open
  for E :: "'w dbenv" and c rounds
proof unfold_locales
  fix ctx and d :: "'w mysql" and h
  assume h: "val_of (Status (mysql_driver_ops E c rounds) ctx) d = (h, None)"
  then show "Writable h = mysql_open d"
    by (cases ctx) (auto simp: Driver_Status_def Mysql_getOption_def Mysql_getState_def mysql_open_def)
  from h show "HealthRole h = RolePrimary \<Longrightarrow> Writable h"
    by (cases ctx) (auto simp: Driver_Status_def Mysql_getOption_def Mysql_getState_def split: if_splits)
next
  fix ctx and d :: "'w mysql"
  show "mysql_open (exec_of (Status (mysql_driver_ops E c rounds) ctx) d) = mysql_open d"
    by (simp add: Status_keeps)
  show "mysql_open (exec_of (Promotable (mysql_driver_ops E c rounds) ctx) d) = mysql_open d"
    by (simp add: mysql_open_def keeps_run [OF Promotable_option])
  show "\<not> mysql_open (exec_of (Demote (mysql_driver_ops E c rounds) ctx) d)"
    if "val_of (Demote (mysql_driver_ops E c rounds) ctx) d = None"
    using that by (cases ctx) (auto simp: Driver_Demote_def mysql_open_def run_SetReadOnly_option)
  show "mysql_open d" if "mysql_open (exec_of (Demote (mysql_driver_ops E c rounds) ctx) d)"
    using that no_opening.eff_run [OF Demote_no_opening, of d E ctx] by (simp add: no_opening_def)
next
  fix ctx p and d :: "'w mysql"
  assume "mysql_open (exec_of (ApplyReplica (mysql_driver_ops E c rounds) ctx p) d)"
  then show "mysql_open d"
    using no_opening.eff_run [OF ApplyReplica_no_opening, of d E c ctx p] by (simp add: no_opening_def)
next
  fix g ctx and d :: "'w mysql"
  assume g: "MGRLifecycle (mysql_driver_ops E c rounds) = Some g"
  then show "mysql_open (exec_of (MGRReplicaJoined g ctx) d) = mysql_open d"
    by (auto simp: mysql_open_def keeps_run [OF Joined_option])
  from g show "mysql_open (exec_of (IsMGRMode g) d) = mysql_open d"
    by (auto simp: Driver_IsMGRMode_def)
qed

end
