(* ===== verification/RaftState.thy ===== *)
theory RaftState
  imports MysqlDriver
begin

section \<open>The raft node's state and attributes (attr.go, raft.go, peer.go, stats.go, dbops.go)\<close>

text \<open>
  \<open>'w raft\<close> is the struct \<open>Raft\<close> together with the fields of its embedded state
  handlers \<open>F\<close> and \<open>L\<close> and the \<open>Mysql\<close> it owns. The maps \<open>peers\<close> and
  \<open>idlePeers\<close> are lists of their keys (a \<open>Peer\<close> holds nothing but its address and
  the timeouts of the configuration). \<open>r_peersFile\<close> is the content of peers.json
  (\<open>None\<close>: no such file); a file that cannot be read or parsed gives empty lists, as in
  the code. Timers are events of the loops, not fields. Goroutines that a handler starts
  are entries of \<open>r_jobs\<close>, run later by their own steps; the RPCs it sends are entries of
  \<open>r_outbox\<close>, and their answers arrive as events of the loops.

  The database is MySQL: \<open>r_hasDriver\<close> says whether \<open>dbDriver\<close> is set, and then it is
  the MySQL driver over the same \<open>Mysql\<close>.
\<close>

datatype State = FOLLOWER | CANDIDATE | LEADER | IDLE | INVALID | LEARNER | STOPPED | UNKNOWN

primrec State_String :: "State \<Rightarrow> string" where
  "State_String FOLLOWER = ''FOLLOWER''"
| "State_String CANDIDATE = ''CANDIDATE''"
| "State_String LEADER = ''LEADER''"
| "State_String IDLE = ''IDLE''"
| "State_String INVALID = ''INVALID''"
| "State_String LEARNER = ''LEARNER''"
| "State_String STOPPED = ''STOPPED''"
| "State_String UNKNOWN = ''UNKNOWN''"

lemma State_String_inj: "State_String s = State_String t \<Longrightarrow> s = t"
  by (cases s; cases t) simp_all

text \<open>\<open>CmtZero\<close> is the zero value a node starts with, which is none of the constants.\<close>

datatype CmtState = CmtZero | CmtNone | CmtOK | CmtChanging | CmtError

primrec CmtState_String :: "CmtState \<Rightarrow> string" where
  "CmtState_String CmtZero = ''UNKNOWN''"
| "CmtState_String CmtNone = ''CmtNone''"
| "CmtState_String CmtOK = ''CmtOK''"
| "CmtState_String CmtChanging = ''CmtChanging''"
| "CmtState_String CmtError = ''CmtError''"

definition noVote :: string where "noVote = []"
definition noLeader :: string where "noLeader = []"

datatype Msg = MsgRaftHeartbeat | MsgRaftRequestVote | MsgRaftPing

definition RAFTMYSQL_NONE :: string where "RAFTMYSQL_NONE = []"
definition RAFTMYSQL_WAITAPPLYRELAYLOG :: string where
  "RAFTMYSQL_WAITAPPLYRELAYLOG = ''WaitApplyRelayLog''"
definition RAFTMYSQL_WAITUNTILAFTERGTID :: string where
  "RAFTMYSQL_WAITUNTILAFTERGTID = ''WaitUntilAfterGTID''"

record RaftConfig =
  rc_MetaDatadir :: string
  rc_HeartbeatTimeout :: int
  rc_AdmitDefeatHtCnt :: int
  rc_ElectionTimeout :: int
  rc_PurgeBinlogInterval :: int
  rc_SuperIDLE :: bool
  rc_LeaderStartCommand :: string
  rc_LeaderStopCommand :: string
  rc_PurgeBinlogDisabled :: bool
  rc_RequestTimeout :: int
  rc_CandidateWaitFor2Nodes :: int

text \<open>Goroutines of the state handlers and RPCs under way.\<close>

datatype job = JobSetMySQL | JobMGRJoin RaftRPCRequest | JobPrepareMGR | JobPrepareMGRDelegated
  | JobPrepareSemiSync

datatype outmsg = OutHeartbeat string RaftRPCRequest | OutRequestVote string RaftRPCRequest
  | OutPing string RaftRPCRequest

record 'w raft =
  r_id :: string
  r_conf :: RaftConfig
  r_hasDriver :: bool
  r_mysql :: "'w mysql"
  r_mysqlReplMode :: MysqlReplMode
  r_initRole :: State
  r_leader :: string
  r_votedFor :: string
  r_state :: State
  r_cmtState :: CmtState
  r_ViewID :: "64 word"
  r_EpochID :: "64 word"
  r_metaPeers :: "string list"
  r_metaIdlePeers :: "string list"
  r_peers :: "string list"
  r_idlePeers :: "string list"
  r_stats :: RaftStats
  r_skipPurgeBinlog :: bool
  r_skipCheckSemiSync :: bool
  r_semiSyncTimeoutFor2Nodes :: "64 word"
  r_isBrainSplit :: bool
  r_mgrClusterEverOK :: bool
  r_gtid :: GTID
  r_delegateDBApply :: bool
  r_leaderDBHost :: string
  r_leaderDBPort :: int
  r_peersFile :: "(string list \<times> string list) option"
  F_ChangeToMasterError :: bool
  L_relayMasterLogFile :: string
  L_isDegradeToFollower :: bool
  L_isReadOnly :: bool
  L_nextPuregeBinlog :: string
  L_purgeOn :: bool
  L_semiSyncOn :: bool
  L_gtidCheckOn :: bool
  r_jobs :: "job list"
  r_outbox :: "outmsg list"

type_synonym ('w, 'a) rst = "('w raft, 'a) state"

definition on_mysql :: "('w mysql, 'a) state \<Rightarrow> ('w, 'a) rst" where
  "on_mysql k = zoom r_mysql (\<lambda>m r. r\<lparr>r_mysql := m\<rparr>) k"

lemma run_on_mysql:
  "run_state (on_mysql k) r = (val_of k (r_mysql r), r\<lparr>r_mysql := exec_of k (r_mysql r)\<rparr>)"
  by (simp add: on_mysql_def zoom_def)


subsection \<open>Attributes (attr.go)\<close>

definition Raft_getState :: "('w, State) rst" where
  "Raft_getState = gets r_state"

definition Raft_setLeader :: "string \<Rightarrow> ('w, unit) rst" where
  "Raft_setLeader l = modify (\<lambda>r. r\<lparr>r_leader := l\<rparr>)"

definition Raft_setState :: "State \<Rightarrow> ('w, unit) rst" where
  "Raft_setState st = do {
     Raft_setLeader noLeader;
     modify (\<lambda>r. r\<lparr>r_state := st\<rparr>) }"

definition getQuorums :: "'w raft \<Rightarrow> int" where
  "getQuorums r = int (length (r_metaPeers r)) div 2 + 1"

definition getMembers :: "'w raft \<Rightarrow> int" where
  "getMembers r = int (length (r_metaPeers r))"

definition getAllMembers :: "'w raft \<Rightarrow> int" where
  "getAllMembers r = int (length (r_metaPeers r)) + int (length (r_metaIdlePeers r))"

definition getAllPeers :: "'w raft \<Rightarrow> string list" where
  "getAllPeers r = r_metaPeers r @ r_metaIdlePeers r"

definition incViewID :: "('w, unit) rst" where
  "incViewID = modify (\<lambda>r. r\<lparr>r_ViewID := r_ViewID r + 1\<rparr>)"

definition incEpochID :: "('w, unit) rst" where
  "incEpochID = modify (\<lambda>r. r\<lparr>r_EpochID := r_EpochID r + 1\<rparr>)"

definition Raft_getUUID :: "'w dbenv \<Rightarrow> ('w, string res) rst" where
  "Raft_getUUID E = on_mysql (Mysql_GetUUID E)"


subsection \<open>Counters (stats.go)\<close>

definition upd_stats :: "(RaftStats \<Rightarrow> RaftStats) \<Rightarrow> ('w, unit) rst" where
  "upd_stats f = modify (\<lambda>r. r\<lparr>r_stats := f (r_stats r)\<rparr>)"

definition IncLeaderPromotes :: "('w, unit) rst" where
  "IncLeaderPromotes = upd_stats (\<lambda>s. s\<lparr>LeaderPromotes := LeaderPromotes s + 1\<rparr>)"

definition IncLeaderDegrades :: "('w, unit) rst" where
  "IncLeaderDegrades = upd_stats (\<lambda>s. s\<lparr>LeaderDegrades := LeaderDegrades s + 1\<rparr>)"

definition IncLeaderGetHeartbeatRequests :: "('w, unit) rst" where
  "IncLeaderGetHeartbeatRequests =
     upd_stats (\<lambda>s. s\<lparr>LeaderGetHeartbeatRequests := LeaderGetHeartbeatRequests s + 1\<rparr>)"

definition IncLeaderPurgeBinlogs :: "('w, unit) rst" where
  "IncLeaderPurgeBinlogs = upd_stats (\<lambda>s. s\<lparr>LeaderPurgeBinlogs := LeaderPurgeBinlogs s + 1\<rparr>)"

definition IncLeaderPurgeBinlogFails :: "('w, unit) rst" where
  "IncLeaderPurgeBinlogFails =
     upd_stats (\<lambda>s. s\<lparr>LeaderPurgeBinlogFails := LeaderPurgeBinlogFails s + 1\<rparr>)"

definition IncLeaderGetVoteRequests :: "('w, unit) rst" where
  "IncLeaderGetVoteRequests =
     upd_stats (\<lambda>s. s\<lparr>LeaderGetVoteRequests := LeaderGetVoteRequests s + 1\<rparr>)"

definition IncLessHeartbeatAcks :: "('w, unit) rst" where
  "IncLessHeartbeatAcks = upd_stats (\<lambda>s. s\<lparr>LessHearbeatAcks := LessHearbeatAcks s + 1\<rparr>)"

definition IncLessCmtHeartbeatAcks :: "('w, unit) rst" where
  "IncLessCmtHeartbeatAcks = upd_stats (\<lambda>s. s\<lparr>LessCmtHearbeatAcks := LessCmtHearbeatAcks s + 1\<rparr>)"

definition IncCandidatePromotes :: "('w, unit) rst" where
  "IncCandidatePromotes = upd_stats (\<lambda>s. s\<lparr>CandidatePromotes := CandidatePromotes s + 1\<rparr>)"

definition IncCandidateDegrades :: "('w, unit) rst" where
  "IncCandidateDegrades = upd_stats (\<lambda>s. s\<lparr>CandidateDegrades := CandidateDegrades s + 1\<rparr>)"

definition SetRaftMysqlStatus :: "string \<Rightarrow> ('w, unit) rst" where
  "SetRaftMysqlStatus rms = upd_stats (\<lambda>s. s\<lparr>RaftMysqlStatus := rms\<rparr>)"

definition ResetRaftMysqlStatus :: "('w, unit) rst" where
  "ResetRaftMysqlStatus = upd_stats (\<lambda>s. s\<lparr>RaftMysqlStatus := RAFTMYSQL_NONE\<rparr>)"

definition Raft_getStats :: "64 word \<Rightarrow> 'w raft \<Rightarrow> RaftStats" where
  "Raft_getStats uptime r = (r_stats r)\<lparr>Pings := 0, StateUptimes := uptime\<rparr>"


subsection \<open>Database operations (dbops.go)\<close>

definition delegateSemiSyncApply :: "'w raft \<Rightarrow> bool" where
  "delegateSemiSyncApply r = (r_delegateDBApply r \<and> r_mysqlReplMode r = ReplModeSemiSync)"

definition delegateMGRApply :: "'w raft \<Rightarrow> bool" where
  "delegateMGRApply r = (r_delegateDBApply r \<and> r_mysqlReplMode r = ReplModeMGR)"

definition demoteReadOnly :: "'w dbenv \<Rightarrow> ('w, gerror option) rst" where
  "demoteReadOnly E = do {
     delegated \<leftarrow> gets r_delegateDBApply;
     drv \<leftarrow> gets r_hasDriver;
     (if delegated then ret None
      else if drv then on_mysql (Driver_Demote E None)
      else on_mysql (Mysql_SetReadOnly E)) }"

definition changeToMaster :: "'w dbenv \<Rightarrow> ('w, gerror option) rst" where
  "changeToMaster E = do {
     delegated \<leftarrow> gets r_delegateDBApply;
     drv \<leftarrow> gets r_hasDriver;
     (if delegated then ret None
      else if drv then do {
        c \<leftarrow> gets (\<lambda>r. my_conf (r_mysql r));
        on_mysql (ChangeToMasterRepl E c None) }
      else do {
        repl \<leftarrow> on_mysql GetRepl;
        on_mysql (Mysql_ChangeToMaster E repl) }) }"

definition enableReadWrite :: "'w dbenv \<Rightarrow> ('w, gerror option) rst" where
  "enableReadWrite E = do {
     delegated \<leftarrow> gets r_delegateDBApply;
     drv \<leftarrow> gets r_hasDriver;
     (if delegated then ret None
      else if drv then on_mysql (EnableReadWrite E None)
      else on_mysql (Mysql_SetReadWrite E)) }"

definition driverPromotable :: "'w dbenv \<Rightarrow> ('w, bool) rst" where
  "driverPromotable E = do {
     drv \<leftarrow> gets r_hasDriver;
     (if \<not> drv then on_mysql (Mysql_Promotable E)
      else do { (ok, _) \<leftarrow> on_mysql (Driver_Promotable E None); ret ok }) }"

definition isDelegatedPrimaryReady :: "('w, bool) rst" where
  "isDelegatedPrimaryReady = do {
     drv \<leftarrow> gets r_hasDriver;
     (if \<not> drv then ret False
      else do {
        (health, err) \<leftarrow> on_mysql (Driver_Status None);
        ret (err = None \<and> Writable health) }) }"

definition isDelegatedMGRPhase1Ready :: "'w dbenv \<Rightarrow> ('w, bool) rst" where
  "isDelegatedMGRPhase1Ready E = do {
     drv \<leftarrow> gets r_hasDriver;
     c \<leftarrow> gets (\<lambda>r. my_conf (r_mysql r));
     (if \<not> drv \<or> mc_ReplMode c \<noteq> ReplModeMGR then ret False
      else do {
        (done, err) \<leftarrow> on_mysql (Driver_MGRPrimaryPhase1Done E c None);
        ret (err = None \<and> done) }) }"

end
