(* ===== verification/RaftCore.thy ===== *)
theory RaftCore
  imports RaftState
begin

section \<open>Membership, views, requests (raft.go, api.go, peer.go, peer_json.go)\<close>

text \<open>
  The methods of \<open>Raft\<close> that every state handler uses: construction and start, the peer
  tables and their file, views and epochs, the promotability checks and the builders of the
  RPC requests. Writing peers.json always succeeds here (the code panics when it does not).

  Shown: the two peer tables follow one contract (the locale \<open>peer_table\<close>), membership
  changes keep tables, member lists and file in step and count one epoch each, and what
  \<open>updateEpoch\<close> makes of the tables.
\<close>

subsection \<open>peers.json (peer_json.go)\<close>

fun sanitize_loop :: "string list \<Rightarrow> string set \<Rightarrow> string list" where
  "sanitize_loop [] seen = []"
| "sanitize_loop (p # ps) seen =
     (if p = [] \<or> p \<in> seen then sanitize_loop ps seen else p # sanitize_loop ps (insert p seen))"

definition sanitizePeerList :: "string list \<Rightarrow> string list" where
  "sanitizePeerList peers = sanitize_loop peers {}"

definition writePeersJSON :: "('w, unit) rst" where
  "writePeersJSON = modify (\<lambda>r. r\<lparr>r_peersFile := Some (r_metaPeers r, r_metaIdlePeers r)\<rparr>)"

definition readPeersJSON :: "string list \<times> string list \<Rightarrow> string list \<times> string list" where
  "readPeersJSON f = (sanitizePeerList (fst f), sanitizePeerList (snd f))"


subsection \<open>Construction, start, stop (raft.go)\<close>

text \<open>The keys of the map after a \<open>NewPeer\<close> for each name that is not there and not this node.\<close>

fun new_peers :: "string \<Rightarrow> string list \<Rightarrow> string list \<Rightarrow> string list" where
  "new_peers me [] ks = ks"
| "new_peers me (name # names) ks =
     new_peers me names (if name \<notin> set ks \<and> name \<noteq> me then ks @ [name] else ks)"

definition initPeers :: "('w, unit) rst" where
  "initPeers = do {
     file \<leftarrow> gets r_peersFile;
     (case file of
        None \<Rightarrow> ret ()
      | Some f \<Rightarrow> modify (\<lambda>r. r\<lparr>r_metaPeers := r_metaPeers r @ fst (readPeersJSON f),
          r_metaIdlePeers := r_metaIdlePeers r @ snd (readPeersJSON f)\<rparr>));
     modify (\<lambda>r. r\<lparr>r_peers := new_peers (r_id r) (r_metaPeers r) (r_peers r)\<rparr>);
     modify (\<lambda>r. r\<lparr>r_metaPeers := (if r_metaPeers r = [] \<and> \<not> rc_SuperIDLE (r_conf r)
                 then [r_id r] else r_metaPeers r)\<rparr>);
     modify (\<lambda>r. r\<lparr>r_idlePeers := new_peers (r_id r) (r_metaIdlePeers r) (r_idlePeers r)\<rparr>);
     modify (\<lambda>r. r\<lparr>r_metaIdlePeers := (if r_metaIdlePeers r = [] \<and> rc_SuperIDLE (r_conf r)
                 then [r_id r] else r_metaIdlePeers r)\<rparr>) }"

text \<open>
  \<open>NewRaft\<close>: the arguments are the parts of the configuration it reads, the database and
  the content of peers.json.
\<close>

definition raft0 ::
    "string \<Rightarrow> RaftConfig \<Rightarrow> 'w mysql \<Rightarrow> bool \<Rightarrow> bool \<Rightarrow> State \<Rightarrow> (string list \<times> string list) option \<Rightarrow> 'w raft" where
  "raft0 endpoint conf m drv delegate role file =
     \<lparr>r_id = endpoint, r_conf = conf, r_hasDriver = drv, r_mysql = m,
      r_mysqlReplMode = mc_ReplMode (my_conf m), r_initRole = role, r_leader = noLeader,
      r_votedFor = noVote, r_state = FOLLOWER, r_cmtState = CmtZero, r_ViewID = 0, r_EpochID = 0,
      r_metaPeers = [], r_metaIdlePeers = [], r_peers = [], r_idlePeers = [],
      r_stats = zero_RaftStats, r_skipPurgeBinlog = False, r_skipCheckSemiSync = False,
      r_semiSyncTimeoutFor2Nodes = mc_SemiSyncTimeoutForTwoNodes (my_conf m),
      r_isBrainSplit = False, r_mgrClusterEverOK = False, r_gtid = zero_GTID,
      r_delegateDBApply = delegate, r_leaderDBHost = [], r_leaderDBPort = 0, r_peersFile = file,
      F_ChangeToMasterError = False, L_relayMasterLogFile = [], L_isDegradeToFollower = False,
      L_isReadOnly = False, L_nextPuregeBinlog = [], L_purgeOn = False, L_semiSyncOn = False,
      L_gtidCheckOn = False, r_jobs = [], r_outbox = []\<rparr>"

definition NewRaft ::
    "string \<Rightarrow> RaftConfig \<Rightarrow> 'w mysql \<Rightarrow> bool \<Rightarrow> bool \<Rightarrow> State \<Rightarrow> (string list \<times> string list) option \<Rightarrow> 'w raft" where
  "NewRaft endpoint conf m drv delegate role file =
     exec_of initPeers (raft0 endpoint conf m drv delegate role file)"

definition Raft_Start :: "('w, unit) rst" where
  "Raft_Start = do {
     super \<leftarrow> gets (\<lambda>r. rc_SuperIDLE (r_conf r));
     (if super then Raft_setState IDLE else Raft_setState FOLLOWER);
     role \<leftarrow> gets r_initRole;
     me \<leftarrow> gets r_id;
     (if role = LEADER then do {
        Raft_setState LEADER;
        Raft_setLeader me;
        IncLeaderPromotes }
      else if role = FOLLOWER then Raft_setState FOLLOWER
      else if role = IDLE then Raft_setState IDLE
      else ret ()) }"

definition running :: "'w raft \<Rightarrow> bool" where
  "running r = (r_state r \<noteq> STOPPED)"

definition Raft_Stop :: "('w, unit) rst" where
  "Raft_Stop = do {
     st \<leftarrow> Raft_getState;
     whenM (st \<noteq> STOPPED) (Raft_setState STOPPED) }"


subsection \<open>Requests, views and epochs (raft.go)\<close>

definition checkRequest :: "'w raft \<Rightarrow> RaftRPCRequest \<Rightarrow> bool" where
  "checkRequest r req = (GetFrom req \<in> set (r_peers r))"

definition updateView :: "64 word \<Rightarrow> string \<Rightarrow> ('w, unit) rst" where
  "updateView viewid leader =
     modify (\<lambda>r. r\<lparr>r_leader := leader, r_votedFor := noVote, r_ViewID := viewid\<rparr>)"

text \<open>One \<open>mark\<close> serves both loops: it still holds \<open>peers\<close> when the idle map is pruned.\<close>

definition updateEpoch :: "64 word \<Rightarrow> string list \<Rightarrow> string list \<Rightarrow> ('w, unit) rst" where
  "updateEpoch epochid peers idlePeers = do {
     modify (\<lambda>r. r\<lparr>r_peers := filter (\<lambda>k. k \<in> set peers) (new_peers (r_id r) peers (r_peers r))\<rparr>);
     modify (\<lambda>r. r\<lparr>r_metaPeers := sanitizePeerList peers\<rparr>);
     modify (\<lambda>r. r\<lparr>r_idlePeers := filter (\<lambda>k. k \<in> set peers \<union> set idlePeers)
        (new_peers (r_id r) idlePeers (r_idlePeers r))\<rparr>);
     modify (\<lambda>r. r\<lparr>r_metaIdlePeers := sanitizePeerList idlePeers\<rparr>);
     modify (\<lambda>r. r\<lparr>r_EpochID := epochid\<rparr>);
     writePeersJSON }"

text \<open>\<open>(int)(a - b)\<close> of two \<open>uint64\<close>.\<close>

definition id_diff :: "64 word \<Rightarrow> 64 word \<Rightarrow> int" where
  "id_diff a b = sint (a - b)"

definition SetSkipPurgeBinlog :: "bool \<Rightarrow> ('w, unit) rst" where
  "SetSkipPurgeBinlog v = modify (\<lambda>r. r\<lparr>r_skipPurgeBinlog := v\<rparr>)"

definition SetSkipCheckSemiSync :: "bool \<Rightarrow> ('w, unit) rst" where
  "SetSkipCheckSemiSync v = modify (\<lambda>r. r\<lparr>r_skipCheckSemiSync := v\<rparr>)"


subsection \<open>The cluster seen through MySQL (api.go, raft.go)\<close>

definition isMGRClusterStatusOK :: "'w dbenv \<Rightarrow> ('w, bool \<times> string) rst" where
  "isMGRClusterStatusOK E = do {
     (rows, e) \<leftarrow> on_mysql (Mysql_GetMGRStats E);
     (case e of Some err \<Rightarrow> ret (False, [])
      | None \<Rightarrow> do {
          (uuid, e2) \<leftarrow> on_mysql (Mysql_GetMGRMasterUUID E);
          (case e2 of Some err \<Rightarrow> ret (False, uuid)
           | None \<Rightarrow>
             (let (cnt, masterOK) = writable_loop uuid rows 0 False in
              if \<not> masterOK \<or> cnt < 2 then ret (False, uuid)
              else do {
                modify (\<lambda>r. r\<lparr>r_mgrClusterEverOK := True\<rparr>);
                ret (True, uuid) })) }) }"

definition mgrPrimaryPromotable :: "'w dbenv \<Rightarrow> ('w, bool) rst" where
  "mgrPrimaryPromotable E = do {
     mode \<leftarrow> gets r_mysqlReplMode;
     (if mode \<noteq> ReplModeMGR then ret True
      else do {
        (myuuid, e) \<leftarrow> Raft_getUUID E;
        (if e \<noteq> None \<or> myuuid = [] then ret False
         else do {
           (ok, puuid) \<leftarrow> isMGRClusterStatusOK E;
           ret (\<not> (ok \<and> puuid \<noteq> [] \<and> puuid \<noteq> myuuid)) }) }) }"

definition replicationPromotable :: "'w dbenv \<Rightarrow> ('w, bool) rst" where
  "replicationPromotable E = driverPromotable E"

definition Raft_Promotable :: "'w dbenv \<Rightarrow> ('w, bool) rst" where
  "Raft_Promotable E = do {
     ok \<leftarrow> replicationPromotable E;
     (if \<not> ok then ret False else mgrPrimaryPromotable E) }"


subsection \<open>Membership changes (api.go)\<close>

definition AddPeer :: "string \<Rightarrow> ('w, gerror option) rst" where
  "AddPeer c = do {
     r \<leftarrow> gets id;
     (if c = [] then ret None
      else if c \<in> set (r_peers r) then ret None
      else if c \<in> set (r_idlePeers r) then ret None
      else do {
        whenM (r_id r \<noteq> c) (do {
          modify (\<lambda>r. r\<lparr>r_peers := r_peers r @ [c]\<rparr>);
          modify (\<lambda>r. r\<lparr>r_metaPeers := r_metaPeers r @ [c]\<rparr>);
          incEpochID;
          writePeersJSON });
        ret None }) }"

definition AddIdlePeer :: "string \<Rightarrow> ('w, gerror option) rst" where
  "AddIdlePeer c = do {
     r \<leftarrow> gets id;
     (if c = [] then ret None
      else if c \<in> set (r_peers r) then ret None
      else if c \<in> set (r_idlePeers r) then ret None
      else do {
        whenM (r_id r \<noteq> c) (do {
          modify (\<lambda>r. r\<lparr>r_idlePeers := r_idlePeers r @ [c]\<rparr>);
          modify (\<lambda>r. r\<lparr>r_metaIdlePeers := r_metaIdlePeers r @ [c]\<rparr>);
          incEpochID;
          writePeersJSON });
        ret None }) }"

definition RemovePeer :: "string \<Rightarrow> ('w, gerror option) rst" where
  "RemovePeer c = do {
     r \<leftarrow> gets id;
     (if c \<noteq> r_id r then
        (if c \<notin> set (r_peers r) then ret None
         else do {
           modify (\<lambda>r. r\<lparr>r_peers := remove1 c (r_peers r)\<rparr>);
           modify (\<lambda>r. r\<lparr>r_metaPeers := remove1 c (r_metaPeers r)\<rparr>);
           incEpochID;
           writePeersJSON;
           ret None })
      else ret None) }"

definition RemoveIdlePeer :: "string \<Rightarrow> ('w, gerror option) rst" where
  "RemoveIdlePeer c = do {
     r \<leftarrow> gets id;
     (if c \<noteq> r_id r then
        (if c \<notin> set (r_idlePeers r) then ret None
         else do {
           modify (\<lambda>r. r\<lparr>r_idlePeers := remove1 c (r_idlePeers r)\<rparr>);
           modify (\<lambda>r. r\<lparr>r_metaIdlePeers := remove1 c (r_metaIdlePeers r)\<rparr>);
           incEpochID;
           writePeersJSON;
           ret None })
      else ret None) }"

definition RecordLeaderDatabase :: "Repl \<Rightarrow> ('w, unit) rst" where
  "RecordLeaderDatabase repl =
     (if Master_Host repl = [] \<or> Master_Port repl \<le> 0 then ret ()
      else modify (\<lambda>r. r\<lparr>r_leaderDBHost := Master_Host repl, r_leaderDBPort := Master_Port repl\<rparr>))"

definition GetLeaderDatabaseEndpoint :: "('w, string \<times> int) rst" where
  "GetLeaderDatabaseEndpoint = do {
     host \<leftarrow> gets r_leaderDBHost;
     port \<leftarrow> gets r_leaderDBPort;
     st \<leftarrow> gets r_state;
     (if host \<noteq> [] \<and> port > 0 then ret (host, port)
      else if st = LEADER then do {
        repl \<leftarrow> on_mysql GetRepl;
        ret (Master_Host repl, Master_Port repl) }
      else ret ([], 0)) }"


subsection \<open>RPC requests (peer.go)\<close>

definition heartbeat_request :: "'w raft \<Rightarrow> string \<Rightarrow> RaftRPCRequest" where
  "heartbeat_request r to = NewRaftRPCRequest
     \<lparr>req_Raft := zero_header\<lparr>EpochID := r_EpochID r, ViewID := r_ViewID r, From := r_id r, To := to,
        Leader := r_leader r, CmtStateName := CmtState_String (r_cmtState r)\<rparr>,
      req_Peers := r_metaPeers r, req_IdlePeers := r_metaIdlePeers r, req_GTID := r_gtid r,
      req_Repl := val_of GetRepl (r_mysql r)\<rparr>"

definition send_out :: "outmsg \<Rightarrow> ('w, unit) rst" where
  "send_out m = modify (\<lambda>r. r\<lparr>r_outbox := r_outbox r @ [m]\<rparr>)"

definition Peer_sendHeartbeat :: "string \<Rightarrow> ('w, unit) rst" where
  "Peer_sendHeartbeat peer = do {
     r \<leftarrow> gets id;
     send_out (OutHeartbeat peer (heartbeat_request r peer)) }"

text \<open>
  Without a UUID or a GTID nothing is sent: the candidate answers itself with
  \<open>ErrorMySQLDown\<close>. The result is that local answer, if any.
\<close>

definition Peer_sendRequestVote :: "'w dbenv \<Rightarrow> string \<Rightarrow> ('w, RaftRPCResponse option) rst" where
  "Peer_sendRequestVote E peer = do {
     r \<leftarrow> gets id;
     let head = zero_header\<lparr>EpochID := r_EpochID r, ViewID := r_ViewID r, From := r_id r, To := peer,
                 Leader := r_leader r\<rparr>;
     (uuid, e) \<leftarrow> Raft_getUUID E;
     (case e of Some err \<Rightarrow> ret (Some (NewRaftRPCResponse ErrorMySQLDown))
      | None \<Rightarrow> do {
          (gtid, e2) \<leftarrow> on_mysql (Mysql_GetGTID E);
          (case e2 of Some err \<Rightarrow> ret (Some (NewRaftRPCResponse ErrorMySQLDown))
           | None \<Rightarrow> do {
               send_out (OutRequestVote peer
                 (NewRaftRPCRequest\<lparr>req_Raft := head\<lparr>UUID := uuid\<rparr>, req_GTID := gtid\<rparr>));
               ret None }) }) }"

definition Peer_SendPing :: "string \<Rightarrow> ('w, unit) rst" where
  "Peer_SendPing peer = send_out (OutPing peer NewRaftRPCRequest)"

text \<open>The fields every handler sets first in its response.\<close>

definition base_response :: "'w raft \<Rightarrow> string \<Rightarrow> RaftRPCResponse" where
  "base_response r code = (NewRaftRPCResponse code)
     \<lparr>rsp_Raft := zero_header\<lparr>From := r_id r, ViewID := r_ViewID r, EpochID := r_EpochID r,
        StateName := State_String (r_state r)\<rparr>\<rparr>"

definition processPingRequest :: "RaftRPCRequest \<Rightarrow> ('w, RaftRPCResponse) rst" where
  "processPingRequest req = gets (\<lambda>r. base_response r OK)"

end
