(* ===== verification/RaftMembers.thy ===== *)
theory RaftMembers
  imports RaftCore
begin

section \<open>Membership: one contract for both peer tables\<close>

text \<open>
  \<open>AddPeer\<close>/\<open>RemovePeer\<close> and \<open>AddIdlePeer\<close>/\<open>RemoveIdlePeer\<close> are the same code over
  two tables. \<open>peer_table\<close> states what both promise, its lemmas are proved once, and it is
  interpreted on each pair. \<open>updateEpoch\<close>, through which a leader's lists reach the other
  nodes, is shown to install exactly the leader's lists, except that the idle table keeps
  nodes that moved to the peers.
\<close>

lemma run_writePeersJSON [simp]:
  "run_state writePeersJSON r = ((), r\<lparr>r_peersFile := Some (r_metaPeers r, r_metaIdlePeers r)\<rparr>)"
  by (simp add: writePeersJSON_def)

lemma run_incEpochID [simp]: "run_state incEpochID r = ((), r\<lparr>r_EpochID := r_EpochID r + 1\<rparr>)"
  by (simp add: incEpochID_def)

lemma run_AddPeer:
  "run_state (AddPeer c) r =
     (None, if c = [] \<or> c \<in> set (r_peers r) \<or> c \<in> set (r_idlePeers r) \<or> r_id r = c then r
            else r\<lparr>r_peers := r_peers r @ [c], r_metaPeers := r_metaPeers r @ [c],
              r_EpochID := r_EpochID r + 1, r_peersFile := Some (r_metaPeers r @ [c], r_metaIdlePeers r)\<rparr>)"
  by (simp add: AddPeer_def)

lemma run_AddIdlePeer:
  "run_state (AddIdlePeer c) r =
     (None, if c = [] \<or> c \<in> set (r_idlePeers r) \<or> c \<in> set (r_peers r) \<or> r_id r = c then r
            else r\<lparr>r_idlePeers := r_idlePeers r @ [c], r_metaIdlePeers := r_metaIdlePeers r @ [c],
              r_EpochID := r_EpochID r + 1, r_peersFile := Some (r_metaPeers r, r_metaIdlePeers r @ [c])\<rparr>)"
  by (auto simp: AddIdlePeer_def)

lemma run_RemovePeer:
  "run_state (RemovePeer c) r =
     (None, if r_id r = c \<or> c \<notin> set (r_peers r) then r
            else r\<lparr>r_peers := remove1 c (r_peers r), r_metaPeers := remove1 c (r_metaPeers r),
              r_EpochID := r_EpochID r + 1,
              r_peersFile := Some (remove1 c (r_metaPeers r), r_metaIdlePeers r)\<rparr>)"
  by (auto simp: RemovePeer_def)

lemma run_RemoveIdlePeer:
  "run_state (RemoveIdlePeer c) r =
     (None, if r_id r = c \<or> c \<notin> set (r_idlePeers r) then r
            else r\<lparr>r_idlePeers := remove1 c (r_idlePeers r), r_metaIdlePeers := remove1 c (r_metaIdlePeers r),
              r_EpochID := r_EpochID r + 1,
              r_peersFile := Some (r_metaPeers r, remove1 c (r_metaIdlePeers r))\<rparr>)"
  by (auto simp: RemoveIdlePeer_def)


subsection \<open>The contract\<close>

locale peer_table =
  fixes add rem :: "string \<Rightarrow> ('w, gerror option) rst"
    and keys listed other :: "'w raft \<Rightarrow> string list"
  assumes add_new:
      "c \<noteq> [] \<Longrightarrow> c \<notin> set (keys r) \<Longrightarrow> c \<notin> set (other r) \<Longrightarrow> c \<noteq> r_id r \<Longrightarrow>
       keys (exec_of (add c) r) = keys r @ [c] \<and> listed (exec_of (add c) r) = listed r @ [c] \<and>
       other (exec_of (add c) r) = other r \<and> r_id (exec_of (add c) r) = r_id r \<and>
       r_EpochID (exec_of (add c) r) = r_EpochID r + 1"
    and add_old:
      "c = [] \<or> c \<in> set (keys r) \<or> c \<in> set (other r) \<or> c = r_id r \<Longrightarrow> exec_of (add c) r = r"
    and rem_there:
      "c \<noteq> r_id r \<Longrightarrow> c \<in> set (keys r) \<Longrightarrow>
       keys (exec_of (rem c) r) = remove1 c (keys r) \<and> listed (exec_of (rem c) r) = remove1 c (listed r) \<and>
       other (exec_of (rem c) r) = other r \<and> r_id (exec_of (rem c) r) = r_id r \<and>
       r_EpochID (exec_of (rem c) r) = r_EpochID r + 1"
    and rem_not: "c = r_id r \<or> c \<notin> set (keys r) \<Longrightarrow> exec_of (rem c) r = r"
begin

text \<open>The table and the list of members say the same, this node aside.\<close>

definition in_step :: "'w raft \<Rightarrow> bool" where
  "in_step r \<longleftrightarrow> distinct (keys r) \<and> distinct (listed r) \<and> set (keys r) = set (listed r) - {r_id r} \<and>
     [] \<notin> set (listed r)"

lemma in_step_fresh: "in_step r \<Longrightarrow> c \<notin> set (keys r) \<Longrightarrow> c \<noteq> r_id r \<Longrightarrow> c \<notin> set (listed r)"
  by (auto simp: in_step_def)

lemma add_in_step: "in_step r \<Longrightarrow> in_step (exec_of (add c) r)"
proof -
  assume ok: "in_step r"
  show ?thesis
  proof (cases "c = [] \<or> c \<in> set (keys r) \<or> c \<in> set (other r) \<or> c = r_id r")
    case False
    then have "c \<notin> set (listed r)"
      using in_step_fresh [OF ok, of c] by simp
    with False ok show ?thesis
      unfolding in_step_def by (simp add: add_new) blast
  qed (simp add: add_old ok)
qed

lemma rem_in_step: "in_step r \<Longrightarrow> in_step (exec_of (rem c) r)"
  using rem_there [of c r] rem_not [of c r]
  by (cases "c = r_id r \<or> c \<notin> set (keys r)") (auto simp: in_step_def)

lemma add_twice: "exec_of (add c) (exec_of (add c) r) = exec_of (add c) r"
  by (cases "c = [] \<or> c \<in> set (keys r) \<or> c \<in> set (other r) \<or> c = r_id r")
     (auto simp: add_old add_new)

text \<open>Adding a new member and removing it restores table and list; two epochs have passed.\<close>

lemma add_then_rem:
  assumes "in_step r" "c \<noteq> []" "c \<notin> set (keys r)" "c \<notin> set (other r)" "c \<noteq> r_id r"
  shows "keys (exec_of (rem c) (exec_of (add c) r)) = keys r"
    and "listed (exec_of (rem c) (exec_of (add c) r)) = listed r"
    and "r_EpochID (exec_of (rem c) (exec_of (add c) r)) = r_EpochID r + 2"
  using add_new [of c r] rem_there [of c "exec_of (add c) r"] in_step_fresh [of r c] assms
  by (simp_all add: remove1_append)

end

interpretation peers: peer_table AddPeer RemovePeer r_peers r_metaPeers r_idlePeers
  by unfold_locales (auto simp: run_AddPeer run_RemovePeer)

interpretation idle_peers: peer_table AddIdlePeer RemoveIdlePeer r_idlePeers r_metaIdlePeers r_peers
  by unfold_locales (auto simp: run_AddIdlePeer run_RemoveIdlePeer)


subsection \<open>Sequences of membership changes\<close>

datatype member_op = Add string | AddIdle string | Remove string | RemoveIdle string

primrec member_step :: "member_op \<Rightarrow> ('w, gerror option) rst" where
  "member_step (Add c) = AddPeer c"
| "member_step (AddIdle c) = AddIdlePeer c"
| "member_step (Remove c) = RemovePeer c"
| "member_step (RemoveIdle c) = RemoveIdlePeer c"

definition member_run :: "member_op list \<Rightarrow> 'w raft \<Rightarrow> 'w raft" where
  "member_run ops r = fold (\<lambda>p. exec_of (member_step p)) ops r"

text \<open>The number of operations of a run that change the membership.\<close>

fun effective :: "member_op list \<Rightarrow> 'w raft \<Rightarrow> nat" where
  "effective [] r = 0"
| "effective (p # ps) r =
     (if getAllPeers (exec_of (member_step p) r) = getAllPeers r then 0 else 1) +
     effective ps (exec_of (member_step p) r)"

definition membership_ok :: "'w raft \<Rightarrow> bool" where
  "membership_ok r \<longleftrightarrow>
     distinct (r_peers r) \<and> distinct (r_metaPeers r) \<and>
     set (r_peers r) = set (r_metaPeers r) - {r_id r} \<and> [] \<notin> set (r_metaPeers r) \<and>
     distinct (r_idlePeers r) \<and> distinct (r_metaIdlePeers r) \<and>
     set (r_idlePeers r) = set (r_metaIdlePeers r) - {r_id r} \<and> [] \<notin> set (r_metaIdlePeers r) \<and>
     set (r_peers r) \<inter> set (r_idlePeers r) = {}"

lemma membership_in_step:
  "membership_ok r \<longleftrightarrow> peers.in_step r \<and> idle_peers.in_step r \<and> set (r_peers r) \<inter> set (r_idlePeers r) = {}"
  by (auto simp: membership_ok_def peers.in_step_def idle_peers.in_step_def)

lemma member_step_ok: "membership_ok r \<Longrightarrow> membership_ok (exec_of (member_step p) r)"
  by (cases p)
     (auto simp: membership_ok_def run_AddPeer run_AddIdlePeer run_RemovePeer run_RemoveIdlePeer)

lemma remove1_neq: "x \<in> set xs \<Longrightarrow> remove1 x xs \<noteq> xs"
  by (induction xs) auto

lemma member_step_epoch:
  "membership_ok r \<Longrightarrow>
   r_EpochID (exec_of (member_step p) r) =
     r_EpochID r + (if getAllPeers (exec_of (member_step p) r) = getAllPeers r then 0 else 1)"
  by (cases p)
     (auto simp: membership_ok_def run_AddPeer run_AddIdlePeer run_RemovePeer run_RemoveIdlePeer
        getAllPeers_def remove1_neq)

lemma member_run_all:
  "membership_ok r \<Longrightarrow> membership_ok (member_run ops r) \<and> r_id (member_run ops r) = r_id r \<and>
   r_EpochID (member_run ops r) = r_EpochID r + of_nat (effective ops r)"
proof (induction ops arbitrary: r)
  case (Cons p ops)
  have "r_id (exec_of (member_step p) r) = r_id r"
    by (cases p) (auto simp: run_AddPeer run_AddIdlePeer run_RemovePeer run_RemoveIdlePeer)
  with Cons.IH [OF member_step_ok [OF Cons.prems]] member_step_epoch [OF Cons.prems, of p]
  show ?case by (simp add: member_run_def)
qed (simp add: member_run_def)


subsection \<open>The peers file\<close>

lemma member_step_file:
  "r_peersFile r = Some (r_metaPeers r, r_metaIdlePeers r) \<Longrightarrow>
   r_peersFile (exec_of (member_step p) r) =
     Some (r_metaPeers (exec_of (member_step p) r), r_metaIdlePeers (exec_of (member_step p) r))"
  by (cases p) (auto simp: run_AddPeer run_AddIdlePeer run_RemovePeer run_RemoveIdlePeer)

lemma sanitize_loop_set: "set (sanitize_loop ps seen) = set ps - {[]} - seen"
  by (induction ps seen rule: sanitize_loop.induct) auto

lemma sanitize_loop_distinct: "distinct (sanitize_loop ps seen)"
  by (induction ps seen rule: sanitize_loop.induct) (auto simp: sanitize_loop_set)

lemma sanitize_loop_id:
  "distinct ps \<Longrightarrow> [] \<notin> set ps \<Longrightarrow> set ps \<inter> seen = {} \<Longrightarrow> sanitize_loop ps seen = ps"
  by (induction ps seen rule: sanitize_loop.induct) auto

lemma sanitizePeerList_set: "set (sanitizePeerList ps) = set ps - {[]}"
  by (simp add: sanitizePeerList_def sanitize_loop_set)

lemma sanitizePeerList_distinct: "distinct (sanitizePeerList ps)"
  by (simp add: sanitizePeerList_def sanitize_loop_distinct)

lemma sanitizePeerList_id: "distinct ps \<Longrightarrow> [] \<notin> set ps \<Longrightarrow> sanitizePeerList ps = ps"
  by (simp add: sanitizePeerList_def sanitize_loop_id)

lemma new_peers_set: "set (new_peers me names ks) = set ks \<union> (set names - {me})"
  by (induction me names ks rule: new_peers.induct) auto

lemma new_peers_distinct: "distinct ks \<Longrightarrow> distinct (new_peers me names ks)"
  by (induction me names ks rule: new_peers.induct) auto

lemma run_updateEpoch:
  "exec_of (updateEpoch ep ps ips) r =
     r\<lparr>r_peers := filter (\<lambda>k. k \<in> set ps) (new_peers (r_id r) ps (r_peers r)),
       r_metaPeers := sanitizePeerList ps,
       r_idlePeers := filter (\<lambda>k. k \<in> set ps \<union> set ips) (new_peers (r_id r) ips (r_idlePeers r)),
       r_metaIdlePeers := sanitizePeerList ips, r_EpochID := ep,
       r_peersFile := Some (sanitizePeerList ps, sanitizePeerList ips)\<rparr>"
  by (simp add: updateEpoch_def)

lemma raft0_sel:
  "r_id (raft0 ep conf m drv dele role file) = ep"
  "r_conf (raft0 ep conf m drv dele role file) = conf"
  "r_metaPeers (raft0 ep conf m drv dele role file) = []"
  "r_metaIdlePeers (raft0 ep conf m drv dele role file) = []"
  "r_peers (raft0 ep conf m drv dele role file) = []"
  "r_idlePeers (raft0 ep conf m drv dele role file) = []"
  "r_peersFile (raft0 ep conf m drv dele role file) = file"
  by (simp_all add: raft0_def)

lemma run_NewRaft:
  "NewRaft ep conf m drv dele role (Some (ps, ips)) =
     (let mp = (if sanitizePeerList ps = [] \<and> \<not> rc_SuperIDLE conf then [ep] else sanitizePeerList ps);
          mi = (if sanitizePeerList ips = [] \<and> rc_SuperIDLE conf then [ep] else sanitizePeerList ips)
      in (raft0 ep conf m drv dele role (Some (ps, ips)))
           \<lparr>r_metaPeers := mp, r_peers := new_peers ep (sanitizePeerList ps) [],
            r_metaIdlePeers := mi, r_idlePeers := new_peers ep (sanitizePeerList ips) []\<rparr>)"
  by (simp add: NewRaft_def initPeers_def raft0_sel readPeersJSON_def Let_def)


subsection \<open>Properties\<close>

text \<open>
  C18: any sequence of member and idle-member additions and removals
  keeps the two tables of peers in step with the two member lists (no duplicates, no empty
  address, this node in no table, no node in both), and the epoch advances by exactly one
  for every operation that changed a list.
\<close>

theorem membership_invariant:
  assumes "membership_ok r"
  shows "membership_ok (member_run ops r) \<and>
    r_EpochID (member_run ops r) = r_EpochID r + of_nat (effective ops r)"
  using member_run_all [OF assms] by simp_all

definition demo_conf :: RaftConfig where
  "demo_conf = \<lparr>rc_MetaDatadir = ''.'', rc_HeartbeatTimeout = 1000,
     rc_AdmitDefeatHtCnt = 10, rc_ElectionTimeout = 3000, rc_PurgeBinlogInterval = 300000,
     rc_SuperIDLE = False, rc_LeaderStartCommand = ''nop'', rc_LeaderStopCommand = ''nop'',
     rc_PurgeBinlogDisabled = False, rc_RequestTimeout = 1000, rc_CandidateWaitFor2Nodes = 60000\<rparr>"

definition raft_on :: "'w \<Rightarrow> string list \<times> string list \<Rightarrow> 'w raft" where
  "raft_on w file = NewRaft ''a:1'' demo_conf (NewMysql conf0 1000 w) True False UNKNOWN (Some file)"

definition demo_raft :: "string list \<times> string list \<Rightarrow> unit raft" where
  "demo_raft file = raft_on () file"

lemma demo_raft_fields:
  "r_id (demo_raft (ps, ips)) = ''a:1''"
  "r_peers (demo_raft (ps, ips)) = new_peers ''a:1'' (sanitizePeerList ps) []"
  "r_idlePeers (demo_raft (ps, ips)) = new_peers ''a:1'' (sanitizePeerList ips) []"
  "r_metaPeers (demo_raft (ps, ips)) =
     (if sanitizePeerList ps = [] then [''a:1''] else sanitizePeerList ps)"
  "r_metaIdlePeers (demo_raft (ps, ips)) = sanitizePeerList ips"
  "r_EpochID (demo_raft (ps, ips)) = 0" "r_ViewID (demo_raft (ps, ips)) = 0"
  "r_votedFor (demo_raft (ps, ips)) = []" "r_state (demo_raft (ps, ips)) = FOLLOWER"
  by (simp_all add: demo_raft_def raft_on_def demo_conf_def run_NewRaft raft0_def noVote_def)

lemma demo_raft_ok: "membership_ok (demo_raft ([''a:1'', ''b:1''], [''d:1'']))"
  by (simp add: membership_ok_def demo_raft_fields sanitizePeerList_def)

theorem membership_invariant_witness:
  "membership_ok (member_run [Add ''c:1'', AddIdle ''c:1'', RemoveIdle ''d:1'']
     (demo_raft ([''a:1'', ''b:1''], [''d:1''])))"
  using membership_invariant [OF demo_raft_ok] by blast

text \<open>
  Adding a node that is in neither table and removing it again
  restores the table and the member list; the two changes count two epochs.
\<close>

lemma add_remove_roundtrip:
  assumes "membership_ok r" "c \<noteq> []" "c \<noteq> r_id r" "c \<notin> set (r_peers r)" "c \<notin> set (r_idlePeers r)"
  shows "let r' = member_run [Add c, Remove c] r in
    r_peers r' = r_peers r \<and> r_metaPeers r' = r_metaPeers r \<and> r_EpochID r' = r_EpochID r + 2"
  using peers.add_then_rem [of r c] assms
  by (simp add: member_run_def membership_in_step)

lemma add_remove_roundtrip_example:
  "r_peers (member_run [Add ''e:1'', Remove ''e:1''] (demo_raft ([''a:1'', ''b:1''], [''d:1'']))) = [''b:1'']"
  using add_remove_roundtrip [OF demo_raft_ok, of "''e:1''"]
  by (simp add: Let_def demo_raft_fields sanitizePeerList_def)

text \<open>
  A node that accepts a leader's epoch has the leader's epoch, its
  member lists without empty and repeated entries, exactly the leader's peers but itself in
  its table of peers, and writes the new lists to peers.json. Its table of idle peers has
  the leader's idle peers but itself, and besides them every idle peer it had that the
  leader now lists as a peer: the marks of the first loop are not cleared for the second.
\<close>

lemma updateEpoch_installs:
  assumes "r_id r \<notin> set (r_peers r)" "r_id r \<notin> set (r_idlePeers r)"
  shows "let r' = exec_of (updateEpoch ep ps ips) r in
    r_EpochID r' = ep \<and>
    r_metaPeers r' = sanitizePeerList ps \<and> r_metaIdlePeers r' = sanitizePeerList ips \<and>
    set (r_peers r') = set ps - {r_id r} \<and>
    set (r_idlePeers r') = (set ips - {r_id r}) \<union> (set (r_idlePeers r) \<inter> set ps) \<and>
    r_peersFile r' = Some (r_metaPeers r', r_metaIdlePeers r')"
  using assms by (auto simp: run_updateEpoch new_peers_set)

lemma updateEpoch_installs_example:
  "set (r_idlePeers (exec_of (updateEpoch 7 [''a:1'', ''b:1'', ''d:1''] [])
     (demo_raft ([''a:1'', ''b:1''], [''d:1''])))) = {''d:1''}"
  using updateEpoch_installs [of "demo_raft ([''a:1'', ''b:1''], [''d:1''])" 7
      "[''a:1'', ''b:1'', ''d:1'']" "[]"]
  by (simp add: Let_def demo_raft_fields sanitizePeerList_def)

lemma member_run_file:
  "r_peersFile r = Some (r_metaPeers r, r_metaIdlePeers r) \<Longrightarrow>
   r_peersFile (member_run ops r) = Some (r_metaPeers (member_run ops r), r_metaIdlePeers (member_run ops r))"
proof (induction ops arbitrary: r)
  case (Cons p ops)
  from Cons.IH [OF member_step_file [OF Cons.prems]] show ?case by (simp add: member_run_def)
qed (simp add: member_run_def)

lemma restart_restores:
  assumes "r_peersFile r = Some (r_metaPeers r, r_metaIdlePeers r)" "membership_ok r"
  shows "let r' = NewRaft (r_id r) conf m drv dele role (r_peersFile r) in
    r_metaPeers r' = (if r_metaPeers r = [] \<and> \<not> rc_SuperIDLE conf then [r_id r] else r_metaPeers r) \<and>
    r_metaIdlePeers r' = (if r_metaIdlePeers r = [] \<and> rc_SuperIDLE conf then [r_id r] else r_metaIdlePeers r) \<and>
    set (r_peers r') = set (r_peers r) \<and> set (r_idlePeers r') = set (r_idlePeers r) \<and>
    distinct (r_peers r') \<and> distinct (r_idlePeers r') \<and> r_EpochID r' = 0"
proof -
  have "sanitizePeerList (r_metaPeers r) = r_metaPeers r"
    "sanitizePeerList (r_metaIdlePeers r) = r_metaIdlePeers r"
    using assms(2) by (simp_all add: membership_ok_def sanitizePeerList_id)
  moreover have "r_EpochID (raft0 (r_id r) conf m drv dele role f) = 0" for f :: "(string list \<times> string list) option"
    by (simp add: raft0_def)
  ultimately show ?thesis
    using assms by (simp add: run_NewRaft Let_def new_peers_set new_peers_distinct membership_ok_def)
qed



end
