(* ===== verification/RaftFollower.thy ===== *)
theory RaftFollower
  imports RaftMembers
begin

section \<open>FOLLOWER (follower.go)\<close>

text \<open>
  The handlers of the FOLLOWER state, each the whole function with its early returns, what
  its loop does at each event, the split-brain check, and the asynchronous jobs it starts.
  \<open>Follower_\<close> definitions carry the names of the Go methods.
\<close>

definition add_job :: "job \<Rightarrow> ('w, unit) rst" where
  "add_job j = modify (\<lambda>r. r\<lparr>r_jobs := r_jobs r @ [j]\<rparr>)"

definition set_cmt :: "CmtState \<Rightarrow> ('w, unit) rst" where
  "set_cmt c = modify (\<lambda>r. r\<lparr>r_cmtState := c\<rparr>)"

definition set_everOK :: "('w, unit) rst" where
  "set_everOK = modify (\<lambda>r. r\<lparr>r_mgrClusterEverOK := True\<rparr>)"

definition with_cmt :: "CmtState \<Rightarrow> RaftRPCResponse \<Rightarrow> RaftRPCResponse" where
  "with_cmt c rsp = rsp\<lparr>rsp_Raft := (rsp_Raft rsp)\<lparr>CmtStateName := CmtState_String c\<rparr>\<rparr>"

definition with_leader :: "string \<Rightarrow> RaftRPCResponse \<Rightarrow> RaftRPCResponse" where
  "with_leader l rsp = rsp\<lparr>rsp_Raft := (rsp_Raft rsp)\<lparr>Leader := l\<rparr>\<rparr>"


subsection \<open>Heartbeats\<close>

definition applyEpochView :: "RaftRPCRequest \<Rightarrow> int \<Rightarrow> int \<Rightarrow> ('w, unit) rst" where
  "applyEpochView req viewdiff epochdiff = do {
     whenM (viewdiff < 0) (updateView (GetViewID req) (GetFrom req));
     whenM (epochdiff \<noteq> 0) (updateEpoch (GetEpochID req) (req_Peers req) (req_IdlePeers req)) }"

definition Follower_degradeToInvalid :: "'w dbenv \<Rightarrow> GTID \<Rightarrow> GTID \<Rightarrow> ('w, unit) rst" where
  "Follower_degradeToInvalid E followerGTID candidateGTID = do {
     r \<leftarrow> gets id;
     whenM (r_peers r \<noteq> []) (do {
       call (on_mysql (Mysql_StopSlaveIOThread E));
       greater \<leftarrow> on_mysql (Mysql_CheckGTID E followerGTID candidateGTID);
       whenM greater (Raft_setState INVALID) }) }"

text \<open>The MGR branch: all its exits apply the view and the epoch of the leader.\<close>

definition Follower_heartbeat_mgr_running :: "'w dbenv \<Rightarrow> ('w, unit) rst" where
  "Follower_heartbeat_mgr_running E = do {
     cmt \<leftarrow> gets r_cmtState;
     delegated \<leftarrow> gets r_delegateDBApply;
     whenM (cmt \<noteq> CmtChanging) (do {
       whenM delegated (do {
         (ok, e) \<leftarrow> on_mysql (Mysql_IsMGRRunningOK E);
         whenM (e = None \<and> ok \<and> cmt \<noteq> CmtOK) (do { set_cmt CmtOK; set_everOK }) });
       (ok, e) \<leftarrow> on_mysql (Mysql_IsMGRRunningOK E);
       whenM (e = None \<and> \<not> ok) (Raft_setLeader []) }) }"

definition Follower_heartbeat_join :: "'w dbenv \<Rightarrow> RaftRPCRequest \<Rightarrow> ('w, unit) rst" where
  "Follower_heartbeat_join E req = do {
     delegated \<leftarrow> gets r_delegateDBApply;
     (if delegated then do {
        (ok, e) \<leftarrow> on_mysql (Mysql_IsMGRRunningOK E);
        whenM (e = None \<and> ok) (do {
          set_cmt CmtOK;
          Raft_setLeader (GetFrom req);
          set_everOK }) }
      else add_job (JobMGRJoin req)) }"

definition Follower_heartbeat_mgr ::
    "'w dbenv \<Rightarrow> RaftRPCRequest \<Rightarrow> int \<Rightarrow> int \<Rightarrow> RaftRPCResponse \<Rightarrow> ('w, RaftRPCResponse) rst" where
  "Follower_heartbeat_mgr E req viewdiff epochdiff rsp0 = do {
     cmt0 \<leftarrow> gets r_cmtState;
     let rsp = with_cmt cmt0 rsp0;
     leader \<leftarrow> gets r_leader;
     (if leader \<noteq> GetFrom req then do {
        _ \<leftarrow> on_mysql (Mysql_GetGTID E);
        (if CmtStateName (req_Raft req) \<noteq> CmtState_String CmtOK then do {
           applyEpochView req viewdiff epochdiff;
           ret rsp }
         else do {
           whenM (cmt0 = CmtError \<or> cmt0 = CmtOK) (set_cmt CmtNone);
           cmt \<leftarrow> gets r_cmtState;
           (if cmt = CmtNone then do {
              Follower_heartbeat_join E req;
              now \<leftarrow> gets r_cmtState;
              applyEpochView req viewdiff epochdiff;
              ret (with_cmt now rsp) }
            else if cmt = CmtChanging then do {
              applyEpochView req viewdiff epochdiff;
              ret rsp }
            else do {
              Follower_heartbeat_mgr_running E;
              applyEpochView req viewdiff epochdiff;
              ret rsp }) }) }
      else do {
        Follower_heartbeat_mgr_running E;
        applyEpochView req viewdiff epochdiff;
        ret rsp }) }"

text \<open>The semi-sync branch without delegation; a failed CHANGE MASTER returns early.\<close>

definition Follower_heartbeat_semisync ::
    "'w dbenv \<Rightarrow> RaftRPCRequest \<Rightarrow> int \<Rightarrow> int \<Rightarrow> RaftRPCResponse \<Rightarrow> ('w, RaftRPCResponse) rst" where
  "Follower_heartbeat_semisync E req viewdiff epochdiff rsp = do {
     call (on_mysql (Mysql_DisableSemiSyncMaster E));
     call (on_mysql (Mysql_StartSlave E));
     leader \<leftarrow> gets r_leader;
     (if leader \<noteq> GetFrom req then do {
        (gtid, _) \<leftarrow> on_mysql (Mysql_GetGTID E);
        members \<leftarrow> gets getMembers;
        whenM (members > 2) (Follower_degradeToInvalid E gtid (req_GTID req));
        purged \<leftarrow> on_mysql GetReplGtidPurged;
        e \<leftarrow> on_mysql (Mysql_ChangeMasterTo E ((req_Repl req)\<lparr>Repl_GTID_Purged := purged\<rparr>));
        (case e of
           Some err \<Rightarrow> do {
             modify (\<lambda>r. r\<lparr>F_ChangeToMasterError := True\<rparr>);
             ret (rsp\<lparr>RetCode := ErrorChangeMaster\<rparr>) }
         | None \<Rightarrow> do {
             modify (\<lambda>r. r\<lparr>F_ChangeToMasterError := False\<rparr>);
             Raft_setLeader (GetFrom req);
             applyEpochView req viewdiff epochdiff;
             ret rsp }) }
      else do {
        applyEpochView req viewdiff epochdiff;
        ret rsp }) }"

definition Follower_processHeartbeatRequest ::
    "'w dbenv \<Rightarrow> RaftRPCRequest \<Rightarrow> ('w, RaftRPCResponse) rst" where
  "Follower_processHeartbeatRequest E req = do {
     r \<leftarrow> gets id;
     let rsp = (base_response r OK)\<lparr>rsp_Relay_Master_Log_File := val_of RelayMasterLogFile (r_mysql r)\<rparr>;
     (if \<not> checkRequest r req then ret (rsp\<lparr>RetCode := ErrorInvalidRequest\<rparr>)
      else do {
        let viewdiff = id_diff (r_ViewID r) (GetViewID req);
        let epochdiff = id_diff (r_EpochID r) (GetEpochID req);
        (if viewdiff > 0 then ret (with_leader (r_leader r) (rsp\<lparr>RetCode := ErrorInvalidViewID\<rparr>))
         else do {
           RecordLeaderDatabase (req_Repl req);
           whenM (\<not> r_delegateDBApply r) (call (demoteReadOnly E));
           (if r_mysqlReplMode r = ReplModeMGR
            then Follower_heartbeat_mgr E req viewdiff epochdiff rsp
            else if r_delegateDBApply r then do {
              whenM (r_leader r \<noteq> GetFrom req) (Raft_setLeader (GetFrom req));
              applyEpochView req viewdiff epochdiff;
              ret rsp }
            else Follower_heartbeat_semisync E req viewdiff epochdiff rsp) }) }) }"


subsection \<open>Vote requests\<close>

text \<open>Steps 3 to 5: the view, the vote already given, MGR, the vote.\<close>

definition Follower_vote ::
    "'w dbenv \<Rightarrow> RaftRPCRequest \<Rightarrow> RaftRPCResponse \<Rightarrow> ('w, RaftRPCResponse) rst" where
  "Follower_vote E req rsp = do {
     r \<leftarrow> gets id;
     whenM (GetViewID req > r_ViewID r) (updateView (GetViewID req) noLeader);
     (if \<not> GetViewID req > r_ViewID r \<and> r_votedFor r \<noteq> noVote \<and> r_votedFor r \<noteq> GetFrom req
      then ret (rsp\<lparr>RetCode := ErrorVoteNotGranted\<rparr>)
      else do {
        running_elsewhere \<leftarrow>
          (if r_mysqlReplMode r = ReplModeMGR then do {
             (ok, uuid) \<leftarrow> isMGRClusterStatusOK E;
             ret (ok \<and> uuid \<noteq> [] \<and> uuid \<noteq> GetUUIDof req) }
           else ret False);
        (if running_elsewhere then ret (rsp\<lparr>RetCode := ErrorMGRAlreadyRunningOK\<rparr>)
         else do {
           modify (\<lambda>r. r\<lparr>r_votedFor := GetFrom req\<rparr>);
           ret rsp }) }) }"

definition Follower_processRequestVoteRequest ::
    "'w dbenv \<Rightarrow> RaftRPCRequest \<Rightarrow> ('w, RaftRPCResponse) rst" where
  "Follower_processRequestVoteRequest E req = do {
     r \<leftarrow> gets id;
     let rsp = base_response r OK;
     (if \<not> checkRequest r req then ret (rsp\<lparr>RetCode := ErrorInvalidRequest\<rparr>)
      else if GetViewID req < r_ViewID r then ret (rsp\<lparr>RetCode := ErrorInvalidViewID\<rparr>)
      else do {
        whenM (r_mysqlReplMode r = ReplModeSemiSync) (call (on_mysql (Mysql_StopSlaveIOThread E)));
        (greater, thisGTID, e) \<leftarrow> on_mysql (Mysql_GTIDGreaterThan E (req_GTID req));
        (case e of Some err \<Rightarrow> ret (rsp\<lparr>RetCode := ErrorMySQLDown\<rparr>)
         | None \<Rightarrow> do {
             let rsp1 = rsp\<lparr>rsp_GTID := thisGTID\<rparr>;
             better \<leftarrow> (if greater then Raft_Promotable E else ret False);
             (if better then ret (rsp1\<lparr>RetCode := ErrorInvalidGTID\<rparr>)
              else Follower_vote E req rsp1) }) }) }"


subsection \<open>Elections\<close>

definition Follower_upgradeToCandidate :: "'w dbenv \<Rightarrow> ('w, unit) rst" where
  "Follower_upgradeToCandidate E = do {
     r \<leftarrow> gets id;
     whenM (r_peers r \<noteq> [] \<and> \<not> F_ChangeToMasterError r) (do {
       call (on_mysql (Mysql_StopSlaveIOThread E));
       Raft_setState CANDIDATE;
       IncCandidatePromotes }) }"

definition Follower_electionTimeout :: "'w dbenv \<Rightarrow> ('w, unit) rst" where
  "Follower_electionTimeout E = do {
     ok \<leftarrow> replicationPromotable E;
     whenM ok (do {
       r \<leftarrow> gets id;
       mgrQuorumLost \<leftarrow>
         (if r_mysqlReplMode r = ReplModeMGR \<and> r_mgrClusterEverOK r
          then do { (up, _) \<leftarrow> isMGRClusterStatusOK E; ret (\<not> up) }
          else ret False);
       split \<leftarrow> gets r_isBrainSplit;
       whenM (mgrQuorumLost \<or> \<not> split) (Follower_upgradeToCandidate E) }) }"

text \<open>
  The goroutine of \<open>startCheckBrainSplit\<close>: its start, its timer, and a ping response. It
  counts the responses of one round in \<open>cnt\<close>.
\<close>

definition Follower_startCheckBrainSplit :: "('w, int) rst" where
  "Follower_startCheckBrainSplit = do {
     modify (\<lambda>r. r\<lparr>r_isBrainSplit := True\<rparr>);
     ret 1 }"

definition Follower_sendClusterPing :: "('w, unit) rst" where
  "Follower_sendClusterPing = do {
     peers \<leftarrow> gets r_peers;
     for_each Peer_SendPing peers }"

definition Follower_brainSplitTick :: "int \<Rightarrow> ('w, int) rst" where
  "Follower_brainSplitTick cnt = do {
     Follower_sendClusterPing;
     ret 1 }"

definition Follower_pingResponse :: "int \<Rightarrow> RaftRPCResponse \<Rightarrow> ('w, int) rst" where
  "Follower_pingResponse cnt rsp =
     (if RetCode rsp = OK \<and> StateName (rsp_Raft rsp) = ''LEADER'' then ret cnt
      else do {
        let cnt' = (if RetCode rsp = OK \<and> contains ''FOLLOWER CANDIDATE LEARNER'' (StateName (rsp_Raft rsp))
                    then cnt + 1 else cnt);
        quorum \<leftarrow> gets getQuorums;
        modify (\<lambda>r. r\<lparr>r_isBrainSplit := (cnt' < quorum)\<rparr>);
        ret cnt' })"


subsection \<open>Entering and leaving the state, asynchronous jobs\<close>

definition run_JobSetMySQL :: "'w dbenv \<Rightarrow> ('w, unit) rst" where
  "run_JobSetMySQL E = do {
     call (demoteReadOnly E);
     call (on_mysql (Mysql_SetSlaveGlobalSysVar E));
     call (on_mysql (Mysql_GetGTID E)) }"

definition run_JobMGRJoin :: "'w dbenv \<Rightarrow> RaftRPCRequest \<Rightarrow> ('w, unit) rst" where
  "run_JobMGRJoin E req = do {
     set_cmt CmtChanging;
     e \<leftarrow> on_mysql (Mysql_MGRChangeMasterTo E (req_Repl req));
     (case e of Some err \<Rightarrow> set_cmt CmtError
      | None \<Rightarrow> do {
          set_everOK;
          Raft_setLeader (GetFrom req);
          set_cmt CmtOK }) }"

definition Follower_mgrJoined :: "'w dbenv \<Rightarrow> ('w, bool) rst" where
  "Follower_mgrJoined E = do {
     (stat, e) \<leftarrow> on_mysql (Mysql_GetLocalMGRStat E);
     ret (e = None \<and> (mgr_State stat = MGRStateOnline \<or> mgr_State stat = MGRStateRecovering)) }"

definition Follower_stateInit :: "'w dbenv \<Rightarrow> ('w, unit) rst" where
  "Follower_stateInit E = do {
     r \<leftarrow> gets id;
     (if r_delegateDBApply r then
        whenM (r_mysqlReplMode r = ReplModeMGR) (do {
          joined \<leftarrow> Follower_mgrJoined E;
          whenM (\<not> joined) (call (on_mysql (Mysql_StopMGR E))) })
      else if r_mysqlReplMode r = ReplModeMGR then do {
        joined \<leftarrow> Follower_mgrJoined E;
        (if joined then set_cmt CmtOK
         else do {
           call (on_mysql (Mysql_StopMGR E));
           set_cmt CmtNone });
        call (demoteReadOnly E) }
      else add_job JobSetMySQL) }"

text \<open>\<open>stateExit\<close> waits for the job of \<open>setMySQLAsync\<close>: it runs now if it has not run.\<close>

definition Follower_stateExit :: "'w dbenv \<Rightarrow> ('w, unit) rst" where
  "Follower_stateExit E = do {
     jobs \<leftarrow> gets r_jobs;
     whenM (JobSetMySQL \<in> set jobs) (do {
       modify (\<lambda>r. r\<lparr>r_jobs := filter (\<lambda>j. j \<noteq> JobSetMySQL) (r_jobs r)\<rparr>);
       run_JobSetMySQL E }) }"

end
