(* ===== verification/RaftCandidate.thy ===== *)
theory RaftCandidate
  imports RaftFollower
begin

section \<open>CANDIDATE (candidate.go)\<close>

text \<open>
  The handlers of the CANDIDATE state and the events of its loop. The variables of the Go
  loop that live across iterations are the record \<open>cvars\<close>.
\<close>

record cvars =
  voteGranted :: int
  switchMaster :: bool

definition Candidate_degradeToFollower :: "('w, unit) rst" where
  "Candidate_degradeToFollower = Raft_setState FOLLOWER"

definition Candidate_upgradeToLeader :: "('w, unit) rst" where
  "Candidate_upgradeToLeader = do {
     Raft_setState LEADER;
     me \<leftarrow> gets r_id;
     Raft_setLeader me;
     IncLeaderPromotes }"

definition Candidate_processHeartbeatRequest :: "RaftRPCRequest \<Rightarrow> ('w, RaftRPCResponse) rst" where
  "Candidate_processHeartbeatRequest req = do {
     r \<leftarrow> gets id;
     let rsp = base_response r OK;
     (if \<not> checkRequest r req then ret (rsp\<lparr>RetCode := ErrorInvalidRequest\<rparr>)
      else if id_diff (r_ViewID r) (GetViewID req) > 0
      then ret (with_leader (r_leader r) (rsp\<lparr>RetCode := ErrorInvalidViewID\<rparr>))
      else do {
        Candidate_degradeToFollower;
        ret rsp }) }"

text \<open>Steps 3 to 5.\<close>

definition Candidate_vote :: "RaftRPCRequest \<Rightarrow> RaftRPCResponse \<Rightarrow> ('w, RaftRPCResponse) rst" where
  "Candidate_vote req rsp = do {
     r \<leftarrow> gets id;
     whenM (GetViewID req > r_ViewID r) (do {
       updateView (GetViewID req) noLeader;
       Candidate_degradeToFollower });
     (if \<not> GetViewID req > r_ViewID r \<and> r_votedFor r \<noteq> noVote \<and> r_votedFor r \<noteq> GetFrom req
      then ret (rsp\<lparr>RetCode := ErrorVoteNotGranted\<rparr>)
      else do {
        modify (\<lambda>r. r\<lparr>r_votedFor := GetFrom req\<rparr>);
        Candidate_degradeToFollower;
        ret rsp }) }"

definition Candidate_processRequestVoteRequest ::
    "'w dbenv \<Rightarrow> RaftRPCRequest \<Rightarrow> ('w, RaftRPCResponse) rst" where
  "Candidate_processRequestVoteRequest E req = do {
     r \<leftarrow> gets id;
     let rsp = base_response r OK;
     (if \<not> checkRequest r req then ret (rsp\<lparr>RetCode := ErrorInvalidRequest\<rparr>)
      else if GetViewID req < r_ViewID r then ret (rsp\<lparr>RetCode := ErrorInvalidViewID\<rparr>)
      else do {
        (greater, thisGTID, e) \<leftarrow> on_mysql (Mysql_GTIDGreaterThan E (req_GTID req));
        (case e of Some err \<Rightarrow> ret (rsp\<lparr>RetCode := ErrorMySQLDown\<rparr>)
         | None \<Rightarrow> do {
             let rsp1 = rsp\<lparr>rsp_GTID := thisGTID\<rparr>;
             whenM (greater \<and> GetViewID req > r_ViewID r) (updateView (GetViewID req) noLeader);
             better \<leftarrow> (if greater then Raft_Promotable E else ret False);
             (if better then ret (rsp1\<lparr>RetCode := ErrorInvalidGTID\<rparr>)
              else Candidate_vote req rsp1) }) }) }"

text \<open>
  The broadcast: the next view, no vote, a request to every peer. The result is the answers
  that are known at once, because MySQL could not be asked.
\<close>

fun send_votes :: "'w dbenv \<Rightarrow> string list \<Rightarrow> ('w, RaftRPCResponse list) rst" where
  "send_votes E [] = ret []"
| "send_votes E (p # ps) = do {
     a \<leftarrow> Peer_sendRequestVote E p;
     rest \<leftarrow> send_votes E ps;
     ret ((case a of None \<Rightarrow> [] | Some rsp \<Rightarrow> [rsp]) @ rest) }"

definition Candidate_sendRequestVote :: "'w dbenv \<Rightarrow> ('w, RaftRPCResponse list) rst" where
  "Candidate_sendRequestVote E = do {
     incViewID;
     modify (\<lambda>r. r\<lparr>r_votedFor := noVote\<rparr>);
     peers \<leftarrow> gets r_peers;
     send_votes E peers }"

text \<open>The switch over the return code of one vote response.\<close>

definition Candidate_processRequestVoteResponse :: "cvars \<Rightarrow> RaftRPCResponse \<Rightarrow> ('w, cvars) rst" where
  "Candidate_processRequestVoteResponse v rsp = (
     if RetCode rsp = OK then
       (if StateName (rsp_Raft rsp) = State_String IDLE then ret v
        else ret (v\<lparr>voteGranted := voteGranted v + 1\<rparr>))
     else if RetCode rsp = ErrorInvalidViewID then do {
       updateView (ViewID (rsp_Raft rsp)) noLeader;
       Candidate_degradeToFollower;
       ret v }
     else if RetCode rsp = ErrorInvalidGTID then do {
       Candidate_degradeToFollower;
       ret v }
     else if RetCode rsp = ErrorMySQLDown then do {
       r \<leftarrow> gets id;
       (if r_mysqlReplMode r = ReplModeMGR \<and> r_mgrClusterEverOK r
        then ret (v\<lparr>voteGranted := voteGranted v + 1\<rparr>)
        else if getMembers r < 3
        then (if switchMaster v then ret (v\<lparr>voteGranted := voteGranted v + 1\<rparr>)
              else ret (v\<lparr>switchMaster := True\<rparr>))
        else ret v) }
     else if RetCode rsp = ErrorMGRAlreadyRunningOK then do {
       Candidate_degradeToFollower;
       ret v }
     else ret v)"


subsection \<open>The events of the loop\<close>

definition Candidate_checkVotesTick :: "cvars \<Rightarrow> ('w, cvars) rst" where
  "Candidate_checkVotesTick v = do {
     r \<leftarrow> gets id;
     whenM (voteGranted v \<ge> getQuorums r) Candidate_upgradeToLeader;
     ret v }"

definition Candidate_electionTick :: "'w dbenv \<Rightarrow> cvars \<Rightarrow> ('w, cvars) rst" where
  "Candidate_electionTick E v = do {
     _ \<leftarrow> Candidate_sendRequestVote E;
     ret (v\<lparr>voteGranted := 1\<rparr>) }"

definition Candidate_response :: "cvars \<Rightarrow> RaftRPCResponse \<Rightarrow> ('w, cvars) rst" where
  "Candidate_response v rsp = do {
     v' \<leftarrow> Candidate_processRequestVoteResponse v rsp;
     members \<leftarrow> gets getMembers;
     whenM (voteGranted v' = members) Candidate_upgradeToLeader;
     ret v' }"

definition Candidate_enter :: "'w dbenv \<Rightarrow> ('w, cvars) rst" where
  "Candidate_enter E = do {
     _ \<leftarrow> Candidate_sendRequestVote E;
     ret \<lparr>voteGranted = 1, switchMaster = False\<rparr> }"

end
