(* ===== verification/RaftLeader.thy ===== *)
theory RaftLeader
  imports RaftCandidate
begin

section \<open>LEADER (leader.go)\<close>

text \<open>
  The handlers of the LEADER state, its background workers (purge of binlogs, semi-sync and
  GTID checks; \<open>L_purgeOn\<close>, \<open>L_semiSyncOn\<close> and \<open>L_gtidCheckOn\<close> say whether the ticker
  of each runs), the asynchronous settings after a promotion, and the events of its loop,
  whose variables are the record \<open>lvars\<close>.
\<close>

record lvars =
  incView :: bool
  mysqlDown :: bool
  ackGranted :: int
  mgrCnt :: int
  checkMGR :: int
  lessHtAcks :: int
  lessCmtHtAcks :: int

definition maxCheckMGR :: int where
  "maxCheckMGR = 5"

definition semisyncTimeout :: "64 word" where
  "semisyncTimeout = 1000000000000000000"


subsection \<open>Background workers\<close>

definition purgeBinlogStop :: "('w, unit) rst" where
  "purgeBinlogStop = modify (\<lambda>r. r\<lparr>L_relayMasterLogFile := [], L_nextPuregeBinlog := [], L_purgeOn := False\<rparr>)"

definition purgeBinlogStart :: "('w, unit) rst" where
  "purgeBinlogStart = do {
     purgeBinlogStop;
     modify (\<lambda>r. r\<lparr>L_purgeOn := True\<rparr>) }"

definition purgeBinlog :: "'w dbenv \<Rightarrow> ('w, unit) rst" where
  "purgeBinlog E = do {
     r \<leftarrow> gets id;
     (if r_skipPurgeBinlog r then ret ()
      else if rc_PurgeBinlogDisabled (r_conf r) then ret ()
      else whenM (L_nextPuregeBinlog r \<noteq> []) (do {
        e \<leftarrow> on_mysql (Mysql_PurgeBinlogsTo E (L_nextPuregeBinlog r));
        (case e of Some err \<Rightarrow> IncLeaderPurgeBinlogFails
         | None \<Rightarrow> do {
             modify (\<lambda>r. r\<lparr>L_relayMasterLogFile := [], L_nextPuregeBinlog := []\<rparr>);
             IncLeaderPurgeBinlogs }) })) }"

definition checkSemiSyncStop :: "('w, unit) rst" where
  "checkSemiSyncStop = modify (\<lambda>r. r\<lparr>L_semiSyncOn := False\<rparr>)"

definition checkSemiSyncStart :: "('w, unit) rst" where
  "checkSemiSyncStart = do {
     checkSemiSyncStop;
     modify (\<lambda>r. r\<lparr>L_semiSyncOn := True\<rparr>) }"

text \<open>Go's \<open>(cur - 1) / 2\<close> is of a non-negative number here.\<close>

definition checkSemiSync :: "'w dbenv \<Rightarrow> ('w, unit) rst" where
  "checkSemiSync E = do {
     r \<leftarrow> gets id;
     (if r_skipCheckSemiSync r then ret ()
      else if getMembers r < 3
      then call (on_mysql (Mysql_SetSemiSyncMasterTimeout E (r_semiSyncTimeoutFor2Nodes r)))
      else do {
        call (on_mysql (Mysql_EnableSemiSyncMaster E));
        call (on_mysql (Mysql_SetSemiWaitSlaveCount E ((getMembers r - 1) div 2)));
        call (on_mysql (Mysql_SetSemiSyncMasterTimeout E semisyncTimeout)) }) }"

definition checkGTIDStop :: "('w, unit) rst" where
  "checkGTIDStop = modify (\<lambda>r. r\<lparr>L_gtidCheckOn := False\<rparr>)"

definition checkGTIDStart :: "('w, unit) rst" where
  "checkGTIDStart = do {
     checkGTIDStop;
     modify (\<lambda>r. r\<lparr>L_gtidCheckOn := True\<rparr>) }"

definition checkGTID :: "'w dbenv \<Rightarrow> ('w, unit) rst" where
  "checkGTID E = do {
     (gtid, e) \<leftarrow> on_mysql (Mysql_GetGTID E);
     (case e of Some err \<Rightarrow> ret () | None \<Rightarrow> modify (\<lambda>r. r\<lparr>r_gtid := gtid\<rparr>)) }"


subsection \<open>Stepping down\<close>

definition Leader_degradeToFollower :: "'w dbenv \<Rightarrow> ('w, unit) rst" where
  "Leader_degradeToFollower E = do {
     delegated \<leftarrow> gets r_delegateDBApply;
     mode \<leftarrow> gets r_mysqlReplMode;
     whenM (\<not> delegated) (do {
       call (demoteReadOnly E);
       whenM (mode = ReplModeMGR) (call (on_mysql (Mysql_StopMGR E))) });
     purgeBinlogStop;
     whenM (mode = ReplModeSemiSync) checkSemiSyncStop;
     checkGTIDStop;
     IncLeaderDegrades;
     Raft_setState FOLLOWER;
     modify (\<lambda>r. r\<lparr>L_isDegradeToFollower := True\<rparr>) }"


subsection \<open>Requests of other nodes\<close>

definition Leader_processHeartbeatRequest ::
    "'w dbenv \<Rightarrow> RaftRPCRequest \<Rightarrow> ('w, RaftRPCResponse) rst" where
  "Leader_processHeartbeatRequest E req = do {
     r \<leftarrow> gets id;
     let rsp = base_response r OK;
     IncLeaderGetHeartbeatRequests;
     (if \<not> checkRequest r req then ret (rsp\<lparr>RetCode := ErrorInvalidRequest\<rparr>)
      else if id_diff (r_ViewID r) (GetViewID req) > 0
      then ret (with_leader (r_leader r) (rsp\<lparr>RetCode := ErrorInvalidViewID\<rparr>))
      else do {
        Leader_degradeToFollower E;
        ret rsp }) }"

definition Leader_vote :: "'w dbenv \<Rightarrow> RaftRPCRequest \<Rightarrow> RaftRPCResponse \<Rightarrow> ('w, RaftRPCResponse) rst" where
  "Leader_vote E req rsp = do {
     r \<leftarrow> gets id;
     whenM (GetViewID req > r_ViewID r) (do {
       updateView (GetViewID req) noLeader;
       Leader_degradeToFollower E });
     modify (\<lambda>r. r\<lparr>r_votedFor := GetFrom req\<rparr>);
     ret rsp }"

definition Leader_processRequestVoteRequest ::
    "'w dbenv \<Rightarrow> RaftRPCRequest \<Rightarrow> ('w, RaftRPCResponse) rst" where
  "Leader_processRequestVoteRequest E req = do {
     r \<leftarrow> gets id;
     let rsp = base_response r OK;
     IncLeaderGetVoteRequests;
     (if \<not> checkRequest r req then ret (rsp\<lparr>RetCode := ErrorInvalidRequest\<rparr>)
      else if GetViewID req \<le> r_ViewID r then ret (rsp\<lparr>RetCode := ErrorInvalidViewID\<rparr>)
      else do {
        (greater, thisGTID, e) \<leftarrow> on_mysql (Mysql_GTIDGreaterThan E (req_GTID req));
        (case e of Some err \<Rightarrow> ret (rsp\<lparr>RetCode := ErrorMySQLDown\<rparr>)
         | None \<Rightarrow> do {
             let rsp1 = rsp\<lparr>rsp_GTID := thisGTID\<rparr>;
             better \<leftarrow> (if greater then Raft_Promotable E else ret False);
             (if better then ret (rsp1\<lparr>RetCode := ErrorInvalidGTID\<rparr>)
              else Leader_vote E req rsp1) }) }) }"


subsection \<open>Heartbeats to the others\<close>

text \<open>
  \<open>allPeers := r.peers\<close> is the map itself, so the loop that adds the idle peers to it adds
  them to \<open>r.peers\<close>.
\<close>

fun add_keys :: "string list \<Rightarrow> string list \<Rightarrow> string list" where
  "add_keys ks [] = ks"
| "add_keys ks (k # rest) = add_keys (if k \<in> set ks then ks else ks @ [k]) rest"

definition Leader_sendHeartbeat :: "'w dbenv \<Rightarrow> lvars \<Rightarrow> ('w, lvars) rst" where
  "Leader_sendHeartbeat E v = do {
     st \<leftarrow> on_mysql Mysql_getState;
     (if st = MysqlDead then do {
        defer_failover \<leftarrow> on_mysql ShouldDeferFailover;
        (if defer_failover then ret v else ret (v\<lparr>mysqlDown := True\<rparr>)) }
      else do {
        modify (\<lambda>r. r\<lparr>r_peers := add_keys (r_peers r) (r_idlePeers r)\<rparr>);
        allPeers \<leftarrow> gets r_peers;
        for_each Peer_sendHeartbeat allPeers;
        ret v }) }"

definition Leader_processHeartbeatResponse ::
    "'w dbenv \<Rightarrow> lvars \<Rightarrow> RaftRPCResponse \<Rightarrow> ('w, lvars) rst" where
  "Leader_processHeartbeatResponse E v rsp =
     (if RetCode rsp \<noteq> OK then do {
        whenM (RetCode rsp = ErrorInvalidViewID) (Leader_degradeToFollower E);
        ret v }
      else do {
        let v1 = (if StateName (rsp_Raft rsp) \<noteq> State_String IDLE
                  then v\<lparr>ackGranted := ackGranted v + 1\<rparr> else v);
        modify (\<lambda>r. if L_relayMasterLogFile r = [] \<or> L_relayMasterLogFile r > rsp_Relay_Master_Log_File rsp
                    then r\<lparr>L_relayMasterLogFile := rsp_Relay_Master_Log_File rsp\<rparr> else r);
        r \<leftarrow> gets id;
        whenM (ackGranted v1 = getMembers r)
          (modify (\<lambda>r. r\<lparr>L_nextPuregeBinlog := L_relayMasterLogFile r\<rparr>));
        (if r_mysqlReplMode r = ReplModeMGR \<and> CmtStateName (rsp_Raft rsp) = CmtState_String CmtOK
         then ret (v1\<lparr>mgrCnt := mgrCnt v1 + 1\<rparr>) else ret v1) })"


subsection \<open>Settings after a promotion\<close>

definition Leader_checkChangeToMaster :: "'w dbenv \<Rightarrow> ('w, bool) rst" where
  "Leader_checkChangeToMaster E = do {
     (ok, _) \<leftarrow> isMGRClusterStatusOK E;
     (if \<not> ok then ret False
      else do {
        (status, e) \<leftarrow> on_mysql (Mysql_GetLocalMGRStat E);
        ret (e = None \<and> mgr_Role status = MGRRolePrimary) }) }"

text \<open>The last two steps of the MGR settings.\<close>

definition Leader_mgr_finish :: "'w dbenv \<Rightarrow> ('w, unit) rst" where
  "Leader_mgr_finish E = do {
     set_cmt CmtOK;
     set_everOK;
     e \<leftarrow> demoteReadOnly E;
     whenM (e = None) (modify (\<lambda>r. r\<lparr>L_isReadOnly := True\<rparr>)) }"

definition run_JobPrepareMGR :: "'w dbenv \<Rightarrow> ('w, unit) rst" where
  "run_JobPrepareMGR E = do {
     call (on_mysql (Mysql_GetGTID E));
     SetRaftMysqlStatus RAFTMYSQL_WAITAPPLYRELAYLOG;
     e \<leftarrow> on_mysql (Mysql_WaitApplyRelayLog E 15 2);
     (case e of Some err \<Rightarrow> Leader_degradeToFollower E
      | None \<Rightarrow> do {
          ResetRaftMysqlStatus;
          call (on_mysql (Mysql_SetMasterGlobalSysVar E));
          already \<leftarrow> Leader_checkChangeToMaster E;
          (if already then Leader_mgr_finish E
           else do {
             e2 \<leftarrow> changeToMaster E;
             (case e2 of Some err \<Rightarrow> do { set_cmt CmtError; Leader_degradeToFollower E }
              | None \<Rightarrow> Leader_mgr_finish E) }) }) }"

text \<open>
  The delegated variant polls every 500 ms until a deadline of five minutes, so at most 600
  times.
\<close>

fun mgr_phase1_poll :: "'w dbenv \<Rightarrow> nat \<Rightarrow> ('w, unit) rst" where
  "mgr_phase1_poll E 0 = Leader_degradeToFollower E"
| "mgr_phase1_poll E (Suc n) = do {
     ready \<leftarrow> isDelegatedMGRPhase1Ready E;
     (if ready then do {
        set_cmt CmtOK;
        set_everOK;
        modify (\<lambda>r. r\<lparr>L_isReadOnly := True\<rparr>) }
      else do {
        on_mysql (on_world (modify (sleep_ms E 500)));
        mgr_phase1_poll E n }) }"

definition run_JobPrepareMGRDelegated :: "'w dbenv \<Rightarrow> ('w, unit) rst" where
  "run_JobPrepareMGRDelegated E = mgr_phase1_poll E 600"

definition Leader_fail_settings :: "('w, unit) rst" where
  "Leader_fail_settings = do {
     Raft_setState FOLLOWER;
     modify (\<lambda>r. r\<lparr>L_isDegradeToFollower := True\<rparr>) }"

definition run_JobPrepareSemiSync :: "'w dbenv \<Rightarrow> ('w, unit) rst" where
  "run_JobPrepareSemiSync E = do {
     (gtid, _) \<leftarrow> on_mysql (Mysql_GetGTID E);
     SetRaftMysqlStatus RAFTMYSQL_WAITUNTILAFTERGTID;
     e \<leftarrow> on_mysql (Mysql_WaitUntilAfterGTID E (Retrieved_GTID_Set gtid));
     (case e of Some err \<Rightarrow> Leader_fail_settings
      | None \<Rightarrow> do {
          ResetRaftMysqlStatus;
          e2 \<leftarrow> changeToMaster E;
          (case e2 of Some err \<Rightarrow> Leader_fail_settings
           | None \<Rightarrow> do {
               call (on_mysql (Mysql_EnableSemiSyncMaster E));
               call (on_mysql (Mysql_SetMasterGlobalSysVar E));
               call (enableReadWrite E) }) }) }"

definition Leader_prepareSettingsMGR :: "('w, unit) rst" where
  "Leader_prepareSettingsMGR = do {
     r \<leftarrow> gets id;
     set_cmt CmtNone;
     add_job (if delegateMGRApply r then JobPrepareMGRDelegated else JobPrepareMGR) }"

definition Leader_prepareSettingsAsync :: "('w, unit) rst" where
  "Leader_prepareSettingsAsync = do {
     r \<leftarrow> gets id;
     whenM (\<not> delegateSemiSyncApply r) (add_job JobPrepareSemiSync) }"

definition Leader_stateInit :: "('w, unit) rst" where
  "Leader_stateInit = do {
     modify (\<lambda>r. r\<lparr>L_isReadOnly := False\<rparr>);
     purgeBinlogStart;
     checkGTIDStart;
     mode \<leftarrow> gets r_mysqlReplMode;
     (if mode = ReplModeSemiSync then do {
        checkSemiSyncStart;
        Leader_prepareSettingsAsync }
      else Leader_prepareSettingsMGR);
     modify (\<lambda>r. r\<lparr>L_isDegradeToFollower := False\<rparr>) }"

definition leader_job :: "job \<Rightarrow> bool" where
  "leader_job j = (j = JobPrepareMGR \<or> j = JobPrepareMGRDelegated \<or> j = JobPrepareSemiSync)"

definition run_leader_job :: "'w dbenv \<Rightarrow> job \<Rightarrow> ('w, unit) rst" where
  "run_leader_job E j = (case j of
       JobPrepareMGR \<Rightarrow> run_JobPrepareMGR E
     | JobPrepareMGRDelegated \<Rightarrow> run_JobPrepareMGRDelegated E
     | JobPrepareSemiSync \<Rightarrow> run_JobPrepareSemiSync E
     | _ \<Rightarrow> ret ())"

definition Leader_stateExit :: "'w dbenv \<Rightarrow> ('w, unit) rst" where
  "Leader_stateExit E = do {
     r \<leftarrow> gets id;
     whenM (\<not> L_isDegradeToFollower r) (do {
       whenM (\<not> r_delegateDBApply r) (call (demoteReadOnly E));
       purgeBinlogStop;
       whenM (r_mysqlReplMode r = ReplModeSemiSync) checkSemiSyncStop;
       checkGTIDStop });
     jobs \<leftarrow> gets r_jobs;
     modify (\<lambda>r. r\<lparr>r_jobs := filter (\<lambda>j. \<not> leader_job j) (r_jobs r)\<rparr>);
     for_each (run_leader_job E) (filter leader_job jobs) }"


subsection \<open>The heartbeat timer\<close>

text \<open>
  One \<open>case <-r.heartbeatTick.C\<close>. A \<open>break\<close> after a step-down leaves the \<open>select\<close>, so
  nothing is reset and no heartbeat is sent: the result is the variables and whether it
  broke out.
\<close>

definition Leader_brainsplit_view :: "lvars \<Rightarrow> ('w, lvars) rst" where
  "Leader_brainsplit_view v = do {
     r \<leftarrow> gets id;
     (if ackGranted v = getMembers r then ret (v\<lparr>incView := False\<rparr>)
      else if \<not> incView v then do {
        updateView (r_ViewID r + 2) (r_leader r);
        ret (v\<lparr>incView := True\<rparr>) }
      else ret v) }"

text \<open>Too few acknowledgements: count them, step down at the limit.\<close>

definition Leader_less_acks :: "'w dbenv \<Rightarrow> lvars \<Rightarrow> ('w, lvars \<times> bool) rst" where
  "Leader_less_acks E v = do {
     r \<leftarrow> gets id;
     let v1 = (if getMembers r > 2 then v\<lparr>lessHtAcks := lessHtAcks v + 1\<rparr> else v);
     IncLessHeartbeatAcks;
     (if lessHtAcks v1 \<ge> rc_AdmitDefeatHtCnt (r_conf r) then do {
        Leader_degradeToFollower E;
        ret (v1, True) }
      else ret (v1, False)) }"

definition Leader_tick_semisync :: "'w dbenv \<Rightarrow> lvars \<Rightarrow> ('w, lvars \<times> bool) rst" where
  "Leader_tick_semisync E v = do {
     r \<leftarrow> gets id;
     (if ackGranted v < getQuorums r then Leader_less_acks E v
      else do {
        v' \<leftarrow> Leader_brainsplit_view (v\<lparr>lessHtAcks := 0\<rparr>);
        ret (v', False) }) }"

text \<open>The part of the MGR branch after the acknowledgements are enough.\<close>

definition Leader_tick_mgr_running :: "'w dbenv \<Rightarrow> lvars \<Rightarrow> ('w, lvars \<times> bool) rst" where
  "Leader_tick_mgr_running E v = do {
     r \<leftarrow> gets id;
     (if mgrCnt v < getQuorums r then do {
        let v1 = (if getMembers r > 2 then v\<lparr>lessCmtHtAcks := lessCmtHtAcks v + 1\<rparr> else v);
        IncLessCmtHeartbeatAcks;
        (if lessCmtHtAcks v1 \<ge> rc_AdmitDefeatHtCnt (r_conf r) * 3 then do {
           Leader_degradeToFollower E;
           ret (v1, True) }
         else ret (v1, False)) }
      else do {
        let v1 = v\<lparr>lessCmtHtAcks := 0\<rparr>;
        whenM (L_isReadOnly r)
          (if r_delegateDBApply r then do {
             ready \<leftarrow> isDelegatedPrimaryReady;
             whenM ready (modify (\<lambda>r. r\<lparr>L_isReadOnly := False\<rparr>)) }
           else do {
             e \<leftarrow> enableReadWrite E;
             whenM (e = None) (modify (\<lambda>r. r\<lparr>L_isReadOnly := False\<rparr>)) });
        v2 \<leftarrow> Leader_brainsplit_view v1;
        (ok, _) \<leftarrow> isMGRClusterStatusOK E;
        (if \<not> ok then do {
           let v3 = v2\<lparr>checkMGR := checkMGR v2 + 1\<rparr>;
           (if checkMGR v3 \<ge> maxCheckMGR then do {
              Leader_degradeToFollower E;
              ret (v3, True) }
            else ret (v3, False)) }
         else ret (v2\<lparr>checkMGR := 0\<rparr>, False)) }) }"

definition Leader_tick_mgr :: "'w dbenv \<Rightarrow> lvars \<Rightarrow> ('w, lvars \<times> bool) rst" where
  "Leader_tick_mgr E v = do {
     r \<leftarrow> gets id;
     (if r_cmtState r = CmtOK then do {
        (v1, broke) \<leftarrow> (if ackGranted v < getQuorums r then Leader_less_acks E v
                        else ret (v\<lparr>lessHtAcks := 0\<rparr>, False));
        (if broke then ret (v1, True)
         else do {
           (v2, broke2) \<leftarrow> Leader_tick_mgr_running E v1;
           ret (if broke2 then (v2, True) else (v2\<lparr>mgrCnt := 1\<rparr>, False)) }) }
      else ret (v\<lparr>mgrCnt := 1\<rparr>, False)) }"

definition Leader_heartbeatTick :: "'w dbenv \<Rightarrow> lvars \<Rightarrow> ('w, lvars) rst" where
  "Leader_heartbeatTick E v = do {
     mode \<leftarrow> gets r_mysqlReplMode;
     (v1, broke) \<leftarrow> (if mode = ReplModeSemiSync then Leader_tick_semisync E v else Leader_tick_mgr E v);
     (if broke then ret v1
      else Leader_sendHeartbeat E (v1\<lparr>ackGranted := 1\<rparr>)) }"

text \<open>The start of the loop and the check at the head of each iteration.\<close>

definition lvars0 :: lvars where
  "lvars0 = \<lparr>incView = False, mysqlDown = False, ackGranted = 1, mgrCnt = 1, checkMGR = 0,
     lessHtAcks = 0, lessCmtHtAcks = 0\<rparr>"

definition Leader_enter :: "'w dbenv \<Rightarrow> ('w, lvars) rst" where
  "Leader_enter E = do {
     Leader_stateInit;
     Leader_sendHeartbeat E lvars0 }"

definition Leader_head :: "'w dbenv \<Rightarrow> lvars \<Rightarrow> ('w, unit) rst" where
  "Leader_head E v = whenM (mysqlDown v) (Leader_degradeToFollower E)"

end
