(* ===== verification/RaftPassive.thy ===== *)
theory RaftPassive
  imports RaftFollower
begin

section \<open>IDLE, INVALID and LEARNER (idle.go, invalid.go, learner.go)\<close>

text \<open>
  The three states that never take part in an election. They follow the leader's view and
  epoch; IDLE and INVALID also follow its MySQL. The handlers differ in when semi-sync is
  disabled, in the answer to a vote request, and in what a failed CHANGE MASTER answers.
\<close>

text \<open>\<open>stateInit\<close> is the same code in the three files.\<close>

definition passive_stateInit :: "'w dbenv \<Rightarrow> ('w, unit) rst" where
  "passive_stateInit E = do {
     call (demoteReadOnly E);
     call (on_mysql (Mysql_SetSlaveGlobalSysVar E)) }"

definition Idle_stateInit :: "'w dbenv \<Rightarrow> ('w, unit) rst" where
  "Idle_stateInit E = passive_stateInit E"

definition Invalid_stateInit :: "'w dbenv \<Rightarrow> ('w, unit) rst" where
  "Invalid_stateInit E = passive_stateInit E"

definition Learner_stateInit :: "'w dbenv \<Rightarrow> ('w, unit) rst" where
  "Learner_stateInit E = passive_stateInit E"

text \<open>``MySQL3'' and ``MySQL4'': start the slave and follow a new leader; the error, if any.\<close>

definition passive_change_master :: "'w dbenv \<Rightarrow> RaftRPCRequest \<Rightarrow> ('w, gerror option) rst" where
  "passive_change_master E req = do {
     call (on_mysql (Mysql_StartSlave E));
     leader \<leftarrow> gets r_leader;
     (if leader \<noteq> GetFrom req then do {
        e \<leftarrow> on_mysql (Mysql_ChangeMasterTo E (req_Repl req));
        (case e of Some err \<Rightarrow> ret (Some err)
         | None \<Rightarrow> do { Raft_setLeader (GetFrom req); ret None }) }
      else ret None) }"

definition Idle_processHeartbeatRequest ::
    "'w dbenv \<Rightarrow> RaftRPCRequest \<Rightarrow> ('w, RaftRPCResponse) rst" where
  "Idle_processHeartbeatRequest E req = do {
     r \<leftarrow> gets id;
     let rsp = (base_response r OK)\<lparr>rsp_Relay_Master_Log_File := val_of RelayMasterLogFile (r_mysql r)\<rparr>;
     (if \<not> checkRequest r req then ret (rsp\<lparr>RetCode := ErrorInvalidRequest\<rparr>)
      else do {
        let viewdiff = id_diff (r_ViewID r) (GetViewID req);
        let epochdiff = id_diff (r_EpochID r) (GetEpochID req);
        (if viewdiff \<le> 0 then do {
           whenM (r_mysqlReplMode r = ReplModeSemiSync) (call (on_mysql (Mysql_DisableSemiSyncMaster E)));
           call (demoteReadOnly E);
           e \<leftarrow> passive_change_master E req;
           (case e of
              Some err \<Rightarrow> ret (with_cmt CmtError (rsp\<lparr>RetCode := ErrorChangeMaster\<rparr>))
            | None \<Rightarrow> do {
                applyEpochView req viewdiff epochdiff;
                ret rsp }) }
         else ret rsp) }) }"

definition Invalid_processHeartbeatRequest ::
    "'w dbenv \<Rightarrow> RaftRPCRequest \<Rightarrow> ('w, RaftRPCResponse) rst" where
  "Invalid_processHeartbeatRequest E req = do {
     r \<leftarrow> gets id;
     let rsp = (base_response r OK)\<lparr>rsp_Relay_Master_Log_File := val_of RelayMasterLogFile (r_mysql r)\<rparr>;
     (if \<not> checkRequest r req then ret (rsp\<lparr>RetCode := ErrorInvalidRequest\<rparr>)
      else do {
        let viewdiff = id_diff (r_ViewID r) (GetViewID req);
        let epochdiff = id_diff (r_EpochID r) (GetEpochID req);
        (if viewdiff \<le> 0 then do {
           call (on_mysql (Mysql_DisableSemiSyncMaster E));
           call (demoteReadOnly E);
           e \<leftarrow> passive_change_master E req;
           (case e of
              Some err \<Rightarrow> ret (rsp\<lparr>RetCode := ErrorChangeMaster\<rparr>)
            | None \<Rightarrow> do {
                applyEpochView req viewdiff epochdiff;
                ret rsp }) }
         else ret rsp) }) }"

definition Learner_processHeartbeatRequest ::
    "'w dbenv \<Rightarrow> RaftRPCRequest \<Rightarrow> ('w, RaftRPCResponse) rst" where
  "Learner_processHeartbeatRequest E req = do {
     r \<leftarrow> gets id;
     let rsp = (base_response r OK)\<lparr>rsp_Relay_Master_Log_File := val_of RelayMasterLogFile (r_mysql r)\<rparr>;
     (if \<not> checkRequest r req then ret (rsp\<lparr>RetCode := ErrorInvalidRequest\<rparr>)
      else do {
        let viewdiff = id_diff (r_ViewID r) (GetViewID req);
        let epochdiff = id_diff (r_EpochID r) (GetEpochID req);
        (if viewdiff \<le> 0 then do {
           whenM (r_mysqlReplMode r = ReplModeSemiSync) (call (on_mysql (Mysql_DisableSemiSyncMaster E)));
           call (demoteReadOnly E);
           applyEpochView req viewdiff epochdiff;
           ret rsp }
         else ret rsp) }) }"

definition Idle_processRequestVoteRequest :: "RaftRPCRequest \<Rightarrow> ('w, RaftRPCResponse) rst" where
  "Idle_processRequestVoteRequest req = gets (\<lambda>r.
     if \<not> checkRequest r req then base_response r ErrorInvalidRequest else base_response r OK)"

definition Invalid_processRequestVoteRequest :: "RaftRPCRequest \<Rightarrow> ('w, RaftRPCResponse) rst" where
  "Invalid_processRequestVoteRequest req = gets (\<lambda>r. base_response r ErrorInvalidRequest)"

definition Learner_processRequestVoteRequest :: "RaftRPCRequest \<Rightarrow> ('w, RaftRPCResponse) rst" where
  "Learner_processRequestVoteRequest req = gets (\<lambda>r.
     if \<not> checkRequest r req then base_response r ErrorInvalidRequest else base_response r ErrorVoteNotGranted)"

end
