(* ===== verification/RaftNode.thy ===== *)
theory RaftNode
  imports RaftLeader RaftPassive
begin

section \<open>The state loop and the RPCs (raft.go, the Loop of each state, rpc_ha.go, rpc_raft.go)\<close>

text \<open>
  A running node is its \<open>raft\<close> state and the loop it is in, with the loop's variables. An
  event is one case of a loop's \<open>select\<close> (a timer, an answer to one of its RPCs, a request
  handed over by \<open>send\<close>), a tick of a background worker, the run of an asynchronous job,
  or a call of an RPC from outside the loop. \<open>node_event\<close> is what the event does while the
  loop runs; \<open>settle\<close> is what follows: the head of the loop, and when the state has changed
  the exit of the old loop and the start of the new one. An event that the current loop
  does not listen to leaves the node as it is.

  A leader that finds its MySQL dead in the broadcast with which its loop starts is seen by the
  head of the loop at the next event, while the code gets there at once: a run of the code is a
  run of the model in which an event that the loop ignores comes first.

  The order of events is up to the environment, so every property that holds for all event
  lists holds for every interleaving of these steps.
\<close>

datatype loop =
    InFollower int
  | InCandidate cvars
  | InLeader lvars
  | InIdle
  | InInvalid
  | InLearner
  | Stopped

record 'w node =
  n_raft :: "'w raft"
  n_loop :: loop

type_synonym ('w, 'a) nst = "('w node, 'a) state"

definition on_raft :: "('w, 'a) rst \<Rightarrow> ('w, 'a) nst" where
  "on_raft k = zoom n_raft (\<lambda>r n. n\<lparr>n_raft := r\<rparr>) k"

primrec loop_state :: "loop \<Rightarrow> State" where
  "loop_state (InFollower cnt) = FOLLOWER"
| "loop_state (InCandidate v) = CANDIDATE"
| "loop_state (InLeader v) = LEADER"
| "loop_state InIdle = IDLE"
| "loop_state InInvalid = INVALID"
| "loop_state InLearner = LEARNER"
| "loop_state Stopped = STOPPED"


subsection \<open>Requests\<close>

definition process_request ::
    "'w dbenv \<Rightarrow> State \<Rightarrow> Msg \<Rightarrow> RaftRPCRequest \<Rightarrow> ('w, RaftRPCResponse) rst" where
  "process_request E st msg req = (case msg of
       MsgRaftPing \<Rightarrow> processPingRequest req
     | MsgRaftHeartbeat \<Rightarrow> (case st of
           FOLLOWER \<Rightarrow> Follower_processHeartbeatRequest E req
         | CANDIDATE \<Rightarrow> Candidate_processHeartbeatRequest req
         | LEADER \<Rightarrow> Leader_processHeartbeatRequest E req
         | IDLE \<Rightarrow> Idle_processHeartbeatRequest E req
         | INVALID \<Rightarrow> Invalid_processHeartbeatRequest E req
         | _ \<Rightarrow> Learner_processHeartbeatRequest E req)
     | MsgRaftRequestVote \<Rightarrow> (case st of
           FOLLOWER \<Rightarrow> Follower_processRequestVoteRequest E req
         | CANDIDATE \<Rightarrow> Candidate_processRequestVoteRequest E req
         | LEADER \<Rightarrow> Leader_processRequestVoteRequest E req
         | IDLE \<Rightarrow> Idle_processRequestVoteRequest req
         | INVALID \<Rightarrow> Invalid_processRequestVoteRequest req
         | _ \<Rightarrow> Learner_processRequestVoteRequest req))"

text \<open>
  \<open>send\<close> hands a request to the loop: \<open>taken\<close> and \<open>answered\<close> say whether the loop took it
  and answered it before the two timers of \<open>send\<close>.
\<close>

definition errStop :: gerror where "errStop = GoErr ''raft.has.been.stopped''"
definition errSend :: gerror where "errSend = GoErr ''raft.send.timeout''"

definition Raft_send ::
    "'w dbenv \<Rightarrow> bool \<Rightarrow> bool \<Rightarrow> Msg \<Rightarrow> RaftRPCRequest \<Rightarrow> ('w, RaftRPCResponse res) rst" where
  "Raft_send E taken answered msg req = do {
     r \<leftarrow> gets id;
     (if \<not> running r then ret (NewRaftRPCResponse [], Some errStop)
      else if \<not> taken then ret (NewRaftRPCResponse [], Some errSend)
      else do {
        rsp \<leftarrow> process_request E (r_state r) msg req;
        ret (if answered then (rsp, None) else (NewRaftRPCResponse [], Some errSend)) }) }"


definition RaftRPC_Ping :: "'w dbenv \<Rightarrow> bool \<Rightarrow> bool \<Rightarrow> RaftRPCRequest \<Rightarrow> ('w, RaftRPCResponse res) rst" where
  "RaftRPC_Ping E taken answered req = Raft_send E taken answered MsgRaftPing req"

definition RaftRPC_Heartbeat :: "'w dbenv \<Rightarrow> bool \<Rightarrow> bool \<Rightarrow> RaftRPCRequest \<Rightarrow> ('w, RaftRPCResponse res) rst" where
  "RaftRPC_Heartbeat E taken answered req = Raft_send E taken answered MsgRaftHeartbeat req"

definition RaftRPC_RequestVote :: "'w dbenv \<Rightarrow> bool \<Rightarrow> bool \<Rightarrow> RaftRPCRequest \<Rightarrow> ('w, RaftRPCResponse res) rst" where
  "RaftRPC_RequestVote E taken answered req = Raft_send E taken answered MsgRaftRequestVote req"


subsection \<open>HA RPCs (rpc_ha.go)\<close>

definition HADisable :: "('w, string) rst" where
  "HADisable = do {
     st \<leftarrow> Raft_getState;
     (case st of IDLE \<Rightarrow> ret OK
      | STOPPED \<Rightarrow> ret ErrorInvalidRequest
      | _ \<Rightarrow> do { Raft_setState IDLE; ret OK }) }"

definition HASetLearner :: "('w, string) rst" where
  "HASetLearner = do {
     st \<leftarrow> Raft_getState;
     (case st of STOPPED \<Rightarrow> ret ErrorInvalidRequest
      | _ \<Rightarrow> do { Raft_setState LEARNER; ret OK }) }"

definition HAEnable :: "('w, string) rst" where
  "HAEnable = do {
     st \<leftarrow> Raft_getState;
     (case st of
        IDLE \<Rightarrow> do {
          super \<leftarrow> gets (\<lambda>r. rc_SuperIDLE (r_conf r));
          (if super then Raft_setLeader noLeader else Raft_setState FOLLOWER);
          ret OK }
      | LEARNER \<Rightarrow> do { Raft_setState FOLLOWER; ret OK }
      | STOPPED \<Rightarrow> ret ErrorInvalidRequest
      | _ \<Rightarrow> ret OK) }"

definition HATryToLeader :: "'w dbenv \<Rightarrow> ('w, string) rst" where
  "HATryToLeader E = do {
     st \<leftarrow> Raft_getState;
     (case st of
        LEADER \<Rightarrow> ret OK
      | CANDIDATE \<Rightarrow> ret ErrorInvalidRequest
      | IDLE \<Rightarrow> ret ErrorInvalidRequest
      | INVALID \<Rightarrow> ret ErrorInvalidRequest
      | _ \<Rightarrow> do {
          ok \<leftarrow> Raft_Promotable E;
          (if ok then do {
             e \<leftarrow> on_mysql (Mysql_StopSlaveIOThread E);
             (case e of Some err \<Rightarrow> ret (err_text err)
              | None \<Rightarrow> do {
                  Raft_setState CANDIDATE;
                  IncCandidatePromotes;
                  ret OK }) }
           else ret RPCError_MySQLUnpromotable) }) }"


subsection \<open>Status and switches (rpc_raft.go)\<close>

record RaftStatus =
  rs_Stats :: RaftStats
  rs_IdleCount :: "64 word"
  rs_State :: string
  rs_RetCode :: string

text \<open>\<open>uptime\<close>: the seconds since the state began.\<close>

definition RaftRPC_Status :: "64 word \<Rightarrow> ('w, RaftStatus) rst" where
  "RaftRPC_Status uptime = gets (\<lambda>r. \<lparr>rs_Stats = Raft_getStats uptime r,
     rs_IdleCount = of_nat (length (r_metaIdlePeers r)), rs_State = State_String (r_state r),
     rs_RetCode = OK\<rparr>)"

definition EnablePurgeBinlog :: "('w, unit) rst" where
  "EnablePurgeBinlog = SetSkipPurgeBinlog False"

definition DisablePurgeBinlog :: "('w, unit) rst" where
  "DisablePurgeBinlog = SetSkipPurgeBinlog True"

definition EnableCheckSemiSync :: "('w, unit) rst" where
  "EnableCheckSemiSync = SetSkipCheckSemiSync False"

definition DisableCheckSemiSync :: "('w, unit) rst" where
  "DisableCheckSemiSync = SetSkipCheckSemiSync True"


subsection \<open>Loops\<close>

definition loop_exit :: "'w dbenv \<Rightarrow> loop \<Rightarrow> ('w, unit) rst" where
  "loop_exit E l = (case l of
       InFollower cnt \<Rightarrow> Follower_stateExit E
     | InLeader v \<Rightarrow> Leader_stateExit E
     | _ \<Rightarrow> ret ())"

text \<open>\<open>stateLoop\<close>: the loop for a state, started.\<close>

definition loop_enter :: "'w dbenv \<Rightarrow> State \<Rightarrow> ('w, loop) rst" where
  "loop_enter E st = (case st of
       FOLLOWER \<Rightarrow> do {
         cnt \<leftarrow> Follower_startCheckBrainSplit;
         Follower_stateInit E;
         ret (InFollower cnt) }
     | CANDIDATE \<Rightarrow> do { v \<leftarrow> Candidate_enter E; ret (InCandidate v) }
     | LEADER \<Rightarrow> do { v \<leftarrow> Leader_enter E; ret (InLeader v) }
     | IDLE \<Rightarrow> do { Idle_stateInit E; ret InIdle }
     | INVALID \<Rightarrow> do { Invalid_stateInit E; ret InInvalid }
     | LEARNER \<Rightarrow> do { Learner_stateInit E; ret InLearner }
     | _ \<Rightarrow> ret Stopped)"

definition loop_head :: "'w dbenv \<Rightarrow> loop \<Rightarrow> ('w, unit) rst" where
  "loop_head E l = (case l of InLeader v \<Rightarrow> Leader_head E v | _ \<Rightarrow> ret ())"

definition settle_raft :: "'w dbenv \<Rightarrow> loop \<Rightarrow> ('w, loop) rst" where
  "settle_raft E l = do {
     st0 \<leftarrow> Raft_getState;
     whenM (st0 = loop_state l) (loop_head E l);
     st1 \<leftarrow> Raft_getState;
     (if l = Stopped \<or> st1 = loop_state l then ret l
      else do {
        loop_exit E l;
        st \<leftarrow> Raft_getState;
        loop_enter E st }) }"

datatype event =
    EvHeartbeatTick
  | EvElectionTick
  | EvCheckVotesTick
  | EvBrainSplitTick
  | EvVoteResponse RaftRPCResponse
  | EvHeartbeatResponse RaftRPCResponse
  | EvPingResponse RaftRPCResponse
  | EvRequest Msg RaftRPCRequest
  | EvPurgeTick
  | EvSemiSyncTick
  | EvGTIDTick
  | EvMysqlPing
  | EvJob nat
  | EvHADisable
  | EvHAEnable
  | EvHASetLearner
  | EvHATryToLeader
  | EvMember member_op
  | EvStop

text \<open>A job that started runs to its end.\<close>

definition run_job :: "'w dbenv \<Rightarrow> job \<Rightarrow> ('w, unit) rst" where
  "run_job E j = (case j of
       JobSetMySQL \<Rightarrow> run_JobSetMySQL E
     | JobMGRJoin req \<Rightarrow> run_JobMGRJoin E req
     | _ \<Rightarrow> run_leader_job E j)"

definition start_job :: "'w dbenv \<Rightarrow> nat \<Rightarrow> ('w, unit) rst" where
  "start_job E i = do {
     jobs \<leftarrow> gets r_jobs;
     whenM (i < length jobs) (do {
       modify (\<lambda>r. r\<lparr>r_jobs := take i jobs @ drop (Suc i) jobs\<rparr>);
       run_job E (jobs ! i) }) }"

definition loop_event :: "'w dbenv \<Rightarrow> loop \<Rightarrow> event \<Rightarrow> ('w, loop) rst" where
  "loop_event E l ev = (case (l, ev) of
       (InFollower cnt, EvElectionTick) \<Rightarrow> do { Follower_electionTimeout E; ret l }
     | (InFollower cnt, EvBrainSplitTick) \<Rightarrow> do { c \<leftarrow> Follower_brainSplitTick cnt; ret (InFollower c) }
     | (InFollower cnt, EvPingResponse rsp) \<Rightarrow> do { c \<leftarrow> Follower_pingResponse cnt rsp; ret (InFollower c) }
     | (InCandidate v, EvCheckVotesTick) \<Rightarrow> do { v' \<leftarrow> Candidate_checkVotesTick v; ret (InCandidate v') }
     | (InCandidate v, EvElectionTick) \<Rightarrow> do { v' \<leftarrow> Candidate_electionTick E v; ret (InCandidate v') }
     | (InCandidate v, EvVoteResponse rsp) \<Rightarrow> do { v' \<leftarrow> Candidate_response v rsp; ret (InCandidate v') }
     | (InLeader v, EvHeartbeatTick) \<Rightarrow> do { v' \<leftarrow> Leader_heartbeatTick E v; ret (InLeader v') }
     | (InLeader v, EvHeartbeatResponse rsp) \<Rightarrow> do {
         v' \<leftarrow> Leader_processHeartbeatResponse E v rsp; ret (InLeader v') }
     | (Stopped, EvRequest msg req) \<Rightarrow> ret l
     | (_, EvRequest msg req) \<Rightarrow> do { _ \<leftarrow> process_request E (loop_state l) msg req; ret l }
     | _ \<Rightarrow> ret l)"

definition outside_event :: "'w dbenv \<Rightarrow> event \<Rightarrow> ('w, unit) rst" where
  "outside_event E ev = do {
     r \<leftarrow> gets id;
     (case ev of
        EvPurgeTick \<Rightarrow> whenM (L_purgeOn r) (purgeBinlog E)
      | EvSemiSyncTick \<Rightarrow> whenM (L_semiSyncOn r) (checkSemiSync E)
      | EvGTIDTick \<Rightarrow> whenM (L_gtidCheckOn r) (checkGTID E)
      | EvMysqlPing \<Rightarrow> on_mysql (Mysql_Ping E)
      | EvJob i \<Rightarrow> start_job E i
      | EvHADisable \<Rightarrow> call HADisable
      | EvHAEnable \<Rightarrow> call HAEnable
      | EvHASetLearner \<Rightarrow> call HASetLearner
      | EvHATryToLeader \<Rightarrow> call (HATryToLeader E)
      | EvMember p \<Rightarrow> call (member_step p)
      | EvStop \<Rightarrow> Raft_Stop
      | _ \<Rightarrow> ret ()) }"

definition node_step :: "'w dbenv \<Rightarrow> event \<Rightarrow> 'w node \<Rightarrow> 'w node" where
  "node_step E ev n =
     (let (l1, r1) = run_state (loop_event E (n_loop n) ev) (n_raft n);
          r2 = exec_of (outside_event E ev) r1;
          (l2, r3) = run_state (settle_raft E l1) r2
      in \<lparr>n_raft = r3, n_loop = l2\<rparr>)"

definition node_run :: "'w dbenv \<Rightarrow> event list \<Rightarrow> 'w node \<Rightarrow> 'w node" where
  "node_run E evs n = fold (node_step E) evs n"

text \<open>A node after \<open>Start\<close>.\<close>

definition node_start :: "'w dbenv \<Rightarrow> 'w raft \<Rightarrow> 'w node" where
  "node_start E r =
     (let r1 = exec_of Raft_Start r;
          (l, r2) = run_state (loop_enter E (r_state r1)) r1
      in \<lparr>n_raft = r2, n_loop = l\<rparr>)"

end
