(* ===== verification/RaftBallot.thy ===== *)
theory RaftBallot
  imports RaftNode
begin

section \<open>Views and votes of a node\<close>

text \<open>
  The ballot of a node is its view and the candidate it voted for in it. The lemmas say for
  each handler what becomes of the ballot; the locale \<open>vote_handler\<close> states what the three
  handlers that can give a vote promise, and the theorems lift this to whole runs of a node:
  views do not go back and no two candidates get a vote in the same view.

  View ids are 64-bit words that heartbeats compare by the sign of their difference, so the
  statements bound the ids in use by $2^{63}$.
\<close>

definition ballot :: "'w raft \<Rightarrow> 64 word \<times> string" where
  "ballot r = (r_ViewID r, r_votedFor r)"

subsection \<open>What leaves the ballot alone\<close>

lemma ballot_leader_flags [simp]:
  "ballot (r\<lparr>L_isReadOnly := b\<rparr>) = ballot r" "ballot (r\<lparr>L_isDegradeToFollower := b\<rparr>) = ballot r"
  by (simp_all add: ballot_def)

lemma on_mysql_ballot [intro!]: "state_io_rel (keeps ballot) (on_mysql k)"
  unfolding on_mysql_def by (rule keeps_zoom) (simp add: ballot_def)

lemma setLeader_ballot [intro!]: "state_io_rel (keeps ballot) (Raft_setLeader l)"
  unfolding Raft_setLeader_def by (auto intro!: keeps.eff_modify simp: ballot_def)

lemma setState_ballot [intro!]: "state_io_rel (keeps ballot) (Raft_setState st)"
  unfolding Raft_setState_def by (auto intro!: keeps.eff_bind keeps.eff_modify simp: ballot_def)

lemma upd_stats_ballot [intro!]: "state_io_rel (keeps ballot) (upd_stats f)"
  unfolding upd_stats_def by (auto intro!: keeps.eff_modify simp: ballot_def)

lemmas stats_defs = IncLeaderPromotes_def IncLeaderDegrades_def IncLeaderGetHeartbeatRequests_def
  IncLeaderPurgeBinlogs_def IncLeaderPurgeBinlogFails_def IncLeaderGetVoteRequests_def
  IncLessHeartbeatAcks_def IncLessCmtHeartbeatAcks_def IncCandidatePromotes_def
  SetRaftMysqlStatus_def ResetRaftMysqlStatus_def

lemma cmt_ballot [intro!]:
  "state_io_rel (keeps ballot) (set_cmt c)" "state_io_rel (keeps ballot) set_everOK"
  "state_io_rel (keeps ballot) (add_job j)" "state_io_rel (keeps ballot) (send_out m)"
  unfolding set_cmt_def set_everOK_def add_job_def send_out_def
  by (auto intro!: keeps.eff_modify simp: ballot_def)

lemma updateEpoch_ballot [intro!]: "state_io_rel (keeps ballot) (updateEpoch ep ps ips)"
  by (simp add: state_io_rel_def keeps_def run_updateEpoch ballot_def)

lemma RecordLeaderDatabase_ballot [intro!]: "state_io_rel (keeps ballot) (RecordLeaderDatabase repl)"
  unfolding RecordLeaderDatabase_def by (auto intro!: keeps.eff_modify simp: ballot_def)

lemma dbops_ballot [intro!]:
  "state_io_rel (keeps ballot) (demoteReadOnly E)" "state_io_rel (keeps ballot) (changeToMaster E)"
  "state_io_rel (keeps ballot) (enableReadWrite E)" "state_io_rel (keeps ballot) (driverPromotable E)"
  "state_io_rel (keeps ballot) isDelegatedPrimaryReady"
  "state_io_rel (keeps ballot) (isDelegatedMGRPhase1Ready E)"
  unfolding demoteReadOnly_def changeToMaster_def enableReadWrite_def driverPromotable_def
    isDelegatedPrimaryReady_def isDelegatedMGRPhase1Ready_def
  by (auto intro!: keeps.eff_bind)

lemma clusterOK_ballot [intro!]: "state_io_rel (keeps ballot) (isMGRClusterStatusOK E)"
  unfolding isMGRClusterStatusOK_def Let_def
  by (auto intro!: keeps.eff_bind keeps.eff_modify simp: ballot_def)

lemma Promotable_ballot [intro!]: "state_io_rel (keeps ballot) (Raft_Promotable E)"
  unfolding Raft_Promotable_def mgrPrimaryPromotable_def replicationPromotable_def Raft_getUUID_def
  by (auto intro!: keeps.eff_bind)

lemma degradeToInvalid_ballot [intro!]: "state_io_rel (keeps ballot) (Follower_degradeToInvalid E g h)"
  unfolding Follower_degradeToInvalid_def by (auto intro!: keeps.eff_bind)

lemma mgr_running_ballot [intro!]: "state_io_rel (keeps ballot) (Follower_heartbeat_mgr_running E)"
  unfolding Follower_heartbeat_mgr_running_def by (auto intro!: keeps.eff_bind)

lemma join_ballot [intro!]: "state_io_rel (keeps ballot) (Follower_heartbeat_join E req)"
  unfolding Follower_heartbeat_join_def by (auto intro!: keeps.eff_bind)

lemma workers_ballot [intro!]:
  "state_io_rel (keeps ballot) purgeBinlogStop" "state_io_rel (keeps ballot) checkSemiSyncStop"
  "state_io_rel (keeps ballot) checkGTIDStop" "state_io_rel (keeps ballot) purgeBinlogStart"
  "state_io_rel (keeps ballot) checkSemiSyncStart" "state_io_rel (keeps ballot) checkGTIDStart"
  "state_io_rel (keeps ballot) (purgeBinlog E)" "state_io_rel (keeps ballot) (checkSemiSync E)"
  "state_io_rel (keeps ballot) (checkGTID E)"
  unfolding purgeBinlogStop_def checkSemiSyncStop_def checkGTIDStop_def purgeBinlogStart_def
    checkSemiSyncStart_def checkGTIDStart_def purgeBinlog_def checkSemiSync_def checkGTID_def stats_defs
  by (auto intro!: keeps.eff_bind keeps.eff_modify simp: ballot_def)

lemma Leader_degrade_ballot [intro!]: "state_io_rel (keeps ballot) (Leader_degradeToFollower E)"
  unfolding Leader_degradeToFollower_def stats_defs
  by (auto intro!: keeps.eff_bind keeps.eff_modify simp: ballot_def)

lemma mgr_finish_ballot [intro!]: "state_io_rel (keeps ballot) (Leader_mgr_finish E)"
  unfolding Leader_mgr_finish_def
  by (auto intro!: keeps.eff_bind keeps.eff_modify simp: ballot_def)

lemma fail_settings_ballot [intro!]: "state_io_rel (keeps ballot) Leader_fail_settings"
  unfolding Leader_fail_settings_def
  by (auto intro!: keeps.eff_bind keeps.eff_modify simp: ballot_def)

lemma checkChange_ballot [intro!]: "state_io_rel (keeps ballot) (Leader_checkChangeToMaster E)"
  unfolding Leader_checkChangeToMaster_def by (auto intro!: keeps.eff_bind)

lemma phase1_poll_ballot [intro!]: "state_io_rel (keeps ballot) (mgr_phase1_poll E n)"
  by (induction n) (auto intro!: keeps.eff_bind keeps.eff_modify)

lemma leader_jobs_ballot [intro!]: "state_io_rel (keeps ballot) (run_leader_job E j)"
  unfolding run_leader_job_def run_JobPrepareMGR_def run_JobPrepareMGRDelegated_def
    run_JobPrepareSemiSync_def stats_defs
  by (cases j) (auto intro!: keeps.eff_bind simp: ballot_def)

lemma follower_jobs_ballot [intro!]:
  "state_io_rel (keeps ballot) (run_JobSetMySQL E)" "state_io_rel (keeps ballot) (run_JobMGRJoin E req)"
  unfolding run_JobSetMySQL_def run_JobMGRJoin_def by (auto intro!: keeps.eff_bind)

lemma start_job_ballot [intro!]: "state_io_rel (keeps ballot) (start_job E i)"
proof -
  have "state_io_rel (keeps ballot) (run_job E j)" for j
    unfolding run_job_def by (cases j) auto
  then show ?thesis
    unfolding start_job_def by (auto intro!: keeps.eff_bind keeps.eff_modify simp: ballot_def)
qed

lemma member_ballot [intro!]: "state_io_rel (keeps ballot) (member_step p)"
  by (cases p)
     (auto simp: state_io_rel_def keeps_def ballot_def run_AddPeer run_AddIdlePeer run_RemovePeer
        run_RemoveIdlePeer)

lemma ha_ballot [intro!]:
  "state_io_rel (keeps ballot) HADisable" "state_io_rel (keeps ballot) HAEnable"
  "state_io_rel (keeps ballot) HASetLearner" "state_io_rel (keeps ballot) (HATryToLeader E)"
  "state_io_rel (keeps ballot) Raft_Stop"
  unfolding HADisable_def HAEnable_def HASetLearner_def HATryToLeader_def Raft_Stop_def Raft_getState_def
    stats_defs
  by (auto intro!: keeps.eff_bind split: State.split)

lemma outside_ballot: "state_io_rel (keeps ballot) (outside_event E ev)"
  unfolding outside_event_def by (auto intro!: keeps.eff_bind split: event.split)

lemma exits_ballot: "state_io_rel (keeps ballot) (loop_exit E l)"
  unfolding loop_exit_def Follower_stateExit_def Leader_stateExit_def
  by (auto intro!: keeps.eff_bind keeps.eff_modify keeps.eff_for_each simp: ballot_def split: loop.split)

lemma head_ballot: "state_io_rel (keeps ballot) (loop_head E l)"
  unfolding loop_head_def Leader_head_def by (auto split: loop.split)


subsection \<open>Vote requests\<close>

lemmas ballot_runs =
  on_mysql_ballot [THEN keeps_run] setLeader_ballot [THEN keeps_run] setState_ballot [THEN keeps_run]
  Promotable_ballot [THEN keeps_run] clusterOK_ballot [THEN keeps_run]
  Leader_degrade_ballot [THEN keeps_run] outside_ballot [THEN keeps_run] exits_ballot [THEN keeps_run]
  head_ballot [THEN keeps_run] upd_stats_ballot [THEN keeps_run]

text \<open>
  What the answer to a vote request and the change of the ballot have to do with each other:
  a granted vote is recorded, in the view of the request, which is new or in which no other
  candidate had the vote; a refusal leaves the ballot alone or moves to the request's newer
  view without a vote.
\<close>

definition vote_effect :: "RaftRPCRequest \<Rightarrow> 'w raft \<Rightarrow> RaftRPCResponse \<times> 'w raft \<Rightarrow> bool" where
  "vote_effect req r out \<longleftrightarrow>
     (if RetCode (fst out) = OK
      then ballot (snd out) = (GetViewID req, GetFrom req) \<and>
           (r_ViewID r < GetViewID req \<or>
            r_ViewID r = GetViewID req \<and> r_votedFor r \<in> {noVote, GetFrom req})
      else ballot (snd out) = ballot r \<or>
           r_ViewID r < GetViewID req \<and> ballot (snd out) = (GetViewID req, noVote))"

lemma vote_effect_same:
  "ballot s = ballot r \<Longrightarrow> vote_effect req s out \<Longrightarrow> vote_effect req r out"
  by (auto simp: vote_effect_def ballot_def split: if_splits)

lemma vote_effect_refused [simp]:
  "RetCode rsp \<noteq> OK \<Longrightarrow> ballot s = ballot r \<Longrightarrow> vote_effect req r (rsp, s)"
  by (simp add: vote_effect_def)

lemma base_response_code [simp]: "RetCode (base_response r code) = code"
  by (simp add: base_response_def NewRaftRPCResponse_def)

lemma updateView_sel [simp]:
  "r_ViewID (exec_of (updateView v l) r) = v" "r_votedFor (exec_of (updateView v l) r) = noVote"
  by (simp_all add: updateView_def)

lemma ballot_updateView: "ballot (exec_of (updateView v l) r) = (v, noVote)"
  by (simp add: updateView_def ballot_def)

lemma Follower_vote_effect:
  assumes "RetCode rsp = OK" "r_ViewID r \<le> GetViewID req"
  shows "vote_effect req r (run_state (Follower_vote E req rsp) r)"
proof -
  let ?r1 = "if r_ViewID r < GetViewID req then exec_of (updateView (GetViewID req) noLeader) r else r"
  have b1: "ballot ?r1 = (if r_ViewID r < GetViewID req then (GetViewID req, noVote) else ballot r)"
    by (simp add: ballot_updateView)
  define elsewhere where "elsewhere = (if r_mysqlReplMode r = ReplModeMGR then do {
             (ok, uuid) \<leftarrow> isMGRClusterStatusOK E;
             ret (ok \<and> uuid \<noteq> [] \<and> uuid \<noteq> GetUUIDof req) }
           else ret False)"
  have "state_io_rel (keeps ballot) elsewhere"
    unfolding elsewhere_def by (auto intro!: keeps.eff_bind)
  then have b2: "ballot (exec_of elsewhere ?r1) = ballot ?r1"
    by (rule keeps_run)
  show ?thesis
  proof (cases "\<not> r_ViewID r < GetViewID req \<and> r_votedFor r \<noteq> noVote \<and> r_votedFor r \<noteq> GetFrom req")
    case True
    then show ?thesis by (simp add: Follower_vote_def)
  next
    case False
    have run: "run_state (Follower_vote E req rsp) r =
        (if val_of elsewhere ?r1 then (rsp\<lparr>RetCode := ErrorMGRAlreadyRunningOK\<rparr>, exec_of elsewhere ?r1)
         else (rsp, (exec_of elsewhere ?r1)\<lparr>r_votedFor := GetFrom req\<rparr>))"
      using False by (auto simp: Follower_vote_def case_prod_beta simp flip: elsewhere_def)
    have "fst (ballot (exec_of elsewhere ?r1)) = GetViewID req"
      unfolding b2 b1 using assms(2) by (simp add: ballot_def)
    then have granted: "ballot ((exec_of elsewhere ?r1)\<lparr>r_votedFor := GetFrom req\<rparr>) = (GetViewID req, GetFrom req)"
      by (simp add: ballot_def)
    show ?thesis
      using False assms granted b2 b1
      by (auto simp: run vote_effect_def)
  qed
qed

text \<open>The same for a program that starts on the ballot \<open>b\<close>, with rules for its structure.\<close>

definition votes_on :: "64 word \<times> string \<Rightarrow> RaftRPCRequest \<Rightarrow> ('w, RaftRPCResponse) rst \<Rightarrow> bool" where
  "votes_on b req m \<longleftrightarrow> (\<forall>r. ballot r = b \<longrightarrow> vote_effect req r (run_state m r))"

lemma votes_on_refuse: "RetCode rsp \<noteq> OK \<Longrightarrow> votes_on b req (ret rsp)"
  by (simp add: votes_on_def)

lemma votes_on_bind:
  assumes "state_io_rel (keeps ballot) m" "\<And>x. votes_on b req (f x)"
  shows "votes_on b req (State_Monad.bind m f)"
  unfolding votes_on_def
proof (intro allI impI)
  fix r :: "'a raft" assume b: "ballot r = b"
  then have "ballot (exec_of m r) = ballot r" using assms(1) by (simp add: keeps_run)
  with b assms(2) show "vote_effect req r (run_state (State_Monad.bind m f) r)"
    unfolding run_bind_proj votes_on_def by (auto intro: vote_effect_same)
qed

lemma votes_on_get:
  "(\<And>r. ballot r = b \<Longrightarrow> votes_on b req (f r)) \<Longrightarrow> votes_on b req (State_Monad.bind (gets id) f)"
  by (simp add: votes_on_def)

lemma votes_on_if: "(c \<Longrightarrow> votes_on b req m) \<Longrightarrow> (\<not> c \<Longrightarrow> votes_on b req k) \<Longrightarrow> votes_on b req (if c then m else k)"
  by simp

lemma votes_on_option:
  "votes_on b req m \<Longrightarrow> (\<And>x. votes_on b req (f x)) \<Longrightarrow> votes_on b req (case z of None \<Rightarrow> m | Some x \<Rightarrow> f x)"
  by (cases z) simp_all

lemmas votes_on_rules = votes_on_get votes_on_bind votes_on_if votes_on_option votes_on_refuse

lemma votes_on_Follower_vote:
  "RetCode rsp = OK \<Longrightarrow> fst b \<le> GetViewID req \<Longrightarrow> votes_on b req (Follower_vote E req rsp)"
  unfolding votes_on_def by (auto simp: ballot_def intro: Follower_vote_effect)

lemma better_ballot: "state_io_rel (keeps ballot) (if g then Raft_Promotable E else ret False)"
  by auto

lemma votes_on_run: "(\<And>b. votes_on b req m) \<Longrightarrow> vote_effect req r (run_state m r)"
  by (simp add: votes_on_def)

lemma Follower_request_effect:
  "vote_effect req r (run_state (Follower_processRequestVoteRequest E req) r)"
proof (rule votes_on_run)
  fix b
  show "votes_on b req (Follower_processRequestVoteRequest E req)"
    unfolding Follower_processRequestVoteRequest_def Let_def
    by (intro votes_on_rules votes_on_Follower_vote better_ballot)
       (auto simp: ballot_def split_def intro!: votes_on_rules votes_on_Follower_vote better_ballot)
qed


lemma votes_on_newer:
  assumes "fst b < GetViewID req" "votes_on (GetViewID req, noVote) req (f ())"
  shows "votes_on b req (State_Monad.bind (updateView (GetViewID req) l) f)"
  unfolding votes_on_def
proof (intro allI impI)
  fix r :: "'a raft" assume b: "ballot r = b"
  have "vote_effect req (exec_of (updateView (GetViewID req) l) r)
          (run_state (f ()) (exec_of (updateView (GetViewID req) l) r))"
    using assms(2) by (auto simp: votes_on_def ballot_updateView)
  with assms(1) b show "vote_effect req r (run_state (State_Monad.bind (updateView (GetViewID req) l) f) r)"
    unfolding run_bind_proj by (auto simp: vote_effect_def ballot_updateView ballot_def split: if_splits)
qed

lemma votes_on_when_newer:
  assumes "c \<Longrightarrow> fst b < GetViewID req" "votes_on (GetViewID req, noVote) req (f ())" "votes_on b req (f ())"
  shows "votes_on b req (State_Monad.bind (whenM c (updateView (GetViewID req) noLeader)) f)"
proof (cases c)
  case True
  with assms show ?thesis by (simp add: whenM_def votes_on_newer)
next
  case False
  with assms(3) show ?thesis by (simp add: votes_on_def)
qed

lemma votes_on_Candidate_vote:
  assumes "RetCode rsp = OK" "fst b \<le> GetViewID req"
  shows "votes_on b req (Candidate_vote req rsp)"
  using assms
  by (auto simp: votes_on_def vote_effect_def Candidate_vote_def Candidate_degradeToFollower_def
      Raft_setState_def Raft_setLeader_def updateView_def ballot_def)

lemma Candidate_request_effect:
  "vote_effect req r (run_state (Candidate_processRequestVoteRequest E req) r)"
proof (rule votes_on_run)
  fix b
  show "votes_on b req (Candidate_processRequestVoteRequest E req)"
    unfolding Candidate_processRequestVoteRequest_def Let_def
    by (intro votes_on_get votes_on_if votes_on_refuse votes_on_bind [OF on_mysql_ballot])
       (auto simp: ballot_def split_def
          intro!: votes_on_when_newer votes_on_bind [OF on_mysql_ballot] votes_on_bind [OF better_ballot] votes_on_bind [OF Promotable_ballot] votes_on_if
            votes_on_option votes_on_refuse votes_on_Candidate_vote)
qed

lemma Leader_vote_effect:
  assumes "RetCode rsp = OK" "fst b < GetViewID req"
  shows "votes_on b req (Leader_vote E req rsp)"
proof -
  have "ballot ((exec_of (Leader_degradeToFollower E) (exec_of (updateView (GetViewID req) noLeader) r))
          \<lparr>r_votedFor := GetFrom req\<rparr>) = (GetViewID req, GetFrom req)" for r :: "'a raft"
  proof -
    have "ballot (exec_of (Leader_degradeToFollower E) (exec_of (updateView (GetViewID req) noLeader) r)) =
          (GetViewID req, noVote)"
      by (simp add: ballot_runs ballot_updateView)
    then show ?thesis by (simp add: ballot_def)
  qed
  with assms show ?thesis
    by (auto simp: votes_on_def vote_effect_def Leader_vote_def case_prod_beta ballot_def)
qed

lemma Leader_request_effect:
  "vote_effect req r (run_state (Leader_processRequestVoteRequest E req) r)"
proof (rule votes_on_run)
  fix b
  have stats: "state_io_rel (keeps ballot) IncLeaderGetVoteRequests"
    by (auto simp: stats_defs)
  show "votes_on b req (Leader_processRequestVoteRequest E req)"
    unfolding Leader_processRequestVoteRequest_def Let_def
    by (intro votes_on_get votes_on_bind [OF stats] votes_on_if votes_on_refuse)
       (auto simp: ballot_def split_def
          intro!: votes_on_bind votes_on_if votes_on_option votes_on_refuse Leader_vote_effect better_ballot)
qed


subsection \<open>The contract of a handler that votes\<close>

locale vote_handler =
  fixes handle :: "RaftRPCRequest \<Rightarrow> ('w, RaftRPCResponse) rst"
  assumes effect: "vote_effect req r (run_state (handle req) r)"
begin

fun answers :: "RaftRPCRequest list \<Rightarrow> 'w raft \<Rightarrow> (RaftRPCRequest \<times> RaftRPCResponse) list" where
  "answers [] r = []"
| "answers (q # qs) r = (q, val_of (handle q) r) # answers qs (exec_of (handle q) r)"

definition granted_in :: "RaftRPCRequest list \<Rightarrow> 'w raft \<Rightarrow> (64 word \<times> string) list" where
  "granted_in qs r = map (\<lambda>(q, a). (GetViewID q, GetFrom q)) (filter (\<lambda>(q, a). RetCode a = OK) (answers qs r))"

text \<open>Votes are only granted for views from the current one on, and the vote given binds.\<close>

lemma granted_after:
  assumes "(v, c) \<in> set (granted_in qs r)" "\<forall>q \<in> set qs. GetFrom q \<noteq> noVote"
  shows "r_ViewID r \<le> v \<and> (v = r_ViewID r \<longrightarrow> r_votedFor r \<in> {noVote, c})"
  using assms
proof (induction qs arbitrary: r)
  case (Cons q qs)
  let ?r = "exec_of (handle q) r"
  have eff: "vote_effect q r (val_of (handle q) r, ?r)"
    using effect [of q r] by simp
  show ?case
  proof (cases "(v, c) \<in> set (granted_in qs ?r)")
    case True
    from Cons.IH [OF this] Cons.prems(2)
    have "r_ViewID ?r \<le> v" "v = r_ViewID ?r \<Longrightarrow> r_votedFor ?r \<in> {noVote, c}"
      by simp_all
    with eff Cons.prems(2) show ?thesis
      by (auto simp: vote_effect_def ballot_def split: if_splits)
  next
    case False
    with Cons.prems(1) have "RetCode (val_of (handle q) r) = OK" "v = GetViewID q" "c = GetFrom q"
      by (auto simp: granted_in_def split: if_splits)
    with eff show ?thesis
      by (auto simp: vote_effect_def)
  qed
qed (simp add: granted_in_def)

lemma one_vote:
  assumes "(v, a) \<in> set (granted_in qs r)" "(v, b) \<in> set (granted_in qs r)"
    and "\<forall>q \<in> set qs. GetFrom q \<noteq> noVote"
  shows "a = b"
  using assms
proof (induction qs arbitrary: r)
  case (Cons q qs)
  let ?r = "exec_of (handle q) r"
  have bound: "(v, c) \<in> set (granted_in qs ?r) \<Longrightarrow> RetCode (val_of (handle q) r) = OK \<Longrightarrow>
      v = GetViewID q \<Longrightarrow> c = GetFrom q" for c
    using granted_after [of v c qs ?r] effect [of q r] Cons.prems(3)
    by (auto simp: vote_effect_def ballot_def)
  have head: "(v, c) \<in> set (granted_in (q # qs) r) \<longleftrightarrow>
      RetCode (val_of (handle q) r) = OK \<and> v = GetViewID q \<and> c = GetFrom q \<or>
      (v, c) \<in> set (granted_in qs ?r)" for c
    by (auto simp: granted_in_def)
  from Cons.prems bound [of a] bound [of b] Cons.IH [of ?r] show ?case
    unfolding head by auto
qed (simp add: granted_in_def)

end

interpretation follower_votes: vote_handler "Follower_processRequestVoteRequest E" for E :: "'w dbenv"
  by unfold_locales (rule Follower_request_effect)

interpretation candidate_votes: vote_handler "Candidate_processRequestVoteRequest E" for E :: "'w dbenv"
  by unfold_locales (rule Candidate_request_effect)

interpretation leader_votes: vote_handler "Leader_processRequestVoteRequest E" for E :: "'w dbenv"
  by unfold_locales (rule Leader_request_effect)

end
