(* ===== verification/RaftVotes.thy ===== *)
theory RaftVotes
  imports RaftBallot
begin

section \<open>Views and votes over whole runs of a node\<close>

text \<open>
  Every step of a node moves its ballot in one of a few ways, collected by \<open>moves\<close>. From
  this follow, for runs of any length and any order of events, that the view does not go
  back and that a node votes for at most one candidate in a view, whatever states it passes
  through. The statements assume ids below $2^{63}$ and that an \<open>ErrorInvalidViewID\<close> answer
  to a candidate does not carry a view older than the candidate's; \<open>stale_denial_lowers_view\<close>
  shows that the last assumption is needed.
\<close>

definition moves :: "64 word \<times> string \<Rightarrow> (64 word \<times> string) set \<Rightarrow> ('w, 'a) rst \<Rightarrow> bool" where
  "moves b S m \<longleftrightarrow> (\<forall>r. ballot r = b \<longrightarrow> ballot (exec_of m r) \<in> S)"

lemma moves_keeps: "state_io_rel (keeps ballot) m \<Longrightarrow> b \<in> S \<Longrightarrow> moves b S m"
  by (simp add: moves_def keeps_run)

lemma moves_bind1:
  assumes "state_io_rel (keeps ballot) m" "\<And>x. moves b S (f x)"
  shows "moves b S (State_Monad.bind m f)"
  using assms(2) by (simp add: moves_def run_bind_proj keeps_run [OF assms(1)] del: run_state_bind)

lemma moves_bind2:
  assumes "moves b S m" "\<And>x. state_io_rel (keeps ballot) (f x)"
  shows "moves b S (State_Monad.bind m f)"
  using assms(1) by (simp add: moves_def run_bind_proj keeps_run [OF assms(2)] del: run_state_bind)

lemma moves_get:
  "(\<And>r. ballot r = b \<Longrightarrow> moves b S (f r)) \<Longrightarrow> moves b S (State_Monad.bind (gets id) f)"
  by (simp add: moves_def)

lemma moves_if: "(c \<Longrightarrow> moves b S m) \<Longrightarrow> (\<not> c \<Longrightarrow> moves b S k) \<Longrightarrow> moves b S (if c then m else k)"
  by simp

lemma moves_option:
  "moves b S m \<Longrightarrow> (\<And>x. moves b S (f x)) \<Longrightarrow> moves b S (case z of None \<Rightarrow> m | Some x \<Rightarrow> f x)"
  by (cases z) simp_all

lemma moves_weaken: "moves b S m \<Longrightarrow> S \<subseteq> T \<Longrightarrow> moves b T m"
  by (auto simp: moves_def)

lemma moves_run: "moves (ballot r) S m \<Longrightarrow> ballot (exec_of m r) \<in> S"
  by (simp add: moves_def)


subsection \<open>Heartbeats\<close>

definition hb_set :: "RaftRPCRequest \<Rightarrow> 64 word \<times> string \<Rightarrow> (64 word \<times> string) set" where
  "hb_set req b = (if fst b < GetViewID req then {b, (GetViewID req, noVote)} else {b})"

lemma hb_set_refl [simp]: "b \<in> hb_set req b"
  by (simp add: hb_set_def)

lemma sint_sub_small:
  fixes a b :: "64 word"
  assumes "unat a < 2 ^ 63" "unat b < 2 ^ 63"
  shows "sint (a - b) = uint a - uint b"
proof -
  have small: "uint x < 2 ^ 63" if "unat x < 2 ^ 63" for x :: "64 word"
  proof -
    have "int (unat x) < int (2 ^ 63)" using that by (simp only: of_nat_less_iff)
    then show ?thesis by simp
  qed
  have b64: "(2 ^ 64 :: int) = 2 * 2 ^ 63" by simp
  have "0 \<le> uint a - uint b + 2 ^ 63" "uint a - uint b + 2 ^ 63 < 2 * 2 ^ 63"
    using small [OF assms(1)] small [OF assms(2)] uint_ge_0 [of a] uint_ge_0 [of b] by linarith+
  then have "(uint a - uint b + 2 ^ 63) mod 2 ^ 64 = uint a - uint b + 2 ^ 63"
    unfolding b64 by (rule mod_pos_pos_trivial)
  moreover have "sint (a - b) = (uint a - uint b + 2 ^ 63) mod 2 ^ 64 - 2 ^ 63"
    by (simp add: sint_uint signed_take_bit_eq_take_bit_shift uint_word_ariths take_bit_eq_mod mod_simps)
  ultimately show ?thesis
    by simp
qed

lemma id_diff_sign:
  assumes "unat a < 2 ^ 63" "unat b < 2 ^ 63"
  shows "id_diff a b < 0 \<longleftrightarrow> a < b" and "id_diff a b > 0 \<longleftrightarrow> b < a"
  by (simp_all add: id_diff_def sint_sub_small [OF assms] word_less_def)


lemma moves_applyEpochView:
  assumes "unat (fst b) < 2 ^ 63" "unat (GetViewID req) < 2 ^ 63"
  shows "moves b (hb_set req b) (applyEpochView req (id_diff (fst b) (GetViewID req)) ed)"
proof -
  have "ballot (exec_of (updateEpoch ep ps ips) r) = ballot r" for ep ps ips and r :: "'a raft"
    by (rule keeps_run) auto
  then show ?thesis
    using id_diff_sign(1) [OF assms]
    by (simp add: moves_def applyEpochView_def ballot_updateView hb_set_def case_prod_beta)
qed

lemma moves_epoch_tail:
  assumes "unat (fst b) < 2 ^ 63" "unat (GetViewID req) < 2 ^ 63"
  shows "moves b (hb_set req b)
     (State_Monad.bind (applyEpochView req (id_diff (fst b) (GetViewID req)) ed) (\<lambda>_. ret x))"
  by (rule moves_bind2 [OF moves_applyEpochView [OF assms]]) auto

lemma moves_ret: "b \<in> S \<Longrightarrow> moves b S (ret x)"
  by (simp add: moves_def)

lemma keeps_ifs [intro!]:
  "state_io_rel (keeps ballot) (whenM c (call (on_mysql k)))"
  "state_io_rel (keeps ballot) (whenM c (call (demoteReadOnly E)))"
  "state_io_rel (keeps ballot) (whenM c (set_cmt d))"
  "state_io_rel (keeps ballot) (whenM c (Raft_setLeader l))"
  "state_io_rel (keeps ballot) (call (on_mysql k))"
  "state_io_rel (keeps ballot) (call (demoteReadOnly E))"
  "state_io_rel (keeps ballot) (whenM c (Follower_degradeToInvalid E g h))"
  by auto

lemma F_error_ballot [intro!]:
  "state_io_rel (keeps ballot) (modify (\<lambda>r. r\<lparr>F_ChangeToMasterError := e\<rparr>))"
  by (auto intro!: keeps.eff_modify simp: ballot_def)

lemmas hb_rules = moves_epoch_tail moves_ret moves_if moves_option
  moves_bind1 [OF keeps.eff_gets] moves_bind1 [OF on_mysql_ballot] moves_bind1 [OF setLeader_ballot]
  moves_bind1 [OF join_ballot] moves_bind1 [OF mgr_running_ballot] moves_bind1 [OF F_error_ballot]
  moves_bind1 [OF keeps_ifs(1)] moves_bind1 [OF keeps_ifs(2)] moves_bind1 [OF keeps_ifs(3)]
  moves_bind1 [OF keeps_ifs(4)] moves_bind1 [OF keeps_ifs(5)] moves_bind1 [OF keeps_ifs(6)]
  moves_bind1 [OF keeps_ifs(7)] moves_bind1 [OF RecordLeaderDatabase_ballot]

lemma moves_hb_mgr:
  assumes "unat (fst b) < 2 ^ 63" "unat (GetViewID req) < 2 ^ 63"
  shows "moves b (hb_set req b) (Follower_heartbeat_mgr E req (id_diff (fst b) (GetViewID req)) ed rsp)"
  unfolding Follower_heartbeat_mgr_def Let_def by (intro hb_rules hb_set_refl assms)

lemma moves_hb_semisync:
  assumes "unat (fst b) < 2 ^ 63" "unat (GetViewID req) < 2 ^ 63"
  shows "moves b (hb_set req b) (Follower_heartbeat_semisync E req (id_diff (fst b) (GetViewID req)) ed rsp)"
  unfolding Follower_heartbeat_semisync_def split_def by (intro hb_rules hb_set_refl assms)

lemma moves_passive:
  assumes "unat (fst b) < 2 ^ 63" "unat (GetViewID req) < 2 ^ 63"
  shows "moves b (hb_set req b) (Idle_processHeartbeatRequest E req)"
    and "moves b (hb_set req b) (Invalid_processHeartbeatRequest E req)"
    and "moves b (hb_set req b) (Learner_processHeartbeatRequest E req)"
proof -
  have follow: "state_io_rel (keeps ballot) (passive_change_master E req)"
    unfolding passive_change_master_def by (auto intro!: keeps.eff_bind)
  have v: "r_ViewID r = fst b" if "ballot r = b" for r :: "'a raft"
    using that by (auto simp: ballot_def)
  show "moves b (hb_set req b) (Idle_processHeartbeatRequest E req)"
    unfolding Idle_processHeartbeatRequest_def Let_def
    by (rule moves_get, subst v, assumption, intro hb_rules hb_set_refl moves_bind1 [OF follow] assms)
  show "moves b (hb_set req b) (Invalid_processHeartbeatRequest E req)"
    unfolding Invalid_processHeartbeatRequest_def Let_def
    by (rule moves_get, subst v, assumption, intro hb_rules hb_set_refl moves_bind1 [OF follow] assms)
  show "moves b (hb_set req b) (Learner_processHeartbeatRequest E req)"
    unfolding Learner_processHeartbeatRequest_def Let_def
    by (rule moves_get, subst v, assumption, intro hb_rules hb_set_refl assms)
qed


lemma view_of_ballot: "ballot r = b \<Longrightarrow> r_ViewID r = fst b"
  by (auto simp: ballot_def)

lemma moves_follower_hb:
  assumes "unat (fst b) < 2 ^ 63" "unat (GetViewID req) < 2 ^ 63"
  shows "moves b (hb_set req b) (Follower_processHeartbeatRequest E req)"
  unfolding Follower_processHeartbeatRequest_def Let_def
  by (rule moves_get, drule view_of_ballot, simp only:,
      intro hb_rules hb_set_refl moves_hb_mgr moves_hb_semisync assms)

lemma stats_ballot [intro!]:
  "state_io_rel (keeps ballot) IncLeaderGetHeartbeatRequests"
  "state_io_rel (keeps ballot) IncLessHeartbeatAcks"
  "state_io_rel (keeps ballot) IncLessCmtHeartbeatAcks"
  "state_io_rel (keeps ballot) IncCandidatePromotes" "state_io_rel (keeps ballot) IncLeaderPromotes"
  by (auto simp: stats_defs)

lemma candidate_changes_ballot [intro!]:
  "state_io_rel (keeps ballot) Candidate_degradeToFollower"
  "state_io_rel (keeps ballot) Candidate_upgradeToLeader"
  by (auto simp: Candidate_degradeToFollower_def Candidate_upgradeToLeader_def intro!: keeps.eff_bind)

lemma other_hb_ballot:
  "state_io_rel (keeps ballot) (Candidate_processHeartbeatRequest req)"
  "state_io_rel (keeps ballot) (Leader_processHeartbeatRequest E req)"
  unfolding Candidate_processHeartbeatRequest_def Leader_processHeartbeatRequest_def Let_def
  by (auto intro!: keeps.eff_bind)

lemma moves_passive_votes:
  "state_io_rel (keeps ballot) (Idle_processRequestVoteRequest req)"
  "state_io_rel (keeps ballot) (Invalid_processRequestVoteRequest req)"
  "state_io_rel (keeps ballot) (Learner_processRequestVoteRequest req)"
  "state_io_rel (keeps ballot) (processPingRequest req)"
  unfolding Idle_processRequestVoteRequest_def Invalid_processRequestVoteRequest_def
    Learner_processRequestVoteRequest_def processPingRequest_def
  by auto

subsection \<open>Vote requests, responses and timers\<close>

text \<open>A vote given in the view of a request, or the view without a vote.\<close>

definition vote_set :: "RaftRPCRequest \<Rightarrow> 64 word \<times> string \<Rightarrow> (64 word \<times> string) set" where
  "vote_set req b = {b} \<union>
     (if fst b < GetViewID req then {(GetViewID req, noVote), (GetViewID req, GetFrom req)} else {}) \<union>
     (if fst b = GetViewID req \<and> snd b \<in> {noVote, GetFrom req} then {(GetViewID req, GetFrom req)} else {})"

lemma vote_effect_moves:
  assumes "\<And>r. vote_effect req r (run_state (h req) r)"
  shows "moves b (vote_set req b) (h req)"
  unfolding moves_def
proof (intro allI impI)
  fix r :: "'a raft" assume "ballot r = b"
  with assms [of r] show "ballot (exec_of (h req) r) \<in> vote_set req b"
    by (auto simp: vote_effect_def vote_set_def ballot_def split: if_splits)
qed

lemma moves_votes:
  "moves b (vote_set req b) (Follower_processRequestVoteRequest E req)"
  "moves b (vote_set req b) (Candidate_processRequestVoteRequest E req)"
  "moves b (vote_set req b) (Leader_processRequestVoteRequest E req)"
  by (rule vote_effect_moves, rule Follower_request_effect Candidate_request_effect Leader_request_effect)+

lemma moves_request:
  assumes "unat (fst b) < 2 ^ 63" "unat (GetViewID req) < 2 ^ 63"
  shows "moves b (hb_set req b \<union> vote_set req b) (process_request E st msg req)"
proof (cases msg)
  case MsgRaftHeartbeat
  have hb: "moves b (hb_set req b \<union> vote_set req b) m" if "moves b (hb_set req b) m" for m :: "('a, RaftRPCResponse) rst"
    using that by (rule moves_weaken) simp
  have kp: "moves b (hb_set req b \<union> vote_set req b) m" if "state_io_rel (keeps ballot) m" for m :: "('a, RaftRPCResponse) rst"
    using that by (rule moves_keeps) simp
  show ?thesis
    using MsgRaftHeartbeat hb [OF moves_follower_hb [OF assms]] hb [OF moves_passive(1) [OF assms]]
      hb [OF moves_passive(2) [OF assms]] hb [OF moves_passive(3) [OF assms]]
      kp [OF other_hb_ballot(1)] kp [OF other_hb_ballot(2)]
    by (cases st) (simp_all add: process_request_def)
next
  case MsgRaftRequestVote
  have vt: "moves b (hb_set req b \<union> vote_set req b) m" if "moves b (vote_set req b) m" for m :: "('a, RaftRPCResponse) rst"
    using that by (rule moves_weaken) simp
  have kp: "moves b (hb_set req b \<union> vote_set req b) m" if "state_io_rel (keeps ballot) m" for m :: "('a, RaftRPCResponse) rst"
    using that by (rule moves_keeps) simp
  show ?thesis
    using MsgRaftRequestVote vt [OF moves_votes(1)] vt [OF moves_votes(2)] vt [OF moves_votes(3)]
      kp [OF moves_passive_votes(1)] kp [OF moves_passive_votes(2)] kp [OF moves_passive_votes(3)]
    by (cases st) (simp_all add: process_request_def)
next
  case MsgRaftPing
  then show ?thesis
    by (simp add: process_request_def) (rule moves_keeps [OF moves_passive_votes(4)], simp)
qed

lemma send_votes_ballot [intro!]: "state_io_rel (keeps ballot) (send_votes E ps)"
proof (induction ps)
  case (Cons p ps)
  have "state_io_rel (keeps ballot) (Peer_sendRequestVote E p)"
    unfolding Peer_sendRequestVote_def Raft_getUUID_def Let_def by (auto intro!: keeps.eff_bind)
  with Cons show ?case by (auto intro!: keeps.eff_bind)
qed auto

lemma moves_sendRequestVote:
  "moves b {(fst b + 1, noVote)} (Candidate_sendRequestVote E)"
  by (auto simp: moves_def Candidate_sendRequestVote_def incViewID_def ballot_def keeps_run [OF send_votes_ballot, unfolded ballot_def])

definition denial_set :: "RaftRPCResponse \<Rightarrow> 64 word \<times> string \<Rightarrow> (64 word \<times> string) set" where
  "denial_set rsp b = (if RetCode rsp = ErrorInvalidViewID then {(ViewID (rsp_Raft rsp), noVote)} else {b})"

lemma moves_candidate_response:
  "moves b (denial_set rsp b) (Candidate_response v rsp)"
proof -
  have "moves b (denial_set rsp b) (Candidate_processRequestVoteResponse v rsp)"
  proof (cases "RetCode rsp = ErrorInvalidViewID")
    case True
    then show ?thesis
      by (simp add: Candidate_processRequestVoteResponse_def)
         (rule moves_bind2, simp add: moves_def ballot_updateView denial_set_def, auto intro!: keeps.eff_bind)
  next
    case False
    then have "state_io_rel (keeps ballot) (Candidate_processRequestVoteResponse v rsp)"
      unfolding Candidate_processRequestVoteResponse_def by (auto intro!: keeps.eff_bind)
    then show ?thesis
      by (rule moves_keeps) (simp add: denial_set_def False)
  qed
  then show ?thesis
    unfolding Candidate_response_def by (rule moves_bind2) (auto intro!: keeps.eff_bind)
qed

lemma pings_ballot [intro!]: "state_io_rel (keeps ballot) (for_each Peer_SendPing ps)"
  by (rule keeps.eff_for_each) (auto simp: Peer_SendPing_def)

lemma heartbeats_ballot [intro!]: "state_io_rel (keeps ballot) (for_each Peer_sendHeartbeat ps)"
  by (rule keeps.eff_for_each) (auto simp: Peer_sendHeartbeat_def intro!: keeps.eff_bind)

lemma sendHeartbeat_ballot [intro!]: "state_io_rel (keeps ballot) (Leader_sendHeartbeat E v)"
  unfolding Leader_sendHeartbeat_def by (auto intro!: keeps.eff_bind keeps.eff_modify simp: ballot_def)

lemma leader_response_ballot: "state_io_rel (keeps ballot) (Leader_processHeartbeatResponse E v rsp)"
  unfolding Leader_processHeartbeatResponse_def Let_def
  by (auto intro!: keeps.eff_bind keeps.eff_modify simp: ballot_def)

lemma less_acks_ballot [intro!]: "state_io_rel (keeps ballot) (Leader_less_acks E v)"
  unfolding Leader_less_acks_def Let_def by (auto intro!: keeps.eff_bind)

lemma moves_brainsplit: "moves b {b, (fst b + 2, noVote)} (Leader_brainsplit_view v)"
  by (auto simp: moves_def Leader_brainsplit_view_def case_prod_beta ballot_def)


lemma moves_tick: "moves b {b, (fst b + 2, noVote)} (Leader_heartbeatTick E v)"
proof -
  have ro: "state_io_rel (keeps ballot) (modify (\<lambda>r. r\<lparr>L_isReadOnly := c\<rparr>))" for c
    by (auto intro!: keeps.eff_modify)
  have semi: "moves b {b, (fst b + 2, noVote)} (Leader_tick_semisync E v)" for v
    unfolding Leader_tick_semisync_def
    by (intro moves_get moves_if moves_keeps [OF less_acks_ballot] moves_bind2 [OF moves_brainsplit]) auto
  have running: "moves b {b, (fst b + 2, noVote)} (Leader_tick_mgr_running E v)" for v
    unfolding Leader_tick_mgr_running_def Let_def
    by (intro moves_get moves_if moves_bind1 moves_bind2 [OF moves_brainsplit])
       (auto intro!: keeps.eff_bind ro moves_keeps)
  have mgr: "moves b {b, (fst b + 2, noVote)} (Leader_tick_mgr E v)" for v
    unfolding Leader_tick_mgr_def split_def
    by (intro moves_get moves_if moves_bind1 [OF keeps.eff_if [OF less_acks_ballot keeps.eff_ret]]
        moves_bind2 [OF running] moves_ret) auto
  show ?thesis
    unfolding Leader_heartbeatTick_def split_def
    by (intro moves_bind1 [OF keeps.eff_gets] moves_bind2 [OF moves_if [OF semi mgr]]) auto
qed

lemma election_ballot [intro!]: "state_io_rel (keeps ballot) (Follower_electionTimeout E)"
  unfolding Follower_electionTimeout_def Follower_upgradeToCandidate_def replicationPromotable_def
  by (auto intro!: keeps.eff_bind)

lemma brainsplit_ballot [intro!]:
  "state_io_rel (keeps ballot) (Follower_brainSplitTick cnt)"
  "state_io_rel (keeps ballot) (Follower_pingResponse cnt rsp)"
  "state_io_rel (keeps ballot) Follower_startCheckBrainSplit"
  unfolding Follower_brainSplitTick_def Follower_sendClusterPing_def Follower_pingResponse_def
    Follower_startCheckBrainSplit_def Let_def
  by (auto intro!: keeps.eff_bind keeps.eff_modify simp: ballot_def)

lemma inits_ballot [intro!]:
  "state_io_rel (keeps ballot) (Follower_stateInit E)" "state_io_rel (keeps ballot) Leader_stateInit"
  "state_io_rel (keeps ballot) (passive_stateInit E)"
  unfolding Follower_stateInit_def Follower_mgrJoined_def Leader_stateInit_def passive_stateInit_def
    Leader_prepareSettingsAsync_def Leader_prepareSettingsMGR_def
  by (auto intro!: keeps.eff_bind keeps.eff_modify)

subsection \<open>One step of a node\<close>

definition step_set :: "event \<Rightarrow> 64 word \<times> string \<Rightarrow> (64 word \<times> string) set" where
  "step_set ev b = {b, (fst b + 1, noVote), (fst b + 2, noVote)} \<union>
     (case ev of EvRequest msg req \<Rightarrow> hb_set req b \<union> vote_set req b
      | EvVoteResponse rsp \<Rightarrow> denial_set rsp b | _ \<Rightarrow> {})"

lemma step_keeps: "state_io_rel (keeps ballot) m \<Longrightarrow> moves b (step_set ev b) m"
  by (rule moves_keeps) (auto simp: step_set_def)

lemma step_request:
  assumes "unat (fst b) < 2 ^ 63" "unat (GetViewID req) < 2 ^ 63"
  shows "moves b (step_set (EvRequest msg req) b) (do { _ \<leftarrow> process_request E st msg req; ret l })"
  by (rule moves_bind2, rule moves_weaken [OF moves_request [OF assms]]) (auto simp: step_set_def)

lemma step_tick:
  "moves b (step_set ev b) (do { v' \<leftarrow> Leader_heartbeatTick E v; ret (InLeader v') })"
  by (rule moves_bind2, rule moves_weaken [OF moves_tick]) (auto simp: step_set_def)

lemma step_elect:
  "moves b (step_set ev b) (do { v' \<leftarrow> Candidate_electionTick E v; ret (InCandidate v') })"
  unfolding Candidate_electionTick_def
  by (rule moves_bind2, rule moves_bind2, rule moves_weaken [OF moves_sendRequestVote]) (auto simp: step_set_def)

lemma step_response:
  "moves b (step_set (EvVoteResponse rsp) b) (do { v' \<leftarrow> Candidate_response v rsp; ret (InCandidate v') })"
  by (rule moves_bind2, rule moves_weaken [OF moves_candidate_response]) (auto simp: step_set_def)

lemma step_keeps_rules:
  "moves b (step_set ev b) (ret l)"
  "moves b (step_set ev b) (do { Follower_electionTimeout E; ret l })"
  "moves b (step_set ev b) (do { c \<leftarrow> Follower_brainSplitTick cnt; ret (InFollower c) })"
  "moves b (step_set ev b) (do { c \<leftarrow> Follower_pingResponse cnt rsp; ret (InFollower c) })"
  "moves b (step_set ev b) (do { v' \<leftarrow> Candidate_checkVotesTick v; ret (InCandidate v') })"
  "moves b (step_set ev b) (do { v' \<leftarrow> Leader_processHeartbeatResponse E w rsp; ret (InLeader v') })"
  unfolding Candidate_checkVotesTick_def
  by (rule step_keeps, auto intro!: keeps.eff_bind leader_response_ballot)+

lemma moves_loop_event:
  assumes "unat (fst b) < 2 ^ 63" "\<And>msg req. ev = EvRequest msg req \<Longrightarrow> unat (GetViewID req) < 2 ^ 63"
  shows "moves b (step_set ev b) (loop_event E l ev)"
  using assms unfolding loop_event_def
  by (cases l; cases ev) (simp_all add: step_keeps_rules step_request step_tick step_elect step_response)

lemma head_when: "state_io_rel (keeps ballot) (whenM c (loop_head E l))"
  by (auto intro: head_ballot)

lemma moves_settle: "moves b {b, (fst b + 1, noVote)} (settle_raft E l)"
proof -
  have cand: "moves b {b, (fst b + 1, noVote)} (Candidate_enter E)"
    unfolding Candidate_enter_def
    by (rule moves_bind2, rule moves_weaken [OF moves_sendRequestVote]) auto
  have "moves b {b, (fst b + 1, noVote)} (loop_enter E st)" for st
    unfolding loop_enter_def Leader_enter_def Idle_stateInit_def Invalid_stateInit_def Learner_stateInit_def
    by (cases st) (auto intro!: moves_bind2 [OF cand] moves_keeps keeps.eff_bind)
  then show ?thesis
    unfolding settle_raft_def Raft_getState_def
    by (intro moves_bind1 [OF keeps.eff_gets] moves_bind1 [OF head_when] moves_if
        moves_bind1 [OF exits_ballot] moves_ret) simp_all
qed



subsection \<open>The votes a run grants\<close>

text \<open>The vote that an event makes the node grant: the view and the candidate.\<close>

definition voting_state :: "State \<Rightarrow> bool" where
  "voting_state st = (st = FOLLOWER \<or> st = CANDIDATE \<or> st = LEADER)"

definition granted :: "'w dbenv \<Rightarrow> event \<Rightarrow> 'w node \<Rightarrow> (64 word \<times> string) list" where
  "granted E ev n = (case ev of
       EvRequest MsgRaftRequestVote req \<Rightarrow>
         (if voting_state (loop_state (n_loop n)) \<and>
             RetCode (val_of (process_request E (loop_state (n_loop n)) MsgRaftRequestVote req) (n_raft n)) = OK
          then [(GetViewID req, GetFrom req)] else [])
     | _ \<Rightarrow> [])"

fun grants :: "'w dbenv \<Rightarrow> event list \<Rightarrow> 'w node \<Rightarrow> (64 word \<times> string) list" where
  "grants E [] n = []"
| "grants E (ev # evs) n = granted E ev n @ grants E evs (node_step E ev n)"

text \<open>Events with ids up to \<open>V\<close> from named senders, whose denials are not stale.\<close>

definition event_ok :: "nat \<Rightarrow> 'w node \<Rightarrow> event \<Rightarrow> bool" where
  "event_ok V n ev = (case ev of
       EvRequest msg req \<Rightarrow> unat (GetViewID req) \<le> V \<and> GetFrom req \<noteq> noVote
     | EvVoteResponse rsp \<Rightarrow> RetCode rsp = ErrorInvalidViewID \<longrightarrow>
         unat (ViewID (rsp_Raft rsp)) \<le> V \<and> r_ViewID (n_raft n) \<le> ViewID (rsp_Raft rsp)
     | _ \<Rightarrow> True)"

fun run_ok :: "nat \<Rightarrow> 'w dbenv \<Rightarrow> event list \<Rightarrow> 'w node \<Rightarrow> bool" where
  "run_ok V E [] n = True"
| "run_ok V E (ev # evs) n = (event_ok V n ev \<and> run_ok V E evs (node_step E ev n))"

text \<open>A candidate has not voted.\<close>

definition candidate_unvoted :: "'w node \<Rightarrow> bool" where
  "candidate_unvoted n = (case n_loop n of InCandidate v \<Rightarrow> r_votedFor (n_raft n) = noVote | _ \<Rightarrow> True)"

text \<open>The ballot goes forward: a later view, or the same view with the vote kept or given.\<close>

definition forward :: "64 word \<times> string \<Rightarrow> 64 word \<times> string \<Rightarrow> bool" where
  "forward b c \<longleftrightarrow> fst b < fst c \<or> fst b = fst c \<and> (snd c = snd b \<or> snd b = noVote)"

lemma forward_refl [simp]: "forward b b"
  by (simp add: forward_def)

lemma forward_trans: "forward b c \<Longrightarrow> forward c d \<Longrightarrow> forward b d"
  by (auto simp: forward_def)

lemma word_plus_less: "unat (a :: 64 word) + unat k < 2 ^ 64 \<Longrightarrow> unat (a + k) = unat a + unat k"
  by (simp add: unat_word_ariths)

lemma view_plus:
  fixes v :: "64 word"
  assumes "unat v < 2 ^ 63"
  shows "v < v + 1" "v < v + 2" "unat (v + 1) = unat v + 1" "unat (v + 2) = unat v + 2"
  using word_plus_less [of v 1] word_plus_less [of v 2] assms by (simp_all add: word_less_nat_alt)

lemma step_set_forward:
  assumes "c \<in> step_set ev (ballot (n_raft n))" "event_ok V n ev" "unat (r_ViewID (n_raft n)) < 2 ^ 63"
    and "\<And>rsp. ev = EvVoteResponse rsp \<Longrightarrow> RetCode rsp = ErrorInvalidViewID \<Longrightarrow>
           c = (ViewID (rsp_Raft rsp), noVote) \<Longrightarrow> ViewID (rsp_Raft rsp) = r_ViewID (n_raft n) \<Longrightarrow>
           r_votedFor (n_raft n) = noVote"
  shows "forward (ballot (n_raft n)) c \<and> unat (fst c) \<le> max V (unat (r_ViewID (n_raft n)) + 2)"
  using assms view_plus [OF assms(3)]
  by (cases ev)
     (auto simp: step_set_def forward_def ballot_def event_ok_def hb_set_def vote_set_def denial_set_def
        split: if_splits)

lemma settle_forward:
  assumes "unat (r_ViewID r) < 2 ^ 63"
  shows "forward (ballot r) (ballot (exec_of (settle_raft E l) r)) \<and>
         unat (r_ViewID (exec_of (settle_raft E l) r)) \<le> unat (r_ViewID r) + 1"
  using moves_run [of r _ "settle_raft E l", OF moves_settle] view_plus [OF assms]
  by (auto simp: forward_def ballot_def)


lemma node_step_fields:
  "n_raft (node_step E ev n) =
     exec_of (settle_raft E (val_of (loop_event E (n_loop n) ev) (n_raft n)))
       (exec_of (outside_event E ev) (exec_of (loop_event E (n_loop n) ev) (n_raft n)))"
  "n_loop (node_step E ev n) =
     val_of (settle_raft E (val_of (loop_event E (n_loop n) ev) (n_raft n)))
       (exec_of (outside_event E ev) (exec_of (loop_event E (n_loop n) ev) (n_raft n)))"
  by (simp_all add: node_step_def Let_def case_prod_beta)

lemma outside_ballot_run: "ballot (exec_of (outside_event E ev) r) = ballot r"
  by (rule keeps_run) (rule outside_ballot)

text \<open>The ballot after the loop's part of a step.\<close>

lemma loop_event_set:
  assumes "unat (r_ViewID (n_raft n)) < 2 ^ 63" "event_ok V n ev" "V < 2 ^ 63"
  shows "ballot (exec_of (loop_event E (n_loop n) ev) (n_raft n)) \<in> step_set ev (ballot (n_raft n))"
proof (rule moves_run, rule moves_loop_event)
  show "unat (fst (ballot (n_raft n))) < 2 ^ 63" using assms(1) by (simp add: ballot_def)
  show "unat (GetViewID req) < 2 ^ 63" if "ev = EvRequest msg req" for msg req
    using assms(2,3) that by (simp add: event_ok_def)
qed

lemma denial_in_candidate:
  assumes "candidate_unvoted n" "ev = EvVoteResponse rsp" "RetCode rsp = ErrorInvalidViewID"
    and "ballot (exec_of (loop_event E (n_loop n) ev) (n_raft n)) = (ViewID (rsp_Raft rsp), noVote)"
    and "ViewID (rsp_Raft rsp) = r_ViewID (n_raft n)"
  shows "r_votedFor (n_raft n) = noVote"
  using assms by (cases "n_loop n") (auto simp: loop_event_def candidate_unvoted_def ballot_def)

lemma node_step_forward:
  assumes "unat (r_ViewID (n_raft n)) + 3 < 2 ^ 63" "event_ok V n ev" "V + 3 < 2 ^ 63" "candidate_unvoted n"
  shows "forward (ballot (exec_of (loop_event E (n_loop n) ev) (n_raft n))) (ballot (n_raft (node_step E ev n)))"
    and "forward (ballot (n_raft n)) (ballot (exec_of (loop_event E (n_loop n) ev) (n_raft n)))"
    and "unat (r_ViewID (n_raft (node_step E ev n))) \<le> max V (unat (r_ViewID (n_raft n))) + 3"
proof -
  let ?r1 = "exec_of (loop_event E (n_loop n) ev) (n_raft n)"
  let ?r2 = "exec_of (outside_event E ev) ?r1"
  have set: "ballot ?r1 \<in> step_set ev (ballot (n_raft n))"
    by (rule loop_event_set) (use assms in auto)
  have fwd: "forward (ballot (n_raft n)) (ballot ?r1)"
    and bound: "unat (fst (ballot ?r1)) \<le> max V (unat (r_ViewID (n_raft n)) + 2)"
    using step_set_forward [OF set assms(2)] assms(1) denial_in_candidate [OF assms(4), of ev _ E]
    by auto
  have b2: "ballot ?r2 = ballot ?r1" by (rule outside_ballot_run)
  have v2: "r_ViewID ?r2 = fst (ballot ?r1)" using b2 by (simp add: ballot_def)
  have "unat (r_ViewID ?r2) < 2 ^ 63" using bound assms(1,3) v2 by simp
  note settled = settle_forward [OF this, of E "val_of (loop_event E (n_loop n) ev) (n_raft n)"]
  show "forward (ballot ?r1) (ballot (n_raft (node_step E ev n)))"
    using settled by (simp add: node_step_fields b2)
  show "forward (ballot (n_raft n)) (ballot ?r1)" by (rule fwd)
  show "unat (r_ViewID (n_raft (node_step E ev n))) \<le> max V (unat (r_ViewID (n_raft n))) + 3"
    using settled bound v2 unfolding node_step_fields max_def by (auto split: if_splits)
qed

text \<open>A candidate that stays candidate stays without a vote.\<close>

lemma Candidate_vote_state:
  "RetCode (val_of (Candidate_vote req rsp) r) = OK \<Longrightarrow> r_state (exec_of (Candidate_vote req rsp) r) = FOLLOWER"
  by (simp add: Candidate_vote_def Candidate_degradeToFollower_def Raft_setState_def Raft_setLeader_def
      updateView_def whenM_def Let_def case_prod_beta split: if_splits) auto

lemma Candidate_request_state:
  assumes "RetCode (val_of (Candidate_processRequestVoteRequest E req) r) = OK"
  shows "r_state (exec_of (Candidate_processRequestVoteRequest E req) r) = FOLLOWER"
  using assms Candidate_vote_state
  by (auto simp: Candidate_processRequestVoteRequest_def Let_def case_prod_beta updateView_def whenM_def
      split: option.splits if_splits)

lemma candidate_request_unvoted:
  assumes "r_votedFor r = noVote" "r_state (exec_of (process_request E CANDIDATE msg req) r) = CANDIDATE"
  shows "r_votedFor (exec_of (process_request E CANDIDATE msg req) r) = noVote"
proof (cases msg)
  case MsgRaftPing
  have "ballot (exec_of (processPingRequest req) r) = ballot r"
    by (rule keeps_run [OF moves_passive_votes(4)])
  with assms(1) MsgRaftPing show ?thesis by (simp add: process_request_def ballot_def)
next
  case MsgRaftHeartbeat
  have "ballot (exec_of (Candidate_processHeartbeatRequest req) r) = ballot r"
    by (rule keeps_run [OF other_hb_ballot(1)])
  with assms(1) MsgRaftHeartbeat show ?thesis by (simp add: process_request_def ballot_def)
next
  case MsgRaftRequestVote
  let ?run = "run_state (Candidate_processRequestVoteRequest E req) r"
  from assms(2) MsgRaftRequestVote have "RetCode (fst ?run) \<noteq> OK"
    using Candidate_request_state [of E req r] by (auto simp: process_request_def)
  with Candidate_request_effect [of req r E] assms(1) MsgRaftRequestVote show ?thesis
    by (auto simp: vote_effect_def process_request_def ballot_def)
qed

lemma loop_event_candidate:
  assumes "val_of (loop_event E l ev) r = InCandidate v"
  obtains w where "l = InCandidate w"
  using assms by (cases l; cases ev) (auto simp: loop_event_def case_prod_beta)

lemma step_set_unvoted:
  "c \<in> step_set ev b \<Longrightarrow> (\<And>msg req. ev \<noteq> EvRequest msg req) \<Longrightarrow> snd b = noVote \<Longrightarrow> snd c = noVote"
  by (cases ev) (auto simp: step_set_def denial_set_def split: if_splits)

lemma enter_unvoted:
  assumes "val_of (loop_enter E st) r = InCandidate v"
  shows "r_votedFor (exec_of (loop_enter E st) r) = noVote"
proof -
  have "r_votedFor (exec_of (Candidate_enter E) r) = noVote"
    using moves_run [OF moves_sendRequestVote, of E r] by (simp add: Candidate_enter_def case_prod_beta ballot_def)
  with assms show ?thesis
    by (cases st) (auto simp: loop_enter_def case_prod_beta)
qed

lemma settle_candidate:
  assumes "val_of (settle_raft E l) r = InCandidate v" "r_votedFor (exec_of (settle_raft E l) r) \<noteq> noVote"
  shows "l = InCandidate v \<and> r_state r = CANDIDATE \<and> exec_of (settle_raft E l) r = r"
proof -
  let ?h = "exec_of (whenM (r_state r = loop_state l) (loop_head E l)) r"
  have fresh: "r_votedFor (exec_of (settle_raft E l) r) = noVote"
    if "\<not> (l = Stopped \<or> r_state ?h = loop_state l)"
  proof -
    have "run_state (settle_raft E l) r = run_state (loop_enter E (r_state (exec_of (loop_exit E l) ?h))) (exec_of (loop_exit E l) ?h)"
      using that by (simp add: settle_raft_def Raft_getState_def case_prod_beta)
    then show ?thesis
      using assms(1) enter_unvoted by metis
  qed
  then have stay: "l = Stopped \<or> r_state ?h = loop_state l"
    using assms(2) by blast
  then have "run_state (settle_raft E l) r = (l, ?h)"
    by (auto simp: settle_raft_def Raft_getState_def case_prod_beta)
  with assms(1) stay show ?thesis
    by (auto simp: loop_head_def whenM_def split: if_splits)
qed

lemma candidate_unvoted_step:
  assumes "candidate_unvoted n" "unat (r_ViewID (n_raft n)) < 2 ^ 63" "event_ok V n ev" "V < 2 ^ 63"
  shows "candidate_unvoted (node_step E ev n)"
proof (rule ccontr)
  assume "\<not> candidate_unvoted (node_step E ev n)"
  then obtain v where v: "n_loop (node_step E ev n) = InCandidate v" "r_votedFor (n_raft (node_step E ev n)) \<noteq> noVote"
    by (auto simp: candidate_unvoted_def split: loop.splits)
  let ?r1 = "exec_of (loop_event E (n_loop n) ev) (n_raft n)"
  let ?r2 = "exec_of (outside_event E ev) ?r1"
  have b2: "ballot ?r2 = ballot ?r1" by (rule outside_ballot_run)
  from settle_candidate [OF v [unfolded node_step_fields]]
  have l: "val_of (loop_event E (n_loop n) ev) (n_raft n) = InCandidate v" and st: "r_state ?r2 = CANDIDATE"
    and r: "n_raft (node_step E ev n) = ?r2"
    by (auto simp: node_step_fields)
  from l obtain w where w: "n_loop n = InCandidate w" by (rule loop_event_candidate)
  with assms(1) have old: "r_votedFor (n_raft n) = noVote" by (simp add: candidate_unvoted_def)
  have "r_votedFor ?r1 = noVote"
  proof (cases "\<exists>msg req. ev = EvRequest msg req")
    case True
    then obtain msg req where ev: "ev = EvRequest msg req" by blast
    then have "?r1 = exec_of (process_request E CANDIDATE msg req) (n_raft n)" "?r2 = ?r1"
      by (simp_all add: w loop_event_def outside_event_def case_prod_beta)
    with candidate_request_unvoted [OF old] st show ?thesis by auto
  next
    case False
    have "snd (ballot ?r1) = noVote"
      by (rule step_set_unvoted [OF loop_event_set [OF assms(2-4)]]) (use False old in \<open>auto simp: ballot_def\<close>)
    then show ?thesis by (simp add: ballot_def)
  qed
  with b2 v(2) r show False by (simp add: ballot_def)
qed

subsection \<open>Whole runs\<close>

lemma granted_request:
  "va \<in> set (granted E ev n) \<Longrightarrow> (\<exists>req. ev = EvRequest MsgRaftRequestVote req \<and> va = (GetViewID req, GetFrom req) \<and>
     voting_state (loop_state (n_loop n)) \<and>
     RetCode (val_of (process_request E (loop_state (n_loop n)) MsgRaftRequestVote req) (n_raft n)) = OK)"
proof (cases ev)
  case (EvRequest msg req)
  assume va: "va \<in> set (granted E ev n)"
  with EvRequest have msg: "msg = MsgRaftRequestVote"
    by (cases msg) (simp_all add: granted_def)
  show ?thesis
    using va unfolding granted_def EvRequest msg event.case Msg.case
    by (cases "voting_state (loop_state (n_loop n)) \<and>
      RetCode (val_of (process_request E (loop_state (n_loop n)) MsgRaftRequestVote req) (n_raft n)) = OK") auto
qed (simp_all add: granted_def)

lemma granted_effect:
  assumes "(v, a) \<in> set (granted E ev n)" "event_ok V n ev"
  shows "a \<noteq> noVote \<and> ballot (exec_of (loop_event E (n_loop n) ev) (n_raft n)) = (v, a) \<and>
         (r_ViewID (n_raft n) < v \<or> r_ViewID (n_raft n) = v \<and> r_votedFor (n_raft n) \<in> {noVote, a})"
proof -
  obtain req where ev: "ev = EvRequest MsgRaftRequestVote req" and va: "v = GetViewID req" "a = GetFrom req"
    and st: "voting_state (loop_state (n_loop n))"
    and ok: "RetCode (val_of (process_request E (loop_state (n_loop n)) MsgRaftRequestVote req) (n_raft n)) = OK"
    using granted_request [OF assms(1)] by blast
  have eff: "vote_effect req (n_raft n) (run_state (process_request E (loop_state (n_loop n)) MsgRaftRequestVote req) (n_raft n))"
    using st Follower_request_effect Candidate_request_effect Leader_request_effect
    by (cases "loop_state (n_loop n)") (simp_all add: voting_state_def process_request_def)
  have "exec_of (loop_event E (n_loop n) ev) (n_raft n) =
      exec_of (process_request E (loop_state (n_loop n)) MsgRaftRequestVote req) (n_raft n)"
    using st by (cases "n_loop n") (simp_all add: ev loop_event_def voting_state_def case_prod_beta)
  with eff ok assms(2) va show ?thesis
    by (simp add: vote_effect_def ev event_ok_def)
qed

text \<open>
  The bound on the length keeps the ids below $2^{63}$: a step raises the view to that of
  an event or by at most three.
\<close>

definition within :: "nat \<Rightarrow> event list \<Rightarrow> 'w node \<Rightarrow> bool" where
  "within V evs n \<longleftrightarrow> max V (unat (r_ViewID (n_raft n))) + 3 * (length evs + 1) < 2 ^ 63"

lemma within_step:
  assumes "within V (ev # evs) n" "event_ok V n ev" "candidate_unvoted n"
  shows "within V evs (node_step E ev n)"
proof -
  have "unat (r_ViewID (n_raft (node_step E ev n))) \<le> max V (unat (r_ViewID (n_raft n))) + 3"
    by (rule node_step_forward(3) [OF _ assms(2) _ assms(3)]) (use assms(1) in \<open>auto simp: within_def\<close>)
  with assms(1) show ?thesis by (simp add: within_def)
qed

lemma step_ok:
  assumes "within V (ev # evs) n" "event_ok V n ev" "candidate_unvoted n"
  shows "candidate_unvoted (node_step E ev n)"
    and "forward (ballot (exec_of (loop_event E (n_loop n) ev) (n_raft n))) (ballot (n_raft (node_step E ev n)))"
    and "forward (ballot (n_raft n)) (ballot (n_raft (node_step E ev n)))"
proof -
  have b: "unat (r_ViewID (n_raft n)) + 3 < 2 ^ 63" "V + 3 < 2 ^ 63"
    using assms(1) by (auto simp: within_def)
  show "candidate_unvoted (node_step E ev n)"
    by (rule candidate_unvoted_step [OF assms(3) _ assms(2)]) (use b in auto)
  show "forward (ballot (exec_of (loop_event E (n_loop n) ev) (n_raft n))) (ballot (n_raft (node_step E ev n)))"
    by (rule node_step_forward(1) [OF b(1) assms(2) b(2) assms(3)])
  then show "forward (ballot (n_raft n)) (ballot (n_raft (node_step E ev n)))"
    by (rule forward_trans [OF node_step_forward(2) [OF b(1) assms(2) b(2) assms(3)]])
qed

lemma run_forward:
  assumes "within V evs n" "run_ok V E evs n" "candidate_unvoted n"
  shows "forward (ballot (n_raft n)) (ballot (n_raft (node_run E evs n)))"
  using assms
proof (induction evs arbitrary: n)
  case (Cons ev evs)
  then have ok: "event_ok V n ev" by simp
  note st = step_ok [OF Cons.prems(1) ok Cons.prems(3), of E]
  have "forward (ballot (n_raft (node_step E ev n))) (ballot (n_raft (node_run E evs (node_step E ev n))))"
    by (rule Cons.IH) (use Cons.prems ok st within_step in auto)
  with st(3) show ?case by (auto simp: node_run_def intro: forward_trans)
qed (simp add: node_run_def)

lemma grants_after:
  assumes "within V evs n" "run_ok V E evs n" "candidate_unvoted n" "(v, a) \<in> set (grants E evs n)"
  shows "r_ViewID (n_raft n) \<le> v \<and> (v = r_ViewID (n_raft n) \<longrightarrow> r_votedFor (n_raft n) \<in> {noVote, a})"
  using assms
proof (induction evs arbitrary: n)
  case (Cons ev evs)
  then have ok: "event_ok V n ev" by simp
  note st = step_ok [OF Cons.prems(1) ok Cons.prems(3), of E]
  show ?case
  proof (cases "(v, a) \<in> set (granted E ev n)")
    case True
    from granted_effect [OF this ok] show ?thesis by auto
  next
    case False
    with Cons.prems(4) have "(v, a) \<in> set (grants E evs (node_step E ev n))" by simp
    then have "r_ViewID (n_raft (node_step E ev n)) \<le> v \<and> (v = r_ViewID (n_raft (node_step E ev n)) \<longrightarrow>
        r_votedFor (n_raft (node_step E ev n)) \<in> {noVote, a})"
      by (intro Cons.IH) (use Cons.prems ok st within_step in auto)
    with st(3) show ?thesis by (auto simp: forward_def ballot_def)
  qed
qed simp

lemma grants_unique:
  assumes "within V evs n" "run_ok V E evs n" "candidate_unvoted n"
    "(v, a) \<in> set (grants E evs n)" "(v, b) \<in> set (grants E evs n)"
  shows "a = b"
  using assms
proof (induction evs arbitrary: n)
  case (Cons ev evs)
  then have ok: "event_ok V n ev" by simp
  let ?n = "node_step E ev n"
  note st = step_ok [OF Cons.prems(1) ok Cons.prems(3), of E]
  have prems: "within V evs ?n" "run_ok V E evs ?n" "candidate_unvoted ?n"
    using Cons.prems ok st within_step by auto
  have later: "c = d" if "(v, c) \<in> set (granted E ev n)" "(v, d) \<in> set (grants E evs ?n)" for c d
    using granted_effect [OF that(1) ok] grants_after [OF prems that(2)] st(2)
    by (auto simp: forward_def ballot_def)
  have now: "c = d" if "(v, c) \<in> set (granted E ev n)" "(v, d) \<in> set (granted E ev n)" for c d
    using granted_effect [OF that(1) ok] granted_effect [OF that(2) ok] by auto
  show ?case
    using Cons.prems(4,5) later [of a b] later [of b a] now [of a b] Cons.IH [OF prems] by auto
qed simp

text \<open>
  The node of the examples: a candidate in view 4 whose MySQL has read its source up to
  position 194, and requests for its vote in view 5 from two peers that have read more.
\<close>

definition voter :: "tape node" where
  "voter = \<lparr>n_raft = (raft_on slave_tape ([''a:1'', ''b:1'', ''c:1''], []))\<lparr>r_state := CANDIDATE, r_ViewID := 4\<rparr>,
     n_loop = InCandidate \<lparr>voteGranted = 1, switchMaster = False\<rparr>\<rparr>"

definition ask :: "string \<Rightarrow> 64 word \<Rightarrow> event" where
  "ask c v = EvRequest MsgRaftRequestVote (NewRaftRPCRequest\<lparr>
     req_Raft := zero_header\<lparr>ViewID := v, From := c\<rparr>, req_GTID := gtid_at ''mysql-bin.000007'' 500 ''0''\<rparr>)"

lemma voter_facts:
  "candidate_unvoted voter" "r_ViewID (n_raft voter) = 4" "event_ok V n (ask c v) \<longleftrightarrow> unat v \<le> V \<and> c \<noteq> []"
  by (simp_all add: candidate_unvoted_def voter_def raft_on_def demo_conf_def run_NewRaft raft0_def event_ok_def ask_def noVote_def)

lemma slave_tape_behind:
  "val_of (Mysql_GTIDGreaterThan tape_env (gtid_at ''mysql-bin.000007'' 500 ''0''))
     (NewMysql conf0 1000 slave_tape) = (False, gtid_at ''mysql-bin.000007'' 194 ''0'', None)"
  using slave_tape_GTID binlog_same_file [of "gtid_at ''mysql-bin.000007'' 194 ''0''" "gtid_at ''mysql-bin.000007'' 500 ''0''"]
  by (simp add: Mysql_GTIDGreaterThan_def SemiSyncGTIDGreaterThan_def Mysql_GetReplMode_def binlog_greater_def
      NewMysql_def conf0_def SetReplMode_def SetQueryTimeout_def gtid_at_def case_prod_beta)

lemma voter_votes: "granted tape_env (ask ''b:1'' 5) voter = [(5, ''b:1'')]"
proof -
  have peers: "r_peers (n_raft voter) = [''b:1'', ''c:1'']" "r_mysql (n_raft voter) = NewMysql conf0 1000 slave_tape"
    "r_votedFor (n_raft voter) = noVote" "n_loop voter = InCandidate \<lparr>voteGranted = 1, switchMaster = False\<rparr>"
    by (simp_all add: voter_def raft_on_def demo_conf_def run_NewRaft raft0_def sanitizePeerList_def)
  show ?thesis
    using slave_tape_behind
    by (simp add: granted_def ask_def peers voting_state_def process_request_def checkRequest_def
        Candidate_processRequestVoteRequest_def Candidate_vote_def voter_facts NewRaftRPCRequest_def
        on_mysql_def zoom_def case_prod_beta updateView_def Let_def whenM_def noVote_def)
qed

text \<open>
  C6. A node votes for at most one candidate in a view: whatever events it
  processes, in any order and in whatever states it passes through (as follower, candidate or
  leader), two votes that it granted in the same view were granted to the same candidate.
\<close>

theorem one_vote_per_view:
  assumes "candidate_unvoted n" "run_ok V E evs n"
    and "max V (unat (r_ViewID (n_raft n))) + 3 * (length evs + 1) < 2 ^ 63"
    and "(v, a) \<in> set (grants E evs n)" "(v, b) \<in> set (grants E evs n)"
  shows "a = b"
  using grants_unique [OF _ assms(2,1,4,5)] assms(3) by (simp add: within_def)

theorem one_vote_per_view_witness:
  "(5, ''b:1'') \<in> set (grants tape_env [ask ''b:1'' 5, ask ''c:1'' 5] voter) \<and>
   (5, ''c:1'') \<notin> set (grants tape_env [ask ''b:1'' 5, ask ''c:1'' 5] voter)"
  using one_vote_per_view [of voter 5 tape_env "[ask ''b:1'' 5, ask ''c:1'' 5]" 5 "''b:1''" "''c:1''"]
  by (auto simp: voter_votes) (auto simp: voter_facts)

text \<open>
  C14. Over any run the view of a node never goes back, and within a view its
  vote is not taken back: it is what it was, or it was still free.
\<close>

theorem views_monotone:
  assumes "candidate_unvoted n" "run_ok V E evs n"
    and "max V (unat (r_ViewID (n_raft n))) + 3 * (length evs + 1) < 2 ^ 63"
  shows "r_ViewID (n_raft n) \<le> r_ViewID (n_raft (node_run E evs n)) \<and>
         (r_ViewID (n_raft (node_run E evs n)) = r_ViewID (n_raft n) \<longrightarrow>
            r_votedFor (n_raft n) = noVote \<or>
            r_votedFor (n_raft (node_run E evs n)) = r_votedFor (n_raft n))"
  using run_forward [OF _ assms(2,1)] assms(3) by (auto simp: within_def forward_def ballot_def)

theorem views_monotone_witness:
  "4 \<le> r_ViewID (n_raft (node_run tape_env [ask ''b:1'' 5, ask ''c:1'' 5] voter))"
  using views_monotone [of voter 5 tape_env "[ask ''b:1'' 5, ask ''c:1'' 5]"]
  by (simp add: voter_facts)

text \<open>
  The assumption on stale denials is needed: a candidate adopts the view of whatever
  \<open>ErrorInvalidViewID\<close> answer arrives, also an older one, and forgets its vote.
\<close>

lemma stale_denial_lowers_view:
  "ballot (exec_of (Candidate_response v ((NewRaftRPCResponse ErrorInvalidViewID)
      \<lparr>rsp_Raft := zero_header\<lparr>ViewID := 2\<rparr>\<rparr>)) (n_raft voter)) = (2, noVote)"
proof -
  have "ErrorInvalidViewID \<noteq> OK" by (simp add: ErrorInvalidViewID_def OK_def)
  then show ?thesis
    by (simp add: Candidate_response_def Candidate_processRequestVoteResponse_def NewRaftRPCResponse_def
        Candidate_degradeToFollower_def Raft_setState_def Candidate_upgradeToLeader_def Raft_setLeader_def
        IncLeaderPromotes_def upd_stats_def whenM_def updateView_def ballot_def case_prod_beta Let_def
        zero_header_def)
qed

end
