(* ===== verification/RaftElection.thy ===== *)
theory RaftElection
  imports RaftVotes
begin

section \<open>Elections: who becomes leader, and who stops being one\<close>

text \<open>
  What the steps of a node do to its state: the states a program can move to are collected by
  the effect relation \<open>moves_to\<close>, and only the two places where a candidate counts its votes
  move to LEADER. From this the theorems of the election follow: a node becomes leader only
  from CANDIDATE with at least a quorum of votes received since its last broadcast, and an
  isolated leader steps down after \<open>admit-defeat-hearbeat-count\<close> heartbeat rounds.
\<close>

subsection \<open>The states a program can move to\<close>

definition moves_to :: "State set \<Rightarrow> 'w raft \<Rightarrow> 'w raft \<Rightarrow> bool" where
  "moves_to S r s \<longleftrightarrow> r_state s = r_state r \<or> r_state s \<in> S"

interpretation moves_to: effect_rel "moves_to S" for S
  by unfold_locales (auto simp: moves_to_def)

lemma on_mysql_moves [intro!]: "state_io_rel (moves_to S) (on_mysql k)"
  by (simp add: state_io_rel_def moves_to_def on_mysql_def zoom_def case_prod_beta)

lemma setState_moves [intro!]: "st \<in> S \<Longrightarrow> state_io_rel (moves_to S) (Raft_setState st)"
  by (simp add: state_io_rel_def moves_to_def Raft_setState_def Raft_setLeader_def case_prod_beta)

lemma setLeader_moves [intro!]: "state_io_rel (moves_to S) (Raft_setLeader l)"
  unfolding Raft_setLeader_def by (auto intro!: moves_to.eff_modify simp: moves_to_def)

lemma upd_stats_moves [intro!]: "state_io_rel (moves_to S) (upd_stats f)"
  unfolding upd_stats_def by (auto intro!: moves_to.eff_modify simp: moves_to_def)

lemma small_moves [intro!]:
  "state_io_rel (moves_to S) (set_cmt c)" "state_io_rel (moves_to S) set_everOK"
  "state_io_rel (moves_to S) (add_job j)" "state_io_rel (moves_to S) (send_out m)"
  "state_io_rel (moves_to S) (updateView v l)" "state_io_rel (moves_to S) incViewID"
  "state_io_rel (moves_to S) (RecordLeaderDatabase repl)"
  "state_io_rel (moves_to S) (modify (\<lambda>r. r\<lparr>r_votedFor := c0\<rparr>))"
  "state_io_rel (moves_to S) (modify (\<lambda>r. r\<lparr>F_ChangeToMasterError := b\<rparr>))"
  "state_io_rel (moves_to S) (modify (\<lambda>r. r\<lparr>L_isDegradeToFollower := b\<rparr>))"
  "state_io_rel (moves_to S) (modify (\<lambda>r. r\<lparr>L_isReadOnly := b\<rparr>))"
  "state_io_rel (moves_to S) (modify (\<lambda>r. r\<lparr>r_mgrClusterEverOK := b\<rparr>))"
  "state_io_rel (moves_to S) (modify (\<lambda>r. r\<lparr>r_isBrainSplit := b\<rparr>))"
  unfolding set_cmt_def set_everOK_def add_job_def send_out_def updateView_def incViewID_def
    RecordLeaderDatabase_def
  by (auto intro!: moves_to.eff_modify simp: moves_to_def)

lemma updateEpoch_moves [intro!]: "state_io_rel (moves_to S) (updateEpoch ep ps ips)"
  by (simp add: state_io_rel_def moves_to_def run_updateEpoch)

lemma dbops_moves [intro!]:
  "state_io_rel (moves_to S) (demoteReadOnly E)" "state_io_rel (moves_to S) (changeToMaster E)"
  "state_io_rel (moves_to S) (enableReadWrite E)" "state_io_rel (moves_to S) (driverPromotable E)"
  "state_io_rel (moves_to S) isDelegatedPrimaryReady"
  "state_io_rel (moves_to S) (isDelegatedMGRPhase1Ready E)"
  unfolding demoteReadOnly_def changeToMaster_def enableReadWrite_def driverPromotable_def
    isDelegatedPrimaryReady_def isDelegatedMGRPhase1Ready_def
  by (auto intro!: moves_to.eff_bind)

lemma clusterOK_moves [intro!]: "state_io_rel (moves_to S) (isMGRClusterStatusOK E)"
  unfolding isMGRClusterStatusOK_def Let_def by (auto intro!: moves_to.eff_bind)

lemma Promotable_moves [intro!]: "state_io_rel (moves_to S) (Raft_Promotable E)"
  unfolding Raft_Promotable_def mgrPrimaryPromotable_def replicationPromotable_def Raft_getUUID_def
  by (auto intro!: moves_to.eff_bind)

lemma workers_moves [intro!]:
  "state_io_rel (moves_to S) purgeBinlogStop" "state_io_rel (moves_to S) checkSemiSyncStop"
  "state_io_rel (moves_to S) checkGTIDStop" "state_io_rel (moves_to S) purgeBinlogStart"
  "state_io_rel (moves_to S) checkSemiSyncStart" "state_io_rel (moves_to S) checkGTIDStart"
  "state_io_rel (moves_to S) (purgeBinlog E)" "state_io_rel (moves_to S) (checkSemiSync E)"
  "state_io_rel (moves_to S) (checkGTID E)"
  unfolding purgeBinlogStop_def checkSemiSyncStop_def checkGTIDStop_def purgeBinlogStart_def
    checkSemiSyncStart_def checkGTIDStart_def purgeBinlog_def checkSemiSync_def checkGTID_def stats_defs
  by (auto intro!: moves_to.eff_bind moves_to.eff_modify simp: moves_to_def)

lemma degrade_moves [intro!]:
  "FOLLOWER \<in> S \<Longrightarrow> state_io_rel (moves_to S) (Leader_degradeToFollower E)"
  "FOLLOWER \<in> S \<Longrightarrow> state_io_rel (moves_to S) Leader_fail_settings"
  "FOLLOWER \<in> S \<Longrightarrow> state_io_rel (moves_to S) Candidate_degradeToFollower"
  "INVALID \<in> S \<Longrightarrow> state_io_rel (moves_to S) (Follower_degradeToInvalid E g h)"
  "CANDIDATE \<in> S \<Longrightarrow> state_io_rel (moves_to S) (Follower_upgradeToCandidate E)"
  unfolding Leader_degradeToFollower_def Leader_fail_settings_def Candidate_degradeToFollower_def
    Follower_degradeToInvalid_def Follower_upgradeToCandidate_def stats_defs
  by (auto intro!: moves_to.eff_bind)

lemma leader_jobs_moves [intro!]:
  assumes "FOLLOWER \<in> S"
  shows "state_io_rel (moves_to S) (run_leader_job E j)"
proof -
  have poll: "state_io_rel (moves_to S) (mgr_phase1_poll E n)" for n
    using assms by (induction n) (auto intro!: moves_to.eff_bind)
  show ?thesis
    using assms poll
    unfolding run_leader_job_def run_JobPrepareMGR_def run_JobPrepareMGRDelegated_def
      run_JobPrepareSemiSync_def stats_defs Leader_mgr_finish_def Leader_checkChangeToMaster_def
    by (cases j) (auto intro!: moves_to.eff_bind)
qed

lemma follower_jobs_moves [intro!]:
  "state_io_rel (moves_to S) (run_JobSetMySQL E)" "state_io_rel (moves_to S) (run_JobMGRJoin E req)"
  unfolding run_JobSetMySQL_def run_JobMGRJoin_def by (auto intro!: moves_to.eff_bind)

lemma start_job_moves [intro!]:
  assumes "FOLLOWER \<in> S"
  shows "state_io_rel (moves_to S) (start_job E i)"
proof -
  have "state_io_rel (moves_to S) (run_job E j)" for j
    unfolding run_job_def using assms by (cases j) auto
  then show ?thesis
    unfolding start_job_def by (auto intro!: moves_to.eff_bind moves_to.eff_modify simp: moves_to_def)
qed

lemma member_moves [intro!]: "state_io_rel (moves_to S) (member_step p)"
  by (cases p)
     (auto simp: state_io_rel_def moves_to_def run_AddPeer run_AddIdlePeer run_RemovePeer
        run_RemoveIdlePeer)

lemma exit_moves: "FOLLOWER \<in> S \<Longrightarrow> state_io_rel (moves_to S) (loop_exit E l)"
  unfolding loop_exit_def Follower_stateExit_def Leader_stateExit_def
  by (auto intro!: moves_to.eff_bind moves_to.eff_modify moves_to.eff_for_each simp: moves_to_def
      split: loop.split)

lemma outside_moves: "- {LEADER} \<subseteq> S \<Longrightarrow> state_io_rel (moves_to S) (outside_event E ev)"
  unfolding outside_event_def HADisable_def HAEnable_def HASetLearner_def HATryToLeader_def Raft_Stop_def
    Raft_getState_def stats_defs
  by (cases ev) (auto intro!: moves_to.eff_bind split: State.split)

lemma hb_moves [intro!]:
  "state_io_rel (moves_to S) (applyEpochView req d e)"
  "state_io_rel (moves_to S) (Follower_heartbeat_mgr E req d e rsp)"
  "INVALID \<in> S \<Longrightarrow> state_io_rel (moves_to S) (Follower_heartbeat_semisync E req d e rsp)"
  "state_io_rel (moves_to S) (passive_change_master E req)"
  unfolding applyEpochView_def Follower_heartbeat_mgr_def Follower_heartbeat_semisync_def
    Follower_heartbeat_mgr_running_def Follower_heartbeat_join_def passive_change_master_def Let_def
  by (auto intro!: moves_to.eff_bind)

lemma heartbeat_moves [intro!]:
  assumes "FOLLOWER \<in> S" "INVALID \<in> S"
  shows "state_io_rel (moves_to S) (Follower_processHeartbeatRequest E req)"
    and "state_io_rel (moves_to S) (Candidate_processHeartbeatRequest req)"
    and "state_io_rel (moves_to S) (Leader_processHeartbeatRequest E req)"
    and "state_io_rel (moves_to S) (Idle_processHeartbeatRequest E req)"
    and "state_io_rel (moves_to S) (Invalid_processHeartbeatRequest E req)"
    and "state_io_rel (moves_to S) (Learner_processHeartbeatRequest E req)"
  using assms
  unfolding Follower_processHeartbeatRequest_def Candidate_processHeartbeatRequest_def
    Leader_processHeartbeatRequest_def Idle_processHeartbeatRequest_def Invalid_processHeartbeatRequest_def
    Learner_processHeartbeatRequest_def Let_def stats_defs
  by (auto intro!: moves_to.eff_bind)

lemma vote_moves [intro!]:
  assumes "FOLLOWER \<in> S"
  shows "state_io_rel (moves_to S) (Follower_processRequestVoteRequest E req)"
    and "state_io_rel (moves_to S) (Candidate_processRequestVoteRequest E req)"
    and "state_io_rel (moves_to S) (Leader_processRequestVoteRequest E req)"
    and "state_io_rel (moves_to S) (Idle_processRequestVoteRequest req)"
    and "state_io_rel (moves_to S) (Invalid_processRequestVoteRequest req)"
    and "state_io_rel (moves_to S) (Learner_processRequestVoteRequest req)"
    and "state_io_rel (moves_to S) (processPingRequest req)"
  using assms
  unfolding Follower_processRequestVoteRequest_def Candidate_processRequestVoteRequest_def
    Leader_processRequestVoteRequest_def Idle_processRequestVoteRequest_def
    Invalid_processRequestVoteRequest_def Learner_processRequestVoteRequest_def processPingRequest_def
    Follower_vote_def Candidate_vote_def Leader_vote_def Let_def stats_defs
  by (auto intro!: moves_to.eff_bind)

lemma request_moves [intro!]:
  assumes "FOLLOWER \<in> S" "INVALID \<in> S"
  shows "state_io_rel (moves_to S) (process_request E st msg req)"
  using assms unfolding process_request_def by (cases msg; cases st) auto

lemma send_moves [intro!]: "state_io_rel (moves_to S) (Candidate_sendRequestVote E)"
proof -
  have "state_io_rel (moves_to S) (send_votes E ps)" for ps
    by (induction ps) (auto intro!: moves_to.eff_bind simp: Peer_sendRequestVote_def Let_def Raft_getUUID_def)
  then show ?thesis
    unfolding Candidate_sendRequestVote_def by (auto intro!: moves_to.eff_bind)
qed

lemma heartbeat_out_moves [intro!]: "state_io_rel (moves_to S) (Leader_sendHeartbeat E v)"
proof -
  have "state_io_rel (moves_to S) (modify (\<lambda>r. r\<lparr>r_peers := f r\<rparr>))" for f :: "'a raft \<Rightarrow> string list"
    by (auto intro!: moves_to.eff_modify simp: moves_to_def)
  then show ?thesis
    unfolding Leader_sendHeartbeat_def Peer_sendHeartbeat_def
    by (auto intro!: moves_to.eff_bind moves_to.eff_for_each)
qed

lemma leader_answer_moves [intro!]:
  "FOLLOWER \<in> S \<Longrightarrow> state_io_rel (moves_to S) (Leader_processHeartbeatResponse E v rsp)"
  unfolding Leader_processHeartbeatResponse_def Let_def
  by (auto intro!: moves_to.eff_bind moves_to.eff_modify simp: moves_to_def)

lemma tick_moves [intro!]:
  assumes "FOLLOWER \<in> S"
  shows "state_io_rel (moves_to S) (Leader_heartbeatTick E v)"
  using assms
  unfolding Leader_heartbeatTick_def Leader_tick_semisync_def Leader_tick_mgr_def Leader_less_acks_def
    Leader_tick_mgr_running_def Leader_brainsplit_view_def Let_def stats_defs
  by (auto intro!: moves_to.eff_bind)

lemma follower_events_moves [intro!]:
  "CANDIDATE \<in> S \<Longrightarrow> state_io_rel (moves_to S) (Follower_electionTimeout E)"
  "state_io_rel (moves_to S) (Follower_brainSplitTick cnt)"
  "state_io_rel (moves_to S) (Follower_pingResponse cnt rsp)"
  unfolding Follower_electionTimeout_def replicationPromotable_def Follower_brainSplitTick_def
    Follower_sendClusterPing_def Peer_SendPing_def Follower_pingResponse_def Let_def
  by (auto intro!: moves_to.eff_bind moves_to.eff_for_each)

lemma enter_moves: "state_io_rel (moves_to S) (loop_enter E st)"
  unfolding loop_enter_def Leader_enter_def Idle_stateInit_def Invalid_stateInit_def Learner_stateInit_def
    passive_stateInit_def Candidate_enter_def Follower_startCheckBrainSplit_def Follower_stateInit_def
    Follower_mgrJoined_def Leader_stateInit_def Leader_prepareSettingsAsync_def Leader_prepareSettingsMGR_def
  by (cases st) (auto intro!: moves_to.eff_bind)

lemma head_moves: "FOLLOWER \<in> S \<Longrightarrow> state_io_rel (moves_to S) (loop_head E l)"
  unfolding loop_head_def Leader_head_def by (cases l) auto

subsection \<open>The state and the loop agree\<close>

definition settled :: "'w node \<Rightarrow> bool" where
  "settled n \<longleftrightarrow> n_loop n = Stopped \<or> r_state (n_raft n) = loop_state (n_loop n)"

lemma enter_state: "r_state (exec_of (loop_enter E st) r) = r_state r"
  using enter_moves [of "{}" E st] by (auto simp: state_io_rel_def moves_to_def)

lemma enter_loop: "val_of (loop_enter E st) r = Stopped \<or> loop_state (val_of (loop_enter E st) r) = st"
  by (cases st) (simp_all add: loop_enter_def case_prod_beta)

lemma settle_cases:
  obtains (stay) h where "h = exec_of (whenM (r_state r = loop_state l) (loop_head E l)) r"
      "l = Stopped \<or> r_state h = loop_state l" "run_state (settle_raft E l) r = (l, h)"
  | (move) h x where "h = exec_of (whenM (r_state r = loop_state l) (loop_head E l)) r"
      "x = exec_of (loop_exit E l) h" "l \<noteq> Stopped" "r_state h \<noteq> loop_state l"
      "run_state (settle_raft E l) r = run_state (loop_enter E (r_state x)) x"
proof -
  let ?h = "exec_of (whenM (r_state r = loop_state l) (loop_head E l)) r"
  show ?thesis
  proof (cases "l = Stopped \<or> r_state ?h = loop_state l")
    case True
    then have "run_state (settle_raft E l) r = (l, ?h)"
      by (auto simp: settle_raft_def Raft_getState_def case_prod_beta)
    with True stay show ?thesis by blast
  next
    case False
    then have "run_state (settle_raft E l) r =
        run_state (loop_enter E (r_state (exec_of (loop_exit E l) ?h))) (exec_of (loop_exit E l) ?h)"
      by (simp add: settle_raft_def Raft_getState_def case_prod_beta)
    with False move show ?thesis by blast
  qed
qed

lemma settled_step: "settled (node_step E ev n)"
proof -
  have "l' = Stopped \<or> r_state s = loop_state l'" if "run_state (settle_raft E l) r = (l', s)" for l r l' s
  proof (cases rule: settle_cases [of r l E])
    case (stay h)
    from stay(3) that have "l' = l" "s = h" by simp_all
    with stay(2) show ?thesis by simp
  next
    case (move h x)
    from move(5) that have "run_state (loop_enter E (r_state x)) x = (l', s)" by simp
    from this enter_loop [of E "r_state x" x] enter_state [of E "r_state x" x] show ?thesis by auto
  qed
  from this [OF prod.collapse [symmetric]] show ?thesis
    unfolding settled_def node_step_fields by blast
qed

lemma settle_leader:
  assumes "val_of (settle_raft E l) r = InLeader w" "\<And>u. l \<noteq> InLeader u"
  shows "r_state r = LEADER"
proof (cases rule: settle_cases [of r l E])
  case (stay h)
  with assms show ?thesis by simp
next
  case (move h x)
  then have "r_state x = LEADER"
    using assms(1) enter_loop [of E "r_state x" x] by simp
  moreover have "moves_to {FOLLOWER} h x"
    unfolding move(2) by (rule moves_to.eff_run) (simp add: exit_moves)
  moreover have "moves_to {FOLLOWER} r h"
    unfolding move(1) by (rule moves_to.eff_run) (auto intro: head_moves)
  ultimately show ?thesis by (auto simp: moves_to_def)
qed


subsection \<open>Counting votes\<close>

text \<open>
  The events that count as a vote for a candidate: an OK from a node that is not IDLE, and the
  answer of a node whose MySQL is down, this one only in a group-replication cluster that has
  been healthy before, or with fewer than three members from the second such answer on.
  \<open>votes_received\<close> counts the votes that arrived since the last broadcast, and the candidate's own.
\<close>

definition vote_answer :: "event \<Rightarrow> bool" where
  "vote_answer ev = (case ev of EvVoteResponse rsp \<Rightarrow>
       RetCode rsp = OK \<and> StateName (rsp_Raft rsp) \<noteq> State_String IDLE \<or> RetCode rsp = ErrorMySQLDown
     | _ \<Rightarrow> False)"

definition counted_vote :: "'w node \<Rightarrow> event \<Rightarrow> bool" where
  "counted_vote n ev = (case ev of EvVoteResponse rsp \<Rightarrow>
       RetCode rsp = OK \<and> StateName (rsp_Raft rsp) \<noteq> State_String IDLE \<or>
       RetCode rsp = ErrorMySQLDown \<and>
         (r_mysqlReplMode (n_raft n) = ReplModeMGR \<and> r_mgrClusterEverOK (n_raft n) \<or>
          getMembers (n_raft n) < 3 \<and> (case n_loop n of InCandidate v \<Rightarrow> switchMaster v | _ \<Rightarrow> False))
     | _ \<Rightarrow> False)"

fun votes_after :: "'w dbenv \<Rightarrow> 'w node \<Rightarrow> int \<Rightarrow> event list \<Rightarrow> int" where
  "votes_after E n k [] = k"
| "votes_after E n k (ev # evs) = votes_after E (node_step E ev n)
     (if ev = EvElectionTick then 1 else k + (if counted_vote n ev then 1 else 0)) evs"

definition votes_received :: "'w dbenv \<Rightarrow> 'w node \<Rightarrow> event list \<Rightarrow> int" where
  "votes_received E n evs = votes_after E n 1 evs"

lemma votes_received_snoc:
  "votes_received E n (evs @ [ev]) = (if ev = EvElectionTick then 1
     else votes_received E n evs + (if counted_vote (node_run E evs n) ev then 1 else 0))"
proof -
  have "votes_after E n k (evs @ [ev]) = (if ev = EvElectionTick then 1
     else votes_after E n k evs + (if counted_vote (node_run E evs n) ev then 1 else 0))" for k
    by (induction evs arbitrary: n k) (simp_all add: node_run_def)
  then show ?thesis by (simp add: votes_received_def)
qed

lemma votes_received_pos: "1 \<le> votes_received E n evs"
  by (induction evs rule: rev_induct) (auto simp: votes_received_snoc, simp add: votes_received_def)

lemma counted_vote_answer: "counted_vote n ev \<Longrightarrow> vote_answer ev"
  by (cases ev) (auto simp: counted_vote_def vote_answer_def)

text \<open>In semi-sync mode with three members and more, only answers that say OK are counted.\<close>

lemma counted_vote_semisync:
  "r_mysqlReplMode (n_raft n) = ReplModeSemiSync \<Longrightarrow> getMembers (n_raft n) \<ge> 3 \<Longrightarrow>
    counted_vote n (EvVoteResponse rsp) \<longleftrightarrow> RetCode rsp = OK \<and> StateName (rsp_Raft rsp) \<noteq> State_String IDLE"
  by (simp add: counted_vote_def ReplModeSemiSync_def ReplModeMGR_def)

lemma response_votes:
  assumes "n_loop n = InCandidate v"
  shows "voteGranted (val_of (Candidate_processRequestVoteResponse v rsp) (n_raft n)) \<le>
     voteGranted v + (if counted_vote n (EvVoteResponse rsp) then 1 else 0)"
  using assms by (auto simp: Candidate_processRequestVoteResponse_def counted_vote_def case_prod_beta)

lemma loop_event_votes:
  assumes "val_of (loop_event E (n_loop n) ev) (n_raft n) = InCandidate v'"
  obtains v where "n_loop n = InCandidate v"
    and "voteGranted v' \<le> (if ev = EvElectionTick then 1
           else voteGranted v + (if counted_vote n ev then 1 else 0))"
proof -
  from assms obtain v where l: "n_loop n = InCandidate v" by (rule loop_event_candidate)
  have "voteGranted v' \<le> (if ev = EvElectionTick then 1 else voteGranted v + (if counted_vote n ev then 1 else 0))"
  proof (cases ev)
    case (EvVoteResponse rsp)
    then have "v' = val_of (Candidate_processRequestVoteResponse v rsp) (n_raft n)"
      using assms by (simp add: l loop_event_def Candidate_response_def case_prod_beta)
    with EvVoteResponse response_votes [OF l, of rsp] show ?thesis by simp
  qed (use assms in \<open>auto simp: l loop_event_def Candidate_checkVotesTick_def Candidate_electionTick_def
        case_prod_beta counted_vote_def\<close>)
  with l that show ?thesis by blast
qed

lemma settle_votes:
  assumes "val_of (settle_raft E l) r = InCandidate v"
  shows "l = InCandidate v \<or> voteGranted v = 1"
proof (cases rule: settle_cases [of r l E])
  case (stay h)
  with assms show ?thesis by simp
next
  case (move h x)
  with assms have "val_of (loop_enter E (r_state x)) x = InCandidate v" by simp
  then show ?thesis
    by (cases "r_state x") (auto simp: loop_enter_def Candidate_enter_def case_prod_beta)
qed

text \<open>The count of a candidate never exceeds the votes it received.\<close>

definition tally_ok :: "int \<Rightarrow> 'w node \<Rightarrow> bool" where
  "tally_ok k n = (case n_loop n of InCandidate v \<Rightarrow> voteGranted v \<le> k | _ \<Rightarrow> True)"

lemma tally_step:
  assumes "tally_ok k n" "1 \<le> k"
  shows "tally_ok (if ev = EvElectionTick then 1 else k + (if counted_vote n ev then 1 else 0)) (node_step E ev n)"
    (is "tally_ok ?k _")
proof -
  have "voteGranted v \<le> ?k" if "n_loop (node_step E ev n) = InCandidate v" for v
  proof -
    from settle_votes [OF that [unfolded node_step_fields]]
    consider "val_of (loop_event E (n_loop n) ev) (n_raft n) = InCandidate v" | "voteGranted v = 1"
      by blast
    then show ?thesis
    proof cases
      case 1
      then obtain u where "n_loop n = InCandidate u"
        "voteGranted v \<le> (if ev = EvElectionTick then 1 else voteGranted u + (if counted_vote n ev then 1 else 0))"
        by (rule loop_event_votes)
      with assms show ?thesis by (auto simp: tally_ok_def split: if_splits)
    next
      case 2
      with assms(2) show ?thesis by simp
    qed
  qed
  then show ?thesis
    unfolding tally_ok_def by (cases "n_loop (node_step E ev n)") auto
qed

lemma tally_run:
  assumes "tally_ok 1 n"
  shows "tally_ok (votes_received E n evs) (node_run E evs n)"
proof (induction evs rule: rev_induct)
  case (snoc ev evs)
  then show ?case
    using tally_step [of "votes_received E n evs" "node_run E evs n" ev E]
    by (simp add: node_run_def votes_received_snoc votes_received_pos)
qed (simp add: node_run_def votes_received_def assms)

subsection \<open>Becoming leader\<close>

lemma quiet_event_moves:
  assumes "\<And>v. l = InCandidate v \<Longrightarrow> ev \<noteq> EvCheckVotesTick \<and> (\<forall>rsp. ev \<noteq> EvVoteResponse rsp)"
  shows "state_io_rel (moves_to (- {LEADER})) (loop_event E l ev)"
  using assms unfolding loop_event_def Candidate_electionTick_def
  by (cases l; cases ev) (auto intro!: moves_to.eff_bind)

lemma response_moves: "state_io_rel (moves_to {FOLLOWER}) (Candidate_processRequestVoteResponse v rsp)"
  unfolding Candidate_processRequestVoteResponse_def by (auto intro!: moves_to.eff_bind)

lemma loop_event_leader:
  assumes "r_state (exec_of (loop_event E l ev) r) = LEADER" "r_state r \<noteq> LEADER"
  obtains v where "l = InCandidate v"
    and "ev = EvCheckVotesTick \<and> getQuorums r \<le> voteGranted v \<or>
         (\<exists>rsp. ev = EvVoteResponse rsp \<and>
            voteGranted (val_of (Candidate_processRequestVoteResponse v rsp) r) =
            getMembers (exec_of (Candidate_processRequestVoteResponse v rsp) r))"
proof -
  have "\<not> state_io_rel (moves_to (- {LEADER})) (loop_event E l ev)"
    using assms by (auto simp: state_io_rel_def moves_to_def intro!: exI [of _ r])
  then obtain v where l: "l = InCandidate v" and ev: "ev = EvCheckVotesTick \<or> (\<exists>rsp. ev = EvVoteResponse rsp)"
    using quiet_event_moves [of l ev E] by blast
  from ev have "ev = EvCheckVotesTick \<and> getQuorums r \<le> voteGranted v \<or>
         (\<exists>rsp. ev = EvVoteResponse rsp \<and>
            voteGranted (val_of (Candidate_processRequestVoteResponse v rsp) r) =
            getMembers (exec_of (Candidate_processRequestVoteResponse v rsp) r))"
  proof (elim disjE exE)
    assume "ev = EvCheckVotesTick"
    with assms show ?thesis
      by (auto simp: l loop_event_def Candidate_checkVotesTick_def whenM_def case_prod_beta split: if_splits)
  next
    fix rsp assume rsp: "ev = EvVoteResponse rsp"
    have "moves_to {FOLLOWER} r (exec_of (Candidate_processRequestVoteResponse v rsp) r)"
      by (rule moves_to.eff_run [OF response_moves])
    then have "r_state (exec_of (Candidate_processRequestVoteResponse v rsp) r) \<noteq> LEADER"
      using assms(2) by (auto simp: moves_to_def)
    with assms(1) rsp show ?thesis
      by (auto simp: l loop_event_def Candidate_response_def whenM_def case_prod_beta split: if_splits)
  qed
  with l that show ?thesis by blast
qed

lemma response_members:
  "getMembers (exec_of (Candidate_processRequestVoteResponse v rsp) r) = getMembers r"
  by (simp add: Candidate_processRequestVoteResponse_def Candidate_degradeToFollower_def Raft_setState_def
      Raft_setLeader_def updateView_def getMembers_def case_prod_beta)

text \<open>A step into the leader's loop is a candidate's, and its count has reached a bound.\<close>

lemma became_leader:
  assumes "settled m" "\<And>u. n_loop m \<noteq> InLeader u" "n_loop (node_step E ev m) = InLeader w"
  obtains v where "n_loop m = InCandidate v"
    and "ev = EvCheckVotesTick \<and> getQuorums (n_raft m) \<le> voteGranted v \<or>
       (\<exists>rsp. ev = EvVoteResponse rsp \<and>
          voteGranted (val_of (Candidate_processRequestVoteResponse v rsp) (n_raft m)) =
          getMembers (exec_of (Candidate_processRequestVoteResponse v rsp) (n_raft m)))"
proof -
  let ?r1 = "exec_of (loop_event E (n_loop m) ev) (n_raft m)"
  have no: "val_of (loop_event E (n_loop m) ev) (n_raft m) \<noteq> InLeader u" for u
    using assms(2) by (cases "n_loop m"; cases ev) (auto simp: loop_event_def case_prod_beta)
  have "r_state (exec_of (outside_event E ev) ?r1) = LEADER"
    by (rule settle_leader [OF assms(3) [unfolded node_step_fields] no])
  moreover have "moves_to (- {LEADER}) ?r1 (exec_of (outside_event E ev) ?r1)"
    by (rule moves_to.eff_run [OF outside_moves]) simp
  ultimately have "r_state ?r1 = LEADER" by (auto simp: moves_to_def)
  moreover have "n_loop m \<noteq> Stopped"
  proof
    assume "n_loop m = Stopped"
    then have "val_of (loop_event E (n_loop m) ev) (n_raft m) = Stopped"
      by (cases ev) (simp_all add: loop_event_def)
    then have "n_loop (node_step E ev m) = Stopped"
      by (simp add: node_step_fields settle_raft_def Raft_getState_def case_prod_beta)
    with assms(3) show False by simp
  qed
  then have "r_state (n_raft m) \<noteq> LEADER"
    using assms(1,2) by (cases "n_loop m") (auto simp: settled_def)
  ultimately show ?thesis
    using loop_event_leader [of E "n_loop m" ev "n_raft m"] that by blast
qed


definition two_nodes :: "unit node" where
  "two_nodes = \<lparr>n_raft = (demo_raft ([''a:1'', ''b:1''], []))\<lparr>r_state := CANDIDATE\<rparr>,
     n_loop = InCandidate \<lparr>voteGranted = 1, switchMaster = False\<rparr>\<rparr>"

definition yes_vote :: event where
  "yes_vote = EvVoteResponse ((NewRaftRPCResponse OK)\<lparr>rsp_Raft := zero_header\<lparr>StateName := ''FOLLOWER''\<rparr>\<rparr>)"

lemma two_nodes_promoted: "\<exists>w. n_loop (node_run E [yes_vote] two_nodes) = InLeader w"
  by (simp add: node_run_def node_step_fields two_nodes_def yes_vote_def loop_event_def Candidate_response_def
      Candidate_processRequestVoteResponse_def NewRaftRPCResponse_def getMembers_def demo_raft_fields
      sanitizePeerList_def Candidate_upgradeToLeader_def Raft_setState_def Raft_setLeader_def stats_defs
      upd_stats_def whenM_def outside_event_def settle_raft_def Raft_getState_def loop_head_def
      loop_exit_def loop_enter_def case_prod_beta)



subsection \<open>An isolated leader\<close>

text \<open>What a leader's tick reads and, short of stepping down, leaves alone.\<close>

definition standing :: "'w raft \<Rightarrow> State \<times> MysqlReplMode \<times> string list \<times> RaftConfig \<times> 'w mysql" where
  "standing r = (r_state r, r_mysqlReplMode r, r_metaPeers r, r_conf r, r_mysql r)"

lemma standing_members:
  "standing s = standing r \<Longrightarrow> getMembers s = getMembers r \<and> getQuorums s = getQuorums r"
  by (simp add: standing_def getMembers_def getQuorums_def)

lemma on_getState [simp]: "run_state (on_mysql Mysql_getState) r = (my_state (r_mysql r), r)"
  by (simp add: on_mysql_def zoom_def Mysql_getState_def)

lemma for_each_standing:
  assumes "\<And>x. state_io_rel (keeps standing) (f x)"
  shows "standing (exec_of (for_each f xs) r) = standing r"
  by (rule keeps_run) (rule keeps.eff_for_each [OF assms])

lemma heartbeats_standing: "standing (exec_of (for_each Peer_sendHeartbeat ps) r) = standing r"
  unfolding Peer_sendHeartbeat_def send_out_def
  by (rule for_each_standing) (auto intro!: keeps.eff_bind keeps.eff_modify simp: standing_def)

lemma sendHeartbeat_alive:
  assumes "my_state (r_mysql r) \<noteq> MysqlDead"
  shows "val_of (Leader_sendHeartbeat E v) r = v \<and> standing (exec_of (Leader_sendHeartbeat E v) r) = standing r"
  using assms by (simp add: Leader_sendHeartbeat_def case_prod_beta heartbeats_standing)
    (simp add: standing_def)

lemma less_acks_tick:
  assumes "r_mysqlReplMode r = ReplModeSemiSync" "getMembers r > 2" "ackGranted v < getQuorums r"
    and "my_state (r_mysql r) \<noteq> MysqlDead"
  shows "lessHtAcks v + 1 < rc_AdmitDefeatHtCnt (r_conf r) \<Longrightarrow>
           val_of (Leader_heartbeatTick E v) r = v\<lparr>lessHtAcks := lessHtAcks v + 1, ackGranted := 1\<rparr> \<and>
           standing (exec_of (Leader_heartbeatTick E v) r) = standing r"
    and "lessHtAcks v + 1 \<ge> rc_AdmitDefeatHtCnt (r_conf r) \<Longrightarrow>
           r_state (exec_of (Leader_heartbeatTick E v) r) = FOLLOWER"
proof -
  let ?v = "v\<lparr>lessHtAcks := lessHtAcks v + 1\<rparr>"
  let ?r = "exec_of IncLessHeartbeatAcks r"
  have r: "standing ?r = standing r"
    by (simp add: stats_defs upd_stats_def standing_def)
  have run: "run_state (Leader_heartbeatTick E v) r =
     (if lessHtAcks v + 1 \<ge> rc_AdmitDefeatHtCnt (r_conf r)
      then (?v, exec_of (Leader_degradeToFollower E) ?r)
      else run_state (Leader_sendHeartbeat E (?v\<lparr>ackGranted := 1\<rparr>)) ?r)"
    using assms by (simp add: Leader_heartbeatTick_def Leader_tick_semisync_def Leader_less_acks_def
        case_prod_beta)
  show "lessHtAcks v + 1 < rc_AdmitDefeatHtCnt (r_conf r) \<Longrightarrow>
      val_of (Leader_heartbeatTick E v) r = v\<lparr>lessHtAcks := lessHtAcks v + 1, ackGranted := 1\<rparr> \<and>
      standing (exec_of (Leader_heartbeatTick E v) r) = standing r"
    using sendHeartbeat_alive [of ?r E "?v\<lparr>ackGranted := 1\<rparr>"] assms(4) r
    unfolding run by (auto simp: standing_def)
  have "r_state (exec_of (Leader_degradeToFollower E) s) = FOLLOWER" for s
    by (simp add: Leader_degradeToFollower_def Raft_setState_def case_prod_beta)
  then show "lessHtAcks v + 1 \<ge> rc_AdmitDefeatHtCnt (r_conf r) \<Longrightarrow>
      r_state (exec_of (Leader_heartbeatTick E v) r) = FOLLOWER"
    unfolding run by simp
qed

definition isolated :: "'w node \<Rightarrow> int \<Rightarrow> bool" where
  "isolated n k \<longleftrightarrow> (\<exists>v. n_loop n = InLeader v \<and> lessHtAcks v = k \<and> ackGranted v = 1 \<and> \<not> mysqlDown v) \<and>
     r_state (n_raft n) = LEADER \<and> r_mysqlReplMode (n_raft n) = ReplModeSemiSync \<and>
     getMembers (n_raft n) > 2 \<and> my_state (r_mysql (n_raft n)) \<noteq> MysqlDead"

lemma isolated_tick:
  assumes "isolated n k"
  shows "k + 1 < rc_AdmitDefeatHtCnt (r_conf (n_raft n)) \<Longrightarrow>
           isolated (node_step E EvHeartbeatTick n) (k + 1) \<and>
           r_conf (n_raft (node_step E EvHeartbeatTick n)) = r_conf (n_raft n)"
    and "k + 1 \<ge> rc_AdmitDefeatHtCnt (r_conf (n_raft n)) \<Longrightarrow>
           loop_state (n_loop (node_step E EvHeartbeatTick n)) = FOLLOWER \<and>
           r_state (n_raft (node_step E EvHeartbeatTick n)) = FOLLOWER"
proof -
  obtain v where v: "n_loop n = InLeader v" "lessHtAcks v = k" "ackGranted v = 1" "\<not> mysqlDown v"
    using assms by (auto simp: isolated_def)
  have r: "r_mysqlReplMode (n_raft n) = ReplModeSemiSync" "getMembers (n_raft n) > 2"
    "my_state (r_mysql (n_raft n)) \<noteq> MysqlDead" "r_state (n_raft n) = LEADER"
    using assms by (auto simp: isolated_def)
  then have "ackGranted v < getQuorums (n_raft n)"
    using v(3) by (simp add: getQuorums_def getMembers_def)
  note tick = less_acks_tick [OF r(1,2) this r(3), of E]
  let ?l = "InLeader (val_of (Leader_heartbeatTick E v) (n_raft n))"
  let ?r = "exec_of (Leader_heartbeatTick E v) (n_raft n)"
  have step: "n_raft (node_step E EvHeartbeatTick n) = exec_of (settle_raft E ?l) ?r"
    "n_loop (node_step E EvHeartbeatTick n) = val_of (settle_raft E ?l) ?r"
    by (simp_all add: node_step_fields v(1) loop_event_def outside_event_def case_prod_beta)
  show "k + 1 < rc_AdmitDefeatHtCnt (r_conf (n_raft n)) \<Longrightarrow>
      isolated (node_step E EvHeartbeatTick n) (k + 1) \<and>
      r_conf (n_raft (node_step E EvHeartbeatTick n)) = r_conf (n_raft n)"
  proof -
    assume "k + 1 < rc_AdmitDefeatHtCnt (r_conf (n_raft n))"
    with tick(1) v(2) have val: "val_of (Leader_heartbeatTick E v) (n_raft n) = v\<lparr>lessHtAcks := k + 1, ackGranted := 1\<rparr>"
      and st: "standing ?r = standing (n_raft n)" by simp_all
    from st r(4) have "run_state (settle_raft E ?l) ?r = (?l, ?r)"
      using v(4) val by (simp add: settle_raft_def Raft_getState_def loop_head_def Leader_head_def standing_def
          case_prod_beta whenM_def)
    with val st standing_members [OF st] r v(4) show ?thesis
      unfolding isolated_def step by (simp add: standing_def)
  qed
  show "k + 1 \<ge> rc_AdmitDefeatHtCnt (r_conf (n_raft n)) \<Longrightarrow>
      loop_state (n_loop (node_step E EvHeartbeatTick n)) = FOLLOWER \<and>
      r_state (n_raft (node_step E EvHeartbeatTick n)) = FOLLOWER"
  proof -
    assume "k + 1 \<ge> rc_AdmitDefeatHtCnt (r_conf (n_raft n))"
    with tick(2) v(2) have fol: "r_state ?r = FOLLOWER" by simp
    let ?x = "exec_of (loop_exit E ?l) ?r"
    have "moves_to {FOLLOWER} ?r ?x"
      by (rule moves_to.eff_run [OF exit_moves]) simp
    with fol have x: "r_state ?x = FOLLOWER" by (auto simp: moves_to_def)
    with fol have "run_state (settle_raft E ?l) ?r = run_state (loop_enter E FOLLOWER) ?x"
      by (simp add: settle_raft_def Raft_getState_def case_prod_beta)
    then show ?thesis
      unfolding step using enter_state [of E FOLLOWER ?x] x by (simp add: loop_enter_def case_prod_beta)
  qed
qed

lemma node_run_ticks:
  "node_run E (replicate (Suc k) EvHeartbeatTick) n =
      node_step E EvHeartbeatTick (node_run E (replicate k EvHeartbeatTick) n)"
  by (simp add: node_run_def replicate_append_same [symmetric] del: replicate_Suc)

lemma isolated_prefix:
  assumes "isolated n 0" "int d = rc_AdmitDefeatHtCnt (r_conf (n_raft n))" "k < d"
  shows "isolated (node_run E (replicate k EvHeartbeatTick) n) (int k) \<and>
      r_conf (n_raft (node_run E (replicate k EvHeartbeatTick) n)) = r_conf (n_raft n)"
  using assms(3)
proof (induction k)
  case (Suc k)
  then show ?case
    using isolated_tick(1) [of "node_run E (replicate k EvHeartbeatTick) n" "int k" E] assms(2)
    unfolding node_run_ticks by (simp add: add.commute)
qed (use assms(1) in \<open>simp add: node_run_def\<close>)

lemma isolated_run:
  assumes "isolated n 0" "int d = rc_AdmitDefeatHtCnt (r_conf (n_raft n))" "0 < d"
  shows "loop_state (n_loop (node_run E (replicate d EvHeartbeatTick) n)) = FOLLOWER \<and>
    r_state (n_raft (node_run E (replicate d EvHeartbeatTick) n)) = FOLLOWER"
proof -
  obtain j where d: "d = Suc j" using assms(3) by (cases d) auto
  then show ?thesis
    using isolated_prefix [OF assms(1,2), of j E] isolated_tick(2) [of "node_run E (replicate j EvHeartbeatTick) n" "int j" E]
      assms(2)
    unfolding d node_run_ticks by auto
qed

text \<open>
  Whatever else a leader does between its heartbeat rounds, the count of rounds without a quorum
  grows as long as no answer arrives that is counted. \<open>heard ev\<close>: such an answer.
\<close>

definition heard :: "event \<Rightarrow> bool" where
  "heard ev = (case ev of EvHeartbeatResponse rsp \<Rightarrow>
     RetCode rsp = OK \<and> StateName (rsp_Raft rsp) \<noteq> State_String IDLE | _ \<Rightarrow> False)"

definition ticks :: "event list \<Rightarrow> nat" where
  "ticks evs = length (filter (\<lambda>ev. ev = EvHeartbeatTick) evs)"

lemma unheardI:
  assumes "\<And>rsp. EvHeartbeatResponse rsp \<in> set evs \<Longrightarrow> RetCode rsp \<noteq> OK \<or> StateName (rsp_Raft rsp) = State_String IDLE"
  shows "\<forall>ev \<in> set evs. \<not> heard ev"
proof
  fix ev assume "ev \<in> set evs"
  with assms show "\<not> heard ev" by (cases ev) (simp_all add: heard_def)
qed

lemma sendHeartbeat_counts:
  "ackGranted (val_of (Leader_sendHeartbeat E v) r) = ackGranted v \<and>
   lessHtAcks (val_of (Leader_sendHeartbeat E v) r) = lessHtAcks v"
  by (simp add: Leader_sendHeartbeat_def case_prod_beta)

lemma unheard_tick:
  assumes "r_mysqlReplMode r = ReplModeSemiSync" "getMembers r > 2" "ackGranted v \<le> 1"
    and "r_state (exec_of (Leader_heartbeatTick E v) r) = LEADER"
  shows "lessHtAcks v + 1 < rc_AdmitDefeatHtCnt (r_conf r) \<and>
    ackGranted (val_of (Leader_heartbeatTick E v) r) = 1 \<and>
    lessHtAcks (val_of (Leader_heartbeatTick E v) r) = lessHtAcks v + 1"
proof -
  let ?v = "v\<lparr>lessHtAcks := lessHtAcks v + 1\<rparr>"
  let ?r = "exec_of IncLessHeartbeatAcks r"
  have "ackGranted v < getQuorums r"
    using assms(2,3) by (simp add: getQuorums_def getMembers_def)
  then have run: "run_state (Leader_heartbeatTick E v) r =
     (if lessHtAcks v + 1 \<ge> rc_AdmitDefeatHtCnt (r_conf r)
      then (?v, exec_of (Leader_degradeToFollower E) ?r)
      else run_state (Leader_sendHeartbeat E (?v\<lparr>ackGranted := 1\<rparr>)) ?r)"
    using assms(1,2) by (simp add: Leader_heartbeatTick_def Leader_tick_semisync_def Leader_less_acks_def
        case_prod_beta)
  have "r_state (exec_of (Leader_degradeToFollower E) s) = FOLLOWER" for s
    by (simp add: Leader_degradeToFollower_def Raft_setState_def case_prod_beta)
  with assms(4) show ?thesis
    unfolding run by (simp add: sendHeartbeat_counts split: if_splits)
qed

lemma settle_stays_leader:
  assumes "val_of (settle_raft E (InLeader v)) r = InLeader w"
  shows "w = v \<and> r_state r = LEADER"
proof (cases rule: settle_cases [of r "InLeader v" E])
  case (stay h)
  have "moves_to {FOLLOWER} r h"
    unfolding stay(1) by (rule moves_to.eff_run) (auto intro: head_moves)
  with stay(2,3) assms show ?thesis by (auto simp: moves_to_def)
next
  case (move h x)
  have "moves_to {FOLLOWER} h x"
    unfolding move(2) by (rule moves_to.eff_run) (simp add: exit_moves)
  with move(4) have "r_state x \<noteq> LEADER" by (auto simp: moves_to_def)
  with move(5) assms enter_loop [of E "r_state x" x] show ?thesis by auto
qed

text \<open>A step through which a leader stays leader, without an answer that counts.\<close>

lemma unheard_step:
  assumes "n_loop n = InLeader v" "n_loop (node_step E ev n) = InLeader w" "\<not> heard ev" "ackGranted v \<le> 1"
    and "r_mysqlReplMode (n_raft n) = ReplModeSemiSync" "getMembers (n_raft n) > 2"
  shows "ackGranted w \<le> 1 \<and> lessHtAcks w = lessHtAcks v + int (ticks [ev]) \<and>
    (ev = EvHeartbeatTick \<longrightarrow> lessHtAcks w < rc_AdmitDefeatHtCnt (r_conf (n_raft n)))"
proof -
  let ?l = "loop_event E (InLeader v) ev" and ?r = "n_raft n"
  obtain u where u: "val_of ?l ?r = InLeader u"
    by (cases ev) (auto simp: loop_event_def case_prod_beta)
  have "val_of (settle_raft E (InLeader u)) (exec_of (outside_event E ev) (exec_of ?l ?r)) = InLeader w"
    using assms(2) by (simp add: node_step_fields assms(1) u)
  from settle_stays_leader [OF this] have w: "w = u" and st: "r_state (exec_of (outside_event E ev) (exec_of ?l ?r)) = LEADER"
    by blast+
  show ?thesis
  proof (cases ev)
    case EvHeartbeatTick
    with u st unheard_tick [OF assms(5,6,4), of E] show ?thesis
      by (auto simp: w loop_event_def outside_event_def case_prod_beta ticks_def)
  next
    case (EvHeartbeatResponse rsp)
    with u assms(3,4) show ?thesis
      by (auto simp: w heard_def loop_event_def Leader_processHeartbeatResponse_def case_prod_beta ticks_def Let_def
          split: if_splits)
  qed (use u assms(4) in \<open>simp_all add: w loop_event_def case_prod_beta ticks_def\<close>)
qed

lemma unheard_run:
  assumes "n_loop n = InLeader v" "ackGranted v \<le> 1" "0 \<le> lessHtAcks v" "\<forall>ev \<in> set evs. \<not> heard ev"
    and "\<And>k. k \<le> length evs \<Longrightarrow> \<exists>u. n_loop (node_run E (take k evs) n) = InLeader u"
    and "\<And>k. k < length evs \<Longrightarrow> (let r = n_raft (node_run E (take k evs) n) in
      r_mysqlReplMode r = ReplModeSemiSync \<and> getMembers r > 2 \<and> rc_AdmitDefeatHtCnt (r_conf r) = int d)"
  shows "\<exists>u. n_loop (node_run E evs n) = InLeader u \<and> ackGranted u \<le> 1 \<and>
    lessHtAcks u = lessHtAcks v + int (ticks evs) \<and> (0 < ticks evs \<longrightarrow> lessHtAcks u < int d)"
  using assms(4-6)
proof (induction evs rule: rev_induct)
  case Nil
  then show ?case using assms(1,2) by (simp add: node_run_def ticks_def)
next
  case (snoc ev evs)
  let ?m = "node_run E evs n"
  have prefix: "k \<le> length evs \<Longrightarrow> take k (evs @ [ev]) = take k evs" for k by simp
  have "\<exists>u. n_loop ?m = InLeader u \<and> ackGranted u \<le> 1 \<and>
      lessHtAcks u = lessHtAcks v + int (ticks evs) \<and> (0 < ticks evs \<longrightarrow> lessHtAcks u < int d)"
  proof (rule snoc.IH)
    show "\<exists>u. n_loop (node_run E (take k evs) n) = InLeader u" if "k \<le> length evs" for k
      using snoc.prems(2) [of k] that by simp
    show "let r = n_raft (node_run E (take k evs) n) in
      r_mysqlReplMode r = ReplModeSemiSync \<and> getMembers r > 2 \<and> rc_AdmitDefeatHtCnt (r_conf r) = int d"
      if "k < length evs" for k
      using snoc.prems(3) [of k] that by simp
  qed (use snoc.prems(1) in simp)
  then obtain u where u: "n_loop ?m = InLeader u" "ackGranted u \<le> 1"
    "lessHtAcks u = lessHtAcks v + int (ticks evs)" "0 < ticks evs \<longrightarrow> lessHtAcks u < int d"
    by (elim exE conjE) (rule that)
  have run: "node_run E (evs @ [ev]) n = node_step E ev ?m" by (simp add: node_run_def)
  obtain w where w: "n_loop (node_step E ev ?m) = InLeader w"
    using snoc.prems(2) [of "length (evs @ [ev])"] run by auto
  have now: "r_mysqlReplMode (n_raft ?m) = ReplModeSemiSync" "getMembers (n_raft ?m) > 2"
    "rc_AdmitDefeatHtCnt (r_conf (n_raft ?m)) = int d"
    using snoc.prems(3) [of "length evs"] by (simp_all add: Let_def)
  have "\<not> heard ev" using snoc.prems(1) by simp
  from unheard_step [OF u(1) w this u(2) now(1,2)] show ?case
    using w u(3,4) now(3) unfolding run by (auto simp: ticks_def split: if_splits)
qed

lemma leaves_office:
  assumes "n_loop n = InLeader v" "ackGranted v \<le> 1" "0 \<le> lessHtAcks v" "\<forall>ev \<in> set evs. \<not> heard ev"
    and "\<And>k. k < length evs \<Longrightarrow> (let r = n_raft (node_run E (take k evs) n) in
      r_mysqlReplMode r = ReplModeSemiSync \<and> getMembers r > 2 \<and> rc_AdmitDefeatHtCnt (r_conf r) = int d)"
    and "d \<le> ticks evs" "0 < d"
  shows "\<exists>k \<le> length evs. loop_state (n_loop (node_run E (take k evs) n)) \<noteq> LEADER"
proof (rule ccontr)
  assume "\<not> ?thesis"
  then have "\<exists>u. n_loop (node_run E (take k evs) n) = InLeader u" if "k \<le> length evs" for k
    using that by (cases "n_loop (node_run E (take k evs) n)") auto
  from unheard_run [OF assms(1-4) this assms(5)] assms(3,6,7) show False by auto
qed

lemma settled_run: "settled n \<Longrightarrow> settled (node_run E evs n)"
  by (cases evs rule: rev_cases) (simp_all add: node_run_def settled_step)

text \<open>A node that has left office stays out of it, unless it counts votes.\<close>

lemma stays_out:
  assumes "settled n" "loop_state (n_loop n) \<noteq> LEADER"
    and "EvCheckVotesTick \<notin> set evs" "\<And>rsp. EvVoteResponse rsp \<notin> set evs"
  shows "loop_state (n_loop (node_run E evs n)) \<noteq> LEADER"
  using assms(3,4)
proof (induction evs rule: rev_induct)
  case (snoc ev evs)
  let ?m = "node_run E evs n"
  have m: "settled ?m" "\<And>u. n_loop ?m \<noteq> InLeader u"
    using settled_run [OF assms(1)] snoc by auto
  have "n_loop (node_step E ev ?m) \<noteq> InLeader w" for w
  proof
    assume "n_loop (node_step E ev ?m) = InLeader w"
    from became_leader [OF m this] show False
      using snoc.prems by auto
  qed
  then have "loop_state (n_loop (node_step E ev ?m)) \<noteq> LEADER"
    by (cases "n_loop (node_step E ev ?m)") auto
  then show ?case by (simp add: node_run_def)
qed (use assms(2) in \<open>simp add: node_run_def\<close>)

lemma out_of_office:
  assumes "n_loop n = InLeader v" "ackGranted v \<le> 1" "0 \<le> lessHtAcks v" "r_state (n_raft n) = LEADER"
    and "\<forall>ev \<in> set evs. \<not> heard ev"
    and "\<And>k. k < length evs \<Longrightarrow> (let r = n_raft (node_run E (take k evs) n) in
      r_mysqlReplMode r = ReplModeSemiSync \<and> getMembers r > 2 \<and> rc_AdmitDefeatHtCnt (r_conf r) = int d)"
    and "d \<le> ticks evs" "0 < d" "EvCheckVotesTick \<notin> set evs" "\<And>rsp. EvVoteResponse rsp \<notin> set evs"
  shows "loop_state (n_loop (node_run E evs n)) \<noteq> LEADER \<and> settled (node_run E evs n)"
proof -
  have st: "settled n" using assms(1,4) by (simp add: settled_def)
  obtain k where k: "k \<le> length evs" "loop_state (n_loop (node_run E (take k evs) n)) \<noteq> LEADER"
    using leaves_office [OF assms(1-3,5,6,7,8)] by blast
  have "node_run E evs n = node_run E (drop k evs) (node_run E (take k evs) n)"
    unfolding node_run_def by (metis append_take_drop_id comp_apply fold_append)
  moreover have "EvCheckVotesTick \<notin> set (drop k evs)" "EvVoteResponse rsp \<notin> set (drop k evs)" for rsp
    using assms(9,10) in_set_dropD by metis+
  ultimately show ?thesis
    using stays_out [OF settled_run [OF st] k(2)] settled_run [OF st] by metis
qed

text \<open>
  C16. A semi-sync leader that keeps more than two members and to which
  no other member answers leaves office: in whatever run, once it has counted
  \<open>admit-defeat-hearbeat-count\<close> heartbeat ticks, at one of its moments it was not leader any more.
  Requests, jobs, membership calls, pings, late votes and refusals may come in between in any
  order, and MySQL may be dead or alive.
\<close>

theorem isolated_leader_steps_down:
  assumes "n_loop n = InLeader v" "ackGranted v \<le> 1" "0 \<le> lessHtAcks v"
    and "\<And>rsp. EvHeartbeatResponse rsp \<in> set evs \<Longrightarrow> RetCode rsp \<noteq> OK \<or> StateName (rsp_Raft rsp) = State_String IDLE"
    and "\<And>k. k < length evs \<Longrightarrow> (let r = n_raft (node_run E (take k evs) n) in
      r_mysqlReplMode r = ReplModeSemiSync \<and> getMembers r > 2 \<and> rc_AdmitDefeatHtCnt (r_conf r) = int d)"
    and "d \<le> length (filter (\<lambda>ev. ev = EvHeartbeatTick) evs)" "0 < d"
  shows "\<exists>k \<le> length evs. loop_state (n_loop (node_run E (take k evs) n)) \<noteq> LEADER"
proof (rule leaves_office [OF assms(1-3) unheardI [OF assms(4)] assms(5)])
qed (use assms(6,7) in \<open>simp_all add: ticks_def\<close>)

definition three_nodes :: "unit node" where
  "three_nodes =
     (let r = demo_raft ([''a:1'', ''b:1'', ''c:1''], [])
      in \<lparr>n_raft = r\<lparr>r_state := LEADER, r_mysql := (r_mysql r)\<lparr>my_state := MysqlAlive\<rparr>\<rparr>,
          n_loop = InLeader lvars0\<rparr>)"

lemma three_nodes_isolated: "isolated three_nodes 0" "rc_AdmitDefeatHtCnt (r_conf (n_raft three_nodes)) = 10"
proof -
  have "r_mysqlReplMode (demo_raft ([''a:1'', ''b:1'', ''c:1''], [])) = ReplModeSemiSync"
    "r_conf (demo_raft ([''a:1'', ''b:1'', ''c:1''], [])) = demo_conf"
    by (simp_all add: demo_raft_def raft_on_def run_NewRaft raft0_def conf0_def NewMysql_def)
  then show "isolated three_nodes 0" "rc_AdmitDefeatHtCnt (r_conf (n_raft three_nodes)) = 10"
    by (simp_all add: isolated_def three_nodes_def lvars0_def getMembers_def demo_raft_fields
        sanitizePeerList_def Let_def MysqlAlive_def MysqlDead_def demo_conf_def)
qed

lemma three_nodes_wait:
  assumes "k < 10"
  shows "let r = n_raft (node_run E (take k (replicate 10 EvHeartbeatTick)) three_nodes) in
    r_mysqlReplMode r = ReplModeSemiSync \<and> getMembers r > 2 \<and> rc_AdmitDefeatHtCnt (r_conf r) = int 10"
proof -
  have "isolated (node_run E (replicate k EvHeartbeatTick) three_nodes) (int k) \<and>
      r_conf (n_raft (node_run E (replicate k EvHeartbeatTick) three_nodes)) = r_conf (n_raft three_nodes)"
    using isolated_prefix [OF three_nodes_isolated(1), of 10 k E] assms by (simp add: three_nodes_isolated(2))
  moreover have "take k (replicate 10 EvHeartbeatTick) = replicate k EvHeartbeatTick" using assms by simp
  ultimately show ?thesis by (simp add: isolated_def three_nodes_isolated(2) Let_def)
qed

theorem isolated_leader_steps_down_witness:
  "\<exists>k \<le> 10. loop_state (n_loop (node_run too_many_env (take k (replicate 10 EvHeartbeatTick)) three_nodes)) \<noteq> LEADER"
proof -
  have v: "n_loop three_nodes = InLeader lvars0" "ackGranted lvars0 \<le> 1" "0 \<le> lessHtAcks lvars0"
    by (simp_all add: three_nodes_def Let_def lvars0_def)
  have "\<exists>k \<le> length (replicate 10 EvHeartbeatTick).
      loop_state (n_loop (node_run too_many_env (take k (replicate 10 EvHeartbeatTick)) three_nodes)) \<noteq> LEADER"
    by (rule isolated_leader_steps_down [OF v, where d = 10]) (use three_nodes_wait in simp_all)
  then show ?thesis by simp
qed

end
