(* ===== verification/RaftSafety.thy ===== *)
theory RaftSafety
  imports RaftElection
begin

section \<open>What requests, heartbeats and RPCs may change\<close>

text \<open>
  Properties of single handlers that the rest of the system relies on: what is refused and
  leaves the node alone, when a heartbeat is followed, that a node does not vote against its
  own data, what the HA RPCs do to the state, how far the binlogs may be purged, and what the
  leader's broadcast does to the peer table.
\<close>

subsection \<open>Refusals\<close>

text \<open>A node as it was, up to the counters of the leader.\<close>

definition untouched :: "'w raft \<Rightarrow> 'w raft \<Rightarrow> bool" where
  "untouched r s \<longleftrightarrow> s\<lparr>r_stats := r_stats r\<rparr> = r"

lemma untouched_refl [simp]: "untouched r r"
  by (simp add: untouched_def)

lemma untouched_stats [simp]: "untouched r (r\<lparr>r_stats := s\<rparr>)"
  by (simp add: untouched_def)

lemmas heartbeat_defs = Follower_processHeartbeatRequest_def Candidate_processHeartbeatRequest_def
  Leader_processHeartbeatRequest_def Idle_processHeartbeatRequest_def Invalid_processHeartbeatRequest_def
  Learner_processHeartbeatRequest_def

lemmas vote_defs = Follower_processRequestVoteRequest_def Candidate_processRequestVoteRequest_def
  Leader_processRequestVoteRequest_def Idle_processRequestVoteRequest_def
  Invalid_processRequestVoteRequest_def Learner_processRequestVoteRequest_def

text \<open>
  In every state, a heartbeat or a vote request from a node that is not in
  the peer table is answered with \<open>ErrorInvalidRequest\<close> and changes nothing but a counter.
\<close>

lemma stranger_refused:
  assumes "msg \<noteq> MsgRaftPing" "GetFrom req \<notin> set (r_peers r)"
  shows "RetCode (val_of (process_request E st msg req) r) = ErrorInvalidRequest \<and>
         untouched r (exec_of (process_request E st msg req) r)"
  using assms
  by (cases msg; cases st)
     (simp_all add: process_request_def heartbeat_defs vote_defs Let_def checkRequest_def stats_defs
        upd_stats_def case_prod_beta)

text \<open>
  A heartbeat of an older view changes nothing but a counter in any
  state; a follower, a candidate and a leader answer \<open>ErrorInvalidViewID\<close> with the leader they
  know, which makes the stale leader step down.
\<close>

lemma stale_leader_refused:
  assumes "GetFrom req \<in> set (r_peers r)" "GetViewID req < r_ViewID r" "unat (r_ViewID r) < 2 ^ 63"
  shows "untouched r (exec_of (process_request E st MsgRaftHeartbeat req) r) \<and>
         (voting_state st \<longrightarrow>
            RetCode (val_of (process_request E st MsgRaftHeartbeat req) r) = ErrorInvalidViewID \<and>
            Leader (rsp_Raft (val_of (process_request E st MsgRaftHeartbeat req) r)) = r_leader r)"
proof -
  have "unat (GetViewID req) < 2 ^ 63"
    using assms(2,3) by (simp add: word_less_nat_alt)
  then have d: "0 < id_diff (r_ViewID r) (GetViewID req)"
    using id_diff_sign(2) [OF assms(3)] assms(2) by blast
  then have d': "\<not> id_diff (r_ViewID r) (GetViewID req) \<le> 0" by simp
  show ?thesis
    using assms(1) d d'
    by (cases st)
       (simp_all add: process_request_def heartbeat_defs Let_def checkRequest_def stats_defs
          upd_stats_def case_prod_beta voting_state_def with_leader_def)
qed

text \<open>
  A node that is IDLE, INVALID or a learner never casts a vote: no vote
  request changes it, and only IDLE answers OK, which candidates do not count.
\<close>

lemma passive_never_votes:
  assumes "st = IDLE \<or> st = INVALID \<or> st = LEARNER" "r_state r = st"
  shows "exec_of (process_request E st MsgRaftRequestVote req) r = r \<and>
         \<not> vote_answer (EvVoteResponse (val_of (process_request E st MsgRaftRequestVote req) r))"
  using assms
  by (elim disjE)
     (simp_all add: process_request_def vote_defs vote_answer_def base_response_def NewRaftRPCResponse_def
        OK_def ErrorInvalidRequest_def ErrorVoteNotGranted_def ErrorMySQLDown_def)

lemma stranger_refused_example:
  "RetCode (val_of (process_request too_many_env FOLLOWER MsgRaftHeartbeat
     (NewRaftRPCRequest\<lparr>req_Raft := zero_header\<lparr>From := ''z:1''\<rparr>\<rparr>)) (demo_raft ([''a:1'', ''b:1''], [])))
   = ErrorInvalidRequest"
  using stranger_refused [of MsgRaftHeartbeat "NewRaftRPCRequest\<lparr>req_Raft := zero_header\<lparr>From := ''z:1''\<rparr>\<rparr>"
      "demo_raft ([''a:1'', ''b:1''], [])" too_many_env FOLLOWER]
  by (simp add: NewRaftRPCRequest_def demo_raft_fields sanitizePeerList_def)

lemma stale_leader_refused_example:
  "RetCode (val_of (process_request too_many_env LEADER MsgRaftHeartbeat
     (NewRaftRPCRequest\<lparr>req_Raft := zero_header\<lparr>From := ''b:1'', ViewID := 3\<rparr>\<rparr>))
     ((demo_raft ([''a:1'', ''b:1''], []))\<lparr>r_ViewID := 4\<rparr>)) = ErrorInvalidViewID"
  using stale_leader_refused [of "NewRaftRPCRequest\<lparr>req_Raft := zero_header\<lparr>From := ''b:1'', ViewID := 3\<rparr>\<rparr>"
      "(demo_raft ([''a:1'', ''b:1''], []))\<lparr>r_ViewID := 4\<rparr>" too_many_env LEADER]
  by (simp add: NewRaftRPCRequest_def demo_raft_fields sanitizePeerList_def voting_state_def)

lemma passive_never_votes_example:
  "\<not> vote_answer (EvVoteResponse (val_of (process_request too_many_env IDLE MsgRaftRequestVote
     (NewRaftRPCRequest\<lparr>req_Raft := zero_header\<lparr>From := ''b:1''\<rparr>\<rparr>))
     ((demo_raft ([''a:1'', ''b:1''], []))\<lparr>r_state := IDLE\<rparr>)))"
  using passive_never_votes [of IDLE "(demo_raft ([''a:1'', ''b:1''], []))\<lparr>r_state := IDLE\<rparr>"] by simp


subsection \<open>HA RPCs\<close>

text \<open>
  What the HA RPCs answer and the state they leave: disabling and learning
  work from any state but STOPPED, enabling brings IDLE and learners back as followers (but
  not a node that is configured as super idle), and \<open>TryToLeader\<close> makes a candidate only
  of a node that is not IDLE, INVALID or candidate already and whose MySQL is promotable.
\<close>

lemma ha_transitions:
  "(val_of HADisable r, r_state (exec_of HADisable r)) =
     (if r_state r = STOPPED then (ErrorInvalidRequest, STOPPED) else (OK, IDLE)) \<and>
   (val_of HASetLearner r, r_state (exec_of HASetLearner r)) =
     (if r_state r = STOPPED then (ErrorInvalidRequest, STOPPED) else (OK, LEARNER)) \<and>
   (val_of HAEnable r, r_state (exec_of HAEnable r)) =
     (if r_state r = STOPPED then (ErrorInvalidRequest, STOPPED)
      else if r_state r = LEARNER \<or> r_state r = IDLE \<and> \<not> rc_SuperIDLE (r_conf r) then (OK, FOLLOWER)
      else (OK, r_state r)) \<and>
   (if r_state r \<in> {IDLE, INVALID, CANDIDATE}
    then val_of (HATryToLeader E) r = ErrorInvalidRequest \<and> exec_of (HATryToLeader E) r = r
    else r_state (exec_of (HATryToLeader E) r) =
      (if r_state r \<noteq> LEADER \<and> val_of (Raft_Promotable E) r \<and>
          val_of (on_mysql (Mysql_StopSlaveIOThread E)) (exec_of (Raft_Promotable E) r) = None
       then CANDIDATE else r_state r))"
proof -
  have "r_state (exec_of (Raft_Promotable E) r) = r_state r" for r :: "'a raft"
    using Promotable_moves [of "{}" E] by (auto simp: state_io_rel_def moves_to_def)
  moreover have "r_state (exec_of (on_mysql k) r) = r_state r" for r :: "'a raft" and k :: "('a mysql, gerror option) state"
    by (simp add: on_mysql_def zoom_def)
  ultimately have "r_state (exec_of (HATryToLeader E) r) =
      (if r_state r \<noteq> LEADER \<and> val_of (Raft_Promotable E) r \<and>
          val_of (on_mysql (Mysql_StopSlaveIOThread E)) (exec_of (Raft_Promotable E) r) = None
       then CANDIDATE else r_state r)" if "r_state r \<notin> {IDLE, INVALID, CANDIDATE}"
    using that
    by (cases "r_state r")
       (simp_all add: HATryToLeader_def Raft_getState_def Raft_setState_def Raft_setLeader_def stats_defs
          upd_stats_def case_prod_beta split: option.split)
  then show ?thesis
    by (cases "r_state r")
       (simp_all add: HADisable_def HASetLearner_def HAEnable_def HATryToLeader_def Raft_getState_def
          Raft_setState_def Raft_setLeader_def case_prod_beta)
qed

text \<open>
  A learner, which takes no part in elections of its own accord, and even a stopped node can
  be made candidate this way.
\<close>

lemma learner_can_be_promoted:
  assumes "r_state r = LEARNER \<or> r_state r = STOPPED" "val_of (Raft_Promotable E) r"
    and "val_of (on_mysql (Mysql_StopSlaveIOThread E)) (exec_of (Raft_Promotable E) r) = None"
  shows "r_state (exec_of (HATryToLeader E) r) = CANDIDATE"
  using assms
  by (elim disjE)
     (simp_all add: HATryToLeader_def Raft_getState_def Raft_setState_def Raft_setLeader_def stats_defs
          upd_stats_def case_prod_beta split: option.split)

subsection \<open>Following a leader\<close>

text \<open>The view, the vote and the epoch.\<close>

definition ids :: "'w raft \<Rightarrow> (64 word \<times> string) \<times> 64 word" where
  "ids r = (ballot r, r_EpochID r)"

lemma ids_keeps [intro!]:
  "state_io_rel (keeps ids) (on_mysql k)" "state_io_rel (keeps ids) (Raft_setLeader l)"
  "state_io_rel (keeps ids) (Raft_setState st)" "state_io_rel (keeps ids) (demoteReadOnly E)"
  "state_io_rel (keeps ids) (RecordLeaderDatabase repl)"
  "state_io_rel (keeps ids) (modify (\<lambda>r. r\<lparr>F_ChangeToMasterError := b\<rparr>))"
  unfolding on_mysql_def Raft_setLeader_def Raft_setState_def demoteReadOnly_def RecordLeaderDatabase_def
  by (auto intro!: keeps.eff_bind keeps.eff_modify keeps_zoom simp: ids_def ballot_def)

lemma ids_degrade [intro!]: "state_io_rel (keeps ids) (Follower_degradeToInvalid E g h)"
  unfolding Follower_degradeToInvalid_def by (auto intro!: keeps.eff_bind)

lemma id_diff_zero: "id_diff a b = 0 \<longleftrightarrow> a = b"
  unfolding id_diff_def using signed_word_eqI [of "a - b" 0] by auto

lemma ids_applyEpochView:
  assumes "unat (fst (fst (ids r))) < 2 ^ 63" "unat (GetViewID req) < 2 ^ 63"
    and "fst (fst (ids r)) \<le> GetViewID req"
  shows "let s = exec_of (applyEpochView req (id_diff (fst (fst (ids r))) (GetViewID req))
           (id_diff (snd (ids r)) (GetEpochID req))) r in
     r_ViewID s = GetViewID req \<and> r_EpochID s = GetEpochID req \<and>
     r_leader s = (if r_ViewID r < GetViewID req then GetFrom req else r_leader r)"
  using assms id_diff_sign(1) [OF assms(1,2)]
  by (auto simp: applyEpochView_def ids_def ballot_def whenM_def updateView_def run_updateEpoch id_diff_zero
      Let_def)

text \<open>The last steps of the semi-sync branch, as one program.\<close>

definition follow :: "'w dbenv \<Rightarrow> RaftRPCRequest \<Rightarrow> ('w, gerror option) rst" where
  "follow E req = do {
     call (on_mysql (Mysql_DisableSemiSyncMaster E));
     call (on_mysql (Mysql_StartSlave E));
     leader \<leftarrow> gets r_leader;
     (if leader \<noteq> GetFrom req then do {
        (gtid, _) \<leftarrow> on_mysql (Mysql_GetGTID E);
        members \<leftarrow> gets getMembers;
        whenM (members > 2) (Follower_degradeToInvalid E gtid (req_GTID req));
        purged \<leftarrow> on_mysql GetReplGtidPurged;
        e \<leftarrow> on_mysql (Mysql_ChangeMasterTo E ((req_Repl req)\<lparr>Repl_GTID_Purged := purged\<rparr>));
        modify (\<lambda>r. r\<lparr>F_ChangeToMasterError := (e \<noteq> None)\<rparr>);
        whenM (e = None) (Raft_setLeader (GetFrom req));
        ret e }
      else ret None) }"

lemma semisync_follow:
  "run_state (Follower_heartbeat_semisync E req d ed rsp) r =
     (case val_of (follow E req) r of
        Some err \<Rightarrow> (rsp\<lparr>RetCode := ErrorChangeMaster\<rparr>, exec_of (follow E req) r)
      | None \<Rightarrow> (rsp, exec_of (applyEpochView req d ed) (exec_of (follow E req) r)))"
  by (simp add: Follower_heartbeat_semisync_def follow_def case_prod_beta whenM_def split: option.split)

lemma follow_result:
  "ids (exec_of (follow E req) r) = ids r"
  "val_of (follow E req) r = None \<Longrightarrow> r_leader (exec_of (follow E req) r) = GetFrom req"
  "val_of (follow E req) r \<noteq> None \<Longrightarrow> F_ChangeToMasterError (exec_of (follow E req) r)"
proof -
  have "state_io_rel (keeps ids) (follow E req)"
    unfolding follow_def by (auto intro!: keeps.eff_bind)
  then show "ids (exec_of (follow E req) r) = ids r" by (rule keeps_run)
  show "val_of (follow E req) r = None \<Longrightarrow> r_leader (exec_of (follow E req) r) = GetFrom req"
    by (cases "r_leader r = GetFrom req")
       (auto simp: follow_def case_prod_beta Raft_setLeader_def on_mysql_def zoom_def whenM_def split: if_splits)
  show "val_of (follow E req) r \<noteq> None \<Longrightarrow> F_ChangeToMasterError (exec_of (follow E req) r)"
    by (auto simp: follow_def case_prod_beta)
qed

text \<open>
  C30. In semi-sync mode a follower that gets the heartbeat of a member with
  its view or a newer one either follows: the sender is its leader, and view and epoch are
  those of the sender; or its MySQL could not be pointed at the sender: then it answers
  \<open>ErrorChangeMaster\<close>, keeps view, vote and epoch, and marks itself, so that it will not
  stand for election.
\<close>

theorem follower_follows:
  assumes "GetFrom req \<in> set (r_peers r)" "r_ViewID r \<le> GetViewID req" "unat (GetViewID req) < 2 ^ 63"
    and "r_mysqlReplMode r = ReplModeSemiSync" "\<not> r_delegateDBApply r"
  shows "let rsp = val_of (Follower_processHeartbeatRequest E req) r;
             s = exec_of (Follower_processHeartbeatRequest E req) r in
    (RetCode rsp = OK \<and> r_leader s = GetFrom req \<and> r_ViewID s = GetViewID req \<and>
       r_EpochID s = GetEpochID req) \<or>
    (RetCode rsp = ErrorChangeMaster \<and> F_ChangeToMasterError s \<and> ballot s = ballot r \<and>
       r_EpochID s = r_EpochID r)"
proof -
  have v: "unat (r_ViewID r) < 2 ^ 63"
    using assms(2,3) by (simp add: word_le_nat_alt)
  have d: "\<not> id_diff (r_ViewID r) (GetViewID req) > 0"
    using id_diff_sign(2) [OF v assms(3)] assms(2) by auto
  have mode: "ReplModeSemiSync \<noteq> ReplModeMGR" by (simp add: ReplModeSemiSync_def ReplModeMGR_def)
  let ?r1 = "exec_of (RecordLeaderDatabase (req_Repl req)) r"
  let ?r2 = "exec_of (call (demoteReadOnly E)) ?r1"
  let ?r3 = "exec_of (follow E req) ?r2"
  have "ids ?r1 = ids r" by (rule keeps_run) auto
  moreover have "ids ?r2 = ids ?r1" by (rule keeps_run) auto
  ultimately have i: "ids ?r3 = ids r" by (simp add: follow_result(1))
  have run: "run_state (Follower_processHeartbeatRequest E req) r =
      run_state (Follower_heartbeat_semisync E req (id_diff (r_ViewID r) (GetViewID req))
        (id_diff (r_EpochID r) (GetEpochID req)) ((base_response r OK)
        \<lparr>rsp_Relay_Master_Log_File := val_of RelayMasterLogFile (r_mysql r)\<rparr>)) ?r2"
    using assms d mode
    by (simp add: Follower_processHeartbeatRequest_def checkRequest_def Let_def case_prod_beta)
  have ap: "r_ViewID s = GetViewID req \<and> r_EpochID s = GetEpochID req \<and>
     r_leader s = (if r_ViewID ?r3 < GetViewID req then GetFrom req else r_leader ?r3)"
    if "s = exec_of (applyEpochView req (id_diff (r_ViewID r) (GetViewID req))
           (id_diff (r_EpochID r) (GetEpochID req))) ?r3" for s
    using ids_applyEpochView [of ?r3 req] v assms(2,3) that unfolding i
    by (simp add: ids_def ballot_def Let_def)
  show ?thesis
  proof (cases "val_of (follow E req) ?r2")
    case None
    then show ?thesis
      using ap follow_result(2) [OF None] by (simp add: run semisync_follow Let_def)
  next
    case (Some err)
    then show ?thesis
      using i follow_result(3) [of E req ?r2] by (simp add: run semisync_follow Let_def ids_def)
  qed
qed

definition beat :: "64 word \<Rightarrow> RaftRPCRequest" where
  "beat v = NewRaftRPCRequest\<lparr>req_Raft := zero_header\<lparr>From := ''b:1'', ViewID := v, EpochID := 2\<rparr>,
     req_Peers := [''a:1'', ''b:1'', ''c:1'']\<rparr>"

theorem follower_follows_witness:
  "RetCode (val_of (Follower_processHeartbeatRequest too_many_env (beat 7)) (demo_raft ([''a:1'', ''b:1''], [])))
     \<in> {OK, ErrorChangeMaster}"
proof -
  have "r_mysqlReplMode (demo_raft ([''a:1'', ''b:1''], [])) = ReplModeSemiSync"
    "\<not> r_delegateDBApply (demo_raft ([''a:1'', ''b:1''], []))"
    by (simp_all add: demo_raft_def raft_on_def run_NewRaft raft0_def conf0_def NewMysql_def)
  then show ?thesis
    using follower_follows [of "beat 7" "demo_raft ([''a:1'', ''b:1''], [])" too_many_env]
    by (auto simp: beat_def NewRaftRPCRequest_def demo_raft_fields sanitizePeerList_def Let_def)
qed

text \<open>What the election timer looks at besides the database.\<close>

definition footing :: "'w raft \<Rightarrow> State \<times> string list \<times> bool \<times> bool" where
  "footing r = (r_state r, r_peers r, F_ChangeToMasterError r, r_isBrainSplit r)"

lemma footing_mysql [intro!]: "state_io_rel (keeps footing) (on_mysql k)"
  unfolding on_mysql_def by (rule keeps_zoom) (simp add: footing_def)

lemma footing_ever_ok [simp]: "footing (r\<lparr>r_mgrClusterEverOK := b\<rparr>) = footing r"
  by (simp add: footing_def)

lemma footing_cluster: "footing (exec_of (isMGRClusterStatusOK E) r) = footing r"
  unfolding isMGRClusterStatusOK_def Let_def
  by (rule keeps_run) (auto intro!: keeps.eff_bind keeps.eff_modify)

lemma promotable_mode:
  "footing (exec_of (replicationPromotable E) r) = footing r"
  "r_mysqlReplMode (exec_of (replicationPromotable E) r) = r_mysqlReplMode r"
  "r_mgrClusterEverOK (exec_of (replicationPromotable E) r) = r_mgrClusterEverOK r"
  unfolding replicationPromotable_def driverPromotable_def
  by (simp_all add: on_mysql_def zoom_def footing_def case_prod_beta)




subsection \<open>Votes and data\<close>

text \<open>The MySQL state in which the positions are compared: a follower first stops reading.\<close>

definition compared_on :: "'w dbenv \<Rightarrow> State \<Rightarrow> 'w raft \<Rightarrow> 'w mysql" where
  "compared_on E st r = (if st = FOLLOWER \<and> r_mysqlReplMode r = ReplModeSemiSync
     then exec_of (Mysql_StopSlaveIOThread E) (r_mysql r) else r_mysql r)"

lemma ok_codes:
  "ErrorInvalidRequest \<noteq> OK" "ErrorInvalidViewID \<noteq> OK" "ErrorMySQLDown \<noteq> OK" "ErrorInvalidGTID \<noteq> OK"
  by (simp_all add: OK_def ErrorInvalidRequest_def ErrorInvalidViewID_def ErrorMySQLDown_def ErrorInvalidGTID_def)

text \<open>What the promotability of a node depends on: its mode, its driver and its MySQL.\<close>

lemma clusterOK_depends:
  "val_of (isMGRClusterStatusOK E) (a\<lparr>r_mysql := m\<rparr>) = val_of (isMGRClusterStatusOK E) (b\<lparr>r_mysql := m\<rparr>)"
proof (cases "snd (val_of (Mysql_GetMGRStats E) m)")
  case None
  let ?m = "exec_of (Mysql_GetMGRStats E) m"
  show ?thesis
    using None by (cases "snd (val_of (Mysql_GetMGRMasterUUID E) ?m)")
      (simp_all add: isMGRClusterStatusOK_def run_on_mysql case_prod_beta Let_def)
qed (simp add: isMGRClusterStatusOK_def run_on_mysql case_prod_beta)

lemma mgrPromotable_depends:
  assumes "r_mysqlReplMode a = r_mysqlReplMode b"
  shows "val_of (mgrPrimaryPromotable E) (a\<lparr>r_mysql := m\<rparr>) = val_of (mgrPrimaryPromotable E) (b\<lparr>r_mysql := m\<rparr>)"
proof -
  let ?m = "exec_of (Mysql_GetUUID E) m"
  show ?thesis
    using assms by (simp add: mgrPrimaryPromotable_def Raft_getUUID_def run_on_mysql case_prod_beta
        clusterOK_depends [of E ?m a b])
qed

lemma promotable_depends:
  assumes "r_mysql a = r_mysql b" "r_hasDriver a = r_hasDriver b" "r_mysqlReplMode a = r_mysqlReplMode b"
  shows "val_of (Raft_Promotable E) a = val_of (Raft_Promotable E) b"
proof (cases "r_hasDriver b")
  case True
  with assms show ?thesis
    by (simp add: Raft_Promotable_def replicationPromotable_def driverPromotable_def run_on_mysql case_prod_beta
        mgrPromotable_depends [OF assms(3), of E "exec_of (Driver_Promotable E None) (r_mysql b)"])
next
  case False
  with assms show ?thesis
    by (simp add: Raft_Promotable_def replicationPromotable_def driverPromotable_def run_on_mysql case_prod_beta
        mgrPromotable_depends [OF assms(3), of E "exec_of (Mysql_Promotable E) (r_mysql b)"])
qed

text \<open>
  C21. A follower, candidate or leader that grants a vote has compared its own
  data with that of the requester without error. If its own is ahead, then this very node, with
  the MySQL state that the comparison left, was not promotable: a node that has more data
  and could be promoted never votes for one that has less.
\<close>

theorem vote_respects_data:
  assumes "voting_state st"
    and "RetCode (val_of (process_request E st MsgRaftRequestVote req) r) = OK"
  shows "let ((greater, this, err), m) = run_state (Mysql_GTIDGreaterThan E (req_GTID req)) (compared_on E st r) in
    err = None \<and> \<not> (greater \<and> val_of (Raft_Promotable E) (r\<lparr>r_mysql := m\<rparr>))"
proof -
  let ?c = "run_state (Mysql_GTIDGreaterThan E (req_GTID req)) (compared_on E st r)"
  have err: "snd (snd (fst ?c)) = None"
    using assms ok_codes
    by (cases "snd (snd (fst ?c))"; cases st)
       (auto simp: voting_state_def process_request_def vote_defs Let_def case_prod_beta run_on_mysql
          stats_defs upd_stats_def compared_on_def whenM_def split: if_splits)
  have "\<not> val_of (Raft_Promotable E) (r\<lparr>r_mysql := snd ?c\<rparr>)" if "fst (fst ?c)"
  proof
    assume "val_of (Raft_Promotable E) (r\<lparr>r_mysql := snd ?c\<rparr>)"
    then have "val_of (Raft_Promotable E) r'"
      if "r_mysql r' = snd ?c" "r_hasDriver r' = r_hasDriver r" "r_mysqlReplMode r' = r_mysqlReplMode r" for r'
      using promotable_depends [of r' "r\<lparr>r_mysql := snd ?c\<rparr>" E] that by simp
    then show False
      using assms ok_codes err \<open>fst (fst ?c)\<close>
      by (cases st)
         (auto simp: voting_state_def process_request_def vote_defs Let_def case_prod_beta run_on_mysql
            stats_defs upd_stats_def compared_on_def whenM_def updateView_def split: if_splits)
  qed
  with err show ?thesis by (auto simp: case_prod_beta)
qed

text \<open>A candidate that is ahead of the requester, whose MySQL is not known to be alive, votes.\<close>

definition behind_ask :: RaftRPCRequest where
  "behind_ask = NewRaftRPCRequest\<lparr>
     req_Raft := zero_header\<lparr>ViewID := 5, From := ''b:1''\<rparr>, req_GTID := gtid_at ''mysql-bin.000007'' 100 ''0''\<rparr>"

lemma slave_tape_ahead:
  "val_of (Mysql_GTIDGreaterThan tape_env (gtid_at ''mysql-bin.000007'' 100 ''0''))
     (NewMysql conf0 1000 slave_tape) = (True, gtid_at ''mysql-bin.000007'' 194 ''0'', None)"
  using slave_tape_GTID binlog_same_file [of "gtid_at ''mysql-bin.000007'' 194 ''0''" "gtid_at ''mysql-bin.000007'' 100 ''0''"]
  by (simp add: Mysql_GTIDGreaterThan_def SemiSyncGTIDGreaterThan_def Mysql_GetReplMode_def binlog_greater_def
      NewMysql_def conf0_def SetReplMode_def SetQueryTimeout_def gtid_at_def case_prod_beta)

lemma unknown_not_promotable:
  "my_state (r_mysql a) \<noteq> MysqlAlive \<Longrightarrow> \<not> val_of (Raft_Promotable E) a \<and>
    r_votedFor (exec_of (Raft_Promotable E) a) = r_votedFor a"
  by (cases "r_hasDriver a")
     (simp_all add: Raft_Promotable_def replicationPromotable_def driverPromotable_def Driver_Promotable_def
        Mysql_Promotable_def Mysql_getState_def run_on_mysql case_prod_beta)

lemma comparing_keeps_state:
  assumes "replMode (my_handler m) \<noteq> ReplModeMGR"
  shows "my_state (exec_of (Mysql_GTIDGreaterThan E g) m) = my_state m"
proof -
  have "mysql_view (exec_of (Mysql_GetGTID E) m) = mysql_view m"
    by (rule keeps_run) (rule GetGTID_view)
  then have "my_state (exec_of (Mysql_GetGTID E) m) = my_state m"
    by (simp add: mysql_view_def)
  with assms show ?thesis
    by (simp add: Mysql_GTIDGreaterThan_def SemiSyncGTIDGreaterThan_def Mysql_GetReplMode_def case_prod_beta
        split: option.split)
qed

lemma ahead_voter_grants:
  "RetCode (val_of (process_request tape_env CANDIDATE MsgRaftRequestVote behind_ask) (n_raft voter)) = OK"
proof -
  have peers: "r_peers (n_raft voter) = [''b:1'', ''c:1'']" "r_mysql (n_raft voter) = NewMysql conf0 1000 slave_tape"
    "r_votedFor (n_raft voter) = noVote"
    by (simp_all add: voter_def raft_on_def demo_conf_def run_NewRaft raft0_def sanitizePeerList_def)
  have st: "my_state (exec_of (Mysql_GTIDGreaterThan tape_env (gtid_at ''mysql-bin.000007'' 100 ''0''))
      (NewMysql conf0 1000 slave_tape)) \<noteq> MysqlAlive"
    using comparing_keeps_state [of "NewMysql conf0 1000 slave_tape" tape_env]
    by (simp add: NewMysql_def conf0_def SetReplMode_def SetQueryTimeout_def ReplModeSemiSync_def ReplModeMGR_def
        MysqlAlive_def MysqlDead_def)
  then have "\<not> val_of (Raft_Promotable tape_env) a \<and>
      r_votedFor (exec_of (Raft_Promotable tape_env) a) = r_votedFor a"
    if "r_mysql a = exec_of (Mysql_GTIDGreaterThan tape_env (gtid_at ''mysql-bin.000007'' 100 ''0''))
      (NewMysql conf0 1000 slave_tape)" for a
    using unknown_not_promotable [of a tape_env] that by simp
  then show ?thesis
    using slave_tape_ahead
    by (simp add: behind_ask_def peers voting_state_def process_request_def checkRequest_def
        Candidate_processRequestVoteRequest_def Candidate_vote_def voter_facts NewRaftRPCRequest_def
        run_on_mysql case_prod_beta updateView_def Let_def whenM_def noVote_def)
qed

theorem vote_respects_data_witness:
  "\<not> val_of (Raft_Promotable tape_env) ((n_raft voter)\<lparr>r_mysql := exec_of (Mysql_GTIDGreaterThan tape_env
     (gtid_at ''mysql-bin.000007'' 100 ''0'')) (NewMysql conf0 1000 slave_tape)\<rparr>)"
proof -
  have "r_mysql (n_raft voter) = NewMysql conf0 1000 slave_tape"
    by (simp add: voter_def raft_on_def run_NewRaft raft0_def)
  with vote_respects_data [OF _ ahead_voter_grants] slave_tape_ahead show ?thesis
    by (simp add: voting_state_def compared_on_def behind_ask_def NewRaftRPCRequest_def case_prod_beta)
qed


subsection \<open>Purging binlogs\<close>

text \<open>A round of answers to the leader's heartbeat.\<close>

fun answer_round :: "'w dbenv \<Rightarrow> lvars \<Rightarrow> RaftRPCResponse list \<Rightarrow> ('w, lvars) rst" where
  "answer_round E v [] = ret v"
| "answer_round E v (rsp # rsps) = do {
     v' \<leftarrow> Leader_processHeartbeatResponse E v rsp;
     answer_round E v' rsps }"

definition acked :: "RaftRPCResponse \<Rightarrow> bool" where
  "acked rsp \<longleftrightarrow> RetCode rsp = OK \<and> StateName (rsp_Raft rsp) \<noteq> State_String IDLE"

lemma acked_step:
  assumes "acked rsp"
  shows "let s = exec_of (Leader_processHeartbeatResponse E v rsp) r;
             f = rsp_Relay_Master_Log_File rsp;
             low = (if L_relayMasterLogFile r = [] \<or> L_relayMasterLogFile r > f then f else L_relayMasterLogFile r) in
     ackGranted (val_of (Leader_processHeartbeatResponse E v rsp) r) = ackGranted v + 1 \<and>
     getMembers s = getMembers r \<and> L_relayMasterLogFile s = low \<and>
     L_nextPuregeBinlog s = (if ackGranted v + 1 = getMembers r then low else L_nextPuregeBinlog r)"
  using assms
  by (simp add: Leader_processHeartbeatResponse_def acked_def Let_def case_prod_beta getMembers_def whenM_def)

lemma acked_round:
  assumes "\<forall>rsp \<in> set rsps. acked rsp \<and> rsp_Relay_Master_Log_File rsp \<noteq> []"
    and "ackGranted v + int (length rsps) = getMembers r" "rsps \<noteq> []"
  shows "let s = exec_of (answer_round E v rsps) r;
             files = map rsp_Relay_Master_Log_File rsps in
     (\<forall>f \<in> set files. L_nextPuregeBinlog s \<le> f) \<and>
     (L_relayMasterLogFile r \<noteq> [] \<longrightarrow> L_nextPuregeBinlog s \<le> L_relayMasterLogFile r) \<and>
     L_nextPuregeBinlog s \<in> set files \<union> {L_relayMasterLogFile r} \<and> L_nextPuregeBinlog s \<noteq> []"
  using assms
proof (induction rsps arbitrary: v r)
  case (Cons rsp rsps)
  let ?s1 = "exec_of (Leader_processHeartbeatResponse E v rsp) r"
  let ?v1 = "val_of (Leader_processHeartbeatResponse E v rsp) r"
  let ?f = "rsp_Relay_Master_Log_File rsp"
  have a: "acked rsp" "?f \<noteq> []" using Cons.prems(1) by auto
  note st = acked_step [OF a(1), of E v r, unfolded Let_def]
  show ?case
  proof (cases "rsps = []")
    case True
    with st a Cons.prems(2) show ?thesis
      by (auto simp: Let_def case_prod_beta)
  next
    case False
    have "let s = exec_of (answer_round E ?v1 rsps) ?s1; files = map rsp_Relay_Master_Log_File rsps in
       (\<forall>f \<in> set files. L_nextPuregeBinlog s \<le> f) \<and>
       (L_relayMasterLogFile ?s1 \<noteq> [] \<longrightarrow> L_nextPuregeBinlog s \<le> L_relayMasterLogFile ?s1) \<and>
       L_nextPuregeBinlog s \<in> set files \<union> {L_relayMasterLogFile ?s1} \<and> L_nextPuregeBinlog s \<noteq> []"
      by (rule Cons.IH) (use Cons.prems st False in auto)
    with st a show ?thesis
      by (auto simp: Let_def case_prod_beta split: if_splits)
  qed
qed simp


definition answer_with :: "string \<Rightarrow> RaftRPCResponse" where
  "answer_with f = (NewRaftRPCResponse OK)
     \<lparr>rsp_Raft := zero_header\<lparr>StateName := ''FOLLOWER''\<rparr>, rsp_Relay_Master_Log_File := f\<rparr>"

lemma answer_with_acked [simp]: "acked (answer_with f)" "rsp_Relay_Master_Log_File (answer_with f) = f"
  by (simp_all add: acked_def answer_with_def NewRaftRPCResponse_def)

lemma demo_leader_file: "L_relayMasterLogFile (demo_raft file) = []"
  by (simp add: demo_raft_def raft_on_def NewRaft_def raft0_def initPeers_def case_prod_beta
      readPeersJSON_def writePeersJSON_def split: option.split)


text \<open>
  The non-empty names matter: an empty one, which a node that reads from no source sends, makes
  the leader forget the smallest file so far. Here a member still applies \<open>bin.1\<close>, and the
  leader would purge up to \<open>bin.5\<close>.
\<close>

lemma empty_file_forgets_minimum:
  "L_nextPuregeBinlog (exec_of (answer_round too_many_env lvars0
     [answer_with ''bin.1'', answer_with [], answer_with ''bin.5''])
     (demo_raft ([''a:1'', ''b:1'', ''c:1'', ''d:1''], []))) = ''bin.5''"
proof -
  have m: "getMembers (demo_raft ([''a:1'', ''b:1'', ''c:1'', ''d:1''], [])) = 4"
    by (simp add: getMembers_def demo_raft_fields sanitizePeerList_def)
  show ?thesis
    using m by (simp add: acked_step [OF answer_with_acked(1), unfolded Let_def] case_prod_beta
      demo_leader_file lvars0_def)
qed


subsection \<open>The broadcast of a leader\<close>

lemma add_keys_set: "set (add_keys ks xs) = set ks \<union> set xs"
  by (induction xs arbitrary: ks) auto

lemma add_keys_distinct: "distinct ks \<Longrightarrow> distinct (add_keys ks xs)"
  by (induction xs arbitrary: ks) auto

lemma heartbeats_outbox:
  "run_state (for_each Peer_sendHeartbeat ps) r =
     ((), r\<lparr>r_outbox := r_outbox r @ map (\<lambda>p. OutHeartbeat p (heartbeat_request r p)) ps\<rparr>)"
proof (induction ps arbitrary: r)
  case (Cons p ps)
  have "heartbeat_request (r\<lparr>r_outbox := x\<rparr>) q = heartbeat_request r q" for x q
    by (simp add: heartbeat_request_def)
  with Cons show ?case
    by (simp add: Peer_sendHeartbeat_def send_out_def)
qed simp

text \<open>
  With its MySQL alive a leader sends each peer and each idle peer one
  heartbeat, with its epoch, view and member lists, and nobody else; with MySQL dead it sends
  nothing. The broadcast also enters the idle peers into the table of peers, from which vote
  requests are sent and accepted.
\<close>

lemma broadcast_reaches_all:
  assumes "distinct (r_peers r)"
  shows "let s = exec_of (Leader_sendHeartbeat E v) r; to = add_keys (r_peers r) (r_idlePeers r) in
    (if my_state (r_mysql r) = MysqlDead then r_outbox s = r_outbox r \<and> r_peers s = r_peers r
     else r_outbox s = r_outbox r @ map (\<lambda>p. OutHeartbeat p (heartbeat_request r p)) to \<and>
          distinct to \<and> set to = set (r_peers r) \<union> set (r_idlePeers r) \<and> r_peers s = to)"
proof -
  have "heartbeat_request (r\<lparr>r_peers := x\<rparr>) q = heartbeat_request r q" for x q
    by (simp add: heartbeat_request_def)
  then show ?thesis
    using add_keys_distinct [OF assms]
    by (simp add: Leader_sendHeartbeat_def case_prod_beta heartbeats_outbox add_keys_set Let_def
        run_on_mysql Mysql_getState_def ShouldDeferFailover_def)
qed

lemma broadcast_reaches_all_example:
  "r_peers (exec_of (Leader_sendHeartbeat too_many_env lvars0)
     (n_raft three_nodes)) = add_keys (r_peers (n_raft three_nodes)) (r_idlePeers (n_raft three_nodes))"
  using broadcast_reaches_all [of "n_raft three_nodes" too_many_env lvars0]
  by (simp add: three_nodes_def demo_raft_fields sanitizePeerList_def Let_def MysqlAlive_def MysqlDead_def)

end
