(* ===== verification/RaftMail.thy ===== *)
theory RaftMail
  imports RaftSafety
begin

section \<open>What a node sends, and its seat in the cluster\<close>

text \<open>
  Two things are followed through every step of a node. Its mail: the vote requests and
  heartbeats in its outbox; nothing but a broadcast of a candidate adds a vote request, and
  nothing but the leader's broadcast adds a heartbeat. And its seat: in a cluster with a
  fixed membership \<open>M\<close> the peer tables of every node stay the list \<open>M\<close>, as long as the
  heartbeats it processes carry that list too. Both are the effect relation \<open>steady\<close>.
\<close>

subsection \<open>The relation\<close>

definition letter :: "outmsg \<Rightarrow> bool" where
  "letter m = (case m of OutPing p q \<Rightarrow> False | _ \<Rightarrow> True)"

definition mail :: "'w raft \<Rightarrow> outmsg list" where
  "mail r = filter letter (r_outbox r)"

definition seated :: "string set \<Rightarrow> 'w raft \<Rightarrow> bool" where
  "seated M r \<longleftrightarrow> distinct (r_metaPeers r) \<and> set (r_metaPeers r) = M \<and> distinct (r_peers r) \<and>
     set (r_peers r) = M - {r_id r} \<and> r_idlePeers r = [] \<and> r_metaIdlePeers r = []"

definition steady :: "string set \<Rightarrow> 'w raft \<Rightarrow> 'w raft \<Rightarrow> bool" where
  "steady M r s \<longleftrightarrow> r_id s = r_id r \<and> r_mysqlReplMode s = r_mysqlReplMode r \<and> mail s = mail r \<and>
     (seated M r \<longrightarrow> seated M s)"

interpretation steady: effect_rel "steady M" for M
  by unfold_locales (auto simp: steady_def)

text \<open>What \<open>steady\<close> reads; a program that keeps it is steady.\<close>

definition desk :: "'w raft \<Rightarrow> string \<times> MysqlReplMode \<times> outmsg list \<times> string list \<times> string list \<times>
    string list \<times> string list" where
  "desk r = (r_id r, r_mysqlReplMode r, mail r, r_metaPeers r, r_peers r, r_idlePeers r, r_metaIdlePeers r)"

lemma steady_desk: "desk s = desk r \<Longrightarrow> steady M r s"
  by (auto simp: steady_def desk_def seated_def)

lemma steady_modify: "(\<And>r. desk (f r) = desk r) \<Longrightarrow> state_io_rel (steady M) (modify f)"
  by (rule steady.eff_modify) (rule steady_desk, simp)

lemmas desk_simps = desk_def mail_def


subsection \<open>Programs that are steady\<close>

lemma on_mysql_steady [intro!]: "state_io_rel (steady M) (on_mysql k)"
  unfolding state_io_rel_def
  by (auto simp: on_mysql_def zoom_def case_prod_beta desk_simps intro!: steady_desk)

lemma setLeader_steady [intro!]: "state_io_rel (steady M) (Raft_setLeader l)"
  unfolding Raft_setLeader_def by (auto intro!: steady_modify simp: desk_simps)

lemma setState_steady [intro!]: "state_io_rel (steady M) (Raft_setState st)"
  unfolding Raft_setState_def by (auto intro!: steady.eff_bind steady_modify simp: desk_simps)

lemma upd_stats_steady [intro!]: "state_io_rel (steady M) (upd_stats f)"
  unfolding upd_stats_def by (auto intro!: steady_modify simp: desk_simps)

lemma small_steady [intro!]:
  "state_io_rel (steady M) (set_cmt c)" "state_io_rel (steady M) set_everOK"
  "state_io_rel (steady M) (add_job j)" "state_io_rel (steady M) (updateView v l)"
  "state_io_rel (steady M) incViewID" "state_io_rel (steady M) (RecordLeaderDatabase repl)"
  "state_io_rel (steady M) (Peer_SendPing p)"
  "state_io_rel (steady M) (modify (\<lambda>r. r\<lparr>r_votedFor := c0\<rparr>))"
  "state_io_rel (steady M) (modify (\<lambda>r. r\<lparr>F_ChangeToMasterError := b\<rparr>))"
  "state_io_rel (steady M) (modify (\<lambda>r. r\<lparr>L_isDegradeToFollower := b\<rparr>))"
  "state_io_rel (steady M) (modify (\<lambda>r. r\<lparr>L_isReadOnly := b\<rparr>))"
  "state_io_rel (steady M) (modify (\<lambda>r. r\<lparr>r_mgrClusterEverOK := b\<rparr>))"
  "state_io_rel (steady M) (modify (\<lambda>r. r\<lparr>r_isBrainSplit := b\<rparr>))"
  unfolding set_cmt_def set_everOK_def add_job_def updateView_def incViewID_def
    RecordLeaderDatabase_def Peer_SendPing_def send_out_def
  by (auto intro!: steady_modify simp: desk_simps letter_def)

lemma dbops_steady [intro!]:
  "state_io_rel (steady M) (demoteReadOnly E)" "state_io_rel (steady M) (changeToMaster E)"
  "state_io_rel (steady M) (enableReadWrite E)" "state_io_rel (steady M) (driverPromotable E)"
  "state_io_rel (steady M) isDelegatedPrimaryReady"
  "state_io_rel (steady M) (isDelegatedMGRPhase1Ready E)"
  unfolding demoteReadOnly_def changeToMaster_def enableReadWrite_def driverPromotable_def
    isDelegatedPrimaryReady_def isDelegatedMGRPhase1Ready_def
  by (auto intro!: steady.eff_bind)

lemma clusterOK_steady [intro!]: "state_io_rel (steady M) (isMGRClusterStatusOK E)"
  unfolding isMGRClusterStatusOK_def Let_def by (auto intro!: steady.eff_bind)

lemma Promotable_steady [intro!]:
  "state_io_rel (steady M) (Raft_Promotable E)" "state_io_rel (steady M) (replicationPromotable E)"
  "state_io_rel (steady M) (Raft_getUUID E)"
  unfolding Raft_Promotable_def mgrPrimaryPromotable_def replicationPromotable_def Raft_getUUID_def
  by (auto intro!: steady.eff_bind)

lemma workers_steady [intro!]:
  "state_io_rel (steady M) purgeBinlogStop" "state_io_rel (steady M) checkSemiSyncStop"
  "state_io_rel (steady M) checkGTIDStop" "state_io_rel (steady M) purgeBinlogStart"
  "state_io_rel (steady M) checkSemiSyncStart" "state_io_rel (steady M) checkGTIDStart"
  "state_io_rel (steady M) (purgeBinlog E)" "state_io_rel (steady M) (checkSemiSync E)"
  "state_io_rel (steady M) (checkGTID E)"
  unfolding purgeBinlogStop_def checkSemiSyncStop_def checkGTIDStop_def purgeBinlogStart_def
    checkSemiSyncStart_def checkGTIDStart_def purgeBinlog_def checkSemiSync_def checkGTID_def stats_defs
  by (auto intro!: steady.eff_bind steady_modify simp: desk_simps)

lemma degrade_steady [intro!]:
  "state_io_rel (steady M) (Leader_degradeToFollower E)" "state_io_rel (steady M) Leader_fail_settings"
  "state_io_rel (steady M) Candidate_degradeToFollower" "state_io_rel (steady M) Candidate_upgradeToLeader"
  "state_io_rel (steady M) (Follower_degradeToInvalid E g h)"
  "state_io_rel (steady M) (Follower_upgradeToCandidate E)"
  unfolding Leader_degradeToFollower_def Leader_fail_settings_def Candidate_degradeToFollower_def
    Candidate_upgradeToLeader_def Follower_degradeToInvalid_def Follower_upgradeToCandidate_def stats_defs
  by (auto intro!: steady.eff_bind)

lemma leader_jobs_steady [intro!]: "state_io_rel (steady M) (run_leader_job E j)"
proof -
  have "state_io_rel (steady M) (mgr_phase1_poll E n)" for n
    by (induction n) (auto intro!: steady.eff_bind)
  then show ?thesis
    unfolding run_leader_job_def run_JobPrepareMGR_def run_JobPrepareMGRDelegated_def
      run_JobPrepareSemiSync_def stats_defs Leader_mgr_finish_def Leader_checkChangeToMaster_def
    by (cases j) (auto intro!: steady.eff_bind)
qed

lemma follower_jobs_steady [intro!]:
  "state_io_rel (steady M) (run_JobSetMySQL E)" "state_io_rel (steady M) (run_JobMGRJoin E req)"
  unfolding run_JobSetMySQL_def run_JobMGRJoin_def by (auto intro!: steady.eff_bind)

lemma start_job_steady [intro!]: "state_io_rel (steady M) (start_job E i)"
proof -
  have "state_io_rel (steady M) (run_job E j)" for j
    unfolding run_job_def by (cases j) auto
  then show ?thesis
    unfolding start_job_def by (auto intro!: steady.eff_bind steady_modify simp: desk_simps)
qed

lemma exit_steady: "state_io_rel (steady M) (loop_exit E l)"
  unfolding loop_exit_def Follower_stateExit_def Leader_stateExit_def
  by (auto intro!: steady.eff_bind steady_modify steady.eff_for_each simp: desk_simps split: loop.split)

lemma head_steady: "state_io_rel (steady M) (loop_head E l)"
  unfolding loop_head_def Leader_head_def by (cases l) auto

text \<open>Every event from outside the loop but a change of the membership.\<close>

definition fixed_members :: "event \<Rightarrow> bool" where
  "fixed_members ev = (case ev of EvMember p \<Rightarrow> False | _ \<Rightarrow> True)"

lemma outside_steady: "fixed_members ev \<Longrightarrow> state_io_rel (steady M) (outside_event E ev)"
  unfolding outside_event_def HADisable_def HAEnable_def HASetLearner_def HATryToLeader_def Raft_Stop_def
    Raft_getState_def stats_defs fixed_members_def
  by (cases ev) (auto intro!: steady.eff_bind split: State.split)


subsection \<open>Requests and heartbeats\<close>

text \<open>A heartbeat that carries the membership \<open>M\<close>.\<close>

definition family :: "string set \<Rightarrow> RaftRPCRequest \<Rightarrow> bool" where
  "family M req \<longleftrightarrow> set (req_Peers req) = M \<and> req_IdlePeers req = [] \<and> [] \<notin> M"

lemma updateEpoch_steady:
  assumes "family M req"
  shows "state_io_rel (steady M) (updateEpoch ep (req_Peers req) (req_IdlePeers req))"
  unfolding state_io_rel_def
proof
  fix r :: "'a raft"
  let ?s = "exec_of (updateEpoch ep (req_Peers req) (req_IdlePeers req)) r"
  have M: "set (req_Peers req) = M" "req_IdlePeers req = []" "[] \<notin> M"
    using assms by (simp_all add: family_def)
  have "seated M ?s" if "seated M r"
    using that M
    by (simp add: seated_def run_updateEpoch new_peers_set new_peers_distinct sanitizePeerList_set
        sanitizePeerList_distinct) (auto simp: sanitizePeerList_def)
  then show "steady M r ?s"
    by (simp add: steady_def run_updateEpoch mail_def)
qed

lemma applyEpochView_steady: "family M req \<Longrightarrow> state_io_rel (steady M) (applyEpochView req d e)"
  unfolding applyEpochView_def by (auto intro!: steady.eff_bind updateEpoch_steady)

lemma heartbeat_parts_steady:
  assumes "family M req"
  shows "state_io_rel (steady M) (Follower_heartbeat_mgr E req d e rsp)"
    and "state_io_rel (steady M) (Follower_heartbeat_semisync E req d e rsp)"
    and "state_io_rel (steady M) (passive_change_master E req)"
  using applyEpochView_steady [OF assms]
  unfolding Follower_heartbeat_mgr_def Follower_heartbeat_semisync_def
    Follower_heartbeat_mgr_running_def Follower_heartbeat_join_def passive_change_master_def Let_def
  by (auto intro!: steady.eff_bind)

lemma heartbeat_steady:
  assumes "family M req"
  shows "state_io_rel (steady M) (process_request E st MsgRaftHeartbeat req)"
  using applyEpochView_steady [OF assms] heartbeat_parts_steady [OF assms]
  unfolding process_request_def heartbeat_defs Let_def stats_defs
  by (cases st) (auto intro!: steady.eff_bind)

lemma other_requests_steady:
  "state_io_rel (steady M) (process_request E st MsgRaftRequestVote req)"
  "state_io_rel (steady M) (process_request E st MsgRaftPing req)"
  unfolding process_request_def vote_defs processPingRequest_def
    Follower_vote_def Candidate_vote_def Leader_vote_def Let_def stats_defs
  by (cases st, auto intro!: steady.eff_bind)

lemma request_steady:
  "(msg = MsgRaftHeartbeat \<Longrightarrow> family M req) \<Longrightarrow> state_io_rel (steady M) (process_request E st msg req)"
  using heartbeat_steady other_requests_steady by (cases msg) auto

end
