(* ===== verification/RaftPost.thy ===== *)
theory RaftPost
  imports RaftMail
begin

section \<open>The messages of one step\<close>

text \<open>
  The two broadcasts. A candidate's puts at most one request per peer into the outbox, all of
  the new view; a leader's one heartbeat per peer, with the membership. Then the mail of a
  whole step of a node: vote requests only when a round of voting begins (\<open>new_round\<close>), all
  of them of the view the node is then in.
\<close>

subsection \<open>The candidate's broadcast\<close>

lemma steady_mail: "state_io_rel (steady {}) m \<Longrightarrow> mail (exec_of m r) = mail r"
  using steady.eff_run [of "{}" m r] by (simp add: steady_def)

lemma Peer_request_mail:
  obtains (none) "mail (exec_of (Peer_sendRequestVote E p) r) = mail r"
  | (sent) q where "mail (exec_of (Peer_sendRequestVote E p) r) = mail r @ [OutRequestVote p q]"
      "GetViewID q = r_ViewID r" "GetFrom q = r_id r"
proof -
  let ?u = "run_state (Raft_getUUID E) r"
  let ?g = "run_state (on_mysql (Mysql_GetGTID E)) (snd ?u)"
  have m: "mail (snd ?u) = mail r" "mail (snd ?g) = mail r"
    by (simp_all add: steady_mail [OF on_mysql_steady] steady_mail [OF Promotable_steady(3)])
  show ?thesis
  proof (cases "snd (fst ?u) = None \<and> snd (fst ?g) = None")
    case True
    then have "mail (exec_of (Peer_sendRequestVote E p) r) = mail r @ [OutRequestVote p
       (NewRaftRPCRequest\<lparr>req_Raft := zero_header\<lparr>EpochID := r_EpochID r, ViewID := r_ViewID r, From := r_id r,
          To := p, Leader := r_leader r, UUID := fst (fst ?u)\<rparr>, req_GTID := fst (fst ?g)\<rparr>)]"
      using m(2) by (simp add: Peer_sendRequestVote_def case_prod_beta Let_def send_out_def mail_def letter_def)
    then show ?thesis by (rule sent) simp_all
  next
    case False
    then have "mail (exec_of (Peer_sendRequestVote E p) r) = mail r"
      using m by (auto simp: Peer_sendRequestVote_def case_prod_beta Let_def split: option.splits)
    then show ?thesis by (rule none)
  qed
qed

definition seat :: "'w raft \<Rightarrow> string \<times> MysqlReplMode \<times> (64 word \<times> string) \<times> string list \<times> string list \<times>
    string list \<times> string list" where
  "seat r = (r_id r, r_mysqlReplMode r, ballot r, r_metaPeers r, r_peers r, r_idlePeers r, r_metaIdlePeers r)"

lemma seat_seated: "seat s = seat r \<Longrightarrow> seated M s = seated M r"
  by (auto simp: seat_def seated_def)

lemma send_seat: "state_io_rel (keeps seat) (send_out m)"
  unfolding send_out_def by (auto intro!: keeps.eff_modify simp: seat_def ballot_def)

lemma on_mysql_seat: "state_io_rel (keeps seat) (on_mysql k)"
  unfolding on_mysql_def by (rule keeps_zoom) (simp add: seat_def ballot_def)

lemma Peer_request_seat: "state_io_rel (keeps seat) (Peer_sendRequestVote E p)"
  unfolding Peer_sendRequestVote_def Let_def Raft_getUUID_def
  by (auto intro!: keeps.eff_bind send_seat on_mysql_seat)

lemma send_votes_seat: "state_io_rel (keeps seat) (send_votes E ps)"
  by (induction ps) (auto intro!: keeps.eff_bind Peer_request_seat)

text \<open>\<open>qs\<close> are requests to some of \<open>ps\<close>, at most one to each, of the view \<open>v\<close>.\<close>

definition requests_of :: "string \<Rightarrow> 64 word \<Rightarrow> string list \<Rightarrow> (string \<times> RaftRPCRequest) list \<Rightarrow> bool" where
  "requests_of me v ps qs \<longleftrightarrow> set (map fst qs) \<subseteq> set ps \<and> (distinct ps \<longrightarrow> distinct (map fst qs)) \<and>
     (\<forall>x \<in> set qs. GetViewID (snd x) = v \<and> GetFrom (snd x) = me)"

lemma requests_of_Nil [simp]: "requests_of me v ps []"
  by (simp add: requests_of_def)

lemma requests_of_skip: "requests_of me v ps qs \<Longrightarrow> requests_of me v (p # ps) qs"
  by (auto simp: requests_of_def)

lemma requests_of_Cons:
  "requests_of me v ps qs \<Longrightarrow> GetViewID q = v \<Longrightarrow> GetFrom q = me \<Longrightarrow> requests_of me v (p # ps) ((p, q) # qs)"
  by (auto simp: requests_of_def)

lemma send_votes_mail:
  "\<exists>qs. mail (exec_of (send_votes E ps) r) = mail r @ map (\<lambda>(p, q). OutRequestVote p q) qs \<and>
        requests_of (r_id r) (r_ViewID r) ps qs"
proof (induction ps arbitrary: r)
  case Nil
  then show ?case by (intro exI [of _ "[]"]) simp
next
  case (Cons p ps)
  let ?r = "exec_of (Peer_sendRequestVote E p) r"
  have run: "exec_of (send_votes E (p # ps)) r = exec_of (send_votes E ps) ?r"
    by (simp add: case_prod_beta)
  have "seat ?r = seat r" by (rule keeps_run [OF Peer_request_seat])
  then have same: "r_id ?r = r_id r" "r_ViewID ?r = r_ViewID r" by (simp_all add: seat_def ballot_def)
  from Cons [of ?r] obtain qs where qs:
    "mail (exec_of (send_votes E ps) ?r) = mail ?r @ map (\<lambda>(p, q). OutRequestVote p q) qs"
    "requests_of (r_id r) (r_ViewID r) ps qs"
    unfolding same by blast
  show ?case
  proof (cases rule: Peer_request_mail [of E p r])
    case none
    then show ?thesis using qs unfolding run by (auto intro: requests_of_skip)
  next
    case (sent q)
    then show ?thesis
      using qs unfolding run by (intro exI [of _ "(p, q) # qs"]) (auto intro: requests_of_Cons)
  qed
qed

text \<open>A broadcast from \<open>r\<close> to \<open>s\<close>: the next view, no vote, the requests.\<close>

definition asks_votes :: "string set \<Rightarrow> 'w raft \<Rightarrow> 'w raft \<Rightarrow> bool" where
  "asks_votes M r s \<longleftrightarrow> r_id s = r_id r \<and> r_mysqlReplMode s = r_mysqlReplMode r \<and>
     (seated M r \<longrightarrow> seated M s) \<and> ballot s = (r_ViewID r + 1, noVote) \<and>
     (\<exists>qs. mail s = mail r @ map (\<lambda>(p, q). OutRequestVote p q) qs \<and>
           requests_of (r_id r) (r_ViewID r + 1) (r_peers r) qs)"

lemma sendRequestVote_asks: "asks_votes M r (exec_of (Candidate_sendRequestVote E) r)"
proof -
  let ?r = "r\<lparr>r_ViewID := r_ViewID r + 1, r_votedFor := noVote\<rparr>"
  have run: "exec_of (Candidate_sendRequestVote E) r = exec_of (send_votes E (r_peers r)) ?r"
    by (simp add: Candidate_sendRequestVote_def incViewID_def)
  have seat: "seat (exec_of (send_votes E (r_peers r)) ?r) = seat ?r" by (rule keeps_run [OF send_votes_seat])
  have "seated M ?r = seated M r" "mail ?r = mail r" by (simp_all add: seated_def mail_def)
  with seat_seated [OF seat] seat send_votes_mail [of E "r_peers r" ?r] show ?thesis
    unfolding run asks_votes_def by (auto simp: seat_def ballot_def)
qed


subsection \<open>The leader's broadcast\<close>

definition beats :: "string set \<Rightarrow> 64 word \<Rightarrow> outmsg \<Rightarrow> bool" where
  "beats M v m \<longleftrightarrow> (\<exists>p q. m = OutHeartbeat p q \<and> GetViewID q = v \<and> family M q)"

lemma heartbeats_mail:
  "mail (exec_of (for_each Peer_sendHeartbeat ps) r) =
     mail r @ map (\<lambda>p. OutHeartbeat p (heartbeat_request r p)) ps \<and>
   seat (exec_of (for_each Peer_sendHeartbeat ps) r) = seat r"
proof (induction ps arbitrary: r)
  case (Cons p ps)
  let ?r = "exec_of (Peer_sendHeartbeat p) r"
  have "?r = r\<lparr>r_outbox := r_outbox r @ [OutHeartbeat p (heartbeat_request r p)]\<rparr>"
    by (simp add: Peer_sendHeartbeat_def send_out_def)
  then have "mail ?r = mail r @ [OutHeartbeat p (heartbeat_request r p)]" "seat ?r = seat r"
    "heartbeat_request ?r x = heartbeat_request r x" for x
    by (simp_all add: mail_def letter_def seat_def ballot_def heartbeat_request_def)
  with Cons [of ?r] show ?case by (simp add: case_prod_beta)
qed simp

lemma add_keys_none [simp]: "add_keys ks [] = ks"
  by simp

definition sends_beats :: "string set \<Rightarrow> 'w raft \<Rightarrow> 'w raft \<Rightarrow> bool" where
  "sends_beats M r s \<longleftrightarrow> r_id s = r_id r \<and> r_mysqlReplMode s = r_mysqlReplMode r \<and> ballot s = ballot r \<and>
     (seated M r \<longrightarrow> [] \<notin> M \<longrightarrow> seated M s \<and> (\<exists>ms. mail s = mail r @ ms \<and> (\<forall>m \<in> set ms. beats M (r_ViewID r) m)))"

lemma sendHeartbeat_sends: "sends_beats M r (exec_of (Leader_sendHeartbeat E v) r)"
proof (cases "my_state (r_mysql r) = MysqlDead")
  case True
  have "steady M r (exec_of (Leader_sendHeartbeat E v) r)" "ballot (exec_of (Leader_sendHeartbeat E v) r) = ballot r"
    using True steady.eff_run [OF on_mysql_steady [where k = ShouldDeferFailover], of M r]
      keeps_run [OF on_mysql_ballot, of ShouldDeferFailover r]
    by (simp_all add: Leader_sendHeartbeat_def case_prod_beta)
  then show ?thesis by (auto simp: sends_beats_def steady_def intro!: exI [of _ "[]"])
next
  case False
  let ?r = "r\<lparr>r_peers := add_keys (r_peers r) (r_idlePeers r)\<rparr>"
  have run: "exec_of (Leader_sendHeartbeat E v) r = exec_of (for_each Peer_sendHeartbeat (r_peers ?r)) ?r"
    using False by (simp add: Leader_sendHeartbeat_def case_prod_beta)
  note hb = heartbeats_mail [of "r_peers ?r" ?r]
  have "seated M r \<Longrightarrow> seated M ?r" "mail ?r = mail r" by (simp_all add: seated_def mail_def)
  moreover have "beats M (r_ViewID r) (OutHeartbeat p (heartbeat_request ?r p))" if "seated M r" "[] \<notin> M" for p
    using that by (simp add: beats_def heartbeat_request_def family_def seated_def NewRaftRPCRequest_def)
  ultimately show ?thesis
    using hb seat_seated [of "exec_of (for_each Peer_sendHeartbeat (r_peers ?r)) ?r" ?r M]
    unfolding run sends_beats_def
    by (auto simp: seat_def ballot_def intro!: exI [of _ "map (\<lambda>p. OutHeartbeat p (heartbeat_request ?r p)) (r_peers ?r)"])
qed


subsection \<open>The events of the loops\<close>

lemma less_acks_steady [intro!]: "state_io_rel (steady M) (Leader_less_acks E v)"
  unfolding Leader_less_acks_def Let_def stats_defs by (auto intro!: steady.eff_bind)

lemma brainsplit_steady [intro!]: "state_io_rel (steady M) (Leader_brainsplit_view v)"
  unfolding Leader_brainsplit_view_def by (auto intro!: steady.eff_bind)

lemma tick_parts_steady:
  "state_io_rel (steady M) (if mode = ReplModeSemiSync then Leader_tick_semisync E v else Leader_tick_mgr E v)"
  unfolding Leader_tick_semisync_def Leader_tick_mgr_def Leader_tick_mgr_running_def Let_def stats_defs
  by (auto intro!: steady.eff_bind)

lemma leader_response_steady: "state_io_rel (steady M) (Leader_processHeartbeatResponse E v rsp)"
  unfolding Leader_processHeartbeatResponse_def Let_def
  by (auto intro!: steady.eff_bind steady_modify simp: desk_simps)

lemma vote_response_steady: "state_io_rel (steady M) (Candidate_response v rsp)"
  unfolding Candidate_response_def Candidate_processRequestVoteResponse_def
  by (auto intro!: steady.eff_bind)

lemma follower_events_steady:
  "state_io_rel (steady M) (Follower_electionTimeout E)" "state_io_rel (steady M) (Follower_brainSplitTick cnt)"
  "state_io_rel (steady M) (Follower_pingResponse cnt rsp)" "state_io_rel (steady M) (Candidate_checkVotesTick w)"
  unfolding Follower_electionTimeout_def Follower_brainSplitTick_def Follower_sendClusterPing_def
    Follower_pingResponse_def Candidate_checkVotesTick_def Let_def
  by (auto intro!: steady.eff_bind steady.eff_for_each)

text \<open>An event that carries the membership, if it is a heartbeat.\<close>

definition family_event :: "string set \<Rightarrow> event \<Rightarrow> bool" where
  "family_event M ev = (case ev of EvRequest MsgRaftHeartbeat req \<Rightarrow> family M req | EvMember p \<Rightarrow> False | _ \<Rightarrow> True)"

lemma loop_event_steady:
  assumes "family_event M ev" "\<And>v. l = InCandidate v \<Longrightarrow> ev \<noteq> EvElectionTick"
    "\<And>v. l = InLeader v \<Longrightarrow> ev \<noteq> EvHeartbeatTick"
  shows "state_io_rel (steady M) (loop_event E l ev)"
proof -
  have req: "state_io_rel (steady M) (process_request E st msg q)" if "ev = EvRequest msg q" for st msg q
    using assms(1) that by (intro request_steady) (simp add: family_event_def)
  show ?thesis
    using assms req unfolding loop_event_def
    by (cases l; cases ev)
       (auto intro!: steady.eff_bind follower_events_steady vote_response_steady leader_response_steady)
qed

lemma tick_sends:
  assumes "[] \<notin> M" "seated M r"
  shows "let s = exec_of (Leader_heartbeatTick E v) r in r_id s = r_id r \<and> r_mysqlReplMode s = r_mysqlReplMode r \<and>
     seated M s \<and> (\<exists>ms. mail s = mail r @ ms \<and> (\<forall>m \<in> set ms. beats M (r_ViewID s) m))"
proof -
  define m where "m = (if r_mysqlReplMode r = ReplModeSemiSync then Leader_tick_semisync E v else Leader_tick_mgr E v)"
  have m: "steady M r (exec_of m r)"
    unfolding m_def by (rule steady.eff_run [OF tick_parts_steady])
  let ?v1 = "fst (val_of m r)" and ?b = "snd (val_of m r)"
  have run: "exec_of (Leader_heartbeatTick E v) r =
      (if ?b then exec_of m r else exec_of (Leader_sendHeartbeat E (?v1\<lparr>ackGranted := 1\<rparr>)) (exec_of m r))"
    by (simp add: Leader_heartbeatTick_def case_prod_beta flip: m_def)
  show ?thesis
    using assms m sendHeartbeat_sends [of M "exec_of m r" E "?v1\<lparr>ackGranted := 1\<rparr>"]
    unfolding run by (auto simp: Let_def steady_def sends_beats_def ballot_def)
qed


subsection \<open>Changing the loop\<close>

lemma quiet_inits_steady:
  "state_io_rel (steady M) (Follower_stateInit E)" "state_io_rel (steady M) Leader_stateInit"
  "state_io_rel (steady M) (passive_stateInit E)" "state_io_rel (steady M) Follower_startCheckBrainSplit"
  unfolding Follower_stateInit_def Follower_mgrJoined_def Leader_stateInit_def passive_stateInit_def
    Leader_prepareSettingsAsync_def Leader_prepareSettingsMGR_def Follower_startCheckBrainSplit_def
  by (auto intro!: steady.eff_bind)

lemma enter_quiet:
  assumes "st \<noteq> CANDIDATE" "st \<noteq> LEADER"
  shows "state_io_rel (steady M) (loop_enter E st)"
  using assms
  unfolding loop_enter_def Idle_stateInit_def Invalid_stateInit_def Learner_stateInit_def
  by (cases st) (auto intro!: steady.eff_bind quiet_inits_steady)

lemma enter_quiet_ballot:
  assumes "st \<noteq> CANDIDATE" "st \<noteq> LEADER"
  shows "state_io_rel (keeps ballot) (loop_enter E st)"
  using assms
  unfolding loop_enter_def Idle_stateInit_def Invalid_stateInit_def Learner_stateInit_def
  by (cases st) (auto intro!: keeps.eff_bind)

lemma head_post:
  assumes "h = exec_of (whenM c (loop_head E l)) r"
  shows "steady M r h" "ballot h = ballot r"
proof -
  have "state_io_rel (steady M) (whenM c (loop_head E l))"
    by (auto intro: head_steady)
  then show "steady M r h" unfolding assms by (rule steady.eff_run)
  show "ballot h = ballot r" unfolding assms by (rule keeps_run [OF head_when])
qed

lemma enter_leader: "sends_beats M r (exec_of (loop_enter E LEADER) r)"
proof -
  let ?r = "exec_of Leader_stateInit r"
  have "steady M r ?r" "ballot ?r = ballot r"
    by (simp_all add: steady.eff_run [OF quiet_inits_steady(2)] keeps_run [OF inits_ballot(2)])
  with sendHeartbeat_sends [of M ?r E lvars0] show ?thesis
    by (auto simp: loop_enter_def Leader_enter_def case_prod_beta sends_beats_def steady_def ballot_def)
qed

lemma enter_candidate:
  "asks_votes M r (exec_of (loop_enter E CANDIDATE) r)"
  "val_of (loop_enter E CANDIDATE) r = InCandidate \<lparr>voteGranted = 1, switchMaster = False\<rparr>"
  using sendRequestVote_asks [of M r E]
  by (simp_all add: loop_enter_def Candidate_enter_def case_prod_beta)

text \<open>What the node is after a step, and its mail: three ways.\<close>

definition mail_quiet :: "string set \<Rightarrow> 'w raft \<Rightarrow> 'w raft \<Rightarrow> bool" where
  "mail_quiet M r s \<longleftrightarrow> (\<exists>ms. mail s = mail r @ ms \<and> (\<forall>m \<in> set ms. beats M (r_ViewID s) m))"

definition mail_asks :: "string set \<Rightarrow> 'w raft \<Rightarrow> 'w raft \<Rightarrow> bool" where
  "mail_asks M r s \<longleftrightarrow> r_votedFor s = noVote \<and> r_ViewID s = r_ViewID r + 1 \<and>
     (\<exists>qs. mail s = mail r @ map (\<lambda>(p, q). OutRequestVote p q) qs \<and> distinct (map fst qs) \<and>
        set (map fst qs) \<subseteq> M - {r_id s} \<and> (\<forall>x \<in> set qs. GetViewID (snd x) = r_ViewID s \<and> GetFrom (snd x) = r_id s))"

definition sits :: "string set \<Rightarrow> 'w raft \<Rightarrow> 'w raft \<Rightarrow> bool" where
  "sits M r s \<longleftrightarrow> r_id s = r_id r \<and> r_mysqlReplMode s = r_mysqlReplMode r \<and> seated M s"

lemma steady_sits: "steady M r s \<Longrightarrow> seated M r \<Longrightarrow> sits M r s \<and> mail s = mail r"
  by (simp add: steady_def sits_def)

lemma asks_mail: "asks_votes M r s \<Longrightarrow> seated M r \<Longrightarrow> sits M r s \<and> mail_asks M r s"
  by (fastforce simp: asks_votes_def sits_def mail_asks_def requests_of_def ballot_def seated_def)

lemma beats_mail:
  "sends_beats M r s \<Longrightarrow> seated M r \<Longrightarrow> [] \<notin> M \<Longrightarrow> sits M r s \<and> mail_quiet M r s \<and> ballot s = ballot r"
  by (auto simp: sends_beats_def sits_def mail_quiet_def ballot_def)

lemma settle_post:
  assumes "seated M r" "[] \<notin> M"
  obtains (stay) "val_of (settle_raft E l) r = l" "ballot (exec_of (settle_raft E l) r) = ballot r"
      "sits M r (exec_of (settle_raft E l) r)" "mail (exec_of (settle_raft E l) r) = mail r"
      "l = Stopped \<or> r_state (exec_of (settle_raft E l) r) = loop_state l"
  | (vote) "val_of (settle_raft E l) r = InCandidate \<lparr>voteGranted = 1, switchMaster = False\<rparr>"
      "\<And>v. l \<noteq> InCandidate v" "sits M r (exec_of (settle_raft E l) r)"
      "mail_asks M r (exec_of (settle_raft E l) r)"
  | (other) "\<And>v. val_of (settle_raft E l) r \<noteq> InCandidate v" "ballot (exec_of (settle_raft E l) r) = ballot r"
      "sits M r (exec_of (settle_raft E l) r)" "mail_quiet M r (exec_of (settle_raft E l) r)"
proof (cases rule: settle_cases [of r l E])
  case (stay h)
  show ?thesis
    using stay(2,3) steady_sits [OF head_post(1) [OF stay(1)] assms(1)] head_post(2) [OF stay(1)] that(1) by simp
next
  case (move h x)
  note h = head_post(1) [OF move(1), of M] head_post(2) [OF move(1)]
  have x: "steady M h x" "ballot x = ballot h"
    unfolding move(2) by (simp_all add: steady.eff_run [OF exit_steady] keeps_run [OF exits_ballot])
  have rx: "sits M r x" "mail x = mail r" "ballot x = ballot r" "seated M x"
    using h x assms(1) by (auto simp: steady_def sits_def)
  have tr: "sits M x s \<Longrightarrow> sits M r s" for s using rx(1) by (simp add: sits_def)
  show ?thesis
  proof (cases "r_state x = CANDIDATE")
    case True
    have "l \<noteq> InCandidate v" for v
      using True move(2,4) by (auto simp: loop_exit_def)
    moreover have "mail_asks M r s" if "mail_asks M x s" for s
      using that rx by (auto simp: mail_asks_def ballot_def)
    ultimately show ?thesis
      using that(2) True enter_candidate(1) [where M = M and r = x and E = E] enter_candidate(2) [where r = x and E = E] asks_mail [OF _ rx(4)] tr unfolding move(5) by simp
  next
    case False
    have c: "val_of (loop_enter E (r_state x)) x \<noteq> InCandidate v" for v
      using enter_loop [of E "r_state x" x] False by auto
    have q: "mail_quiet M r s" if "mail_quiet M x s" for s
      using that rx by (simp add: mail_quiet_def)
    show ?thesis
    proof (cases "r_state x = LEADER")
      case True
      with beats_mail [OF enter_leader rx(4) assms(2)] show ?thesis
        using that(3) c tr rx(3) q unfolding move(5) by simp
    next
      case notleader: False
      note enter = enter_quiet [OF False notleader, of M E] enter_quiet_ballot [OF False notleader, of E]
      let ?s = "exec_of (loop_enter E (r_state x)) x"
      have "sits M x ?s" "mail ?s = mail r @ []"
        using steady_sits [OF steady.eff_run [OF enter(1)] rx(4)] rx(2) by simp_all
      then have "sits M r ?s" "mail_quiet M r ?s"
        using tr unfolding mail_quiet_def by (blast, intro exI [of _ "[]"]) simp
      then show ?thesis
        using that(3) c rx(3) keeps_run [OF enter(2), of x] unfolding move(5) by simp
    qed
  qed
qed


subsection \<open>One step\<close>

lemma loop_event_kind: "loop_state (val_of (loop_event E l ev) r) = loop_state l"
  by (cases l; cases ev) (simp_all add: loop_event_def case_prod_beta)

lemma elect_event:
  assumes "seated M r" "l = InCandidate v" "ev = EvElectionTick"
  shows "val_of (loop_event E l ev) r = InCandidate (v\<lparr>voteGranted := 1\<rparr>)"
    "sits M r (exec_of (loop_event E l ev) r)" "mail_asks M r (exec_of (loop_event E l ev) r)"
    "r_state (exec_of (loop_event E l ev) r) = r_state r"
proof -
  have "moves_to {} r (exec_of (Candidate_sendRequestVote E) r)"
    by (rule moves_to.eff_run [OF send_moves])
  then show "val_of (loop_event E l ev) r = InCandidate (v\<lparr>voteGranted := 1\<rparr>)"
    "sits M r (exec_of (loop_event E l ev) r)" "mail_asks M r (exec_of (loop_event E l ev) r)"
    "r_state (exec_of (loop_event E l ev) r) = r_state r"
    using asks_mail [OF sendRequestVote_asks [of M r E] assms(1)]
    by (simp_all add: loop_event_def Candidate_electionTick_def case_prod_beta assms(2,3) moves_to_def)
qed

lemma tick_event:
  assumes "seated M r" "[] \<notin> M" "l = InLeader v" "ev = EvHeartbeatTick"
  shows "sits M r (exec_of (loop_event E l ev) r)" "mail_quiet M r (exec_of (loop_event E l ev) r)"
  using tick_sends [OF assms(2,1), of E v]
  by (simp_all add: loop_event_def case_prod_beta assms(3,4) Let_def sits_def mail_quiet_def)

text \<open>A step begins a round of voting: the node broadcasts its requests.\<close>

definition new_round :: "event \<Rightarrow> 'w node \<Rightarrow> 'w node \<Rightarrow> bool" where
  "new_round ev n n' = (loop_state (n_loop n') = CANDIDATE \<and>
     (ev = EvElectionTick \<or> loop_state (n_loop n) \<noteq> CANDIDATE))"

lemma fixed_family: "family_event M ev \<Longrightarrow> fixed_members ev"
  by (cases ev) (auto simp: family_event_def fixed_members_def)

text \<open>The first half of a step: the loop's part and what happens outside of it.\<close>

definition halfway :: "'w dbenv \<Rightarrow> event \<Rightarrow> 'w node \<Rightarrow> 'w raft" where
  "halfway E ev n = exec_of (outside_event E ev) (exec_of (loop_event E (n_loop n) ev) (n_raft n))"

definition halfway_loop :: "'w dbenv \<Rightarrow> event \<Rightarrow> 'w node \<Rightarrow> loop" where
  "halfway_loop E ev n = val_of (loop_event E (n_loop n) ev) (n_raft n)"

lemma step_halves:
  "n_raft (node_step E ev n) = exec_of (settle_raft E (halfway_loop E ev n)) (halfway E ev n)"
  "n_loop (node_step E ev n) = val_of (settle_raft E (halfway_loop E ev n)) (halfway E ev n)"
  by (simp_all add: node_step_fields halfway_def halfway_loop_def)

lemma mail_quiet_same: "mail s = mail r \<Longrightarrow> mail_quiet M r s"
  unfolding mail_quiet_def by (intro exI [of _ "[]"]) simp

lemma first_half:
  assumes "seated M (n_raft n)" "[] \<notin> M" "settled n" "family_event M ev"
  obtains (elect) v where "n_loop n = InCandidate v" "ev = EvElectionTick"
      "halfway_loop E ev n = InCandidate (v\<lparr>voteGranted := 1\<rparr>)" "sits M (n_raft n) (halfway E ev n)"
      "mail_asks M (n_raft n) (halfway E ev n)" "r_state (halfway E ev n) = CANDIDATE"
  | (quiet) "\<And>v. n_loop n = InCandidate v \<Longrightarrow> ev \<noteq> EvElectionTick"
      "sits M (n_raft n) (halfway E ev n)" "mail_quiet M (n_raft n) (halfway E ev n)"
proof -
  let ?r = "exec_of (loop_event E (n_loop n) ev) (n_raft n)"
  have out: "steady M ?r (halfway E ev n)" "ballot (halfway E ev n) = ballot ?r"
    unfolding halfway_def
    by (simp_all add: steady.eff_run [OF outside_steady [OF fixed_family [OF assms(4)]]] outside_ballot_run)
  have fin: thesis if "\<And>v. n_loop n = InCandidate v \<Longrightarrow> ev \<noteq> EvElectionTick"
    "sits M (n_raft n) ?r" "mail_quiet M (n_raft n) ?r"
    using quiet that out by (auto simp: sits_def steady_def mail_quiet_def ballot_def)
  consider v where "n_loop n = InCandidate v" "ev = EvElectionTick"
    | v where "n_loop n = InLeader v" "ev = EvHeartbeatTick"
    | "\<And>v. n_loop n = InCandidate v \<Longrightarrow> ev \<noteq> EvElectionTick" "\<And>v. n_loop n = InLeader v \<Longrightarrow> ev \<noteq> EvHeartbeatTick"
    by blast
  then show ?thesis
  proof cases
    case 1
    note el = elect_event [OF assms(1) 1, of E]
    have "halfway E ev n = ?r" by (simp add: 1 halfway_def outside_event_def)
    with el assms(3) 1 show ?thesis
      by (intro elect [of v]) (simp_all add: halfway_loop_def settled_def)
  next
    case 2
    with tick_event [OF assms(1,2) 2, of E] show ?thesis by (intro fin) simp_all
  next
    case 3
    from steady_sits [OF steady.eff_run [OF loop_event_steady [OF assms(4) 3]] assms(1)] 3(1) show ?thesis
      by (intro fin) (auto intro: mail_quiet_same)
  qed
qed


definition vote_calls :: "string set \<Rightarrow> 'w raft \<Rightarrow> (string \<times> RaftRPCRequest) list \<Rightarrow> bool" where
  "vote_calls M s qs \<longleftrightarrow> distinct (map fst qs) \<and> set (map fst qs) \<subseteq> M - {r_id s} \<and>
     (\<forall>x \<in> set qs. GetViewID (snd x) = r_ViewID s \<and> GetFrom (snd x) = r_id s)"

lemma mail_asks_calls:
  "mail_asks M r s \<longleftrightarrow> r_votedFor s = noVote \<and> r_ViewID s = r_ViewID r + 1 \<and>
     (\<exists>qs. mail s = mail r @ map (\<lambda>(p, q). OutRequestVote p q) qs \<and> vote_calls M s qs)"
  by (auto simp: mail_asks_def vote_calls_def)

lemma sits_trans: "sits M r s \<Longrightarrow> sits M s t \<Longrightarrow> sits M r t"
  by (simp add: sits_def)

lemma step_post:
  fixes E :: "'w dbenv" and n :: "'w node"
  assumes "seated M (n_raft n)" "[] \<notin> M" "settled n" "family_event M ev" "mail (n_raft n) = []"
  defines "n' \<equiv> node_step E ev n"
  obtains (round) w ms qs where "new_round ev n n'" "n_loop n' = InCandidate w" "voteGranted w = 1"
      "sits M (n_raft n) (n_raft n')" "r_votedFor (n_raft n') = noVote"
      "r_ViewID (n_raft n') \<in> {r_ViewID (n_raft n) + 1, r_ViewID (halfway E ev n) + 1}"
      "mail (n_raft n') = ms @ map (\<lambda>(p, q). OutRequestVote p q) qs" "vote_calls M (n_raft n') qs"
      "\<forall>m \<in> set ms. beats M (r_ViewID (halfway E ev n)) m"
  | (quiet) "\<not> new_round ev n n'" "sits M (n_raft n) (n_raft n')"
      "\<forall>m \<in> set (mail (n_raft n')). beats M (r_ViewID (halfway E ev n)) m \<or> beats M (r_ViewID (n_raft n')) m"
      "ballot (n_raft n') = ballot (halfway E ev n)"
      "\<And>w. n_loop n' = InCandidate w \<Longrightarrow> halfway_loop E ev n = InCandidate w"
proof (cases rule: first_half [OF assms(1-4), of E])
  case elect: (1 v)
  have "run_state (settle_raft E (halfway_loop E ev n)) (halfway E ev n) = (halfway_loop E ev n, halfway E ev n)"
    using elect(3,6) by (simp add: settle_raft_def Raft_getState_def loop_head_def case_prod_beta whenM_def)
  then have step: "n_raft n' = halfway E ev n" "n_loop n' = InCandidate (v\<lparr>voteGranted := 1\<rparr>)"
    using elect(3) by (simp_all add: n'_def step_halves)
  from elect(5) assms(5) obtain qs where "mail (n_raft n') = [] @ map (\<lambda>(p, q). OutRequestVote p q) qs"
    "vote_calls M (n_raft n') qs" "r_votedFor (n_raft n') = noVote" "r_ViewID (n_raft n') = r_ViewID (n_raft n) + 1"
    by (auto simp: mail_asks_calls step(1))
  then show ?thesis
    using elect(2,4) step by (intro round [of "v\<lparr>voteGranted := 1\<rparr>" "[]" qs]) (simp_all add: new_round_def)
next
  case q: 2
  let ?h = "halfway E ev n" and ?l = "halfway_loop E ev n"
  have kind: "loop_state ?l = loop_state (n_loop n)" by (simp add: halfway_loop_def loop_event_kind)
  from q(3) assms(5) obtain ms where ms: "mail ?h = ms" "\<forall>m \<in> set ms. beats M (r_ViewID ?h) m"
    by (auto simp: mail_quiet_def)
  have seat: "seated M ?h" using q(2) by (simp add: sits_def)
  have old: "loop_state (n_loop n) = CANDIDATE \<Longrightarrow> ev \<noteq> EvElectionTick"
    using q(1) by (cases "n_loop n") auto
  show ?thesis
  proof (cases rule: settle_post [OF seat assms(2), of E ?l])
    case stay: 1
    then have "n_raft n' = exec_of (settle_raft E ?l) ?h" "n_loop n' = ?l" by (simp_all add: n'_def step_halves)
    then show ?thesis
      using stay ms q(2) kind old by (intro quiet) (auto simp: new_round_def intro: sits_trans)
  next
    case vote: 2
    have n': "n_raft n' = exec_of (settle_raft E ?l) ?h" "n_loop n' = InCandidate \<lparr>voteGranted = 1, switchMaster = False\<rparr>"
      using vote(1) by (simp_all add: n'_def step_halves)
    from vote(4) obtain qs where "mail (n_raft n') = ms @ map (\<lambda>(p, q). OutRequestVote p q) qs"
      "vote_calls M (n_raft n') qs" "r_votedFor (n_raft n') = noVote" "r_ViewID (n_raft n') = r_ViewID ?h + 1"
      unfolding mail_asks_calls ms(1) n' by auto
    moreover have "loop_state (n_loop n) \<noteq> CANDIDATE"
      using vote(2) kind by (cases ?l) auto
    ultimately show ?thesis
      using vote(3) q(2) n' ms by (intro round [of "\<lparr>voteGranted = 1, switchMaster = False\<rparr>" ms qs])
        (auto simp: new_round_def intro: sits_trans)
  next
    case other: 3
    have n': "n_raft n' = exec_of (settle_raft E ?l) ?h" "n_loop n' = val_of (settle_raft E ?l) ?h"
      by (simp_all add: n'_def step_halves)
    have no: "n_loop n' \<noteq> InCandidate v" for v using other(1) n' by simp
    then have "loop_state (n_loop n') \<noteq> CANDIDATE" by (cases "n_loop n'") auto
    then have rnd: "\<not> new_round ev n n'" by (simp add: new_round_def)
    have "\<forall>m \<in> set (mail (n_raft n')). beats M (r_ViewID ?h) m \<or> beats M (r_ViewID (n_raft n')) m"
      using other(4) ms unfolding n' mail_quiet_def by auto
    with rnd show ?thesis
      using other(2,3) q(2) no by (intro quiet) (simp_all add: n' sits_trans [of M "n_raft n" ?h])
  qed
qed

text \<open>The view of a step that does not take over the view of a denial.\<close>

definition denied :: "event \<Rightarrow> 'w node \<Rightarrow> bool" where
  "denied ev n = (case ev of EvVoteResponse rsp \<Rightarrow>
       RetCode rsp = ErrorInvalidViewID \<and> loop_state (n_loop n) = CANDIDATE | _ \<Rightarrow> False)"

definition request_view :: "nat \<Rightarrow> event \<Rightarrow> bool" where
  "request_view V ev = (case ev of EvRequest msg req \<Rightarrow> unat (GetViewID req) \<le> V | _ \<Rightarrow> True)"

lemma step_set_goes_on:
  assumes "c \<in> step_set ev b" "request_view V ev" "unat (fst b) < 2 ^ 63"
    and "\<And>rsp. ev = EvVoteResponse rsp \<Longrightarrow> RetCode rsp \<noteq> ErrorInvalidViewID"
  shows "forward b c \<and> unat (fst c) \<le> max V (unat (fst b) + 2)"
  using assms view_plus [OF assms(3)]
  by (cases ev)
     (auto simp: step_set_def forward_def request_view_def hb_set_def vote_set_def denial_set_def
        split: if_splits)

lemma halfway_ballot:
  "ballot (halfway E ev n) = ballot (exec_of (loop_event E (n_loop n) ev) (n_raft n))"
  by (simp add: halfway_def outside_ballot_run)

lemma halfway_forward:
  assumes "\<not> denied ev n" "request_view V ev" "unat (r_ViewID (n_raft n)) < 2 ^ 63" "V < 2 ^ 63"
  shows "forward (ballot (n_raft n)) (ballot (halfway E ev n)) \<and>
         unat (r_ViewID (halfway E ev n)) \<le> max V (unat (r_ViewID (n_raft n)) + 2)"
proof -
  have view: "r_ViewID r = fst (ballot r)" for r :: "'a raft" by (simp add: ballot_def)
  have small: "unat (fst (ballot (n_raft n))) < 2 ^ 63" using assms(3) by (simp add: ballot_def)
  show ?thesis
  proof (cases "\<exists>rsp. ev = EvVoteResponse rsp \<and> RetCode rsp = ErrorInvalidViewID")
    case True
    with assms(1) have "exec_of (loop_event E (n_loop n) ev) (n_raft n) = n_raft n"
      by (cases "n_loop n") (auto simp: denied_def loop_event_def)
    then show ?thesis unfolding view halfway_ballot by simp
  next
    case False
    have "ballot (exec_of (loop_event E (n_loop n) ev) (n_raft n)) \<in> step_set ev (ballot (n_raft n))"
      by (rule moves_run, rule moves_loop_event [OF small])
         (use assms(2,4) in \<open>auto simp: request_view_def\<close>)
    from step_set_goes_on [OF this assms(2) small] False show ?thesis
      unfolding view halfway_ballot by auto
  qed
qed

lemma halfway_denied:
  assumes "denied ev n"
  obtains rsp v where "ev = EvVoteResponse rsp" "n_loop n = InCandidate v"
    "ballot (halfway E ev n) = (ViewID (rsp_Raft rsp), noVote)"
proof -
  obtain rsp v where ev: "ev = EvVoteResponse rsp" "RetCode rsp = ErrorInvalidViewID" "n_loop n = InCandidate v"
    using assms by (cases ev; cases "n_loop n") (auto simp: denied_def)
  have "ballot (exec_of (Candidate_response v rsp) (n_raft n)) \<in> denial_set rsp (ballot (n_raft n))"
    by (rule moves_run [OF moves_candidate_response])
  with ev have "ballot (halfway E ev n) = (ViewID (rsp_Raft rsp), noVote)"
    by (simp add: halfway_ballot loop_event_def case_prod_beta denial_set_def)
  with ev(1,3) show ?thesis by (rule that)
qed

text \<open>
  The ballot over a whole step: it goes forward, or a candidate takes over the view of a
  denial; a round of voting is of a view that is new to the node.
\<close>

lemma step_turn:
  fixes E :: "'w dbenv" and n :: "'w node"
  assumes seat: "seated M (n_raft n)" "[] \<notin> M" "settled n" "family_event M ev" "mail (n_raft n) = []"
    and bound: "request_view V ev" "unat (r_ViewID (n_raft n)) \<le> V" "V + 3 < 2 ^ 63"
    and low: "c \<le> r_ViewID (n_raft n)"
    and denial: "\<And>rsp. denied ev n \<Longrightarrow> ev = EvVoteResponse rsp \<Longrightarrow>
        c \<le> ViewID (rsp_Raft rsp) \<and> unat (ViewID (rsp_Raft rsp)) \<le> V"
  defines "n' \<equiv> node_step E ev n"
  shows "c \<le> r_ViewID (n_raft n')" "unat (r_ViewID (n_raft n')) \<le> V + 3" "unat (r_ViewID (halfway E ev n)) \<le> V + 2"
    and "\<not> denied ev n \<Longrightarrow> forward (ballot (n_raft n)) (ballot (n_raft n'))"
    and "new_round ev n n' \<Longrightarrow> r_ViewID (n_raft n) < r_ViewID (n_raft n')"
proof -
  let ?h = "halfway E ev n"
  have small: "unat (r_ViewID (n_raft n)) < 2 ^ 63" "V < 2 ^ 63" using bound by simp_all
  have half: "unat (r_ViewID ?h) \<le> V + 2 \<and> c \<le> r_ViewID ?h \<and>
      (\<not> denied ev n \<longrightarrow> forward (ballot (n_raft n)) (ballot ?h))"
  proof (cases "denied ev n")
    case True
    then obtain rsp v where ev: "ev = EvVoteResponse rsp" and "ballot ?h = (ViewID (rsp_Raft rsp), noVote)"
      by (rule halfway_denied)
    then have "r_ViewID ?h = ViewID (rsp_Raft rsp)" by (simp add: ballot_def)
    then show ?thesis using denial [OF True ev] True by simp
  next
    case False
    from halfway_forward [OF False bound(1) small, of E] bound(2) low show ?thesis
      by (auto simp: forward_def ballot_def)
  qed
  then show "unat (r_ViewID ?h) \<le> V + 2" by blast
  have up: "unat (r_ViewID ?h) < 2 ^ 63" using half bound(3) by simp
  have go: "c \<le> r_ViewID (n_raft n') \<and> unat (r_ViewID (n_raft n')) \<le> V + 3 \<and>
      (\<not> denied ev n \<longrightarrow> forward (ballot (n_raft n)) (ballot (n_raft n')))"
    using settle_forward [OF up, of E "halfway_loop E ev n"] half
    unfolding n'_def step_halves by (auto simp: forward_def ballot_def)
  then show "c \<le> r_ViewID (n_raft n')" "unat (r_ViewID (n_raft n')) \<le> V + 3"
    "\<not> denied ev n \<Longrightarrow> forward (ballot (n_raft n)) (ballot (n_raft n'))" by auto
  assume new: "new_round ev n n'"
  then have nd: "\<not> denied ev n" by (cases ev) (auto simp: new_round_def denied_def)
  have "r_ViewID (n_raft n') \<in> {r_ViewID (n_raft n) + 1, r_ViewID ?h + 1}"
    by (rule step_post [OF seat, of E]) (use new in \<open>auto simp: n'_def\<close>)
  moreover have "r_ViewID (n_raft n) \<le> r_ViewID ?h"
    using half nd by (auto simp: forward_def ballot_def)
  ultimately show "r_ViewID (n_raft n) < r_ViewID (n_raft n')"
    using view_plus(1) [OF small(1)] view_plus(1) [OF up] by auto
qed


subsection \<open>Votes given, votes counted\<close>

text \<open>A node that grants a vote is a follower after the step.\<close>

lemma settle_follower:
  assumes "r_state r = FOLLOWER" "l \<noteq> Stopped"
  shows "loop_state (val_of (settle_raft E l) r) = FOLLOWER"
proof (cases rule: settle_cases [of r l E])
  case (stay h)
  show ?thesis
  proof (cases "r_state r = loop_state l")
    case True
    with stay(3) assms(1) show ?thesis by simp
  next
    case False
    with stay(1,2,3) assms show ?thesis by auto
  qed
next
  case (move h x)
  have "moves_to {FOLLOWER} r h" unfolding move(1) by (rule moves_to.eff_run) (auto intro: head_moves)
  moreover have "moves_to {FOLLOWER} h x" unfolding move(2) by (rule moves_to.eff_run [OF exit_moves]) simp
  ultimately have "r_state x = FOLLOWER" using assms(1) by (auto simp: moves_to_def)
  with move(5) enter_loop [of E FOLLOWER x] show ?thesis
    by (auto simp: loop_enter_def case_prod_beta)
qed

lemma Leader_request_state:
  assumes "RetCode (val_of (Leader_processRequestVoteRequest E req) r) = OK"
  shows "r_state (exec_of (Leader_processRequestVoteRequest E req) r) = FOLLOWER"
proof -
  have "r_ViewID (exec_of k r) = r_ViewID r" if "state_io_rel (keeps ballot) k" for r :: "'a raft" and k :: "('a, 'b) rst"
    using keeps_run [OF that, of r] by (simp add: ballot_def)
  note view = this [OF on_mysql_ballot] this [OF Promotable_ballot]
  show ?thesis
    using assms
    by (auto simp: Leader_processRequestVoteRequest_def Leader_vote_def Leader_degradeToFollower_def Let_def
        case_prod_beta view stats_defs upd_stats_def Raft_setState_def split: option.splits if_splits)
qed

lemma granted_state:
  assumes "(v, a) \<in> set (granted E ev n)" "settled n"
  shows "r_state (halfway E ev n) = FOLLOWER" "halfway_loop E ev n \<noteq> Stopped"
proof -
  obtain req where ev: "ev = EvRequest MsgRaftRequestVote req"
    and st: "voting_state (loop_state (n_loop n))"
    and ok: "RetCode (val_of (process_request E (loop_state (n_loop n)) MsgRaftRequestVote req) (n_raft n)) = OK"
    using granted_request [OF assms(1)] by blast
  have "r_state (exec_of (process_request E (loop_state (n_loop n)) MsgRaftRequestVote req) (n_raft n)) = FOLLOWER"
  proof (cases "loop_state (n_loop n) = FOLLOWER")
    case True
    then have "r_state (n_raft n) = FOLLOWER" using assms(2) by (auto simp: settled_def)
    moreover have "moves_to {FOLLOWER} (n_raft n)
        (exec_of (Follower_processRequestVoteRequest E req) (n_raft n))"
      by (rule moves_to.eff_run [OF vote_moves(1)]) simp
    ultimately show ?thesis using True by (auto simp: process_request_def moves_to_def)
  next
    case False
    then show ?thesis
      using st ok Candidate_request_state [of E req "n_raft n"] Leader_request_state [of E req "n_raft n"]
      by (auto simp: process_request_def voting_state_def)
  qed
  then show "r_state (halfway E ev n) = FOLLOWER" "halfway_loop E ev n \<noteq> Stopped"
    using st by (cases "n_loop n"; simp add: halfway_def halfway_loop_def ev loop_event_def outside_event_def
        voting_state_def case_prod_beta)+
qed

lemma granted_follower:
  assumes "(v, a) \<in> set (granted E ev n)" "settled n"
  shows "loop_state (n_loop (node_step E ev n)) = FOLLOWER"
  unfolding step_halves by (rule settle_follower [OF granted_state [OF assms]])

text \<open>What the answer to a vote request says.\<close>

lemma vote_header:
  "rsp_Raft (val_of (Follower_vote E req rsp) r) = rsp_Raft rsp"
  "rsp_Raft (val_of (Candidate_vote req rsp) r) = rsp_Raft rsp"
  "rsp_Raft (val_of (Leader_vote E req rsp) r) = rsp_Raft rsp"
  by (simp_all add: Follower_vote_def Candidate_vote_def Leader_vote_def case_prod_beta Let_def)

lemma base_header: "rsp_Raft (base_response r code) = rsp_Raft (base_response r OK)"
  by (simp add: base_response_def NewRaftRPCResponse_def)

lemma answer_header:
  "rsp_Raft (val_of (process_request E st MsgRaftRequestVote req) r) = rsp_Raft (base_response r OK)"
  by (cases st) (simp_all add: process_request_def vote_defs vote_header case_prod_beta Let_def base_header [of r ErrorInvalidRequest]
      base_header [of r ErrorVoteNotGranted]
      split: option.split)

lemma answer_fields:
  "ViewID (rsp_Raft (val_of (process_request E st MsgRaftRequestVote req) r)) = r_ViewID r"
  "StateName (rsp_Raft (val_of (process_request E st MsgRaftRequestVote req) r)) = State_String (r_state r)"
  unfolding answer_header by (simp_all add: base_response_def NewRaftRPCResponse_def)

lemma answer_denial:
  assumes "RetCode (val_of (process_request E st MsgRaftRequestVote req) r) = ErrorInvalidViewID"
  shows "GetViewID req \<le> r_ViewID r"
proof -
  have codes: "ErrorInvalidRequest \<noteq> ErrorInvalidViewID" "ErrorMySQLDown \<noteq> ErrorInvalidViewID"
    "ErrorInvalidGTID \<noteq> ErrorInvalidViewID" "ErrorVoteNotGranted \<noteq> ErrorInvalidViewID"
    "ErrorMGRAlreadyRunningOK \<noteq> ErrorInvalidViewID" "OK \<noteq> ErrorInvalidViewID"
    by (simp_all add: OK_def ErrorInvalidRequest_def ErrorMySQLDown_def ErrorInvalidGTID_def
        ErrorVoteNotGranted_def ErrorMGRAlreadyRunningOK_def ErrorInvalidViewID_def)
  show ?thesis
    using assms codes
    by (cases st) (auto simp: process_request_def vote_defs Follower_vote_def Candidate_vote_def
        Leader_vote_def Let_def case_prod_beta split: option.splits if_splits)
qed

text \<open>The answers that count in semi-sync mode with at least three members.\<close>

definition vote_ok :: "RaftRPCResponse \<Rightarrow> bool" where
  "vote_ok rsp = (RetCode rsp = OK \<and> StateName (rsp_Raft rsp) \<noteq> State_String IDLE)"

lemma response_count:
  assumes "r_mysqlReplMode r = ReplModeSemiSync" "3 \<le> getMembers r"
  shows "voteGranted (val_of (Candidate_processRequestVoteResponse v rsp) r) =
     voteGranted v + (if vote_ok rsp then 1 else 0)"
proof -
  have "ReplModeSemiSync \<noteq> ReplModeMGR" by (simp add: ReplModeSemiSync_def ReplModeMGR_def)
  with assms show ?thesis
    by (simp add: Candidate_processRequestVoteResponse_def vote_ok_def case_prod_beta)
qed

end
