(* ===== verification/RaftCluster.thy ===== *)
theory RaftCluster
  imports RaftPost
begin

section \<open>A cluster of nodes that elects\<close>

text \<open>
  The nodes of a cluster with the fixed membership \<open>M\<close>, each as \<open>RaftNode\<close> models it over
  its own MySQL, and the messages between them. A vote request that a candidate's broadcast
  puts into the outbox becomes a call: \<open>Peer_sendRequestVote\<close> waits for its answer, which
  goes to the response channel of that broadcast and to no other. A heartbeat may arrive
  late, more than once or never; so may a vote request or its answer be lost. The answers to
  heartbeats and pings, which no election depends on, are arbitrary.

  \<open>cl_round\<close>, \<open>cl_counted\<close> and \<open>cl_granted\<close> are histories: the view of a node's latest
  broadcast, the peers whose votes it has counted since, and every vote granted so far.
\<close>

record vcall =
  vc_from :: string
  vc_to :: string
  vc_req :: RaftRPCRequest
  vc_answer :: "RaftRPCResponse option"

record 'w cluster =
  cl_node :: "string \<Rightarrow> 'w node"
  cl_calls :: "vcall list"
  cl_beats :: "(string \<times> RaftRPCRequest) list"
  cl_round :: "string \<Rightarrow> 64 word"
  cl_counted :: "string \<Rightarrow> string list"
  cl_granted :: "(string \<times> 64 word \<times> string) list"

definition call_key :: "vcall \<Rightarrow> string \<times> string \<times> 64 word" where
  "call_key x = (vc_from x, vc_to x, GetViewID (vc_req x))"

primrec calls_in :: "string \<Rightarrow> outmsg list \<Rightarrow> vcall list" where
  "calls_in i [] = []"
| "calls_in i (m # ms) = (case m of
       OutRequestVote p q \<Rightarrow> [\<lparr>vc_from = i, vc_to = p, vc_req = q, vc_answer = None\<rparr>]
     | _ \<Rightarrow> []) @ calls_in i ms"

primrec beats_in :: "outmsg list \<Rightarrow> (string \<times> RaftRPCRequest) list" where
  "beats_in [] = []"
| "beats_in (m # ms) = (case m of OutHeartbeat p q \<Rightarrow> [(p, q)] | _ \<Rightarrow> []) @ beats_in ms"

text \<open>An answer that the candidate counts.\<close>

definition counts :: "event \<Rightarrow> 'w node \<Rightarrow> bool" where
  "counts ev n = (case ev of EvVoteResponse rsp \<Rightarrow> loop_state (n_loop n) = CANDIDATE \<and> vote_ok rsp | _ \<Rightarrow> False)"

definition answerer :: "event \<Rightarrow> string" where
  "answerer ev = (case ev of EvVoteResponse rsp \<Rightarrow> From (rsp_Raft rsp) | _ \<Rightarrow> [])"

text \<open>One event at one node; the network takes what is in its outbox.\<close>

definition deliver :: "'w dbenv \<Rightarrow> event \<Rightarrow> string \<Rightarrow> 'w cluster \<Rightarrow> 'w cluster" where
  "deliver E ev i c =
     (let n = cl_node c i; n' = node_step E ev n; out = mail (n_raft n')
      in c\<lparr>cl_node := (cl_node c)(i := n'\<lparr>n_raft := (n_raft n')\<lparr>r_outbox := []\<rparr>\<rparr>),
           cl_calls := cl_calls c @ calls_in i out,
           cl_beats := cl_beats c @ beats_in out,
           cl_round := (if new_round ev n n' then (cl_round c)(i := r_ViewID (n_raft n')) else cl_round c),
           cl_counted := (if new_round ev n n' then (cl_counted c)(i := [])
                          else if counts ev n then (cl_counted c)(i := answerer ev # cl_counted c i)
                          else cl_counted c),
           cl_granted := map (\<lambda>(v, a). (i, v, a)) (granted E ev n) @ cl_granted c\<rparr>)"

text \<open>
  What may happen at a node by itself: its timers, jobs, workers, pings of MySQL, HA RPCs and
  stop; any answer to a heartbeat or a ping; and the answers a candidate gives itself when a
  call fails or its MySQL cannot be asked.
\<close>

definition local_event :: "event \<Rightarrow> bool" where
  "local_event ev = (case ev of
       EvRequest msg req \<Rightarrow> False
     | EvMember p \<Rightarrow> False
     | EvVoteResponse rsp \<Rightarrow> RetCode rsp = ErrorRPCCall \<or> RetCode rsp = ErrorMySQLDown
     | _ \<Rightarrow> True)"

inductive cl_move :: "(string \<Rightarrow> 'w dbenv) \<Rightarrow> string set \<Rightarrow> 'w cluster \<Rightarrow> 'w cluster \<Rightarrow> bool"
  for D :: "string \<Rightarrow> 'w dbenv" and M :: "string set" where
  local: "i \<in> M \<Longrightarrow> local_event ev \<Longrightarrow> cl_move D M c (deliver (D i) ev i c)"
| beat: "j \<in> M \<Longrightarrow> (j, q) \<in> set (cl_beats c) \<Longrightarrow>
    cl_move D M c (deliver (D j) (EvRequest MsgRaftHeartbeat q) j c)"
| ask: "k < length (cl_calls c) \<Longrightarrow> x = cl_calls c ! k \<Longrightarrow> vc_answer x = None \<Longrightarrow>
    n = cl_node c (vc_to x) \<Longrightarrow> n_loop n \<noteq> Stopped \<Longrightarrow>
    rsp = val_of (process_request (D (vc_to x)) (loop_state (n_loop n)) MsgRaftRequestVote (vc_req x)) (n_raft n) \<Longrightarrow>
    c' = deliver (D (vc_to x)) (EvRequest MsgRaftRequestVote (vc_req x)) (vc_to x) c \<Longrightarrow>
    cl_move D M c (c'\<lparr>cl_calls := (cl_calls c')[k := x\<lparr>vc_answer := Some rsp\<rparr>]\<rparr>)"
| tell: "k < length (cl_calls c) \<Longrightarrow> x = cl_calls c ! k \<Longrightarrow> vc_answer x = Some rsp \<Longrightarrow>
    loop_state (n_loop (cl_node c (vc_from x))) = CANDIDATE \<Longrightarrow>
    GetViewID (vc_req x) = cl_round c (vc_from x) \<Longrightarrow>
    cl_move D M c (deliver (D (vc_from x)) (EvVoteResponse rsp) (vc_from x)
      (c\<lparr>cl_calls := take k (cl_calls c) @ drop (Suc k) (cl_calls c)\<rparr>))"

text \<open>
  The start: at least three members that know each other, in semi-sync mode, none of them
  candidate or leader, views up to \<open>V\<close>.
\<close>

definition cl_start :: "string set \<Rightarrow> nat \<Rightarrow> 'w cluster \<Rightarrow> bool" where
  "cl_start M V c \<longleftrightarrow> [] \<notin> M \<and> finite M \<and> 3 \<le> card M \<and> cl_calls c = [] \<and> cl_beats c = [] \<and> cl_granted c = [] \<and>
     (\<forall>i \<in> M. let n = cl_node c i in r_id (n_raft n) = i \<and> seated M (n_raft n) \<and>
        r_mysqlReplMode (n_raft n) = ReplModeSemiSync \<and> r_outbox (n_raft n) = [] \<and> settled n \<and>
        loop_state (n_loop n) \<noteq> CANDIDATE \<and> loop_state (n_loop n) \<noteq> LEADER \<and>
        unat (r_ViewID (n_raft n)) \<le> V \<and> cl_round c i = r_ViewID (n_raft n) \<and> cl_counted c i = [])"

inductive cl_reach :: "(string \<Rightarrow> 'w dbenv) \<Rightarrow> string set \<Rightarrow> nat \<Rightarrow> nat \<Rightarrow> 'w cluster \<Rightarrow> bool"
  for D :: "string \<Rightarrow> 'w dbenv" and M :: "string set" and V :: nat where
  start: "cl_start M V c \<Longrightarrow> cl_reach D M V 0 c"
| step: "cl_reach D M V n c \<Longrightarrow> cl_move D M c c' \<Longrightarrow> cl_reach D M V (Suc n) c'"


subsection \<open>The invariant\<close>

definition seats :: "string set \<Rightarrow> nat \<Rightarrow> 'w cluster \<Rightarrow> bool" where
  "seats M B c \<longleftrightarrow> [] \<notin> M \<and> finite M \<and> 3 \<le> card M \<and> (\<forall>i \<in> M. let n = cl_node c i in
     r_id (n_raft n) = i \<and> seated M (n_raft n) \<and> r_mysqlReplMode (n_raft n) = ReplModeSemiSync \<and>
     mail (n_raft n) = [] \<and> settled n \<and> unat (r_ViewID (n_raft n)) \<le> B \<and> cl_round c i \<le> r_ViewID (n_raft n))"

definition beats_ok :: "string set \<Rightarrow> nat \<Rightarrow> 'w cluster \<Rightarrow> bool" where
  "beats_ok M B c \<longleftrightarrow> (\<forall>x \<in> set (cl_beats c). family M (snd x) \<and> unat (GetViewID (snd x)) \<le> B)"

definition answer_ok :: "nat \<Rightarrow> 'w cluster \<Rightarrow> vcall \<Rightarrow> bool" where
  "answer_ok B c x \<longleftrightarrow> (case vc_answer x of None \<Rightarrow> True | Some rsp \<Rightarrow>
     From (rsp_Raft rsp) = vc_to x \<and>
     (vote_ok rsp \<longrightarrow> (vc_to x, GetViewID (vc_req x), vc_from x) \<in> set (cl_granted c)) \<and>
     (RetCode rsp = ErrorInvalidViewID \<longrightarrow>
        GetViewID (vc_req x) \<le> ViewID (rsp_Raft rsp) \<and> unat (ViewID (rsp_Raft rsp)) \<le> B))"

definition calls_ok :: "string set \<Rightarrow> nat \<Rightarrow> 'w cluster \<Rightarrow> bool" where
  "calls_ok M B c \<longleftrightarrow> distinct (map call_key (cl_calls c)) \<and> (\<forall>x \<in> set (cl_calls c).
     vc_from x \<in> M \<and> vc_to x \<in> M - {vc_from x} \<and> GetFrom (vc_req x) = vc_from x \<and>
     GetViewID (vc_req x) \<le> cl_round c (vc_from x) \<and> answer_ok B c x)"

definition running_for :: "'w node \<Rightarrow> bool" where
  "running_for n \<longleftrightarrow> loop_state (n_loop n) = CANDIDATE \<or> loop_state (n_loop n) = LEADER"

definition grants_ok :: "string set \<Rightarrow> 'w cluster \<Rightarrow> bool" where
  "grants_ok M c \<longleftrightarrow>
     (\<forall>j v a. (j, v, a) \<in> set (cl_granted c) \<longrightarrow> a \<noteq> noVote \<and> v \<le> r_ViewID (n_raft (cl_node c j)) \<and>
        (v = r_ViewID (n_raft (cl_node c j)) \<longrightarrow> r_votedFor (n_raft (cl_node c j)) = a) \<and>
        (running_for (cl_node c j) \<longrightarrow> v < cl_round c j)) \<and>
     (\<forall>j v a b. (j, v, a) \<in> set (cl_granted c) \<longrightarrow> (j, v, b) \<in> set (cl_granted c) \<longrightarrow> a = b)"

definition count_ok :: "string set \<Rightarrow> 'w cluster \<Rightarrow> bool" where
  "count_ok M c \<longleftrightarrow> (\<forall>i \<in> M. distinct (cl_counted c i) \<and>
     (\<forall>p \<in> set (cl_counted c i). p \<in> M - {i} \<and> (p, cl_round c i, i) \<in> set (cl_granted c) \<and>
        (i, p, cl_round c i) \<notin> call_key ` set (cl_calls c)) \<and>
     (\<forall>w. n_loop (cl_node c i) = InCandidate w \<longrightarrow> voteGranted w \<le> 1 + int (length (cl_counted c i))) \<and>
     (loop_state (n_loop (cl_node c i)) = LEADER \<longrightarrow> card M < 2 * (1 + length (cl_counted c i))))"

definition cl_inv :: "string set \<Rightarrow> nat \<Rightarrow> 'w cluster \<Rightarrow> bool" where
  "cl_inv M B c \<longleftrightarrow> seats M B c \<and> beats_ok M B c \<and> calls_ok M B c \<and> grants_ok M c \<and> count_ok M c"

lemma start_inv: "cl_start M V c \<Longrightarrow> cl_inv M V c"
  by (auto simp: cl_start_def cl_inv_def seats_def beats_ok_def calls_ok_def grants_ok_def count_ok_def
      mail_def Let_def)


subsection \<open>One event at one node\<close>

text \<open>What the invariant gives of an event that reaches the node \<open>i\<close>.\<close>

definition turn_ok :: "string set \<Rightarrow> nat \<Rightarrow> 'w cluster \<Rightarrow> string \<Rightarrow> event \<Rightarrow> bool" where
  "turn_ok M B c i ev \<longleftrightarrow> i \<in> M \<and> B + 3 < 2 ^ 63 \<and> family_event M ev \<and> request_view B ev \<and>
     (\<forall>q. ev = EvRequest MsgRaftRequestVote q \<longrightarrow> GetFrom q \<noteq> noVote) \<and>
     (\<forall>rsp. ev = EvVoteResponse rsp \<longrightarrow> loop_state (n_loop (cl_node c i)) = CANDIDATE \<longrightarrow>
        (RetCode rsp = ErrorInvalidViewID \<longrightarrow>
           cl_round c i \<le> ViewID (rsp_Raft rsp) \<and> unat (ViewID (rsp_Raft rsp)) \<le> B) \<and>
        (vote_ok rsp \<longrightarrow> From (rsp_Raft rsp) \<in> M - {i} \<and>
           (From (rsp_Raft rsp), cl_round c i, i) \<in> set (cl_granted c) \<and>
           From (rsp_Raft rsp) \<notin> set (cl_counted c i) \<and>
           (i, From (rsp_Raft rsp), cl_round c i) \<notin> call_key ` set (cl_calls c)))"

lemma deliver_other [simp]:
  "j \<noteq> i \<Longrightarrow> cl_node (deliver E ev i c) j = cl_node c j"
  "j \<noteq> i \<Longrightarrow> cl_round (deliver E ev i c) j = cl_round c j"
  "j \<noteq> i \<Longrightarrow> cl_counted (deliver E ev i c) j = cl_counted c j"
  by (simp_all add: deliver_def Let_def)

lemma deliver_self:
  "cl_node (deliver E ev i c) i = (node_step E ev (cl_node c i))
     \<lparr>n_raft := (n_raft (node_step E ev (cl_node c i)))\<lparr>r_outbox := []\<rparr>\<rparr>"
  "cl_round (deliver E ev i c) i = (if new_round ev (cl_node c i) (node_step E ev (cl_node c i))
     then r_ViewID (n_raft (node_step E ev (cl_node c i))) else cl_round c i)"
  "cl_counted (deliver E ev i c) i = (if new_round ev (cl_node c i) (node_step E ev (cl_node c i)) then []
     else if counts ev (cl_node c i) then answerer ev # cl_counted c i else cl_counted c i)"
  by (simp_all add: deliver_def Let_def)

lemma deliver_lists:
  "cl_calls (deliver E ev i c) = cl_calls c @ calls_in i (mail (n_raft (node_step E ev (cl_node c i))))"
  "cl_beats (deliver E ev i c) = cl_beats c @ beats_in (mail (n_raft (node_step E ev (cl_node c i))))"
  "cl_granted (deliver E ev i c) = map (\<lambda>(v, a). (i, v, a)) (granted E ev (cl_node c i)) @ cl_granted c"
  by (simp_all add: deliver_def Let_def)

lemma seatsD:
  assumes "seats M B c" "i \<in> M"
  shows "r_id (n_raft (cl_node c i)) = i" "seated M (n_raft (cl_node c i))" "settled (cl_node c i)"
    "r_mysqlReplMode (n_raft (cl_node c i)) = ReplModeSemiSync" "mail (n_raft (cl_node c i)) = []"
    "unat (r_ViewID (n_raft (cl_node c i))) \<le> B" "cl_round c i \<le> r_ViewID (n_raft (cl_node c i))"
    "[] \<notin> M" "finite M" "3 \<le> card M"
  using assms by (auto simp: seats_def Let_def)

text \<open>The lemmas on a node's step, at the node \<open>i\<close> of the cluster.\<close>

lemma turn_step:
  fixes E :: "'w dbenv" and c :: "'w cluster"
  assumes "seats M B c" "turn_ok M B c i ev"
  defines "n \<equiv> cl_node c i"
  defines "n' \<equiv> node_step E ev n"
  shows "cl_round c i \<le> r_ViewID (n_raft n')" "unat (r_ViewID (n_raft n')) \<le> B + 3"
    "unat (r_ViewID (halfway E ev n)) \<le> B + 2"
    and "\<not> denied ev n \<Longrightarrow> forward (ballot (n_raft n)) (ballot (n_raft n'))"
    and "new_round ev n n' \<Longrightarrow> r_ViewID (n_raft n) < r_ViewID (n_raft n')"
proof -
  have i: "i \<in> M" using assms(2) by (simp add: turn_ok_def)
  note seat = seatsD [OF assms(1) i, folded n_def]
  have den: "cl_round c i \<le> ViewID (rsp_Raft rsp) \<and> unat (ViewID (rsp_Raft rsp)) \<le> B"
    if "denied ev n" "ev = EvVoteResponse rsp" for rsp
    using assms(2) that by (auto simp: turn_ok_def denied_def n_def)
  have ev: "family_event M ev" "request_view B ev" "B + 3 < 2 ^ 63"
    using assms(2) by (auto simp: turn_ok_def)
  note turn = step_turn [OF seat(2,8,3) ev(1) seat(5) ev(2) seat(6) ev(3) seat(7) den, of E, folded n'_def]
  show "cl_round c i \<le> r_ViewID (n_raft n')" "unat (r_ViewID (n_raft n')) \<le> B + 3"
    "unat (r_ViewID (halfway E ev n)) \<le> B + 2"
    and "\<not> denied ev n \<Longrightarrow> forward (ballot (n_raft n)) (ballot (n_raft n'))"
    and "new_round ev n n' \<Longrightarrow> r_ViewID (n_raft n) < r_ViewID (n_raft n')"
    using turn by blast+
qed

lemma turn_mail:
  fixes E :: "'w dbenv" and c :: "'w cluster"
  assumes "seats M B c" "turn_ok M B c i ev"
  defines "n \<equiv> cl_node c i"
  defines "n' \<equiv> node_step E ev n"
  obtains (round) w ms qs where "new_round ev n n'" "n_loop n' = InCandidate w" "voteGranted w = 1"
      "sits M (n_raft n) (n_raft n')" "mail (n_raft n') = ms @ map (\<lambda>(p, q). OutRequestVote p q) qs"
      "vote_calls M (n_raft n') qs" "\<forall>m \<in> set ms. beats M (r_ViewID (halfway E ev n)) m"
  | (quiet) "\<not> new_round ev n n'" "sits M (n_raft n) (n_raft n')"
      "\<forall>m \<in> set (mail (n_raft n')). beats M (r_ViewID (halfway E ev n)) m \<or> beats M (r_ViewID (n_raft n')) m"
      "ballot (n_raft n') = ballot (halfway E ev n)"
      "\<And>w. n_loop n' = InCandidate w \<Longrightarrow> halfway_loop E ev n = InCandidate w"
proof -
  have i: "i \<in> M" and fam: "family_event M ev" using assms(2) by (auto simp: turn_ok_def)
  note seat = seatsD [OF assms(1) i, folded n_def]
  show thesis
    by (rule step_post [OF seat(2,8,3) fam seat(5), of E, folded n'_def])
       (use round quiet in \<open>blast+\<close>)
qed

lemma deliver_seats:
  assumes "seats M B c" "turn_ok M B c i ev"
  shows "seats M (B + 3) (deliver E ev i c)"
proof -
  let ?n = "cl_node c i" and ?c = "deliver E ev i c"
  let ?n' = "node_step E ev ?n"
  have i: "i \<in> M" using assms(2) by (simp add: turn_ok_def)
  note seat = seatsD [OF assms(1) i]
  note turn = turn_step [OF assms, of E]
  have sit: "sits M (n_raft ?n) (n_raft ?n')"
    by (rule turn_mail [OF assms, of E])
  have "settled ?n'" by (rule settled_step)
  then have self: "let n = cl_node ?c i in r_id (n_raft n) = i \<and> seated M (n_raft n) \<and>
     r_mysqlReplMode (n_raft n) = ReplModeSemiSync \<and> mail (n_raft n) = [] \<and> settled n \<and>
     unat (r_ViewID (n_raft n)) \<le> B + 3 \<and> cl_round ?c i \<le> r_ViewID (n_raft n)"
    using sit seat turn by (simp add: deliver_self Let_def sits_def seated_def mail_def settled_def)
  show ?thesis
    unfolding seats_def
  proof (intro conjI ballI)
    fix j assume "j \<in> M"
    then show "let n = cl_node ?c j in r_id (n_raft n) = j \<and> seated M (n_raft n) \<and>
       r_mysqlReplMode (n_raft n) = ReplModeSemiSync \<and> mail (n_raft n) = [] \<and> settled n \<and>
       unat (r_ViewID (n_raft n)) \<le> B + 3 \<and> cl_round ?c j \<le> r_ViewID (n_raft n)"
      using self seatsD [OF assms(1), of j] by (cases "j = i") (auto simp: Let_def)
  qed (use seat in auto)
qed

lemma beats_in_set: "(p, q) \<in> set (beats_in ms) \<longleftrightarrow> OutHeartbeat p q \<in> set ms"
  by (induction ms) (auto split: outmsg.splits)

lemma deliver_beats:
  assumes "seats M B c" "turn_ok M B c i ev" "beats_ok M B c"
  shows "beats_ok M (B + 3) (deliver E ev i c)"
proof -
  let ?n = "cl_node c i"
  let ?n' = "node_step E ev ?n"
  note turn = turn_step [OF assms(1,2), of E]
  have "family M q \<and> unat (GetViewID q) \<le> B + 3" if "OutHeartbeat p q \<in> set (mail (n_raft ?n'))" for p q
    by (rule turn_mail [OF assms(1,2), of E]) (use that turn in \<open>auto simp: beats_def\<close>)
  with assms(3) show ?thesis
    by (force simp: beats_ok_def deliver_lists beats_in_set)
qed


lemma calls_in_append: "calls_in i (xs @ ys) = calls_in i xs @ calls_in i ys"
  by (induction xs) simp_all

lemma calls_in_beats: "\<forall>m \<in> set ms. \<exists>v. beats M v m \<Longrightarrow> calls_in i ms = []"
  by (induction ms) (auto simp: beats_def)

lemma calls_in_votes: "calls_in i (map (\<lambda>(p, q). OutRequestVote p q) qs) =
    map (\<lambda>(p, q). \<lparr>vc_from = i, vc_to = p, vc_req = q, vc_answer = None\<rparr>) qs"
  by (induction qs) auto

text \<open>The calls of a step: none, or those of a new round.\<close>

lemma turn_calls:
  fixes E :: "'w dbenv" and c :: "'w cluster"
  assumes "seats M B c" "turn_ok M B c i ev"
  defines "n \<equiv> cl_node c i"
  defines "n' \<equiv> node_step E ev n"
  defines "new \<equiv> calls_in i (mail (n_raft n'))"
  shows "\<not> new_round ev n n' \<Longrightarrow> new = []"
    and "distinct (map vc_to new)"
    and "x \<in> set new \<Longrightarrow> vc_from x = i \<and> vc_to x \<in> M - {i} \<and> vc_answer x = None \<and> GetFrom (vc_req x) = i \<and>
           GetViewID (vc_req x) = r_ViewID (n_raft n')"
proof -
  have i: "i \<in> M" using assms(2) by (simp add: turn_ok_def)
  note seat = seatsD [OF assms(1) i, folded n_def]
  obtain qs where qs: "new = map (\<lambda>(p, q). \<lparr>vc_from = i, vc_to = p, vc_req = q, vc_answer = None\<rparr>) qs"
    "\<not> new_round ev n n' \<Longrightarrow> qs = []" "vote_calls M (n_raft n') qs" "r_id (n_raft n') = i"
  proof (rule turn_mail [OF assms(1,2), of E, folded n_def, folded n'_def], goal_cases)
    case (1 w ms qs)
    then have "calls_in i ms = []" by (intro calls_in_beats) blast
    with 1 have "new = map (\<lambda>(p, q). \<lparr>vc_from = i, vc_to = p, vc_req = q, vc_answer = None\<rparr>) qs"
      unfolding new_def by (simp add: calls_in_append calls_in_votes)
    with 1 seat(1) show ?case by (intro 1(1) [of qs]) (auto simp: sits_def)
  next
    case 2
    then have "new = []" unfolding new_def by (intro calls_in_beats) blast
    with 2 seat(1) show ?case by (intro 2(1) [of "[]"]) (auto simp: vote_calls_def sits_def)
  qed
  show "\<not> new_round ev n n' \<Longrightarrow> new = []" using qs(1,2) by simp
  have "map vc_to new = map fst qs" using qs(1) by auto
  then show "distinct (map vc_to new)" using qs(3) by (simp add: vote_calls_def)
  show "x \<in> set new \<Longrightarrow> vc_from x = i \<and> vc_to x \<in> M - {i} \<and> vc_answer x = None \<and> GetFrom (vc_req x) = i \<and>
           GetViewID (vc_req x) = r_ViewID (n_raft n')"
    using qs(1,3,4) by (force simp: vote_calls_def)
qed

lemma answer_ok_mono:
  "answer_ok B c x \<Longrightarrow> set (cl_granted c) \<subseteq> set (cl_granted d) \<Longrightarrow> B \<le> B' \<Longrightarrow> answer_ok B' d x"
  by (auto simp: answer_ok_def split: option.splits)

lemma deliver_calls:
  assumes "seats M B c" "turn_ok M B c i ev" "calls_ok M B c"
  shows "calls_ok M (B + 3) (deliver E ev i c)"
proof -
  let ?n = "cl_node c i" and ?c = "deliver E ev i c"
  let ?n' = "node_step E ev ?n"
  let ?new = "calls_in i (mail (n_raft ?n'))"
  have i: "i \<in> M" using assms(2) by (simp add: turn_ok_def)
  note seat = seatsD [OF assms(1) i]
  note turn = turn_step [OF assms(1,2), of E]
  note new = turn_calls(1,2) [OF assms(1,2), of E] turn_calls(3) [OF assms(1,2), where E = E]
  have old: "vc_from x \<in> M" "vc_to x \<in> M - {vc_from x}" "GetFrom (vc_req x) = vc_from x"
    "GetViewID (vc_req x) \<le> cl_round c (vc_from x)" "answer_ok B c x" if "x \<in> set (cl_calls c)" for x
    using assms(3) that by (auto simp: calls_ok_def)
  have round: "cl_round c j \<le> cl_round ?c j" for j
    using turn(5) seat(7) by (cases "j = i") (auto simp: deliver_self)
  have less: "call_key x \<noteq> call_key y" if "x \<in> set (cl_calls c)" "y \<in> set ?new" for x y
  proof
    assume "call_key x = call_key y"
    with new(3) [OF that(2)] old(4) [OF that(1)] have "r_ViewID (n_raft ?n') \<le> cl_round c i"
      by (auto simp: call_key_def)
    moreover have "new_round ev ?n ?n'" using new(1) that(2) by force
    ultimately show False using turn(5) seat(7) by auto
  qed
  have "distinct (map call_key ?new)"
  proof -
    have "map (\<lambda>k. fst (snd k)) (map call_key ?new) = map vc_to ?new" by (simp add: call_key_def)
    with new(2) show ?thesis by (metis distinct_map)
  qed
  moreover have "answer_ok (B + 3) ?c x" if "x \<in> set (cl_calls c)" for x
    using old(5) [OF that] by (rule answer_ok_mono) (simp_all add: deliver_lists)
  moreover have "answer_ok (B + 3) ?c x" if "x \<in> set ?new" for x
    using new(3) [OF that] by (simp add: answer_ok_def)
  moreover have "GetViewID (vc_req x) \<le> cl_round ?c (vc_from x)" if "x \<in> set (cl_calls c)" for x
    using old(4) [OF that] round [of "vc_from x"] by simp
  moreover have "GetViewID (vc_req x) \<le> cl_round ?c i" if "x \<in> set ?new" for x
    using new(1) new(3) [OF that] that by (force simp: deliver_self)
  moreover have "set (map call_key (cl_calls c)) \<inter> set (map call_key ?new) = {}"
    using less by fastforce
  moreover have "distinct (map call_key (cl_calls c))" using assms(3) by (simp add: calls_ok_def)
  ultimately show ?thesis
    using old(1-3) new(3) i unfolding calls_ok_def deliver_lists map_append distinct_append set_append
    by blast
qed


text \<open>A vote given in the step is the node's vote after it, and the node is a follower.\<close>

lemma turn_granted:
  fixes E :: "'w dbenv" and c :: "'w cluster"
  assumes "seats M B c" "turn_ok M B c i ev"
  defines "n \<equiv> cl_node c i"
  defines "n' \<equiv> node_step E ev n"
  assumes "(v, a) \<in> set (granted E ev n)"
  shows "a \<noteq> noVote" "ballot (n_raft n') = (v, a)" "\<not> running_for n'" "\<not> new_round ev n n'"
    and "r_ViewID (n_raft n) < v \<or> r_ViewID (n_raft n) = v \<and> r_votedFor (n_raft n) \<in> {noVote, a}"
proof -
  have i: "i \<in> M" using assms(2) by (simp add: turn_ok_def)
  have set: "settled n" unfolding n_def by (rule seatsD [OF assms(1) i])
  have fol: "loop_state (n_loop n') = FOLLOWER"
    unfolding n'_def by (rule granted_follower [OF assms(5) set])
  then show "\<not> running_for n'" and quiet: "\<not> new_round ev n n'"
    by (simp_all add: running_for_def new_round_def)
  obtain req where ev: "ev = EvRequest MsgRaftRequestVote req"
    using granted_request [OF assms(5)] by blast
  have "event_ok (unat (GetViewID req)) n ev"
    using assms(2) ev by (auto simp: event_ok_def turn_ok_def)
  note eff = granted_effect [OF assms(5) this]
  then show "a \<noteq> noVote" and "r_ViewID (n_raft n) < v \<or> r_ViewID (n_raft n) = v \<and> r_votedFor (n_raft n) \<in> {noVote, a}"
    by auto
  have "ballot (n_raft n') = ballot (halfway E ev n)"
    by (rule turn_mail [OF assms(1,2), of E, folded n_def, folded n'_def]) (use quiet in auto)
  with eff show "ballot (n_raft n') = (v, a)" by (simp add: halfway_ballot)
qed

text \<open>A node that runs for an election or leads after a step without a new round did so before.\<close>

lemma turn_running:
  assumes "settled n" "running_for (node_step E ev n)" "\<not> new_round ev n (node_step E ev n)"
  shows "running_for n"
proof (cases "loop_state (n_loop (node_step E ev n)) = CANDIDATE")
  case True
  with assms(3) show ?thesis by (auto simp: new_round_def running_for_def)
next
  case False
  with assms(2) obtain w where w: "n_loop (node_step E ev n) = InLeader w"
    by (cases "n_loop (node_step E ev n)") (auto simp: running_for_def)
  show ?thesis
  proof (cases "\<exists>u. n_loop n = InLeader u")
    case False
    then show ?thesis
      using became_leader [OF assms(1) _ w] by (metis running_for_def loop_state.simps(2))
  qed (auto simp: running_for_def)
qed

lemma denied_running: "denied ev n \<Longrightarrow> running_for n \<and> \<not> new_round ev n n'"
  by (cases ev) (auto simp: denied_def running_for_def new_round_def)

lemma grants_okD:
  assumes "grants_ok M c" "(j, v, a) \<in> set (cl_granted c)"
  shows "a \<noteq> noVote" "v \<le> r_ViewID (n_raft (cl_node c j))"
    "v = r_ViewID (n_raft (cl_node c j)) \<Longrightarrow> r_votedFor (n_raft (cl_node c j)) = a"
    "running_for (cl_node c j) \<Longrightarrow> v < cl_round c j" "(j, v, b) \<in> set (cl_granted c) \<Longrightarrow> a = b"
  using assms unfolding grants_ok_def by blast+

lemma old_grant:
  assumes "seats M B c" "turn_ok M B c i ev" "grants_ok M c" "(i, v, a) \<in> set (cl_granted c)"
  shows "v \<le> r_ViewID (n_raft (cl_node (deliver E ev i c) i))"
    and "v = r_ViewID (n_raft (cl_node (deliver E ev i c) i)) \<Longrightarrow> r_votedFor (n_raft (cl_node (deliver E ev i c) i)) = a"
    and "running_for (cl_node (deliver E ev i c) i) \<Longrightarrow> v < cl_round (deliver E ev i c) i"
proof -
  let ?n = "cl_node c i" and ?c = "deliver E ev i c"
  let ?n' = "node_step E ev ?n"
  have i: "i \<in> M" using assms(2) by (simp add: turn_ok_def)
  note seat = seatsD [OF assms(1) i]
  note turn = turn_step [OF assms(1,2), of E]
  note old = grants_okD [OF assms(3,4)]
  have eq: "n_raft (cl_node ?c i) = (n_raft ?n')\<lparr>r_outbox := []\<rparr>" "n_loop (cl_node ?c i) = n_loop ?n'"
    by (simp_all add: deliver_self)
  have fwd: "v \<le> r_ViewID (n_raft ?n') \<and> (v = r_ViewID (n_raft ?n') \<longrightarrow> r_votedFor (n_raft ?n') = a)"
  proof (cases "denied ev ?n")
    case True
    have "v < cl_round c i" by (rule old(4)) (use denied_running [OF True] in blast)
    with turn(1) show ?thesis by auto
  next
    case False
    from turn(4) [OF False] old(1-3) show ?thesis by (auto simp: forward_def ballot_def)
  qed
  then show "v \<le> r_ViewID (n_raft (cl_node ?c i))"
    and "v = r_ViewID (n_raft (cl_node ?c i)) \<Longrightarrow> r_votedFor (n_raft (cl_node ?c i)) = a"
    by (simp_all add: eq)
  assume "running_for (cl_node ?c i)"
  then have run: "running_for ?n'" by (simp add: running_for_def eq)
  show "v < cl_round ?c i"
  proof (cases "new_round ev ?n ?n'")
    case True
    with turn(5) old(2) show ?thesis by (auto simp: deliver_self)
  next
    case False
    have "running_for ?n" by (rule turn_running [OF seat(3) run False])
    with old(4) False show ?thesis by (simp add: deliver_self)
  qed
qed

lemma deliver_grants:
  assumes "seats M B c" "turn_ok M B c i ev" "grants_ok M c"
  shows "grants_ok M (deliver E ev i c)"
proof -
  let ?n = "cl_node c i" and ?c = "deliver E ev i c"
  let ?n' = "node_step E ev ?n"
  have eq: "n_raft (cl_node ?c i) = (n_raft ?n')\<lparr>r_outbox := []\<rparr>" "n_loop (cl_node ?c i) = n_loop ?n'"
    by (simp_all add: deliver_self)
  have cases: "(j = i \<and> (v, a) \<in> set (granted E ev ?n)) \<or> (j, v, a) \<in> set (cl_granted c)"
    if "(j, v, a) \<in> set (cl_granted ?c)" for j v a
    using that by (auto simp: deliver_lists)
  note new = turn_granted [OF assms(1,2)]
  have clash: "a = b" if "(v, a) \<in> set (granted E ev ?n)" "(i, v, b) \<in> set (cl_granted c)" for v a b
    using new(5) [OF that(1)] grants_okD(1-3) [OF assms(3) that(2)] by auto
  have single: "a = b" if "(v, a) \<in> set (granted E ev ?n)" "(v, b) \<in> set (granted E ev ?n)" for v a b
    using new(2) [OF that(1)] new(2) [OF that(2)] by simp
  have uniq: "a = b" if "(j, v, a) \<in> set (cl_granted ?c)" "(j, v, b) \<in> set (cl_granted ?c)" for j v a b
    using cases [OF that(1)] cases [OF that(2)]
  proof (elim disjE conjE)
    show ?thesis if "(v, a) \<in> set (granted E ev ?n)" "(v, b) \<in> set (granted E ev ?n)"
      using single that by blast
    show ?thesis if "j = i" "(v, a) \<in> set (granted E ev ?n)" "(j, v, b) \<in> set (cl_granted c)"
      using clash that by blast
    show ?thesis if "(j, v, a) \<in> set (cl_granted c)" "j = i" "(v, b) \<in> set (granted E ev ?n)"
      using clash [of v b a] that by simp
    show ?thesis if "(j, v, a) \<in> set (cl_granted c)" "(j, v, b) \<in> set (cl_granted c)"
      by (rule grants_okD(5) [OF assms(3) that])
  qed
  have "a \<noteq> noVote \<and> v \<le> r_ViewID (n_raft (cl_node ?c j)) \<and>
        (v = r_ViewID (n_raft (cl_node ?c j)) \<longrightarrow> r_votedFor (n_raft (cl_node ?c j)) = a) \<and>
        (running_for (cl_node ?c j) \<longrightarrow> v < cl_round ?c j)"
    if "(j, v, a) \<in> set (cl_granted ?c)" for j v a
    using cases [OF that]
  proof
    assume "j = i \<and> (v, a) \<in> set (granted E ev ?n)"
    with new(1-3) [of v a E] show ?thesis by (auto simp: eq ballot_def running_for_def)
  next
    assume old: "(j, v, a) \<in> set (cl_granted c)"
    show ?thesis
    proof (cases "j = i")
      case True
      with old_grant [OF assms, of v a E] old grants_okD(1) [OF assms(3) old] show ?thesis by blast
    next
      case False
      with grants_okD [OF assms(3) old] show ?thesis by auto
    qed
  qed
  with uniq show ?thesis unfolding grants_ok_def by blast
qed


lemma seated_members:
  assumes "seated M r"
  shows "getMembers r = int (card M)" "getQuorums r = int (card M) div 2 + 1"
proof -
  have "length (r_metaPeers r) = card M"
    using assms distinct_card [of "r_metaPeers r"] by (simp add: seated_def)
  then show "getMembers r = int (card M)" "getQuorums r = int (card M) div 2 + 1"
    by (simp_all add: getMembers_def getQuorums_def)
qed

lemma count_okD:
  assumes "count_ok M c" "i \<in> M"
  shows "distinct (cl_counted c i)"
    "p \<in> set (cl_counted c i) \<Longrightarrow> p \<in> M - {i} \<and> (p, cl_round c i, i) \<in> set (cl_granted c) \<and>
       (i, p, cl_round c i) \<notin> call_key ` set (cl_calls c)"
    "n_loop (cl_node c i) = InCandidate w \<Longrightarrow> voteGranted w \<le> 1 + int (length (cl_counted c i))"
    "loop_state (n_loop (cl_node c i)) = LEADER \<Longrightarrow> card M < 2 * (1 + length (cl_counted c i))"
  using assms by (auto simp: count_ok_def)

text \<open>A candidate's count grows with the peers it has counted.\<close>

lemma counts_bound:
  assumes "seated M (n_raft n)" "3 \<le> card M" "r_mysqlReplMode (n_raft n) = ReplModeSemiSync"
    and "n_loop n = InCandidate v" "voteGranted v \<le> 1 + int k"
  shows "halfway_loop E ev n = InCandidate w \<Longrightarrow> voteGranted w \<le> 1 + int (if counts ev n then Suc k else k)"
    and "ev = EvVoteResponse rsp \<Longrightarrow> voteGranted (val_of (Candidate_processRequestVoteResponse v rsp) (n_raft n)) \<le>
           1 + int (if counts ev n then Suc k else k)"
proof -
  have rsp: "voteGranted (val_of (Candidate_processRequestVoteResponse v rsp) (n_raft n)) \<le>
           1 + int (if counts ev n then Suc k else k)" if "ev = EvVoteResponse rsp" for rsp
    using response_count [OF assms(3), of v rsp] assms(2,4,5) seated_members(1) [OF assms(1)] that
    by (simp add: counts_def)
  then show "ev = EvVoteResponse rsp \<Longrightarrow> voteGranted (val_of (Candidate_processRequestVoteResponse v rsp) (n_raft n)) \<le>
           1 + int (if counts ev n then Suc k else k)" .
  assume half: "halfway_loop E ev n = InCandidate w"
  show "voteGranted w \<le> 1 + int (if counts ev n then Suc k else k)"
  proof (cases "\<exists>rsp. ev = EvVoteResponse rsp")
    case True
    then obtain r where ev: "ev = EvVoteResponse r" by blast
    with half have "w = val_of (Candidate_processRequestVoteResponse v r) (n_raft n)"
      by (simp add: halfway_loop_def assms(4) loop_event_def Candidate_response_def case_prod_beta)
    with rsp [OF ev] show ?thesis by simp
  next
    case False
    have "\<not> counted_vote n ev" using False by (cases ev) (auto simp: counted_vote_def)
    with half assms(4,5) show ?thesis
      unfolding halfway_loop_def
      by (elim loop_event_votes) (auto split: if_splits)
  qed
qed

lemma turn_count:
  assumes "seats M B c" "turn_ok M B c i ev" "count_ok M c"
  shows "n_loop (cl_node (deliver E ev i c) i) = InCandidate w \<Longrightarrow>
           voteGranted w \<le> 1 + int (length (cl_counted (deliver E ev i c) i))"
    and "loop_state (n_loop (cl_node (deliver E ev i c) i)) = LEADER \<Longrightarrow>
           card M < 2 * (1 + length (cl_counted (deliver E ev i c) i))"
proof -
  let ?n = "cl_node c i" and ?c = "deliver E ev i c"
  let ?n' = "node_step E ev ?n" and ?k = "length (cl_counted c i)"
  have i: "i \<in> M" using assms(2) by (simp add: turn_ok_def)
  note seat = seatsD [OF assms(1) i] and old = count_okD [OF assms(3) i]
  note bound1 = counts_bound(1) [OF seat(2,10,4) _ old(3)]
  note bound2 = counts_bound(2) [OF seat(2,10,4) _ old(3)]
  have len: "length (cl_counted ?c i) = (if new_round ev ?n ?n' then 0 else if counts ev ?n then Suc ?k else ?k)"
    by (simp add: deliver_self)
  show "voteGranted w \<le> 1 + int (length (cl_counted ?c i))" if "n_loop (cl_node ?c i) = InCandidate w"
  proof (cases "new_round ev ?n ?n'")
    case True
    have "voteGranted w = 1"
      by (rule turn_mail [OF assms(1,2), of E]) (use True that in \<open>auto simp: deliver_self\<close>)
    then show ?thesis by simp
  next
    case False
    have half: "halfway_loop E ev ?n = InCandidate w"
      by (rule turn_mail [OF assms(1,2), of E]) (use False that in \<open>auto simp: deliver_self\<close>)
    then obtain v where v: "n_loop ?n = InCandidate v"
      unfolding halfway_loop_def by (rule loop_event_candidate)
    from bound1 [OF v v half] len False show ?thesis by simp
  qed
  assume "loop_state (n_loop (cl_node ?c i)) = LEADER"
  then obtain w where w: "n_loop ?n' = InLeader w"
    by (cases "n_loop ?n'") (auto simp: deliver_self)
  then have quiet: "\<not> new_round ev ?n ?n'" by (simp add: new_round_def)
  show "card M < 2 * (1 + length (cl_counted ?c i))"
  proof (cases "\<exists>u. n_loop ?n = InLeader u")
    case True
    then have "loop_state (n_loop ?n) = LEADER" by auto
    with old(4) quiet len show ?thesis by (simp split: if_splits)
  next
    case False
    have "\<And>u. n_loop ?n \<noteq> InLeader u" using False by blast
    then obtain v where v: "n_loop ?n = InCandidate v"
      and how: "ev = EvCheckVotesTick \<and> getQuorums (n_raft ?n) \<le> voteGranted v \<or>
       (\<exists>rsp. ev = EvVoteResponse rsp \<and>
          voteGranted (val_of (Candidate_processRequestVoteResponse v rsp) (n_raft ?n)) =
          getMembers (exec_of (Candidate_processRequestVoteResponse v rsp) (n_raft ?n)))"
      by (rule became_leader [OF seat(3) _ w])
    have all: "int (card M) div 2 + 1 \<le> int (card M)" using seat(10) by simp
    from how have "int (card M) div 2 + 1 \<le> 1 + int (length (cl_counted ?c i))"
    proof (elim disjE exE conjE)
      assume "ev = EvCheckVotesTick" "getQuorums (n_raft ?n) \<le> voteGranted v"
      with old(3) [OF v] quiet len seated_members [OF seat(2)] show ?thesis by (simp add: counts_def)
    next
      fix rsp
      assume rsp: "ev = EvVoteResponse rsp"
        and "voteGranted (val_of (Candidate_processRequestVoteResponse v rsp) (n_raft ?n)) =
             getMembers (exec_of (Candidate_processRequestVoteResponse v rsp) (n_raft ?n))"
      then have "int (card M) = voteGranted (val_of (Candidate_processRequestVoteResponse v rsp) (n_raft ?n))"
        by (simp add: response_members seated_members [OF seat(2)])
      with bound2 [OF v v rsp] len quiet all show ?thesis by simp
    qed
    then have "card M div 2 + 1 \<le> 1 + length (cl_counted ?c i)"
      using zdiv_int [of "card M" 2] by simp
    moreover have "n div 2 + 1 \<le> 1 + k \<Longrightarrow> n < 2 * (1 + k)" for n k :: nat by presburger
    ultimately show ?thesis by blast
  qed
qed

lemma deliver_count:
  assumes "seats M B c" "turn_ok M B c i ev" "calls_ok M B c" "count_ok M c"
  shows "count_ok M (deliver E ev i c)"
  unfolding count_ok_def
proof (intro ballI)
  let ?n = "cl_node c i" and ?c = "deliver E ev i c"
  let ?n' = "node_step E ev ?n"
  fix j assume j: "j \<in> M"
  have i: "i \<in> M" using assms(2) by (simp add: turn_ok_def)
  note old = count_okD [OF assms(4) j]
  note new = turn_calls(1) [OF assms(1,2), of E] turn_calls(3) [OF assms(1,2), where E = E]
  show "distinct (cl_counted ?c j) \<and>
     (\<forall>p \<in> set (cl_counted ?c j). p \<in> M - {j} \<and> (p, cl_round ?c j, j) \<in> set (cl_granted ?c) \<and>
        (j, p, cl_round ?c j) \<notin> call_key ` set (cl_calls ?c)) \<and>
     (\<forall>w. n_loop (cl_node ?c j) = InCandidate w \<longrightarrow> voteGranted w \<le> 1 + int (length (cl_counted ?c j))) \<and>
     (loop_state (n_loop (cl_node ?c j)) = LEADER \<longrightarrow> card M < 2 * (1 + length (cl_counted ?c j)))"
  proof (cases "j = i")
    case True
    have "distinct (cl_counted ?c i) \<and>
     (\<forall>p \<in> set (cl_counted ?c i). p \<in> M - {i} \<and> (p, cl_round ?c i, i) \<in> set (cl_granted ?c) \<and>
        (i, p, cl_round ?c i) \<notin> call_key ` set (cl_calls ?c))"
    proof (cases "new_round ev ?n ?n'")
      case False
      then have same: "cl_round ?c i = cl_round c i" "cl_calls ?c = cl_calls c"
        using new(1) by (simp_all add: deliver_self deliver_lists)
      have voter: "answerer ev \<in> M - {i} \<and> (answerer ev, cl_round c i, i) \<in> set (cl_granted c) \<and>
          answerer ev \<notin> set (cl_counted c i) \<and> (i, answerer ev, cl_round c i) \<notin> call_key ` set (cl_calls c)"
        if "counts ev ?n"
        using that assms(2) by (cases ev) (auto simp: counts_def turn_ok_def answerer_def)
      show ?thesis
        using old(1,2) voter unfolding True same by (auto simp: deliver_self False deliver_lists)
    qed (simp add: deliver_self)
    with turn_count [OF assms(1,2,4), of E] show ?thesis unfolding True by blast
  next
    case False
    have none: "(j, p, v) \<notin> call_key ` set (calls_in i (mail (n_raft ?n')))" for p v
      using new(2) False by (auto simp: call_key_def)
    show ?thesis
      unfolding deliver_lists set_append image_Un deliver_other [OF False]
      using old none by blast
  qed
qed

lemma deliver_inv:
  assumes "cl_inv M B c" "turn_ok M B c i ev"
  shows "cl_inv M (B + 3) (deliver E ev i c)"
proof -
  have inv: "seats M B c" "beats_ok M B c" "calls_ok M B c" "grants_ok M c" "count_ok M c"
    using assms(1) by (simp_all add: cl_inv_def)
  show ?thesis
    unfolding cl_inv_def
    by (intro conjI deliver_seats [OF inv(1) assms(2)] deliver_beats [OF inv(1) assms(2) inv(2)]
        deliver_calls [OF inv(1) assms(2) inv(3)] deliver_grants [OF inv(1) assms(2) inv(4)]
        deliver_count [OF inv(1) assms(2) inv(3,5)])
qed

end
