(* ===== verification/RaftElected.thy ===== *)
theory RaftElected
  imports RaftCluster
begin

section \<open>Election safety of the cluster\<close>

text \<open>
  Every move of the cluster keeps the invariant of \<open>RaftCluster\<close>, so it holds in every state
  that is reached in fewer steps than the views have room for. The locale \<open>quorum_system\<close>
  says what a family of quorums promises; majorities of the membership are one, and with
  them two leaders of one round are the same node.

  The round of a leader is the view of its latest broadcast, which need not be its view: a
  candidate that refuses a better placed request raises its view and keeps its votes
  (\<open>refusal_raises_view\<close>), and a leader that misses acknowledgements raises its view by two.
  So the statements are about rounds; two leaders of different rounds can have the same view.
\<close>

subsection \<open>The moves\<close>

lemma local_turn:
  assumes "local_event ev" "i \<in> M" "B + 3 < 2 ^ 63"
  shows "turn_ok M B c i ev"
proof -
  have "ErrorRPCCall \<noteq> ErrorInvalidViewID" "ErrorMySQLDown \<noteq> ErrorInvalidViewID" "ErrorRPCCall \<noteq> OK" "ErrorMySQLDown \<noteq> OK"
    by (simp_all add: ErrorRPCCall_def ErrorMySQLDown_def ErrorInvalidViewID_def OK_def)
  with assms show ?thesis
    by (cases ev) (auto simp: local_event_def turn_ok_def family_event_def request_view_def vote_ok_def)
qed

lemma answer_of:
  assumes "seats M B c" "vc_to x \<in> M" "n = cl_node c (vc_to x)" "n_loop n \<noteq> Stopped"
    and "rsp = val_of (process_request E (loop_state (n_loop n)) MsgRaftRequestVote (vc_req x)) (n_raft n)"
    and "GetFrom (vc_req x) = vc_from x"
  shows "From (rsp_Raft rsp) = vc_to x"
    and "vote_ok rsp \<Longrightarrow> (GetViewID (vc_req x), vc_from x) \<in> set (granted E (EvRequest MsgRaftRequestVote (vc_req x)) n)"
    and "RetCode rsp = ErrorInvalidViewID \<Longrightarrow> GetViewID (vc_req x) \<le> ViewID (rsp_Raft rsp)"
    and "unat (ViewID (rsp_Raft rsp)) \<le> B"
proof -
  note seat = seatsD [OF assms(1,2), folded assms(3)]
  have st: "r_state (n_raft n) = loop_state (n_loop n)"
    using seat(3) assms(4) by (auto simp: settled_def)
  have header: "rsp_Raft rsp = rsp_Raft (base_response (n_raft n) OK)"
    unfolding assms(5) by (rule answer_header)
  then show "From (rsp_Raft rsp) = vc_to x"
    using seat(1) by (simp add: base_response_def NewRaftRPCResponse_def)
  have view: "ViewID (rsp_Raft rsp) = r_ViewID (n_raft n)"
    unfolding header by (simp add: base_response_def NewRaftRPCResponse_def)
  then show "unat (ViewID (rsp_Raft rsp)) \<le> B" using seat(6) by simp
  show "RetCode rsp = ErrorInvalidViewID \<Longrightarrow> GetViewID (vc_req x) \<le> ViewID (rsp_Raft rsp)"
    unfolding view unfolding assms(5) by (rule answer_denial)
  assume ok: "vote_ok rsp"
  then have "loop_state (n_loop n) \<noteq> IDLE"
    using st header by (auto simp: vote_ok_def base_response_def NewRaftRPCResponse_def)
  moreover have "loop_state (n_loop n) \<noteq> INVALID" "loop_state (n_loop n) \<noteq> LEARNER"
    using ok unfolding assms(5)
    by (auto simp: vote_ok_def process_request_def vote_defs base_response_def NewRaftRPCResponse_def
        OK_def ErrorInvalidRequest_def ErrorVoteNotGranted_def split: if_splits)
  ultimately have "voting_state (loop_state (n_loop n))"
    using assms(4) by (cases "n_loop n") (auto simp: voting_state_def)
  with ok assms(5,6) show "(GetViewID (vc_req x), vc_from x) \<in> set (granted E (EvRequest MsgRaftRequestVote (vc_req x)) n)"
    by (simp add: granted_def vote_ok_def)
qed

lemma calls_okD:
  assumes "calls_ok M B c" "k < length (cl_calls c)" "x = cl_calls c ! k"
  shows "vc_from x \<in> M" "vc_to x \<in> M" "vc_to x \<noteq> vc_from x" "GetFrom (vc_req x) = vc_from x"
    "GetViewID (vc_req x) \<le> cl_round c (vc_from x)" "answer_ok B c x"
    "call_key x \<notin> call_key ` set (take k (cl_calls c) @ drop (Suc k) (cl_calls c))"
    "distinct (map call_key (take k (cl_calls c) @ drop (Suc k) (cl_calls c)))"
proof -
  have "x \<in> set (cl_calls c)" using assms(2,3) by simp
  then show "vc_from x \<in> M" "vc_to x \<in> M" "vc_to x \<noteq> vc_from x" "GetFrom (vc_req x) = vc_from x"
    "GetViewID (vc_req x) \<le> cl_round c (vc_from x)" "answer_ok B c x"
    using assms(1) by (auto simp: calls_ok_def)
  have "cl_calls c = take k (cl_calls c) @ x # drop (Suc k) (cl_calls c)"
    using assms(2,3) by (simp add: id_take_nth_drop)
  then have "distinct (map call_key (take k (cl_calls c) @ x # drop (Suc k) (cl_calls c)))"
    using assms(1) by (simp add: calls_ok_def)
  then show "call_key x \<notin> call_key ` set (take k (cl_calls c) @ drop (Suc k) (cl_calls c))"
    "distinct (map call_key (take k (cl_calls c) @ drop (Suc k) (cl_calls c)))"
    by (auto simp: image_Un)
qed

lemma round_mono: "seats M B c \<Longrightarrow> turn_ok M B c i ev \<Longrightarrow> cl_round c j \<le> cl_round (deliver E ev i c) j"
  using turn_step(5) [of M B c i ev E] seatsD(7) [of M B c i]
  by (cases "j = i") (auto simp: deliver_self turn_ok_def)

lemma ask_inv:
  assumes inv: "cl_inv M B c" "B + 3 < 2 ^ 63"
    and k: "k < length (cl_calls c)" "x = cl_calls c ! k" "n = cl_node c (vc_to x)" "n_loop n \<noteq> Stopped"
    and rsp: "rsp = val_of (process_request (D (vc_to x)) (loop_state (n_loop n)) MsgRaftRequestVote (vc_req x)) (n_raft n)"
    and c': "c' = deliver (D (vc_to x)) (EvRequest MsgRaftRequestVote (vc_req x)) (vc_to x) c"
  shows "cl_inv M (B + 3) (c'\<lparr>cl_calls := (cl_calls c')[k := x\<lparr>vc_answer := Some rsp\<rparr>]\<rparr>)"
proof -
  let ?ev = "EvRequest MsgRaftRequestVote (vc_req x)" and ?x = "x\<lparr>vc_answer := Some rsp\<rparr>"
  let ?c = "c'\<lparr>cl_calls := (cl_calls c')[k := ?x]\<rparr>"
  have parts: "seats M B c" "calls_ok M B c" using inv(1) by (auto simp: cl_inv_def)
  note call = calls_okD [OF parts(2) k(1,2)]
  have "unat (GetViewID (vc_req x)) \<le> B"
    using call(5) seatsD(6,7) [OF parts(1) call(1)] by (simp add: word_le_nat_alt)
  then have turn: "turn_ok M B c (vc_to x) ?ev"
    using call(1,2,4) inv(2) seatsD(8) [OF parts(1) call(1)]
    by (auto simp: turn_ok_def family_event_def request_view_def noVote_def)
  have inv': "cl_inv M (B + 3) c'" unfolding c' by (rule deliver_inv [OF inv(1) turn])
  note ans = answer_of [OF parts(1) call(2) k(3,4) rsp call(4)]
  have len: "k < length (cl_calls c')" "cl_calls c' ! k = x"
    using k(1,2) by (simp_all add: c' deliver_lists nth_append)
  have keys: "map call_key (cl_calls ?c) = map call_key (cl_calls c')"
    using len by (simp add: map_update call_key_def list_update_same_conv)
  have ok: "answer_ok (B + 3) c' ?x"
    using ans k(3) by (auto simp: answer_ok_def c' deliver_lists)
  have "calls_ok M (B + 3) ?c"
    unfolding calls_ok_def keys
  proof (intro conjI ballI)
    show "distinct (map call_key (cl_calls c'))" using inv' by (simp add: cl_inv_def calls_ok_def)
    fix y assume "y \<in> set (cl_calls ?c)"
    then have "y = ?x \<or> y \<in> set (cl_calls c')" using set_update_subset_insert [of "cl_calls c'" k ?x] by auto
    moreover have "answer_ok (B + 3) ?c y \<longleftrightarrow> answer_ok (B + 3) c' y" for y
      by (cases "vc_answer y") (simp_all add: answer_ok_def)
    moreover have "x \<in> set (cl_calls c')" using nth_mem [OF len(1)] len(2) by simp
    ultimately show "vc_from y \<in> M" "vc_to y \<in> M - {vc_from y}" "GetFrom (vc_req y) = vc_from y"
      "GetViewID (vc_req y) \<le> cl_round ?c (vc_from y)" "answer_ok (B + 3) ?c y"
      using inv' ok by (auto simp: cl_inv_def calls_ok_def)
  qed
  moreover have "call_key ` set (cl_calls ?c) = call_key ` set (cl_calls c')"
    using keys by (metis set_map)
  ultimately show ?thesis
    using inv' unfolding cl_inv_def seats_def beats_ok_def grants_ok_def count_ok_def by simp
qed


lemma tell_inv:
  assumes inv: "cl_inv M B c" "B + 3 < 2 ^ 63"
    and k: "k < length (cl_calls c)" "x = cl_calls c ! k" "vc_answer x = Some rsp"
    and run: "loop_state (n_loop (cl_node c (vc_from x))) = CANDIDATE" "GetViewID (vc_req x) = cl_round c (vc_from x)"
  shows "cl_inv M (B + 3) (deliver E (EvVoteResponse rsp) (vc_from x)
      (c\<lparr>cl_calls := take k (cl_calls c) @ drop (Suc k) (cl_calls c)\<rparr>))"
proof (rule deliver_inv)
  let ?rest = "take k (cl_calls c) @ drop (Suc k) (cl_calls c)"
  let ?c = "c\<lparr>cl_calls := ?rest\<rparr>" and ?i = "vc_from x"
  have parts: "calls_ok M B c" "count_ok M c" using inv(1) by (auto simp: cl_inv_def)
  note call = calls_okD [OF parts(1) k(1,2)]
  have sub: "set ?rest \<subseteq> set (cl_calls c)" by (auto dest: in_set_takeD in_set_dropD)
  have "answer_ok B ?c y \<longleftrightarrow> answer_ok B c y" for y
    by (cases "vc_answer y") (simp_all add: answer_ok_def)
  then have "calls_ok M B ?c"
    using parts(1) sub call(8) by (auto simp: calls_ok_def)
  moreover have "count_ok M ?c"
    using parts(2) image_mono [OF sub, of call_key] unfolding count_ok_def
    by (simp del: set_append) blast
  ultimately show "cl_inv M B ?c"
    using inv(1) unfolding cl_inv_def seats_def beats_ok_def grants_ok_def by simp
  have ans: "From (rsp_Raft rsp) = vc_to x" "vote_ok rsp \<Longrightarrow> (vc_to x, cl_round c ?i, ?i) \<in> set (cl_granted c)"
    "RetCode rsp = ErrorInvalidViewID \<Longrightarrow> cl_round c ?i \<le> ViewID (rsp_Raft rsp) \<and> unat (ViewID (rsp_Raft rsp)) \<le> B"
    using call(6) by (simp_all add: answer_ok_def k(3) run(2))
  have "vc_to x \<notin> set (cl_counted c ?i)"
  proof
    assume "vc_to x \<in> set (cl_counted c ?i)"
    with count_okD(2) [OF parts(2) call(1)] run(2) have "call_key x \<notin> call_key ` set (cl_calls c)"
      by (simp add: call_key_def)
    moreover have "x \<in> set (cl_calls c)" using k(1,2) by simp
    ultimately show False by blast
  qed
  moreover have "(?i, vc_to x, cl_round c ?i) \<notin> call_key ` set ?rest"
    using call(7) run(2) by (simp add: call_key_def)
  ultimately show "turn_ok M B ?c ?i (EvVoteResponse rsp)"
    using ans call(1-3) inv(2) by (auto simp: turn_ok_def family_event_def request_view_def)
qed

lemma move_inv:
  assumes "cl_move D M c c'" "cl_inv M B c" "B + 3 < 2 ^ 63"
  shows "cl_inv M (B + 3) c'"
  using assms
proof (induction rule: cl_move.induct)
  case (local i ev c)
  then show ?case by (intro deliver_inv local_turn)
next
  case (beat j q c)
  then have "family M q" "unat (GetViewID q) \<le> B"
    by (auto simp: cl_inv_def beats_ok_def)
  with beat have "turn_ok M B c j (EvRequest MsgRaftHeartbeat q)"
    by (simp add: turn_ok_def family_event_def request_view_def)
  with beat show ?case by (intro deliver_inv)
next
  case (ask k c x n rsp c')
  show ?case
    by (rule ask_inv [where D = D and x = x and n = n and rsp = rsp and c = c and k = k, OF ask.prems ask.hyps(1,2,4,5,6,7)])
next
  case (tell k c x rsp)
  show ?case by (rule tell_inv [OF tell.prems tell.hyps])
qed

lemma reach_inv: "cl_reach D M V n c \<Longrightarrow> V + 3 * n < 2 ^ 63 \<Longrightarrow> cl_inv M (V + 3 * n) c"
proof (induction rule: cl_reach.induct)
  case (start c)
  then show ?case by (simp add: start_inv)
next
  case (step n c c')
  then have "cl_inv M (V + 3 * n + 3) c'" by (intro move_inv [OF step.hyps(2)]) simp_all
  then show ?case by (simp add: algebra_simps)
qed


subsection \<open>Quorums\<close>

locale quorum_system =
  fixes quorum :: "'a set \<Rightarrow> bool"
  assumes meets: "quorum P \<Longrightarrow> quorum Q \<Longrightarrow> P \<inter> Q \<noteq> {}"
begin

text \<open>Where every member backs at most one candidate, two candidates with quorums are one.\<close>

lemma one_winner:
  assumes "quorum P" "quorum Q" "\<And>k. k \<in> P \<Longrightarrow> vote k a" "\<And>k. k \<in> Q \<Longrightarrow> vote k b"
    and "\<And>k x y. vote k x \<Longrightarrow> vote k y \<Longrightarrow> x = y"
  shows "a = b"
  using meets [OF assms(1,2)] assms(3-5) by blast

end

definition majority :: "'a set \<Rightarrow> 'a set \<Rightarrow> bool" where
  "majority M Q \<longleftrightarrow> finite M \<and> Q \<subseteq> M \<and> card M < 2 * card Q"

interpretation majority: quorum_system "majority M" for M
proof
  fix P Q assume PQ: "majority M P" "majority M Q"
  show "P \<inter> Q \<noteq> {}"
  proof
    assume "P \<inter> Q = {}"
    with PQ have "card P + card Q \<le> card M"
      by (metis Un_least card_Un_disjoint card_mono finite_subset majority_def)
    with PQ show False by (simp add: majority_def)
  qed
qed

text \<open>\<open>k\<close> backs \<open>a\<close> in the round \<open>v\<close>: it granted its vote, or it is \<open>a\<close> and runs or leads in it.\<close>

definition backs :: "'w cluster \<Rightarrow> 64 word \<Rightarrow> string \<Rightarrow> string \<Rightarrow> bool" where
  "backs c v k a \<longleftrightarrow> (k, v, a) \<in> set (cl_granted c) \<or> k = a \<and> running_for (cl_node c k) \<and> cl_round c k = v"

lemma backs_one:
  assumes "grants_ok M c" "backs c v k a" "backs c v k b"
  shows "a = b"
  using assms(2,3) grants_okD(4,5) [OF assms(1)] unfolding backs_def by (metis order_less_irrefl)

lemma leader_majority:
  assumes "cl_inv M B c" "i \<in> M" "loop_state (n_loop (cl_node c i)) = LEADER"
  shows "majority M {k \<in> M. backs c (cl_round c i) k i}"
proof -
  have parts: "seats M B c" "count_ok M c" using assms(1) by (auto simp: cl_inv_def)
  note count = count_okD [OF parts(2) assms(2)]
  have "card M < 2 * card (set (i # cl_counted c i))"
    using count(1,2,4) assms(3) by (subst distinct_card) auto
  moreover have "set (i # cl_counted c i) \<subseteq> {k \<in> M. backs c (cl_round c i) k i}"
    using count(2) assms(2,3) by (auto simp: backs_def running_for_def)
  then have "card (set (i # cl_counted c i)) \<le> card {k \<in> M. backs c (cl_round c i) k i}"
    by (rule card_mono [rotated]) (use seatsD(9) [OF parts(1) assms(2)] in simp)
  ultimately show ?thesis
    using seatsD(9) [OF parts(1) assms(2)] by (auto simp: majority_def)
qed

lemma sole_leader:
  assumes "cl_inv M B c" "i \<in> M" "j \<in> M"
    and "loop_state (n_loop (cl_node c i)) = LEADER" "loop_state (n_loop (cl_node c j)) = LEADER"
    and "cl_round c i = cl_round c j"
  shows "i = j"
proof -
  have grants: "grants_ok M c" using assms(1) by (simp add: cl_inv_def)
  note maj = leader_majority [OF assms(1,2,4)] leader_majority [OF assms(1,3,5)]
  show ?thesis
    by (rule majority.one_winner [OF maj, where vote = "backs c (cl_round c i)"])
       (use assms(6) backs_one [OF grants] in auto)
qed

text \<open>
  C1. Election safety of the cluster: whatever the nodes do and however
  their messages are delayed, repeated or lost, two leaders that sit at the same time and were
  elected in the same round of voting are one node.
\<close>

theorem one_leader_per_round:
  assumes "cl_reach D M V n c" "V + 3 * n < 2 ^ 63" "i \<in> M" "j \<in> M"
    and "loop_state (n_loop (cl_node c i)) = LEADER" "loop_state (n_loop (cl_node c j)) = LEADER"
    and "cl_round c i = cl_round c j"
  shows "i = j"
  by (rule sole_leader [OF reach_inv [OF assms(1,2)] assms(3-7)])

text \<open>
  C3. A node that leads was elected: in the round of its latest broadcast it
  got the votes of a majority of the members, its own included, and each of those others has
  granted it that vote.
\<close>

theorem leader_was_elected:
  assumes "cl_reach D M V n c" "V + 3 * n < 2 ^ 63" "i \<in> M" "loop_state (n_loop (cl_node c i)) = LEADER"
  shows "card M < 2 * (1 + card {k \<in> M - {i}. (k, cl_round c i, i) \<in> set (cl_granted c)}) \<and>
         cl_round c i \<le> r_ViewID (n_raft (cl_node c i))"
proof -
  have inv: "cl_inv M (V + 3 * n) c" by (rule reach_inv [OF assms(1,2)])
  then have fin: "finite M" using assms(3) seatsD(9) by (auto simp: cl_inv_def)
  let ?S = "{k \<in> M - {i}. (k, cl_round c i, i) \<in> set (cl_granted c)}"
  have "{k \<in> M. backs c (cl_round c i) k i} \<subseteq> insert i ?S" by (auto simp: backs_def)
  then have "card {k \<in> M. backs c (cl_round c i) k i} \<le> card (insert i ?S)"
    by (rule card_mono [rotated]) (use fin in simp)
  also have "\<dots> = 1 + card ?S" using fin by simp
  finally show ?thesis
    using leader_majority [OF inv assms(3,4)] seatsD(7) inv assms(3) by (auto simp: majority_def cl_inv_def)
qed


subsection \<open>A call that is answered, and an answer that is counted\<close>

definition ask_call :: "(string \<Rightarrow> 'w dbenv) \<Rightarrow> nat \<Rightarrow> 'w cluster \<Rightarrow> 'w cluster" where
  "ask_call D k c =
     (let x = cl_calls c ! k; j = vc_to x; n = cl_node c j;
          rsp = val_of (process_request (D j) (loop_state (n_loop n)) MsgRaftRequestVote (vc_req x)) (n_raft n);
          c' = deliver (D j) (EvRequest MsgRaftRequestVote (vc_req x)) j c
      in c'\<lparr>cl_calls := (cl_calls c')[k := x\<lparr>vc_answer := Some rsp\<rparr>]\<rparr>)"

definition tell_call :: "(string \<Rightarrow> 'w dbenv) \<Rightarrow> nat \<Rightarrow> 'w cluster \<Rightarrow> 'w cluster" where
  "tell_call D k c =
     (let x = cl_calls c ! k; i = vc_from x
      in deliver (D i) (EvVoteResponse (the (vc_answer x))) i
           (c\<lparr>cl_calls := take k (cl_calls c) @ drop (Suc k) (cl_calls c)\<rparr>))"

lemma ask_call_move:
  assumes "k < length (cl_calls c)" "vc_answer (cl_calls c ! k) = None"
    and "loop_state (n_loop (cl_node c (vc_to (cl_calls c ! k)))) \<noteq> STOPPED"
  shows "cl_move D M c (ask_call D k c)"
proof -
  have run: "n_loop (cl_node c (vc_to (cl_calls c ! k))) \<noteq> Stopped" using assms(3) by auto
  show ?thesis
    unfolding ask_call_def Let_def
    by (rule cl_move.ask [where D = D, OF assms(1) refl assms(2) refl run refl refl])
qed

lemma tell_call_move:
  assumes "k < length (cl_calls c)" "vc_answer (cl_calls c ! k) \<noteq> None"
    and "loop_state (n_loop (cl_node c (vc_from (cl_calls c ! k)))) = CANDIDATE"
    and "GetViewID (vc_req (cl_calls c ! k)) = cl_round c (vc_from (cl_calls c ! k))"
  shows "cl_move D M c (tell_call D k c)"
proof -
  obtain rsp where "vc_answer (cl_calls c ! k) = Some rsp" using assms(2) by auto
  from cl_move.tell [where D = D, OF assms(1) refl this assms(3,4)] this show ?thesis
    by (simp add: tell_call_def Let_def)
qed


subsection \<open>An election of three members\<close>

text \<open>
  Three members, each over a MySQL that answers every query with one row of empty columns. An
  HA RPC makes \<open>a:1\<close> a candidate, \<open>b:1\<close> gets its request and answers, \<open>a:1\<close> counts the
  vote and its timer makes it leader.
\<close>

definition quiet_env :: "unit dbenv" where
  "quiet_env = \<lparr>sql_open = (\<lambda>c w. (None, w)), sql_query = (\<lambda>q w. (([[]], None), w)),
     sql_exec = (\<lambda>q w. (None, w)), sql_conn = (\<lambda>w. (None, w)), conn_exec = (\<lambda>q w. (None, w)),
     conn_close = (\<lambda>w. w), timer_first = (\<lambda>d w. (False, w)), db_ping = (\<lambda>w. (None, w)),
     db_close = (\<lambda>w. w), sleep_ms = (\<lambda>n w. w)\<rparr>"

definition trio :: "string list" where
  "trio = [''a:1'', ''b:1'', ''c:1'']"

definition member :: "string \<Rightarrow> unit node" where
  "member i = \<lparr>n_raft = NewRaft i demo_conf ((NewMysql conf0 1000 ())\<lparr>my_state := MysqlAlive\<rparr>) False False UNKNOWN
       (Some (trio, [])), n_loop = InFollower 1\<rparr>"

definition trio0 :: "unit cluster" where
  "trio0 = \<lparr>cl_node = member, cl_calls = [], cl_beats = [], cl_round = (\<lambda>i. 0), cl_counted = (\<lambda>i. []), cl_granted = []\<rparr>"

definition trio1 :: "unit cluster" where
  "trio1 = deliver quiet_env EvHATryToLeader ''a:1'' trio0"

definition trio2 :: "unit cluster" where
  "trio2 = ask_call (\<lambda>i. quiet_env) 0 trio1"

definition trio3 :: "unit cluster" where
  "trio3 = tell_call (\<lambda>i. quiet_env) 0 trio2"

definition trio4 :: "unit cluster" where
  "trio4 = deliver quiet_env EvCheckVotesTick ''a:1'' trio3"

lemma trio1_facts:
  "map call_key (cl_calls trio1) = [(''a:1'', ''b:1'', 1), (''a:1'', ''c:1'', 1)] \<and>
   loop_state (n_loop (cl_node trio1 ''a:1'')) = CANDIDATE \<and> cl_round trio1 ''a:1'' = 1"
  by code_simp

lemma trio1_none: "list_all (\<lambda>x. case vc_answer x of None \<Rightarrow> True | Some a \<Rightarrow> False) (cl_calls trio1)"
  by code_simp

lemma trio4_leads: "loop_state (n_loop (cl_node trio4 ''a:1'')) = LEADER \<and> cl_round trio4 ''a:1'' = 1"
  by code_simp

lemma trio_start: "cl_start (set trio) 0 trio0"
  by (simp add: cl_start_def trio_def trio0_def member_def seated_def settled_def run_NewRaft raft0_def
      sanitizePeerList_def demo_conf_def NewMysql_def conf0_def SetReplMode_def SetQueryTimeout_def Let_def)
     auto

lemma trio_first: "cl_move (\<lambda>i. quiet_env) (set trio) trio0 trio1"
proof -
  have "''a:1'' \<in> set trio" by (simp add: trio_def)
  then show ?thesis unfolding trio1_def by (rule cl_move.local) (simp add: local_event_def)
qed

lemma trio_reach3: "cl_reach (\<lambda>i. quiet_env) (set trio) 0 3 trio3"
proof -
  let ?R = "cl_reach (\<lambda>i. quiet_env) (set trio) 0" and ?m = "cl_move (\<lambda>i. quiet_env) (set trio)"
  obtain x y where calls: "cl_calls trio1 = [x, y]"
    and x: "vc_from x = ''a:1''" "vc_to x = ''b:1''" "GetViewID (vc_req x) = 1"
    using trio1_facts by (auto simp: call_key_def)
  have none: "vc_answer x = None" using trio1_none calls by (auto split: option.splits)
  have b: "loop_state (n_loop (cl_node trio1 ''b:1'')) = FOLLOWER" by (simp add: trio1_def trio0_def member_def)
  have m2: "?m trio1 trio2"
    unfolding trio2_def by (rule ask_call_move) (simp_all add: calls none x b)
  have m3: "?m trio2 trio3"
    unfolding trio3_def
    by (rule tell_call_move) (use trio1_facts in \<open>simp_all add: trio2_def ask_call_def Let_def deliver_lists calls x\<close>)
  have "?R (Suc (Suc (Suc 0))) trio3"
    by (intro cl_reach.step [OF _ m3] cl_reach.step [OF _ m2] cl_reach.step [OF _ trio_first]
        cl_reach.start trio_start)
  then show ?thesis by (simp add: numeral_eq_Suc)
qed

lemma trio_last: "cl_move (\<lambda>i. quiet_env) (set trio) trio3 trio4"
proof -
  have "''a:1'' \<in> set trio" by (simp add: trio_def)
  then show ?thesis unfolding trio4_def by (rule cl_move.local) (simp add: local_event_def)
qed

lemma trio_reach: "cl_reach (\<lambda>i. quiet_env) (set trio) 0 4 trio4"
  using cl_reach.step [OF trio_reach3 trio_last] by simp

theorem one_leader_per_round_witness:
  "{j \<in> set trio. loop_state (n_loop (cl_node trio4 j)) = LEADER \<and> cl_round trio4 j = 1} = {''a:1''}"
proof -
  have a: "''a:1'' \<in> set trio" by (simp add: trio_def)
  have small: "0 + 3 * 4 < (2 ^ 63 :: nat)" by simp
  have "j = ''a:1''" if "j \<in> set trio" "loop_state (n_loop (cl_node trio4 j)) = LEADER" "cl_round trio4 j = 1" for j
    by (rule one_leader_per_round [OF trio_reach small that(1) a that(2)]) (use trio4_leads that(3) in simp_all)
  with trio4_leads a show ?thesis by blast
qed

theorem leader_was_elected_witness:
  "card (set trio) < 2 * (1 + card {k \<in> set trio - {''a:1''}. (k, 1, ''a:1'') \<in> set (cl_granted trio4)})"
proof -
  have a: "''a:1'' \<in> set trio" by (simp add: trio_def)
  show ?thesis
    using leader_was_elected [OF trio_reach _ a] trio4_leads by simp
qed


text \<open>
  A candidate that refuses the request of a newer view because its own data are newer takes
  over that view, but it stays candidate, and nothing of its count is reset: its votes are of
  the older view.
\<close>

lemma refusal_raises_view:
  assumes "GetFrom req \<in> set (r_peers r)" "r_ViewID r < GetViewID req" "r_state r = CANDIDATE"
    and "val_of (Mysql_GTIDGreaterThan E (req_GTID req)) (r_mysql r) = (True, g, None)"
    and "\<And>s. r_mysql s = exec_of (Mysql_GTIDGreaterThan E (req_GTID req)) (r_mysql r) \<Longrightarrow> val_of (Raft_Promotable E) s"
  shows "RetCode (val_of (Candidate_processRequestVoteRequest E req) r) = ErrorInvalidGTID \<and>
         r_ViewID (exec_of (Candidate_processRequestVoteRequest E req) r) = GetViewID req \<and>
         r_state (exec_of (Candidate_processRequestVoteRequest E req) r) = CANDIDATE \<and>
         val_of (loop_event E (InCandidate v) (EvRequest MsgRaftRequestVote req)) r = InCandidate v"
proof -
  let ?q = "r\<lparr>r_mysql := exec_of (Mysql_GTIDGreaterThan E (req_GTID req)) (r_mysql r)\<rparr>"
  let ?s = "exec_of (updateView (GetViewID req) noLeader) ?q"
  have ok: "val_of (Raft_Promotable E) ?s" by (rule assms(5)) (simp add: updateView_def)
  have run: "run_state (Candidate_processRequestVoteRequest E req) r =
     ((base_response r OK)\<lparr>rsp_GTID := g, RetCode := ErrorInvalidGTID\<rparr>, exec_of (Raft_Promotable E) ?s)"
    using assms(1,2,4) ok
    by (simp add: Candidate_processRequestVoteRequest_def checkRequest_def Let_def case_prod_beta run_on_mysql)
  have "ballot (exec_of (Raft_Promotable E) ?s) = ballot ?s" by (rule keeps_run) auto
  moreover have "moves_to {} ?s (exec_of (Raft_Promotable E) ?s)" by (rule moves_to.eff_run) auto
  ultimately show ?thesis
    using assms(3) unfolding run
    by (simp add: moves_to_def ballot_def updateView_def loop_event_def case_prod_beta)
qed

end
