(* ===== verification/RaftWins.thy ===== *)
theory RaftWins
  imports RaftElected
begin

section \<open>Elections of the cluster that succeed\<close>

text \<open>
  Election safety alone would hold of a cluster that never elects. Here: a candidate whose
  vote requests reach a majority of followers that may vote for it, with no other event in
  between, becomes the leader. And what the safety of a round does not say: a round can be
  led by two nodes one after the other.
\<close>

subsection \<open>A voter\<close>

text \<open>
  A follower that may vote for the sender of \<open>q\<close>: it knows the sender, the view is newer or
  its vote of that view is free or the sender's, and MySQL says, after the IO thread has been
  stopped, that its data are not newer than the sender's.
\<close>

definition willing :: "'w dbenv \<Rightarrow> RaftRPCRequest \<Rightarrow> 'w node \<Rightarrow> bool" where
  "willing E q n \<longleftrightarrow>
     (let r = n_raft n; db = exec_of (Mysql_StopSlaveIOThread E) (r_mysql r);
          (greater, g, e) = val_of (Mysql_GTIDGreaterThan E (req_GTID q)) db
      in (case e of None \<Rightarrow> \<not> greater | Some err \<Rightarrow> False) \<and> loop_state (n_loop n) = FOLLOWER \<and> r_state r = FOLLOWER \<and> r_mysqlReplMode r = ReplModeSemiSync \<and>
         checkRequest r q \<and> (r_ViewID r < GetViewID q \<or> r_ViewID r = GetViewID q \<and> r_votedFor r \<in> {noVote, GetFrom q}))"

lemma willing_grants:
  assumes "willing E q n"
  shows "vote_ok (val_of (process_request E (loop_state (n_loop n)) MsgRaftRequestVote q) (n_raft n))"
proof -
  have mode: "ReplModeSemiSync \<noteq> ReplModeMGR" by (simp add: ReplModeSemiSync_def ReplModeMGR_def)
  let ?r = "n_raft n"
  obtain g where w: "loop_state (n_loop n) = FOLLOWER" "r_state ?r = FOLLOWER" "r_mysqlReplMode ?r = ReplModeSemiSync"
    "checkRequest ?r q" "\<not> GetViewID q < r_ViewID ?r"
    "\<not> (\<not> GetViewID q > r_ViewID ?r \<and> r_votedFor ?r \<noteq> noVote \<and> r_votedFor ?r \<noteq> GetFrom q)"
    "val_of (Mysql_GTIDGreaterThan E (req_GTID q)) (exec_of (Mysql_StopSlaveIOThread E) (r_mysql ?r)) = (False, g, None)"
    using assms by (auto simp: willing_def Let_def order_less_imp_not_less order_less_imp_not_eq2 split: prod.splits option.splits)
  show ?thesis
    using w mode
    by (simp add: process_request_def Follower_processRequestVoteRequest_def Follower_vote_def Let_def
        case_prod_beta run_on_mysql vote_ok_def base_response_def NewRaftRPCResponse_def)
qed


subsection \<open>A candidate collects its votes\<close>

definition runs_with :: "int \<Rightarrow> 'w node \<Rightarrow> bool" where
  "runs_with m n \<longleftrightarrow> (\<exists>v. n_loop n = InCandidate v \<and> voteGranted v = m) \<and> r_state (n_raft n) = CANDIDATE"

lemma vote_counted:
  assumes "runs_with m n" "vote_ok rsp" "m + 1 < getMembers (n_raft n)"
  shows "runs_with (m + 1) (node_step E (EvVoteResponse rsp) n)"
    and "n_raft (node_step E (EvVoteResponse rsp) n) = n_raft n"
    and "\<not> new_round (EvVoteResponse rsp) n (node_step E (EvVoteResponse rsp) n)"
proof -
  obtain v where v: "n_loop n = InCandidate v" "voteGranted v = m" "r_state (n_raft n) = CANDIDATE"
    using assms(1) by (auto simp: runs_with_def)
  have "node_step E (EvVoteResponse rsp) n = n\<lparr>n_loop := InCandidate (v\<lparr>voteGranted := m + 1\<rparr>)\<rparr>"
    using v assms(2,3)
    by (simp add: node_step_def loop_event_def Candidate_response_def Candidate_processRequestVoteResponse_def
        outside_event_def settle_raft_def loop_head_def Raft_getState_def vote_ok_def case_prod_beta Let_def)
  with v show "runs_with (m + 1) (node_step E (EvVoteResponse rsp) n)"
    "n_raft (node_step E (EvVoteResponse rsp) n) = n_raft n"
    "\<not> new_round (EvVoteResponse rsp) n (node_step E (EvVoteResponse rsp) n)"
    by (simp_all add: runs_with_def new_round_def)
qed

text \<open>The request of \<open>i\<close>'s round is under way to \<open>j\<close>, which may vote for it.\<close>

definition may_vote :: "(string \<Rightarrow> 'w dbenv) \<Rightarrow> 'w cluster \<Rightarrow> string \<Rightarrow> string \<Rightarrow> bool" where
  "may_vote D c i j \<longleftrightarrow> (\<exists>x \<in> set (cl_calls c). vc_from x = i \<and> vc_to x = j \<and> vc_answer x = None \<and>
     GetViewID (vc_req x) = cl_round c i \<and> willing (D j) (vc_req x) (cl_node c j))"

lemma other_elem: "y \<in> set xs \<Longrightarrow> y \<noteq> xs ! k \<Longrightarrow> k < length xs \<Longrightarrow> y \<in> set (take k xs) \<union> set (drop (Suc k) xs)"
  using id_take_nth_drop [of k xs] by (metis Un_iff set_ConsD set_append)

lemma vote_won:
  assumes "runs_with m (cl_node c i)" "may_vote D c i j" "j \<noteq> i" "m + 1 < getMembers (n_raft (cl_node c i))"
  obtains c' where "(cl_move D M ^^ 2) c c'" "runs_with (m + 1) (cl_node c' i)" "cl_round c' i = cl_round c i"
    "n_raft (cl_node c' i) = (n_raft (cl_node c i))\<lparr>r_outbox := []\<rparr>"
    "\<And>l. l \<noteq> i \<Longrightarrow> l \<noteq> j \<Longrightarrow> cl_node c' l = cl_node c l \<and> cl_round c' l = cl_round c l"
    "\<And>l. l \<noteq> i \<Longrightarrow> l \<noteq> j \<Longrightarrow> may_vote D c i l \<Longrightarrow> may_vote D c' i l"
proof -
  obtain k where k: "k < length (cl_calls c)" and x: "vc_from (cl_calls c ! k) = i" "vc_to (cl_calls c ! k) = j"
      "vc_answer (cl_calls c ! k) = None" "GetViewID (vc_req (cl_calls c ! k)) = cl_round c i"
      "willing (D j) (vc_req (cl_calls c ! k)) (cl_node c j)"
    using assms(2) by (auto simp: may_vote_def in_set_conv_nth)
  let ?q = "vc_req (cl_calls c ! k)"
  let ?c1 = "ask_call D k c" and ?c2 = "tell_call D k (ask_call D k c)"
  define rsp where "rsp = val_of (process_request (D j) (loop_state (n_loop (cl_node c j))) MsgRaftRequestVote ?q) (n_raft (cl_node c j))"
  have ok: "vote_ok rsp" unfolding rsp_def by (rule willing_grants [OF x(5)])
  have up: "loop_state (n_loop (cl_node c (vc_to (cl_calls c ! k)))) \<noteq> STOPPED" using x(2,5) by (simp add: willing_def Let_def case_prod_beta)
  have move1: "cl_move D M c ?c1" by (rule ask_call_move [OF k x(3) up])
  have c1: "cl_node ?c1 i = cl_node c i" "cl_round ?c1 i = cl_round c i" "k < length (cl_calls ?c1)"
    "cl_calls ?c1 ! k = (cl_calls c ! k)\<lparr>vc_answer := Some rsp\<rparr>"
    using assms(3) k x(2) by (simp_all add: ask_call_def Let_def rsp_def deliver_lists)
  have "loop_state (n_loop (cl_node c i)) = CANDIDATE" using assms(1) by (auto simp: runs_with_def)
  then have move2: "cl_move D M ?c1 ?c2"
    using c1 x by (intro tell_call_move) simp_all
  note count = vote_counted [OF assms(1) ok assms(4), of "D i"]
  have c2: "runs_with (m + 1) (cl_node ?c2 i)" "cl_round ?c2 i = cl_round c i"
      "n_raft (cl_node ?c2 i) = (n_raft (cl_node c i))\<lparr>r_outbox := []\<rparr>"
    using count c1 x by (simp_all add: tell_call_def Let_def deliver_self runs_with_def)
  have same: "cl_node ?c2 l = cl_node c l \<and> cl_round ?c2 l = cl_round c l" if "l \<noteq> i" "l \<noteq> j" for l
    using that c1(4) x by (simp add: tell_call_def Let_def) (simp add: ask_call_def Let_def x)
  have "may_vote D ?c2 i l" if l: "l \<noteq> i" "l \<noteq> j" "may_vote D c i l" for l
  proof -
    obtain y where y: "y \<in> set (cl_calls c)" "vc_from y = i" "vc_to y = l" "vc_answer y = None"
       "GetViewID (vc_req y) = cl_round c i" "willing (D l) (vc_req y) (cl_node c l)"
      using l(3) by (auto simp: may_vote_def)
    have "y \<noteq> cl_calls c ! k" using y(3) x(2) l(2) by auto
    with y(1) k have "y \<in> set (take k (cl_calls c)) \<union> set (drop (Suc k) (cl_calls c))" by (rule_tac other_elem)
    then have "y \<in> set (cl_calls ?c2)"
      using k by (auto simp: tell_call_def ask_call_def Let_def deliver_lists)
    with y same [OF l(1,2)] c2(2) show ?thesis by (auto simp: may_vote_def)
  qed
  moreover have "(cl_move D M ^^ 2) c ?c2" using move1 move2 by (auto simp: numeral_2_eq_2)
  ultimately show ?thesis by (intro that [of ?c2] c2 same)
qed

lemma all_votes:
  assumes "runs_with m (cl_node c i)" "distinct js" "\<And>j. j \<in> set js \<Longrightarrow> j \<noteq> i \<and> may_vote D c i j"
    and "m + int (length js) < getMembers (n_raft (cl_node c i))"
  shows "\<exists>c'. (cl_move D M ^^ (2 * length js)) c c' \<and> runs_with (m + int (length js)) (cl_node c' i) \<and> cl_round c' i = cl_round c i \<and>
     r_metaPeers (n_raft (cl_node c' i)) = r_metaPeers (n_raft (cl_node c i)) \<and>
     (\<forall>l. l \<noteq> i \<longrightarrow> l \<notin> set js \<longrightarrow> cl_node c' l = cl_node c l \<and> cl_round c' l = cl_round c l)"
  using assms
proof (induction js arbitrary: m c)
  case Nil
  then show ?case by (auto intro!: exI [of _ c])
next
  case (Cons j js)
  have j: "may_vote D c i j" "j \<noteq> i" "m + 1 < getMembers (n_raft (cl_node c i))" using Cons.prems by auto
  obtain d where d: "(cl_move D M ^^ 2) c d" "runs_with (m + 1) (cl_node d i)" "cl_round d i = cl_round c i"
    "n_raft (cl_node d i) = (n_raft (cl_node c i))\<lparr>r_outbox := []\<rparr>"
    "\<And>l. l \<noteq> i \<Longrightarrow> l \<noteq> j \<Longrightarrow> may_vote D c i l \<Longrightarrow> may_vote D d i l"
    "\<And>l. l \<noteq> i \<Longrightarrow> l \<noteq> j \<Longrightarrow> cl_node d l = cl_node c l \<and> cl_round d l = cl_round c l"
    using vote_won [OF Cons.prems(1) j, where M = M] by metis
  obtain c' where c': "(cl_move D M ^^ (2 * length js)) d c' \<and> runs_with (m + 1 + int (length js)) (cl_node c' i) \<and> cl_round c' i = cl_round d i \<and>
     r_metaPeers (n_raft (cl_node c' i)) = r_metaPeers (n_raft (cl_node d i)) \<and>
     (\<forall>l. l \<noteq> i \<longrightarrow> l \<notin> set js \<longrightarrow> cl_node c' l = cl_node d l \<and> cl_round c' l = cl_round d l)"
    using Cons.IH [OF d(2)] Cons.prems d(4,5) by (auto simp: getMembers_def)
  have "(cl_move D M ^^ (2 + 2 * length js)) c c'"
    unfolding relpowp_add using d(1) c' by (blast intro: relcomppI)
  with c' d(3,4,6) show ?case by (intro exI [of _ c']) (simp add: algebra_simps)
qed

lemma quorum_leads:
  assumes "runs_with m n" "getQuorums (n_raft n) \<le> m"
  shows "loop_state (n_loop (node_step E EvCheckVotesTick n)) = LEADER"
    and "\<not> new_round EvCheckVotesTick n (node_step E EvCheckVotesTick n)"
proof -
  have "\<exists>w. n_loop (node_step E EvCheckVotesTick n) = InLeader w"
    using assms
    by (auto simp: runs_with_def node_step_def loop_event_def Candidate_checkVotesTick_def Candidate_upgradeToLeader_def
        outside_event_def settle_raft_def loop_head_def Raft_getState_def loop_exit_def loop_enter_def Raft_setState_def
        Raft_setLeader_def stats_defs upd_stats_def case_prod_beta Let_def)
  then show "loop_state (n_loop (node_step E EvCheckVotesTick n)) = LEADER"
    "\<not> new_round EvCheckVotesTick n (node_step E EvCheckVotesTick n)"
    by (auto simp: new_round_def)
qed

lemma round_won:
  assumes "i \<in> M" "3 \<le> card M" "seated M (n_raft (cl_node c i))" "runs_with 1 (cl_node c i)"
    and "Q \<subseteq> M - {i}" "card M < 2 * (1 + card Q)" "\<And>j. j \<in> Q \<Longrightarrow> may_vote D c i j"
  obtains c' where "(cl_move D M ^^ Suc (2 * (card M div 2))) c c'" "loop_state (n_loop (cl_node c' i)) = LEADER"
    "cl_round c' i = cl_round c i" "\<And>l. l \<noteq> i \<Longrightarrow> l \<notin> Q \<Longrightarrow> cl_node c' l = cl_node c l \<and> cl_round c' l = cl_round c l"
proof -
  have members: "getMembers r = int (card M)" "getQuorums r = int (card M) div 2 + 1"
    if "r_metaPeers r = r_metaPeers (n_raft (cl_node c i))" for r :: "'a raft"
    using seated_members [OF assms(3)] that by (simp_all add: getMembers_def getQuorums_def)
  have "card M div 2 \<le> card Q" using assms(6) by simp
  then obtain P where P: "P \<subseteq> Q" "card P = card M div 2" "finite P"
    by (rule obtain_subset_with_card_n)
  then obtain js where js: "set js = P" "distinct js" using finite_distinct_list by blast
  have len: "length js = card M div 2" using distinct_card [OF js(2)] js(1) P(2) by simp
  then have "1 + int (length js) < getMembers (n_raft (cl_node c i))"
    using members(1) [OF refl] assms(2) by simp
  then obtain d where d: "(cl_move D M ^^ (2 * length js)) c d" "runs_with (1 + int (length js)) (cl_node d i)"
    "cl_round d i = cl_round c i" "r_metaPeers (n_raft (cl_node d i)) = r_metaPeers (n_raft (cl_node c i))"
    "\<forall>l. l \<noteq> i \<longrightarrow> l \<notin> set js \<longrightarrow> cl_node d l = cl_node c l \<and> cl_round d l = cl_round c l"
    using all_votes [OF assms(4) js(2), where D = D and M = M] js(1) P(1) assms(5,7) by blast
  have "getQuorums (n_raft (cl_node d i)) \<le> 1 + int (length js)"
    using members(2) [OF d(4)] len by (simp add: zdiv_int)
  note lead = quorum_leads [OF d(2) this, of "D i"]
  let ?c = "deliver (D i) EvCheckVotesTick i d"
  have "cl_move D M d ?c"
    by (rule cl_move.local [OF assms(1)]) (simp add: local_event_def)
  with d(1) have "(cl_move D M ^^ Suc (2 * (card M div 2))) c ?c" unfolding len by (rule relpowp_Suc_I)
  moreover have "loop_state (n_loop (cl_node ?c i)) = LEADER" "cl_round ?c i = cl_round c i"
    using lead d(3) by (simp_all add: deliver_self)
  moreover have "cl_node ?c l = cl_node c l \<and> cl_round ?c l = cl_round c l" if "l \<noteq> i" "l \<notin> Q" for l
    using d(5) js(1) P(1) that by auto
  ultimately show ?thesis by (rule that)
qed

lemma reach_moves: "cl_reach D M V n c \<Longrightarrow> (cl_move D M ^^ k) c c' \<Longrightarrow> cl_reach D M V (n + k) c'"
  by (induction k arbitrary: c') (auto intro: cl_reach.step)

text \<open>
  C5. In every reachable state: a candidate whose round has begun, and whose vote
  requests are under way to followers that may vote for it and that make a majority with it,
  can be the leader of its round, and its only one, after at most as many moves as there are
  members, and one more.
\<close>

theorem majority_elects:
  assumes "cl_reach D M V n c" "V + 3 * (n + card M + 1) < 2 ^ 63" "i \<in> M" "runs_with 1 (cl_node c i)"
    and "Q \<subseteq> M - {i}" "card M < 2 * (1 + card Q)" "\<And>j. j \<in> Q \<Longrightarrow> may_vote D c i j"
  shows "\<exists>c' m. m \<le> n + card M + 1 \<and> cl_reach D M V m c' \<and> cl_round c' i = cl_round c i \<and>
     {j \<in> M. loop_state (n_loop (cl_node c' j)) = LEADER \<and> cl_round c' j = cl_round c' i} = {i}"
proof -
  have "cl_inv M (V + 3 * n) c" by (rule reach_inv [OF assms(1)]) (use assms(2) in simp)
  then have seat: "seats M (V + 3 * n) c" by (simp add: cl_inv_def)
  obtain c' where c': "(cl_move D M ^^ Suc (2 * (card M div 2))) c c'" "loop_state (n_loop (cl_node c' i)) = LEADER"
    "cl_round c' i = cl_round c i"
    using seatsD [OF seat assms(3)] by (rule_tac round_won [OF assms(3) _ _ assms(4-7)])
  let ?m = "n + Suc (2 * (card M div 2))"
  have m: "?m \<le> n + card M + 1" by simp
  have reach: "cl_reach D M V ?m c'" by (rule reach_moves [OF assms(1) c'(1)])
  have "cl_inv M (V + 3 * ?m) c'" by (rule reach_inv [OF reach]) (rule le_less_trans [OF add_left_mono [OF mult_le_mono2 [OF m]] assms(2)])
  note sole = sole_leader [OF this]
  have "{j \<in> M. loop_state (n_loop (cl_node c' j)) = LEADER \<and> cl_round c' j = cl_round c' i} = {i}"
    using assms(3) c'(2) by (auto intro: sole)
  with m reach c'(3) show ?thesis by blast
qed

lemma trio1_asks:
  "list_all (\<lambda>x. (case vc_answer x of None \<Rightarrow> True | _ \<Rightarrow> False) \<and> GetViewID (vc_req x) = cl_round trio1 ''a:1'' \<and>
     willing quiet_env (vc_req x) (cl_node trio1 (vc_to x))) (cl_calls trio1)"
  by code_simp

lemma trio1_runs:
  "let n = cl_node trio1 ''a:1'' in
     (case n_loop n of InCandidate v \<Rightarrow> voteGranted v = 1 | _ \<Rightarrow> False) \<and> r_state (n_raft n) = CANDIDATE \<and>
     r_id (n_raft n) = ''a:1'' \<and> r_metaPeers (n_raft n) = trio \<and> r_peers (n_raft n) = tl trio \<and>
     r_idlePeers (n_raft n) = [] \<and> r_metaIdlePeers (n_raft n) = []"
  by code_simp

theorem majority_elects_witness:
  "\<exists>c' m. m \<le> 5 \<and> cl_reach (\<lambda>i. quiet_env) (set trio) 0 m c' \<and> cl_round c' ''a:1'' = 1 \<and>
     {j \<in> set trio. loop_state (n_loop (cl_node c' j)) = LEADER \<and> cl_round c' j = cl_round c' ''a:1''} = {''a:1''}"
proof -
  have b: "\<exists>x \<in> set (cl_calls trio1). call_key x = (''a:1'', ''b:1'', 1)"
    using trio1_facts by (auto simp: map_eq_Cons_conv)
  have vote: "may_vote (\<lambda>i. quiet_env) trio1 ''a:1'' j" if "j \<in> {''b:1''}" for j
  proof -
    obtain x where x: "x \<in> set (cl_calls trio1)" "call_key x = (''a:1'', ''b:1'', 1)" using b by blast
    with trio1_asks that show ?thesis
      unfolding may_vote_def list_all_iff
      by (intro bexI [OF _ x(1)]) (auto simp: call_key_def split: option.splits)
  qed
  have n: "runs_with 1 (cl_node trio1 ''a:1'')"
    using trio1_runs by (auto simp: runs_with_def Let_def split: loop.splits)
  have M: "''a:1'' \<in> set trio" "{''b:1''} \<subseteq> set trio - {''a:1''}" "card (set trio) < 2 * (1 + card {''b:1''})"
    by (simp_all add: trio_def)
  have reach: "cl_reach (\<lambda>i. quiet_env) (set trio) 0 1 trio1"
    using cl_reach.step [OF cl_reach.start [OF trio_start] trio_first] by simp
  have three: "card (set trio) = 3" by (simp add: trio_def)
  show ?thesis
    using majority_elects [OF reach _ M(1) n M(2,3) vote] trio1_facts by (simp add: three)
qed


subsection \<open>A round that is led twice\<close>

text \<open>In a cluster of the three members, \<open>c:1\<close> has asked for votes in round 1 and \<open>p\<close> may vote for it.\<close>

definition third_asks :: "string \<Rightarrow> unit cluster \<Rightarrow> bool" where
  "third_asks p x \<longleftrightarrow> (let n = cl_node x ''c:1'' in
     (case n_loop n of InCandidate v \<Rightarrow> voteGranted v = 1 | _ \<Rightarrow> False) \<and> r_state (n_raft n) = CANDIDATE \<and>
     r_id (n_raft n) = ''c:1'' \<and> r_metaPeers (n_raft n) = trio \<and> r_peers (n_raft n) = butlast trio \<and>
     r_idlePeers (n_raft n) = [] \<and> r_metaIdlePeers (n_raft n) = [] \<and> cl_round x ''c:1'' = 1 \<and>
     list_ex (\<lambda>y. call_key y = (''c:1'', p, 1) \<and> (case vc_answer y of None \<Rightarrow> True | _ \<Rightarrow> False) \<and>
       willing quiet_env (vc_req y) (cl_node x p)) (cl_calls x))"

lemma third_wins:
  assumes "third_asks p x" "p \<in> {''a:1'', ''b:1''}"
  obtains d where "(cl_move (\<lambda>i. quiet_env) (set trio))\<^sup>*\<^sup>* x d" "loop_state (n_loop (cl_node d ''c:1'')) = LEADER"
    "cl_round d ''c:1'' = 1" "\<And>l. l \<notin> {''c:1'', p} \<Longrightarrow> cl_node d l = cl_node x l \<and> cl_round d l = cl_round x l"
proof -
  have M: "''c:1'' \<in> set trio" "3 \<le> card (set trio)" "{p} \<subseteq> set trio - {''c:1''}" "card (set trio) < 2 * (1 + card {p})"
    using assms(2) by (auto simp: trio_def)
  have vote: "may_vote (\<lambda>i. quiet_env) x ''c:1'' j" if "j \<in> {p}" for j
    using that assms(1)
    by (fastforce simp: may_vote_def third_asks_def call_key_def list_ex_iff Let_def split: option.splits)
  have n: "runs_with 1 (cl_node x ''c:1'')" "seated (set trio) (n_raft (cl_node x ''c:1''))" "cl_round x ''c:1'' = 1"
    using assms(1) by (auto simp: third_asks_def runs_with_def seated_def trio_def Let_def split: loop.splits)
  show thesis
  proof (rule round_won [OF M(1,2) n(2,1) M(3,4) vote], assumption)
    fix d assume d: "(cl_move (\<lambda>i. quiet_env) (set trio) ^^ Suc (2 * (card (set trio) div 2))) x d"
      "loop_state (n_loop (cl_node d ''c:1'')) = LEADER" "cl_round d ''c:1'' = cl_round x ''c:1''"
      "\<And>l. l \<noteq> ''c:1'' \<Longrightarrow> l \<notin> {p} \<Longrightarrow> cl_node d l = cl_node x l \<and> cl_round d l = cl_round x l"
    then show thesis using n(3) by (intro that [OF relpowp_imp_rtranclp [OF d(1)]]) auto
  qed
qed

text \<open>
  A candidate asks for votes with its own vote free (\<open>votedFor = noVote\<close>, \<open>sendRequestVote\<close>), so a
  leader that leaves its office in the same view, here by \<open>HADisable\<close> and \<open>HAEnable\<close>, votes for a
  rival of that view: \<open>a:1\<close> led the round, and now \<open>c:1\<close>, which had not heard of it, leads it.
\<close>

definition trio5 :: "unit cluster" where
  "trio5 = deliver quiet_env EvHAEnable ''a:1'' (deliver quiet_env EvHADisable ''a:1'' trio4)"

definition trio6 :: "unit cluster" where
  "trio6 = deliver quiet_env EvHATryToLeader ''c:1'' trio5"

lemma trio6_asks: "third_asks ''a:1'' trio6"
  by code_simp

lemma round_led_twice:
  "\<exists>c d. cl_reach (\<lambda>i. quiet_env) (set trio) 0 4 c \<and> (cl_move (\<lambda>i. quiet_env) (set trio))\<^sup>*\<^sup>* c d \<and>
     loop_state (n_loop (cl_node c ''a:1'')) = LEADER \<and> loop_state (n_loop (cl_node d ''c:1'')) = LEADER \<and>
     cl_round c ''a:1'' = cl_round d ''c:1''"
proof -
  let ?m = "cl_move (\<lambda>i. quiet_env) (set trio)"
  have loc: "?m\<^sup>*\<^sup>* c (deliver quiet_env ev i d)" if "?m\<^sup>*\<^sup>* c d" "i \<in> set trio" "local_event ev" for c d ev i
    using that(1) cl_move.local [where D = "\<lambda>i. quiet_env", OF that(2,3)] by (rule rtranclp.rtrancl_into_rtrancl)
  have M: "''a:1'' \<in> set trio" "''c:1'' \<in> set trio" by (simp_all add: trio_def)
  have ev: "local_event EvHAEnable" "local_event EvHADisable" "local_event EvHATryToLeader"
    by (simp_all add: local_event_def)
  have again: "?m\<^sup>*\<^sup>* trio4 trio6"
    unfolding trio6_def trio5_def by (intro loc rtranclp.rtrancl_refl M ev)
  obtain d where d: "?m\<^sup>*\<^sup>* trio6 d" "loop_state (n_loop (cl_node d ''c:1'')) = LEADER" "cl_round d ''c:1'' = 1"
    by (rule third_wins [OF trio6_asks]) auto
  have "?m\<^sup>*\<^sup>* trio4 d" using again d(1) by (rule rtranclp_trans)
  then show ?thesis
    by (intro exI [of _ trio4] exI [of _ d]) (use trio_reach trio4_leads d(2,3) in simp)
qed


subsection \<open>A vote that is forgotten\<close>

text \<open>
  View and vote are not stored. \<open>b:1\<close>, whose vote made \<open>a:1\<close> leader, restarts on its peers file and
  votes for \<open>c:1\<close> in the same view: two nodes lead the round at the same time. So the nodes of the
  cluster above do not restart.
\<close>

definition restarted :: "'w dbenv \<Rightarrow> 'w node \<Rightarrow> 'w node" where
  "restarted E n = (let r = n_raft n in
     node_start E (NewRaft (r_id r) (r_conf r) (r_mysql r) False (r_delegateDBApply r) UNKNOWN (r_peersFile r)))"

definition trio9 :: "unit cluster" where
  "trio9 = deliver quiet_env EvHATryToLeader ''c:1''
     (trio4\<lparr>cl_node := (cl_node trio4)(''b:1'' := restarted quiet_env (cl_node trio4 ''b:1''))\<rparr>)"

lemma trio9_asks: "third_asks ''b:1'' trio9"
  by code_simp

lemma restart_makes_two_leaders:
  "\<exists>d. (cl_move (\<lambda>i. quiet_env) (set trio))\<^sup>*\<^sup>*
     (trio4\<lparr>cl_node := (cl_node trio4)(''b:1'' := restarted quiet_env (cl_node trio4 ''b:1''))\<rparr>) d \<and>
     (\<forall>i \<in> {''a:1'', ''c:1''}. loop_state (n_loop (cl_node d i)) = LEADER \<and> cl_round d i = 1)"
proof -
  let ?m = "cl_move (\<lambda>i. quiet_env) (set trio)"
  let ?c = "trio4\<lparr>cl_node := (cl_node trio4)(''b:1'' := restarted quiet_env (cl_node trio4 ''b:1''))\<rparr>"
  have "''c:1'' \<in> set trio" by (simp add: trio_def)
  then have first: "?m ?c trio9"
    unfolding trio9_def by (rule cl_move.local) (simp add: local_event_def)
  obtain d where d: "?m\<^sup>*\<^sup>* trio9 d" "loop_state (n_loop (cl_node d ''c:1'')) = LEADER" "cl_round d ''c:1'' = 1"
    "cl_node d ''a:1'' = cl_node trio9 ''a:1''" "cl_round d ''a:1'' = cl_round trio9 ''a:1''"
    by (rule third_wins [OF trio9_asks]) auto
  have a: "cl_node trio9 ''a:1'' = cl_node trio4 ''a:1''" "cl_round trio9 ''a:1'' = cl_round trio4 ''a:1''"
    by (simp_all add: trio9_def)
  have "?m\<^sup>*\<^sup>* ?c d" using first d(1) by (rule converse_rtranclp_into_rtranclp)
  then show ?thesis
    by (intro exI [of _ d]) (use trio4_leads d(2-5) a in simp)
qed

end
