(* ===== verification/RaftSpec.thy ===== *)
theory RaftSpec
  imports RaftWins
begin

section \<open>What an election is: a ballot box\<close>

text \<open>
  The specification of the elections: votes that members cast in rounds, and members that hold
  the office for a round. A member casts one vote per round and none in a round that it leads;
  it wins a round in which it has not voted when it makes a majority with those that voted for
  it; it may leave the office at any time. There are no messages, timers or views. The cluster
  of \<open>RaftCluster\<close> refines it: every move of the cluster is some steps of the box.
\<close>

record ballot_box =
  bx_votes :: "(string \<times> 64 word \<times> string) set"
  bx_leads :: "string \<Rightarrow> 64 word option"

definition new_box :: ballot_box where
  "new_box = \<lparr>bx_votes = {}, bx_leads = (\<lambda>i. None)\<rparr>"

definition voters :: "string set \<Rightarrow> ballot_box \<Rightarrow> 64 word \<Rightarrow> string \<Rightarrow> string set" where
  "voters M p v i = insert i {k \<in> M. (k, v, i) \<in> bx_votes p}"

inductive box_step :: "string set \<Rightarrow> ballot_box \<Rightarrow> ballot_box \<Rightarrow> bool" for M :: "string set" where
  cast: "j \<in> M \<Longrightarrow> \<forall>b. (j, v, b) \<in> bx_votes p \<longrightarrow> b = a \<Longrightarrow> bx_leads p j \<noteq> Some v \<Longrightarrow>
    box_step M p (p\<lparr>bx_votes := insert (j, v, a) (bx_votes p)\<rparr>)"
| win: "i \<in> M \<Longrightarrow> bx_leads p i = None \<Longrightarrow> \<forall>a. (i, v, a) \<notin> bx_votes p \<Longrightarrow> majority M (voters M p v i) \<Longrightarrow>
    box_step M p (p\<lparr>bx_leads := (bx_leads p)(i \<mapsto> v)\<rparr>)"
| lose: "box_step M p (p\<lparr>bx_leads := (bx_leads p)(i := None)\<rparr>)"


subsection \<open>The box is safe\<close>

definition box_ok :: "string set \<Rightarrow> ballot_box \<Rightarrow> bool" where
  "box_ok M p \<longleftrightarrow> (\<forall>j v a b. (j, v, a) \<in> bx_votes p \<longrightarrow> (j, v, b) \<in> bx_votes p \<longrightarrow> a = b) \<and>
     (\<forall>i v. bx_leads p i = Some v \<longrightarrow> (\<forall>a. (i, v, a) \<notin> bx_votes p) \<and> majority M (voters M p v i))"

lemma majority_grows: "majority M P \<Longrightarrow> P \<subseteq> Q \<Longrightarrow> Q \<subseteq> M \<Longrightarrow> majority M Q"
  unfolding majority_def by (meson card_mono finite_subset le_less_trans less_le_trans mult_le_mono2)

lemma box_step_ok:
  assumes "box_step M p q" "box_ok M p"
  shows "box_ok M q"
  using assms
proof (induction rule: box_step.induct)
  case (cast j v p a)
  have "majority M (voters M (p\<lparr>bx_votes := insert (j, v, a) (bx_votes p)\<rparr>) w i)"
    if "majority M (voters M p w i)" for i w
    by (rule majority_grows [OF that]) (use that in \<open>auto simp: voters_def majority_def\<close>)
  with cast show ?case by (auto simp: box_ok_def)
qed (auto simp: box_ok_def voters_def)

lemma box_runs_ok: "(box_step M)\<^sup>*\<^sup>* p q \<Longrightarrow> box_ok M p \<Longrightarrow> box_ok M q"
  by (induction rule: rtranclp_induct) (auto intro: box_step_ok)

lemma box_one_leader:
  assumes "(box_step M)\<^sup>*\<^sup>* new_box p" "bx_leads p i = Some v" "bx_leads p j = Some v"
  shows "i = j"
proof -
  have ok: "box_ok M p" by (rule box_runs_ok [OF assms(1)]) (simp add: box_ok_def new_box_def)
  then have maj: "majority M (voters M p v i)" "majority M (voters M p v j)"
    using assms(2,3) by (auto simp: box_ok_def)
  let ?vote = "\<lambda>k x. (k, v, x) \<in> bx_votes p \<or> k = x \<and> bx_leads p k = Some v"
  have "\<And>k. k \<in> voters M p v i \<Longrightarrow> ?vote k i" "\<And>k. k \<in> voters M p v j \<Longrightarrow> ?vote k j"
    using assms(2,3) by (auto simp: voters_def)
  moreover have "x = y" if "?vote k x" "?vote k y" for k x y
    using ok that by (auto simp: box_ok_def)
  ultimately show ?thesis by (rule majority.one_winner [OF maj])
qed


subsection \<open>The cluster refines the box\<close>

definition leads :: "string set \<Rightarrow> 'w cluster \<Rightarrow> string \<Rightarrow> 64 word option" where
  "leads M c i = (if i \<in> M \<and> loop_state (n_loop (cl_node c i)) = LEADER then Some (cl_round c i) else None)"

definition box_of :: "string set \<Rightarrow> 'w cluster \<Rightarrow> ballot_box" where
  "box_of M c = \<lparr>bx_votes = set (cl_granted c), bx_leads = leads M c\<rparr>"

text \<open>A move is an event at one node, which grants at most one vote and leads no second round.\<close>

definition turns :: "string set \<Rightarrow> string \<Rightarrow> 'w cluster \<Rightarrow> 'w cluster \<Rightarrow> bool" where
  "turns M i c c' \<longleftrightarrow>
     (set (cl_granted c') = set (cl_granted c) \<or> (\<exists>v a. set (cl_granted c') = insert (i, v, a) (set (cl_granted c)))) \<and>
     (\<forall>j. j \<noteq> i \<longrightarrow> leads M c' j = leads M c j) \<and> (leads M c i \<noteq> None \<longrightarrow> leads M c' i \<in> {None, leads M c i})"

lemma granted_one: "granted E ev n = [] \<or> (\<exists>v a. granted E ev n = [(v, a)])"
  by (auto simp: granted_def split: event.splits Msg.splits)

lemma deliver_turns: "turns M i c (deliver E ev i c)"
proof -
  let ?n = "cl_node c i"
  have "set (cl_granted (deliver E ev i c)) = set (cl_granted c) \<or>
      (\<exists>v a. set (cl_granted (deliver E ev i c)) = insert (i, v, a) (set (cl_granted c)))"
    using granted_one [of E ev ?n] by (elim disjE exE) (auto simp: deliver_lists)
  moreover have "leads M (deliver E ev i c) j = leads M c j" if "j \<noteq> i" for j
    using that by (simp add: leads_def)
  moreover have "leads M (deliver E ev i c) i \<in> {None, leads M c i}" if "leads M c i \<noteq> None"
    using that by (auto simp: leads_def deliver_self new_round_def split: if_splits)
  ultimately show ?thesis unfolding turns_def by blast
qed

lemma turns_calls: "turns M i (c\<lparr>cl_calls := xs\<rparr>) c' = turns M i c c'" "turns M i c (c'\<lparr>cl_calls := xs\<rparr>) = turns M i c c'"
  by (simp_all add: turns_def leads_def)

lemma move_turns:
  assumes "cl_move D M c c'" "calls_ok M B c"
  shows "\<exists>i \<in> M. turns M i c c'"
  using assms(1)
proof cases
  case (local i ev)
  then show ?thesis using deliver_turns by blast
next
  case (beat j q)
  then show ?thesis using deliver_turns by blast
next
  case (ask k x n rsp d)
  have "vc_to x \<in> M" by (rule calls_okD(2) [OF assms(2) ask(2,3)])
  then show ?thesis
    using deliver_turns [of M "vc_to x" c] unfolding ask(1) turns_calls ask(8) by blast
next
  case (tell k x rsp)
  have "vc_from x \<in> M" by (rule calls_okD(1) [OF assms(2) tell(2,3)])
  then show ?thesis
    using deliver_turns [of M "vc_from x" "c\<lparr>cl_calls := take k (cl_calls c) @ drop (Suc k) (cl_calls c)\<rparr>"]
    unfolding tell(1) turns_calls by blast
qed

text \<open>What the invariant says of the offices.\<close>

lemma inv_leads:
  assumes "cl_inv M B c" "leads M c i = Some v"
  shows "\<forall>a. (i, v, a) \<notin> set (cl_granted c)" "majority M (voters M (box_of M c) v i)"
proof -
  have i: "i \<in> M" "loop_state (n_loop (cl_node c i)) = LEADER" "v = cl_round c i"
    using assms(2) by (auto simp: leads_def split: if_splits)
  have grants: "grants_ok M c" using assms(1) by (simp add: cl_inv_def)
  have "running_for (cl_node c i)" using i(2) by (simp add: running_for_def)
  with grants_okD(4) [OF grants] i(3) show "\<forall>a. (i, v, a) \<notin> set (cl_granted c)" by blast
  have "{k \<in> M. backs c v k i} \<subseteq> voters M (box_of M c) v i"
    by (auto simp: backs_def voters_def box_of_def)
  moreover have "voters M (box_of M c) v i \<subseteq> M" using i(1) by (auto simp: voters_def)
  ultimately show "majority M (voters M (box_of M c) v i)"
    using majority_grows leader_majority [OF assms(1) i(1,2)] i(3) by blast
qed

lemma turn_refines:
  assumes "turns M i c c'" "i \<in> M" "cl_inv M B c'"
  shows "(box_step M)\<^sup>*\<^sup>* (box_of M c) (box_of M c')"
proof -
  let ?p = "box_of M c" and ?p' = "box_of M c'"
  have grants: "grants_ok M c'" using assms(3) by (simp add: cl_inv_def)
  have leads': "leads M c' = (leads M c)(i := leads M c' i)"
    by (rule ext) (use assms(1) in \<open>simp add: turns_def\<close>)
  define L where "L = (if leads M c' i = None then None else leads M c i)"
  define q where "q = ?p\<lparr>bx_leads := (leads M c)(i := L)\<rparr>"
  have off: "(box_step M)\<^sup>*\<^sup>* ?p q"
  proof (cases "leads M c' i = None")
    case True
    then have "q = ?p\<lparr>bx_leads := (bx_leads ?p)(i := None)\<rparr>" by (simp add: q_def L_def box_of_def)
    with box_step.lose [of M ?p i] show ?thesis by auto
  next
    case False
    then have "q = ?p" by (auto simp: q_def L_def box_of_def)
    then show ?thesis by simp
  qed
  let ?q = "q\<lparr>bx_votes := set (cl_granted c')\<rparr>"
  have cast: "(box_step M)\<^sup>*\<^sup>* q ?q"
  proof (cases "set (cl_granted c') = set (cl_granted c)")
    case False
    then obtain v a where new: "set (cl_granted c') = insert (i, v, a) (set (cl_granted c))"
      using assms(1) by (auto simp: turns_def)
    have "(i, v, a) \<in> set (cl_granted c')" using new by simp
    then have "\<forall>b. (i, v, b) \<in> bx_votes q \<longrightarrow> b = a"
      using grants_okD(5) [OF grants, of i v _ a] new by (simp add: q_def box_of_def)
    moreover have "bx_leads q i \<noteq> Some v"
    proof
      assume "bx_leads q i = Some v"
      then have "leads M c' i = Some v"
        using assms(1) by (auto simp: q_def L_def turns_def split: if_splits)
      from inv_leads(1) [OF assms(3) this] new show False by auto
    qed
    ultimately have "box_step M q (q\<lparr>bx_votes := insert (i, v, a) (bx_votes q)\<rparr>)"
      by (rule box_step.cast [OF assms(2)])
    then show ?thesis using new by (simp add: q_def box_of_def r_into_rtranclp)
  qed (simp add: q_def box_of_def)
  have win: "(box_step M)\<^sup>*\<^sup>* ?q ?p'"
  proof (cases "leads M c' i = L")
    case True
    then have "?q = ?p'" using leads' by (simp add: q_def box_of_def)
    then show ?thesis by simp
  next
    case False
    then obtain v where v: "leads M c' i = Some v" "leads M c i = None"
      using assms(1) by (auto simp: L_def turns_def split: if_splits)
    have "bx_leads ?q i = None" "\<forall>a. (i, v, a) \<notin> bx_votes ?q" "majority M (voters M ?q v i)"
      using inv_leads [OF assms(3) v(1)] v by (simp_all add: q_def L_def box_of_def voters_def)
    from box_step.win [OF assms(2) this] have "box_step M ?q ?p'"
      using leads' v by (simp add: q_def L_def box_of_def)
    then show ?thesis by blast
  qed
  from off cast win show ?thesis by (meson rtranclp_trans)
qed

lemma start_box: "cl_start M V c \<Longrightarrow> box_of M c = new_box"
  by (auto simp: cl_start_def box_of_def new_box_def leads_def Let_def)

lemma reach_box: "cl_reach D M V n c \<Longrightarrow> V + 3 * n < 2 ^ 63 \<Longrightarrow> (box_step M)\<^sup>*\<^sup>* new_box (box_of M c)"
proof (induction rule: cl_reach.induct)
  case (start c)
  then show ?case by (simp add: start_box)
next
  case (step n c c')
  have inv: "cl_inv M (V + 3 * n) c" "cl_inv M (V + 3 * Suc n) c'"
    using step.prems reach_inv [OF step.hyps(1)] reach_inv [OF cl_reach.step [OF step.hyps]] by simp_all
  obtain i where "i \<in> M" "turns M i c c'"
    using move_turns [OF step.hyps(2)] inv(1) by (auto simp: cl_inv_def)
  then have "(box_step M)\<^sup>*\<^sup>* (box_of M c) (box_of M c')" using inv(2) by (rule_tac turn_refines)
  with step show ?case by (auto intro: rtranclp_trans)
qed

text \<open>
  C4. In every reachable state, every move of the cluster is some steps of the
  ballot box: the votes that nodes have granted and the rounds that leaders hold change only as
  the specification says, so that a member casts one vote per round and holds the office only
  with a majority of the members.
\<close>

theorem cluster_refines_ballots:
  assumes "cl_reach D M V n c" "V + 3 * (n + 1) < 2 ^ 63" "cl_move D M c c'"
  shows "(box_step M)\<^sup>*\<^sup>* (box_of M c) (box_of M c')"
proof -
  have inv: "cl_inv M (V + 3 * n) c" by (rule reach_inv [OF assms(1)]) (use assms(2) in simp)
  then have "cl_inv M (V + 3 * n + 3) c'" by (rule move_inv [OF assms(3)]) (use assms(2) in simp)
  moreover obtain i where "i \<in> M" "turns M i c c'"
    using move_turns [OF assms(3)] inv by (auto simp: cl_inv_def)
  ultimately show ?thesis by (rule_tac turn_refines)
qed

lemma trio3_votes: "leads (set trio) trio3 ''a:1'' = None"
  by code_simp

theorem cluster_refines_ballots_witness:
  "(box_step (set trio))\<^sup>*\<^sup>* (box_of (set trio) trio3) (box_of (set trio) trio4) \<and>
   bx_leads (box_of (set trio) trio3) ''a:1'' = None \<and> bx_leads (box_of (set trio) trio4) ''a:1'' = Some 1"
  using cluster_refines_ballots [OF trio_reach3 _ trio_last] trio3_votes trio4_leads
  by (simp add: box_of_def leads_def trio_def)

end
