(* ===== verification/RaftTimers.thy ===== *)
theory RaftTimers
  imports RaftElected
begin

section \<open>The Loop of each state and its timers (the Loop functions, raft.go, common.go)\<close>

text \<open>
  \<open>RaftNode\<close> takes timers as events that may come at any time. Here each \<open>Loop\<close> is written
  out with the timers it resets, a node has a clock and the moment each timer is due, and a
  tick comes only when it is. A reset of the election timer takes a random number of
  milliseconds, the argument \<open>j\<close> (the value of \<open>rand.Intn\<close>).

  Shown: the loops do what \<open>loop_event\<close> says; a follower's election timer fires only after
  \<open>election-timeout\<close> milliseconds without a heartbeat, and within ten milliseconds more.
\<close>

subsection \<open>Timeouts\<close>

definition random_max :: "int \<Rightarrow> int" where
  "random_max lo = (if lo \<le> 5 then lo * 2 else if lo \<le> 20 then lo + lo div 2 else lo + 10)"

definition RandomTimeout :: "int \<Rightarrow> int \<Rightarrow> int" where
  "RandomTimeout lo j = (let delta = random_max lo - lo in if delta > 0 then lo + j else lo)"

text \<open>The values of \<open>rand.Intn(delta)\<close>.\<close>

definition intn_ok :: "int \<Rightarrow> int \<Rightarrow> bool" where
  "intn_ok lo j \<longleftrightarrow> 0 \<le> j \<and> (random_max lo > lo \<longrightarrow> j < random_max lo - lo)"

lemma RandomTimeout_bounds:
  assumes "intn_ok lo j" "0 < lo"
  shows "lo \<le> RandomTimeout lo j" "RandomTimeout lo j < random_max lo"
  using assms by (auto simp: RandomTimeout_def intn_ok_def Let_def random_max_def)

datatype timer = TmHeartbeat | TmElection | TmCheckVotes | TmBrainSplit

text \<open>The four resets; Go's \<open>/ 2\<close> is of a positive number here.\<close>

definition timeout_ms :: "RaftConfig \<Rightarrow> int \<Rightarrow> timer \<Rightarrow> int" where
  "timeout_ms c j tm = (case tm of
       TmHeartbeat \<Rightarrow> rc_HeartbeatTimeout c
     | TmElection \<Rightarrow> RandomTimeout (rc_ElectionTimeout c) j
     | TmCheckVotes \<Rightarrow> rc_ElectionTimeout c div 2
     | TmBrainSplit \<Rightarrow> rc_ElectionTimeout c div 2)"


subsection \<open>The loops\<close>

definition Follower_Loop :: "'w dbenv \<Rightarrow> int \<Rightarrow> event \<Rightarrow> ('w, loop \<times> timer list) rst" where
  "Follower_Loop E cnt ev = (case ev of
       EvElectionTick \<Rightarrow> do { Follower_electionTimeout E; ret (InFollower cnt, [TmElection]) }
     | EvRequest MsgRaftHeartbeat req \<Rightarrow> do {
         _ \<leftarrow> Follower_processHeartbeatRequest E req;
         ret (InFollower cnt, [TmElection]) }
     | EvRequest MsgRaftRequestVote req \<Rightarrow> do {
         rsp \<leftarrow> Follower_processRequestVoteRequest E req;
         ret (InFollower cnt, if RetCode rsp = OK then [TmElection] else []) }
     | EvRequest MsgRaftPing req \<Rightarrow> do { _ \<leftarrow> processPingRequest req; ret (InFollower cnt, []) }
     | _ \<Rightarrow> ret (InFollower cnt, []))"

text \<open>The goroutine of \<open>startCheckBrainSplit\<close>.\<close>

definition Follower_checkBrainSplit :: "int \<Rightarrow> event \<Rightarrow> ('w, loop \<times> timer list) rst" where
  "Follower_checkBrainSplit cnt ev = (case ev of
       EvBrainSplitTick \<Rightarrow> do { c \<leftarrow> Follower_brainSplitTick cnt; ret (InFollower c, [TmBrainSplit]) }
     | EvPingResponse rsp \<Rightarrow> do { c \<leftarrow> Follower_pingResponse cnt rsp; ret (InFollower c, []) }
     | _ \<Rightarrow> ret (InFollower cnt, []))"

definition Candidate_Loop :: "'w dbenv \<Rightarrow> cvars \<Rightarrow> event \<Rightarrow> ('w, loop \<times> timer list) rst" where
  "Candidate_Loop E v ev = (case ev of
       EvCheckVotesTick \<Rightarrow> do { v' \<leftarrow> Candidate_checkVotesTick v; ret (InCandidate v', [TmCheckVotes]) }
     | EvElectionTick \<Rightarrow> do {
         v' \<leftarrow> Candidate_electionTick E v;
         ret (InCandidate v', [TmCheckVotes, TmElection]) }
     | EvVoteResponse rsp \<Rightarrow> do { v' \<leftarrow> Candidate_response v rsp; ret (InCandidate v', []) }
     | EvRequest MsgRaftHeartbeat req \<Rightarrow> do { _ \<leftarrow> Candidate_processHeartbeatRequest req; ret (InCandidate v, []) }
     | EvRequest MsgRaftRequestVote req \<Rightarrow> do { _ \<leftarrow> Candidate_processRequestVoteRequest E req; ret (InCandidate v, []) }
     | EvRequest MsgRaftPing req \<Rightarrow> do { _ \<leftarrow> processPingRequest req; ret (InCandidate v, []) }
     | _ \<Rightarrow> ret (InCandidate v, []))"

text \<open>A tick that breaks out of the \<open>select\<close> resets nothing.\<close>

definition Leader_Loop :: "'w dbenv \<Rightarrow> lvars \<Rightarrow> event \<Rightarrow> ('w, loop \<times> timer list) rst" where
  "Leader_Loop E v ev = (case ev of
       EvHeartbeatTick \<Rightarrow> do {
         mode \<leftarrow> gets r_mysqlReplMode;
         (v1, broke) \<leftarrow> (if mode = ReplModeSemiSync then Leader_tick_semisync E v else Leader_tick_mgr E v);
         (if broke then ret (InLeader v1, [])
          else do {
            v2 \<leftarrow> Leader_sendHeartbeat E (v1\<lparr>ackGranted := 1\<rparr>);
            ret (InLeader v2, [TmHeartbeat]) }) }
     | EvHeartbeatResponse rsp \<Rightarrow> do { v' \<leftarrow> Leader_processHeartbeatResponse E v rsp; ret (InLeader v', []) }
     | EvRequest MsgRaftHeartbeat req \<Rightarrow> do { _ \<leftarrow> Leader_processHeartbeatRequest E req; ret (InLeader v, []) }
     | EvRequest MsgRaftRequestVote req \<Rightarrow> do { _ \<leftarrow> Leader_processRequestVoteRequest E req; ret (InLeader v, []) }
     | EvRequest MsgRaftPing req \<Rightarrow> do { _ \<leftarrow> processPingRequest req; ret (InLeader v, []) }
     | _ \<Rightarrow> ret (InLeader v, []))"

definition Idle_Loop :: "'w dbenv \<Rightarrow> event \<Rightarrow> ('w, loop \<times> timer list) rst" where
  "Idle_Loop E ev = (case ev of
       EvRequest MsgRaftHeartbeat req \<Rightarrow> do { _ \<leftarrow> Idle_processHeartbeatRequest E req; ret (InIdle, []) }
     | EvRequest MsgRaftRequestVote req \<Rightarrow> do { _ \<leftarrow> Idle_processRequestVoteRequest req; ret (InIdle, []) }
     | EvRequest MsgRaftPing req \<Rightarrow> do { _ \<leftarrow> processPingRequest req; ret (InIdle, []) }
     | _ \<Rightarrow> ret (InIdle, []))"

definition Invalid_Loop :: "'w dbenv \<Rightarrow> event \<Rightarrow> ('w, loop \<times> timer list) rst" where
  "Invalid_Loop E ev = (case ev of
       EvRequest MsgRaftHeartbeat req \<Rightarrow> do { _ \<leftarrow> Invalid_processHeartbeatRequest E req; ret (InInvalid, []) }
     | EvRequest MsgRaftRequestVote req \<Rightarrow> do { _ \<leftarrow> Invalid_processRequestVoteRequest req; ret (InInvalid, []) }
     | EvRequest MsgRaftPing req \<Rightarrow> do { _ \<leftarrow> processPingRequest req; ret (InInvalid, []) }
     | _ \<Rightarrow> ret (InInvalid, []))"

definition Learner_Loop :: "'w dbenv \<Rightarrow> event \<Rightarrow> ('w, loop \<times> timer list) rst" where
  "Learner_Loop E ev = (case ev of
       EvRequest MsgRaftHeartbeat req \<Rightarrow> do { _ \<leftarrow> Learner_processHeartbeatRequest E req; ret (InLearner, []) }
     | EvRequest MsgRaftRequestVote req \<Rightarrow> do { _ \<leftarrow> Learner_processRequestVoteRequest req; ret (InLearner, []) }
     | EvRequest MsgRaftPing req \<Rightarrow> do { _ \<leftarrow> processPingRequest req; ret (InLearner, []) }
     | _ \<Rightarrow> ret (InLearner, []))"

text \<open>The event goes to the loop that runs, or to the follower's goroutine.\<close>

definition state_Loop :: "'w dbenv \<Rightarrow> loop \<Rightarrow> event \<Rightarrow> ('w, loop \<times> timer list) rst" where
  "state_Loop E l ev = (case l of
       InFollower cnt \<Rightarrow> (case ev of
           EvBrainSplitTick \<Rightarrow> Follower_checkBrainSplit cnt ev
         | EvPingResponse rsp \<Rightarrow> Follower_checkBrainSplit cnt ev
         | _ \<Rightarrow> Follower_Loop E cnt ev)
     | InCandidate v \<Rightarrow> Candidate_Loop E v ev
     | InLeader v \<Rightarrow> Leader_Loop E v ev
     | InIdle \<Rightarrow> Idle_Loop E ev
     | InInvalid \<Rightarrow> Invalid_Loop E ev
     | InLearner \<Rightarrow> Learner_Loop E ev
     | Stopped \<Rightarrow> ret (Stopped, []))"

lemmas Loop_defs = Follower_Loop_def Follower_checkBrainSplit_def Candidate_Loop_def Leader_Loop_def
  Idle_Loop_def Invalid_Loop_def Learner_Loop_def

lemma state_Loop_request:
  "run_state (do { x \<leftarrow> state_Loop E l (EvRequest msg req); ret (fst x) }) r =
   run_state (loop_event E l (EvRequest msg req)) r"
  by (cases l; cases msg)
     (simp_all add: state_Loop_def Loop_defs loop_event_def process_request_def case_prod_beta)

lemma state_Loop_other:
  assumes "\<not> (\<exists>msg req. ev = EvRequest msg req)"
  shows "run_state (do { x \<leftarrow> state_Loop E l ev; ret (fst x) }) r = run_state (loop_event E l ev) r"
  using assms
  by (cases l; cases ev)
     (simp_all add: state_Loop_def Loop_defs loop_event_def Leader_heartbeatTick_def case_prod_beta)

text \<open>
  The event function of the node model does, for every state, event and
  node, exactly what the \<open>Loop\<close> of that state does, timers aside.
\<close>

lemma loops_are_loop_event:
  "run_state (do { x \<leftarrow> state_Loop E l ev; ret (fst x) }) r = run_state (loop_event E l ev) r"
  using state_Loop_request state_Loop_other by (cases "\<exists>msg req. ev = EvRequest msg req") blast+


subsection \<open>A node with a clock\<close>

record 'w tnode =
  tn_node :: "'w node"
  tn_conf :: RaftConfig
  tn_now :: int
  tn_due :: "timer \<Rightarrow> int"

definition reset_timers :: "timer list \<Rightarrow> int \<Rightarrow> 'w tnode \<Rightarrow> 'w tnode" where
  "reset_timers tms j t = t\<lparr>tn_due := (\<lambda>tm. if tm \<in> set tms then tn_now t + timeout_ms (tn_conf t) j tm
     else tn_due t tm)\<rparr>"

text \<open>The timers that a loop resets when it starts.\<close>

definition entry_timers :: "State \<Rightarrow> timer list" where
  "entry_timers st = (case st of
       FOLLOWER \<Rightarrow> [TmBrainSplit, TmElection]
     | CANDIDATE \<Rightarrow> [TmElection, TmCheckVotes]
     | LEADER \<Rightarrow> [TmHeartbeat]
     | _ \<Rightarrow> [])"

definition tick_timer :: "event \<Rightarrow> timer option" where
  "tick_timer ev = (case ev of
       EvHeartbeatTick \<Rightarrow> Some TmHeartbeat
     | EvElectionTick \<Rightarrow> Some TmElection
     | EvCheckVotesTick \<Rightarrow> Some TmCheckVotes
     | EvBrainSplitTick \<Rightarrow> Some TmBrainSplit
     | _ \<Rightarrow> None)"

definition due :: "event \<Rightarrow> 'w tnode \<Rightarrow> bool" where
  "due ev t = (case tick_timer ev of None \<Rightarrow> True | Some tm \<Rightarrow> tn_due t tm \<le> tn_now t)"

definition loop_timers :: "'w dbenv \<Rightarrow> event \<Rightarrow> 'w node \<Rightarrow> timer list" where
  "loop_timers E ev n = snd (val_of (state_Loop E (n_loop n) ev) (n_raft n)) @
     (if loop_state (n_loop (node_step E ev n)) = loop_state (n_loop n) then []
      else entry_timers (loop_state (n_loop (node_step E ev n))))"

definition tn_step :: "'w dbenv \<Rightarrow> int \<Rightarrow> event \<Rightarrow> 'w tnode \<Rightarrow> 'w tnode" where
  "tn_step E j ev t = reset_timers (loop_timers E ev (tn_node t)) j (t\<lparr>tn_node := node_step E ev (tn_node t)\<rparr>)"

datatype tevent = Wait nat | Happens int event

primrec tn_do :: "'w dbenv \<Rightarrow> tevent \<Rightarrow> 'w tnode \<Rightarrow> 'w tnode" where
  "tn_do E (Wait d) t = t\<lparr>tn_now := tn_now t + int d\<rparr>"
| "tn_do E (Happens j ev) t = tn_step E j ev t"

definition tn_run :: "'w dbenv \<Rightarrow> tevent list \<Rightarrow> 'w tnode \<Rightarrow> 'w tnode" where
  "tn_run E tevs t = fold (tn_do E) tevs t"

definition jitter_ok :: "RaftConfig \<Rightarrow> tevent \<Rightarrow> bool" where
  "jitter_ok c te = (case te of Wait d \<Rightarrow> True | Happens j ev \<Rightarrow> intn_ok (rc_ElectionTimeout c) j)"

text \<open>From \<open>lo\<close> on: the election timer is not due before, and time does not go back.\<close>

definition not_before :: "int \<Rightarrow> RaftConfig \<Rightarrow> 'w tnode \<Rightarrow> bool" where
  "not_before lo c t \<longleftrightarrow> tn_conf t = c \<and> lo \<le> tn_now t + rc_ElectionTimeout c \<and> lo \<le> tn_due t TmElection"

lemma not_before_do:
  assumes "not_before lo c t" "jitter_ok c te" "0 < rc_ElectionTimeout c"
  shows "not_before lo c (tn_do E te t)"
proof (cases te)
  case (Happens j ev)
  then have "rc_ElectionTimeout c \<le> RandomTimeout (rc_ElectionTimeout c) j"
    using assms(2,3) by (intro RandomTimeout_bounds(1)) (simp_all add: jitter_ok_def)
  with assms(1) Happens show ?thesis
    by (simp add: not_before_def tn_step_def reset_timers_def timeout_ms_def)
qed (use assms in \<open>simp add: not_before_def\<close>)

lemma not_before_run:
  "not_before lo c t \<Longrightarrow> list_all (jitter_ok c) tevs \<Longrightarrow> 0 < rc_ElectionTimeout c \<Longrightarrow> not_before lo c (tn_run E tevs t)"
proof (induction tevs arbitrary: t)
  case (Cons te tevs)
  then show ?case using not_before_do [of lo c t te E] by (simp add: tn_run_def)
qed (simp add: tn_run_def)

lemma heartbeat_timer:
  "n_loop n = InFollower cnt \<Longrightarrow> TmElection \<in> set (loop_timers E (EvRequest MsgRaftHeartbeat req) n)"
  by (simp add: loop_timers_def state_Loop_def Follower_Loop_def case_prod_beta)

lemma waits_run: "tn_run E (map Wait ds) t = t\<lparr>tn_now := tn_now t + int (sum_list ds)\<rparr>"
  by (induction ds arbitrary: t) (simp_all add: tn_run_def algebra_simps)

text \<open>
  C35. Once a follower has handled a heartbeat, whatever its answer was,
  its election timer does not fire for the whole election timeout, whatever happens in
  between, and if then nothing else happens it fires within ten milliseconds more (for
  timeouts above 20 ms).
\<close>

theorem heartbeat_defers_election:
  fixes E :: "'w dbenv" and req :: RaftRPCRequest
  assumes "n_loop (tn_node t) = InFollower cnt" "intn_ok (rc_ElectionTimeout (tn_conf t)) j"
    and "20 < rc_ElectionTimeout (tn_conf t)" "list_all (jitter_ok (tn_conf t)) tevs"
  defines "t1 \<equiv> tn_step E j (EvRequest MsgRaftHeartbeat req) t"
  shows "(tn_now (tn_run E tevs t1) < tn_now t + rc_ElectionTimeout (tn_conf t) \<longrightarrow>
            \<not> due EvElectionTick (tn_run E tevs t1)) \<and>
         (rc_ElectionTimeout (tn_conf t) + 10 \<le> int (sum_list ds) \<longrightarrow> due EvElectionTick (tn_run E (map Wait ds) t1))"
proof
  let ?c = "tn_conf t"
  have tm: "tn_due t1 TmElection = tn_now t + RandomTimeout (rc_ElectionTimeout ?c) j" "tn_now t1 = tn_now t" "tn_conf t1 = ?c"
    using heartbeat_timer [OF assms(1)] by (simp_all add: t1_def tn_step_def reset_timers_def timeout_ms_def)
  have pos: "0 < rc_ElectionTimeout ?c" using assms(3) by simp
  note bounds = RandomTimeout_bounds [OF assms(2) pos]
  have "not_before (tn_now t + rc_ElectionTimeout ?c) ?c t1"
    using tm bounds by (simp add: not_before_def)
  from not_before_run [OF this assms(4) pos, of E]
  show "tn_now (tn_run E tevs t1) < tn_now t + rc_ElectionTimeout ?c \<longrightarrow> \<not> due EvElectionTick (tn_run E tevs t1)"
    by (auto simp: not_before_def due_def tick_timer_def)
  show "rc_ElectionTimeout ?c + 10 \<le> int (sum_list ds) \<longrightarrow> due EvElectionTick (tn_run E (map Wait ds) t1)"
    using tm bounds assms(3) by (simp add: waits_run due_def tick_timer_def random_max_def)
qed

text \<open>The three members of the examples: a heartbeat at time 0 and an election timeout of 3000.\<close>

definition clocked :: "unit tnode" where
  "clocked = \<lparr>tn_node = member ''b:1'', tn_conf = demo_conf, tn_now = 0, tn_due = (\<lambda>tm. 3005)\<rparr>"

theorem heartbeat_defers_election_witness:
  "let t1 = tn_step quiet_env 7 (EvRequest MsgRaftHeartbeat (beat 1)) clocked
   in \<not> due EvElectionTick (tn_run quiet_env [Wait 2999] t1) \<and> due EvElectionTick (tn_run quiet_env [Wait 3000, Wait 10] t1)"
proof -
  let ?t1 = "tn_step quiet_env 7 (EvRequest MsgRaftHeartbeat (beat 1)) clocked"
  have "n_loop (tn_node clocked) = InFollower 1" "intn_ok (rc_ElectionTimeout (tn_conf clocked)) 7"
    "20 < rc_ElectionTimeout (tn_conf clocked)" "list_all (jitter_ok (tn_conf clocked)) [Wait 2999]"
    by (simp_all add: clocked_def member_def demo_conf_def intn_ok_def random_max_def jitter_ok_def)
  from heartbeat_defers_election [OF this, of quiet_env "beat 1" "[3000, 10]"]
  have "tn_now (tn_run quiet_env [Wait 2999] ?t1) < 3000 \<longrightarrow> \<not> due EvElectionTick (tn_run quiet_env [Wait 2999] ?t1)"
    "due EvElectionTick (tn_run quiet_env [Wait 3000, Wait 10] ?t1)"
    by (simp_all add: clocked_def demo_conf_def)
  moreover have "tn_now (tn_run quiet_env [Wait 2999] ?t1) = 2999"
    by (simp add: tn_run_def tn_step_def reset_timers_def clocked_def)
  ultimately show ?thesis by (simp add: Let_def)
qed


subsection \<open>A leader that is cut off, and its successor\<close>

text \<open>Rounds of a leader that hears from nobody: its heartbeat timer, and no answer.\<close>

definition silent_round :: "int \<Rightarrow> int \<Rightarrow> tevent list" where
  "silent_round hb j = [Wait (nat hb), Happens j EvHeartbeatTick]"

definition silent_rounds :: "nat \<Rightarrow> int \<Rightarrow> int \<Rightarrow> tevent list" where
  "silent_rounds k hb j = concat (replicate k (silent_round hb j))"

lemma tn_run_append: "tn_run E (xs @ ys) t = tn_run E ys (tn_run E xs t)"
  by (simp add: tn_run_def)

lemma silent_Suc: "silent_rounds (Suc k) hb j = silent_rounds k hb j @ silent_round hb j"
proof -
  have "replicate (Suc k) x = replicate k x @ [x]" for x :: "tevent list"
    by (simp add: replicate_append_same)
  from this [of "silent_round hb j"] show ?thesis by (simp add: silent_rounds_def del: replicate_Suc)
qed

lemma silent_timer:
  assumes "isolated n k" "k + 1 < rc_AdmitDefeatHtCnt (r_conf (n_raft n))"
  shows "loop_timers E EvHeartbeatTick n = [TmHeartbeat]"
proof -
  obtain v where v: "n_loop n = InLeader v" "lessHtAcks v = k" "ackGranted v = 1"
    using assms(1) by (auto simp: isolated_def)
  have "isolated (node_step E EvHeartbeatTick n) (k + 1)"
    using isolated_tick(1) [OF assms] by blast
  then have "loop_state (n_loop (node_step E EvHeartbeatTick n)) = loop_state (n_loop n)"
    using v(1) by (auto simp: isolated_def)
  moreover have "1 < getQuorums (n_raft n)" "2 < getMembers (n_raft n)" "r_mysqlReplMode (n_raft n) = ReplModeSemiSync"
    using assms(1) by (auto simp: isolated_def getQuorums_def getMembers_def)
  then have "snd (val_of (state_Loop E (n_loop n) EvHeartbeatTick) (n_raft n)) = [TmHeartbeat]"
    using v assms(2) by (simp add: state_Loop_def Leader_Loop_def Leader_tick_semisync_def Leader_less_acks_def
        case_prod_beta)
  ultimately show ?thesis by (simp add: loop_timers_def)
qed

text \<open>A node whose heartbeat timer is due one timeout from now.\<close>

definition beating :: "'w tnode \<Rightarrow> bool" where
  "beating t \<longleftrightarrow> tn_due t TmHeartbeat = tn_now t + rc_HeartbeatTimeout (tn_conf t) \<and> 0 \<le> rc_HeartbeatTimeout (tn_conf t)"

lemma silent_run:
  fixes t :: "'w tnode" and E :: "'w dbenv" and j :: int
  assumes "isolated (tn_node t) 0" "beating t" "k < d" "rc_AdmitDefeatHtCnt (r_conf (n_raft (tn_node t))) = int d"
  defines "t' \<equiv> tn_run E (silent_rounds k (rc_HeartbeatTimeout (tn_conf t)) j) t"
  shows "isolated (tn_node t') (int k) \<and> beating t' \<and> tn_conf t' = tn_conf t \<and>
    r_conf (n_raft (tn_node t')) = r_conf (n_raft (tn_node t)) \<and>
    tn_now t' = tn_now t + int k * rc_HeartbeatTimeout (tn_conf t)"
  using assms(3) unfolding t'_def
proof (induction k)
  case 0
  then show ?case using assms(1,2) by (simp add: silent_rounds_def tn_run_def)
next
  case (Suc k)
  let ?hb = "rc_HeartbeatTimeout (tn_conf t)"
  let ?t = "tn_run E (silent_rounds k ?hb j) t"
  have IH: "isolated (tn_node ?t) (int k)" "beating ?t" "tn_conf ?t = tn_conf t"
    "r_conf (n_raft (tn_node ?t)) = r_conf (n_raft (tn_node t))" "tn_now ?t = tn_now t + int k * ?hb"
    using Suc by simp_all
  have more: "int k + 1 < rc_AdmitDefeatHtCnt (r_conf (n_raft (tn_node ?t)))" using Suc.prems IH(4) assms(4) by simp
  have next1: "tn_run E (silent_rounds (Suc k) ?hb j) t = tn_step E j EvHeartbeatTick (?t\<lparr>tn_now := tn_now ?t + int (nat ?hb)\<rparr>)"
    by (simp add: silent_Suc tn_run_append) (simp add: tn_run_def silent_round_def)
  show ?case
    unfolding next1 using isolated_tick(1) [OF IH(1) more, of E] silent_timer [OF IH(1) more, of E] IH(2-5)
    by (simp add: tn_step_def reset_timers_def timeout_ms_def beating_def algebra_simps)
qed

text \<open>
  C36. A semi-sync leader of more than two members, its MySQL alive, is cut
  off, at the moment at which a follower has its last heartbeat, and handles nothing but its ticks.
  It is still leader at the end of all rounds but the last of
  \<open>admit-defeat-hearbeat-count\<close>, whose ticks come when they are due, and steps down with the last.
  Where these rounds take longer than the election timeout and ten milliseconds, the follower's
  election timer has fired by then: the old leader is in office while its successor is elected.
\<close>

theorem cut_off_leader_overlaps:
  fixes t :: "'w tnode" and u :: "'v tnode"
  assumes "n_loop (tn_node t) = InLeader v" "lessHtAcks v = 0" "ackGranted v = 1" "\<not> mysqlDown v"
    and "r_state (n_raft (tn_node t)) = LEADER" "r_mysqlReplMode (n_raft (tn_node t)) = ReplModeSemiSync"
    and "getMembers (n_raft (tn_node t)) > 2" "my_state (r_mysql (n_raft (tn_node t))) \<noteq> MysqlDead"
    and "beating t" "rc_AdmitDefeatHtCnt (r_conf (n_raft (tn_node t))) = int (Suc d)"
    and "n_loop (tn_node u) = InFollower cnt" "tn_now u = tn_now t" "tn_conf u = tn_conf t"
    and "intn_ok (rc_ElectionTimeout (tn_conf t)) j" "20 < rc_ElectionTimeout (tn_conf t)"
    and "rc_ElectionTimeout (tn_conf t) + 10 \<le> int d * rc_HeartbeatTimeout (tn_conf t)"
  shows "let rounds = (\<lambda>k. tn_run E (silent_rounds k (rc_HeartbeatTimeout (tn_conf t)) 0) t);
             wait = nat (rc_ElectionTimeout (tn_conf t) + 10);
             u' = tn_run F [Happens j (EvRequest MsgRaftHeartbeat q), Wait wait] u
    in loop_state (n_loop (tn_node (rounds d))) = LEADER \<and> tn_now (rounds d) = tn_now t + int d * rc_HeartbeatTimeout (tn_conf t) \<and>
       due EvHeartbeatTick ((rounds d)\<lparr>tn_now := tn_now (rounds d) + rc_HeartbeatTimeout (tn_conf t)\<rparr>) \<and>
       loop_state (n_loop (tn_node (rounds (Suc d)))) = FOLLOWER \<and>
       due EvElectionTick u' \<and> tn_now u' \<le> tn_now (rounds d)"
proof -
  have iso: "isolated (tn_node t) 0"
    unfolding isolated_def using assms(1-8) by blast
  let ?hb = "rc_HeartbeatTimeout (tn_conf t)"
  let ?t = "tn_run E (silent_rounds d ?hb 0) t"
  have now: "isolated (tn_node ?t) (int d)" "beating ?t" "tn_conf ?t = tn_conf t"
    "r_conf (n_raft (tn_node ?t)) = r_conf (n_raft (tn_node t))" "tn_now ?t = tn_now t + int d * ?hb"
    using silent_run [OF iso assms(9) lessI assms(10), of E 0] by simp_all
  have leads: "loop_state (n_loop (tn_node ?t)) = LEADER" using now(1) by (auto simp: isolated_def)
  have "loop_state (n_loop (node_step E EvHeartbeatTick (tn_node ?t))) = FOLLOWER"
    using isolated_tick(2) [OF now(1), of E] now(4) assms(10) by simp
  then have last: "loop_state (n_loop (tn_node (tn_run E (silent_rounds (Suc d) ?hb 0) t))) = FOLLOWER"
    by (simp add: silent_Suc tn_run_append) (simp add: tn_run_def silent_round_def tn_step_def reset_timers_def)
  let ?u = "tn_step F j (EvRequest MsgRaftHeartbeat q) u" and ?ds = "[nat (rc_ElectionTimeout (tn_conf t) + 10)]"
  have stands: "tn_due ?u TmElection = tn_now u + RandomTimeout (rc_ElectionTimeout (tn_conf u)) j" "tn_now ?u = tn_now u"
    using heartbeat_timer [OF assms(11)] by (simp_all add: tn_step_def reset_timers_def timeout_ms_def)
  have "due EvElectionTick (tn_run F (map Wait ?ds) ?u)"
    using stands RandomTimeout_bounds [OF assms(14)] assms(13,15)
    by (subst waits_run) (simp add: due_def tick_timer_def random_max_def)
  moreover have "tn_now (tn_run F (map Wait ?ds) ?u) \<le> tn_now ?t"
    using assms(12,15,16) stands(2) now(5) by (subst waits_run) simp
  moreover have "due EvHeartbeatTick (?t\<lparr>tn_now := tn_now ?t + ?hb\<rparr>)"
    using now(2,3) by (simp add: due_def tick_timer_def beating_def)
  ultimately show ?thesis
    using leads last now(5) by (simp add: Let_def tn_run_def)
qed

text \<open>With the default timeouts, 1000 and 3000 ms, and ten rounds: six seconds of overlap.\<close>

theorem cut_off_leader_overlaps_witness:
  "let t = \<lparr>tn_node = three_nodes, tn_conf = demo_conf, tn_now = 0, tn_due = (\<lambda>tm. 1000)\<rparr>;
       t' = tn_run too_many_env (silent_rounds 9 1000 0) t
   in loop_state (n_loop (tn_node t')) = LEADER \<and> tn_now t' = 9000 \<and>
      due EvElectionTick (tn_run quiet_env [Happens 7 (EvRequest MsgRaftHeartbeat (beat 1)), Wait 3010] clocked)"
proof -
  let ?t = "\<lparr>tn_node = three_nodes, tn_conf = demo_conf, tn_now = 0, tn_due = (\<lambda>tm. 1000)\<rparr>"
  have conf: "rc_HeartbeatTimeout demo_conf = 1000" "rc_ElectionTimeout demo_conf = 3000"
    by (simp_all add: demo_conf_def)
  have pre: "n_loop (tn_node ?t) = InLeader lvars0" "lessHtAcks lvars0 = 0" "ackGranted lvars0 = 1" "\<not> mysqlDown lvars0"
    "r_state (n_raft (tn_node ?t)) = LEADER" "r_mysqlReplMode (n_raft (tn_node ?t)) = ReplModeSemiSync"
    "getMembers (n_raft (tn_node ?t)) > 2" "my_state (r_mysql (n_raft (tn_node ?t))) \<noteq> MysqlDead"
    "beating ?t" "rc_AdmitDefeatHtCnt (r_conf (n_raft (tn_node ?t))) = int (Suc 9)"
    "n_loop (tn_node clocked) = InFollower 1" "tn_now clocked = tn_now ?t" "tn_conf clocked = tn_conf ?t"
    "intn_ok (rc_ElectionTimeout (tn_conf ?t)) 7" "20 < rc_ElectionTimeout (tn_conf ?t)"
    "rc_ElectionTimeout (tn_conf ?t) + 10 \<le> int 9 * rc_HeartbeatTimeout (tn_conf ?t)"
    using three_nodes_isolated conf
    by (simp_all add: isolated_def three_nodes_def Let_def lvars0_def beating_def clocked_def member_def intn_ok_def
        random_max_def)
  from cut_off_leader_overlaps [OF pre, of too_many_env quiet_env "beat 1"] show ?thesis
    by (simp add: Let_def conf)
qed

end
