(* ===== verification/Config.thy ===== *)
theory Config
  imports RaftState
begin

section \<open>Configuration (internal/config)\<close>

text \<open>
  The configuration tree with every section of the file; a section is a pointer in the
  code, so it may be absent here too. The codecs of JSON and YAML and the file system are
  arguments: a decoder gets the bytes and the configuration that holds the defaults.
  \<open>quote\<close> is \<open>%q\<close> of a text with nothing to escape; it only occurs in error messages.
\<close>

subsection \<open>Sections and their defaults (config.go)\<close>

record AuthenticationConfig =
  au_Username :: string
  au_Password :: string

definition DefaultAuthenticationConfig :: AuthenticationConfig where
  "DefaultAuthenticationConfig = \<lparr>au_Username = [], au_Password = []\<rparr>"

record RestAPIConfig =
  EnableAPIs :: bool
  ra_Listen :: string
  ra_ConnectAddress :: string
  ra_Certfile :: string
  ra_Keyfile :: string
  ra_Authentication :: "AuthenticationConfig option"

definition DefaultRestAPIConfig :: RestAPIConfig where
  "DefaultRestAPIConfig = \<lparr>EnableAPIs = False, ra_Listen = ''127.0.0.1:8008'',
     ra_ConnectAddress = ''127.0.0.1:8008'', ra_Certfile = [], ra_Keyfile = [],
     ra_Authentication = Some DefaultAuthenticationConfig\<rparr>"

record CtlConfig =
  Insecure :: bool
  ct_Certfile :: string
  Cacert :: string

definition DefaultCtlConfig :: CtlConfig where
  "DefaultCtlConfig = \<lparr>Insecure = False, ct_Certfile = [], Cacert = []\<rparr>"

record EtcdConfig =
  ec_Host :: string
  ec_Hosts :: "string list"
  ec_UseProxies :: bool
  ec_TTL :: int

definition DefaultEtcdConfig :: EtcdConfig where
  "DefaultEtcdConfig = \<lparr>ec_Host = [], ec_Hosts = [], ec_UseProxies = False, ec_TTL = 30\<rparr>"

definition DefaultRaftConfig :: RaftConfig where
  "DefaultRaftConfig = \<lparr>rc_MetaDatadir = ''.'', rc_HeartbeatTimeout = 1000, rc_AdmitDefeatHtCnt = 10,
     rc_ElectionTimeout = 3000, rc_PurgeBinlogInterval = 1000 * 60 * 5, rc_SuperIDLE = False,
     rc_LeaderStartCommand = ''nop'', rc_LeaderStopCommand = ''nop'', rc_PurgeBinlogDisabled = False,
     rc_RequestTimeout = 1000, rc_CandidateWaitFor2Nodes = 1000 * 60\<rparr>"

record ElectionConfig =
  Algo :: string
  el_Raft :: "RaftConfig option"
  el_Etcd :: "EtcdConfig option"

definition DefaultElectionConfig :: ElectionConfig where
  "DefaultElectionConfig = \<lparr>Algo = ''raft'', el_Raft = Some DefaultRaftConfig, el_Etcd = Some DefaultEtcdConfig\<rparr>"

record CoordinationConfig =
  Provider :: string
  co_Raft :: "RaftConfig option"
  co_Etcd :: "EtcdConfig option"

definition DefaultCoordinationConfig :: CoordinationConfig where
  "DefaultCoordinationConfig = (let e = DefaultElectionConfig in
     \<lparr>Provider = Algo e, co_Raft = el_Raft e, co_Etcd = el_Etcd e\<rparr>)"

record StandbyClusterConfig =
  sb_Host :: string
  sb_Port :: int
  sb_PrimarySlotName :: string

definition DefaultStandbyClusterConfig :: StandbyClusterConfig where
  "DefaultStandbyClusterConfig = \<lparr>sb_Host = [], sb_Port = 0, sb_PrimarySlotName = ''pgrepl''\<rparr>"

record RecoveryConfConfig =
  RestoreCommand :: string

definition DefaultRecoveryConfConfig :: RecoveryConfConfig where
  "DefaultRecoveryConfConfig = \<lparr>RestoreCommand = []\<rparr>"

record DcsConfig =
  dcs_TTL :: int
  dcs_LoopWait :: int
  dcs_RetryTimeout :: int
  dcs_MaximumLagOnFailover :: int
  dcs_MasterStartTimeout :: int
  dcs_SynchronousMode :: bool
  dcs_StandbyCluster :: "StandbyClusterConfig option"
  dcs_UsePGRewind :: bool
  dcs_UseSlots :: bool
  dcs_Parameters :: "(string \<times> string) list"
  dcs_RecoveryConf :: "RecoveryConfConfig option"

record InitDBConfig =
  Encoding :: string
  DataChecksums :: bool

definition DefaultInitDBConfig :: InitDBConfig where
  "DefaultInitDBConfig = \<lparr>Encoding = ''UTF8'', DataChecksums = True\<rparr>"

record BootstrapPostgresqlUsersConfig =
  bu_Username :: string
  bu_Password :: string
  bu_Options :: "string list"

definition DefaultDcsConfig :: DcsConfig where
  "DefaultDcsConfig = \<lparr>dcs_TTL = 30, dcs_LoopWait = 10, dcs_RetryTimeout = 10,
     dcs_MaximumLagOnFailover = 1048576, dcs_MasterStartTimeout = 300, dcs_SynchronousMode = False,
     dcs_StandbyCluster = Some DefaultStandbyClusterConfig, dcs_UsePGRewind = True, dcs_UseSlots = True,
     dcs_Parameters = [], dcs_RecoveryConf = Some DefaultRecoveryConfConfig\<rparr>"

record BootstrapPostgresqlConfig =
  DcsConf :: "DcsConfig option"
  InitDB :: "InitDBConfig option"
  PgHba :: "string list"
  PostInit :: string
  bp_Users :: "BootstrapPostgresqlUsersConfig list"

definition DefaultBootstrapPostgresqlConfig :: BootstrapPostgresqlConfig where
  "DefaultBootstrapPostgresqlConfig = \<lparr>DcsConf = Some DefaultDcsConfig,
     InitDB = Some DefaultInitDBConfig, PgHba = [], PostInit = [], bp_Users = []\<rparr>"

datatype BootstrapMysqlConfig = BootstrapMysqlConfig

record BootstrapConfig =
  BootstrapPostgresql :: "BootstrapPostgresqlConfig option"
  BootstrapMysql :: "BootstrapMysqlConfig option"

definition DefaultBootstrapConfig :: BootstrapConfig where
  "DefaultBootstrapConfig = \<lparr>BootstrapPostgresql = Some DefaultBootstrapPostgresqlConfig,
     BootstrapMysql = Some BootstrapMysqlConfig\<rparr>"

record PGAuthReplConfig =
  re_Username :: string
  re_Password :: string

record PGAuthSuperUserConfig =
  su_Username :: string
  su_Password :: string

record PGAuthRewindConfig =
  rw_Username :: string
  rw_Password :: string

record PGAuthConfig =
  pa_Repl :: "PGAuthReplConfig option"
  pa_SuperUser :: "PGAuthSuperUserConfig option"
  pa_Rewind :: "PGAuthRewindConfig option"

definition DefaultPGAuthConfig :: PGAuthConfig where
  "DefaultPGAuthConfig = \<lparr>pa_Repl = Some \<lparr>re_Username = [], re_Password = []\<rparr>,
     pa_SuperUser = Some \<lparr>su_Username = [], su_Password = []\<rparr>,
     pa_Rewind = Some \<lparr>rw_Username = [], rw_Password = []\<rparr>\<rparr>"

record PostgresqlConfig =
  pg_Version :: string
  pg_Listen :: string
  pg_ConnectAddress :: string
  pg_DataDir :: string
  pg_BinDir :: string
  pg_ConfigDir :: string
  pg_PGPass :: string
  pg_Auth :: "PGAuthConfig option"
  pg_Krbsrvname :: string
  pg_Parameters :: "(string \<times> string) list"
  pg_PrePromote :: string
  pg_UseSlots :: bool
  pg_PrimarySlotName :: string
  pg_MaximumLagOnFailover :: int
  pg_UsePGRewind :: bool

definition DefaultPostgresqlConfig :: PostgresqlConfig where
  "DefaultPostgresqlConfig = \<lparr>pg_Version = ''postgresql14'', pg_Listen = ''127.0.0.1:5432'',
     pg_ConnectAddress = ''127.0.0.1:5432'', pg_DataDir = [], pg_BinDir = [], pg_ConfigDir = [],
     pg_PGPass = [], pg_Auth = Some DefaultPGAuthConfig, pg_Krbsrvname = ''postgres'',
     pg_Parameters = [], pg_PrePromote = [], pg_UseSlots = False,
     pg_PrimarySlotName = [], pg_MaximumLagOnFailover = 0, pg_UsePGRewind = False\<rparr>"

definition DefaultBackupConfig :: BackupConfig where
  "DefaultBackupConfig = \<lparr>bk_SSHHost = ''127.0.0.1'', bk_SSHUser = ''backup'', bk_SSHPasswd = ''backup'',
     bk_SSHPort = 22, bk_BackupDir = ''/u01/backup'', bk_XtrabackupBinDir = ''.'',
     bk_BackupIOPSLimits = 100000, bk_UseMemory = ''2GB'', bk_Parallel = 2,
     bk_MysqldMonitorInterval = 1000 * 1, bk_MaxAllowedLocalTrxCount = 0, bk_Admin = ''root'',
     bk_Passwd = [], bk_Host = ''localhost'', bk_Port = 3306, bk_Basedir = ''/u01/mysql_20221010/'',
     bk_DefaultsFile = ''/etc/my3306.cnf''\<rparr>"

definition DefaultMysqlConfig :: MysqlConfig where
  "DefaultMysqlConfig = \<lparr>mc_Admin = ''root'', mc_Passwd = [], mc_Host = ''localhost'', mc_Port = 3306,
     mc_Basedir = ''/u01/mysql_20221010/'', mc_Version = ''mysql57'',
     mc_DefaultsFile = ''/etc/my3306.cnf'', mc_ReplMode = ''semi-sync'', mc_PingTimeout = 1000,
     mc_AdmitDefeatPingCnt = 2, mc_MaxOpenConns = 2, mc_MaxIdleConns = 2,
     mc_FailoverOnTooManyConnections = False, mc_SemiSyncTimeoutForTwoNodes = 10000,
     mc_MasterSysVars = [], mc_SlaveSysVars = [], mc_MonitorDisabled = False, mc_ReplHost = ''127.0.0.1'', mc_ReplUser = ''repl'',
     mc_ReplPasswd = ''repl'', mc_ReplGtidPurged = [], mc_Backup = Some DefaultBackupConfig\<rparr>"

record DatabaseConfig =
  Type :: string
  db_Postgresql :: "PostgresqlConfig option"
  db_Mysql :: "MysqlConfig option"

definition DefaultDatabaseConfig :: DatabaseConfig where
  "DefaultDatabaseConfig = \<lparr>Type = ''mysql'', db_Postgresql = Some DefaultPostgresqlConfig,
     db_Mysql = Some DefaultMysqlConfig\<rparr>"

record WatchdogConfig =
  Mode :: string
  Device :: string
  SafetyMargin :: int

definition DefaultWatchdogConfig :: WatchdogConfig where
  "DefaultWatchdogConfig = \<lparr>Mode = ''automatic'', Device = ''/dev/watchdog'', SafetyMargin = 5\<rparr>"

record LogConfig =
  Level :: string

definition DefaultLogConfig :: LogConfig where
  "DefaultLogConfig = \<lparr>Level = ''INFO''\<rparr>"

record TagsConfig =
  Nofailover :: bool
  Noloadbalance :: bool
  Clonefrom :: bool
  Nosync :: bool

definition DefaultTagsConfig :: TagsConfig where
  "DefaultTagsConfig = \<lparr>Nofailover = False, Noloadbalance = False, Clonefrom = False, Nosync = False\<rparr>"

record PrimaryHooksConfig =
  OnPrimaryStart :: string
  OnPrimaryStop :: string

definition DefaultPrimaryHooksConfig :: PrimaryHooksConfig where
  "DefaultPrimaryHooksConfig = \<lparr>OnPrimaryStart = ''nop'', OnPrimaryStop = ''nop''\<rparr>"

record HAConfig =
  ReconcileInterval :: int
  DelegateDBApply :: bool
  ha_PrimaryHooks :: "PrimaryHooksConfig option"

definition DefaultHAConfig :: HAConfig where
  "DefaultHAConfig = \<lparr>ReconcileInterval = 3, DelegateDBApply = False,
     ha_PrimaryHooks = Some DefaultPrimaryHooksConfig\<rparr>"

record Config =
  Scope :: string
  NameSpace :: string
  cf_Name :: string
  Endpoint :: string
  PeerAddress :: string
  RestAPI :: "RestAPIConfig option"
  Ctl :: "CtlConfig option"
  Election :: "ElectionConfig option"
  Coordination :: "CoordinationConfig option"
  Bootstrap :: "BootstrapConfig option"
  Database :: "DatabaseConfig option"
  Watchdog :: "WatchdogConfig option"
  Tags :: "TagsConfig option"
  HA :: "HAConfig option"
  LogSection :: "LogConfig option"

definition DefaultConfig :: Config where
  "DefaultConfig = \<lparr>Scope = ''database'', NameSpace = ''/service/'', cf_Name = ''db1'',
     Endpoint = ''127.0.0.1:8080'', PeerAddress = '':6060'',
     RestAPI = Some DefaultRestAPIConfig, Ctl = Some DefaultCtlConfig, Election = Some DefaultElectionConfig,
     Coordination = Some DefaultCoordinationConfig, Bootstrap = Some DefaultBootstrapConfig,
     Database = Some DefaultDatabaseConfig, Watchdog = Some DefaultWatchdogConfig,
     Tags = Some DefaultTagsConfig, HA = Some DefaultHAConfig, LogSection = Some DefaultLogConfig\<rparr>"

text \<open>The coordination settings in force; \<open>None\<close> is the nil configuration.\<close>

definition EffectiveCoordination :: "Config option \<Rightarrow> CoordinationConfig" where
  "EffectiveCoordination conf = (case conf of None \<Rightarrow> DefaultCoordinationConfig
     | Some c \<Rightarrow>
       (case (Coordination c, Election c) of
          (Some co, el) \<Rightarrow>
            (if Provider co \<noteq> [] then
               \<lparr>Provider = Provider co,
                co_Raft = (case (co_Raft co, el) of (None, Some e) \<Rightarrow> el_Raft e | (x, _) \<Rightarrow> x),
                co_Etcd = (case (co_Etcd co, el) of (None, Some e) \<Rightarrow> el_Etcd e | (x, _) \<Rightarrow> x)\<rparr>
             else (case el of
                 Some e \<Rightarrow> \<lparr>Provider = Algo e, co_Raft = el_Raft e, co_Etcd = el_Etcd e\<rparr>
               | None \<Rightarrow> DefaultCoordinationConfig))
        | (None, Some e) \<Rightarrow> \<lparr>Provider = Algo e, co_Raft = el_Raft e, co_Etcd = el_Etcd e\<rparr>
        | (None, None) \<Rightarrow> DefaultCoordinationConfig))"


subsection \<open>Normalisation and validation (config\_validate.go)\<close>

text \<open>\<open>if x == nil { x = d }\<close>\<close>

definition or_else :: "'a option \<Rightarrow> 'a option \<Rightarrow> 'a option" where
  "or_else x d = (case x of None \<Rightarrow> d | Some v \<Rightarrow> Some v)"

definition blank :: "string \<Rightarrow> bool" where
  "blank s = (trim_space s = [])"

text \<open>The merge of the two coordination blocks.\<close>

definition merge_blocks :: "ElectionConfig \<Rightarrow> CoordinationConfig \<Rightarrow> ElectionConfig \<times> CoordinationConfig" where
  "merge_blocks e c =
     (let c1 = (if Provider c = [] \<and> Algo e \<noteq> [] then c\<lparr>Provider := Algo e\<rparr> else c);
          e1 = (if Algo e = [] \<and> Provider c1 \<noteq> [] then e\<lparr>Algo := Provider c1\<rparr> else e);
          c2 = c1\<lparr>co_Raft := or_else (co_Raft c1) (el_Raft e1)\<rparr>;
          e2 = e1\<lparr>el_Raft := or_else (el_Raft e1) (co_Raft c2)\<rparr>;
          c3 = c2\<lparr>co_Etcd := or_else (co_Etcd c2) (el_Etcd e2)\<rparr>;
          e3 = e2\<lparr>el_Etcd := or_else (el_Etcd e2) (co_Etcd c3)\<rparr>
      in (e3, c3))"

definition Normalize :: "Config \<Rightarrow> Config" where
  "Normalize c =
     (let e = (case Election c of None \<Rightarrow> DefaultElectionConfig | Some e \<Rightarrow> e);
          co = (case Coordination c of None \<Rightarrow> DefaultCoordinationConfig | Some co \<Rightarrow> co);
          db = (case Database c of None \<Rightarrow> DefaultDatabaseConfig | Some d \<Rightarrow> d);
          (e', co') = merge_blocks e co;
          db' = (if blank (Type db) then db\<lparr>Type := ''mysql''\<rparr> else db);
          h = (case HA c of None \<Rightarrow> DefaultHAConfig | Some h \<Rightarrow> h);
          h' = h\<lparr>ha_PrimaryHooks := or_else (ha_PrimaryHooks h) (Some DefaultPrimaryHooksConfig)\<rparr>
      in c\<lparr>Election := Some e', Coordination := Some co', Database := Some db', HA := Some h'\<rparr>)"

definition quote :: "string \<Rightarrow> string" where
  "quote s = CHR 0x22 # s @ [CHR 0x22]"

text \<open>The check of the coordination settings; \<open>None\<close> is no error.\<close>

definition check_provider :: "Config \<Rightarrow> gerror option" where
  "check_provider c =
     (let coord = EffectiveCoordination (Some c);
          provider = to_lower (trim_space (Provider coord)) in
      if provider = [] then
        Some (GoErr ''coordination provider is required (coordination.provider or election.algorithm)'')
      else if provider = ''raft'' then
        (if blank (Endpoint c) then Some (GoErr ''endpoint is required when coordination.provider is raft'')
         else if co_Raft coord = None
         then Some (GoErr ''coordination.raft section is required when provider is raft'')
         else None)
      else if provider = ''etcd'' then
        (case co_Etcd coord of
           None \<Rightarrow> Some (GoErr ''coordination.etcd host or hosts is required when provider is etcd'')
         | Some e \<Rightarrow>
             if ec_Host e = [] \<and> ec_Hosts e = []
             then Some (GoErr ''coordination.etcd host or hosts is required when provider is etcd'')
             else None)
      else if provider \<in> {''consul'', ''kubernetes'', ''zookeeper''} then
        Some (GoErr (''coordination provider '' @ quote provider @ '' is not implemented yet''))
      else Some (GoErr (''unsupported coordination provider '' @ quote provider)))"

text \<open>The DCS section of the bootstrap settings, when every section on the way is there.\<close>

definition bootstrap_dcs :: "Config \<Rightarrow> DcsConfig option" where
  "bootstrap_dcs c = Option.bind (Bootstrap c) (\<lambda>b. Option.bind (BootstrapPostgresql b) DcsConf)"

definition inherit_dcs :: "DcsConfig option \<Rightarrow> PostgresqlConfig \<Rightarrow> PostgresqlConfig" where
  "inherit_dcs dcs pg = (case dcs of None \<Rightarrow> pg
     | Some d \<Rightarrow>
       (let pg1 = (if pg_MaximumLagOnFailover pg = 0
                   then pg\<lparr>pg_MaximumLagOnFailover := dcs_MaximumLagOnFailover d\<rparr> else pg);
            pg2 = (if \<not> pg_UseSlots pg1 then pg1\<lparr>pg_UseSlots := dcs_UseSlots d\<rparr> else pg1)
        in if \<not> pg_UsePGRewind pg2 then pg2\<lparr>pg_UsePGRewind := dcs_UsePGRewind d\<rparr> else pg2))"

text \<open>The check of the database settings, which for PostgreSQL also completes them.\<close>

definition check_database :: "Config \<Rightarrow> gerror option \<times> Config" where
  "check_database c = (case Database c of None \<Rightarrow> (None, c)
     | Some db \<Rightarrow>
       (let t = to_lower (trim_space (Type db)) in
        if t = ''mysql'' \<or> t = [] then
          (case db_Mysql db of
             None \<Rightarrow> (Some (GoErr ''database.mysql section is required when database.type is mysql''), c)
           | Some my \<Rightarrow>
               (if mc_ReplMode my \<noteq> ReplModeSemiSync \<and> mc_ReplMode my \<noteq> ReplModeMGR \<and> mc_ReplMode my \<noteq> []
                then (Some (GoErr (''unsupported mysql replication-mode '' @ quote (mc_ReplMode my))), c)
                else (None, c)))
        else if t = ''postgresql'' \<or> t = ''postgres'' then
          (case db_Postgresql db of
             None \<Rightarrow> (Some (GoErr ''database.postgresql section is required when database.type is postgresql''), c)
           | Some pg \<Rightarrow>
               (None, c\<lparr>Database := Some (db\<lparr>db_Postgresql := Some (inherit_dcs (bootstrap_dcs c) pg)\<rparr>)\<rparr>))
        else (Some (GoErr (''unsupported database.type '' @ quote t)), c)))"

definition Validate :: "Config \<Rightarrow> gerror option \<times> Config" where
  "Validate c0 =
     (let c = Normalize c0 in
      case check_provider c of Some err \<Rightarrow> (Some err, c) | None \<Rightarrow> check_database c)"

definition EffectivePrimaryHooks :: "Config option \<Rightarrow> PrimaryHooksConfig" where
  "EffectivePrimaryHooks conf = (case conf of None \<Rightarrow> DefaultPrimaryHooksConfig
     | Some c0 \<Rightarrow>
       (let c = Normalize c0;
            out = (case HA c of None \<Rightarrow> DefaultPrimaryHooksConfig
                   | Some h \<Rightarrow> (case ha_PrimaryHooks h of None \<Rightarrow> DefaultPrimaryHooksConfig | Some p \<Rightarrow> p));
            raft = Option.bind (Election c) el_Raft;
            legacy = (\<lambda>s f. if blank s then (case raft of None \<Rightarrow> s | Some r \<Rightarrow> f r) else s);
            start = legacy (OnPrimaryStart out) rc_LeaderStartCommand;
            stop = legacy (OnPrimaryStop out) rc_LeaderStopCommand
        in \<lparr>OnPrimaryStart = (if blank start then ''nop'' else start),
            OnPrimaryStop = (if blank stop then ''nop'' else stop)\<rparr>))"


subsection \<open>Formats (config\_format.go, common.go)\<close>

text \<open>\<open>path.Ext(path.Base(p))\<close>: the suffix from the last dot of the last element.\<close>

definition path_base :: "string \<Rightarrow> string" where
  "path_base p =
     (let q = rev (dropWhile (\<lambda>x. x = CHR ''/'') (rev p)) in
      if p = [] then ''.'' else if q = [] then ''/''
      else rev (takeWhile (\<lambda>x. x \<noteq> CHR ''/'') (rev q)))"

definition path_ext :: "string \<Rightarrow> string" where
  "path_ext p =
     (let r = takeWhile (\<lambda>x. x \<noteq> CHR ''/'') (rev p) in
      if CHR ''.'' \<notin> set r then [] else CHR ''.'' # rev (takeWhile (\<lambda>x. x \<noteq> CHR ''.'') r))"

type_synonym FileType = string

definition YamlType :: FileType where "YamlType = ''.yaml''"
definition YmlType :: FileType where "YmlType = ''.yml''"
definition JsonType :: FileType where "JsonType = ''.json''"

definition GetFileType :: "string \<Rightarrow> FileType" where
  "GetFileType filepath = path_ext (path_base filepath)"

definition isSupportedConfigFormat :: "FileType \<Rightarrow> bool" where
  "isSupportedConfigFormat f = (f = JsonType \<or> f = YamlType \<or> f = YmlType)"

definition DetectConfigFormat :: "string \<Rightarrow> string \<Rightarrow> FileType res" where
  "DetectConfigFormat filepath data =
     (let f = GetFileType filepath in
      if isSupportedConfigFormat f then (f, None)
      else (case trim_space data of
          [] \<Rightarrow> ([], Some (GoErr (''config file ['' @ filepath @ ''] is empty'')))
        | c # rest \<Rightarrow> if c = CHR ''{'' \<or> c = CHR ''['' then (JsonType, None) else (YamlType, None)))"

type_synonym decoder = "string \<Rightarrow> Config \<Rightarrow> gerror option \<times> Config"

definition ParseConfig :: "decoder \<Rightarrow> decoder \<Rightarrow> string \<Rightarrow> FileType \<Rightarrow> Config option res" where
  "ParseConfig json yaml data f =
     (if \<not> isSupportedConfigFormat f
      then (None, Some (GoErr (''unsupported config format ['' @ f @ '']'')))
      else (case (if f = JsonType then json else yaml) data DefaultConfig of
          (Some err, conf) \<Rightarrow> (None, Some (GoErr (''parse config as '' @ f @ '': '' @ err_text err)))
        | (None, conf) \<Rightarrow> (case Validate (Normalize conf) of
              (Some err, conf') \<Rightarrow> (None, Some err)
            | (None, conf') \<Rightarrow> (Some conf', None))))"

text \<open>\<open>os.ReadFile\<close> is an argument.\<close>

definition LoadConfig :: "(string \<Rightarrow> string res) \<Rightarrow> decoder \<Rightarrow> decoder \<Rightarrow> string \<Rightarrow> Config option res" where
  "LoadConfig readFile json yaml filepath = (case readFile filepath of
     (data, Some err) \<Rightarrow> (None, Some err)
   | (data, None) \<Rightarrow> (case DetectConfigFormat filepath data of
       (f, Some err) \<Rightarrow> (None, Some err)
     | (f, None) \<Rightarrow> ParseConfig json yaml data f))"

text \<open>The encoders are arguments, and so is the write of a file over the file system's state.\<close>

type_synonym encoder = "Config \<Rightarrow> string res"

definition MarshalConfig :: "encoder \<Rightarrow> encoder \<Rightarrow> Config \<Rightarrow> FileType \<Rightarrow> string res" where
  "MarshalConfig json yaml conf f =
     (if f = JsonType then json conf
      else if f = YamlType \<or> f = YmlType then yaml conf
      else ([], Some (GoErr (''unsupported config format ['' @ f @ '']''))))"

definition WriteConfig ::
    "(string \<Rightarrow> string \<Rightarrow> 'fs \<Rightarrow> gerror option \<times> 'fs) \<Rightarrow> encoder \<Rightarrow> encoder \<Rightarrow> string \<Rightarrow> Config \<Rightarrow>
     'fs \<Rightarrow> gerror option \<times> 'fs" where
  "WriteConfig writeFile json yaml filepath conf fs =
     (let f = GetFileType filepath in
      if \<not> isSupportedConfigFormat f
      then (Some (GoErr (''the type ['' @ f @ ''] of file ['' @ filepath @ ''] is not supported'')), fs)
      else (case MarshalConfig json yaml conf f of
          (d, Some err) \<Rightarrow> (Some err, fs)
        | (d, None) \<Rightarrow> writeFile filepath d fs))"

subsection \<open>What normalisation and validation guarantee\<close>

lemma or_else_simps [simp]: "or_else None d = d" "or_else (Some v) d = Some v"
  by (simp_all add: or_else_def)

lemma or_else_absorb [simp]: "or_else x (or_else y x) = or_else x y" "or_else (or_else x y) (or_else y (or_else x y)) = or_else x y"
  by (cases x; cases y; simp)+

text \<open>The two blocks agree on what is set.\<close>

definition blocks_agree :: "ElectionConfig \<Rightarrow> CoordinationConfig \<Rightarrow> bool" where
  "blocks_agree e c \<longleftrightarrow> (Algo e = [] \<longleftrightarrow> Provider c = []) \<and> (el_Raft e = None \<longleftrightarrow> co_Raft c = None) \<and>
     (el_Etcd e = None \<longleftrightarrow> co_Etcd c = None)"

lemma merge_agrees: "blocks_agree (fst (merge_blocks e c)) (snd (merge_blocks e c))"
  by (cases "el_Raft e"; cases "co_Raft c"; cases "el_Etcd e"; cases "co_Etcd c")
     (auto simp: blocks_agree_def merge_blocks_def Let_def)

lemma merge_agreeing: "blocks_agree e c \<Longrightarrow> merge_blocks e c = (e, c)"
  by (cases "el_Raft e"; cases "co_Raft c"; cases "el_Etcd e"; cases "co_Etcd c"; cases e; cases c)
     (auto simp: blocks_agree_def merge_blocks_def Let_def)

lemma merge_keeps:
  "el_Raft e = Some r \<Longrightarrow> el_Raft (fst (merge_blocks e c)) = Some r"
  "co_Raft c = Some r \<Longrightarrow> co_Raft (snd (merge_blocks e c)) = Some r"
  "Provider c \<noteq> [] \<Longrightarrow> Provider (snd (merge_blocks e c)) = Provider c"
  by (auto simp: merge_blocks_def Let_def)

text \<open>What every normalised configuration has.\<close>

definition normal :: "Config \<Rightarrow> bool" where
  "normal c \<longleftrightarrow> (\<exists>e co db h p. Election c = Some e \<and> Coordination c = Some co \<and> Database c = Some db \<and>
     HA c = Some h \<and> ha_PrimaryHooks h = Some p \<and> blocks_agree e co \<and> \<not> blank (Type db))"

lemma mysql_not_blank [simp]: "\<not> blank ''mysql''"
  by (simp add: blank_def trim_space_def is_space_def)

lemma Normalize_normal: "normal (Normalize c)"
proof -
  define e where "e = (case Election c of None \<Rightarrow> DefaultElectionConfig | Some e \<Rightarrow> e)"
  define co where "co = (case Coordination c of None \<Rightarrow> DefaultCoordinationConfig | Some co \<Rightarrow> co)"
  define h where "h = (case HA c of None \<Rightarrow> DefaultHAConfig | Some h \<Rightarrow> h)"
  have "\<exists>p. or_else (ha_PrimaryHooks h) (Some DefaultPrimaryHooksConfig) = Some p"
    by (cases "ha_PrimaryHooks h") auto
  with merge_agrees [of e co] show ?thesis
    by (auto simp: normal_def Normalize_def Let_def case_prod_beta simp flip: e_def co_def h_def)
qed

lemma Normalize_fixes_normal: "normal c \<Longrightarrow> Normalize c = c"
  by (cases c) (auto simp: normal_def Normalize_def merge_agreeing Let_def)

text \<open>
  Normalising a configuration completes it: the election and coordination
  blocks are there and agree on what is set, so are database type and hooks; normalising it
  again changes nothing.
\<close>

lemma normalize_stable:
  "normal (Normalize c) \<and> Normalize (Normalize c) = Normalize c"
  using Normalize_normal Normalize_fixes_normal by blast

text \<open>The sections that the provider and the database type of a configuration name.\<close>

definition usable :: "Config \<Rightarrow> bool" where
  "usable c \<longleftrightarrow>
     (let coord = EffectiveCoordination (Some c); p = to_lower (trim_space (Provider coord)) in
      (p = ''raft'' \<and> \<not> blank (Endpoint c) \<and> co_Raft coord \<noteq> None \<and>
         (\<exists>e. Election c = Some e \<and> el_Raft e \<noteq> None)
       \<or> p = ''etcd'' \<and> (\<exists>e. co_Etcd coord = Some e \<and> (ec_Host e \<noteq> [] \<or> ec_Hosts e \<noteq> []))) \<and>
      (\<exists>db. Database c = Some db \<and>
         (let t = to_lower (trim_space (Type db)) in
          t = ''mysql'' \<and> (\<exists>my. db_Mysql db = Some my \<and>
              mc_ReplMode my \<in> {ReplModeSemiSync, ReplModeMGR, []})
          \<or> t \<in> {''postgresql'', ''postgres''} \<and> db_Postgresql db \<noteq> None)))"

lemma normal_raft: "normal c \<Longrightarrow> co_Raft (EffectiveCoordination (Some c)) \<noteq> None \<Longrightarrow>
    \<exists>e. Election c = Some e \<and> el_Raft e \<noteq> None"
  by (auto simp: normal_def EffectiveCoordination_def blocks_agree_def split: if_splits option.splits)

lemma check_provider_ok:
  assumes "check_provider c = None" "normal c"
  shows "let coord = EffectiveCoordination (Some c); p = to_lower (trim_space (Provider coord)) in
      p = ''raft'' \<and> \<not> blank (Endpoint c) \<and> co_Raft coord \<noteq> None \<and>
         (\<exists>e. Election c = Some e \<and> el_Raft e \<noteq> None)
       \<or> p = ''etcd'' \<and> (\<exists>e. co_Etcd coord = Some e \<and> (ec_Host e \<noteq> [] \<or> ec_Hosts e \<noteq> []))"
  using assms normal_raft [OF assms(2)]
  by (auto simp: check_provider_def Let_def split: if_splits option.splits)

lemma check_database_ok:
  assumes "check_database c = (None, c')" "normal c"
  shows "c'\<lparr>Database := Database c\<rparr> = c \<and> (\<exists>db. Database c' = Some db \<and>
         (let t = to_lower (trim_space (Type db)) in
          t = ''mysql'' \<and> (\<exists>my. db_Mysql db = Some my \<and>
              mc_ReplMode my \<in> {ReplModeSemiSync, ReplModeMGR, []})
          \<or> t \<in> {''postgresql'', ''postgres''} \<and> db_Postgresql db \<noteq> None))"
  using assms
  by (cases c) (auto simp: check_database_def normal_def blank_def to_lower_def Let_def split: if_splits option.splits)

lemma EffectiveCoordination_cong:
  "Coordination c = Coordination d \<Longrightarrow> Election c = Election d \<Longrightarrow>
   EffectiveCoordination (Some c) = EffectiveCoordination (Some d)"
  by (simp add: EffectiveCoordination_def)

lemma Validated_usable:
  assumes "Validate c = (None, c')"
  shows "usable c'"
proof -
  have prov: "check_provider (Normalize c) = None" and db: "check_database (Normalize c) = (None, c')"
    using assms by (auto simp: Validate_def Let_def split: option.splits)
  note ok = check_database_ok [OF db Normalize_normal]
  then have "c'\<lparr>Database := Database (Normalize c)\<rparr> = Normalize c" by blast
  then have same: "Election c' = Election (Normalize c)" "Coordination c' = Coordination (Normalize c)"
    "Endpoint c' = Endpoint (Normalize c)"
    by (metis Config.select_convs Config.update_convs Config.surjective)+
  show ?thesis
    using check_provider_ok [OF prov Normalize_normal] ok
    unfolding usable_def EffectiveCoordination_cong [OF same(2,1)] same by (simp add: Let_def)
qed


lemma default_valid: "Validate DefaultConfig = (None, DefaultConfig)"
  by code_simp


text \<open>Validating what a validation has left changes nothing.\<close>

lemma inherit_dcs_idem [simp]: "inherit_dcs d (inherit_dcs d pg) = inherit_dcs d pg"
  by (cases d) (auto simp: inherit_dcs_def Let_def)

lemma check_provider_cong:
  assumes "Coordination c = Coordination c'" "Election c = Election c'" "Endpoint c = Endpoint c'"
  shows "check_provider c = check_provider c'"
  unfolding check_provider_def EffectiveCoordination_cong [OF assms(1,2)] assms(3) ..

lemma bootstrap_dcs_cong: "Bootstrap c = Bootstrap c' \<Longrightarrow> bootstrap_dcs c = bootstrap_dcs c'"
  by (simp add: bootstrap_dcs_def)

text \<open>A successful check leaves the configuration, or completes its PostgreSQL section.\<close>

lemma check_database_cases:
  assumes "check_database c = (None, c')"
  obtains (same) "c' = c"
    | (pg) db pg t where "Database c = Some db" "db_Postgresql db = Some pg"
        "t = to_lower (trim_space (Type db))" "t \<in> {''postgresql'', ''postgres''}"
        "c' = c\<lparr>Database := Some (db\<lparr>db_Postgresql := Some (inherit_dcs (bootstrap_dcs c) pg)\<rparr>)\<rparr>"
proof (cases "Database c")
  case None
  then show ?thesis using assms that(1) by (simp add: check_database_def)
next
  case db: (Some db)
  let ?t = "to_lower (trim_space (Type db))"
  show ?thesis
  proof (cases "?t = ''mysql'' \<or> ?t = []")
    case True
    then show ?thesis
      using assms that(1) db by (auto simp: check_database_def Let_def split: option.splits if_splits)
  next
    case False
    then show ?thesis
      using assms that(2) db by (auto simp: check_database_def Let_def split: option.splits if_splits)
  qed
qed

lemma check_database_idem:
  assumes "check_database c = (None, c')"
  shows "check_database c' = (None, c')"
  using assms
proof (cases rule: check_database_cases)
  case same
  then show ?thesis using assms by simp
next
  case (pg db pg t)
  have b: "bootstrap_dcs c' = bootstrap_dcs c"
    unfolding pg(5) by (rule bootstrap_dcs_cong) simp
  have d: "Database c' = Some (db\<lparr>db_Postgresql := Some (inherit_dcs (bootstrap_dcs c) pg)\<rparr>)"
    by (simp add: pg(5))
  have t: "to_lower (trim_space (Type db)) \<noteq> ''mysql''" "to_lower (trim_space (Type db)) \<noteq> []"
      "to_lower (trim_space (Type db)) = ''postgresql'' \<or> to_lower (trim_space (Type db)) = ''postgres''"
    using pg(3,4) by auto
  have "c'\<lparr>Database := Database c'\<rparr> = c'" by simp
  then show ?thesis
    using t by (simp add: check_database_def d b)
qed

lemma Validate_idem:
  assumes "Validate c = (None, c')"
  shows "Validate c' = (None, c')"
proof -
  have prov: "check_provider (Normalize c) = None" and db: "check_database (Normalize c) = (None, c')"
    using assms by (auto simp: Validate_def Let_def split: option.splits)
  have same: "Coordination c' = Coordination (Normalize c)" "Election c' = Election (Normalize c)"
      "Endpoint c' = Endpoint (Normalize c)" and "normal c'"
    using db Normalize_normal [of c] by (cases rule: check_database_cases; auto simp: normal_def)+
  then have "Normalize c' = c'" "check_provider c' = None"
    using Normalize_fixes_normal check_provider_cong [OF same] prov by simp_all
  then show ?thesis
    using check_database_idem [OF db] by (simp add: Validate_def)
qed

text \<open>
  A field with \<open>omitempty\<close> is not written when it is empty, and reading leaves the default where a
  field is missing. The two such fields, \<open>data_checksums\<close> and \<open>peer-address\<close>, have defaults that
  are not empty, so a configuration is written in full only if they are not empty.
\<close>

definition written_in_full :: "Config \<Rightarrow> bool" where
  "written_in_full c \<longleftrightarrow> PeerAddress c \<noteq> [] \<and>
     (case Bootstrap c of None \<Rightarrow> True | Some b \<Rightarrow> (case BootstrapPostgresql b of None \<Rightarrow> True
       | Some pg \<Rightarrow> (case InitDB pg of None \<Rightarrow> True | Some i \<Rightarrow> DataChecksums i)))"

text \<open>
  A validated configuration that \<open>WriteConfig\<close> has written in full to a file is the
  one that \<open>LoadConfig\<close> reads back from it: the format is found again by the file's name, and
  normalising and validating once more changes nothing. The file system returns what was
  written, and the decoder of the format gives back what was encoded in full.
\<close>

lemma config_file_roundtrip:
  assumes "Validate c0 = (None, c)"
    and "WriteConfig writeFile json_enc yaml_enc path c fs = (None, fs')"
    and "\<And>d. writeFile path d fs = (None, fs') \<Longrightarrow> readFile path fs' = (d, None)"
    and "\<And>d. written_in_full c \<Longrightarrow> json_enc c = (d, None) \<Longrightarrow> json_dec d DefaultConfig = (None, c)"
    and "\<And>d. written_in_full c \<Longrightarrow> yaml_enc c = (d, None) \<Longrightarrow> yaml_dec d DefaultConfig = (None, c)"
    and "written_in_full c"
  shows "LoadConfig (\<lambda>p. readFile p fs') json_dec yaml_dec path = (Some c, None)"
proof -
  let ?f = "GetFileType path"
  have f: "isSupportedConfigFormat ?f"
    using assms(2) by (auto simp: WriteConfig_def Let_def split: if_splits)
  then obtain d where d: "MarshalConfig json_enc yaml_enc c ?f = (d, None)" and w: "writeFile path d fs = (None, fs')"
    using assms(2) by (auto simp: WriteConfig_def Let_def split: prod.splits option.splits)
  have r: "readFile path fs' = (d, None)"
    using assms(3) [OF w] .
  have "(if ?f = JsonType then json_dec else yaml_dec) d DefaultConfig = (None, c)"
    using d f assms(4-6) by (auto simp: MarshalConfig_def isSupportedConfigFormat_def split: if_splits)
  moreover have "Validate (Normalize c) = (None, c)"
    using Validate_idem [OF assms(1)] by (simp add: Validate_def Normalize_fixes_normal Normalize_normal)
  ultimately have "ParseConfig json_dec yaml_dec d ?f = (Some c, None)"
    using f by (simp add: ParseConfig_def)
  then show ?thesis
    using r f by (simp add: LoadConfig_def DetectConfigFormat_def)
qed

text \<open>
  A file system that is a list of files, and a codec that writes the endpoint only, enough
  for a configuration that sets nothing else.
\<close>

definition list_write :: "string \<Rightarrow> string \<Rightarrow> (string \<times> string) list \<Rightarrow> gerror option \<times> (string \<times> string) list" where
  "list_write p d fs = (None, (p, d) # fs)"

definition list_read :: "string \<Rightarrow> (string \<times> string) list \<Rightarrow> string res" where
  "list_read p fs = (case map_of fs p of Some d \<Rightarrow> (d, None) | None \<Rightarrow> ([], Some (GoErr ''no such file'')))"

definition endpoint_enc :: encoder where
  "endpoint_enc c = (Endpoint c, None)"

definition endpoint_dec :: decoder where
  "endpoint_dec d c = (None, c\<lparr>Endpoint := d\<rparr>)"

lemma endpoint_valid:
  "Validate (DefaultConfig\<lparr>Endpoint := ''h:1''\<rparr>) = (None, DefaultConfig\<lparr>Endpoint := ''h:1''\<rparr>)"
  by code_simp

lemma endpoint_written:
  "WriteConfig list_write endpoint_enc endpoint_enc ''a.json'' (DefaultConfig\<lparr>Endpoint := ''h:1''\<rparr>) [] =
     (None, [(''a.json'', ''h:1'')])"
  by (simp add: WriteConfig_def MarshalConfig_def list_write_def endpoint_enc_def GetFileType_def path_ext_def
      path_base_def isSupportedConfigFormat_def JsonType_def YamlType_def YmlType_def Let_def)

lemma endpoint_written_in_full: "written_in_full (DefaultConfig\<lparr>Endpoint := ''h:1''\<rparr>)"
  by code_simp

lemma config_file_roundtrip_example:
  "LoadConfig (\<lambda>p. list_read p [(''a.json'', ''h:1'')]) endpoint_dec endpoint_dec ''a.json'' =
     (Some (DefaultConfig\<lparr>Endpoint := ''h:1''\<rparr>), None)"
  by (rule config_file_roundtrip [OF endpoint_valid endpoint_written])
    (simp_all add: list_write_def list_read_def endpoint_enc_def endpoint_dec_def endpoint_written_in_full)


subsection \<open>Settings that do not take effect\<close>

text \<open>
  A configuration file is decoded over the defaults, in which the coordination block is set.
  So the deprecated alias is not one: whatever a file says in its election block, the provider
  is the one of the coordination block, which is raft by default.
\<close>

lemma election_algorithm_ignored:
  "Provider (EffectiveCoordination (Some (Normalize (DefaultConfig\<lparr>Election := e\<rparr>)))) = ''raft''"
  by (cases e) (simp_all add: Normalize_def DefaultConfig_def EffectiveCoordination_def merge_blocks_def
      DefaultCoordinationConfig_def DefaultElectionConfig_def Let_def)

text \<open>
  The other way round, Raft reads the settings of the election block, which the defaults set
  too: the settings of the preferred block \<open>coordination.raft\<close> do not reach it.
\<close>

lemma coordination_raft_unused:
  assumes "Election c = Some e" "el_Raft e = Some d"
  shows "\<exists>e'. Election (Normalize c) = Some e' \<and> el_Raft e' = Some d"
  using assms merge_keeps(1) [OF assms(2)] by (simp add: Normalize_def Let_def case_prod_beta)

text \<open>
  Nor do the legacy commands become hooks: the default hooks are \<open>nop\<close>, which counts as set.
\<close>

lemma legacy_hooks_ignored:
  "EffectivePrimaryHooks (Some (DefaultConfig\<lparr>Election := e\<rparr>)) = DefaultPrimaryHooksConfig"
  by (simp add: EffectivePrimaryHooks_def Normalize_def DefaultConfig_def DefaultHAConfig_def case_prod_beta
      DefaultPrimaryHooksConfig_def blank_def trim_space_def is_space_def Let_def)

text \<open>
  A lag limit of 0, documented as no limit, is replaced by that of the bootstrap section, and
  slots and rewinding cannot be switched off while the bootstrap section has them on.
\<close>

lemma bootstrap_overrides:
  assumes "bootstrap_dcs c = Some d" "dcs_UseSlots d" "dcs_UsePGRewind d"
  shows "let pg' = inherit_dcs (bootstrap_dcs c) (pg\<lparr>pg_MaximumLagOnFailover := 0\<rparr>) in
    pg_MaximumLagOnFailover pg' = dcs_MaximumLagOnFailover d \<and> pg_UseSlots pg' \<and> pg_UsePGRewind pg'"
  using assms by (simp add: inherit_dcs_def Let_def)

end
