(* ===== verification/Coordination.thy ===== *)
theory Coordination
  imports Driver RaftNode
begin

section \<open>Cluster coordination (internal/coordination, raftadapter)\<close>

text \<open>
  The coordinator interface as a record of its operations, the view of the cluster it reports,
  and the embedded Raft as a coordinator. \<open>Start\<close> and \<open>Stop\<close> of the Raft adapter do nothing;
  \<open>Watch\<close>, a goroutine that polls \<open>ClusterView\<close>, is modelled by the test it makes on each
  tick.
\<close>

record Member =
  ID :: string
  mb_Name :: string
  mb_Database :: string
  mb_Tags :: "(string \<times> bool) list"
  mb_Meta :: "(string \<times> string) list"

record DatabaseEndpoint =
  ep_Host :: string
  ep_Port :: int

record ClusterView =
  LeaderID :: string
  LeaderDatabase :: DatabaseEndpoint
  Members :: "Member list"
  cv_Epoch :: "64 word"
  cv_ViewID :: "64 word"

definition zero_ClusterView :: ClusterView where
  "zero_ClusterView = \<lparr>LeaderID = [], LeaderDatabase = \<lparr>ep_Host = [], ep_Port = 0\<rparr>, Members = [],
     cv_Epoch = 0, cv_ViewID = 0\<rparr>"

definition ErrProviderNotImplemented :: gerror where
  "ErrProviderNotImplemented = GoErr ''coordination provider not implemented''"

definition ErrNotSupported :: gerror where
  "ErrNotSupported = GoErr ''operation not supported by this coordinator''"

record 'c coord_ops =
  LocalID :: "('c, string) state"
  IsLeader :: "('c, bool) state"
  ClusterViewOf :: "ctx_err \<Rightarrow> ('c, ClusterView res) state"
  AddMember :: "ctx_err \<Rightarrow> string \<Rightarrow> ('c, gerror option) state"
  RemoveMember :: "ctx_err \<Rightarrow> string \<Rightarrow> ('c, gerror option) state"
  GetClusterConfig :: "ctx_err \<Rightarrow> ('c, string res) state"
  SetClusterConfig :: "ctx_err \<Rightarrow> string \<Rightarrow> ('c, gerror option) state"


subsection \<open>The Raft adapter\<close>

record adapter =
  localID :: string
  memberName :: string
  dbType :: string

definition raft_IsLeader :: "('w, bool) rst" where
  "raft_IsLeader = do { st \<leftarrow> Raft_getState; ret (st = LEADER) }"

definition raft_ClusterView :: "adapter \<Rightarrow> ctx_err \<Rightarrow> ('w, ClusterView res) rst" where
  "raft_ClusterView c ctx = do {
     peers \<leftarrow> gets r_metaPeers;
     let members = \<lparr>ID = localID c, mb_Name = memberName c, mb_Database = dbType c, mb_Tags = [], mb_Meta = []\<rparr>
       # map (\<lambda>p. \<lparr>ID = p, mb_Name = [], mb_Database = dbType c, mb_Tags = [], mb_Meta = []\<rparr>) peers;
     (host, port) \<leftarrow> GetLeaderDatabaseEndpoint;
     r \<leftarrow> gets id;
     ret (\<lparr>LeaderID = r_leader r, LeaderDatabase = \<lparr>ep_Host = host, ep_Port = port\<rparr>,
           Members = members, cv_Epoch = r_EpochID r, cv_ViewID = r_ViewID r\<rparr>, None) }"

definition raft_AddMember :: "ctx_err \<Rightarrow> string \<Rightarrow> ('w, gerror option) rst" where
  "raft_AddMember ctx i = AddPeer i"

definition raft_RemoveMember :: "ctx_err \<Rightarrow> string \<Rightarrow> ('w, gerror option) rst" where
  "raft_RemoveMember ctx i = RemovePeer i"

definition raft_GetClusterConfig :: "ctx_err \<Rightarrow> ('w, string res) rst" where
  "raft_GetClusterConfig ctx = ret ([], Some ErrNotSupported)"

definition raft_SetClusterConfig :: "ctx_err \<Rightarrow> string \<Rightarrow> ('w, gerror option) rst" where
  "raft_SetClusterConfig ctx cfg = ret (Some ErrNotSupported)"

definition raft_coord :: "adapter \<Rightarrow> 'w raft coord_ops" where
  "raft_coord c = \<lparr>LocalID = ret (localID c), IsLeader = raft_IsLeader,
     ClusterViewOf = raft_ClusterView c, AddMember = raft_AddMember, RemoveMember = raft_RemoveMember,
     GetClusterConfig = raft_GetClusterConfig, SetClusterConfig = raft_SetClusterConfig\<rparr>"

text \<open>One tick of \<open>Watch\<close>: the last view sent, and the view sent now, if any.\<close>

definition raft_Watch_tick :: "adapter \<Rightarrow> ClusterView \<Rightarrow> ('w, ClusterView \<times> ClusterView option) rst" where
  "raft_Watch_tick c last_view = do {
     (view, e) \<leftarrow> raft_ClusterView c None;
     ret (if e \<noteq> None then (last_view, None)
          else if LeaderID view \<noteq> LeaderID last_view \<or> cv_Epoch view \<noteq> cv_Epoch last_view \<or>
                  cv_ViewID view \<noteq> cv_ViewID last_view
          then (view, Some view) else (last_view, None)) }"

lemma GetRepl_keeps: "exec_of GetRepl m = m"
  by (simp add: GetRepl_def case_prod_beta)

lemma endpoint_keeps: "exec_of GetLeaderDatabaseEndpoint r = r"
  by (simp add: GetLeaderDatabaseEndpoint_def case_prod_beta on_mysql_def zoom_def GetRepl_keeps)

lemma raft_ClusterView_run:
  "exec_of (raft_ClusterView c ctx) r = r"
  "LeaderID (fst (val_of (raft_ClusterView c ctx) r)) = r_leader r"
  "snd (val_of (raft_ClusterView c ctx) r) = None"
  by (simp_all add: raft_ClusterView_def case_prod_beta endpoint_keeps Let_def)

text \<open>
  The members a Raft coordinator reports are the local one followed by
  the member list of Raft; as that list contains the local node too, it is listed twice, and
  the leader reported is the one Raft knows.
\<close>

lemma view_lists_local_twice:
  assumes "r_id r = localID c" "r_id r \<in> set (r_metaPeers r)"
  shows "let view = fst (val_of (raft_ClusterView c ctx) r) in
     map ID (Members view) = localID c # r_metaPeers r \<and> \<not> distinct (map ID (Members view)) \<and>
     LeaderID view = r_leader r"
  using assms by (simp add: raft_ClusterView_def case_prod_beta endpoint_keeps Let_def comp_def)

lemma view_lists_local_twice_example:
  "map ID (Members (fst (val_of (raft_ClusterView \<lparr>localID = ''a:1'', memberName = ''n'', dbType = ''mysql''\<rparr> None)
     (demo_raft ([''a:1'', ''b:1''], []))))) = [''a:1'', ''a:1'', ''b:1'']"
  using view_lists_local_twice [of "demo_raft ([''a:1'', ''b:1''], [])"
      "\<lparr>localID = ''a:1'', memberName = ''n'', dbType = ''mysql''\<rparr>" None]
  by (simp add: demo_raft_fields sanitizePeerList_def Let_def)

end
