(* ===== verification/Ha.thy ===== *)
theory Ha
  imports Coordination MysqlDriver
begin

section \<open>The HA layer (internal/ha)\<close>

text \<open>
  The reconciler and the primary hooks, over a system state \<open>'s\<close> that the coordinator, the
  driver and the hook commands share. \<open>cmd\<close> is \<open>RunCommand\<close> of the operating system. The
  fields of \<open>PrimaryHooks\<close> and \<open>Reconciler\<close> are those of the structs; \<open>re_wired\<close> says that
  coordinator and driver are not nil. A cycle sees one value of its context. \<open>Loop\<close> runs
  \<open>RunOnce\<close> for ever and logs its errors; \<open>cycles\<close> is its first \<open>n\<close> rounds.

  The locale \<open>reconciled\<close> extends the driver's contract by what the coordinator and the hook
  commands must leave alone, and proves that reconciling fences a node that is not to be
  primary; it is interpreted on the Raft coordinator with the MySQL driver.
\<close>

subsection \<open>Endpoints (primary\_ref.go)\<close>

text \<open>\<open>net.SplitHostPort\<close>: host and port of ``host:port'' or ``[host]:port''.\<close>

definition before_last :: "char \<Rightarrow> string \<Rightarrow> string" where
  "before_last c s = rev (tl (dropWhile (\<lambda>x. x \<noteq> c) (rev s)))"

definition after_last :: "char \<Rightarrow> string \<Rightarrow> string" where
  "after_last c s = rev (takeWhile (\<lambda>x. x \<noteq> c) (rev s))"

definition SplitHostPort :: "string \<Rightarrow> (string \<times> string) option" where
  "SplitHostPort s =
     (if CHR '':'' \<notin> set s then None
      else if hd s = CHR ''['' then
        (let host = takeWhile (\<lambda>x. x \<noteq> CHR '']'') (tl s);
             rest = dropWhile (\<lambda>x. x \<noteq> CHR '']'') (tl s) in
         if CHR ''['' \<in> set (tl s) \<or> CHR '']'' \<in> set (drop 1 rest) then None
         else if take 2 rest = '']:'' \<and> CHR '':'' \<notin> set (drop 2 rest) then Some (host, drop 2 rest)
         else None)
      else
        (let host = before_last CHR '':'' s in
         if CHR '':'' \<in> set host \<or> CHR ''['' \<in> set s \<or> CHR '']'' \<in> set s then None
         else Some (host, after_last CHR '':'' s)))"

definition enrichPrimaryRef :: "PrimaryRef \<Rightarrow> int \<Rightarrow> PrimaryRef" where
  "enrichPrimaryRef ref mysqlPort =
     (if pr_Host ref \<noteq> [] \<and> pr_Port ref > 0 then ref
      else if pr_Host ref \<noteq> [] \<or> MemberID ref = [] then ref
      else (case SplitHostPort (MemberID ref) of
          None \<Rightarrow> ref
        | Some (host, portStr) \<Rightarrow>
            (let ref1 = ref\<lparr>pr_Host := host\<rparr>;
                 ref2 = (if portStr \<noteq> [] then
                     (case atoi portStr of
                        (p, None) \<Rightarrow> if mysqlPort \<le> 0 then ref1\<lparr>pr_Port := p\<rparr> else ref1
                      | (p, Some err) \<Rightarrow> ref1)
                   else ref1)
             in if mysqlPort > 0 then ref2\<lparr>pr_Port := mysqlPort\<rparr> else ref2)))"


subsection \<open>Primary hooks (primary\_hook.go)\<close>

record PrimaryHooks =
  onStart :: string
  onStop :: string
  hk_active :: bool
  skipStartOnce :: bool

type_synonym 's command = "string \<Rightarrow> string list \<Rightarrow> ('s, string \<times> gerror option) state"

record 's recon =
  re_sys :: 's
  re_wired :: bool
  re_Nofailover :: bool
  re_hooks :: "PrimaryHooks option"
  re_interval :: int
  re_applyPromote :: bool
  re_defensiveStopDone :: bool
  re_lastReplicaPrimary :: string
  re_mysqlPort :: int

definition on_sys :: "('s, 'a) state \<Rightarrow> ('s recon, 'a) state" where
  "on_sys k = zoom re_sys (\<lambda>s r. r\<lparr>re_sys := s\<rparr>) k"

definition NewPrimaryHooks :: "string \<Rightarrow> string \<Rightarrow> PrimaryHooks" where
  "NewPrimaryHooks start stop = \<lparr>onStart = start, onStop = stop, hk_active = False, skipStartOnce = False\<rparr>"

definition hookConfigured :: "string \<Rightarrow> bool" where
  "hookConfigured command = (let c = trim_space command in c \<noteq> [] \<and> c \<noteq> ''nop'')"

definition upd_hooks :: "(PrimaryHooks \<Rightarrow> PrimaryHooks) \<Rightarrow> ('s recon, unit) state" where
  "upd_hooks f = modify (\<lambda>r. r\<lparr>re_hooks := map_option f (re_hooks r)\<rparr>)"

definition SetSkipPrimaryStartOnce :: "('s recon, unit) state" where
  "SetSkipPrimaryStartOnce = upd_hooks (\<lambda>h. h\<lparr>skipStartOnce := True\<rparr>)"

definition Hooks_Active :: "('s recon, bool) state" where
  "Hooks_Active = gets (\<lambda>r. case re_hooks r of None \<Rightarrow> False | Some h \<Rightarrow> hk_active h)"

definition Hooks_run :: "'s command \<Rightarrow> string \<Rightarrow> ('s recon, gerror option) state" where
  "Hooks_run cmd command =
     (if \<not> hookConfigured command then ret None
      else do {
        (out, err) \<leftarrow> on_sys (cmd ''bash'' [''-c'', command]);
        ret err })"

definition runStopIfConfigured :: "'s command \<Rightarrow> PrimaryHooks \<Rightarrow> ('s recon, gerror option) state" where
  "runStopIfConfigured cmd h =
     (if \<not> hookConfigured (onStop h) then ret None else Hooks_run cmd (onStop h))"

definition EnsurePrimary :: "'s command \<Rightarrow> ctx_err \<Rightarrow> ('s recon, gerror option) state" where
  "EnsurePrimary cmd ctx = do {
     hooks \<leftarrow> gets re_hooks;
     (case hooks of None \<Rightarrow> ret None
      | Some h \<Rightarrow>
        (if \<not> hookConfigured (onStart h) then ret None
         else ctx_guard ctx Some
           (if hk_active h then ret None
            else if skipStartOnce h then do {
              upd_hooks (\<lambda>h. h\<lparr>skipStartOnce := False\<rparr>);
              upd_hooks (\<lambda>h. h\<lparr>hk_active := True\<rparr>);
              ret None }
            else or_err (Hooks_run cmd (onStart h)) (do {
              upd_hooks (\<lambda>h. h\<lparr>hk_active := True\<rparr>);
              ret None })))) }"

definition EnsureReplica :: "'s command \<Rightarrow> ctx_err \<Rightarrow> ('s recon, gerror option) state" where
  "EnsureReplica cmd ctx = do {
     hooks \<leftarrow> gets re_hooks;
     (case hooks of None \<Rightarrow> ret None
      | Some h \<Rightarrow> ctx_guard ctx Some
        (if \<not> hk_active h \<and> \<not> hookConfigured (onStop h) then ret None
         else if \<not> hk_active h then runStopIfConfigured cmd h
         else or_err (runStopIfConfigured cmd h) (do {
           upd_hooks (\<lambda>h. h\<lparr>hk_active := False\<rparr>);
           ret None }))) }"

definition RunStopIfConfigured :: "'s command \<Rightarrow> ctx_err \<Rightarrow> ('s recon, gerror option) state" where
  "RunStopIfConfigured cmd ctx = do {
     hooks \<leftarrow> gets re_hooks;
     (case hooks of None \<Rightarrow> ret None
      | Some h \<Rightarrow> ctx_guard ctx Some (runStopIfConfigured cmd h)) }"


subsection \<open>The reconciler (reconcile.go)\<close>

definition DefaultReconcileInterval :: int where
  "DefaultReconcileInterval = 3 * 1000 * 1000 * 1000"

record DesiredState =
  IsCoordLeader :: bool
  DBRole :: Role
  Primary :: PrimaryRef
  Reason :: string

text \<open>The options given to \<open>NewReconciler\<close>.\<close>

datatype option_arg = WithInterval int | WithApplyPromote bool | WithPrimaryHooks "PrimaryHooks option"
  | WithMySQLPort int

primrec apply_option :: "option_arg \<Rightarrow> 's recon \<Rightarrow> 's recon" where
  "apply_option (WithInterval d) r = (if d > 0 then r\<lparr>re_interval := d\<rparr> else r)"
| "apply_option (WithApplyPromote b) r = r\<lparr>re_applyPromote := b\<rparr>"
| "apply_option (WithPrimaryHooks h) r = r\<lparr>re_hooks := h\<rparr>"
| "apply_option (WithMySQLPort p) r = r\<lparr>re_mysqlPort := p\<rparr>"

text \<open>\<open>tags\<close> is \<open>Nofailover\<close> of the tags given, if any; the default is no tag.\<close>

definition NewReconciler :: "'s \<Rightarrow> bool \<Rightarrow> bool option \<Rightarrow> option_arg list \<Rightarrow> 's recon" where
  "NewReconciler sys wired tags opts = fold apply_option opts
     \<lparr>re_sys = sys, re_wired = wired, re_Nofailover = (tags = Some True), re_hooks = None,
      re_interval = DefaultReconcileInterval, re_applyPromote = False, re_defensiveStopDone = False,
      re_lastReplicaPrimary = [], re_mysqlPort = 0\<rparr>"

definition computeDesired ::
    "'s coord_ops \<Rightarrow> 's driver_ops \<Rightarrow> ctx_err \<Rightarrow> ('s recon, DesiredState) state" where
  "computeDesired C D ctx = do {
     leader \<leftarrow> on_sys (IsLeader C);
     nofailover \<leftarrow> gets re_Nofailover;
     (role, reason) \<leftarrow>
       (if leader \<and> \<not> nofailover then do {
          (ok, why) \<leftarrow> on_sys (Promotable D ctx);
          ret (if ok then (RolePrimary, ''coord.leader.promotable'') else (RoleReplica, why)) }
        else ret (RoleReplica,
          if \<not> leader then ''not.coord.leader'' else ''tag.nofailover''));
     (view, err) \<leftarrow> on_sys (ClusterViewOf C ctx);
     let primary = (if err = None \<and> LeaderID view \<noteq> [] then
          (let p = zero_PrimaryRef\<lparr>MemberID := LeaderID view\<rparr>; d = LeaderDatabase view in
           if ep_Host d \<noteq> [] \<and> ep_Port d > 0 then p\<lparr>pr_Host := ep_Host d, pr_Port := ep_Port d\<rparr> else p)
        else zero_PrimaryRef);
     ret \<lparr>IsCoordLeader = leader, DBRole = role, Primary = primary, Reason = reason\<rparr> }"

definition replicaTargetKey :: "PrimaryRef \<Rightarrow> string" where
  "replicaTargetKey ref = (if pr_Host ref \<noteq> [] \<and> pr_Port ref > 0
     then pr_Host ref @ '':'' @ itoa (pr_Port ref) else MemberID ref)"

definition set_last :: "string \<Rightarrow> ('s recon, unit) state" where
  "set_last k = modify (\<lambda>r. r\<lparr>re_lastReplicaPrimary := k\<rparr>)"

text \<open>\<open>if mgr, ok := driver.(MGRLifecycle); ok \<and> mgr.IsMGRMode() { yes } else { no }\<close>\<close>

definition if_mgr ::
    "'s driver_ops \<Rightarrow> ('s mgr_ops \<Rightarrow> ('s recon, 'a) state) \<Rightarrow> ('s recon, 'a) state \<Rightarrow> ('s recon, 'a) state" where
  "if_mgr D yes no = (case MGRLifecycle D of None \<Rightarrow> no
     | Some g \<Rightarrow> do { mgr \<leftarrow> on_sys (IsMGRMode g); (if mgr then yes g else no) })"

text \<open>The end of \<open>applyReplicaIfNeeded\<close>.\<close>

definition replicate_now ::
    "'s driver_ops \<Rightarrow> ctx_err \<Rightarrow> PrimaryRef \<Rightarrow> string \<Rightarrow> ('s recon, gerror option) state" where
  "replicate_now D ctx ref key =
     or_err (on_sys (ApplyReplica D ctx ref)) (do { set_last key; ret None })"

definition applyReplicaIfNeeded ::
    "'s coord_ops \<Rightarrow> 's driver_ops \<Rightarrow> ctx_err \<Rightarrow> DesiredState \<Rightarrow> ('s recon, gerror option) state" where
  "applyReplicaIfNeeded C D ctx desired = do {
     let pid = MemberID (Primary desired);
     me \<leftarrow> on_sys (LocalID C);
     (if pid = [] \<or> pid = me then do { set_last []; ret None }
      else do {
        port \<leftarrow> gets re_mysqlPort;
        let ref = enrichPrimaryRef (Primary desired) port;
        let key = replicaTargetKey ref;
        last_key \<leftarrow> gets re_lastReplicaPrimary;
        (if key = [] then ret None
         else if key = last_key then
           if_mgr D (\<lambda>g. do {
             (joined, err) \<leftarrow> on_sys (MGRReplicaJoined g ctx);
             (case err of Some e \<Rightarrow> ret (Some e)
              | None \<Rightarrow>
                (if joined then ret None
                 else do { set_last []; replicate_now D ctx ref key })) }) (ret None)
         else replicate_now D ctx ref key) }) }"

definition applyMGRPrimary ::
    "'s driver_ops \<Rightarrow> 's mgr_ops \<Rightarrow> ctx_err \<Rightarrow> ('s recon, gerror option) state" where
  "applyMGRPrimary D g ctx = do {
     (phase1, e1) \<leftarrow> on_sys (MGRPrimaryPhase1Done g ctx);
     (case e1 of Some err \<Rightarrow> ret (Some err)
      | None \<Rightarrow> or_err (if \<not> phase1 then on_sys (ApplyPrimary D ctx) else ret None) (do {
          (health, e2) \<leftarrow> on_sys (Status D ctx);
          (case e2 of Some err \<Rightarrow> ret (Some err)
           | None \<Rightarrow>
             (if Writable health then ret None
              else do {
                (ready, e3) \<leftarrow> on_sys (MGRClusterWritableReady g ctx);
                (case e3 of Some err \<Rightarrow> ret (Some err)
                 | None \<Rightarrow>
                   (if \<not> ready then ret None
                    else on_sys (ApplyPrimaryMGRPhase2 g ctx))) })) })) }"

text \<open>The two branches of \<open>applyDesired\<close>.\<close>

definition applyDesired_primary ::
    "'s driver_ops \<Rightarrow> 's command \<Rightarrow> ctx_err \<Rightarrow> Health \<Rightarrow> ('s recon, gerror option) state" where
  "applyDesired_primary D cmd ctx health = do {
     promote \<leftarrow> gets re_applyPromote;
     (h2, e) \<leftarrow>
       (if promote \<and> \<not> Writable health then do {
          e1 \<leftarrow> if_mgr D (\<lambda>g. applyMGRPrimary D g ctx)
            (if HealthRole health \<noteq> RolePrimary then on_sys (ApplyPrimary D ctx) else ret None);
          (case e1 of Some err \<Rightarrow> ret (health, Some err)
           | None \<Rightarrow> on_sys (Status D ctx)) }
        else ret (health, None));
     (case e of Some err \<Rightarrow> ret (Some err)
      | None \<Rightarrow>
        (if Writable h2 then EnsurePrimary cmd ctx else ret None)) }"

definition applyDesired_replica ::
    "'s coord_ops \<Rightarrow> 's driver_ops \<Rightarrow> 's command \<Rightarrow> ctx_err \<Rightarrow> DesiredState \<Rightarrow> Health \<Rightarrow>
     ('s recon, gerror option) state" where
  "applyDesired_replica C D cmd ctx desired health =
     or_err (EnsureReplica cmd ctx)
       (or_err (if Writable health \<or> HealthRole health = RolePrimary then on_sys (Demote D ctx) else ret None)
          (do {
             promote \<leftarrow> gets re_applyPromote;
             (if promote then applyReplicaIfNeeded C D ctx desired else ret None) }))"

definition applyDesired ::
    "'s coord_ops \<Rightarrow> 's driver_ops \<Rightarrow> 's command \<Rightarrow> ctx_err \<Rightarrow> DesiredState \<Rightarrow>
     ('s recon, gerror option) state" where
  "applyDesired C D cmd ctx desired = do {
     (health, e) \<leftarrow> on_sys (Status D ctx);
     (case e of Some err \<Rightarrow> ret (Some err)
      | None \<Rightarrow>
        (if DBRole desired = RolePrimary then applyDesired_primary D cmd ctx health
         else applyDesired_replica C D cmd ctx desired health)) }"

definition RunOnce ::
    "'s coord_ops \<Rightarrow> 's driver_ops \<Rightarrow> 's command \<Rightarrow> ctx_err \<Rightarrow> ('s recon, gerror option) state" where
  "RunOnce C D cmd ctx = do {
     wired \<leftarrow> gets re_wired;
     (if \<not> wired then ret None
      else do {
        desired \<leftarrow> computeDesired C D ctx;
        stopped \<leftarrow> gets re_defensiveStopDone;
        whenM (\<not> stopped \<and> DBRole desired \<noteq> RolePrimary) (do {
          modify (\<lambda>r. r\<lparr>re_defensiveStopDone := True\<rparr>);
          call (RunStopIfConfigured cmd ctx) });
        applyDesired C D cmd ctx desired }) }"

fun cycles ::
    "'s coord_ops \<Rightarrow> 's driver_ops \<Rightarrow> 's command \<Rightarrow> ctx_err list \<Rightarrow> ('s recon, gerror option list) state" where
  "cycles C D cmd [] = ret []"
| "cycles C D cmd (ctx # ctxs) = do {
     e \<leftarrow> RunOnce C D cmd ctx;
     es \<leftarrow> cycles C D cmd ctxs;
     ret (e # es) }"

subsection \<open>Fencing, from the contract of the driver\<close>

text \<open>``A system that is open afterwards was open before.''\<close>

definition shut_rel :: "('s \<Rightarrow> bool) \<Rightarrow> 's recon \<Rightarrow> 's recon \<Rightarrow> bool" where
  "shut_rel op r s \<longleftrightarrow> re_applyPromote s = re_applyPromote r \<and> re_wired s = re_wired r \<and>
     re_Nofailover s = re_Nofailover r \<and> (op (re_sys s) \<longrightarrow> op (re_sys r))"

interpretation shut: effect_rel "shut_rel op" for op :: "'s \<Rightarrow> bool"
  by unfold_locales (auto simp: shut_rel_def)

lemma shut_sys: "(\<And>s. op (exec_of k s) \<Longrightarrow> op s) \<Longrightarrow> state_io_rel (shut_rel op) (on_sys k)"
  by (auto simp: state_io_rel_def shut_rel_def on_sys_def zoom_def)

lemma shut_local [intro!]:
  "state_io_rel (shut_rel op) (set_last k)" "state_io_rel (shut_rel op) (upd_hooks f)"
  "state_io_rel (shut_rel op) (modify (\<lambda>r. r\<lparr>re_defensiveStopDone := b\<rparr>))"
  unfolding set_last_def upd_hooks_def by (auto intro!: shut.eff_modify simp: shut_rel_def)

lemma shut_guard [intro!]:
  "state_io_rel (shut_rel op) k \<Longrightarrow> state_io_rel (shut_rel op) (ctx_guard ctx failed k)"
  by (cases ctx) auto

text \<open>What the cycle wants, read off the questions it asks.\<close>

definition wants_primary :: "'s coord_ops \<Rightarrow> 's driver_ops \<Rightarrow> ctx_err \<Rightarrow> 's recon \<Rightarrow> bool" where
  "wants_primary C D ctx r \<longleftrightarrow> val_of (IsLeader C) (re_sys r) \<and> \<not> re_Nofailover r \<and>
     fst (val_of (Promotable D ctx) (exec_of (IsLeader C) (re_sys r)))"

lemma run_on_sys: "run_state (on_sys k) r = (val_of k (re_sys r), r\<lparr>re_sys := exec_of k (re_sys r)\<rparr>)"
  by (simp add: on_sys_def zoom_def)

lemma desired_role:
  "DBRole (val_of (computeDesired C D ctx) r) = (if wants_primary C D ctx r then RolePrimary else RoleReplica)"
  by (simp add: computeDesired_def wants_primary_def case_prod_beta run_on_sys Let_def)

lemma or_err_none:
  "val_of (or_err m k) s = None \<longleftrightarrow> val_of m s = None \<and> val_of k (exec_of m s) = None"
  "val_of m s = None \<Longrightarrow> exec_of (or_err m k) s = exec_of k (exec_of m s)"
  by (auto simp: run_or_err split: option.split)

locale reconciled_fence = driver_fence D open_for_writes
  for D :: "'s driver_ops" and open_for_writes :: "'s \<Rightarrow> bool" +
  fixes C :: "'s coord_ops" and cmd :: "'s command"
  assumes leader_keeps: "open_for_writes (exec_of (IsLeader C) s) = open_for_writes s"
    and local_keeps: "open_for_writes (exec_of (LocalID C) s) = open_for_writes s"
    and view_keeps: "open_for_writes (exec_of (ClusterViewOf C ctx) s) = open_for_writes s"
    and cmd_keeps: "open_for_writes (exec_of (cmd sh args) s) = open_for_writes s"
begin

lemmas questions = leader_keeps local_keeps view_keeps cmd_keeps status_keeps promotable_keeps

lemma shut_questions [intro!]:
  "state_io_rel (shut_rel open_for_writes) (on_sys (IsLeader C))"
  "state_io_rel (shut_rel open_for_writes) (on_sys (LocalID C))"
  "state_io_rel (shut_rel open_for_writes) (on_sys (ClusterViewOf C ctx))"
  "state_io_rel (shut_rel open_for_writes) (on_sys (cmd sh args))"
  "state_io_rel (shut_rel open_for_writes) (on_sys (Status D ctx))"
  "state_io_rel (shut_rel open_for_writes) (on_sys (Promotable D ctx))"
  "state_io_rel (shut_rel open_for_writes) (on_sys (Demote D ctx))"
  "state_io_rel (shut_rel open_for_writes) (on_sys (ApplyReplica D ctx ref))"
  by (rule shut_sys, auto simp: questions dest: demote_never_opens replica_never_opens)+

lemma shut_mgr:
  "MGRLifecycle D = Some g \<Longrightarrow> state_io_rel (shut_rel open_for_writes) (on_sys (IsMGRMode g))"
  "MGRLifecycle D = Some g \<Longrightarrow> state_io_rel (shut_rel open_for_writes) (on_sys (MGRReplicaJoined g ctx))"
  by (rule shut_sys, simp add: joined_keeps mgr_mode_keeps)+

lemma shut_if_mgr:
  assumes "\<And>g. MGRLifecycle D = Some g \<Longrightarrow> state_io_rel (shut_rel open_for_writes) (yes g)"
    and "state_io_rel (shut_rel open_for_writes) no"
  shows "state_io_rel (shut_rel open_for_writes) (if_mgr D yes no)"
proof (cases "MGRLifecycle D")
  case (Some g)
  with assms shut_mgr(1) [OF Some] show ?thesis
    unfolding if_mgr_def by (auto intro!: shut.eff_bind)
qed (simp add: if_mgr_def assms(2))

lemma shut_hooks [intro!]:
  "state_io_rel (shut_rel open_for_writes) (EnsurePrimary cmd ctx)"
  "state_io_rel (shut_rel open_for_writes) (EnsureReplica cmd ctx)"
  "state_io_rel (shut_rel open_for_writes) (RunStopIfConfigured cmd ctx)"
  unfolding EnsurePrimary_def EnsureReplica_def RunStopIfConfigured_def runStopIfConfigured_def Hooks_run_def
  by (auto intro!: shut.eff_bind)

lemma shut_replicate:
  "state_io_rel (shut_rel open_for_writes) (applyReplicaIfNeeded C D ctx desired)"
proof -
  have later: "state_io_rel (shut_rel open_for_writes) (replicate_now D ctx ref key)" for ref key
    unfolding replicate_now_def by (auto intro!: shut.eff_bind)
  then have again: "state_io_rel (shut_rel open_for_writes) (if_mgr D (\<lambda>g. do {
             (joined, err) \<leftarrow> on_sys (MGRReplicaJoined g ctx);
             (case err of Some e \<Rightarrow> ret (Some e)
              | None \<Rightarrow>
                (if joined then ret None
                 else do { set_last []; replicate_now D ctx ref key })) }) (ret None))" for ref key
    by (intro shut_if_mgr) (auto intro!: shut.eff_bind shut_mgr(2))
  show ?thesis
    unfolding applyReplicaIfNeeded_def Let_def
    by (intro shut.eff_bind shut.eff_if shut.eff_ret shut.eff_gets later again) auto
qed

lemma shut_compute: "state_io_rel (shut_rel open_for_writes) (computeDesired C D ctx)"
  unfolding computeDesired_def Let_def by (auto intro!: shut.eff_bind)

lemma shut_defensive:
  "state_io_rel (shut_rel open_for_writes) (whenM b (do {
     modify (\<lambda>r. r\<lparr>re_defensiveStopDone := True\<rparr>);
     call (RunStopIfConfigured cmd ctx) }))"
  by (auto intro!: shut.eff_bind)

lemma shut_rest:
  "state_io_rel (shut_rel open_for_writes) (do {
     promote \<leftarrow> gets re_applyPromote;
     (if promote then applyReplicaIfNeeded C D ctx desired else ret None) })"
  by (intro shut.eff_bind shut.eff_gets shut.eff_if shut_replicate shut.eff_ret)

lemma shut_open: "state_io_rel (shut_rel open_for_writes) k \<Longrightarrow> open_for_writes (re_sys (exec_of k r)) \<Longrightarrow>
    open_for_writes (re_sys r)"
  using shut.eff_run [of open_for_writes k r] by (simp add: shut_rel_def)

lemma replica_closes:
  assumes "val_of (applyDesired_replica C D cmd ctx desired h) r = None"
    and "Writable h = open_for_writes (re_sys r)"
  shows "\<not> open_for_writes (re_sys (exec_of (applyDesired_replica C D cmd ctx desired h) r))"
proof -
  let ?demote = "if Writable h \<or> HealthRole h = RolePrimary then on_sys (Demote D ctx) else ret None"
  let ?rest = "do { promote \<leftarrow> gets re_applyPromote;
     (if promote then applyReplicaIfNeeded C D ctx desired else ret None) }"
  let ?r1 = "exec_of (EnsureReplica cmd ctx) r"
  let ?r2 = "exec_of ?demote ?r1"
  have none: "val_of (EnsureReplica cmd ctx) r = None" "val_of ?demote ?r1 = None"
    and run: "exec_of (applyDesired_replica C D cmd ctx desired h) r = exec_of ?rest ?r2"
    using assms(1) unfolding applyDesired_replica_def or_err_none(1) by (blast, blast, metis or_err_none(2))
  have "\<not> open_for_writes (re_sys ?r2)"
  proof (cases "Writable h \<or> HealthRole h = RolePrimary")
    case True
    with none(2) show ?thesis by (simp add: run_on_sys demote_closes)
  next
    case False
    with assms(2) have "\<not> open_for_writes (re_sys r)" by simp
    with shut_open [OF shut_hooks(2), of ctx r] False show ?thesis by auto
  qed
  with shut_open [OF shut_rest [of ctx desired], of ?r2] show ?thesis
    unfolding run by blast
qed

text \<open>The run of a cycle, split at what is wanted.\<close>

lemma RunOnce_split:
  assumes "re_wired r"
  obtains r1 where "shut_rel open_for_writes r r1"
    and "run_state (RunOnce C D cmd ctx) r =
      run_state (applyDesired C D cmd ctx (val_of (computeDesired C D ctx) r)) r1"
proof -
  let ?d = "computeDesired C D ctx"
  let ?s = "whenM (\<not> re_defensiveStopDone (exec_of ?d r) \<and> DBRole (val_of ?d r) \<noteq> RolePrimary) (do {
     modify (\<lambda>r. r\<lparr>re_defensiveStopDone := True\<rparr>);
     call (RunStopIfConfigured cmd ctx) })"
  have "shut_rel open_for_writes r (exec_of ?s (exec_of ?d r))"
    by (rule shut.R_trans [OF shut.eff_run [OF shut_compute] shut.eff_run [OF shut_defensive]])
  moreover have "run_state (RunOnce C D cmd ctx) r =
      run_state (applyDesired C D cmd ctx (val_of ?d r)) (exec_of ?s (exec_of ?d r))"
    using assms by (simp add: RunOnce_def run_bind_proj del: run_state_bind)
  ultimately show ?thesis using that by blast
qed

text \<open>A round in which the node is not to be primary, or is not to be promoted, never opens it.\<close>

lemma replica_round_shut: "state_io_rel (shut_rel open_for_writes) (applyDesired_replica C D cmd ctx desired h)"
  unfolding applyDesired_replica_def
  by (intro shut.eff_or_err shut_hooks shut.eff_if shut_questions shut.eff_ret shut_rest)

lemma replica_never_opens_round:
  assumes "re_wired r" "\<not> wants_primary C D ctx r" "open_for_writes (re_sys (exec_of (RunOnce C D cmd ctx) r))"
  shows "open_for_writes (re_sys r)"
proof -
  let ?w = "val_of (computeDesired C D ctx) r"
  obtain r1 where r1: "shut_rel open_for_writes r r1"
    and run: "run_state (RunOnce C D cmd ctx) r = run_state (applyDesired C D cmd ctx ?w) r1"
    using RunOnce_split [OF assms(1)] by blast
  have role: "DBRole ?w \<noteq> RolePrimary" using assms(2) by (simp add: desired_role)
  let ?r2 = "r1\<lparr>re_sys := exec_of (Status D ctx) (re_sys r1)\<rparr>"
  have repl: "open_for_writes (re_sys (exec_of (applyDesired_replica C D cmd ctx ?w h) ?r2)) \<Longrightarrow>
      open_for_writes (re_sys ?r2)" for h
    using shut_open [OF replica_round_shut] by blast
  have "open_for_writes (re_sys ?r2)"
    using assms(3) repl role unfolding run
    by (auto simp: applyDesired_def case_prod_beta run_on_sys split: option.splits if_splits)
  then have "open_for_writes (re_sys r1)" by (simp add: status_keeps)
  with r1 show ?thesis by (simp add: shut_rel_def)
qed

lemma passive_never_opens:
  assumes "re_wired r" "\<not> re_applyPromote r" "open_for_writes (re_sys (exec_of (RunOnce C D cmd ctx) r))"
  shows "open_for_writes (re_sys r)"
proof -
  let ?w = "val_of (computeDesired C D ctx) r"
  obtain r1 where r1: "shut_rel open_for_writes r r1"
    and run: "run_state (RunOnce C D cmd ctx) r = run_state (applyDesired C D cmd ctx ?w) r1"
    using RunOnce_split [OF assms(1)] by blast
  let ?st = "run_state (Status D ctx) (re_sys r1)"
  let ?r2 = "r1\<lparr>re_sys := snd ?st\<rparr>"
  have quiet: "\<not> re_applyPromote ?r2" using r1 assms(2) by (simp add: shut_rel_def)
  have "run_state (applyDesired_primary D cmd ctx h) ?r2 =
      run_state (if Writable h then EnsurePrimary cmd ctx else ret None) ?r2" for h
    using quiet by (simp add: applyDesired_primary_def)
  moreover have "state_io_rel (shut_rel open_for_writes) (if Writable h then EnsurePrimary cmd ctx else ret None)" for h
    by auto
  ultimately have prim: "open_for_writes (re_sys (exec_of (applyDesired_primary D cmd ctx h) ?r2)) \<Longrightarrow>
      open_for_writes (re_sys ?r2)" for h
    using shut_open by metis
  have repl: "open_for_writes (re_sys (exec_of (applyDesired_replica C D cmd ctx ?w h) ?r2)) \<Longrightarrow>
      open_for_writes (re_sys ?r2)" for h
    using shut_open [OF replica_round_shut] by blast
  have "open_for_writes (re_sys ?r2)"
    using assms(3) prim repl unfolding run
    by (auto simp: applyDesired_def case_prod_beta run_on_sys split: option.splits if_splits)
  then have "open_for_writes (re_sys r1)" by (simp add: status_keeps)
  with r1 show ?thesis by (simp add: shut_rel_def)
qed

end

text \<open>With a driver whose \<open>Status\<close> can be trusted, such a round that succeeds closes the node.\<close>

locale reconciled = reconciled_fence D open_for_writes C cmd + driver_contract D open_for_writes
  for D :: "'s driver_ops" and open_for_writes :: "'s \<Rightarrow> bool" and C :: "'s coord_ops" and cmd :: "'s command"
begin

lemma fenced:
  assumes "re_wired r" "\<not> wants_primary C D ctx r" "val_of (RunOnce C D cmd ctx) r = None"
  shows "\<not> open_for_writes (re_sys (exec_of (RunOnce C D cmd ctx) r))"
proof -
  let ?w = "val_of (computeDesired C D ctx) r"
  obtain r1 where run: "run_state (RunOnce C D cmd ctx) r = run_state (applyDesired C D cmd ctx ?w) r1"
    using RunOnce_split [OF assms(1)] by blast
  have role: "DBRole ?w \<noteq> RolePrimary" using assms(2) by (simp add: desired_role)
  let ?st = "run_state (Status D ctx) (re_sys r1)"
  have ok: "snd (fst ?st) = None"
    using assms(3) run by (auto simp: applyDesired_def case_prod_beta run_on_sys split: option.splits)
  let ?r2 = "r1\<lparr>re_sys := snd ?st\<rparr>"
  have run2: "run_state (RunOnce C D cmd ctx) r = run_state (applyDesired_replica C D cmd ctx ?w (fst (fst ?st))) ?r2"
    using run ok role by (simp add: applyDesired_def case_prod_beta run_on_sys)
  have "Writable (fst (fst ?st)) = open_for_writes (re_sys ?r2)"
    using status_reports [of ctx "re_sys r1" "fst (fst ?st)"] ok status_keeps [of ctx "re_sys r1"]
    by (simp add: prod_eq_iff)
  from replica_closes [OF _ this] assms(3) show ?thesis
    unfolding run2 by blast
qed

end

end
