(* ===== verification/Postgres.thy ===== *)
theory Postgres
  imports Driver Config Ha
begin

section \<open>The local PostgreSQL instance (internal/database/postgresql)\<close>

text \<open>
  Pools, statements and commands against a PostgreSQL server: api.go, lag.go, replica.go and
  rewind.go. The server, the operating system and the clock are the argument \<open>E\<close>: a \<open>pgenv\<close>
  answers pings, statements and scans on the pool a DSN opened (a scan that fails leaves the zero
  value), runs commands, and looks at files. \<open>pe_tick\<close> is the \<open>select\<close> between a one-second tick
  and the end of a context; a context made by \<open>WithTimeout\<close> is the number of its seconds.
  Pool sizes and mutexes are not modelled.
\<close>

record 'w pgenv =
  pe_open :: "string \<Rightarrow> ('w, gerror option) state"
  pe_close :: "string \<Rightarrow> ('w, unit) state"
  pe_ping :: "ctx_err \<Rightarrow> string \<Rightarrow> ('w, gerror option) state"
  pe_exec :: "ctx_err \<Rightarrow> string \<Rightarrow> string \<Rightarrow> string list \<Rightarrow> ('w, gerror option) state"
  pe_bool :: "ctx_err \<Rightarrow> string \<Rightarrow> string \<Rightarrow> string list \<Rightarrow> ('w, bool res) state"
  pe_nullint :: "ctx_err \<Rightarrow> string \<Rightarrow> string \<Rightarrow> ('w, int option res) state"
  pe_u32 :: "ctx_err \<Rightarrow> string \<Rightarrow> string \<Rightarrow> ('w, 32 word res) state"
  pe_tick :: "('w, ctx_err) state"
  pe_command :: "ctx_err \<Rightarrow> string \<Rightarrow> string list \<Rightarrow> ('w, string res) state"
  pe_lookpath :: "string \<Rightarrow> ('w, string res) state"
  pe_stat :: "string \<Rightarrow> ('w, gerror option) state"
  pe_create :: "string \<Rightarrow> ('w, gerror option) state"
  pe_read :: "string \<Rightarrow> ('w, string res) state"

record 'w pgsql =
  px_world :: 'w
  px_conf :: PostgresqlConfig
  px_db :: "string option"
  px_alive :: bool
  px_writable :: bool

type_synonym ('w, 'a) pst = "('w pgsql, 'a) state"

definition on_pg :: "('w, 'a) state \<Rightarrow> ('w, 'a) pst" where
  "on_pg k = zoom px_world (\<lambda>w p. p\<lparr>px_world := w\<rparr>) k"

lemma run_on_pg [simp]:
  "run_state (on_pg k) p = (val_of k (px_world p), p\<lparr>px_world := exec_of k (px_world p)\<rparr>)"
  by (simp add: on_pg_def)

definition NewPostgresql :: "PostgresqlConfig \<Rightarrow> 'w \<Rightarrow> 'w pgsql" where
  "NewPostgresql conf w = \<lparr>px_world = w, px_conf = conf, px_db = None, px_alive = False, px_writable = False\<rparr>"

definition pg_Close :: "'w pgenv \<Rightarrow> ('w, unit) pst" where
  "pg_Close E = do {
     db \<leftarrow> gets px_db;
     (case db of None \<Rightarrow> ret ()
      | Some d \<Rightarrow> do { on_pg (pe_close E d); modify (\<lambda>p. p\<lparr>px_db := None\<rparr>) }) }"


subsection \<open>Connecting (api.go)\<close>

definition pg_splitHostPort :: "string \<Rightarrow> string \<Rightarrow> string \<times> string" where
  "pg_splitHostPort addr defaultPort =
     (if addr = [] then (''127.0.0.1'', defaultPort)
      else (case SplitHostPort addr of
          None \<Rightarrow> (addr, defaultPort)
        | Some (host, port) \<Rightarrow> (host, if port = [] then defaultPort else port)))"

text \<open>The two format strings of the connection texts.\<close>

definition conninfo :: "string \<Rightarrow> string \<Rightarrow> string \<Rightarrow> string \<Rightarrow> string" where
  "conninfo host port user pass =
     (if pass \<noteq> [] then
        ''host='' @ host @ '' port='' @ port @ '' user='' @ user @ '' password='' @ pass @
        '' dbname=postgres sslmode=disable''
      else ''host='' @ host @ '' port='' @ port @ '' user='' @ user @ '' dbname=postgres sslmode=disable'')"

definition or_default :: "string \<Rightarrow> string \<Rightarrow> string" where
  "or_default s d = (if s \<noteq> [] then s else d)"

definition pg_dsn :: "PostgresqlConfig \<Rightarrow> string" where
  "pg_dsn conf =
     (let (host, port) = pg_splitHostPort (pg_ConnectAddress conf) ''5432'';
          (user, pass) = (case pg_Auth conf of
              None \<Rightarrow> (''postgres'', [])
            | Some a \<Rightarrow> (case pa_SuperUser a of
                None \<Rightarrow> (''postgres'', [])
              | Some su \<Rightarrow> (or_default (su_Username su) ''postgres'', su_Password su)))
      in conninfo host port user pass)"

definition pg_getDB :: "'w pgenv \<Rightarrow> ('w, string res) pst" where
  "pg_getDB E = do {
     p \<leftarrow> gets id;
     (case px_db p of Some d \<Rightarrow> ret (d, None)
      | None \<Rightarrow> (let d = pg_dsn (px_conf p) in do {
          e \<leftarrow> on_pg (pe_open E d);
          (case e of Some err \<Rightarrow> ret ([], Some err)
           | None \<Rightarrow> do { modify (\<lambda>p. p\<lparr>px_db := Some d\<rparr>); ret (d, None) }) })) }"

text \<open>\<open>db, err := p.getDB(); if err != nil { return failed }\<close>\<close>

definition with_pg :: "'w pgenv \<Rightarrow> 'a \<Rightarrow> (string \<Rightarrow> ('w, 'a \<times> gerror option) pst) \<Rightarrow> ('w, 'a res) pst" where
  "with_pg E zero k = do {
     (db, e) \<leftarrow> pg_getDB E;
     (case e of Some err \<Rightarrow> ret (zero, Some err) | None \<Rightarrow> k db) }"

definition with_pg_err :: "'w pgenv \<Rightarrow> (string \<Rightarrow> ('w, gerror option) pst) \<Rightarrow> ('w, gerror option) pst" where
  "with_pg_err E k = do {
     (db, e) \<leftarrow> pg_getDB E;
     (case e of Some err \<Rightarrow> ret (Some err) | None \<Rightarrow> k db) }"

definition PingDB :: "'w pgenv \<Rightarrow> ctx_err \<Rightarrow> ('w, gerror option) pst" where
  "PingDB E ctx = with_pg_err E (\<lambda>db. on_pg (pe_ping E ctx db))"

definition setAlive :: "bool \<Rightarrow> ('w, unit) pst" where
  "setAlive alive = modify (\<lambda>p. p\<lparr>px_alive := alive\<rparr>)"

definition DeadlineExceeded :: gerror where
  "DeadlineExceeded = GoErr ''context deadline exceeded''"

text \<open>The context is done after \<open>n\<close> ticks at the latest.\<close>

fun WaitReady :: "'w pgenv \<Rightarrow> ctx_err \<Rightarrow> nat \<Rightarrow> ('w, gerror option) pst" where
  "WaitReady E ctx n = do {
     e \<leftarrow> PingDB E ctx;
     (case e of None \<Rightarrow> do { setAlive True; ret None }
      | Some _ \<Rightarrow>
         (if ctx \<noteq> None then ret ctx
          else do {
            over \<leftarrow> on_pg (pe_tick E);
            (case over of Some err \<Rightarrow> ret (Some err)
             | None \<Rightarrow> (case n of 0 \<Rightarrow> ret (Some DeadlineExceeded) | Suc m \<Rightarrow> WaitReady E ctx m)) })) }"

declare WaitReady.simps [simp del]

definition IsInRecovery :: "'w pgenv \<Rightarrow> ctx_err \<Rightarrow> ('w, bool res) pst" where
  "IsInRecovery E ctx = with_pg E False (\<lambda>db. on_pg (pe_bool E ctx db ''SELECT pg_is_in_recovery()'' []))"

definition SetDefaultReadOnly :: "'w pgenv \<Rightarrow> ctx_err \<Rightarrow> bool \<Rightarrow> ('w, gerror option) pst" where
  "SetDefaultReadOnly E ctx readOnly = with_pg_err E (\<lambda>db. do {
     e \<leftarrow> on_pg (pe_exec E ctx db
        (''SET default_transaction_read_only = '' @ (if readOnly then ''on'' else ''off'')) []);
     whenM (e = None) (modify (\<lambda>p. p\<lparr>px_writable := \<not> readOnly\<rparr>));
     ret e })"

definition Promote :: "'w pgenv \<Rightarrow> ctx_err \<Rightarrow> ('w, gerror option) pst" where
  "Promote E ctx = with_pg_err E (\<lambda>db. do {
     e1 \<leftarrow> on_pg (pe_exec E ctx db ''SELECT pg_promote(true)'' []);
     e \<leftarrow> (if e1 \<noteq> None then on_pg (pe_exec E ctx db ''SELECT pg_promote()'' []) else ret e1);
     whenM (e = None) (modify (\<lambda>p. p\<lparr>px_writable := True\<rparr>));
     ret e })"

text \<open>\<open>fmt.Sscanf(s, "%d", &n)\<close>: an optional sign and the digits at the front.\<close>

definition sscanf_d :: "string \<Rightarrow> int res" where
  "sscanf_d s =
     (let (sign, rest) = (case s of
            [] \<Rightarrow> ([], [])
          | c # cs \<Rightarrow> (if c = CHR ''-'' \<or> c = CHR ''+'' then ([c], cs) else ([], s)));
          ds = takeWhile is_digit rest
      in if ds = [] then (0, Some (GoErr ''expected integer''))
         else (case atoi (sign @ ds) of (n, None) \<Rightarrow> (n, None) | (n, Some err) \<Rightarrow> (0, Some err)))"

definition parsePort :: "string \<Rightarrow> int res" where
  "parsePort s = sscanf_d (trim_space s)"

definition ConnectHostPort :: "PostgresqlConfig \<Rightarrow> string \<times> int" where
  "ConnectHostPort conf =
     (let (host, portStr) = pg_splitHostPort (pg_ConnectAddress conf) ''5432''
      in (host, (case parsePort portStr of (n, None) \<Rightarrow> n | (n, Some err) \<Rightarrow> 5432)))"


subsection \<open>Lag (lag.go)\<close>

definition line_tabs :: "nat \<Rightarrow> string" where
  "line_tabs n = CHR 0x0A # replicate n (CHR 0x09)"

definition lag_query :: string where
  "lag_query = line_tabs 2 @ ''SELECT pg_wal_lsn_diff('' @ line_tabs 3 @ ''pg_last_wal_receive_lsn(),'' @
     line_tabs 3 @ ''COALESCE(pg_last_wal_replay_lsn(), '' @ quoted ''0/0'' @ '')'' @ line_tabs 2 @ '')''"

definition pg_ReplicationLagBytes :: "'w pgenv \<Rightarrow> ctx_err \<Rightarrow> ('w, int res) pst" where
  "pg_ReplicationLagBytes E ctx = do {
     (inRecovery, e) \<leftarrow> IsInRecovery E ctx;
     (case e of Some err \<Rightarrow> ret (0, Some err)
      | None \<Rightarrow>
         if \<not> inRecovery then ret (0, None)
         else with_pg E 0 (\<lambda>db. do {
           (lag, e2) \<leftarrow> on_pg (pe_nullint E ctx db lag_query);
           ret (case e2 of Some err \<Rightarrow> (0, Some err)
                | None \<Rightarrow> (case lag of None \<Rightarrow> (0, None)
                          | Some n \<Rightarrow> (if n < 0 then (0, None) else (n, None)))) })) }"


subsection \<open>Following a primary (replica.go)\<close>

definition replUser :: "PostgresqlConfig \<Rightarrow> string \<times> string" where
  "replUser conf = (case pg_Auth conf of
       None \<Rightarrow> (''replicator'', [])
     | Some a \<Rightarrow> (case pa_Repl a of
         None \<Rightarrow> (''replicator'', [])
       | Some r \<Rightarrow> (or_default (re_Username r) ''replicator'', re_Password r)))"

definition primarySlotName :: "PostgresqlConfig \<Rightarrow> string \<Rightarrow> string" where
  "primarySlotName conf member = or_default (pg_PrimarySlotName conf) (or_default member ''pgrepl'')"

text \<open>Host and port of the primary, shared text of the two conninfo builders.\<close>

definition primary_address :: "PrimaryRef \<Rightarrow> string \<times> string" where
  "primary_address primary =
     (if pr_Host primary = [] \<and> MemberID primary \<noteq> [] then pg_splitHostPort (MemberID primary) ''5432''
      else (pr_Host primary, if pr_Port primary > 0 then itoa (pr_Port primary) else ''5432''))"

definition BuildPrimaryConninfo :: "PostgresqlConfig \<Rightarrow> PrimaryRef \<Rightarrow> string" where
  "BuildPrimaryConninfo conf primary =
     (let (host, port) = primary_address primary; (user, pass) = replUser conf
      in conninfo host port user pass)"

definition EnsurePhysicalSlotOnPrimary ::
    "'w pgenv \<Rightarrow> ctx_err \<Rightarrow> PrimaryRef \<Rightarrow> string \<Rightarrow> ('w, gerror option) pst" where
  "EnsurePhysicalSlotOnPrimary E ctx primary slotName =
     (if slotName = [] then ret None
      else do {
        conf \<leftarrow> gets px_conf;
        let db = BuildPrimaryConninfo conf primary;
        or_err (on_pg (pe_open E db)) (do {
          e \<leftarrow> or_err (on_pg (pe_ping E ctx db)) (do {
            (found, e1) \<leftarrow> on_pg (pe_bool E ctx db
               (''SELECT EXISTS (SELECT 1 FROM pg_replication_slots WHERE slot_name = $1)'') [slotName]);
            (case e1 of Some err \<Rightarrow> ret (Some err)
             | None \<Rightarrow>
                if found then ret None
                else on_pg (pe_exec E ctx db
                  ''SELECT pg_create_physical_replication_slot($1, true)'' [slotName])) });
          on_pg (pe_close E db);
          ret e }) })"

definition SetRecoveryPrimaryConninfo :: "'w pgenv \<Rightarrow> ctx_err \<Rightarrow> string \<Rightarrow> ('w, gerror option) pst" where
  "SetRecoveryPrimaryConninfo E ctx info = with_pg_err E (\<lambda>db. on_pg (pe_exec E ctx db
     (''ALTER SYSTEM SET primary_conninfo = '' @
      quoted (replace_char (CHR 0x27) [CHR 0x27, CHR 0x27] info)) []))"

definition SetRecoveryPrimarySlotName :: "'w pgenv \<Rightarrow> ctx_err \<Rightarrow> string \<Rightarrow> ('w, gerror option) pst" where
  "SetRecoveryPrimarySlotName E ctx slotName =
     (if slotName = [] then ret None
      else with_pg_err E (\<lambda>db. on_pg (pe_exec E ctx db
        (''ALTER SYSTEM SET primary_slot_name = '' @
         quoted (replace_char (CHR 0x27) [CHR 0x27, CHR 0x27] slotName)) [])))"

definition ReloadConf :: "'w pgenv \<Rightarrow> ctx_err \<Rightarrow> ('w, gerror option) pst" where
  "ReloadConf E ctx = with_pg_err E (\<lambda>db. on_pg (pe_exec E ctx db ''SELECT pg_reload_conf()'' []))"


subsection \<open>Stop, rewind, start (rewind.go)\<close>

definition pgBin :: "'w pgenv \<Rightarrow> string \<Rightarrow> ('w, string) pst" where
  "pgBin E name = do {
     conf \<leftarrow> gets px_conf;
     (if pg_BinDir conf \<noteq> [] then ret (path_join [pg_BinDir conf, name])
      else do {
        (path, e) \<leftarrow> on_pg (pe_lookpath E name);
        ret (if e \<noteq> None then name else path) }) }"

definition rewindAuth :: "PostgresqlConfig \<Rightarrow> string \<times> string" where
  "rewindAuth conf =
     (let (user, pass) = (case pg_Auth conf of None \<Rightarrow> ([], [])
            | Some a \<Rightarrow> (case pa_Rewind a of None \<Rightarrow> ([], []) | Some r \<Rightarrow> (rw_Username r, rw_Password r)));
          (user, pass) = (case pg_Auth conf of None \<Rightarrow> (user, pass)
            | Some a \<Rightarrow> (case pa_SuperUser a of None \<Rightarrow> (user, pass)
               | Some su \<Rightarrow> (if user = [] then (or_default (su_Username su) ''postgres'', su_Password su)
                            else (user, pass))))
      in (or_default user ''postgres'', pass))"

definition BuildRewindConninfo :: "PostgresqlConfig \<Rightarrow> PrimaryRef \<Rightarrow> string" where
  "BuildRewindConninfo conf primary =
     (let (host, port) = primary_address primary; (user, pass) = rewindAuth conf
      in conninfo host port user pass)"

definition timeline_query :: string where
  "timeline_query = ''SELECT timeline_id FROM pg_control_checkpoint()''"

definition ControlTimeline :: "'w pgenv \<Rightarrow> ctx_err \<Rightarrow> ('w, 32 word res) pst" where
  "ControlTimeline E ctx = with_pg E 0 (\<lambda>db. on_pg (pe_u32 E ctx db timeline_query))"

definition PrimaryTimeline :: "'w pgenv \<Rightarrow> ctx_err \<Rightarrow> PrimaryRef \<Rightarrow> ('w, 32 word res) pst" where
  "PrimaryTimeline E ctx primary = do {
     conf \<leftarrow> gets px_conf;
     let db = BuildPrimaryConninfo conf primary;
     e \<leftarrow> on_pg (pe_open E db);
     (case e of Some err \<Rightarrow> ret (0, Some err)
      | None \<Rightarrow> do {
          e1 \<leftarrow> on_pg (pe_ping E ctx db);
          r \<leftarrow> (case e1 of Some err \<Rightarrow> ret (0, Some err)
                | None \<Rightarrow> on_pg (pe_u32 E ctx db timeline_query));
          on_pg (pe_close E db);
          ret r }) }"

definition NeedsPgRewind :: "'w pgenv \<Rightarrow> ctx_err \<Rightarrow> PrimaryRef \<Rightarrow> ('w, bool res) pst" where
  "NeedsPgRewind E ctx primary = do {
     e \<leftarrow> PingDB E ctx;
     (if e \<noteq> None then ret (True, None)
      else do {
        (inRecovery, e1) \<leftarrow> IsInRecovery E ctx;
        (case e1 of Some err \<Rightarrow> ret (False, Some err)
         | None \<Rightarrow>
            if \<not> inRecovery then ret (True, None)
            else do {
              (localTL, e2) \<leftarrow> ControlTimeline E ctx;
              (case e2 of Some err \<Rightarrow> ret (False, Some err)
               | None \<Rightarrow> do {
                   (primaryTL, e3) \<leftarrow> PrimaryTimeline E ctx primary;
                   ret (case e3 of Some err \<Rightarrow> (False, Some err)
                        | None \<Rightarrow> (localTL \<noteq> primaryTL, None)) }) }) }) }"

definition pgDataDir :: "PostgresqlConfig \<Rightarrow> string res" where
  "pgDataDir conf =
     (if pg_DataDir conf = [] then ([], Some (GoErr ''postgresql: data_dir required for pg_ctl/pg_rewind''))
      else (pg_DataDir conf, None))"

definition pgCtlStop :: "'w pgenv \<Rightarrow> ctx_err \<Rightarrow> ('w, gerror option) pst" where
  "pgCtlStop E ctx = do {
     conf \<leftarrow> gets px_conf;
     (case pgDataDir conf of (d, Some err) \<Rightarrow> ret (Some err)
      | (dataDir, None) \<Rightarrow> do {
          bin \<leftarrow> pgBin E ''pg_ctl'';
          (msg, e) \<leftarrow> on_pg (pe_command E ctx bin [''-D'', dataDir, ''stop'', ''-m'', ''fast'', ''-w'']);
          ret (case e of None \<Rightarrow> None
               | Some err \<Rightarrow>
                  (if \<not> contains msg ''not running'' \<and> \<not> contains msg ''Is server running''
                   then Some (GoErr (''pg_ctl stop: '' @ err_text err @ '': '' @ trim_space msg))
                   else None)) }) }"

definition pgCtlStart :: "'w pgenv \<Rightarrow> ctx_err \<Rightarrow> ('w, gerror option) pst" where
  "pgCtlStart E ctx = do {
     conf \<leftarrow> gets px_conf;
     (case pgDataDir conf of (d, Some err) \<Rightarrow> ret (Some err)
      | (dataDir, None) \<Rightarrow> (let
          opts = ''-c listen_addresses=127.0.0.1 -c port='' @ itoa (snd (ConnectHostPort conf));
          configFile = path_join [if pg_ConfigDir conf \<noteq> [] \<and> pg_ConfigDir conf \<noteq> dataDir
            then pg_ConfigDir conf else dataDir, ''postgresql.conf''];
          hbaFile = path_join [dataDir, ''pg_hba.conf''];
          logPath = path_join [dataDir, ''pg_ctl-rewind.log''] in do {
            e \<leftarrow> on_pg (pe_stat E configFile);
            let opts' = (if e = None then opts @ '' -c config_file='' @ configFile @ '' -c hba_file='' @ hbaFile
              else opts);
            bin \<leftarrow> pgBin E ''pg_ctl'';
            (out, e1) \<leftarrow> on_pg (pe_command E ctx bin
               [''-D'', dataDir, ''-l'', logPath, ''-o'', opts', ''start'', ''-w'', ''-t'', ''30'']);
            (case e1 of None \<Rightarrow> ret None
             | Some err \<Rightarrow> do {
                 (logTail, e2) \<leftarrow> on_pg (pe_read E logPath);
                 ret (Some (GoErr (''pg_ctl start: '' @ err_text err @ '': '' @ trim_space out @
                   '' (log: '' @ trim_space logTail @ '')''))) }) })) }"

definition RunPgRewind :: "'w pgenv \<Rightarrow> ctx_err \<Rightarrow> PrimaryRef \<Rightarrow> ('w, gerror option) pst" where
  "RunPgRewind E ctx primary = do {
     conf \<leftarrow> gets px_conf;
     (case pgDataDir conf of (d, Some err) \<Rightarrow> ret (Some err)
      | (dataDir, None) \<Rightarrow> do {
          bin \<leftarrow> pgBin E ''pg_rewind'';
          (out, e) \<leftarrow> on_pg (pe_command E ctx bin [''--target-pgdata='' @ dataDir,
             ''--source-server='' @ BuildRewindConninfo conf primary, ''--no-sync'']);
          ret (case e of None \<Rightarrow> None
               | Some err \<Rightarrow> Some (GoErr (''pg_rewind: '' @ err_text err @ '': '' @ trim_space out))) }) }"

definition ensureStandbySignal :: "'w pgenv \<Rightarrow> string \<Rightarrow> ('w, gerror option) pst" where
  "ensureStandbySignal E dataDir = (let path = path_join [dataDir, ''standby.signal''] in do {
     e \<leftarrow> on_pg (pe_stat E path);
     (if e = None then ret None else on_pg (pe_create E path)) })"

definition MaybePgRewind :: "'w pgenv \<Rightarrow> ctx_err \<Rightarrow> PrimaryRef \<Rightarrow> ('w, gerror option) pst" where
  "MaybePgRewind E ctx primary = do {
     conf \<leftarrow> gets px_conf;
     (if \<not> pg_UsePGRewind conf then ret None
      else do {
        (needs, e) \<leftarrow> NeedsPgRewind E ctx primary;
        (case e of Some err \<Rightarrow> ret (Some err)
         | None \<Rightarrow>
           if \<not> needs then ret None
           else if pg_DataDir conf = [] then
             ret (Some (GoErr ''postgresql: use_pg_rewind set but data_dir is empty''))
           else do {
             e1 \<leftarrow> on_pg (pe_stat E (path_join [pg_DataDir conf, ''PG_VERSION'']));
             (case e1 of Some err \<Rightarrow> ret (Some (GoErr
                  (''postgresql: pg_rewind requires initialized data_dir: '' @ err_text err)))
              | None \<Rightarrow> do {
                  pg_Close E;
                  or_err (pgCtlStop E ctx)
                    (or_err (RunPgRewind E ctx primary)
                      (or_err (ensureStandbySignal E (pg_DataDir conf))
                        (or_err (pgCtlStart E ctx)
                          (WaitReady E ctx 120)))) }) }) }) }"

definition restartIntoRecovery :: "'w pgenv \<Rightarrow> ctx_err \<Rightarrow> ('w, gerror option) pst" where
  "restartIntoRecovery E ctx = do {
     pg_Close E;
     or_err (pgCtlStop E ctx)
       (or_err (pgCtlStart E ctx)
         (or_err (WaitReady E ctx 60) (do {
           (inRecovery, e) \<leftarrow> IsInRecovery E ctx;
           ret (case e of Some err \<Rightarrow> Some err
                | None \<Rightarrow>
                   (if \<not> inRecovery
                    then Some (GoErr ''postgresql: instance not in recovery after restart'') else None)) }))) }"

definition ApplyStreamingReplica ::
    "'w pgenv \<Rightarrow> ctx_err \<Rightarrow> PrimaryRef \<Rightarrow> string \<Rightarrow> bool \<Rightarrow> ('w, gerror option) pst" where
  "ApplyStreamingReplica E ctx primary member useSlots = do {
     conf \<leftarrow> gets px_conf;
     let info = BuildPrimaryConninfo conf primary;
     let slotName = primarySlotName conf member;
     or_err (if useSlots then EnsurePhysicalSlotOnPrimary E ctx primary slotName else ret None)
      (or_err (SetRecoveryPrimaryConninfo E ctx info)
       (or_err (if useSlots then SetRecoveryPrimarySlotName E ctx slotName else ret None)
        (or_err (ReloadConf E ctx) (do {
           (inRecovery, e) \<leftarrow> IsInRecovery E ctx;
           (case e of Some err \<Rightarrow> ret (Some err)
            | None \<Rightarrow> if \<not> inRecovery then restartIntoRecovery E ctx else ret None) })))) }"

end
