(* ===== verification/PgDriver.thy ===== *)
theory PgDriver
  imports Postgres
begin

section \<open>The PostgreSQL driver (internal/database/postgresql/driver.go)\<close>

text \<open>
  The driver interface on a PostgreSQL instance. Its own record of whether the instance accepts
  writes is the field \<open>writable\<close>, which only the statements it sent change. The driver keeps the
  fencing half of the contract; its \<open>Status\<close> says nothing of the record when the server does not
  answer, and calls a read-only server primary, so the other half does not hold of it.
\<close>

definition pg_Start :: "('w, unit) pst" where
  "pg_Start = ret ()"

definition pg_Stop :: "'w pgenv \<Rightarrow> ('w, unit) pst" where
  "pg_Stop E = pg_Close E"

definition pg_SetupBootstrap :: "'w pgenv \<Rightarrow> ctx_err \<Rightarrow> ('w, gerror option) pst" where
  "pg_SetupBootstrap E ctx = or_err (WaitReady E ctx 60) (SetDefaultReadOnly E ctx True)"

definition pg_isWritable :: "('w, bool) pst" where
  "pg_isWritable = gets px_writable"

definition pg_Promotable :: "'w pgenv \<Rightarrow> ctx_err \<Rightarrow> ('w, bool \<times> string) pst" where
  "pg_Promotable E ctx = ctx_guard ctx (\<lambda>err. (False, err_text err)) (do {
     conf \<leftarrow> gets px_conf;
     e \<leftarrow> PingDB E ctx;
     (if e \<noteq> None then ret (False, ''postgresql.not.alive'')
      else do {
        (inRecovery, e1) \<leftarrow> IsInRecovery E ctx;
        (case e1 of Some err \<Rightarrow> ret (False, err_text err)
         | None \<Rightarrow>
           if inRecovery then
             (if pg_MaximumLagOnFailover conf > 0 then do {
                (lag, e2) \<leftarrow> pg_ReplicationLagBytes E ctx;
                ret (case e2 of Some err \<Rightarrow> (False, err_text err)
                     | None \<Rightarrow> (if lag > pg_MaximumLagOnFailover conf
                               then (False, ''postgresql.lag.too.high'') else (True, []))) }
              else ret (True, []))
           else do {
             writable \<leftarrow> pg_isWritable;
             ret (if writable then (True, []) else (False, ''postgresql.already.primary.readonly'')) }) }) })"

definition pg_Driver_ReplicationLagBytes :: "'w pgenv \<Rightarrow> ctx_err \<Rightarrow> ('w, int res) pst" where
  "pg_Driver_ReplicationLagBytes E ctx = ctx_guard ctx (\<lambda>err. (0, Some err)) (pg_ReplicationLagBytes E ctx)"

definition pg_ApplyPrimary :: "'w pgenv \<Rightarrow> ctx_err \<Rightarrow> ('w, gerror option) pst" where
  "pg_ApplyPrimary E ctx = ctx_guard ctx Some (do {
     (inRecovery, e) \<leftarrow> IsInRecovery E ctx;
     (case e of Some err \<Rightarrow> ret (Some err)
      | None \<Rightarrow> if inRecovery then Promote E ctx else SetDefaultReadOnly E ctx False) })"

definition pg_ApplyReplica :: "'w pgenv \<Rightarrow> ctx_err \<Rightarrow> PrimaryRef \<Rightarrow> ('w, gerror option) pst" where
  "pg_ApplyReplica E ctx primary = ctx_guard ctx Some (do {
     conf \<leftarrow> gets px_conf;
     (if pr_Host primary = [] \<and> MemberID primary = [] then
        ret (Some (GoErr ''postgresql.ApplyReplica: primary endpoint required''))
      else or_err (if pg_UsePGRewind conf then MaybePgRewind E ctx primary else ret None)
        (or_err (SetDefaultReadOnly E ctx True)
          (let useSlots = (pg_UseSlots conf \<or> pg_PrimarySlotName conf \<noteq> [])
           in ApplyStreamingReplica E ctx primary (MemberID primary) useSlots))) })"

definition pg_Demote :: "'w pgenv \<Rightarrow> ctx_err \<Rightarrow> ('w, gerror option) pst" where
  "pg_Demote E ctx = ctx_guard ctx Some (SetDefaultReadOnly E ctx True)"

definition pg_Status :: "'w pgenv \<Rightarrow> ctx_err \<Rightarrow> ('w, Health res) pst" where
  "pg_Status E ctx = ctx_guard ctx (\<lambda>err. (zero_Health, Some err)) (do {
     e \<leftarrow> PingDB E ctx;
     (case e of
        Some err \<Rightarrow> ret (zero_Health\<lparr>LastError := err_text err\<rparr>, None)
      | None \<Rightarrow> do {
          (inRecovery, e1) \<leftarrow> IsInRecovery E ctx;
          (case e1 of Some err \<Rightarrow> ret (zero_Health, Some err)
           | None \<Rightarrow> do {
               writable \<leftarrow> pg_isWritable;
               ret (\<lparr>Alive = True, Writable = (writable \<and> \<not> inRecovery),
                     HealthRole = (if inRecovery then RoleReplica else RolePrimary), LastError = []\<rparr>,
                    None) }) }) })"

definition pg_driver_ops :: "'w pgenv \<Rightarrow> 'w pgsql driver_ops" where
  "pg_driver_ops E = \<lparr>EngineType = EnginePostgreSQL, Promotable = pg_Promotable E,
     ReplicationLagBytes = pg_Driver_ReplicationLagBytes E, ApplyPrimary = pg_ApplyPrimary E,
     ApplyReplica = pg_ApplyReplica E, Demote = pg_Demote E, Status = pg_Status E,
     SetupBootstrap = pg_SetupBootstrap E, MGRLifecycle = None\<rparr>"


subsection \<open>Which methods keep the record\<close>

lemma pg_keeps_db [intro!]: "state_io_rel (keeps px_writable) (on_pg k)"
  by (simp add: state_io_rel_def keeps_def)

lemma getDB_keeps [intro!]: "state_io_rel (keeps px_writable) (pg_getDB E)"
  unfolding pg_getDB_def Let_def
  by (auto intro!: keeps.eff_bind keeps.eff_modify split: option.split simp: keeps_def)

lemma with_pg_keeps [intro!]:
  "(\<And>d. state_io_rel (keeps px_writable) (k d)) \<Longrightarrow> state_io_rel (keeps px_writable) (with_pg E z k)"
  "(\<And>d. state_io_rel (keeps px_writable) (h d)) \<Longrightarrow> state_io_rel (keeps px_writable) (with_pg_err E h)"
  unfolding with_pg_def with_pg_err_def by (auto intro!: keeps.eff_bind split: option.split)

lemma queries_keep [intro!]:
  "state_io_rel (keeps px_writable) (PingDB E ctx)"
  "state_io_rel (keeps px_writable) (IsInRecovery E ctx)"
  "state_io_rel (keeps px_writable) (ControlTimeline E ctx)"
  "state_io_rel (keeps px_writable) (ReloadConf E ctx)"
  "state_io_rel (keeps px_writable) (SetRecoveryPrimaryConninfo E ctx info)"
  "state_io_rel (keeps px_writable) (SetRecoveryPrimarySlotName E ctx slot)"
  unfolding PingDB_def IsInRecovery_def ControlTimeline_def ReloadConf_def SetRecoveryPrimaryConninfo_def
    SetRecoveryPrimarySlotName_def by auto

lemma waiting_keeps [intro!]: "state_io_rel (keeps px_writable) (WaitReady E ctx n)"
proof (induction n)
  case 0
  show ?case
    by (subst WaitReady.simps, unfold setAlive_def)
       (auto intro!: keeps.eff_bind keeps.eff_modify split: option.split simp: keeps_def)
next
  case (Suc n)
  then show ?case
    by (subst WaitReady.simps, unfold setAlive_def)
       (auto intro!: keeps.eff_bind keeps.eff_modify split: option.split simp: keeps_def)
qed

lemma close_keeps [intro!]: "state_io_rel (keeps px_writable) (pg_Close E)"
  unfolding pg_Close_def by (auto intro!: keeps.eff_bind keeps.eff_modify split: option.split simp: keeps_def)

lemma commands_keep [intro!]:
  "state_io_rel (keeps px_writable) (pgBin E name)"
  "state_io_rel (keeps px_writable) (pgCtlStop E ctx)"
  "state_io_rel (keeps px_writable) (pgCtlStart E ctx)"
  "state_io_rel (keeps px_writable) (RunPgRewind E ctx primary)"
  "state_io_rel (keeps px_writable) (ensureStandbySignal E dir)"
proof -
  show 1: "state_io_rel (keeps px_writable) (pgBin E name)" for name :: string
    unfolding pgBin_def by (auto intro!: keeps.eff_bind)
  show "state_io_rel (keeps px_writable) (pgCtlStop E ctx)"
    "state_io_rel (keeps px_writable) (pgCtlStart E ctx)"
    "state_io_rel (keeps px_writable) (RunPgRewind E ctx primary)"
    "state_io_rel (keeps px_writable) (ensureStandbySignal E dir)"
    unfolding pgCtlStop_def pgCtlStart_def RunPgRewind_def ensureStandbySignal_def Let_def
    by (auto intro!: keeps.eff_bind 1 split: option.split prod.split)
qed

lemma lag_keeps [intro!]: "state_io_rel (keeps px_writable) (pg_ReplicationLagBytes E ctx)"
  unfolding pg_ReplicationLagBytes_def by (auto intro!: keeps.eff_bind split: option.split)

lemma remote_keeps [intro!]:
  "state_io_rel (keeps px_writable) (EnsurePhysicalSlotOnPrimary E ctx primary slot)"
  "state_io_rel (keeps px_writable) (PrimaryTimeline E ctx primary)"
  unfolding EnsurePhysicalSlotOnPrimary_def PrimaryTimeline_def Let_def
  by (auto intro!: keeps.eff_bind keeps.eff_or_err split: option.split)

lemma rewind_keeps [intro!]:
  "state_io_rel (keeps px_writable) (NeedsPgRewind E ctx primary)"
  "state_io_rel (keeps px_writable) (MaybePgRewind E ctx primary)"
  "state_io_rel (keeps px_writable) (restartIntoRecovery E ctx)"
  "state_io_rel (keeps px_writable) (ApplyStreamingReplica E ctx primary member slots)"
proof -
  show 1: "state_io_rel (keeps px_writable) (NeedsPgRewind E ctx primary)"
    unfolding NeedsPgRewind_def by (auto intro!: keeps.eff_bind split: option.split)
  show "state_io_rel (keeps px_writable) (MaybePgRewind E ctx primary)"
    unfolding MaybePgRewind_def by (auto intro!: keeps.eff_bind keeps.eff_or_err 1 split: option.split)
  show 2: "state_io_rel (keeps px_writable) (restartIntoRecovery E ctx)"
    unfolding restartIntoRecovery_def by (auto intro!: keeps.eff_bind keeps.eff_or_err split: option.split)
  show "state_io_rel (keeps px_writable) (ApplyStreamingReplica E ctx primary member slots)"
    unfolding ApplyStreamingReplica_def Let_def
    by (auto intro!: keeps.eff_bind keeps.eff_or_err 2 split: option.split)
qed

lemma pg_questions [intro!]:
  "state_io_rel (keeps px_writable) (pg_Promotable E ctx)"
  "state_io_rel (keeps px_writable) (pg_Status E ctx)"
  unfolding pg_Promotable_def pg_Status_def pg_isWritable_def
  by (cases ctx; auto intro!: keeps.eff_bind split: option.split)+


subsection \<open>The fencing half of the contract\<close>

lemma with_pg_err_run:
  "run_state (with_pg_err E k) p = (case snd (val_of (pg_getDB E) p) of
      Some err \<Rightarrow> (Some err, exec_of (pg_getDB E) p)
    | None \<Rightarrow> run_state (k (fst (val_of (pg_getDB E) p))) (exec_of (pg_getDB E) p))"
  by (simp add: with_pg_err_def case_prod_beta split: option.split)

lemma getDB_writable [simp]: "px_writable (exec_of (pg_getDB E) p) = px_writable p"
  by (rule keeps_run [OF getDB_keeps])

text \<open>The record after a change of the session default: what was asked for, if it succeeded.\<close>

lemma SetDefaultReadOnly_writable:
  "px_writable (exec_of (SetDefaultReadOnly E ctx ro) p) =
     (if val_of (SetDefaultReadOnly E ctx ro) p = None then \<not> ro else px_writable p)"
  by (simp add: SetDefaultReadOnly_def with_pg_err_run case_prod_beta whenM_def split: option.split)

definition no_pg_opening :: "'w pgsql \<Rightarrow> 'w pgsql \<Rightarrow> bool" where
  "no_pg_opening p q \<longleftrightarrow> (px_writable q \<longrightarrow> px_writable p)"

interpretation no_pg_opening: effect_rel no_pg_opening
  by unfold_locales (auto simp: no_pg_opening_def)

lemma keeps_no_pg_opening: "state_io_rel (keeps px_writable) k \<Longrightarrow> state_io_rel no_pg_opening k"
  by (simp add: state_io_rel_def keeps_def no_pg_opening_def)

lemma readonly_no_pg_opening: "state_io_rel no_pg_opening (SetDefaultReadOnly E ctx True)"
  by (auto simp: state_io_rel_def no_pg_opening_def SetDefaultReadOnly_writable split: if_splits)

lemma replica_no_pg_opening: "state_io_rel no_pg_opening (pg_ApplyReplica E ctx primary)"
  unfolding pg_ApplyReplica_def ctx_guard_def Let_def
  by (auto intro!: no_pg_opening.eff_bind no_pg_opening.eff_or_err readonly_no_pg_opening
      intro: keeps_no_pg_opening split: option.split)

lemma pg_driver_sel [simp]:
  "Status (pg_driver_ops E) = pg_Status E" "Promotable (pg_driver_ops E) = pg_Promotable E"
  "Demote (pg_driver_ops E) = pg_Demote E" "ApplyReplica (pg_driver_ops E) = pg_ApplyReplica E"
  "ApplyPrimary (pg_driver_ops E) = pg_ApplyPrimary E" "MGRLifecycle (pg_driver_ops E) = None"
  by (simp_all add: pg_driver_ops_def)

interpretation pg_driver: driver_fence "pg_driver_ops E" px_writable for E :: "'w pgenv"
proof unfold_locales
  fix ctx and d :: "'w pgsql"
  show "px_writable (exec_of (Status (pg_driver_ops E) ctx) d) = px_writable d"
    "px_writable (exec_of (Promotable (pg_driver_ops E) ctx) d) = px_writable d"
    by (simp_all add: keeps_run [OF pg_questions(1)] keeps_run [OF pg_questions(2)])
  show "\<not> px_writable (exec_of (Demote (pg_driver_ops E) ctx) d)"
    if "val_of (Demote (pg_driver_ops E) ctx) d = None"
    using that by (cases ctx) (auto simp: pg_Demote_def SetDefaultReadOnly_writable)
  show "px_writable d" if "px_writable (exec_of (Demote (pg_driver_ops E) ctx) d)"
    using that by (cases ctx) (auto simp: pg_Demote_def SetDefaultReadOnly_writable split: if_splits)
next
  fix ctx p and d :: "'w pgsql"
  assume "px_writable (exec_of (ApplyReplica (pg_driver_ops E) ctx p) d)"
  then show "px_writable d"
    using no_pg_opening.eff_run [OF replica_no_pg_opening] by (auto simp: no_pg_opening_def)
qed simp_all


subsection \<open>What a replica set-up establishes\<close>

lemma or_err_done:
  assumes "val_of (or_err m k) s = None"
  shows "val_of m s = None" "val_of k (exec_of m s) = None" "exec_of (or_err m k) s = exec_of k (exec_of m s)"
  using assms by (auto simp: run_or_err split: option.splits)

lemma or_err_last:
  assumes "val_of (or_err m k) s = None" "\<And>q. val_of k q = None \<Longrightarrow> P (exec_of k q)"
  shows "P (exec_of (or_err m k) s)"
  using or_err_done [OF assms(1)] assms(2) by simp

text \<open>The last thing the method did was to ask whether the server is in recovery, and it was.\<close>

definition saw_recovery :: "'w pgenv \<Rightarrow> ctx_err \<Rightarrow> 'w pgsql \<Rightarrow> bool" where
  "saw_recovery E ctx q \<longleftrightarrow> (\<exists>p. run_state (IsInRecovery E ctx) p = ((True, None), q))"

lemma restart_saw_recovery:
  assumes "val_of (restartIntoRecovery E ctx) p = None"
  shows "saw_recovery E ctx (exec_of (restartIntoRecovery E ctx) p)"
proof -
  let ?ask = "do {
     (inRecovery, e) \<leftarrow> IsInRecovery E ctx;
     ret (case e of Some err \<Rightarrow> Some err
          | None \<Rightarrow> (if \<not> inRecovery
              then Some (GoErr ''postgresql: instance not in recovery after restart'') else None)) }"
  have ask: "saw_recovery E ctx (exec_of ?ask q)" if "val_of ?ask q = None" for q
    using that unfolding saw_recovery_def
    by (intro exI [of _ q]) (auto simp: case_prod_beta prod_eq_iff split: option.splits if_splits)
  show ?thesis
    using assms unfolding restartIntoRecovery_def run_bind_proj
    by (elim or_err_last [where P = "saw_recovery E ctx"] ask)
qed

lemma streaming_saw_recovery:
  assumes "val_of (ApplyStreamingReplica E ctx primary member slots) p = None"
  shows "saw_recovery E ctx (exec_of (ApplyStreamingReplica E ctx primary member slots) p)"
proof -
  let ?ask = "do {
     (inRecovery, e) \<leftarrow> IsInRecovery E ctx;
     (case e of Some err \<Rightarrow> ret (Some err)
      | None \<Rightarrow> if \<not> inRecovery then restartIntoRecovery E ctx else ret None) }"
  have ask: "saw_recovery E ctx (exec_of ?ask q)" if "val_of ?ask q = None" for q
  proof -
    obtain b e q' where r: "run_state (IsInRecovery E ctx) q = ((b, e), q')"
      by (metis prod.exhaust)
    show ?thesis
    proof (cases "e = None \<and> b")
      case True
      then show ?thesis using r by (auto simp: saw_recovery_def)
    next
      case False
      then show ?thesis using that r restart_saw_recovery by (auto split: option.splits)
    qed
  qed
  show ?thesis
    using assms unfolding ApplyStreamingReplica_def Let_def run_bind_proj
    by (elim or_err_last [where P = "saw_recovery E ctx"] ask)
qed

text \<open>
  C15. When a PostgreSQL node is told to become a replica and the call
  succeeds, the last answer of its server was that it is in recovery, a restart included when it
  was needed, and the driver no longer records the node as writable.
\<close>

theorem pg_replica_in_recovery:
  assumes "val_of (pg_ApplyReplica E ctx primary) p = None"
  shows "saw_recovery E ctx (exec_of (pg_ApplyReplica E ctx primary) p) \<and>
    \<not> px_writable (exec_of (pg_ApplyReplica E ctx primary) p)"
proof -
  have [simp]: "ctx = None"
    using assms by (cases ctx) (auto simp: pg_ApplyReplica_def)
  let ?rewind = "if pg_UsePGRewind (px_conf p) then MaybePgRewind E ctx primary else ret None"
  let ?slots = "pg_UseSlots (px_conf p) \<or> pg_PrimarySlotName (px_conf p) \<noteq> []"
  let ?follow = "ApplyStreamingReplica E ctx primary (MemberID primary) ?slots"
  have run: "run_state (pg_ApplyReplica E ctx primary) p =
      run_state (or_err ?rewind (or_err (SetDefaultReadOnly E ctx True) ?follow)) p"
    using assms by (auto simp: pg_ApplyReplica_def Let_def split: if_splits)
  define q where "q = exec_of ?rewind p"
  define q' where "q' = exec_of (SetDefaultReadOnly E ctx True) q"
  note d1 = or_err_done [OF assms [unfolded run], folded q_def]
  note d2 = or_err_done [OF d1(2), folded q'_def]
  have "\<not> px_writable q'"
    using d2(1) by (simp add: q'_def SetDefaultReadOnly_writable)
  then have "\<not> px_writable (exec_of ?follow q')"
    using keeps_run [OF rewind_keeps(4)] by metis
  moreover have "saw_recovery E ctx (exec_of ?follow q')"
    by (rule streaming_saw_recovery [OF d2(2)])
  ultimately show ?thesis
    unfolding run d1(3) d2(3) by blast
qed

text \<open>A server that answers every call, in recovery or not.\<close>

definition pg_answers :: "bool \<Rightarrow> nat pgenv" where
  "pg_answers inRecovery = \<lparr>pe_open = (\<lambda>d. ret None), pe_close = (\<lambda>d. ret ()), pe_ping = (\<lambda>ctx d. ret None),
     pe_exec = (\<lambda>ctx d q args. ret None), pe_bool = (\<lambda>ctx d q args. ret (inRecovery, None)),
     pe_nullint = (\<lambda>ctx d q. ret (None, None)), pe_u32 = (\<lambda>ctx d q. ret (1, None)),
     pe_tick = ret None, pe_command = (\<lambda>ctx c args. ret ([], None)), pe_lookpath = (\<lambda>n. ret (n, None)),
     pe_stat = (\<lambda>f. ret None), pe_create = (\<lambda>f. ret None), pe_read = (\<lambda>f. ret ([], None))\<rparr>"

theorem pg_replica_in_recovery_witness:
  "saw_recovery (pg_answers True) None (exec_of (pg_ApplyReplica (pg_answers True) None
     \<lparr>MemberID = ''m'', pr_Host = ''h'', pr_Port = 5432\<rparr>) (NewPostgresql DefaultPostgresqlConfig 0))"
proof -
  have "val_of (pg_ApplyReplica (pg_answers True) None \<lparr>MemberID = ''m'', pr_Host = ''h'', pr_Port = 5432\<rparr>)
      (NewPostgresql DefaultPostgresqlConfig 0) = None"
    by (simp add: pg_ApplyReplica_def SetDefaultReadOnly_def ApplyStreamingReplica_def run_or_err
        with_pg_err_run with_pg_def pg_getDB_def pg_answers_def NewPostgresql_def DefaultPostgresqlConfig_def
        SetRecoveryPrimaryConninfo_def ReloadConf_def IsInRecovery_def Let_def case_prod_beta whenM_def)
  then show ?thesis using pg_replica_in_recovery by blast
qed


subsection \<open>Slots and the standby signal\<close>

text \<open>
  Without a configured slot name the slot is named after the primary, not after the replica: all
  replicas of one primary ask for the same slot.
\<close>

lemma slot_of_the_primary:
  assumes "pg_PrimarySlotName conf = []" "MemberID primary \<noteq> []"
  shows "primarySlotName conf (MemberID primary) = MemberID primary"
  using assms by (simp add: primarySlotName_def or_default_def)

text \<open>
  Without \<open>pg_rewind\<close> the method never creates the file that makes a restarted server a standby:
  its run does not depend on how files are created.
\<close>

lemma getDB_create [simp]: "pg_getDB (E\<lparr>pe_create := x\<rparr>) = pg_getDB E"
  by (simp add: pg_getDB_def cong: option.case_cong)

lemma with_pg_create [simp]: "with_pg (E\<lparr>pe_create := x\<rparr>) = with_pg E" "with_pg_err (E\<lparr>pe_create := x\<rparr>) = with_pg_err E"
  by (simp_all add: with_pg_def with_pg_err_def fun_eq_iff cong: option.case_cong)

lemma WaitReady_create [simp]: "WaitReady (E\<lparr>pe_create := x\<rparr>) ctx n = WaitReady E ctx n"
proof (induction n)
  case 0
  show ?case by (subst (1 2) WaitReady.simps) (simp add: PingDB_def)
next
  case (Suc n)
  then show ?case by (subst (1 2) WaitReady.simps) (simp add: PingDB_def cong: if_cong option.case_cong)
qed

lemma signal_only_by_rewind:
  assumes "\<not> pg_UsePGRewind (px_conf p)"
  shows "run_state (pg_ApplyReplica (E\<lparr>pe_create := x\<rparr>) ctx primary) p = run_state (pg_ApplyReplica E ctx primary) p"
proof -
  have "IsInRecovery (E\<lparr>pe_create := x\<rparr>) ctx = IsInRecovery E ctx"
    "SetDefaultReadOnly (E\<lparr>pe_create := x\<rparr>) ctx = SetDefaultReadOnly E ctx"
    "EnsurePhysicalSlotOnPrimary (E\<lparr>pe_create := x\<rparr>) = EnsurePhysicalSlotOnPrimary E"
    "pg_Close (E\<lparr>pe_create := x\<rparr>) = pg_Close E" "pgBin (E\<lparr>pe_create := x\<rparr>) = pgBin E"
    by (simp_all add: IsInRecovery_def SetDefaultReadOnly_def EnsurePhysicalSlotOnPrimary_def pg_Close_def
        pgBin_def fun_eq_iff cong: option.case_cong if_cong)
  then have "ApplyStreamingReplica (E\<lparr>pe_create := x\<rparr>) ctx = ApplyStreamingReplica E ctx"
    "SetDefaultReadOnly (E\<lparr>pe_create := x\<rparr>) ctx = SetDefaultReadOnly E ctx"
    by (simp_all add: ApplyStreamingReplica_def restartIntoRecovery_def pgCtlStop_def pgCtlStart_def
        SetRecoveryPrimaryConninfo_def SetRecoveryPrimarySlotName_def ReloadConf_def fun_eq_iff cong: option.case_cong if_cong)
  then show ?thesis using assms by (cases ctx) (simp_all add: pg_ApplyReplica_def cong: if_cong)
qed

end
