(* ===== verification/Etcd.thy ===== *)
theory Etcd
  imports Coordination Config Ha
begin

section \<open>The etcd coordinator (internal/coordination/etcd)\<close>

text \<open>
  The second implementation of the coordinator interface: a leader key that carries a lease.
  The etcd client is not part of the repository: \<open>etcd_ops\<close> is the record of the operations the
  code calls, over a world \<open>'w\<close>, with a transaction as data. Locks are not modelled, a method is
  one step on the fields; \<open>tryAcquireLeader\<close> is split where other nodes can come in between, and
  EtcdLease interleaves its parts. \<open>go KeepAlive\<close> is the operation that starts the background
  renewal. JSON is a codec argument. A nil configuration under a method that reads it is
  \<open>the None\<close>; \<open>Start\<close> never opens a client on one.
\<close>

subsection \<open>Keys and settings (keys.go)\<close>

definition clusterPrefix :: "Config \<Rightarrow> string" where
  "clusterPrefix conf =
     (let ns = (if NameSpace conf = [] then ''/service/'' else NameSpace conf);
          ns = (if has_suffix ns ''/'' then ns else ns @ ''/'');
          scope = (if Scope conf = [] then ''database'' else Scope conf)
      in ns @ scope)"

definition leaderKey :: "Config \<Rightarrow> string" where
  "leaderKey conf = clusterPrefix conf @ ''/leader''"

definition memberKey :: "Config \<Rightarrow> string \<Rightarrow> string" where
  "memberKey conf name = clusterPrefix conf @ ''/members/'' @ name"

definition memberPrefix :: "Config \<Rightarrow> string" where
  "memberPrefix conf = clusterPrefix conf @ ''/members/''"

definition etcdEndpoints :: "Config option \<Rightarrow> string list" where
  "etcdEndpoints conf = (case co_Etcd (EffectiveCoordination conf) of
       None \<Rightarrow> []
     | Some ec \<Rightarrow> (if ec_Hosts ec \<noteq> [] then ec_Hosts ec
                   else if ec_Host ec \<noteq> [] then [ec_Host ec] else []))"

definition bootstrapTTL :: "Config \<Rightarrow> int option" where
  "bootstrapTTL conf = (case Bootstrap conf of None \<Rightarrow> None
     | Some b \<Rightarrow> (case BootstrapPostgresql b of None \<Rightarrow> None
       | Some pg \<Rightarrow> map_option dcs_TTL (DcsConf pg)))"

definition leaseTTL :: "Config \<Rightarrow> int" where
  "leaseTTL conf =
     (let boot = (case bootstrapTTL conf of Some t \<Rightarrow> (if t > 0 then t else 30) | None \<Rightarrow> 30) in
      case co_Etcd (EffectiveCoordination (Some conf)) of
        Some ec \<Rightarrow> (if ec_TTL ec > 0 then ec_TTL ec else boot)
      | None \<Rightarrow> boot)"


subsection \<open>The client\<close>

datatype etcd_cmp = CreateRevisionEq string int

datatype etcd_op = OpPut string string int | OpGet string

type_synonym kvs = "(string \<times> string) list"

text \<open>A transaction's response: \<open>Succeeded\<close>, and what \<open>GetResponseRange\<close> gives for each operation.\<close>

type_synonym txn_resp = "bool \<times> kvs option list"

record 'w etcd_ops =
  et_New :: "string list \<Rightarrow> ('w, gerror option) state"
  et_Close :: "('w, gerror option) state"
  et_Get :: "ctx_err \<Rightarrow> string \<Rightarrow> ('w, kvs res) state"
  et_GetPrefix :: "ctx_err \<Rightarrow> string \<Rightarrow> ('w, kvs res) state"
  et_Put :: "ctx_err \<Rightarrow> string \<Rightarrow> string \<Rightarrow> ('w, gerror option) state"
  et_Delete :: "ctx_err \<Rightarrow> string \<Rightarrow> ('w, gerror option) state"
  et_Grant :: "ctx_err \<Rightarrow> int \<Rightarrow> ('w, int res) state"
  et_KeepAliveOnce :: "ctx_err \<Rightarrow> int \<Rightarrow> ('w, gerror option) state"
  et_KeepAlive :: "ctx_err \<Rightarrow> int \<Rightarrow> ('w, unit) state"
  et_Txn :: "ctx_err \<Rightarrow> etcd_cmp list \<Rightarrow> etcd_op list \<Rightarrow> etcd_op list \<Rightarrow> ('w, txn_resp res) state"


subsection \<open>State\<close>

record 'w etcdc =
  e_world :: 'w
  e_conf :: "Config option"
  e_localID :: string
  e_memberName :: string
  e_dbType :: string
  e_client :: bool
  e_leaseID :: int
  e_isLeader :: bool
  e_leaderID :: string
  e_cancel :: bool
  e_cancelled :: bool

record memberRecord =
  mr_ID :: string
  mr_Name :: string
  mr_Database :: string
  mr_DBHost :: string
  mr_DBPort :: int

record member_codec =
  jEncode :: "memberRecord \<Rightarrow> string res"
  jDecode :: "string \<Rightarrow> memberRecord option"

type_synonym ('w, 'a) est = "('w etcdc, 'a) state"

definition on_etcd :: "('w, 'a) state \<Rightarrow> ('w, 'a) est" where
  "on_etcd k = zoom e_world (\<lambda>w c. c\<lparr>e_world := w\<rparr>) k"

definition zero_etcdc :: "'w \<Rightarrow> 'w etcdc" where
  "zero_etcdc w = \<lparr>e_world = w, e_conf = None, e_localID = [], e_memberName = [], e_dbType = [],
     e_client = False, e_leaseID = 0, e_isLeader = False, e_leaderID = [], e_cancel = False,
     e_cancelled = False\<rparr>"

text \<open>\<open>None\<close>: a configuration without a database section is dereferenced.\<close>

definition etcd_New :: "Config option \<Rightarrow> 'w \<Rightarrow> 'w etcdc option" where
  "etcd_New conf w = (case conf of
       None \<Rightarrow> Some (zero_etcdc w)
     | Some cf \<Rightarrow> (case Database cf of
         None \<Rightarrow> None
       | Some db \<Rightarrow> Some ((zero_etcdc w)\<lparr>e_conf := Some cf, e_localID := Endpoint cf,
            e_memberName := cf_Name cf,
            e_dbType := (if Type db = [] then ''mysql'' else Type db)\<rparr>)))"


subsection \<open>Members (member.go)\<close>

definition etcd_splitHostPort :: "string \<Rightarrow> string \<Rightarrow> string \<times> string" where
  "etcd_splitHostPort addr defaultPort =
     (if addr = [] then (''127.0.0.1'', defaultPort)
      else (case SplitHostPort addr of
          None \<Rightarrow> (addr, defaultPort)
        | Some (host, port) \<Rightarrow> (host, if port = [] then defaultPort else port)))"

definition parseEndpoints :: "string \<Rightarrow> string list \<Rightarrow> string list" where
  "parseEndpoints host hosts =
     (if hosts \<noteq> [] then hosts
      else if host = [] then []
      else if contains host '','' then split_on CHR '','' host
      else [host])"

definition memberDatabaseEndpoint :: "'w etcdc \<Rightarrow> string \<times> int" where
  "memberDatabaseEndpoint c = (case e_conf c of
       None \<Rightarrow> ([], 0)
     | Some cf \<Rightarrow> (case Database cf of
         None \<Rightarrow> ([], 0)
       | Some db \<Rightarrow>
          (if e_dbType c = ''postgresql'' \<or> e_dbType c = ''postgres''
           then (case db_Postgresql db of
               None \<Rightarrow> ([], 0)
             | Some pg \<Rightarrow> (let (host, portStr) = etcd_splitHostPort (pg_ConnectAddress pg) ''5432''
                           in (host, fst (atoi portStr))))
           else (case db_Mysql db of
               None \<Rightarrow> ([], 0)
             | Some my \<Rightarrow> (if mc_ReplHost my = [] then mc_Host my else mc_ReplHost my, mc_Port my)))))"

text \<open>A Go map read: the zero value when the key is missing.\<close>

definition meta_get :: "(string \<times> string) list \<Rightarrow> string \<Rightarrow> string" where
  "meta_get m k = (case map_of m k of Some v \<Rightarrow> v | None \<Rightarrow> [])"

fun leaderDatabaseEndpoint :: "Member list \<Rightarrow> string \<Rightarrow> DatabaseEndpoint" where
  "leaderDatabaseEndpoint [] leader = \<lparr>ep_Host = [], ep_Port = 0\<rparr>"
| "leaderDatabaseEndpoint (m # ms) leader =
     (if ID m \<noteq> leader \<and> mb_Name m \<noteq> leader then leaderDatabaseEndpoint ms leader
      else (let host = meta_get (mb_Meta m) ''db_host'';
                port = fst (atoi (meta_get (mb_Meta m) ''db_port'')) in
        if host \<noteq> [] \<and> port > 0 then \<lparr>ep_Host = host, ep_Port = port\<rparr>
        else leaderDatabaseEndpoint ms leader))"

definition put_record :: "'w etcd_ops \<Rightarrow> member_codec \<Rightarrow> ctx_err \<Rightarrow> string \<Rightarrow> memberRecord \<Rightarrow>
    ('w, gerror option) est" where
  "put_record E J ctx key mrec = (case jEncode J mrec of
       (data, Some err) \<Rightarrow> ret (Some err)
     | (data, None) \<Rightarrow> on_etcd (et_Put E ctx key data))"

definition registerMember :: "'w etcd_ops \<Rightarrow> member_codec \<Rightarrow> ctx_err \<Rightarrow> ('w, gerror option) est" where
  "registerMember E J ctx = do {
     c \<leftarrow> gets id;
     (let (host, port) = memberDatabaseEndpoint c;
          r = \<lparr>mr_ID = e_localID c, mr_Name = e_memberName c, mr_Database = e_dbType c,
               mr_DBHost = host, mr_DBPort = port\<rparr>
      in put_record E J ctx (memberKey (the (e_conf c)) (e_memberName c)) r) }"

definition member_of_record :: "memberRecord \<Rightarrow> Member" where
  "member_of_record r = \<lparr>ID = mr_ID r, mb_Name = mr_Name r, mb_Database = mr_Database r, mb_Tags = [],
     mb_Meta = [(''db_host'', mr_DBHost r), (''db_port'', itoa (mr_DBPort r))]\<rparr>"

definition listMembers :: "'w etcd_ops \<Rightarrow> member_codec \<Rightarrow> ctx_err \<Rightarrow> ('w, Member list res) est" where
  "listMembers E J ctx = do {
     c \<leftarrow> gets id;
     (found, e) \<leftarrow> on_etcd (et_GetPrefix E ctx (memberPrefix (the (e_conf c))));
     ret (case e of Some err \<Rightarrow> ([], Some err)
          | None \<Rightarrow> (map member_of_record (List.map_filter (\<lambda>(k, v). jDecode J v) found), None)) }"


subsection \<open>The leader lease\<close>

text \<open>
  \<open>tryAcquireLeader\<close> in its three calls: \<open>keepLease\<close> says whether the round is over,
  \<open>grantLease\<close> asks for a lease, \<open>claimLeader\<close> runs the transaction with it.
\<close>

definition drop_lease :: "('w, unit) est" where
  "drop_lease = modify (\<lambda>c. c\<lparr>e_isLeader := False, e_leaseID := 0\<rparr>)"

definition keepLease :: "'w etcd_ops \<Rightarrow> ctx_err \<Rightarrow> ('w, bool) est" where
  "keepLease E ctx = do {
     c \<leftarrow> gets id;
     (if \<not> e_client c then ret True
      else if e_isLeader c \<and> e_leaseID c \<noteq> 0 then do {
        e \<leftarrow> on_etcd (et_KeepAliveOnce E ctx (e_leaseID c));
        (case e of None \<Rightarrow> ret True
         | Some err \<Rightarrow> do { drop_lease; ret False }) }
      else ret False) }"

definition grantLease :: "'w etcd_ops \<Rightarrow> ctx_err \<Rightarrow> int \<Rightarrow> ('w, int option) est" where
  "grantLease E ctx ttl = do {
     (lease, e) \<leftarrow> on_etcd (et_Grant E ctx ttl);
     ret (case e of Some err \<Rightarrow> None | None \<Rightarrow> Some lease) }"

definition leader_value :: "kvs option list \<Rightarrow> string" where
  "leader_value resps = (case resps of
       [] \<Rightarrow> []
     | r # rs \<Rightarrow> (case r of Some ((k, v) # rest) \<Rightarrow> v | _ \<Rightarrow> []))"

definition claimLeader :: "'w etcd_ops \<Rightarrow> ctx_err \<Rightarrow> int \<Rightarrow> ('w, unit) est" where
  "claimLeader E ctx lease = do {
     c \<leftarrow> gets id;
     let key = leaderKey (the (e_conf c));
     ((succeeded, resps), e) \<leftarrow> on_etcd (et_Txn E ctx [CreateRevisionEq key 0]
        [OpPut key (e_localID c) lease] [OpGet key]);
     (if e \<noteq> None then ret ()
      else if succeeded then do {
        modify (\<lambda>c. c\<lparr>e_isLeader := True, e_leaderID := e_localID c, e_leaseID := lease\<rparr>);
        on_etcd (et_KeepAlive E ctx lease) }
      else modify (\<lambda>c. c\<lparr>e_isLeader := False, e_leaderID := leader_value resps, e_leaseID := 0\<rparr>)) }"

definition tryAcquireLeader :: "'w etcd_ops \<Rightarrow> ctx_err \<Rightarrow> int \<Rightarrow> ('w, unit) est" where
  "tryAcquireLeader E ctx ttl = do {
     over \<leftarrow> keepLease E ctx;
     (if over then ret ()
      else do {
        lease \<leftarrow> grantLease E ctx ttl;
        (case lease of None \<Rightarrow> ret () | Some l \<Rightarrow> claimLeader E ctx l) }) }"

text \<open>One round of \<open>run\<close>; the result says whether the loop goes on.\<close>

definition run_round :: "'w etcd_ops \<Rightarrow> ctx_err \<Rightarrow> ('w, bool) est" where
  "run_round E ctx = do {
     c \<leftarrow> gets id;
     (if ctx \<noteq> None then ret False
      else do {
        tryAcquireLeader E ctx (leaseTTL (the (e_conf c)));
        ret True }) }"


subsection \<open>The operations\<close>

definition etcd_Start :: "'w etcd_ops \<Rightarrow> member_codec \<Rightarrow> ctx_err \<Rightarrow> ('w, gerror option) est" where
  "etcd_Start E J ctx = do {
     c \<leftarrow> gets id;
     (let endpoints = etcdEndpoints (e_conf c) in
      if endpoints = [] then ret (Some ErrProviderNotImplemented)
      else or_err (on_etcd (et_New E endpoints)) (do {
        modify (\<lambda>c. c\<lparr>e_client := True, e_cancel := True, e_cancelled := False\<rparr>);
        e \<leftarrow> registerMember E J ctx;
        (case e of
           Some err \<Rightarrow> do {
             call (on_etcd (et_Close E));
             modify (\<lambda>c. c\<lparr>e_client := False, e_cancelled := True\<rparr>);
             ret (Some err) }
         | None \<Rightarrow> ret None) })) }"

definition etcd_Stop :: "'w etcd_ops \<Rightarrow> ('w, gerror option) est" where
  "etcd_Stop E = do {
     modify (\<lambda>c. if e_cancel c then c\<lparr>e_cancelled := True\<rparr> else c);
     c \<leftarrow> gets id;
     (if e_client c then do {
        e \<leftarrow> on_etcd (et_Close E);
        modify (\<lambda>c. c\<lparr>e_client := False\<rparr>);
        ret e }
      else ret None) }"

definition etcd_ClusterView :: "'w etcd_ops \<Rightarrow> member_codec \<Rightarrow> ctx_err \<Rightarrow> ('w, ClusterView res) est" where
  "etcd_ClusterView E J ctx = do {
     c \<leftarrow> gets id;
     (if \<not> e_client c then ret (zero_ClusterView, Some ErrNotSupported)
      else do {
        (found, e) \<leftarrow> on_etcd (et_Get E ctx (leaderKey (the (e_conf c))));
        (case e of Some err \<Rightarrow> ret (zero_ClusterView, Some err)
         | None \<Rightarrow> do {
             let leader = (case found of [] \<Rightarrow> e_leaderID c | (k, v) # rest \<Rightarrow> v);
             (members, e2) \<leftarrow> listMembers E J ctx;
             ret (case e2 of Some err \<Rightarrow> (zero_ClusterView, Some err)
               | None \<Rightarrow> (zero_ClusterView\<lparr>LeaderID := leader,
                   LeaderDatabase := leaderDatabaseEndpoint members leader,
                   Members := members\<rparr>, None)) }) }) }"

text \<open>One tick of \<open>Watch\<close>: the last view sent, and the view sent now, if any.\<close>

definition etcd_Watch_tick :: "'w etcd_ops \<Rightarrow> member_codec \<Rightarrow> ctx_err \<Rightarrow> ClusterView \<Rightarrow>
    ('w, ClusterView \<times> ClusterView option) est" where
  "etcd_Watch_tick E J ctx last_view = do {
     (view, e) \<leftarrow> etcd_ClusterView E J ctx;
     ret (if e \<noteq> None then (last_view, None)
          else if LeaderID view \<noteq> LeaderID last_view then (view, Some view)
          else (last_view, None)) }"

definition etcd_AddMember :: "'w etcd_ops \<Rightarrow> member_codec \<Rightarrow> ctx_err \<Rightarrow> string \<Rightarrow> ('w, gerror option) est" where
  "etcd_AddMember E J ctx i = do {
     c \<leftarrow> gets id;
     (if \<not> e_client c then ret (Some ErrNotSupported)
      else put_record E J ctx (memberKey (the (e_conf c)) i)
        \<lparr>mr_ID = i, mr_Name = i, mr_Database = e_dbType c, mr_DBHost = [], mr_DBPort = 0\<rparr>) }"

definition etcd_RemoveMember :: "'w etcd_ops \<Rightarrow> ctx_err \<Rightarrow> string \<Rightarrow> ('w, gerror option) est" where
  "etcd_RemoveMember E ctx i = do {
     c \<leftarrow> gets id;
     (if \<not> e_client c then ret (Some ErrNotSupported)
      else on_etcd (et_Delete E ctx (memberKey (the (e_conf c)) i))) }"

definition etcd_GetClusterConfig :: "ctx_err \<Rightarrow> ('w, string res) est" where
  "etcd_GetClusterConfig ctx = ret ([], Some ErrNotSupported)"

definition etcd_SetClusterConfig :: "ctx_err \<Rightarrow> string \<Rightarrow> ('w, gerror option) est" where
  "etcd_SetClusterConfig ctx cfg = ret (Some ErrNotSupported)"

definition etcd_coord :: "'w etcd_ops \<Rightarrow> member_codec \<Rightarrow> 'w etcdc coord_ops" where
  "etcd_coord E J = \<lparr>LocalID = gets e_localID, IsLeader = gets e_isLeader,
     ClusterViewOf = etcd_ClusterView E J, AddMember = etcd_AddMember E J,
     RemoveMember = etcd_RemoveMember E,
     GetClusterConfig = etcd_GetClusterConfig, SetClusterConfig = etcd_SetClusterConfig\<rparr>"

end
