(* ===== verification/EtcdLease.thy ===== *)
theory EtcdLease
  imports Etcd
begin

section \<open>The leader lease: nodes, expiry, the lock they implement\<close>

text \<open>
  What the coordinator relies on in etcd is the definition \<open>etcd_laws\<close>, over a view of the store
  (keys with value, lease and creation revision; the live leases; the leases ever granted).
  The system of several coordinators on one store is a step relation: a node's renewal, grant
  and claim are separate steps, a lease may expire between any two. The invariant gives that
  two nodes that claim the lead on live leases are one; the leader key refines a lock.
\<close>

subsection \<open>The store as the clients see it\<close>

record etcd_view =
  kv :: "string \<Rightarrow> (string \<times> int \<times> int) option"
  live :: "int set"
  granted :: "int set"

definition cmp_holds :: "etcd_view \<Rightarrow> etcd_cmp \<Rightarrow> bool" where
  "cmp_holds s c = (case c of CreateRevisionEq k n \<Rightarrow>
     (case kv s k of None \<Rightarrow> n = 0 | Some (v, l, cr) \<Rightarrow> n = cr))"

definition view_put :: "string \<Rightarrow> string \<Rightarrow> int \<Rightarrow> etcd_view \<Rightarrow> etcd_view \<Rightarrow> bool" where
  "view_put k v l s t \<longleftrightarrow> (l = 0 \<or> l \<in> live s) \<and>
     (\<exists>cr > 0. t = s\<lparr>kv := (kv s)(k \<mapsto> (v, l, cr))\<rparr>)"

definition entry_of :: "etcd_view \<Rightarrow> string \<Rightarrow> kvs" where
  "entry_of s k = (case kv s k of None \<Rightarrow> [] | Some (v, l, cr) \<Rightarrow> [(k, v)])"

fun op_step :: "etcd_op \<Rightarrow> kvs option \<Rightarrow> etcd_view \<Rightarrow> etcd_view \<Rightarrow> bool" where
  "op_step (OpPut k v l) r s t = (r = None \<and> view_put k v l s t)"
| "op_step (OpGet k) r s t = (r = Some (entry_of s k) \<and> t = s)"

fun ops_steps :: "etcd_op list \<Rightarrow> kvs option list \<Rightarrow> etcd_view \<Rightarrow> etcd_view \<Rightarrow> bool" where
  "ops_steps [] [] s t = (t = s)"
| "ops_steps (x # xs) (r # rs) s t = (\<exists>u. op_step x r s u \<and> ops_steps xs rs u t)"
| "ops_steps _ _ s t = False"

text \<open>A grant that the server has made, whether or not its answer came back.\<close>

definition view_grant :: "int set \<Rightarrow> etcd_view \<Rightarrow> etcd_view \<Rightarrow> bool" where
  "view_grant ls s t \<longleftrightarrow> ls \<inter> granted s = {} \<and> 0 \<notin> ls \<and>
     t = s\<lparr>live := live s \<union> ls, granted := granted s \<union> ls\<rparr>"

definition view_expire :: "int \<Rightarrow> etcd_view \<Rightarrow> etcd_view" where
  "view_expire l s = s\<lparr>live := live s - {l},
     kv := (\<lambda>k. case kv s k of Some (v, m, cr) \<Rightarrow> (if m = l then None else kv s k) | None \<Rightarrow> None)\<rparr>"

definition view_ok :: "etcd_view \<Rightarrow> bool" where
  "view_ok s \<longleftrightarrow> live s \<subseteq> granted s \<and> 0 \<notin> granted s \<and>
     (\<forall>k v l cr. kv s k = Some (v, l, cr) \<longrightarrow> cr > 0 \<and> (l = 0 \<or> l \<in> live s))"

text \<open>The documented behaviour of the client: a call that fails may have been applied.\<close>

definition laws_read :: "'w etcd_ops \<Rightarrow> ('w \<Rightarrow> etcd_view) \<Rightarrow> bool" where
  "laws_read E V \<longleftrightarrow>
     (\<forall>ctx k w. V (exec_of (et_Get E ctx k) w) = V w \<and>
        (\<forall>r. val_of (et_Get E ctx k) w = (r, None) \<longrightarrow> r = entry_of (V w) k)) \<and>
     (\<forall>ctx p w. V (exec_of (et_GetPrefix E ctx p) w) = V w \<and>
        (\<forall>r. val_of (et_GetPrefix E ctx p) w = (r, None) \<longrightarrow>
           set r = {(k, v). has_prefix k p \<and> (\<exists>l cr. kv (V w) k = Some (v, l, cr))}))"

definition laws_write :: "'w etcd_ops \<Rightarrow> ('w \<Rightarrow> etcd_view) \<Rightarrow> bool" where
  "laws_write E V \<longleftrightarrow>
     (\<forall>ctx k v w. view_put k v 0 (V w) (V (exec_of (et_Put E ctx k v) w)) \<or>
        val_of (et_Put E ctx k v) w \<noteq> None \<and> V (exec_of (et_Put E ctx k v) w) = V w) \<and>
     (\<forall>ctx k w. V (exec_of (et_Delete E ctx k) w) = (V w)\<lparr>kv := (kv (V w))(k := None)\<rparr> \<or>
        val_of (et_Delete E ctx k) w \<noteq> None \<and> V (exec_of (et_Delete E ctx k) w) = V w)"

definition laws_lease :: "'w etcd_ops \<Rightarrow> ('w \<Rightarrow> etcd_view) \<Rightarrow> bool" where
  "laws_lease E V \<longleftrightarrow>
     (\<forall>ctx ttl w. \<exists>ls. view_grant ls (V w) (V (exec_of (et_Grant E ctx ttl) w)) \<and>
        (snd (val_of (et_Grant E ctx ttl) w) = None \<longrightarrow>
           ls = {fst (val_of (et_Grant E ctx ttl) w)})) \<and>
     (\<forall>ctx l w. V (exec_of (et_KeepAliveOnce E ctx l) w) = V w \<and>
        (val_of (et_KeepAliveOnce E ctx l) w = None \<longrightarrow> l \<in> live (V w))) \<and>
     (\<forall>ctx l w. V (exec_of (et_KeepAlive E ctx l) w) = V w)"

definition laws_txn :: "'w etcd_ops \<Rightarrow> ('w \<Rightarrow> etcd_view) \<Rightarrow> bool" where
  "laws_txn E V \<longleftrightarrow>
     (\<forall>ctx cs xs ys w. let w' = exec_of (et_Txn E ctx cs xs ys) w;
          ok = list_all (cmp_holds (V w)) cs in
        (\<forall>b rs. val_of (et_Txn E ctx cs xs ys) w = ((b, rs), None) \<longrightarrow>
           b = ok \<and> ops_steps (if b then xs else ys) rs (V w) (V w')) \<and>
        (snd (val_of (et_Txn E ctx cs xs ys) w) \<noteq> None \<longrightarrow>
           V w' = V w \<or> (\<exists>rs. ops_steps (if ok then xs else ys) rs (V w) (V w'))))"

definition laws_conn :: "'w etcd_ops \<Rightarrow> ('w \<Rightarrow> etcd_view) \<Rightarrow> bool" where
  "laws_conn E V \<longleftrightarrow>
     (\<forall>hs w. V (exec_of (et_New E hs) w) = V w) \<and> (\<forall>w. V (exec_of (et_Close E) w) = V w)"

definition etcd_laws :: "'w etcd_ops \<Rightarrow> ('w \<Rightarrow> etcd_view) \<Rightarrow> bool" where
  "etcd_laws E V \<longleftrightarrow> laws_read E V \<and> laws_write E V \<and> laws_lease E V \<and> laws_txn E V \<and> laws_conn E V"


subsection \<open>Keys\<close>

lemma member_leader_keys [simp]: "memberKey conf i \<noteq> leaderKey conf'" if "leaderKey conf = leaderKey conf'"
proof
  assume "memberKey conf i = leaderKey conf'"
  with that have "''/members/'' @ i = ''/leader''"
    by (simp add: memberKey_def leaderKey_def)
  then show False by simp
qed

lemma has_prefix_self [simp]: "has_prefix (p @ s) p"
  by (induction p) simp_all

lemma memberKey_prefix: "has_prefix (memberKey conf i) (memberPrefix conf)"
  using has_prefix_self [of "clusterPrefix conf @ ''/members/''" i]
  by (simp add: memberKey_def memberPrefix_def)


subsection \<open>The system\<close>

datatype round_pc = Idle | WantLease | HasLease int

record 'w esys =
  s_world :: 'w
  s_node :: "nat \<Rightarrow> 'w etcdc"
  s_pc :: "nat \<Rightarrow> round_pc"

definition node_of :: "'w esys \<Rightarrow> nat \<Rightarrow> 'w etcdc" where
  "node_of s i = (s_node s i)\<lparr>e_world := s_world s\<rparr>"

definition put_node :: "'w esys \<Rightarrow> nat \<Rightarrow> 'w etcdc \<Rightarrow> round_pc \<Rightarrow> 'w esys" where
  "put_node s i c pc = s\<lparr>s_world := e_world c, s_node := (s_node s)(i := c),
     s_pc := (s_pc s)(i := pc)\<rparr>"

text \<open>The operations other than the rounds of \<open>run\<close>.\<close>

inductive member_op :: "'w etcd_ops \<Rightarrow> member_codec \<Rightarrow> ('w, unit) est \<Rightarrow> bool" for E J where
  "member_op E J (call (etcd_ClusterView E J ctx))"
| "member_op E J (call (etcd_AddMember E J ctx i))"
| "member_op E J (call (etcd_RemoveMember E ctx i))"
| "member_op E J (call (etcd_Start E J ctx))"
| "member_op E J (call (etcd_Stop E))"

datatype lease_event = By nat | Expire int

inductive esys_step :: "'w etcd_ops \<Rightarrow> member_codec \<Rightarrow> ('w \<Rightarrow> etcd_view) \<Rightarrow> lease_event \<Rightarrow>
    'w esys \<Rightarrow> 'w esys \<Rightarrow> bool" for E J V where
  renew: "s_pc s i = Idle \<Longrightarrow> run_state (keepLease E ctx) (node_of s i) = (over, c) \<Longrightarrow>
    esys_step E J V (By i) s (put_node s i c (if over then Idle else WantLease))"
| grant: "s_pc s i = WantLease \<Longrightarrow> run_state (grantLease E ctx ttl) (node_of s i) = (r, c) \<Longrightarrow>
    esys_step E J V (By i) s (put_node s i c (case r of None \<Rightarrow> Idle | Some l \<Rightarrow> HasLease l))"
| claim: "s_pc s i = HasLease l \<Longrightarrow> run_state (claimLeader E ctx l) (node_of s i) = (u, c) \<Longrightarrow>
    esys_step E J V (By i) s (put_node s i c Idle)"
| member: "member_op E J m \<Longrightarrow> run_state m (node_of s i) = (u, c) \<Longrightarrow>
    esys_step E J V (By i) s (put_node s i c (s_pc s i))"
| crash: "etcd_New (e_conf (s_node s i)) (s_world s) = Some c \<Longrightarrow>
    esys_step E J V (By i) s (put_node s i c Idle)"
| expire: "V w' = view_expire l (V (s_world s)) \<Longrightarrow>
    esys_step E J V (Expire l) s (s\<lparr>s_world := w'\<rparr>)"

inductive_cases esys_stepE: "esys_step E J V e s t"

definition esys_init :: "('w \<Rightarrow> etcd_view) \<Rightarrow> string \<Rightarrow> 'w esys \<Rightarrow> bool" where
  "esys_init V K s \<longleftrightarrow> view_ok (V (s_world s)) \<and>
     (\<forall>i. (\<exists>conf. e_conf (s_node s i) = Some conf \<and> leaderKey conf = K \<and>
              etcd_New (Some conf) (e_world (s_node s i)) = Some (s_node s i)) \<and>
          s_pc s i = Idle)"

inductive esys_reach :: "'w etcd_ops \<Rightarrow> member_codec \<Rightarrow> ('w \<Rightarrow> etcd_view) \<Rightarrow> string \<Rightarrow> 'w esys \<Rightarrow> bool"
  for E J V K where
  start: "esys_init V K s \<Longrightarrow> esys_reach E J V K s"
| step: "esys_reach E J V K s \<Longrightarrow> esys_step E J V e s t \<Longrightarrow> esys_reach E J V K t"


subsection \<open>The laws, one by one\<close>

lemma law_get:
  assumes "etcd_laws E V"
  shows "V (exec_of (et_Get E ctx k) w) = V w"
    and "val_of (et_Get E ctx k) w = (r, None) \<Longrightarrow> r = entry_of (V w) k"
    and "V (exec_of (et_GetPrefix E ctx k) w) = V w"
    and "val_of (et_GetPrefix E ctx k) w = (r, None) \<Longrightarrow>
      set r = {(x, v). has_prefix x k \<and> (\<exists>l cr. kv (V w) x = Some (v, l, cr))}"
  using assms unfolding etcd_laws_def laws_read_def by blast+

lemma law_put:
  assumes "etcd_laws E V"
  shows "view_put k v 0 (V w) (V (exec_of (et_Put E ctx k v) w)) \<or> V (exec_of (et_Put E ctx k v) w) = V w"
    and "val_of (et_Put E ctx k v) w = None \<Longrightarrow> view_put k v 0 (V w) (V (exec_of (et_Put E ctx k v) w))"
    and "V (exec_of (et_Delete E ctx k) w) \<in> {V w, (V w)\<lparr>kv := (kv (V w))(k := None)\<rparr>}"
  using assms unfolding etcd_laws_def laws_write_def by blast+

lemma law_lease:
  assumes "etcd_laws E V"
  shows "\<exists>ls. view_grant ls (V w) (V (exec_of (et_Grant E ctx ttl) w)) \<and>
        (snd (val_of (et_Grant E ctx ttl) w) = None \<longrightarrow> ls = {fst (val_of (et_Grant E ctx ttl) w)})"
    and "V (exec_of (et_KeepAliveOnce E ctx l) w) = V w"
    and "val_of (et_KeepAliveOnce E ctx l) w = None \<Longrightarrow> l \<in> live (V w)"
    and "V (exec_of (et_KeepAlive E ctx l) w) = V w"
  using assms unfolding etcd_laws_def laws_lease_def by blast+

lemma law_conn:
  assumes "etcd_laws E V"
  shows "V (exec_of (et_New E hs) w) = V w" and "V (exec_of (et_Close E) w) = V w"
  using assms unfolding etcd_laws_def laws_conn_def by blast+

lemma law_txn:
  assumes "etcd_laws E V" and t: "t = et_Txn E ctx cs xs ys" and ok: "ok = list_all (cmp_holds (V w)) cs"
  shows "val_of t w = ((b, rs), None) \<Longrightarrow> b = ok \<and>
      ops_steps (if b then xs else ys) rs (V w) (V (exec_of t w))"
    and "snd (val_of t w) \<noteq> None \<Longrightarrow> V (exec_of t w) = V w \<or>
      (\<exists>rs. ops_steps (if ok then xs else ys) rs (V w) (V (exec_of t w)))"
  using assms(1) unfolding etcd_laws_def laws_txn_def Let_def t ok by blast+

text \<open>The one transaction of the code: create the key, or read it.\<close>

lemma law_create:
  assumes "etcd_laws E V" "kv (V w) k = None \<or> (\<exists>v l cr. kv (V w) k = Some (v, l, cr) \<and> cr > 0)"
    and txn: "txn = et_Txn E ctx [CreateRevisionEq k 0] [OpPut k v l] [OpGet k]"
  shows "val_of txn w = ((b, rs), None) \<Longrightarrow> b = (kv (V w) k = None)"
    and "val_of txn w = ((True, rs), None) \<Longrightarrow> view_put k v l (V w) (V (exec_of txn w))"
    and "val_of txn w = ((False, rs), None) \<Longrightarrow>
      V (exec_of txn w) = V w \<and> rs = [Some (entry_of (V w) k)]"
    and "snd (val_of txn w) = Some err \<Longrightarrow>
      V (exec_of txn w) = V w \<or> kv (V w) k = None \<and> view_put k v l (V w) (V (exec_of txn w))"
proof -
  let ?s = "V w" and ?t = "V (exec_of txn w)"
  have ok: "(kv ?s k = None) = list_all (cmp_holds ?s) [CreateRevisionEq k 0]"
    using assms(2) by (auto simp: cmp_holds_def split: option.split)
  have put: "ops_steps [OpPut k v l] rs ?s ?t \<Longrightarrow> view_put k v l ?s ?t" for rs
    by (cases rs rule: list.exhaust; cases "tl rs") auto
  have get: "ops_steps [OpGet k] rs ?s ?t \<Longrightarrow> ?t = ?s \<and> rs = [Some (entry_of ?s k)]" for rs
    by (cases rs rule: list.exhaust; cases "tl rs") auto
  note law = law_txn [OF assms(1) txn ok]
  show "val_of txn w = ((b, rs), None) \<Longrightarrow> b = (kv ?s k = None)"
    using law(1) by blast
  show "val_of txn w = ((True, rs), None) \<Longrightarrow> view_put k v l ?s ?t"
    using law(1) [of True rs] put [of rs] by simp
  show "val_of txn w = ((False, rs), None) \<Longrightarrow> ?t = ?s \<and> rs = [Some (entry_of ?s k)]"
    using law(1) [of False rs] get [of rs] by simp
  show "snd (val_of txn w) = Some err \<Longrightarrow> ?t = ?s \<or> kv ?s k = None \<and> view_put k v l ?s ?t"
    using law(2) put get by (auto split: if_splits)
qed


subsection \<open>What an operation may change\<close>

text \<open>The operations on members leave the leader key, the leases and the claim alone.\<close>

definition quiet :: "string \<Rightarrow> etcd_view \<Rightarrow> etcd_view \<Rightarrow> bool" where
  "quiet K s t \<longleftrightarrow> kv t K = kv s K \<and> live t = live s \<and> granted t = granted s \<and>
     (view_ok s \<longrightarrow> view_ok t)"

definition same_node :: "'w etcdc \<Rightarrow> 'w etcdc \<Rightarrow> bool" where
  "same_node c d \<longleftrightarrow> e_conf d = e_conf c \<and> e_localID d = e_localID c \<and>
     e_isLeader d = e_isLeader c \<and> e_leaseID d = e_leaseID c"

lemma quiet_refl [simp]: "quiet K s s"
  by (simp add: quiet_def)

lemma quiet_put: "k \<noteq> K \<Longrightarrow> view_put k v 0 s t \<Longrightarrow> quiet K s t"
  by (auto simp: quiet_def view_put_def view_ok_def split: if_splits) blast+

lemma quiet_delete: "k \<noteq> K \<Longrightarrow> quiet K s (s\<lparr>kv := (kv s)(k := None)\<rparr>)"
  by (auto simp: quiet_def view_ok_def split: if_splits)

lemma run_on_etcd [simp]:
  "run_state (on_etcd m) c = (val_of m (e_world c), c\<lparr>e_world := exec_of m (e_world c)\<rparr>)"
  by (simp add: on_etcd_def)

lemma put_record_node [simp]: "same_node c (exec_of (put_record E J ctx k x) c)"
  by (cases "jEncode J x"; cases "snd (jEncode J x)") (auto simp: put_record_def same_node_def)

lemma put_record_eff:
  assumes "etcd_laws E V" "k \<noteq> K"
  shows "quiet K (V (e_world c)) (V (e_world (exec_of (put_record E J ctx k x) c)))"
proof -
  obtain d e where j: "jEncode J x = (d, e)"
    by (cases "jEncode J x")
  show ?thesis
    using law_put(1) [OF assms(1), of k d "e_world c" ctx] quiet_put [OF assms(2), of d "V (e_world c)"]
    by (cases e) (auto simp: put_record_def j)
qed


subsection \<open>The invariant\<close>

text \<open>A node that claims the lead on a lease that is still live holds the leader key with it.\<close>

definition owns :: "string \<Rightarrow> etcd_view \<Rightarrow> 'w etcdc \<Rightarrow> bool" where
  "owns K s c \<longleftrightarrow> (e_isLeader c \<longrightarrow> e_leaseID c \<in> granted s \<and>
     (e_leaseID c \<in> live s \<longrightarrow> (\<exists>cr. kv s K = Some (e_localID c, e_leaseID c, cr))))"

definition wired :: "string \<Rightarrow> 'w etcdc \<Rightarrow> bool" where
  "wired K c \<longleftrightarrow> (\<exists>conf. e_conf c = Some conf \<and> leaderKey conf = K \<and> e_localID c = Endpoint conf)"

definition esys_ok :: "('w \<Rightarrow> etcd_view) \<Rightarrow> string \<Rightarrow> 'w esys \<Rightarrow> bool" where
  "esys_ok V K s \<longleftrightarrow> view_ok (V (s_world s)) \<and>
     (\<forall>i. wired K (s_node s i) \<and> owns K (V (s_world s)) (s_node s i) \<and>
        (\<forall>l. s_pc s i = HasLease l \<longrightarrow> l \<in> granted (V (s_world s))))"

text \<open>How a call may change the store: no claim that was backed loses its backing.\<close>

definition moves :: "string \<Rightarrow> etcd_view \<Rightarrow> etcd_view \<Rightarrow> bool" where
  "moves K s t \<longleftrightarrow> (view_ok s \<longrightarrow> view_ok t) \<and> granted s \<subseteq> granted t \<and>
     (\<forall>c :: unit etcdc. owns K s c \<longrightarrow> owns K t c)"

lemma owns_cong:
  "e_isLeader c = e_isLeader d \<Longrightarrow> e_leaseID c = e_leaseID d \<Longrightarrow> e_localID c = e_localID d \<Longrightarrow>
    owns K s c = owns K s d"
  by (simp add: owns_def)

lemma moves_owns: "moves K s t \<Longrightarrow> owns K s (c :: 'w etcdc) \<Longrightarrow> owns K t c"
  using owns_cong [of c "(zero_etcdc ())\<lparr>e_isLeader := e_isLeader c, e_leaseID := e_leaseID c,
      e_localID := e_localID c\<rparr>"]
  by (simp add: moves_def zero_etcdc_def)

lemma moves_refl [simp]: "moves K s s"
  by (simp add: moves_def)

lemma moves_quiet: "quiet K s t \<Longrightarrow> moves K s t"
  by (simp add: moves_def quiet_def owns_def)

lemma moves_grant: "view_ok s \<Longrightarrow> view_grant ls s t \<Longrightarrow> moves K s t"
  by (auto simp: moves_def view_grant_def owns_def view_ok_def) blast+

lemma moves_expire: "moves K s (view_expire l s)"
  by (auto simp: moves_def view_expire_def owns_def view_ok_def split: option.splits if_splits) blast+

lemma moves_create: "kv s K = None \<Longrightarrow> view_put K v l s t \<Longrightarrow> moves K s t"
  by (auto simp: moves_def view_put_def owns_def view_ok_def split: if_splits) blast+

lemma put_node_ok:
  assumes ok: "esys_ok V K s" and mv: "moves K (V (s_world s)) (V (e_world c))"
    and c: "wired K c" "owns K (V (e_world c)) c"
    and pc: "\<And>l. pc = HasLease l \<Longrightarrow> l \<in> granted (V (e_world c))"
  shows "esys_ok V K (put_node s i c pc)"
  using assms moves_owns [OF mv] by (auto simp: esys_ok_def put_node_def moves_def)

lemma node_of_simps [simp]:
  "e_world (node_of s i) = s_world s" "e_conf (node_of s i) = e_conf (s_node s i)"
  "e_localID (node_of s i) = e_localID (s_node s i)" "e_isLeader (node_of s i) = e_isLeader (s_node s i)"
  "e_leaseID (node_of s i) = e_leaseID (s_node s i)" "e_client (node_of s i) = e_client (s_node s i)"
  by (simp_all add: node_of_def)

lemma node_of_ok:
  "esys_ok V K s \<Longrightarrow> wired K (node_of s i) \<and> owns K (V (e_world (node_of s i))) (node_of s i)"
  by (simp add: esys_ok_def wired_def owns_def)

text \<open>One lemma per call: the view after it, and the node after it.\<close>

lemma keepLease_eff:
  assumes "etcd_laws E V"
  shows "V (e_world (exec_of (keepLease E ctx) c)) = V (e_world c)"
    and "same_node c (exec_of (keepLease E ctx) c) \<or>
      e_conf (exec_of (keepLease E ctx) c) = e_conf c \<and>
      e_localID (exec_of (keepLease E ctx) c) = e_localID c \<and> \<not> e_isLeader (exec_of (keepLease E ctx) c)"
  using law_lease(2) [OF assms]
  by (auto simp: keepLease_def drop_lease_def same_node_def split: option.split)

lemma grantLease_eff:
  assumes "etcd_laws E V"
  shows "\<exists>ls. view_grant ls (V (e_world c)) (V (e_world (exec_of (grantLease E ctx ttl) c))) \<and>
      (\<forall>l. val_of (grantLease E ctx ttl) c = Some l \<longrightarrow> ls = {l})"
    and "same_node c (exec_of (grantLease E ctx ttl) c)"
proof -
  show "\<exists>ls. view_grant ls (V (e_world c)) (V (e_world (exec_of (grantLease E ctx ttl) c))) \<and>
      (\<forall>l. val_of (grantLease E ctx ttl) c = Some l \<longrightarrow> ls = {l})"
    using law_lease(1) [OF assms, of "e_world c" ctx ttl]
    by (auto simp: grantLease_def case_prod_beta split: option.split)
  show "same_node c (exec_of (grantLease E ctx ttl) c)"
    by (simp add: grantLease_def case_prod_beta same_node_def)
qed


lemma claimLeader_cases:
  fixes c :: "'w etcdc" and E V ctx l
  assumes laws: "etcd_laws E V" and ok: "view_ok (V (e_world c))"
    and key: "e_conf c = Some conf" "leaderKey conf = K"
  defines "d \<equiv> exec_of (claimLeader E ctx l) c"
  obtains (err) "V (e_world d) = V (e_world c) \<or>
      kv (V (e_world c)) K = None \<and> view_put K (e_localID c) l (V (e_world c)) (V (e_world d))"
      "same_node c d" "e_leaderID d = e_leaderID c"
  | (won) "kv (V (e_world c)) K = None"
      "view_put K (e_localID c) l (V (e_world c)) (V (e_world d))"
      "d = c\<lparr>e_world := e_world d, e_isLeader := True, e_leaderID := e_localID c, e_leaseID := l\<rparr>"
  | (lost) v m cr where "kv (V (e_world c)) K = Some (v, m, cr)" "V (e_world d) = V (e_world c)"
      "d = c\<lparr>e_world := e_world d, e_isLeader := False, e_leaderID := v, e_leaseID := 0\<rparr>"
proof -
  let ?s = "V (e_world c)"
  let ?txn = "et_Txn E ctx [CreateRevisionEq K 0] [OpPut K (e_localID c) l] [OpGet K]"
  obtain b rs e w' where run: "run_state ?txn (e_world c) = (((b, rs), e), w')"
    by (metis prod.exhaust)
  have pos: "kv ?s K = None \<or> (\<exists>v l cr. kv ?s K = Some (v, l, cr) \<and> cr > 0)"
    using ok unfolding view_ok_def by (metis option.exhaust prod.exhaust)
  note law = law_create [OF laws pos refl, of ctx "e_localID c" l, unfolded run fst_conv snd_conv]
  have d: "d = (if e \<noteq> None then c\<lparr>e_world := w'\<rparr>
      else if b then c\<lparr>e_world := exec_of (et_KeepAlive E ctx l) w', e_isLeader := True,
        e_leaderID := e_localID c, e_leaseID := l\<rparr>
      else c\<lparr>e_world := w', e_isLeader := False, e_leaderID := leader_value rs, e_leaseID := 0\<rparr>)"
    by (simp add: d_def claimLeader_def Let_def key run case_prod_beta)
  consider er where "e = Some er" | "e = None" "b" | "e = None" "\<not> b"
    by (cases e) auto
  then show ?thesis
  proof cases
    case 1
    then show ?thesis using err d law(4) [of er] by (simp add: same_node_def)
  next
    case 2
    then show ?thesis using won d law(1) [of b rs] law(2) [of rs] law_lease(4) [OF laws] by simp
  next
    case 3
    then obtain v m cr where k: "kv ?s K = Some (v, m, cr)"
      using law(1) [of b rs] pos by auto
    have "leader_value rs = v"
      using 3 law(3) [of rs] by (simp add: entry_of_def k leader_value_def)
    then show ?thesis using lost [OF k] 3 d law(3) [of rs] by simp
  qed
qed

lemma claimLeader_eff:
  assumes "etcd_laws E V" "view_ok (V (e_world c))" "wired K c" "owns K (V (e_world c)) c"
    and l: "l \<in> granted (V (e_world c))"
  shows "moves K (V (e_world c)) (V (e_world (exec_of (claimLeader E ctx l) c)))"
    and "wired K (exec_of (claimLeader E ctx l) c)"
    and "owns K (V (e_world (exec_of (claimLeader E ctx l) c))) (exec_of (claimLeader E ctx l) c)"
    and "V (e_world (exec_of (claimLeader E ctx l) c)) = V (e_world c) \<or>
      kv (V (e_world c)) K = None \<and> view_put K (e_localID c) l (V (e_world c))
        (V (e_world (exec_of (claimLeader E ctx l) c)))"
proof -
  let ?d = "exec_of (claimLeader E ctx l) c"
  obtain conf where conf: "e_conf c = Some conf" "leaderKey conf = K" "e_localID c = Endpoint conf"
    using assms(3) by (auto simp: wired_def)
  have *: "moves K (V (e_world c)) (V (e_world ?d)) \<and> wired K ?d \<and> owns K (V (e_world ?d)) ?d \<and>
      (V (e_world ?d) = V (e_world c) \<or> kv (V (e_world c)) K = None \<and>
         view_put K (e_localID c) l (V (e_world c)) (V (e_world ?d)))"
  proof (cases rule: claimLeader_cases [OF assms(1,2) conf(1,2), of ctx l, case_names err won lost])
    case err
    have mv: "moves K (V (e_world c)) (V (e_world ?d))"
      using err(1) moves_create by auto
    then show ?thesis
      using err assms(3) moves_owns [OF mv assms(4)] owns_cong [of c ?d]
      by (auto simp: same_node_def wired_def)
  next
    case won
    then have "moves K (V (e_world c)) (V (e_world ?d))"
      using moves_create by blast
    moreover have "wired K ?d"
      by (subst won(3)) (use conf in \<open>simp add: wired_def\<close>)
    moreover have "owns K (V (e_world ?d)) ?d"
      by (subst won(3)) (use won(2) l in \<open>auto simp: owns_def view_put_def\<close>)
    ultimately show ?thesis using won by blast
  next
    case lost
    have "wired K ?d"
      by (subst lost(3)) (use conf in \<open>simp add: wired_def\<close>)
    moreover have "\<not> e_isLeader ?d"
      by (subst lost(3)) simp
    ultimately show ?thesis using lost(2) by (simp add: owns_def)
  qed
  then show "moves K (V (e_world c)) (V (e_world ?d))" "wired K ?d" "owns K (V (e_world ?d)) ?d"
    "V (e_world ?d) = V (e_world c) \<or> kv (V (e_world c)) K = None \<and>
       view_put K (e_localID c) l (V (e_world c)) (V (e_world ?d))"
    by blast+
qed

lemma registerMember_eff:
  assumes "etcd_laws E V" "wired K c"
  shows "quiet K (V (e_world c)) (V (e_world (exec_of (registerMember E J ctx) c)))"
    and "same_node c (exec_of (registerMember E J ctx) c)"
  using assms(2) put_record_eff [OF assms(1)]
  by (auto simp: registerMember_def case_prod_beta wired_def Let_def)

lemma listMembers_eff:
  assumes "etcd_laws E V"
  shows "V (e_world (exec_of (listMembers E J ctx) c)) = V (e_world c)"
    and "same_node c (exec_of (listMembers E J ctx) c)"
  using law_get(3) [OF assms] by (simp_all add: listMembers_def case_prod_beta same_node_def)

lemma same_node_trans: "same_node a b \<Longrightarrow> same_node b c \<Longrightarrow> same_node a c"
  by (simp add: same_node_def)

lemma same_node_upd [simp]:
  "same_node c (c\<lparr>e_world := w\<rparr>)" "same_node c c"
  "same_node (c\<lparr>e_world := w\<rparr>) d = same_node c d"
  by (simp_all add: same_node_def)

lemma ClusterView_eff:
  assumes "etcd_laws E V"
  shows "V (e_world (exec_of (etcd_ClusterView E J ctx) c)) = V (e_world c)"
    and "same_node c (exec_of (etcd_ClusterView E J ctx) c)"
  using law_get(1) [OF assms] listMembers_eff(1) [OF assms]
  by (auto simp: etcd_ClusterView_def case_prod_beta Let_def split: option.split
      intro: same_node_trans [OF same_node_upd(1) listMembers_eff(2) [OF assms]])

lemma member_op_eff:
  assumes "etcd_laws E V" "wired K c" "member_op E J m"
  shows "quiet K (V (e_world c)) (V (e_world (exec_of m c))) \<and> same_node c (exec_of m c)"
  using assms(3)
proof cases
  case (1 ctx)
  then show ?thesis using ClusterView_eff [OF assms(1)] by simp
next
  case (2 ctx i)
  then show ?thesis using assms(2) put_record_eff [OF assms(1)]
    by (auto simp: etcd_AddMember_def wired_def)
next
  case (3 ctx i)
  obtain conf where "e_conf c = Some conf" "leaderKey conf = K"
    using assms(2) by (auto simp: wired_def)
  then show ?thesis
    using 3 law_put(3) [OF assms(1), of ctx "memberKey conf i" "e_world c"]
      quiet_delete [of "memberKey conf i" K "V (e_world c)"]
    by (auto simp: etcd_RemoveMember_def)
next
  case (4 ctx)
  let ?c = "c\<lparr>e_world := exec_of (et_New E (etcdEndpoints (e_conf c))) (e_world c), e_client := True,
      e_cancel := True, e_cancelled := False\<rparr>"
  have "wired K ?c" "V (e_world ?c) = V (e_world c)"
    using assms(2) law_conn(1) [OF assms(1)] by (simp_all add: wired_def)
  then show ?thesis
    using 4 registerMember_eff [OF assms(1), of K ?c J ctx] law_conn [OF assms(1)]
    by (auto simp: etcd_Start_def run_or_err Let_def case_prod_beta same_node_def split: option.split)
next
  case 5
  then show ?thesis using law_conn(2) [OF assms(1)]
    by (simp add: etcd_Stop_def case_prod_beta same_node_def)
qed


lemma eff_wired:
  "same_node c d \<Longrightarrow> wired K c \<Longrightarrow> wired K d"
  "same_node c d \<Longrightarrow> owns K s c \<Longrightarrow> owns K s d"
  by (simp_all add: same_node_def wired_def owns_def)

text \<open>What one step does to the leader key.\<close>

definition key_step :: "('w \<Rightarrow> etcd_view) \<Rightarrow> string \<Rightarrow> lease_event \<Rightarrow> 'w esys \<Rightarrow> 'w esys \<Rightarrow> bool" where
  "key_step V K e s t \<longleftrightarrow>
     (let a = V (s_world s); b = V (s_world t) in
      kv b K = kv a K \<or>
      (case e of By i \<Rightarrow> kv a K = None \<and>
            (\<exists>l cr. l \<in> live a \<union> {0} \<and> kv b K = Some (e_localID (s_node s i), l, cr))
       | Expire l \<Rightarrow> kv b K = None \<and> (\<exists>v cr. kv a K = Some (v, l, cr))))"

lemma esys_step_ok:
  assumes laws: "etcd_laws E V" and ok: "esys_ok V K s" and step: "esys_step E J V e s t"
  shows "esys_ok V K t \<and> key_step V K e s t"
  using step
proof cases
  case (renew i ctx over c)
  have n: "wired K (node_of s i)" "owns K (V (s_world s)) (node_of s i)"
    using node_of_ok [OF ok, of i] by simp_all
  have c: "c = exec_of (keepLease E ctx) (node_of s i)"
    using renew by simp
  have v: "V (e_world c) = V (s_world s)"
    using keepLease_eff(1) [OF laws, of ctx "node_of s i"] by (simp add: c)
  have "wired K c" "owns K (V (e_world c)) c"
    using keepLease_eff(2) [OF laws, of "node_of s i" ctx] n eff_wired unfolding v c [symmetric]
    by (auto simp: wired_def owns_def same_node_def)
  then show ?thesis
    using put_node_ok [OF ok, of c "if over then Idle else WantLease" i] v renew
    by (simp add: key_step_def put_node_def split: if_splits)
next
  case (grant i ctx ttl r c)
  have n: "wired K (node_of s i)" "owns K (V (s_world s)) (node_of s i)"
    using node_of_ok [OF ok, of i] by simp_all
  have c: "c = exec_of (grantLease E ctx ttl) (node_of s i)" "r = val_of (grantLease E ctx ttl) (node_of s i)"
    using grant by simp_all
  have same: "same_node (node_of s i) c"
    unfolding c by (rule grantLease_eff(2) [OF laws])
  obtain ls where ls: "view_grant ls (V (s_world s)) (V (e_world c))" "\<forall>l. r = Some l \<longrightarrow> ls = {l}"
    using grantLease_eff(1) [OF laws, of "node_of s i" ctx ttl] by (auto simp: c)
  have mv: "moves K (V (s_world s)) (V (e_world c))"
    using ls(1) ok by (auto simp: esys_ok_def intro: moves_grant)
  have "kv (V (e_world c)) K = kv (V (s_world s)) K" "\<forall>l. r = Some l \<longrightarrow> l \<in> granted (V (e_world c))"
    using ls by (auto simp: view_grant_def)
  then show ?thesis
    using put_node_ok [OF ok mv eff_wired(1) [OF same n(1)] moves_owns [OF mv eff_wired(2) [OF same n(2)]],
        of "case r of None \<Rightarrow> Idle | Some l \<Rightarrow> HasLease l" i] grant
    by (auto simp: key_step_def put_node_def split: option.splits)
next
  case (claim i l ctx u c)
  have c: "c = exec_of (claimLeader E ctx l) (node_of s i)"
    using claim by simp
  have l: "l \<in> granted (V (e_world (node_of s i)))" "view_ok (V (e_world (node_of s i)))"
    using claim ok by (auto simp: esys_ok_def)
  have n: "wired K (node_of s i)" "owns K (V (e_world (node_of s i))) (node_of s i)"
    using node_of_ok [OF ok, of i] by simp_all
  note eff = claimLeader_eff [where ctx = ctx and K = K, OF laws l(2) n l(1), folded c]
  then have "esys_ok V K (put_node s i c Idle)"
    by (intro put_node_ok [OF ok]) simp_all
  moreover have "key_step V K (By i) s (put_node s i c Idle)"
    using eff(4) by (auto simp: key_step_def put_node_def view_put_def Let_def)
  ultimately show ?thesis using claim by simp
next
  case (member m i u c)
  have c: "c = exec_of m (node_of s i)"
    using member by simp
  have n: "wired K (node_of s i)" "owns K (V (s_world s)) (node_of s i)"
    using node_of_ok [OF ok, of i] by simp_all
  have eff: "quiet K (V (s_world s)) (V (e_world c))" "same_node (node_of s i) c"
    using member_op_eff [OF laws n(1) member(3)] by (simp_all add: c)
  have mv: "moves K (V (s_world s)) (V (e_world c))"
    by (rule moves_quiet [OF eff(1)])
  show ?thesis
    using put_node_ok [OF ok mv eff_wired(1) [OF eff(2) n(1)] moves_owns [OF mv eff_wired(2) [OF eff(2) n(2)]],
        of "s_pc s i" i] member eff(1) ok
    by (auto simp: key_step_def put_node_def quiet_def esys_ok_def)
next
  case (crash i c)
  obtain conf where "e_conf (s_node s i) = Some conf" "leaderKey conf = K"
    using ok unfolding esys_ok_def wired_def by blast
  then have "wired K c" "\<not> e_isLeader c" "e_world c = s_world s"
    using crash by (auto simp: wired_def etcd_New_def zero_etcdc_def split: option.splits)
  then show ?thesis
    using put_node_ok [OF ok, of c Idle i] crash
    by (auto simp: key_step_def put_node_def owns_def)
next
  case (expire w' l)
  have mv: "moves K (V (s_world s)) (V w')"
    using moves_expire expire by simp
  have "esys_ok V K t"
    using ok expire mv moves_owns [OF mv] by (auto simp: esys_ok_def moves_def)
  moreover have "key_step V K e s t"
    using expire by (auto simp: key_step_def view_expire_def Let_def split: option.split)
  ultimately show ?thesis by blast
qed

lemma esys_reach_ok:
  assumes "etcd_laws E V" "esys_reach E J V K s"
  shows "esys_ok V K s"
  using assms(2)
proof induction
  case (start s)
  have "wired K (s_node s i) \<and> \<not> e_isLeader (s_node s i)" for i
  proof -
    obtain conf where "e_conf (s_node s i) = Some conf" "leaderKey conf = K"
      "etcd_New (Some conf) (e_world (s_node s i)) = Some (s_node s i)"
      using start by (auto simp: esys_init_def)
    then show ?thesis
      by (auto simp: etcd_New_def zero_etcdc_def wired_def split: option.splits
          dest!: arg_cong [of _ "s_node s i" "\<lambda>c. (e_localID c, e_isLeader c)"])
  qed
  then show ?case using start by (simp add: esys_ok_def owns_def esys_init_def)
next
  case (step s e t)
  then show ?case using esys_step_ok [OF assms(1)] by blast
qed

end
