(* ===== verification/EtcdLock.thy ===== *)
theory EtcdLock
  imports EtcdLease
begin

section \<open>The lock the leader key implements\<close>

text \<open>
  The properties of the lease system: a lock specification and its refinement, one live leader,
  and the orphaned lease. \<open>mem_etcd\<close> is a store in memory that keeps the laws; the witnesses
  run the coordinator on it.
\<close>

subsection \<open>A store in memory that keeps the laws\<close>

record mem_store =
  ms_kvs :: "(string \<times> string \<times> int) list"
  ms_live :: "int list"
  ms_granted :: "int list"

definition mem_view :: "mem_store \<Rightarrow> etcd_view" where
  "mem_view w = \<lparr>kv = (\<lambda>k. case map_of (ms_kvs w) k of None \<Rightarrow> None | Some (v, l) \<Rightarrow> Some (v, l, 1)),
     live = set (ms_live w), granted = set (ms_granted w)\<rparr>"

definition mem_put :: "string \<Rightarrow> string \<Rightarrow> int \<Rightarrow> mem_store \<Rightarrow> mem_store" where
  "mem_put k v l w = w\<lparr>ms_kvs := (k, v, l) # ms_kvs w\<rparr>"

definition mem_entry :: "mem_store \<Rightarrow> string \<Rightarrow> kvs" where
  "mem_entry w k = (case map_of (ms_kvs w) k of None \<Rightarrow> [] | Some (v, l) \<Rightarrow> [(k, v)])"

fun mem_run :: "etcd_op list \<Rightarrow> mem_store \<Rightarrow> kvs option list \<times> mem_store" where
  "mem_run [] w = ([], w)"
| "mem_run (OpPut k v l # xs) w = (let (rs, w') = mem_run xs (mem_put k v l w) in (None # rs, w'))"
| "mem_run (OpGet k # xs) w = (let (rs, w') = mem_run xs w in (Some (mem_entry w k) # rs, w'))"

definition lease_known :: "mem_store \<Rightarrow> etcd_op \<Rightarrow> bool" where
  "lease_known w x = (case x of OpPut k v l \<Rightarrow> l = 0 \<or> l \<in> set (ms_live w) | OpGet k \<Rightarrow> True)"

definition mem_holds :: "mem_store \<Rightarrow> etcd_cmp \<Rightarrow> bool" where
  "mem_holds w x = (case x of CreateRevisionEq k n \<Rightarrow>
     n = (case map_of (ms_kvs w) k of None \<Rightarrow> 0 | Some _ \<Rightarrow> 1))"

definition mem_next :: "mem_store \<Rightarrow> int" where
  "mem_next w = foldr max (ms_granted w) 0 + 1"

definition mem_etcd :: "mem_store etcd_ops" where
  "mem_etcd = \<lparr>
     et_New = (\<lambda>hs. ret None), et_Close = ret None,
     et_Get = (\<lambda>ctx k. gets (\<lambda>w. (mem_entry w k, None))),
     et_GetPrefix = (\<lambda>ctx p. gets (\<lambda>w. (concat (map (mem_entry w)
        (filter (\<lambda>k. has_prefix k p) (remdups (map fst (ms_kvs w))))), None))),
     et_Put = (\<lambda>ctx k v. State (\<lambda>w. (None, mem_put k v 0 w))),
     et_Delete = (\<lambda>ctx k. State (\<lambda>w. (None, w\<lparr>ms_kvs := filter (\<lambda>e. fst e \<noteq> k) (ms_kvs w)\<rparr>))),
     et_Grant = (\<lambda>ctx ttl. State (\<lambda>w. ((mem_next w, None),
        w\<lparr>ms_live := mem_next w # ms_live w, ms_granted := mem_next w # ms_granted w\<rparr>))),
     et_KeepAliveOnce = (\<lambda>ctx l. gets (\<lambda>w. if ctx \<noteq> None then ctx
        else if l \<in> set (ms_live w) then None else Some (GoErr ''lease not found''))),
     et_KeepAlive = (\<lambda>ctx l. ret ()),
     et_Txn = (\<lambda>ctx cs xs ys. State (\<lambda>w.
        let ok = list_all (mem_holds w) cs; zs = (if ok then xs else ys) in
        if list_all (lease_known w) zs
        then (let (rs, w') = mem_run zs w in (((ok, rs), None), w'))
        else (((False, []), Some (GoErr ''lease not found'')), w)))\<rparr>"

lemma mem_entry_view: "mem_entry w k = entry_of (mem_view w) k"
  by (auto simp: mem_entry_def entry_of_def mem_view_def split: option.split)

lemma mem_put_view: "l = 0 \<or> l \<in> set (ms_live w) \<Longrightarrow> view_put k v l (mem_view w) (mem_view (mem_put k v l w))"
  by (auto simp: view_put_def mem_view_def mem_put_def intro!: exI [of _ 1])

lemma lease_known_put [simp]: "lease_known (mem_put k v l w) = lease_known w"
  by (simp add: fun_eq_iff lease_known_def mem_put_def split: etcd_op.split)

lemma mem_run_ops:
  "list_all (lease_known w) zs \<Longrightarrow> mem_run zs w = (rs, w') \<Longrightarrow> ops_steps zs rs (mem_view w) (mem_view w')"
proof (induction zs w arbitrary: rs rule: mem_run.induct)
  case (2 k v l xs w)
  obtain qs where q: "mem_run xs (mem_put k v l w) = (qs, w')" "rs = None # qs"
    using 2(3) by (auto split: prod.splits)
  have "view_put k v l (mem_view w) (mem_view (mem_put k v l w))"
    using 2(2) by (intro mem_put_view) (simp add: lease_known_def)
  moreover have "ops_steps xs qs (mem_view (mem_put k v l w)) (mem_view w')"
    using 2 q by simp
  ultimately show ?case using q(2) by auto
qed (auto simp: mem_entry_view split: prod.splits)

lemma mem_holds_view: "mem_holds w = cmp_holds (mem_view w)"
  by (auto simp: fun_eq_iff mem_holds_def cmp_holds_def mem_view_def split: etcd_cmp.split option.split)

lemma mem_next_fresh: "mem_next w \<notin> set (ms_granted w)" "mem_next w > 0"
proof -
  have *: "x \<in> set xs \<Longrightarrow> x \<le> foldr max xs 0" "0 \<le> foldr max xs (0 :: int)" for x and xs :: "int list"
    by (induction xs) auto
  show "mem_next w \<notin> set (ms_granted w)"
    using *(1) [of "mem_next w" "ms_granted w"] by (auto simp: mem_next_def)
  show "mem_next w > 0"
    using *(2) [of "ms_granted w"] by (simp add: mem_next_def)
qed

lemma mem_prefix:
  "set (concat (map (mem_entry w) (filter (\<lambda>k. has_prefix k p) (remdups (map fst (ms_kvs w)))))) =
     {(k, v). has_prefix k p \<and> (\<exists>l cr. kv (mem_view w) k = Some (v, l, cr))}"
  (is "?L = ?R")
proof -
  have "(k, v) \<in> ?L \<longleftrightarrow> (k, v) \<in> ?R" for k v
  proof (cases "map_of (ms_kvs w) k")
    case None
    then have "k \<notin> fst ` set (ms_kvs w)" by (simp add: map_of_eq_None_iff)
    then show ?thesis using None by (auto simp: mem_entry_def mem_view_def split: option.splits)
  next
    case (Some e)
    then have "k \<in> fst ` set (ms_kvs w)" by (force dest: map_of_SomeD)
    then show ?thesis using Some
      by (cases e) (auto simp: mem_entry_def mem_view_def split: option.splits)
  qed
  then show ?thesis by (simp only: set_eq_iff split_paired_All) blast
qed

lemma map_of_without: "map_of (filter (\<lambda>e. fst e \<noteq> k) xs) = (map_of xs)(k := None)"
  by (induction xs) (auto simp: fun_eq_iff)

lemma mem_delete:
  "mem_view (w\<lparr>ms_kvs := filter (\<lambda>e. fst e \<noteq> k) (ms_kvs w)\<rparr>) = (mem_view w)\<lparr>kv := (kv (mem_view w))(k := None)\<rparr>"
  by (simp add: mem_view_def fun_eq_iff map_of_without)

lemma mem_grant:
  "view_grant {mem_next w} (mem_view w) (mem_view (w\<lparr>ms_live := mem_next w # ms_live w,
     ms_granted := mem_next w # ms_granted w\<rparr>))"
  using mem_next_fresh [of w] by (simp add: view_grant_def mem_view_def)

lemma mem_txn_law: "laws_txn mem_etcd mem_view"
  unfolding laws_txn_def
proof (intro allI)
  fix ctx cs xs ys w
  let ?ok = "list_all (cmp_holds (mem_view w)) cs"
  obtain rs w' where run: "mem_run (if ?ok then xs else ys) w = (rs, w')"
    by (metis prod.exhaust)
  show "let w' = exec_of (et_Txn mem_etcd ctx cs xs ys) w; ok = ?ok in
        (\<forall>b rs. val_of (et_Txn mem_etcd ctx cs xs ys) w = ((b, rs), None) \<longrightarrow>
           b = ok \<and> ops_steps (if b then xs else ys) rs (mem_view w) (mem_view w')) \<and>
        (snd (val_of (et_Txn mem_etcd ctx cs xs ys) w) \<noteq> None \<longrightarrow>
           mem_view w' = mem_view w \<or> (\<exists>rs. ops_steps (if ok then xs else ys) rs (mem_view w) (mem_view w')))"
    using mem_run_ops [OF _ run]
    by (cases "list_all (lease_known w) (if ?ok then xs else ys)")
       (auto simp: mem_etcd_def mem_holds_view run Let_def)
qed

lemma mem_laws: "etcd_laws mem_etcd mem_view"
proof -
  have "laws_read mem_etcd mem_view"
    unfolding laws_read_def mem_prefix [symmetric] by (simp add: mem_etcd_def mem_entry_view)
  moreover have "laws_write mem_etcd mem_view"
    by (simp add: laws_write_def mem_etcd_def mem_put_view mem_delete)
  moreover have "laws_lease mem_etcd mem_view"
    using mem_grant by (auto simp: laws_lease_def mem_etcd_def) (auto simp: mem_view_def split: if_splits)
  moreover have "laws_conn mem_etcd mem_view"
    by (simp add: laws_conn_def mem_etcd_def)
  ultimately show ?thesis by (simp add: etcd_laws_def mem_txn_law)
qed


subsection \<open>A run of two nodes\<close>

definition demo_codec :: member_codec where
  "demo_codec = \<lparr>jEncode = (\<lambda>r. (mr_ID r, None)),
     jDecode = (\<lambda>d. Some \<lparr>mr_ID = d, mr_Name = [], mr_Database = [], mr_DBHost = [], mr_DBPort = 0\<rparr>)\<rparr>"

definition demo_etcd_conf :: "string \<Rightarrow> Config" where
  "demo_etcd_conf ep = DefaultConfig\<lparr>Endpoint := ep, Coordination := Some \<lparr>Provider = ''etcd'',
     co_Raft = None, co_Etcd = Some \<lparr>ec_Host = ''e:2379'', ec_Hosts = [], ec_UseProxies = False, ec_TTL = 9\<rparr>\<rparr>\<rparr>"

definition demo_node :: "nat \<Rightarrow> mem_store etcdc" where
  "demo_node i = the (etcd_New (Some (demo_etcd_conf (if i = 0 then ''a:1'' else ''b:1'')))
     \<lparr>ms_kvs = [], ms_live = [], ms_granted = []\<rparr>)"

definition demo_sys :: "mem_store esys" where
  "demo_sys = \<lparr>s_world = \<lparr>ms_kvs = [], ms_live = [], ms_granted = []\<rparr>, s_node = demo_node,
     s_pc = (\<lambda>_. Idle)\<rparr>"

text \<open>Run a method on node \<open>i\<close>, with the point its round has reached then.\<close>

definition demo_run :: "nat \<Rightarrow> (mem_store, 'a) est \<Rightarrow> round_pc \<Rightarrow> mem_store esys \<Rightarrow> mem_store esys" where
  "demo_run i m pc s = put_node s i (exec_of m (node_of s i)) pc"

definition demo_started :: "mem_store esys" where
  "demo_started = demo_run 0 (call (etcd_Start mem_etcd demo_codec None)) Idle demo_sys"

definition demo_wants :: "mem_store esys" where
  "demo_wants = demo_run 0 (keepLease mem_etcd None) WantLease demo_started"

definition demo_leased :: "mem_store esys" where
  "demo_leased = demo_run 0 (grantLease mem_etcd None 9) (HasLease 1) demo_wants"

definition demo_leads :: "mem_store esys" where
  "demo_leads = demo_run 0 (claimLeader mem_etcd None 1) Idle demo_leased"

lemmas demo_defs = demo_run_def demo_started_def demo_wants_def demo_leased_def demo_leads_def
  demo_sys_def demo_node_def demo_codec_def put_node_def node_of_def

lemma demo_key:
  "leaderKey (demo_etcd_conf ep) = ''/service/database/leader''"
  "etcdEndpoints (Some (demo_etcd_conf ep)) = [''e:2379'']"
  "Database (demo_etcd_conf ep) = Some DefaultDatabaseConfig"
  "Endpoint (demo_etcd_conf ep) = ep"
  by (simp_all add: leaderKey_def clusterPrefix_def demo_etcd_conf_def DefaultConfig_def has_suffix_def
      etcdEndpoints_def EffectiveCoordination_def)


lemmas etcd_run_defs = etcd_New_def zero_etcdc_def etcd_Start_def registerMember_def put_record_def
  memberDatabaseEndpoint_def keepLease_def grantLease_def claimLeader_def run_or_err mem_etcd_def mem_put_def
  mem_next_def lease_known_def mem_holds_def drop_lease_def Let_def case_prod_beta

lemma demo_init: "esys_init mem_view ''/service/database/leader'' demo_sys"
  by (simp add: esys_init_def demo_sys_def demo_node_def etcd_New_def demo_key zero_etcdc_def mem_view_def
      view_ok_def)

lemma demo_member_key: "memberKey (demo_etcd_conf ep) x = ''/service/database/members/'' @ x"
  by (simp add: memberKey_def clusterPrefix_def demo_etcd_conf_def DefaultConfig_def has_suffix_def)

lemma demo_keep: "run_state (keepLease mem_etcd None) (node_of demo_started 0) =
    (False, node_of demo_started 0)"
  by (simp add: demo_defs etcd_run_defs demo_key)

lemma demo_grant: "val_of (grantLease mem_etcd None 9) (node_of demo_wants 0) = Some 1"
  by (simp add: demo_defs etcd_run_defs demo_key)

lemma demo_leads_view:
  "e_isLeader (s_node demo_leads 0)" "e_leaseID (s_node demo_leads 0) = 1"
  "e_localID (s_node demo_leads 0) = ''a:1''" "e_client (s_node demo_leads 0)"
  "live (mem_view (s_world demo_leads)) = {1}"
  "kv (mem_view (s_world demo_leads)) ''/service/database/leader'' = Some (''a:1'', 1, 1)"
  by (simp_all add: demo_defs etcd_run_defs demo_key demo_member_key mem_view_def)


lemma demo_reach:
  "esys_reach mem_etcd demo_codec mem_view ''/service/database/leader'' demo_leased"
  "esys_reach mem_etcd demo_codec mem_view ''/service/database/leader'' demo_leads"
  "esys_step mem_etcd demo_codec mem_view (By 0) demo_leased demo_leads"
proof -
  let ?S = "esys_step mem_etcd demo_codec mem_view"
  let ?R = "esys_reach mem_etcd demo_codec mem_view ''/service/database/leader''"
  have pc: "s_pc demo_sys 0 = Idle" "s_pc demo_started 0 = Idle" "s_pc demo_wants 0 = WantLease"
      "s_pc demo_leased 0 = HasLease 1"
    by (simp_all add: demo_sys_def demo_started_def demo_wants_def demo_leased_def demo_run_def put_node_def)
  have 1: "?S (By 0) demo_sys demo_started"
    using esys_step.member [OF member_op.intros(4), of mem_etcd demo_codec None demo_sys 0] pc(1)
    by (auto simp: demo_started_def demo_run_def)
  have 2: "?S (By 0) demo_started demo_wants"
    using esys_step.renew [OF pc(2) demo_keep] by (simp add: demo_wants_def demo_run_def demo_keep)
  have 3: "?S (By 0) demo_wants demo_leased"
    using esys_step.grant [OF pc(3), of mem_etcd None 9 "Some 1"] demo_grant
    by (auto simp: demo_leased_def demo_run_def prod_eq_iff)
  show 4: "?S (By 0) demo_leased demo_leads"
    unfolding demo_leads_def demo_run_def
    by (rule esys_step.claim [OF pc(4) prod.collapse [symmetric]])
  show "?R demo_leased"
    using esys_reach.start [OF demo_init] 1 2 3 by (blast intro: esys_reach.step)
  then show "?R demo_leads"
    using 4 by (blast intro: esys_reach.step)
qed


subsection \<open>The lock\<close>

type_synonym lock = "(string \<times> int) option"

text \<open>
  The specification: a node takes the lock in its own name when it is free, and only the expiry
  of the lease it is held on frees it.
\<close>

inductive lock_step :: "(nat \<Rightarrow> string) \<Rightarrow> lease_event \<Rightarrow> lock \<Rightarrow> lock \<Rightarrow> bool" for name where
  lock_keep: "lock_step name e a a"
| lock_take: "lock_step name (By i) None (Some (name i, l))"
| lock_free: "lock_step name (Expire l) (Some (h, l)) None"

definition lock_of :: "('w \<Rightarrow> etcd_view) \<Rightarrow> string \<Rightarrow> 'w esys \<Rightarrow> lock" where
  "lock_of V K s = map_option (\<lambda>(v, l, cr). (v, l)) (kv (V (s_world s)) K)"

lemma key_step_lock:
  "key_step V K e s t \<Longrightarrow> lock_step (\<lambda>i. e_localID (s_node s i)) e (lock_of V K s) (lock_of V K t)"
  by (cases e) (auto simp: key_step_def lock_of_def Let_def intro: lock_step.intros)

text \<open>
  C10. The leader key refines the lock: in every state that nodes reach by starting,
  renewing, granting, claiming, changing members, stopping, crashing and losing leases in any
  order, with any of these calls failing, a step of a node leaves the key alone or creates it with
  that node's own identifier, and only the expiry of its lease removes it.
\<close>

theorem leader_key_refines_lock:
  assumes "etcd_laws E V" "esys_reach E J V K s" "esys_step E J V e s t"
  shows "lock_step (\<lambda>i. e_localID (s_node s i)) e (lock_of V K s) (lock_of V K t)"
  using esys_step_ok [OF assms(1) esys_reach_ok [OF assms(1,2)] assms(3)] key_step_lock by blast

theorem leader_key_refines_lock_witness:
  "lock_step (\<lambda>i. e_localID (s_node demo_leased i)) (By 0)
     (lock_of mem_view ''/service/database/leader'' demo_leased)
     (lock_of mem_view ''/service/database/leader'' demo_leads) \<and>
   lock_of mem_view ''/service/database/leader'' demo_leads = Some (''a:1'', 1)"
  using leader_key_refines_lock [OF mem_laws demo_reach(1,3)] by (simp add: lock_of_def demo_leads_view)

lemma one_holder:
  assumes "etcd_laws E V" "esys_reach E J V K s"
    and "e_isLeader (s_node s i)" "e_leaseID (s_node s i) \<in> live (V (s_world s))"
    and "e_isLeader (s_node s j)" "e_leaseID (s_node s j) \<in> live (V (s_world s))"
  shows "lock_of V K s = Some (e_localID (s_node s i), e_leaseID (s_node s i)) \<and>
    e_localID (s_node s j) = e_localID (s_node s i) \<and> e_leaseID (s_node s j) = e_leaseID (s_node s i)"
proof -
  have "owns K (V (s_world s)) (s_node s n)" for n
    using esys_reach_ok [OF assms(1,2)] by (simp add: esys_ok_def)
  from this [of i] this [of j] assms(3-6) show ?thesis
    by (auto simp: owns_def lock_of_def)
qed

text \<open>
  C12. Two nodes that both take themselves for the leader while their leases are
  live have the same identifier and the same lease, and the leader key holds exactly these: with
  distinct endpoints there is at most one such node.
\<close>

theorem one_live_leader:
  assumes "etcd_laws E V" "esys_reach E J V K s"
    and "e_isLeader (s_node s i)" "e_leaseID (s_node s i) \<in> live (V (s_world s))"
    and "e_isLeader (s_node s j)" "e_leaseID (s_node s j) \<in> live (V (s_world s))"
  shows "lock_of V K s = Some (e_localID (s_node s i), e_leaseID (s_node s i)) \<and>
    e_localID (s_node s j) = e_localID (s_node s i) \<and> e_leaseID (s_node s j) = e_leaseID (s_node s i)"
  by (rule one_holder [OF assms])

theorem one_live_leader_witness:
  "lock_of mem_view ''/service/database/leader'' demo_leads = Some (''a:1'', 1)"
  using one_live_leader [OF mem_laws demo_reach(2), of 0 0] by (simp add: demo_leads_view)

text \<open>
  When one renewal of a leader fails although its lease is still live, the round ends
  with the node no longer leader and with the leader key still its own, on the old lease, which
  keeps every node, itself included, from taking the lead while that lease lives.
\<close>

lemma lost_renewal_orphans:
  assumes laws: "etcd_laws E V" and reach: "esys_reach E J V K s"
    and lead: "e_client (s_node s i)" "e_isLeader (s_node s i)"
    and lease: "e_leaseID (s_node s i) \<in> live (V (s_world s))"
    and fails: "val_of (et_KeepAliveOnce E ctx (e_leaseID (s_node s i))) (s_world s) \<noteq> None"
  shows "let d = exec_of (tryAcquireLeader E ctx ttl) (node_of s i) in
     \<not> e_isLeader d \<and> (\<exists>cr. kv (V (e_world d)) K = Some (e_localID (s_node s i), e_leaseID (s_node s i), cr))"
proof -
  let ?c = "node_of s i" and ?a = "e_leaseID (s_node s i)"
  have ok: "esys_ok V K s" by (rule esys_reach_ok [OF laws reach])
  then have view: "view_ok (V (s_world s))" and own: "owns K (V (s_world s)) (s_node s i)"
    and "?a \<noteq> 0"
    using lead lease by (auto simp: esys_ok_def view_ok_def)
  obtain cr where key: "kv (V (s_world s)) K = Some (e_localID (s_node s i), ?a, cr)"
    using own lead lease by (auto simp: owns_def)
  obtain er where er: "val_of (et_KeepAliveOnce E ctx ?a) (s_world s) = Some er" using fails by auto
  define c1 where "c1 = exec_of (keepLease E ctx) ?c"
  have k: "run_state (keepLease E ctx) ?c = (False, c1)" and c1: "\<not> e_isLeader c1" "e_conf c1 = e_conf (s_node s i)"
    using lead \<open>?a \<noteq> 0\<close> er by (simp_all add: c1_def keepLease_def drop_lease_def prod_eq_iff)
  have v1: "V (e_world c1) = V (s_world s)"
    using keepLease_eff(1) [OF laws, of ctx ?c] by (simp add: c1_def)
  define c2 where "c2 = exec_of (grantLease E ctx ttl) c1"
  obtain ls where g: "view_grant ls (V (s_world s)) (V (e_world c2))"
    using grantLease_eff(1) [OF laws, of c1 ctx ttl] v1 by (auto simp: c2_def)
  have c2: "\<not> e_isLeader c2" "e_conf c2 = e_conf (s_node s i)"
    using grantLease_eff(2) [OF laws, of c1 ctx ttl] c1 by (auto simp: c2_def same_node_def)
  have v2: "view_ok (V (e_world c2))" "kv (V (e_world c2)) K = kv (V (s_world s)) K"
    using moves_grant [OF view g] g view by (auto simp: moves_def view_grant_def)
  obtain conf where conf: "e_conf c2 = Some conf" "leaderKey conf = K"
    using ok c2(2) by (auto simp: esys_ok_def wired_def)
  have "\<not> e_isLeader (exec_of (claimLeader E ctx l) c2) \<and>
      V (e_world (exec_of (claimLeader E ctx l) c2)) = V (e_world c2)" for l
    by (cases rule: claimLeader_cases [OF laws v2(1) conf, of ctx l, case_names err won lost])
       (use c2(1) key v2(2) in \<open>auto simp: same_node_def dest: arg_cong [of _ _ e_isLeader]\<close>)
  then show ?thesis
    using c2(1) key v2(2) by (simp add: tryAcquireLeader_def k c2_def case_prod_beta split: option.split)
qed

lemma lost_renewal_orphans_example:
  "\<not> e_isLeader (exec_of (tryAcquireLeader mem_etcd (Some (GoErr ''timeout'')) 9) (node_of demo_leads 0))"
  using lost_renewal_orphans [OF mem_laws demo_reach(2), of 0 "Some (GoErr ''timeout'')" 9]
  by (simp add: demo_leads_view mem_etcd_def Let_def)



subsection \<open>The leader's database endpoint\<close>

lemma leader_endpoint_found:
  assumes "m \<in> set ms" "names m"
    and names: "\<And>x. names x \<longleftrightarrow> ID x = leader \<or> mb_Name x = leader"
    and ep: "\<And>x. x \<in> set ms \<Longrightarrow> names x \<Longrightarrow>
       meta_get (mb_Meta x) ''db_host'' = [] \<or> (meta_get (mb_Meta x) ''db_host'' = host \<and>
         fst (atoi (meta_get (mb_Meta x) ''db_port'')) = port)"
    and m: "meta_get (mb_Meta m) ''db_host'' = host" "host \<noteq> []" "port > 0"
  shows "leaderDatabaseEndpoint ms leader = \<lparr>ep_Host = host, ep_Port = port\<rparr>"
  using assms(1,2) ep
proof (induction ms)
  case (Cons a ms)
  show ?case
  proof (cases "names a \<and> meta_get (mb_Meta a) ''db_host'' \<noteq> []")
    case True
    then show ?thesis using Cons.prems(3) [of a] m by (auto simp: names Let_def)
  next
    case False
    then have "m \<in> set ms" using Cons.prems(1,2) m by auto
    then show ?thesis using False Cons.IH Cons.prems(2,3) by (auto simp: names Let_def)
  qed
qed simp

text \<open>
  A node that has registered itself and holds the leader key is found by every view taken then,
  with the database endpoint of its configuration, when no other member record carries an
  endpoint under its identifier.
\<close>

lemma registered_endpoint_found:
  assumes laws: "etcd_laws E V" and c: "e_client c" "e_conf c = Some conf"
    and own: "x = \<lparr>mr_ID = e_localID c, mr_Name = e_memberName c, mr_Database = e_dbType c,
      mr_DBHost = host, mr_DBPort = port\<rparr>"
    and codec: "jEncode J x = (d, None)" "jDecode J d = Some x"
    and ep: "memberDatabaseEndpoint c = (host, port)" "host \<noteq> []" "0 < port" "port < 2 ^ 63"
    and key: "kv (V (e_world c)) (leaderKey conf) = Some (e_localID c, l, cr)"
    and others: "\<And>k v l cr y. k \<noteq> memberKey conf (e_memberName c) \<Longrightarrow>
      has_prefix k (memberPrefix conf) \<Longrightarrow> kv (V (e_world c)) k = Some (v, l, cr) \<Longrightarrow>
      jDecode J v = Some y \<Longrightarrow> mr_ID y = e_localID c \<or> mr_Name y = e_localID c \<Longrightarrow> mr_DBHost y = []"
    and reg: "run_state (registerMember E J ctx) c = (None, c1)"
    and view: "val_of (etcd_ClusterView E J ctx') c1 = (view, None)"
  shows "LeaderID view = e_localID c \<and> LeaderDatabase view = \<lparr>ep_Host = host, ep_Port = port\<rparr>"
proof -
  let ?k = "memberKey conf (e_memberName c)"
  have put: "val_of (et_Put E ctx ?k d) (e_world c) = None"
    and c1: "c1 = c\<lparr>e_world := exec_of (et_Put E ctx ?k d) (e_world c)\<rparr>"
    using reg by (simp_all add: registerMember_def ep(1) c own [symmetric] put_record_def codec(1))
  obtain r where V1: "V (e_world c1) = (V (e_world c))\<lparr>kv := (kv (V (e_world c)))(?k \<mapsto> (d, 0, r))\<rparr>"
    using law_put(2) [OF laws put] by (auto simp: c1 view_put_def)
  let ?get = "et_Get E ctx' (leaderKey conf)" and ?w1 = "exec_of (et_Get E ctx' (leaderKey conf)) (e_world c1)"
  let ?all = "et_GetPrefix E ctx' (memberPrefix conf)"
  have cl: "e_client c1" "e_conf c1 = Some conf" using c by (simp_all add: c1)
  obtain found where g: "val_of ?get (e_world c1) = (found, None)"
    using view cl by (cases "val_of ?get (e_world c1)"; cases "snd (val_of ?get (e_world c1))")
      (auto simp: etcd_ClusterView_def)
  have found: "found = [(leaderKey conf, e_localID c)]"
    using law_get(2) [OF laws g] key member_leader_keys [OF refl [of "leaderKey conf"], of "e_memberName c"]
    by (auto simp: entry_of_def V1 split: if_splits)
  obtain recs where p: "val_of ?all ?w1 = (recs, None)"
    using view cl g by (cases "val_of ?all ?w1"; cases "snd (val_of ?all ?w1)")
      (auto simp: etcd_ClusterView_def listMembers_def Let_def)
  let ?ms = "map member_of_record (List.map_filter (\<lambda>(k, v). jDecode J v) recs)"
  have v: "LeaderID view = e_localID c" "LeaderDatabase view = leaderDatabaseEndpoint ?ms (e_localID c)"
    using view cl g p by (auto simp: etcd_ClusterView_def listMembers_def Let_def found)
  have recs: "(k, v) \<in> set recs \<longleftrightarrow> has_prefix k (memberPrefix conf) \<and>
      (\<exists>l cr. kv (V (e_world c1)) k = Some (v, l, cr))" for k v
    using law_get(4) [OF laws p] law_get(1) [OF laws, of ctx' "leaderKey conf" "e_world c1"] by auto
  have in_ms: "m \<in> set ?ms \<longleftrightarrow> (\<exists>k v y. (k, v) \<in> set recs \<and> jDecode J v = Some y \<and> m = member_of_record y)" for m
    by (force simp: map_filter_def)
  have "leaderDatabaseEndpoint ?ms (e_localID c) = \<lparr>ep_Host = host, ep_Port = port\<rparr>"
  proof (rule leader_endpoint_found [where m = "member_of_record x" and
        names = "\<lambda>y. ID y = e_localID c \<or> mb_Name y = e_localID c"])
    show "member_of_record x \<in> set ?ms"
      unfolding in_ms recs V1 using memberKey_prefix codec(2) by force
    show "meta_get (mb_Meta y) ''db_host'' = [] \<or> (meta_get (mb_Meta y) ''db_host'' = host \<and>
         fst (atoi (meta_get (mb_Meta y) ''db_port'')) = port)"
      if "y \<in> set ?ms" "ID y = e_localID c \<or> mb_Name y = e_localID c" for y
    proof -
      obtain k v z where y: "(k, v) \<in> set recs" "jDecode J v = Some z" "y = member_of_record z"
        using \<open>y \<in> set ?ms\<close> unfolding in_ms by blast
      show ?thesis
      proof (cases "k = ?k")
        case True
        then have "z = x" using y recs codec(2) by (auto simp: V1)
        then show ?thesis using ep atoi_itoa by (simp add: y own member_of_record_def meta_get_def)
      next
        case False
        then have "mr_DBHost z = []"
          using others [of k v _ _ z] y recs that(2) by (auto simp: V1 member_of_record_def)
        then show ?thesis by (simp add: y member_of_record_def meta_get_def)
      qed
    qed
  qed (use ep in \<open>simp_all add: own member_of_record_def meta_get_def\<close>)
  then show ?thesis using v by simp
qed

text \<open>\<open>Stop\<close> leaves the claim: a stopped coordinator still answers that it is the leader.\<close>

lemma stop_keeps_claim: "e_isLeader (exec_of (etcd_Stop E) c) = e_isLeader c"
  by (simp add: etcd_Stop_def case_prod_beta)

text \<open>A client is only opened on a configuration.\<close>

lemma start_has_conf:
  assumes "e_client c \<longrightarrow> e_conf c \<noteq> None"
  shows "e_client (exec_of (etcd_Start E J ctx) c) \<longrightarrow> e_conf (exec_of (etcd_Start E J ctx) c) \<noteq> None"
proof (cases "e_conf c")
  case None
  have "etcdEndpoints None = []"
    by (simp add: etcdEndpoints_def EffectiveCoordination_def DefaultCoordinationConfig_def
        DefaultElectionConfig_def DefaultEtcdConfig_def Let_def)
  then show ?thesis using None assms by (simp add: etcd_Start_def)
next
  case (Some conf)
  have "same_node a (exec_of (registerMember E J ctx) a)" for a
    by (simp add: registerMember_def case_prod_beta Let_def)
  note this [unfolded same_node_def]
  then show ?thesis using Some
    by (auto simp: etcd_Start_def run_or_err Let_def case_prod_beta split: option.split)
qed

end
