(* ===== verification/HaRaft.thy ===== *)
theory HaRaft
  imports Ha
begin

section \<open>Reconciling a Raft node with its MySQL\<close>

text \<open>
  The HA layer as the server wires it for MySQL: the Raft adapter is the coordinator, the MySQL
  driver works on the MySQL that the Raft node also uses, hook commands run on the host. The
  interpretation of \<open>reconciled\<close> discharges the contract for the code's model, and the
  properties of the reconciler and of the hooks rest on it.
\<close>

subsection \<open>Wiring\<close>

definition mgr_on_raft :: "'w mysql mgr_ops \<Rightarrow> 'w raft mgr_ops" where
  "mgr_on_raft g = \<lparr>IsMGRMode = on_mysql (IsMGRMode g),
     MGRPrimaryPhase1Done = (\<lambda>ctx. on_mysql (MGRPrimaryPhase1Done g ctx)),
     MGRClusterWritableReady = (\<lambda>ctx. on_mysql (MGRClusterWritableReady g ctx)),
     ApplyPrimaryMGRPhase2 = (\<lambda>ctx. on_mysql (ApplyPrimaryMGRPhase2 g ctx)),
     MGRReplicaJoined = (\<lambda>ctx. on_mysql (MGRReplicaJoined g ctx))\<rparr>"

definition driver_on_raft :: "'w mysql driver_ops \<Rightarrow> 'w raft driver_ops" where
  "driver_on_raft D = \<lparr>EngineType = EngineType D, Promotable = (\<lambda>ctx. on_mysql (Promotable D ctx)),
     ReplicationLagBytes = (\<lambda>ctx. on_mysql (ReplicationLagBytes D ctx)),
     ApplyPrimary = (\<lambda>ctx. on_mysql (ApplyPrimary D ctx)),
     ApplyReplica = (\<lambda>ctx p. on_mysql (ApplyReplica D ctx p)),
     Demote = (\<lambda>ctx. on_mysql (Demote D ctx)), Status = (\<lambda>ctx. on_mysql (Status D ctx)),
     SetupBootstrap = (\<lambda>ctx. on_mysql (SetupBootstrap D ctx)),
     MGRLifecycle = map_option mgr_on_raft (MGRLifecycle D)\<rparr>"

text \<open>A command of the host, which does not touch the objects of the process.\<close>

definition host_command :: "(string \<Rightarrow> string list \<Rightarrow> 'w \<Rightarrow> (string \<times> gerror option) \<times> 'w) \<Rightarrow> 'w raft command" where
  "host_command sh c args = on_mysql (on_world (State (sh c args)))"

definition raft_open :: "'w raft \<Rightarrow> bool" where
  "raft_open r = mysql_open (r_mysql r)"

abbreviation reconcile_raft where
  "reconcile_raft E c rounds a sh \<equiv>
     RunOnce (raft_coord a) (driver_on_raft (mysql_driver_ops E c rounds)) (host_command sh)"

lemma on_raft_sel [simp]:
  "Promotable (driver_on_raft D) ctx = on_mysql (Promotable D ctx)"
  "ApplyPrimary (driver_on_raft D) ctx = on_mysql (ApplyPrimary D ctx)"
  "ApplyReplica (driver_on_raft D) ctx p = on_mysql (ApplyReplica D ctx p)"
  "Demote (driver_on_raft D) ctx = on_mysql (Demote D ctx)"
  "Status (driver_on_raft D) ctx = on_mysql (Status D ctx)"
  "MGRLifecycle (driver_on_raft D) = map_option mgr_on_raft (MGRLifecycle D)"
  "IsMGRMode (mgr_on_raft g) = on_mysql (IsMGRMode g)"
  "MGRReplicaJoined (mgr_on_raft g) ctx = on_mysql (MGRReplicaJoined g ctx)"
  by (simp_all add: driver_on_raft_def mgr_on_raft_def)

lemma raft_open_on_mysql [simp]: "raft_open (exec_of (on_mysql k) r) = mysql_open (exec_of k (r_mysql r))"
  by (simp add: raft_open_def run_on_mysql)

lemma val_on_mysql: "val_of (on_mysql k) r = val_of k (r_mysql r)"
  by (simp add: run_on_mysql)

lemma raft_coord_sel [simp]:
  "IsLeader (raft_coord a) = raft_IsLeader" "LocalID (raft_coord a) = ret (localID a)"
  "ClusterViewOf (raft_coord a) ctx = raft_ClusterView a ctx"
  by (simp_all add: raft_coord_def)

interpretation raft_reconciled: reconciled
  "driver_on_raft (mysql_driver_ops E c rounds)" raft_open "raft_coord a" "host_command sh"
  for E :: "'w dbenv" and c rounds a sh
proof unfold_locales
  fix ctx and d :: "'w raft" and h
  let ?D = "mysql_driver_ops E c rounds"
  assume "val_of (Status (driver_on_raft ?D) ctx) d = (h, None)"
  then have h: "val_of (Status ?D ctx) (r_mysql d) = (h, None)" by (simp only: on_raft_sel val_on_mysql)
  show "Writable h = raft_open d"
    using mysql_driver.status_reports [OF h] by (simp add: raft_open_def)
  show "HealthRole h = RolePrimary \<Longrightarrow> Writable h"
    using mysql_driver.status_role [OF h] by simp
next
  fix ctx and d :: "'w raft"
  let ?D = "mysql_driver_ops E c rounds"
  show "raft_open (exec_of (Status (driver_on_raft ?D) ctx) d) = raft_open d"
    unfolding on_raft_sel raft_open_on_mysql mysql_driver.status_keeps by (simp add: raft_open_def)
  show "raft_open (exec_of (Promotable (driver_on_raft ?D) ctx) d) = raft_open d"
    unfolding on_raft_sel raft_open_on_mysql mysql_driver.promotable_keeps by (simp add: raft_open_def)
  show "\<not> raft_open (exec_of (Demote (driver_on_raft ?D) ctx) d)"
    if "val_of (Demote (driver_on_raft ?D) ctx) d = None"
    using that mysql_driver.demote_closes unfolding on_raft_sel raft_open_on_mysql val_on_mysql by blast
  show "raft_open d" if "raft_open (exec_of (Demote (driver_on_raft ?D) ctx) d)"
    using that mysql_driver.demote_never_opens unfolding on_raft_sel raft_open_on_mysql
    unfolding raft_open_def by blast
next
  fix ctx p and d :: "'w raft"
  assume "raft_open (exec_of (ApplyReplica (driver_on_raft (mysql_driver_ops E c rounds)) ctx p) d)"
  then show "raft_open d"
    using mysql_driver.replica_never_opens unfolding on_raft_sel raft_open_on_mysql
    unfolding raft_open_def by blast
next
  fix g ctx and d :: "'w raft"
  assume "MGRLifecycle (driver_on_raft (mysql_driver_ops E c rounds)) = Some g"
  then obtain g' where g: "g = mgr_on_raft g'" "MGRLifecycle (mysql_driver_ops E c rounds) = Some g'"
    by auto
  show "raft_open (exec_of (MGRReplicaJoined g ctx) d) = raft_open d"
    unfolding g(1) on_raft_sel raft_open_on_mysql mysql_driver.joined_keeps [OF g(2)] by (simp add: raft_open_def)
  show "raft_open (exec_of (IsMGRMode g) d) = raft_open d"
    unfolding g(1) on_raft_sel raft_open_on_mysql mysql_driver.mgr_mode_keeps [OF g(2)] by (simp add: raft_open_def)
next
  fix ctx and s :: "'w raft" and sh' args
  show "raft_open (exec_of (IsLeader (raft_coord a)) s) = raft_open s"
    by (simp add: raft_IsLeader_def Raft_getState_def)
  show "raft_open (exec_of (LocalID (raft_coord a)) s) = raft_open s" by simp
  show "raft_open (exec_of (ClusterViewOf (raft_coord a) ctx) s) = raft_open s"
    by (simp add: raft_ClusterView_run)
  show "raft_open (exec_of (host_command sh sh' args) s) = raft_open s"
    using keeps_run [OF world_option(1), of "State (sh sh' args)" "r_mysql s"]
    by (simp add: host_command_def raft_open_def run_on_mysql mysql_open_def)
qed


subsection \<open>Fencing\<close>

lemma raft_wants_primary:
  "wants_primary (raft_coord a) D ctx r \<Longrightarrow> r_state (re_sys r) = LEADER \<and> \<not> re_Nofailover r"
  by (simp add: wants_primary_def raft_IsLeader_def Raft_getState_def)

text \<open>
  C8. A reconcile cycle that reports no error leaves the MySQL of a node that it
  does not want as primary closed for writes, whatever MySQL answered and whether or not the
  reconciler may promote. It wants a node as primary exactly if it is the Raft leader, is not tagged
  nofailover, and the driver finds its MySQL promotable when asked in this cycle.
\<close>

theorem reconciler_fences:
  assumes "re_wired r"
    and "\<not> (r_state (re_sys r) = LEADER \<and> \<not> re_Nofailover r \<and> fst (val_of (Driver_Promotable E ctx) (r_mysql (re_sys r))))"
    and "val_of (reconcile_raft E c rounds a sh ctx) r = None"
  shows "my_option (r_mysql (re_sys (exec_of (reconcile_raft E c rounds a sh ctx) r))) \<noteq> MysqlReadwrite"
proof -
  have "\<not> wants_primary (raft_coord a) (driver_on_raft (mysql_driver_ops E c rounds)) ctx r"
    using assms(2)
    by (simp add: wants_primary_def raft_IsLeader_def Raft_getState_def val_on_mysql mysql_driver_ops_def)
  from raft_reconciled.fenced [OF assms(1) this assms(3)] show ?thesis
    by (simp add: raft_open_def mysql_open_def)
qed

definition node_reconciler :: "State \<Rightarrow> unit raft recon" where
  "node_reconciler st = NewReconciler
     ((demo_raft ([''a:1'', ''b:1''], []))\<lparr>r_state := st,
        r_mysql := (NewMysql conf0 1000 ())\<lparr>my_option := MysqlReadwrite\<rparr>\<rparr>) True None []"

definition quiet_shell :: "string \<Rightarrow> string list \<Rightarrow> 'w \<Rightarrow> (string \<times> gerror option) \<times> 'w" where
  "quiet_shell c args w = (([], None), w)"

definition demo_adapter :: adapter where
  "demo_adapter = \<lparr>localID = ''a:1'', memberName = ''n1'', dbType = ''mysql''\<rparr>"

text \<open>On a server where every connection and every SET succeeds, a cycle reports no error.\<close>

lemma quiet_cycle:
  assumes "re_hooks q = None" "\<not> re_applyPromote q" "r_state (re_sys q) \<noteq> LEADER"
  shows "val_of (reconcile_raft too_many_env c rounds a sh None) q = None"
proof -
  have ro: "val_of (Mysql_SetReadOnly too_many_env) m = None" for m
    by (simp add: Mysql_SetReadOnly_def with_db_def Mysql_getDB_def on_world_def case_prod_beta
      MysqlBase_SetReadOnly_def ExecuteSuperQueryListWithTimeout_def executeConnWithTimeout_def
      set_read_only_cmds_def too_many_env_def)
  show ?thesis
    using assms ro
    by (simp add: RunOnce_def computeDesired_def run_on_sys run_on_mysql raft_IsLeader_def Raft_getState_def
      case_prod_beta Let_def RunStopIfConfigured_def applyDesired_def applyDesired_replica_def
      EnsureReplica_def Driver_Status_def Mysql_getOption_def Mysql_getState_def or_err_def Driver_Demote_def
      whenM_def raft_ClusterView_run)
qed

lemma node_reconciler_cycle:
  "val_of (reconcile_raft too_many_env conf0 3 demo_adapter sh None) (node_reconciler FOLLOWER) = None"
  by (rule quiet_cycle) (simp_all add: node_reconciler_def NewReconciler_def)

theorem reconciler_fences_witness:
  "my_option (r_mysql (re_sys (node_reconciler FOLLOWER))) = MysqlReadwrite \<and>
   my_option (r_mysql (re_sys (exec_of (reconcile_raft too_many_env conf0 3 demo_adapter quiet_shell None)
     (node_reconciler FOLLOWER)))) \<noteq> MysqlReadwrite"
  using reconciler_fences [OF _ _ node_reconciler_cycle [of quiet_shell]]
  by (simp add: node_reconciler_def NewReconciler_def)

text \<open>
  A reconciler that may not promote never opens the MySQL for
  writes: what is open after a cycle was open before it.
\<close>

lemma passive_reconciler_never_opens:
  assumes "re_wired r" "\<not> re_applyPromote r" "my_option (r_mysql (re_sys r)) \<noteq> MysqlReadwrite"
  shows "my_option (r_mysql (re_sys (exec_of (reconcile_raft E c rounds a sh ctx) r))) \<noteq> MysqlReadwrite"
  using raft_reconciled.passive_never_opens [OF assms(1,2)] assms(3)
  unfolding raft_open_def mysql_open_def by blast

lemma passive_reconciler_never_opens_example:
  "my_option (r_mysql (re_sys (exec_of (reconcile_raft too_many_env conf0 3 demo_adapter quiet_shell None)
     (NewReconciler ((demo_raft ([''a:1'', ''b:1''], []))\<lparr>r_state := LEADER, r_mysql := NewMysql conf0 1000 ()\<rparr>)
        True None [])))) \<noteq> MysqlReadwrite"
  by (rule passive_reconciler_never_opens)
     (simp_all add: NewReconciler_def NewMysql_def MysqlReadwrite_def)

subsection \<open>Hooks that alternate\<close>

text \<open>
  A host that records the commands it ran. Which runs succeed is any function of the commands
  run so far.
\<close>

definition recording :: "(string list \<Rightarrow> string \<Rightarrow> bool) \<Rightarrow> string list command" where
  "recording ok c args = State (\<lambda>done.
     if ok done (last args) then (([], None), done @ [last args])
     else (([], Some (GoErr ''exit status 1'')), done))"

datatype hook_call = CallPrimary ctx_err | CallReplica ctx_err

primrec hook_step :: "'s command \<Rightarrow> hook_call \<Rightarrow> ('s recon, unit) state" where
  "hook_step cmd (CallPrimary ctx) = call (EnsurePrimary cmd ctx)"
| "hook_step cmd (CallReplica ctx) = call (EnsureReplica cmd ctx)"

text \<open>Whether a start has run that no stop has followed, and that no second start ran before one.\<close>

fun started :: "string \<Rightarrow> string \<Rightarrow> bool \<Rightarrow> string list \<Rightarrow> bool" where
  "started a z on [] = on"
| "started a z on (c # cs) = started a z (if c = a then True else if c = z then False else on) cs"

fun alternating :: "string \<Rightarrow> string \<Rightarrow> bool \<Rightarrow> string list \<Rightarrow> bool" where
  "alternating a z on [] = True"
| "alternating a z on (c # cs) =
     ((c = a \<longrightarrow> \<not> on) \<and> alternating a z (if c = a then True else if c = z then False else on) cs)"

lemma started_snoc:
  "started a z on (xs @ [c]) = (if c = a then True else if c = z then False else started a z on xs)"
  by (induction xs arbitrary: on) auto

lemma alternating_snoc:
  "alternating a z on (xs @ [c]) \<longleftrightarrow> alternating a z on xs \<and> (c = a \<longrightarrow> \<not> started a z on xs)"
  by (induction xs arbitrary: on) auto

definition hooks_ok :: "string \<Rightarrow> string \<Rightarrow> string list recon \<Rightarrow> bool" where
  "hooks_ok a z r \<longleftrightarrow> (\<exists>h. re_hooks r = Some h \<and> onStart h = a \<and> onStop h = z \<and> \<not> skipStartOnce h \<and>
     hk_active h = started a z False (re_sys r)) \<and> alternating a z False (re_sys r)"

lemma hook_run_recording:
  "hookConfigured c \<Longrightarrow> run_state (Hooks_run (recording ok) c) r =
     (if ok (re_sys r) c then (None, r\<lparr>re_sys := re_sys r @ [c]\<rparr>)
      else (Some (GoErr ''exit status 1''), r))"
  by (simp add: Hooks_run_def run_on_sys recording_def case_prod_beta)

lemma hooks_ok_step:
  assumes "hooks_ok a z r" "hookConfigured a" "hookConfigured z" "a \<noteq> z"
  shows "hooks_ok a z (exec_of (hook_step (recording ok) x) r)"
proof (cases x)
  case (CallPrimary ctx)
  then show ?thesis
    using assms
    by (cases ctx)
       (auto simp: hooks_ok_def EnsurePrimary_def or_err_def case_prod_beta hook_run_recording upd_hooks_def
          started_snoc alternating_snoc)
next
  case (CallReplica ctx)
  then show ?thesis
    using assms
    by (cases ctx)
       (auto simp: hooks_ok_def EnsureReplica_def or_err_def case_prod_beta hook_run_recording upd_hooks_def
          started_snoc alternating_snoc runStopIfConfigured_def)
qed

text \<open>
  C29. Over any sequence of calls of the hooks, with any runs of the commands
  failing, the start command is never run a second time without a run of the stop command in
  between, and the hooks are active exactly when a start was run that no stop has followed.
\<close>

theorem hooks_alternate:
  assumes "hookConfigured a" "hookConfigured z" "a \<noteq> z" "re_sys r = []"
    and "re_hooks r = Some (NewPrimaryHooks a z)"
  shows "let s = exec_of (for_each (hook_step (recording ok)) xs) r in
    alternating a z False (re_sys s) \<and>
    val_of Hooks_Active s = started a z False (re_sys s)"
proof -
  have "hooks_ok a z (exec_of (for_each (hook_step (recording ok)) xs) r)" if "hooks_ok a z r" for r
    using that
  proof (induction xs arbitrary: r)
    case (Cons x xs)
    from Cons.IH [OF hooks_ok_step [OF Cons.prems assms(1-3), of ok x]] show ?case
      by (simp add: case_prod_beta)
  qed simp
  from this [of r] assms show ?thesis
    by (auto simp: hooks_ok_def Let_def Hooks_Active_def NewPrimaryHooks_def)
qed

definition recorder :: "string list recon" where
  "recorder = NewReconciler [] True None [WithPrimaryHooks (Some (NewPrimaryHooks ''up'' ''down''))]"

theorem hooks_alternate_witness:
  "alternating ''up'' ''down'' False (re_sys (exec_of (for_each (hook_step (recording (\<lambda>done c. True)))
     [CallPrimary None, CallPrimary None, CallReplica None, CallPrimary None]) recorder))"
  using hooks_alternate [of "''up''" "''down''" recorder "\<lambda>done c. True"
      "[CallPrimary None, CallPrimary None, CallReplica None, CallPrimary None]"]
  by (simp add: recorder_def NewReconciler_def hookConfigured_def trim_space_def is_space_def Let_def)


subsection \<open>Hooks and faults\<close>

text \<open>
  A stop command that fails ends the cycle with its error before the database is demoted: a
  node that lost the leadership keeps an open database for as long as its stop command fails.
\<close>

lemma failing_stop_skips_demotion:
  assumes "re_hooks r = Some h" "hookConfigured (onStop h)"
    and "val_of (on_sys (cmd ''bash'' [''-c'', onStop h])) r = (out, Some err)"
  shows "run_state (applyDesired_replica C D cmd None desired health) r =
     (Some err, exec_of (on_sys (cmd ''bash'' [''-c'', onStop h])) r)"
  using assms
  by (simp add: applyDesired_replica_def EnsureReplica_def runStopIfConfigured_def Hooks_run_def run_or_err
      case_prod_beta)

subsection \<open>Endpoints\<close>

lemma last_colon:
  assumes "CHR '':'' \<notin> set d"
  shows "before_last CHR '':'' (h @ CHR '':'' # d) = h" "after_last CHR '':'' (h @ CHR '':'' # d) = d"
proof -
  have r: "rev (h @ CHR '':'' # d) = rev d @ CHR '':'' # rev h" by simp
  have d: "\<forall>x \<in> set (rev d). x \<noteq> CHR '':''" using assms by auto
  show "before_last CHR '':'' (h @ CHR '':'' # d) = h"
    unfolding before_last_def r using d by (auto simp: dropWhile_append)
  show "after_last CHR '':'' (h @ CHR '':'' # d) = d"
    unfolding after_last_def r using d by (auto simp: takeWhile_append)
qed

lemma SplitHostPort_plain:
  assumes "h \<noteq> []" "set (h @ d) \<inter> {CHR '':'', CHR ''['', CHR '']''} = {}"
  shows "SplitHostPort (h @ CHR '':'' # d) = Some (h, d)"
proof -
  have n: "CHR '':'' \<notin> set d" "CHR '':'' \<notin> set h" "CHR ''['' \<notin> set h" "CHR '']'' \<notin> set h"
    "CHR ''['' \<notin> set d" "CHR '']'' \<notin> set d"
    using assms(2) by auto
  have "hd (h @ CHR '':'' # d) \<noteq> CHR ''[''"
    using assms(1) n(3) by (cases h) auto
  with n show ?thesis
    by (simp add: SplitHostPort_def last_colon Let_def)
qed

text \<open>
  C34. A primary of which only the member id is known, host:port with a host that
  is not empty and has no colon and no bracket and a positive port of 63 bits, becomes the
  replication target with that host and, unless a MySQL port is configured, that port. Without a
  configured port the key of the target is the member id again.
\<close>

theorem endpoint_roundtrip:
  assumes "h \<noteq> []" "set h \<inter> {CHR '':'', CHR ''['', CHR '']''} = {}" "0 < p" "p < 2 ^ 63"
  shows "let m = h @ '':'' @ itoa p; ref = enrichPrimaryRef (zero_PrimaryRef\<lparr>MemberID := m\<rparr>) q in
     MemberID ref = m \<and> pr_Host ref = h \<and> pr_Port ref = (if 0 < q then q else p) \<and>
     (q \<le> 0 \<longrightarrow> replicaTargetKey ref = m)"
proof -
  have "itoa p = dec (nat p)" using assms(3) by (simp add: itoa_def)
  then have digits: "CHR '':'' \<notin> set (itoa p)" "CHR ''['' \<notin> set (itoa p)" "CHR '']'' \<notin> set (itoa p)"
    "itoa p \<noteq> []" "atoi (itoa p) = (p, None)"
    using assms(3,4) dec_no_sep [of _ "nat p"] atoi_dec [of "nat p"] by (auto simp: is_digit_def)
  then have "SplitHostPort (h @ CHR '':'' # itoa p) = Some (h, itoa p)"
    using assms(1,2) by (intro SplitHostPort_plain) auto
  with digits assms(1,3) show ?thesis
    by (simp add: enrichPrimaryRef_def zero_PrimaryRef_def replicaTargetKey_def Let_def)
qed

theorem endpoint_roundtrip_witness:
  "pr_Port (enrichPrimaryRef (zero_PrimaryRef\<lparr>MemberID := ''db1:'' @ itoa 8080\<rparr>) 3306) = 3306"
  using endpoint_roundtrip [of "''db1''" 8080 3306] by (simp add: Let_def)

end
