(* ===== verification/HaNode.thy ===== *)
theory HaNode
  imports PgDriver EtcdLock HaRaft
begin

section \<open>Other wirings of the HA layer: etcd, PostgreSQL\<close>

text \<open>
  A node whose coordinator and database are separate objects, as with the etcd coordinator. The
  database is MySQL or PostgreSQL; hook commands run on the world of the database. The
  interpretations of the reconciler's locales give: with any such coordinator a MySQL node is
  fenced as with Raft, and a PostgreSQL node is never opened by a round in which it is not to be
  primary.
\<close>

record ('c, 'd) node_sys =
  ns_coord :: 'c
  ns_db :: 'd

definition on_coord :: "('c, 'a) state \<Rightarrow> (('c, 'd) node_sys, 'a) state" where
  "on_coord k = zoom ns_coord (\<lambda>c s. s\<lparr>ns_coord := c\<rparr>) k"

definition on_db :: "('d, 'a) state \<Rightarrow> (('c, 'd) node_sys, 'a) state" where
  "on_db k = zoom ns_db (\<lambda>d s. s\<lparr>ns_db := d\<rparr>) k"

definition coord_on_node :: "'c coord_ops \<Rightarrow> ('c, 'd) node_sys coord_ops" where
  "coord_on_node C = \<lparr>LocalID = on_coord (LocalID C), IsLeader = on_coord (IsLeader C),
     ClusterViewOf = (\<lambda>ctx. on_coord (ClusterViewOf C ctx)), AddMember = (\<lambda>ctx i. on_coord (AddMember C ctx i)),
     RemoveMember = (\<lambda>ctx i. on_coord (RemoveMember C ctx i)),
     GetClusterConfig = (\<lambda>ctx. on_coord (GetClusterConfig C ctx)),
     SetClusterConfig = (\<lambda>ctx cfg. on_coord (SetClusterConfig C ctx cfg))\<rparr>"

definition mgr_on_node :: "'d mgr_ops \<Rightarrow> ('c, 'd) node_sys mgr_ops" where
  "mgr_on_node g = \<lparr>IsMGRMode = on_db (IsMGRMode g),
     MGRPrimaryPhase1Done = (\<lambda>ctx. on_db (MGRPrimaryPhase1Done g ctx)),
     MGRClusterWritableReady = (\<lambda>ctx. on_db (MGRClusterWritableReady g ctx)),
     ApplyPrimaryMGRPhase2 = (\<lambda>ctx. on_db (ApplyPrimaryMGRPhase2 g ctx)),
     MGRReplicaJoined = (\<lambda>ctx. on_db (MGRReplicaJoined g ctx))\<rparr>"

definition driver_on_node :: "'d driver_ops \<Rightarrow> ('c, 'd) node_sys driver_ops" where
  "driver_on_node D = \<lparr>EngineType = EngineType D, Promotable = (\<lambda>ctx. on_db (Promotable D ctx)),
     ReplicationLagBytes = (\<lambda>ctx. on_db (ReplicationLagBytes D ctx)),
     ApplyPrimary = (\<lambda>ctx. on_db (ApplyPrimary D ctx)),
     ApplyReplica = (\<lambda>ctx p. on_db (ApplyReplica D ctx p)),
     Demote = (\<lambda>ctx. on_db (Demote D ctx)), Status = (\<lambda>ctx. on_db (Status D ctx)),
     SetupBootstrap = (\<lambda>ctx. on_db (SetupBootstrap D ctx)),
     MGRLifecycle = map_option mgr_on_node (MGRLifecycle D)\<rparr>"

definition db_open :: "('d \<Rightarrow> bool) \<Rightarrow> ('c, 'd) node_sys \<Rightarrow> bool" where
  "db_open op s = op (ns_db s)"

lemma node_runs [simp]:
  "run_state (on_coord k) s = (val_of k (ns_coord s), s\<lparr>ns_coord := exec_of k (ns_coord s)\<rparr>)"
  "run_state (on_db m) s = (val_of m (ns_db s), s\<lparr>ns_db := exec_of m (ns_db s)\<rparr>)"
  by (simp_all add: on_coord_def on_db_def)

lemma db_open_simps [simp]:
  "db_open op (s\<lparr>ns_coord := c\<rparr>) = db_open op s" "db_open op (s\<lparr>ns_db := d\<rparr>) = op d"
  by (simp_all add: db_open_def)

lemma node_sel [simp]:
  "IsLeader (coord_on_node C) = on_coord (IsLeader C)" "LocalID (coord_on_node C) = on_coord (LocalID C)"
  "ClusterViewOf (coord_on_node C) ctx = on_coord (ClusterViewOf C ctx)"
  "Promotable (driver_on_node D) ctx = on_db (Promotable D ctx)"
  "ApplyPrimary (driver_on_node D) ctx = on_db (ApplyPrimary D ctx)"
  "ApplyReplica (driver_on_node D) ctx p = on_db (ApplyReplica D ctx p)"
  "Demote (driver_on_node D) ctx = on_db (Demote D ctx)" "Status (driver_on_node D) ctx = on_db (Status D ctx)"
  "MGRLifecycle (driver_on_node D) = map_option mgr_on_node (MGRLifecycle D)"
  "IsMGRMode (mgr_on_node g) = on_db (IsMGRMode g)"
  "MGRReplicaJoined (mgr_on_node g) ctx = on_db (MGRReplicaJoined g ctx)"
  by (simp_all add: coord_on_node_def driver_on_node_def mgr_on_node_def)

text \<open>The fencing half of the contract carries over to the node.\<close>

lemma node_fence:
  assumes "driver_fence D op"
  shows "driver_fence (driver_on_node D) (db_open op)"
proof
  fix ctx d
  show "db_open op (exec_of (Status (driver_on_node D) ctx) d) = db_open op d"
    "db_open op (exec_of (Promotable (driver_on_node D) ctx) d) = db_open op d"
    using driver_fence.status_keeps [OF assms] driver_fence.promotable_keeps [OF assms]
    by (simp_all add: db_open_def)
  show "\<not> db_open op (exec_of (Demote (driver_on_node D) ctx) d)" if "val_of (Demote (driver_on_node D) ctx) d = None"
    using driver_fence.demote_closes [OF assms] that by simp
  show "db_open op d" if "db_open op (exec_of (Demote (driver_on_node D) ctx) d)"
    using driver_fence.demote_never_opens [OF assms] that by (simp add: db_open_def)
next
  fix ctx p d
  show "db_open op d" if "db_open op (exec_of (ApplyReplica (driver_on_node D) ctx p) d)"
    using driver_fence.replica_never_opens [OF assms] that by (simp add: db_open_def)
next
  fix g ctx d
  assume "MGRLifecycle (driver_on_node D) = Some g"
  then obtain g' where "g = mgr_on_node g'" "MGRLifecycle D = Some g'" by auto
  then show "db_open op (exec_of (MGRReplicaJoined g ctx) d) = db_open op d"
    "db_open op (exec_of (IsMGRMode g) d) = db_open op d"
    using driver_fence.joined_keeps [OF assms] driver_fence.mgr_mode_keeps [OF assms]
    by (simp_all add: db_open_def)
qed

definition mysql_command :: "(string \<Rightarrow> string list \<Rightarrow> 'w \<Rightarrow> (string \<times> gerror option) \<times> 'w) \<Rightarrow>
    ('c, 'w mysql) node_sys command" where
  "mysql_command sh c args = on_db (on_world (State (sh c args)))"

definition pg_command :: "(string \<Rightarrow> string list \<Rightarrow> 'w \<Rightarrow> (string \<times> gerror option) \<times> 'w) \<Rightarrow>
    ('c, 'w pgsql) node_sys command" where
  "pg_command sh c args = on_db (on_pg (State (sh c args)))"

interpretation pg_node: reconciled_fence "driver_on_node (pg_driver_ops E)" "db_open px_writable"
    "coord_on_node C" "pg_command sh"
  for E :: "'w pgenv" and C :: "'c coord_ops" and sh
proof (rule reconciled_fence.intro [OF node_fence [OF pg_driver.driver_fence_axioms]], unfold_locales)
  fix s :: "('c, 'w pgsql) node_sys" and ctx sh' args
  show "db_open px_writable (exec_of (pg_command sh sh' args) s) = db_open px_writable s"
    by (simp add: pg_command_def db_open_def)
qed simp_all

interpretation mysql_node: reconciled "driver_on_node (mysql_driver_ops E c rounds)" "db_open mysql_open"
    "coord_on_node C" "mysql_command sh"
  for E :: "'w dbenv" and c rounds and C :: "'c coord_ops" and sh
proof (intro reconciled.intro reconciled_fence.intro driver_contract.intro
    node_fence [OF mysql_driver.driver_fence_axioms], unfold_locales)
  fix s :: "('c, 'w mysql) node_sys" and ctx sh' args and h
  show "db_open mysql_open (exec_of (mysql_command sh sh' args) s) = db_open mysql_open s"
    using keeps_run [OF world_option(1), of "State (sh sh' args)" "ns_db s"]
    by (simp add: mysql_command_def db_open_def mysql_open_def)
  assume h: "val_of (Status (driver_on_node (mysql_driver_ops E c rounds)) ctx) s = (h, None)"
  then show "Writable h = db_open mysql_open s"
    using mysql_driver.status_reports [of E c rounds ctx "ns_db s" h] by (simp add: db_open_def)
  from h show "HealthRole h = RolePrimary \<Longrightarrow> Writable h"
    using mysql_driver.status_role [of E c rounds ctx "ns_db s" h] by simp
qed simp_all


subsection \<open>etcd with MySQL\<close>

abbreviation reconcile_etcd where
  "reconcile_etcd T J E c rounds sh \<equiv>
     RunOnce (coord_on_node (etcd_coord T J)) (driver_on_node (mysql_driver_ops E c rounds)) (mysql_command sh)"

text \<open>
  A round of an etcd node that succeeds leaves its MySQL closed when its coordinator does not
  take the node for the leader.
\<close>

lemma etcd_node_fenced:
  assumes "re_wired r" "\<not> e_isLeader (ns_coord (re_sys r)) \<or> re_Nofailover r"
    and "val_of (reconcile_etcd T J E c rounds sh ctx) r = None"
  shows "my_option (ns_db (re_sys (exec_of (reconcile_etcd T J E c rounds sh ctx) r))) \<noteq> MysqlReadwrite"
proof -
  have "\<not> wants_primary (coord_on_node (etcd_coord T J)) (driver_on_node (mysql_driver_ops E c rounds)) ctx r"
    using assms(2) by (auto simp: wants_primary_def etcd_coord_def)
  from mysql_node.fenced [OF assms(1) this assms(3)] show ?thesis
    by (simp add: db_open_def mysql_open_def)
qed


subsection \<open>A PostgreSQL primary after a restart\<close>

text \<open>A server that is never in recovery: a primary, or a server that does not answer.\<close>

definition never_recovering :: "'w pgenv \<Rightarrow> bool" where
  "never_recovering E \<longleftrightarrow>
     (\<forall>ctx db w. \<not> fst (val_of (pe_bool E ctx db ''SELECT pg_is_in_recovery()'' []) w))"

lemma IsInRecovery_never: "never_recovering E \<Longrightarrow> \<not> fst (val_of (IsInRecovery E ctx) p)"
  by (simp add: never_recovering_def IsInRecovery_def with_pg_def case_prod_beta split: option.split)

lemma readonly_primary_refused:
  assumes "never_recovering E" "\<not> px_writable p"
  shows "\<not> fst (val_of (pg_Promotable E ctx) p)"
proof (cases ctx)
  case None
  have "px_writable (exec_of (IsInRecovery E ctx) (exec_of (PingDB E ctx) p)) = px_writable p"
    using keeps_run [OF queries_keep(1)] keeps_run [OF queries_keep(2)] by metis
  then show ?thesis
    using assms None IsInRecovery_never [OF assms(1), of None "exec_of (PingDB E None) p"]
    by (simp add: pg_Promotable_def pg_isWritable_def case_prod_beta split: option.split)
qed (simp add: pg_Promotable_def)

text \<open>
  A PostgreSQL server that is not in recovery and that the driver
  holds for read-only, as it does after every start, is not made writable by any number of
  reconcile rounds: the driver reports it unfit for promotion, and only a promotion would open it.
  This is so for every coordinator, for the leader too, and whatever the calls answer.
\<close>

lemma pg_primary_stays_readonly:
  assumes "never_recovering E" "\<not> px_writable (ns_db (re_sys r))"
  shows "\<not> px_writable (ns_db (re_sys (exec_of
     (cycles (coord_on_node C) (driver_on_node (pg_driver_ops E)) (pg_command sh) ctxs) r)))"
  using assms(2)
proof (induction ctxs arbitrary: r)
  case (Cons ctx ctxs)
  let ?round = "RunOnce (coord_on_node C) (driver_on_node (pg_driver_ops E)) (pg_command sh) ctx"
  have "\<not> wants_primary (coord_on_node C) (driver_on_node (pg_driver_ops E)) ctx r"
    using readonly_primary_refused [OF assms(1), of "ns_db (re_sys r)"] Cons.prems
    by (simp add: wants_primary_def)
  then have "\<not> px_writable (ns_db (re_sys (exec_of ?round r)))"
    using pg_node.replica_never_opens_round [of r C E ctx sh] Cons.prems
    by (cases "re_wired r") (auto simp: db_open_def RunOnce_def)
  then show ?case
    using Cons.IH by (simp add: case_prod_beta)
qed simp

definition readonly_leader :: "(mem_store etcdc, nat pgsql) node_sys recon" where
  "readonly_leader = (NewReconciler
     \<lparr>ns_coord = (demo_node 0)\<lparr>e_isLeader := True\<rparr>, ns_db = NewPostgresql DefaultPostgresqlConfig 0\<rparr>
     True None [])\<lparr>re_applyPromote := True\<rparr>"

lemma pg_primary_stays_readonly_example:
  "\<not> px_writable (ns_db (re_sys (exec_of
     (cycles (coord_on_node (etcd_coord mem_etcd demo_codec)) (driver_on_node (pg_driver_ops (pg_answers False)))
       (pg_command quiet_shell) [None, None]) readonly_leader)))"
  by (rule pg_primary_stays_readonly)
     (simp_all add: never_recovering_def pg_answers_def readonly_leader_def NewReconciler_def NewPostgresql_def)

end
