(* ===== verification/HaGaps.thy ===== *)
theory HaGaps
  imports HaNode
begin

section \<open>What a reconcile round does not repair\<close>

text \<open>
  The reconciler decides by two records: what the driver remembers of its own last change of the
  read-only state, and the primary it last attached to. This theory follows both through the
  rounds. The positive side: a \<open>Demote\<close> that succeeds has reached the server, not only the record.
  The gaps: the record of the last primary survives a term as primary, so a node that comes back
  under its former primary is not attached again; and a promotion that fails half way leaves the
  server open while the record says read-only, so that no later round closes it.
\<close>


subsection \<open>The remembered primary\<close>

text \<open>The part of the reconciler that \<open>applyReplicaIfNeeded\<close> compares with.\<close>

definition remembered :: "'s recon \<Rightarrow> string \<times> int \<times> bool" where
  "remembered r = (re_lastReplicaPrimary r, re_mysqlPort r, re_applyPromote r)"

lemma remembers_sys [intro!]: "state_io_rel (keeps remembered) (on_sys k)"
  by (auto simp: on_sys_def remembered_def intro!: keeps_zoom)

lemma remembers_local [intro!]:
  "state_io_rel (keeps remembered) (upd_hooks f)"
  "state_io_rel (keeps remembered) (modify (\<lambda>r. r\<lparr>re_defensiveStopDone := b\<rparr>))"
  unfolding upd_hooks_def by (auto intro!: keeps.eff_modify simp: keeps_def remembered_def)

lemma remembers_guard [intro!]:
  "state_io_rel (keeps remembered) k \<Longrightarrow> state_io_rel (keeps remembered) (ctx_guard ctx failed k)"
  by (cases ctx) auto

lemma remembers_hooks [intro!]:
  "state_io_rel (keeps remembered) (EnsurePrimary cmd ctx)"
  "state_io_rel (keeps remembered) (EnsureReplica cmd ctx)"
  "state_io_rel (keeps remembered) (RunStopIfConfigured cmd ctx)"
  unfolding EnsurePrimary_def EnsureReplica_def RunStopIfConfigured_def runStopIfConfigured_def Hooks_run_def
  by (auto intro!: keeps.eff_bind)

lemma remembers_compute [intro!]: "state_io_rel (keeps remembered) (computeDesired C D ctx)"
  unfolding computeDesired_def Let_def by (auto intro!: keeps.eff_bind)

lemma remembers_if_mgr:
  "(\<And>g. state_io_rel (keeps remembered) (yes g)) \<Longrightarrow> state_io_rel (keeps remembered) no \<Longrightarrow>
    state_io_rel (keeps remembered) (if_mgr D yes no)"
  unfolding if_mgr_def by (auto intro!: keeps.eff_bind)

lemma remembers_mgr_primary: "state_io_rel (keeps remembered) (applyMGRPrimary D g ctx)"
  unfolding applyMGRPrimary_def by (auto intro!: keeps.eff_bind)

lemma remembers_primary: "state_io_rel (keeps remembered) (applyDesired_primary D cmd ctx h)"
  unfolding applyDesired_primary_def
  by (auto intro!: keeps.eff_bind remembers_if_mgr remembers_mgr_primary)

text \<open>A round in which the node is to be primary leaves the record alone.\<close>

lemma primary_round_remembers:
  assumes "wants_primary C D ctx r"
  shows "remembered (exec_of (RunOnce C D cmd ctx) r) = remembered r"
proof (cases "re_wired r")
  case True
  let ?d = "computeDesired C D ctx"
  let ?r1 = "exec_of ?d r"
  have role: "DBRole (val_of ?d r) = RolePrimary" using assms by (simp add: desired_role)
  have "run_state (RunOnce C D cmd ctx) r = run_state (applyDesired C D cmd ctx (val_of ?d r)) ?r1"
    using True role by (simp add: RunOnce_def run_bind_proj whenM_def del: run_state_bind)
  moreover have "remembered (exec_of (applyDesired C D cmd ctx (val_of ?d r)) ?r1) = remembered ?r1"
  proof -
    have "state_io_rel (keeps remembered) (applyDesired C D cmd ctx (val_of ?d r))"
      using role by (auto simp: applyDesired_def intro!: keeps.eff_bind remembers_primary)
    then show ?thesis by (rule keeps_run)
  qed
  moreover have "remembered ?r1 = remembered r" by (rule keeps_run) auto
  ultimately show ?thesis by simp
qed (simp add: RunOnce_def)

definition mgr_off :: "'s driver_ops \<Rightarrow> bool" where
  "mgr_off D \<longleftrightarrow> (\<forall>g. MGRLifecycle D = Some g \<longrightarrow> (\<forall>s. run_state (IsMGRMode g) s = (False, s)))"

lemma mgr_off_skips: "mgr_off D \<Longrightarrow> run_state (if_mgr D yes no) r = run_state no r"
  by (auto simp: if_mgr_def mgr_off_def run_on_sys split: option.split)

lemma mysql_mgr_off:
  "mc_ReplMode c \<noteq> ReplModeMGR \<Longrightarrow> mgr_off (driver_on_node (mysql_driver_ops E c rounds))"
  by (simp add: mgr_off_def mysql_driver_ops_def driver_on_node_def mgr_on_node_def mysql_mgr_ops_def
      Driver_IsMGRMode_def)

text \<open>
  A node whose coordinator goes on naming the same other member as leader, and that remembers this
  member as its primary, is at rest. \<open>I\<close> stands for the states in which the coordinator does so.
\<close>

definition keeps_naming :: "('c \<Rightarrow> bool) \<Rightarrow> 'c coord_ops \<Rightarrow> ClusterView \<Rightarrow> bool" where
  "keeps_naming I C view \<longleftrightarrow> (\<forall>c. I c \<longrightarrow>
     \<not> val_of (IsLeader C) c \<and> I (exec_of (IsLeader C) c) \<and>
     val_of (ClusterViewOf C None) c = (view, None) \<and> I (exec_of (ClusterViewOf C None) c) \<and>
     val_of (LocalID C) c \<noteq> LeaderID view \<and> I (exec_of (LocalID C) c))"

definition primary_of_view :: "ClusterView \<Rightarrow> PrimaryRef" where
  "primary_of_view view = (let p = zero_PrimaryRef\<lparr>MemberID := LeaderID view\<rparr>; d = LeaderDatabase view in
     if ep_Host d \<noteq> [] \<and> ep_Port d > 0 then p\<lparr>pr_Host := ep_Host d, pr_Port := ep_Port d\<rparr> else p)"

definition at_rest :: "('c \<Rightarrow> bool) \<Rightarrow> ClusterView \<Rightarrow> ('c, 'w mysql) node_sys recon \<Rightarrow> bool" where
  "at_rest I view r \<longleftrightarrow> re_wired r \<and> I (ns_coord (re_sys r)) \<and>
     my_option (ns_db (re_sys r)) \<noteq> MysqlReadwrite \<and> LeaderID view \<noteq> [] \<and>
     replicaTargetKey (enrichPrimaryRef (primary_of_view view) (re_mysqlPort r)) = re_lastReplicaPrimary r"

text \<open>
  The stop command of a node, and what one run of it by the shell \<open>sh\<close> reports and makes of the
  world. A command that is not configured is not run.
\<close>

definition stop_command :: "'s recon \<Rightarrow> string" where
  "stop_command r = (case re_hooks r of None \<Rightarrow> [] | Some h \<Rightarrow> onStop h)"

definition stop_error :: "(string \<Rightarrow> string list \<Rightarrow> 'w \<Rightarrow> (string \<times> gerror option) \<times> 'w) \<Rightarrow> string \<Rightarrow> 'w \<Rightarrow> gerror option" where
  "stop_error sh c w = (if hookConfigured c then snd (fst (sh ''bash'' [''-c'', c] w)) else None)"

definition stop_world :: "(string \<Rightarrow> string list \<Rightarrow> 'w \<Rightarrow> (string \<times> gerror option) \<times> 'w) \<Rightarrow> string \<Rightarrow> 'w \<Rightarrow> 'w" where
  "stop_world sh c w = (if hookConfigured c then snd (sh ''bash'' [''-c'', c] w) else w)"

definition world_of :: "('c, 'w mysql) node_sys recon \<Rightarrow> 'w" where
  "world_of r = my_world (ns_db (re_sys r))"

definition with_world :: "'w \<Rightarrow> ('c, 'w mysql) node_sys recon \<Rightarrow> ('c, 'w mysql) node_sys recon" where
  "with_world w r = r\<lparr>re_sys := (re_sys r)\<lparr>ns_db := (ns_db (re_sys r))\<lparr>my_world := w\<rparr>\<rparr>\<rparr>"

lemma with_world_parts [simp]:
  "world_of (with_world w r) = w" "stop_command (with_world w r) = stop_command r"
  "at_rest I view (with_world w r) = at_rest I view r"
  "re_hooks (with_world w r) = re_hooks r" "re_defensiveStopDone (with_world w r) = re_defensiveStopDone r"
  "ns_coord (re_sys (with_world w r)) = ns_coord (re_sys r)"
  "ns_db (re_sys (with_world w r)) = (ns_db (re_sys r))\<lparr>my_world := w\<rparr>"
  "re_wired (with_world w r) = re_wired r"
  by (simp_all add: with_world_def world_of_def stop_command_def at_rest_def)

lemma unconfigured_stop: "\<not> hookConfigured []"
  by (simp add: hookConfigured_def trim_space_def)

lemma with_own_world: "with_world (world_of r) r = r"
  by (simp add: with_world_def world_of_def)

lemma stop_runs:
  fixes r :: "('c, 'w mysql) node_sys recon"
  assumes "re_hooks r = Some h"
  shows "run_state (runStopIfConfigured (mysql_command sh) h) r =
    (stop_error sh (stop_command r) (world_of r), with_world (stop_world sh (stop_command r) (world_of r)) r)"
  using assms with_own_world [of r]
  by (simp add: runStopIfConfigured_def Hooks_run_def run_on_sys mysql_command_def on_world_def zoom_def
      stop_error_def stop_world_def stop_command_def with_world_def world_of_def case_prod_beta)

lemma defensive_stop_runs:
  "exec_of (RunStopIfConfigured (mysql_command sh) None) r = with_world (stop_world sh (stop_command r) (world_of r)) r"
  by (cases "re_hooks r")
     (simp_all add: RunStopIfConfigured_def stop_runs, simp add: stop_command_def stop_world_def unconfigured_stop with_own_world)

lemma replica_stop_runs:
  obtains H where "run_state (EnsureReplica (mysql_command sh) None) r =
      (stop_error sh (stop_command r) (world_of r),
       (with_world (stop_world sh (stop_command r) (world_of r)) r)\<lparr>re_hooks := H\<rparr>)"
    "stop_command (r\<lparr>re_hooks := H\<rparr>) = stop_command r"
proof (cases "re_hooks r")
  case None
  then show ?thesis
    using that [of None] with_own_world [of r]
    by (simp add: EnsureReplica_def stop_command_def stop_error_def stop_world_def unconfigured_stop)
next
  case (Some h)
  let ?c = "stop_command r" and ?w = "world_of r"
  have stop: "onStop h = ?c" using Some by (simp add: stop_command_def)
  let ?reset = "hk_active h \<and> stop_error sh ?c ?w = None"
  let ?H = "Some (if ?reset then h\<lparr>hk_active := False\<rparr> else h)"
  have "run_state (EnsureReplica (mysql_command sh) None) r =
      (stop_error sh ?c ?w, (with_world (stop_world sh ?c ?w) r)\<lparr>re_hooks := ?H\<rparr>)"
  proof (cases "\<not> hk_active h \<and> \<not> hookConfigured ?c")
    case True
    with Some stop show ?thesis
      using with_own_world [of r]
      by (cases r) (auto simp: EnsureReplica_def stop_error_def stop_world_def)
  next
    case False
    have keep: "(with_world w r)\<lparr>re_hooks := Some h\<rparr> = with_world w r" for w
      using Some by (cases r) (simp add: with_world_def)
    from False Some stop show ?thesis
      by (auto simp: EnsureReplica_def stop_runs run_or_err upd_hooks_def keep split: option.split)
  qed
  then show ?thesis
    using that [of ?H] Some by (simp add: stop_command_def)
qed

lemma naming_desired:
  fixes D :: "('c, 'w mysql) node_sys driver_ops"
  assumes "keeps_naming I C view" "at_rest I view r"
  obtains c' why where "I c'" "run_state (computeDesired (coord_on_node C) D None) r =
    (\<lparr>IsCoordLeader = False, DBRole = RoleReplica, Primary = primary_of_view view, Reason = why\<rparr>,
     r\<lparr>re_sys := (re_sys r)\<lparr>ns_coord := c'\<rparr>\<rparr>)"
proof (rule that)
  let ?c = "ns_coord (re_sys r)"
  let ?c1 = "exec_of (IsLeader C) ?c"
  have c: "I ?c" "\<not> val_of (IsLeader C) ?c" "I ?c1" "LeaderID view \<noteq> []"
    using assms by (simp_all add: at_rest_def keeps_naming_def)
  show "I (exec_of (ClusterViewOf C None) ?c1)"
    using assms(1) c(3) by (simp add: keeps_naming_def)
  have view: "val_of (ClusterViewOf C None) ?c1 = (view, None)"
    using assms(1) c(3) by (simp add: keeps_naming_def)
  show "run_state (computeDesired (coord_on_node C) D None) r =
    (\<lparr>IsCoordLeader = False, DBRole = RoleReplica, Primary = primary_of_view view, Reason = ''not.coord.leader''\<rparr>,
     r\<lparr>re_sys := (re_sys r)\<lparr>ns_coord := exec_of (ClusterViewOf C None) ?c1\<rparr>\<rparr>)"
    using c view by (simp add: computeDesired_def run_on_sys primary_of_view_def)
qed

text \<open>
  One round of a node at rest: the stop command runs, a second time if this is the first round of
  the reconciler, and the round reports what its last run reports. MySQL is not touched.
\<close>

definition world_at_stop ::
    "(string \<Rightarrow> string list \<Rightarrow> 'w \<Rightarrow> (string \<times> gerror option) \<times> 'w) \<Rightarrow> ('c, 'w mysql) node_sys recon \<Rightarrow> 'w" where
  "world_at_stop sh r =
     (if re_defensiveStopDone r then world_of r else stop_world sh (stop_command r) (world_of r))"

lemma rest_attach:
  fixes r :: "('c, 'w mysql) node_sys recon"
  assumes "keeps_naming I C view" "at_rest I view r" "mc_ReplMode c \<noteq> ReplModeMGR"
  obtains c' where "I c'" "run_state (applyReplicaIfNeeded (coord_on_node C)
      (driver_on_node (mysql_driver_ops E c rounds)) None
      \<lparr>IsCoordLeader = False, DBRole = RoleReplica, Primary = primary_of_view view, Reason = why\<rparr>) r =
    (None, r\<lparr>re_sys := (re_sys r)\<lparr>ns_coord := c'\<rparr>\<rparr>)"
proof (rule that)
  let ?c = "ns_coord (re_sys r)"
  show "I (exec_of (LocalID C) ?c)"
    using assms(1,2) by (simp add: at_rest_def keeps_naming_def)
  have "val_of (LocalID C) ?c \<noteq> LeaderID view" "MemberID (primary_of_view view) = LeaderID view"
    using assms(1,2) by (simp_all add: at_rest_def keeps_naming_def primary_of_view_def Let_def)
  with assms(2) show "run_state (applyReplicaIfNeeded (coord_on_node C)
      (driver_on_node (mysql_driver_ops E c rounds)) None
      \<lparr>IsCoordLeader = False, DBRole = RoleReplica, Primary = primary_of_view view, Reason = why\<rparr>) r =
    (None, r\<lparr>re_sys := (re_sys r)\<lparr>ns_coord := exec_of (LocalID C) ?c\<rparr>\<rparr>)"
    by (auto simp: at_rest_def applyReplicaIfNeeded_def run_on_sys Let_def mgr_off_skips [OF mysql_mgr_off [OF assms(3)]])
qed

lemma rest_apply:
  fixes r :: "('c, 'w mysql) node_sys recon"
  assumes "keeps_naming I C view" "at_rest I view r" "mc_ReplMode c \<noteq> ReplModeMGR"
    and "run = run_state (applyDesired (coord_on_node C) (driver_on_node (mysql_driver_ops E c rounds))
      (mysql_command sh) None
      \<lparr>IsCoordLeader = False, DBRole = RoleReplica, Primary = primary_of_view view, Reason = why\<rparr>) r"
  shows "fst run = stop_error sh (stop_command r) (world_of r) \<and> at_rest I view (snd run) \<and>
    stop_command (snd run) = stop_command r \<and> re_defensiveStopDone (snd run) = re_defensiveStopDone r \<and>
    ns_db (re_sys (snd run)) = (ns_db (re_sys r))\<lparr>my_world := stop_world sh (stop_command r) (world_of r)\<rparr>"
proof -
  let ?D = "driver_on_node (mysql_driver_ops E c rounds) :: ('c, 'w mysql) node_sys driver_ops"
  let ?want = "\<lparr>IsCoordLeader = False, DBRole = RoleReplica, Primary = primary_of_view view, Reason = why\<rparr>"
  obtain H where H: "run_state (EnsureReplica (mysql_command sh) None) r =
      (stop_error sh (stop_command r) (world_of r),
       (with_world (stop_world sh (stop_command r) (world_of r)) r)\<lparr>re_hooks := H\<rparr>)"
    "stop_command (r\<lparr>re_hooks := H\<rparr>) = stop_command r"
    using replica_stop_runs .
  define r2 where "r2 = (with_world (stop_world sh (stop_command r) (world_of r)) r)\<lparr>re_hooks := H\<rparr>"
  have r2: "at_rest I view r2" "stop_command r2 = stop_command r" "re_defensiveStopDone r2 = re_defensiveStopDone r"
      "ns_db (re_sys r2) = (ns_db (re_sys r))\<lparr>my_world := stop_world sh (stop_command r) (world_of r)\<rparr>"
    using assms(2) H(2) by (simp_all add: r2_def at_rest_def with_world_def stop_command_def)
  obtain h where h: "run_state (on_sys (Status ?D None)) r = ((h, None), r)"
      "\<not> Writable h" "HealthRole h \<noteq> RolePrimary"
    using assms(2) by (auto simp: at_rest_def run_on_sys Driver_Status_def Mysql_getOption_def Mysql_getState_def)
  obtain c' where c': "I c'" "run_state (applyReplicaIfNeeded (coord_on_node C) ?D None ?want) r2 =
      (None, r2\<lparr>re_sys := (re_sys r2)\<lparr>ns_coord := c'\<rparr>\<rparr>)"
    using rest_attach [OF assms(1) r2(1) assms(3)] .
  have run: "run = (case stop_error sh (stop_command r) (world_of r) of Some e \<Rightarrow> (Some e, r2)
      | None \<Rightarrow> (None, if re_applyPromote r2 then r2\<lparr>re_sys := (re_sys r2)\<lparr>ns_coord := c'\<rparr>\<rparr> else r2))"
    using h H(1) c'(2)
    by (simp add: assms(4) applyDesired_def applyDesired_replica_def run_or_err r2_def [symmetric] split: option.split)
  have "at_rest I view (r2\<lparr>re_sys := (re_sys r2)\<lparr>ns_coord := c'\<rparr>\<rparr>)"
    "stop_command (r2\<lparr>re_sys := (re_sys r2)\<lparr>ns_coord := c'\<rparr>\<rparr>) = stop_command r2"
    using r2(1) c'(1) by (simp_all add: at_rest_def stop_command_def)
  with r2 show ?thesis
    by (simp add: run split: option.split)
qed

lemma rest_round:
  fixes C :: "'c coord_ops" and r :: "('c, 'w mysql) node_sys recon"
  assumes "keeps_naming I C view" "at_rest I view r" "mc_ReplMode c \<noteq> ReplModeMGR"
    and run_def: "run = run_state (RunOnce (coord_on_node C) (driver_on_node (mysql_driver_ops E c rounds))
      (mysql_command sh) None) r"
  shows "fst run = stop_error sh (stop_command r) (world_at_stop sh r) \<and> at_rest I view (snd run) \<and>
    stop_command (snd run) = stop_command r \<and> re_defensiveStopDone (snd run) \<and>
    ns_db (re_sys (snd run)) =
      (ns_db (re_sys r))\<lparr>my_world := stop_world sh (stop_command r) (world_at_stop sh r)\<rparr>"
proof -
  let ?N = "coord_on_node C :: ('c, 'w mysql) node_sys coord_ops"
  let ?D = "driver_on_node (mysql_driver_ops E c rounds) :: ('c, 'w mysql) node_sys driver_ops"
  let ?want = "\<lambda>why. \<lparr>IsCoordLeader = False, DBRole = RoleReplica, Primary = primary_of_view view, Reason = why\<rparr>"
  obtain c' why where c': "I c'" "run_state (computeDesired ?N ?D None) r =
      (?want why, r\<lparr>re_sys := (re_sys r)\<lparr>ns_coord := c'\<rparr>\<rparr>)"
    using naming_desired [OF assms(1,2)] .
  define r1 where "r1 = r\<lparr>re_sys := (re_sys r)\<lparr>ns_coord := c'\<rparr>, re_defensiveStopDone := True\<rparr>"
  define r2 where "r2 = with_world (world_at_stop sh r) r1"
  have r1: "stop_command r1 = stop_command r" "world_of r1 = world_of r"
    by (simp_all add: r1_def stop_command_def world_of_def)
  have r2: "at_rest I view r2" "stop_command r2 = stop_command r" "re_defensiveStopDone r2"
      "world_of r2 = world_at_stop sh r" "ns_db (re_sys r2) = (ns_db (re_sys r))\<lparr>my_world := world_at_stop sh r\<rparr>"
    using assms(2) c'(1) by (simp_all add: r2_def r1 r1_def at_rest_def with_world_def world_of_def stop_command_def)
  have "run = run_state (applyDesired ?N ?D (mysql_command sh) None (?want why)) r2"
  proof (cases "re_defensiveStopDone r")
    case True
    then have "r2 = r\<lparr>re_sys := (re_sys r)\<lparr>ns_coord := c'\<rparr>\<rparr>"
      using with_own_world [of r1] r1(2)
      by (simp add: r2_def world_at_stop_def) (cases r, simp add: r1_def)
    with True assms(2) c'(2) show ?thesis
      by (simp add: run_def at_rest_def RunOnce_def whenM_def)
  next
    case False
    with assms(2) c'(2) defensive_stop_runs [of sh r1] show ?thesis
      unfolding run_def at_rest_def
      by (simp add: RunOnce_def whenM_def call_def world_at_stop_def r2_def r1 r1_def [symmetric] case_prod_beta)
  qed
  from rest_apply [OF assms(1) r2(1) assms(3) this] r2 show ?thesis by simp
qed

lemma rest_cycles:
  fixes C :: "'c coord_ops" and r :: "('c, 'w mysql) node_sys recon"
  assumes "keeps_naming I C view" "at_rest I view r" "mc_ReplMode c \<noteq> ReplModeMGR"
    and "run = run_state (cycles (coord_on_node C) (driver_on_node (mysql_driver_ops E c rounds))
      (mysql_command sh) (replicate n None)) r" "0 < n"
  defines "nth_world \<equiv> \<lambda>k. (stop_world sh (stop_command r) ^^ k) (world_at_stop sh r)"
  shows "fst run = map (\<lambda>k. stop_error sh (stop_command r) (nth_world k)) [0..<n] \<and>
    ns_db (re_sys (snd run)) = (ns_db (re_sys r))\<lparr>my_world := nth_world n\<rparr>"
  using assms(2,4,5) unfolding nth_world_def
proof (induction n arbitrary: r run)
  case (Suc n)
  let ?R = "RunOnce (coord_on_node C) (driver_on_node (mysql_driver_ops E c rounds)) (mysql_command sh) None"
  let ?w = "stop_world sh (stop_command r) (world_at_stop sh r)"
  note now = rest_round [OF assms(1) Suc.prems(1) assms(3) refl, of E rounds sh]
  have next_world: "world_at_stop sh (exec_of ?R r) = ?w"
    using now by (simp add: world_at_stop_def world_of_def)
  show ?case
  proof (cases n)
    case 0
    with now Suc.prems(2) show ?thesis by (simp add: case_prod_beta)
  next
    case (Suc m)
    with Suc.IH [of "exec_of ?R r", OF _ refl] now next_world Suc.prems(2) show ?thesis
      by (simp add: case_prod_beta map_upt_Suc funpow_Suc_right del: upt_Suc funpow.simps)
  qed
qed simp

text \<open>
  C40. MySQL without group replication, a coordinator that goes on naming
  the same other member as leader, and a reconciler that remembers this member as the primary it
  last attached to: any number of rounds leaves the MySQL of the node exactly as it is, whatever
  the server would answer. All that happens is the configured stop command: once in every round,
  and once more before the first round of a reconciler; the round reports the error of its run,
  if it fails, and none otherwise.
\<close>

theorem node_at_rest_left_alone:
  fixes C :: "'c coord_ops" and r :: "('c, 'w mysql) node_sys recon"
  assumes "keeps_naming I C view" "at_rest I view r" "mc_ReplMode c \<noteq> ReplModeMGR" "0 < n"
  shows "let run = run_state (cycles (coord_on_node C) (driver_on_node (mysql_driver_ops E c rounds))
        (mysql_command sh) (replicate n None)) r;
      world = (\<lambda>k. (stop_world sh (stop_command r) ^^ k) (world_at_stop sh r))
    in fst run = map (\<lambda>k. stop_error sh (stop_command r) (world k)) [0..<n] \<and>
       ns_db (re_sys (snd run)) = (ns_db (re_sys r))\<lparr>my_world := world n\<rparr>"
  using rest_cycles [OF assms(1-3) refl assms(4), of E rounds sh] by (simp add: Let_def)

text \<open>A stop command that leaves the world as it is leaves MySQL as it is.\<close>

definition harmless :: "(string \<Rightarrow> string list \<Rightarrow> 'w \<Rightarrow> (string \<times> gerror option) \<times> 'w) \<Rightarrow> string \<Rightarrow> bool" where
  "harmless sh c \<longleftrightarrow> (\<forall>w. stop_world sh c w = w)"

lemma harmless_again: "harmless sh c \<Longrightarrow> (stop_world sh c ^^ k) w = w"
  by (induction k) (simp_all add: harmless_def)

lemma rest_harmless:
  fixes C :: "'c coord_ops" and r :: "('c, 'w mysql) node_sys recon"
  assumes "keeps_naming I C view" "at_rest I view r" "mc_ReplMode c \<noteq> ReplModeMGR" "harmless sh (stop_command r)"
  shows "ns_db (re_sys (exec_of (cycles (coord_on_node C) (driver_on_node (mysql_driver_ops E c rounds))
      (mysql_command sh) (replicate n None)) r)) = ns_db (re_sys r)"
proof (cases "n = 0")
  case False
  have "world_at_stop sh r = my_world (ns_db (re_sys r))"
    using assms(4) by (simp add: world_at_stop_def harmless_def world_of_def)
  with False rest_cycles [OF assms(1-3) refl, of n E rounds sh] show ?thesis
    by (simp add: harmless_again [OF assms(4)])
qed simp

text \<open>
  The price: a node that was replica of a primary, has been primary itself and is given the same
  primary again is at rest at once. Its database is left alone and not attached, although becoming
  primary has stopped and reset its replication.
\<close>

lemma returning_replica_left_alone:
  fixes C :: "'c coord_ops" and r :: "('c, 'w mysql) node_sys recon"
  defines "N \<equiv> coord_on_node C :: ('c, 'w mysql) node_sys coord_ops"
  assumes "wants_primary N (driver_on_node (mysql_driver_ops E c rounds)) ctx r"
    and "r' = (exec_of (RunOnce N (driver_on_node (mysql_driver_ops E c rounds)) (mysql_command sh) ctx) r)\<lparr>re_sys := s\<rparr>"
    and "re_wired r'" "harmless sh (stop_command r')" "mc_ReplMode c \<noteq> ReplModeMGR"
    and "keeps_naming I C view" "I (ns_coord s)" "my_option (ns_db s) \<noteq> MysqlReadwrite" "LeaderID view \<noteq> []"
    and "replicaTargetKey (enrichPrimaryRef (primary_of_view view) (re_mysqlPort r)) = re_lastReplicaPrimary r"
  shows "ns_db (re_sys (exec_of (cycles N (driver_on_node (mysql_driver_ops E c rounds)) (mysql_command sh)
      (replicate n None)) r')) = ns_db s"
proof -
  have "remembered r' = remembered r"
    using primary_round_remembers [OF assms(2), of "mysql_command sh"] assms(3) by (simp add: remembered_def)
  then have "at_rest I view r'"
    using assms(3,4,8-11) by (simp add: at_rest_def remembered_def)
  from rest_harmless [OF assms(7) this assms(6,5), of E rounds n] assms(3) show ?thesis
    unfolding N_def by simp
qed


subsection \<open>The record and the server\<close>

text \<open>
  What is relied on of a MySQL server for its global variables: \<open>ro w\<close> says that \<open>read_only\<close> is
  on. The statement that sets it, when it succeeds, does; the other statement of the pair, the
  clock and the close of the session leave it alone.
\<close>

definition obeys_read_only :: "'w dbenv \<Rightarrow> ('w \<Rightarrow> bool) \<Rightarrow> bool" where
  "obeys_read_only E ro \<longleftrightarrow>
     (\<forall>w. fst (conn_exec E ''SET GLOBAL read_only = 1'' w) = None \<longrightarrow>
       ro (snd (conn_exec E ''SET GLOBAL read_only = 1'' w))) \<and>
     (\<forall>w. ro w \<longrightarrow> ro (snd (conn_exec E ''SET GLOBAL super_read_only = 1'' w))) \<and>
     (\<forall>d w. ro w \<longrightarrow> ro (snd (timer_first E d w))) \<and> (\<forall>w. ro w \<longrightarrow> ro (conn_close E w))"

lemma read_only_cmds_on: "set_read_only_cmds True =
    [''SET GLOBAL read_only = 1'', ''SET GLOBAL super_read_only = 1'']"
  by code_simp

lemma statement_sets_read_only:
  assumes "obeys_read_only E ro" "val_of (executeConnWithTimeout E t ''SET GLOBAL read_only = 1'') w = None"
  shows "ro (exec_of (executeConnWithTimeout E t ''SET GLOBAL read_only = 1'') w)"
  using assms by (auto simp: executeConnWithTimeout_def obeys_read_only_def case_prod_beta split: if_splits)

lemma statement_keeps_read_only:
  assumes "obeys_read_only E ro" "ro w"
  shows "ro (exec_of (executeConnWithTimeout E t ''SET GLOBAL super_read_only = 1'') w)"
  using assms by (auto simp: executeConnWithTimeout_def obeys_read_only_def case_prod_beta)

lemma demote_reaches_server:
  assumes "obeys_read_only E ro" "val_of (Driver_Demote E ctx) m = None"
  shows "ro (my_world (exec_of (Driver_Demote E ctx) m))"
proof -
  have close: "ro w \<Longrightarrow> ro (conn_close E w)" for w
    using assms(1) by (simp add: obeys_read_only_def)
  have "ro (exec_of (MysqlBase_SetReadOnly E h True) w)" if "val_of (MysqlBase_SetReadOnly E h True) w = None" for h w
    using that statement_sets_read_only [OF assms(1)]
    by (auto simp: MysqlBase_SetReadOnly_def ExecuteSuperQueryListWithTimeout_def read_only_cmds_on
        run_or_err case_prod_beta split: option.splits intro!: close statement_keeps_read_only [OF assms(1)])
  with assms(2) show ?thesis
    by (cases ctx) (auto simp: Driver_Demote_def Mysql_SetReadOnly_def with_db_def Mysql_setOption_def on_world_def
        case_prod_beta split: option.splits)
qed

text \<open>
  The same for the recording server: \<open>read_only\<close> is what the last statement about it that went
  through has left, on to begin with.
\<close>

fun read_only_after :: "string \<Rightarrow> bool \<Rightarrow> bool" where
  "read_only_after q ro = (if q = ''SET GLOBAL read_only = 1'' then True
     else if q = ''SET GLOBAL read_only = 0'' then False else ro)"

definition tape_read_only :: "tape \<Rightarrow> bool" where
  "tape_read_only w = fold read_only_after (filter (\<lambda>q. q \<notin> set (failing w)) (sent w)) True"

lemma tape_read_only_sent:
  "tape_read_only (w\<lparr>sent := sent w @ qs\<rparr>) =
     fold read_only_after (filter (\<lambda>q. q \<notin> set (failing w)) qs) (tape_read_only w)"
  by (simp add: tape_read_only_def)

lemma tape_obeys: "obeys_read_only tape_env tape_read_only"
  by (simp add: obeys_read_only_def tape_env_def tape_send_def tape_read_only_sent)

lemma demote_reaches_server_example:
  "tape_read_only (my_world (exec_of (Driver_Demote tape_env None)
     (NewMysql conf0 1000 \<lparr>sent = [''SET GLOBAL read_only = 0''], failing = [], answers = []\<rparr>)))"
  by (rule demote_reaches_server [OF tape_obeys]) code_simp

text \<open>
  \<open>SetReadWrite\<close> that fails at its second statement, or whose timer fires after the first, returns
  its error: the record goes on saying read-only, and the server is open.
\<close>

lemma half_promotion_opens:
  fixes m :: "tape mysql"
  assumes "''SET GLOBAL read_only = 0'' \<notin> set (failing (my_world m))"
    and "''SET GLOBAL super_read_only = 0'' \<in> set (failing (my_world m))"
  shows "val_of (Mysql_SetReadWrite tape_env) m \<noteq> None \<and>
    my_option (exec_of (Mysql_SetReadWrite tape_env) m) = my_option m \<and>
    \<not> tape_read_only (my_world (exec_of (Mysql_SetReadWrite tape_env) m))"
proof -
  have cmds: "set_read_only_cmds False = [''SET GLOBAL read_only = 0'', ''SET GLOBAL super_read_only = 0'']"
    by code_simp
  have opened: "sql_open tape_env c (my_world m) = (None, my_world m)" for c
    by (simp add: tape_env_def)
  show ?thesis
    using assms
    by (simp add: Mysql_SetReadWrite_def with_db_def Mysql_getDB_def on_world_def opened case_prod_beta
        MysqlBase_SetReadOnly_def cmds tape_super_query tape_read_only_sent)
qed

text \<open>
  If the node is at rest when its next round comes, because the leadership has gone back to the
  primary it was attached to, then all its rounds leave the server open for writes: nothing is
  sent that would close it.
\<close>

lemma half_promotion_stays_open:
  fixes m :: "tape mysql" and C :: "'c coord_ops"
  assumes "''SET GLOBAL read_only = 0'' \<notin> set (failing (my_world m))"
    and "''SET GLOBAL super_read_only = 0'' \<in> set (failing (my_world m))"
    and "ns_db (re_sys r) = exec_of (Mysql_SetReadWrite tape_env) m"
    and "keeps_naming I C view" "at_rest I view r" "mc_ReplMode c \<noteq> ReplModeMGR" "harmless sh (stop_command r)"
  shows "\<not> tape_read_only (my_world (ns_db (re_sys (exec_of (cycles (coord_on_node C)
    (driver_on_node (mysql_driver_ops tape_env c rounds)) (mysql_command sh) (replicate n None)) r))))"
  using half_promotion_opens [OF assms(1,2)] assms(3) rest_harmless [OF assms(4-7), of tape_env rounds n]
  by simp

text \<open>A node of an etcd cluster in this situation: its promotion failed half way, and \<open>b:1\<close> leads.\<close>

definition half_opened :: "tape mysql" where
  "half_opened = NewMysql conf0 1000
     \<lparr>sent = [], failing = [''SET GLOBAL super_read_only = 0''], answers = []\<rparr>"

definition back_under_b :: "(mem_store etcdc, tape mysql) node_sys recon" where
  "back_under_b = (NewReconciler
     \<lparr>ns_coord = (demo_node 0)\<lparr>e_client := True,
        e_world := \<lparr>ms_kvs = [(''/service/database/leader'', ''b:1'', 2)], ms_live = [2], ms_granted = [2]\<rparr>\<rparr>,
      ns_db = exec_of (Mysql_SetReadWrite tape_env) half_opened\<rparr>
     True None [WithPrimaryHooks (Some (NewPrimaryHooks ''vip.sh up'' ''vip.sh down''))])\<lparr>re_applyPromote := True,
       re_mysqlPort := 3306, re_lastReplicaPrimary := ''b:3306''\<rparr>"

definition led_by_b :: ClusterView where
  "led_by_b = zero_ClusterView\<lparr>LeaderID := ''b:1''\<rparr>"

lemma half_opened_parts:
  "failing (my_world half_opened) = [''SET GLOBAL super_read_only = 0'']" "my_option half_opened \<noteq> MysqlReadwrite"
  by code_simp+

lemma back_under_b_view:
  "run_state (ClusterViewOf (etcd_coord mem_etcd demo_codec) None) (ns_coord (re_sys back_under_b)) =
    ((led_by_b, None), ns_coord (re_sys back_under_b))"
  "LeaderID led_by_b = ''b:1''"
  by code_simp+

lemma back_under_b_at_rest:
  "keeps_naming (\<lambda>c. c = ns_coord (re_sys back_under_b)) (etcd_coord mem_etcd demo_codec) led_by_b"
  "at_rest (\<lambda>c. c = ns_coord (re_sys back_under_b)) led_by_b back_under_b"
proof -
  have "e_isLeader (ns_coord (re_sys back_under_b)) = False" "e_localID (ns_coord (re_sys back_under_b)) = ''a:1''"
    by (simp_all add: back_under_b_def NewReconciler_def demo_node_def etcd_New_def demo_key zero_etcdc_def)
  then show "keeps_naming (\<lambda>c. c = ns_coord (re_sys back_under_b)) (etcd_coord mem_etcd demo_codec) led_by_b"
    using back_under_b_view by (simp add: keeps_naming_def etcd_coord_def)
  have "replicaTargetKey (enrichPrimaryRef (primary_of_view led_by_b) 3306) = ''b:3306''"
    by code_simp
  then show "at_rest (\<lambda>c. c = ns_coord (re_sys back_under_b)) led_by_b back_under_b"
    using half_promotion_opens [of half_opened] half_opened_parts back_under_b_view(2)
    by (simp add: at_rest_def back_under_b_def NewReconciler_def)
qed

lemma half_promotion_stays_open_example:
  "\<not> tape_read_only (my_world (ns_db (re_sys (exec_of (cycles (coord_on_node (etcd_coord mem_etcd demo_codec))
     (driver_on_node (mysql_driver_ops tape_env conf0 3)) (mysql_command quiet_shell) (replicate 7 None))
     back_under_b))))"
proof (rule half_promotion_stays_open [OF _ _ _ back_under_b_at_rest])
  show "ns_db (re_sys back_under_b) = exec_of (Mysql_SetReadWrite tape_env) half_opened"
    by (simp add: back_under_b_def NewReconciler_def)
qed (simp_all add: half_opened_parts conf0_def harmless_def stop_world_def quiet_shell_def)

text \<open>A shell on which every command is sent to the recording server, and exits with 1.\<close>

definition noting_shell :: "string \<Rightarrow> string list \<Rightarrow> tape \<Rightarrow> (string \<times> gerror option) \<times> tape" where
  "noting_shell c args w = (([], Some (GoErr ''exit status 1'')), w\<lparr>sent := sent w @ [last args]\<rparr>)"

lemma stops_noted: "(stop_world noting_shell ''vip.sh down'' ^^ k) w =
    w\<lparr>sent := sent w @ replicate k ''vip.sh down''\<rparr>"
proof -
  have "hookConfigured ''vip.sh down''" by code_simp
  then show ?thesis
    by (induction k) (simp_all add: stop_world_def noting_shell_def replicate_append_same)
qed

theorem node_at_rest_left_alone_witness:
  "let run = run_state (cycles (coord_on_node (etcd_coord mem_etcd demo_codec))
     (driver_on_node (mysql_driver_ops tape_env conf0 3)) (mysql_command noting_shell) (replicate 3 None)) back_under_b
   in fst run = replicate 3 (Some (GoErr ''exit status 1'')) \<and>
      my_option (ns_db (re_sys (snd run))) = my_option (ns_db (re_sys back_under_b)) \<and>
      sent (my_world (ns_db (re_sys (snd run)))) =
        [''SET GLOBAL read_only = 0'', ''SET GLOBAL super_read_only = 0''] @ replicate 4 ''vip.sh down''"
proof -
  have r: "stop_command back_under_b = ''vip.sh down''" "\<not> re_defensiveStopDone back_under_b"
      "sent (world_of back_under_b) = [''SET GLOBAL read_only = 0'', ''SET GLOBAL super_read_only = 0'']"
    by (code_simp+)
  have one: "stop_world noting_shell ''vip.sh down'' w = w\<lparr>sent := sent w @ [''vip.sh down'']\<rparr>" for w
    using stops_noted [of 1 w] by simp
  have failed: "stop_error noting_shell ''vip.sh down'' w = Some (GoErr ''exit status 1'')" for w
    by (simp add: stop_error_def noting_shell_def) code_simp
  have counts: "[0..<3] = [0, 1, 2::nat]" "replicate 3 x = [x, x, x]" "replicate 4 x = [x, x, x, x]" for x :: 'x
    by (simp_all add: numeral_eq_Suc)
  show ?thesis
    using node_at_rest_left_alone [OF back_under_b_at_rest, of conf0 3 tape_env 3 noting_shell]
    by (simp add: r counts one failed stops_noted world_at_stop_def Let_def conf0_def)
qed

end
