(* ===== verification/RpcModel.thy ===== *)
theory RpcModel
  imports Model
begin

section \<open>Requests and responses of the management RPCs (internal/base/model)\<close>

text \<open>
  The structs of node.go, mysqld.go, backup.go, server.go and of the MySQL service in mysql.go,
  and the method names. A response that carries a return code and nothing else is that code
  (\<open>CodeResponse\<close>). A pointer field that a response may leave nil is an option.
\<close>

subsection \<open>Method names\<close>

definition RPCNodesAdd :: string where "RPCNodesAdd = ''NodeRPC.AddNodes''"
definition RPCIdleNodesAdd :: string where "RPCIdleNodesAdd = ''NodeRPC.AddIdleNodes''"
definition RPCNodesRemove :: string where "RPCNodesRemove = ''NodeRPC.RemoveNodes''"
definition RPCIdleNodesRemove :: string where "RPCIdleNodesRemove = ''NodeRPC.RemoveIdleNodes''"
definition RPCNodes :: string where "RPCNodes = ''NodeRPC.GetNodes''"

definition RPCMysqldStatus :: string where "RPCMysqldStatus = ''MysqldRPC.Status''"
definition RPCMysqldStartMonitor :: string where "RPCMysqldStartMonitor = ''MysqldRPC.StartMonitor''"
definition RPCMysqldStopMonitor :: string where "RPCMysqldStopMonitor = ''MysqldRPC.StopMonitor''"
definition RPCMysqldStart :: string where "RPCMysqldStart = ''MysqldRPC.Start''"
definition RPCMysqldShutDown :: string where "RPCMysqldShutDown = ''MysqldRPC.ShutDown''"
definition RPCMysqldKill :: string where "RPCMysqldKill = ''MysqldRPC.Kill''"
definition RPCMysqldIsRuning :: string where "RPCMysqldIsRuning = ''MysqldRPC.IsRunning''"

definition RPCBackupDo :: string where "RPCBackupDo = ''BackupRPC.DoBackup''"
definition RPCBackupCancel :: string where "RPCBackupCancel = ''BackupRPC.CancelBackup''"
definition RPCBackupApplyLog :: string where "RPCBackupApplyLog = ''BackupRPC.DoApplyLog''"

definition RPCHASetLearner :: string where "RPCHASetLearner = ''HARPC.HASetLearner''"
definition RPCHADisable :: string where "RPCHADisable = ''HARPC.HADisable''"
definition RPCHAEnable :: string where "RPCHAEnable = ''HARPC.HAEnable''"
definition RPCHATryToLeader :: string where "RPCHATryToLeader = ''HARPC.HATryToLeader''"

definition RPCRaftStatus :: string where "RPCRaftStatus = ''RaftRPC.Status''"
definition RPCRaftEnablePurgeBinlog :: string where "RPCRaftEnablePurgeBinlog = ''RaftRPC.EnablePurgeBinlog''"
definition RPCRaftDisablePurgeBinlog :: string where "RPCRaftDisablePurgeBinlog = ''RaftRPC.DisablePurgeBinlog''"
definition RPCRaftEnableCheckSemiSync :: string where
  "RPCRaftEnableCheckSemiSync = ''RaftRPC.EnableCheckSemiSync''"
definition RPCRaftDisableCheckSemiSync :: string where
  "RPCRaftDisableCheckSemiSync = ''RaftRPC.DisableCheckSemiSync''"

definition RPCMysqlStatus :: string where "RPCMysqlStatus = ''MysqlRPC.Status''"
definition RPCMysqlGTIDSubtract :: string where "RPCMysqlGTIDSubtract = ''MysqlRPC.GTIDSubtract''"
definition RPCMysqlSetState :: string where "RPCMysqlSetState = ''MysqlRPC.SetState''"
definition RPCMysqlSetGlobalSysVar :: string where "RPCMysqlSetGlobalSysVar = ''MysqlRPC.SetGlobalSysVar''"
definition RPCMysqlStartSlave :: string where "RPCMysqlStartSlave = ''MysqlRPC.StartSlave''"
definition RPCMysqlStopSlave :: string where "RPCMysqlStopSlave = ''MysqlRPC.StopSlave''"
definition RPCMysqlResetMaster :: string where "RPCMysqlResetMaster = ''MysqlRPC.ResetMaster''"
definition RPCMysqlResetSlave :: string where "RPCMysqlResetSlave = ''MysqlRPC.ResetSlave''"
definition RPCMysqlResetSlaveAll :: string where "RPCMysqlResetSlaveAll = ''MysqlRPC.ResetSlaveAll''"
definition RPCMysqlIsWorking :: string where "RPCMysqlIsWorking = ''MysqlRPC.IsWorking''"

definition RPCMysqlCreateUserWithPrivileges :: string where
  "RPCMysqlCreateUserWithPrivileges = ''UserRPC.CreateUserWithPrivileges''"
definition RPCMysqlCreateNormalUser :: string where "RPCMysqlCreateNormalUser = ''UserRPC.CreateNormalUser''"
definition RPCMysqlCreateSuperUser :: string where "RPCMysqlCreateSuperUser = ''UserRPC.CreateSuperUser''"
definition RPCMysqlChangePassword :: string where "RPCMysqlChangePassword = ''UserRPC.ChangePasword''"
definition RPCMysqlDropUser :: string where "RPCMysqlDropUser = ''UserRPC.DropUser''"
definition RPCMysqlGetUser :: string where "RPCMysqlGetUser = ''UserRPC.GetUser''"

definition RRCServerPing :: string where "RRCServerPing = ''ServerRPC.Ping''"
definition RPCServerStatus :: string where "RPCServerStatus = ''ServerRPC.Status''"

definition ErrorMysqldNotRunning :: string where "ErrorMysqldNotRunning = ''ErrorMysqldNotRunning''"
definition ErrorBackupNotFound :: string where "ErrorBackupNotFound = ''ErrorBackupNotFound''"

lemma not_running_not_ok [simp]: "ErrorMysqldNotRunning \<noteq> OK" "ErrorBackupNotFound \<noteq> OK"
  by (simp_all add: ErrorMysqldNotRunning_def ErrorBackupNotFound_def OK_def)


subsection \<open>Nodes (node.go)\<close>

record NodeRPCRequest =
  ndq_From :: string
  ndq_Nodes :: "string list"

record NodeRPCResponse =
  nd_EpochID :: "64 word"
  nd_ViewID :: "64 word"
  nd_State :: string
  nd_Leader :: string
  nd_Nodes :: "string list"
  nd_RetCode :: string

definition NewNodeRPCRequest :: NodeRPCRequest where
  "NewNodeRPCRequest = \<lparr>ndq_From = [], ndq_Nodes = []\<rparr>"

definition NewNodeRPCResponse :: "string \<Rightarrow> NodeRPCResponse" where
  "NewNodeRPCResponse code = \<lparr>nd_EpochID = 0, nd_ViewID = 0, nd_State = [], nd_Leader = [],
     nd_Nodes = [], nd_RetCode = code\<rparr>"


subsection \<open>mysqld and backups (mysqld.go, backup.go)\<close>

datatype MYSQLD_STATUS = MYSQLD_BACKUPNONE | MYSQLD_BACKUPING | MYSQLD_BACKUPCANCELED |
  MYSQLD_APPLYLOGGING | MYSQLD_SHUTDOWNING | MYSQLD_ISRUNNING | MYSQLD_NOTRUNNING | MYSQLD_UNKNOWN

primrec MYSQLD_STATUS_text :: "MYSQLD_STATUS \<Rightarrow> string" where
  "MYSQLD_STATUS_text MYSQLD_BACKUPNONE = ''NONE''"
| "MYSQLD_STATUS_text MYSQLD_BACKUPING = ''BACKUPING''"
| "MYSQLD_STATUS_text MYSQLD_BACKUPCANCELED = ''CANCELED''"
| "MYSQLD_STATUS_text MYSQLD_APPLYLOGGING = ''APPLYLOGGING''"
| "MYSQLD_STATUS_text MYSQLD_SHUTDOWNING = ''SHUTDOWNING''"
| "MYSQLD_STATUS_text MYSQLD_ISRUNNING = ''RUNNING''"
| "MYSQLD_STATUS_text MYSQLD_NOTRUNNING = ''NOTRUNNING''"
| "MYSQLD_STATUS_text MYSQLD_UNKNOWN = ''UNKNOWN''"

record MysqldStats =
  MysqldStarts :: "64 word"
  MysqldStops :: "64 word"
  MonitorStarts :: "64 word"
  MonitorStops :: "64 word"

record BackupStats =
  Backups :: "64 word"
  BackupErrs :: "64 word"
  AppLogs :: "64 word"
  AppLogErrs :: "64 word"
  Cancels :: "64 word"
  bs_LastError :: string
  bs_LastCMD :: string

definition zero_MysqldStats :: MysqldStats where
  "zero_MysqldStats = \<lparr>MysqldStarts = 0, MysqldStops = 0, MonitorStarts = 0, MonitorStops = 0\<rparr>"

definition zero_BackupStats :: BackupStats where
  "zero_BackupStats = \<lparr>Backups = 0, BackupErrs = 0, AppLogs = 0, AppLogErrs = 0, Cancels = 0,
     bs_LastError = [], bs_LastCMD = []\<rparr>"

type_synonym CodeResponse = string

text \<open>A status travels as its text; an answer that does not set it has the empty one.\<close>

record MysqldStatusRPCResponse =
  mds_MonitorInfo :: string
  mds_MysqldInfo :: string
  mds_BackupInfo :: string
  mds_MysqldStats :: "MysqldStats option"
  mds_BackupStats :: "BackupStats option"
  mds_BackupStatus :: string
  mds_RetCode :: string

definition NewMysqldStatusRPCResponse :: "string \<Rightarrow> MysqldStatusRPCResponse" where
  "NewMysqldStatusRPCResponse code = \<lparr>mds_MonitorInfo = [], mds_MysqldInfo = [], mds_BackupInfo = [],
     mds_MysqldStats = None, mds_BackupStats = None, mds_BackupStatus = [], mds_RetCode = code\<rparr>"

record BackupRPCRequest =
  brq_From :: string
  brq_BackupDir :: string
  brq_SSHHost :: string
  brq_SSHUser :: string
  brq_SSHPasswd :: string
  brq_SSHPort :: int
  brq_IOPSLimits :: int
  brq_XtrabackupBinDir :: string

definition NewBackupRPCRequest :: BackupRPCRequest where
  "NewBackupRPCRequest = \<lparr>brq_From = [], brq_BackupDir = [], brq_SSHHost = [], brq_SSHUser = [],
     brq_SSHPasswd = [], brq_SSHPort = 0, brq_IOPSLimits = 0, brq_XtrabackupBinDir = []\<rparr>"


subsection \<open>The MySQL service (mysql.go)\<close>

record MysqlRPCResponse =
  mrp_GTID :: GTID
  mrp_RetCode :: string

definition NewMysqlRPCResponse :: "string \<Rightarrow> MysqlRPCResponse" where
  "NewMysqlRPCResponse code = \<lparr>mrp_GTID = zero_GTID, mrp_RetCode = code\<rparr>"

record MysqlStats =
  MysqlDowns :: "64 word"

record MysqlStatusRPCResponse =
  mst_ReplMode :: MysqlReplMode
  mst_GTID :: GTID
  mst_Status :: string
  mst_MGRStatus :: "MGRStatus option"
  mst_Options :: string
  mst_Stats :: "MysqlStats option"
  mst_RetCode :: string

definition NewMysqlStatusRPCResponse :: "string \<Rightarrow> MysqlStatusRPCResponse" where
  "NewMysqlStatusRPCResponse code = \<lparr>mst_ReplMode = [], mst_GTID = zero_GTID, mst_Status = [],
     mst_MGRStatus = None, mst_Options = [], mst_Stats = None, mst_RetCode = code\<rparr>"

record MysqlGTIDSubtractRPCRequest =
  gsq_From :: string
  gsq_SubsetGTID :: string
  gsq_SetGTID :: string

record MysqlGTIDSubtractRPCResponse =
  gsp_Subtract :: string
  gsp_RetCode :: string

definition NewMysqlGTIDSubtractRPCResponse :: "string \<Rightarrow> MysqlGTIDSubtractRPCResponse" where
  "NewMysqlGTIDSubtractRPCResponse code = \<lparr>gsp_Subtract = [], gsp_RetCode = code\<rparr>"

record MysqlUserRPCRequest =
  us_From :: string
  us_User :: string
  us_Passwd :: string
  us_Database :: string
  us_Table :: string
  us_Host :: string
  us_Privileges :: string
  us_SSL :: string

definition NewMysqlUserRPCRequest :: MysqlUserRPCRequest where
  "NewMysqlUserRPCRequest = \<lparr>us_From = [], us_User = [], us_Passwd = [], us_Database = [],
     us_Table = [], us_Host = [], us_Privileges = [], us_SSL = []\<rparr>"

record MysqlUserRPCResponse =
  usp_Users :: "(string \<times> string \<times> string) list"
  usp_RetCode :: string

definition NewMysqlUserRPCResponse :: "string \<Rightarrow> MysqlUserRPCResponse" where
  "NewMysqlUserRPCResponse code = \<lparr>usp_Users = [], usp_RetCode = code\<rparr>"


subsection \<open>Raft status and the server (raft.go, server.go)\<close>

record RaftStatusRPCResponse =
  rsp_Stats :: "RaftStats option"
  rsp_IdleCount :: "64 word"
  rsp_State :: string
  rsp_RetCode :: string

definition NewRaftStatusRPCResponse :: "string \<Rightarrow> RaftStatusRPCResponse" where
  "NewRaftStatusRPCResponse code = \<lparr>rsp_Stats = None, rsp_IdleCount = 0, rsp_State = [], rsp_RetCode = code\<rparr>"

record ConfigStatus =
  cs_LogLevel :: string
  cs_BackupDir :: string
  cs_BackupIOPSLimits :: int
  cs_XtrabackupBinDir :: string
  cs_MysqldBaseDir :: string
  cs_MysqldDefaultsFile :: string
  cs_MysqlAdmin :: string
  cs_MysqlHost :: string
  cs_MysqlPort :: int
  cs_MysqlReplUser :: string
  cs_MysqlPingTimeout :: int
  cs_RaftDataDir :: string
  cs_RaftHeartbeatTimeout :: int
  cs_RaftElectionTimeout :: int
  cs_RaftRPCRequestTimeout :: int
  cs_RaftStartVipCommand :: string
  cs_RaftStopVipCommand :: string

record ServerRPCResponse =
  sv_Config :: "ConfigStatus option"
  sv_Uptimes :: "64 word option"
  sv_ServerUptimes :: "64 word"
  sv_RetCode :: string

definition NewServerRPCResponse :: "string \<Rightarrow> ServerRPCResponse" where
  "NewServerRPCResponse code = \<lparr>sv_Config = None, sv_Uptimes = None, sv_ServerUptimes = 0, sv_RetCode = code\<rparr>"

end
