(* ===== verification/NeoRpc.thy ===== *)
theory NeoRpc
  imports RpcModel RaftState Mysql "HOL-Library.While_Combinator"
begin

section \<open>The RPC client helpers (internal/neorpc)\<close>

text \<open>
  One helper per RPC, and the decisions of the cluster-wide ones. Connections and calls are the
  argument \<open>N\<close>: an \<open>rpcenv\<close> says how opening a connection to a node and each call of a service
  are answered. A response pointer is \<open>None\<close> when no connection was made; a call that fails leaves
  the response as \<open>NewXResponse(OK)\<close> made it (\<open>reply\<close>). The waiting helpers poll until they are
  answered, for ever if need be: \<open>polled\<close> is their loop by \<open>while_option\<close>, \<open>None\<close> when it never
  ends. Tables printed on the terminal are not modelled.
\<close>

record 'w rpcenv =
  nr_new :: "string \<Rightarrow> ('w, gerror option) state"
  nr_close :: "string \<Rightarrow> ('w, unit) state"
  nr_node :: "string \<Rightarrow> string \<Rightarrow> NodeRPCRequest \<Rightarrow> ('w, NodeRPCResponse res) state"
  nr_mysqld :: "string \<Rightarrow> string \<Rightarrow> ('w, CodeResponse res) state"
  nr_mysqld_status :: "string \<Rightarrow> string \<Rightarrow> ('w, MysqldStatusRPCResponse res) state"
  nr_backup :: "string \<Rightarrow> string \<Rightarrow> BackupRPCRequest \<Rightarrow> ('w, CodeResponse res) state"
  nr_ha :: "string \<Rightarrow> string \<Rightarrow> ('w, CodeResponse res) state"
  nr_raft_status :: "string \<Rightarrow> string \<Rightarrow> ('w, RaftStatusRPCResponse res) state"
  nr_mysql :: "string \<Rightarrow> string \<Rightarrow> ('w, MysqlRPCResponse res) state"
  nr_mysql_status :: "string \<Rightarrow> string \<Rightarrow> ('w, MysqlStatusRPCResponse res) state"
  nr_set_state :: "string \<Rightarrow> string \<Rightarrow> MysqlState \<Rightarrow> ('w, CodeResponse res) state"
  nr_subtract :: "string \<Rightarrow> string \<Rightarrow> MysqlGTIDSubtractRPCRequest \<Rightarrow>
    ('w, MysqlGTIDSubtractRPCResponse res) state"
  nr_user :: "string \<Rightarrow> string \<Rightarrow> MysqlUserRPCRequest \<Rightarrow> ('w, MysqlUserRPCResponse res) state"
  nr_var :: "string \<Rightarrow> string \<Rightarrow> string \<Rightarrow> ('w, CodeResponse res) state"
  nr_server :: "string \<Rightarrow> int option \<Rightarrow> string \<Rightarrow> ('w, ServerRPCResponse res) state"
  nr_sleep :: "int \<Rightarrow> ('w, unit) state"
  nr_read :: "string \<Rightarrow> ('w, string res) state"

definition GetClient :: "'w rpcenv \<Rightarrow> string \<Rightarrow> ('w, gerror option) state" where
  "GetClient N conn = do {
     e \<leftarrow> nr_new N conn;
     ret (case e of None \<Rightarrow> None
          | Some err \<Rightarrow> Some (GoErr (''get.client.error['' @ err_text err @ '']''))) }"

text \<open>Get a client, run the call, close; the response exists only if the client does.\<close>

definition with_client :: "'w rpcenv \<Rightarrow> string \<Rightarrow> ('w, 'r res) state \<Rightarrow> ('w, 'r option res) state" where
  "with_client N node k = do {
     e \<leftarrow> GetClient N node;
     (case e of Some err \<Rightarrow> ret (None, Some err)
      | None \<Rightarrow> do {
          (r, e2) \<leftarrow> k;
          nr_close N node;
          ret (Some r, e2) }) }"

text \<open>\<open>rsp := NewXResponse(OK); err = cli.Call(method, req, rsp)\<close>\<close>

definition reply :: "'r \<Rightarrow> ('w, 'r res) state \<Rightarrow> ('w, 'r res) state" where
  "reply fresh m = do {
     (r, e) \<leftarrow> m;
     ret (if e = None then r else fresh, e) }"

text \<open>A helper that returns the error alone.\<close>

definition only_err :: "('w, 'r option res) state \<Rightarrow> ('w, gerror option) state" where
  "only_err m = do { (r, e) \<leftarrow> m; ret e }"

definition ask_node :: "'w rpcenv \<Rightarrow> string \<Rightarrow> string \<Rightarrow> string list \<Rightarrow> ('w, NodeRPCResponse option res) state" where
  "ask_node N node rpc nodes = with_client N node
     (reply (NewNodeRPCResponse OK) (nr_node N node rpc (NewNodeRPCRequest\<lparr>ndq_Nodes := nodes\<rparr>)))"

definition ask_mysqld :: "'w rpcenv \<Rightarrow> string \<Rightarrow> string \<Rightarrow> ('w, CodeResponse option res) state" where
  "ask_mysqld N node rpc = with_client N node (reply OK (nr_mysqld N node rpc))"

definition ask_ha :: "'w rpcenv \<Rightarrow> string \<Rightarrow> string \<Rightarrow> ('w, CodeResponse option res) state" where
  "ask_ha N node rpc = with_client N node (reply OK (nr_ha N node rpc))"

definition ask_raft :: "'w rpcenv \<Rightarrow> string \<Rightarrow> string \<Rightarrow> ('w, RaftStatusRPCResponse option res) state" where
  "ask_raft N node rpc = with_client N node (reply (NewRaftStatusRPCResponse OK) (nr_raft_status N node rpc))"

definition ask_mysql :: "'w rpcenv \<Rightarrow> string \<Rightarrow> string \<Rightarrow> ('w, MysqlRPCResponse option res) state" where
  "ask_mysql N node rpc = with_client N node (reply (NewMysqlRPCResponse OK) (nr_mysql N node rpc))"

definition ask_mysql_status :: "'w rpcenv \<Rightarrow> string \<Rightarrow> ('w, MysqlStatusRPCResponse option res) state" where
  "ask_mysql_status N node = with_client N node
     (reply (NewMysqlStatusRPCResponse OK) (nr_mysql_status N node RPCMysqlStatus))"

definition ask_user :: "'w rpcenv \<Rightarrow> string \<Rightarrow> string \<Rightarrow> MysqlUserRPCRequest \<Rightarrow>
    ('w, MysqlUserRPCResponse option res) state" where
  "ask_user N node rpc req = with_client N node (reply (NewMysqlUserRPCResponse OK) (nr_user N node rpc req))"

definition ask_backup :: "'w rpcenv \<Rightarrow> string \<Rightarrow> string \<Rightarrow> BackupRPCRequest \<Rightarrow> ('w, CodeResponse option res) state" where
  "ask_backup N node rpc req = with_client N node (reply OK (nr_backup N node rpc req))"


subsection \<open>Nodes and the leader\<close>

definition GetNodes :: "'w rpcenv \<Rightarrow> string \<Rightarrow> ('w, string list res) state" where
  "GetNodes N endpoint = do {
     (r, e) \<leftarrow> ask_node N endpoint RPCNodes [];
     ret (case e of Some err \<Rightarrow> ([], Some err)
          | None \<Rightarrow> (if nd_RetCode (the r) \<noteq> OK then ([], Some (GoErr (nd_RetCode (the r))))
                    else (nd_Nodes (the r), None))) }"

definition GetRaftState :: "'w rpcenv \<Rightarrow> string \<Rightarrow> ('w, (string \<times> string list) res) state" where
  "GetRaftState N endpoint = do {
     (r, e) \<leftarrow> ask_node N endpoint RPCNodes [];
     ret (case e of Some err \<Rightarrow> (([], []), Some err)
          | None \<Rightarrow> (if nd_RetCode (the r) \<noteq> OK then (([], []), Some (GoErr (nd_RetCode (the r))))
                    else ((nd_State (the r), nd_Nodes (the r)), None))) }"

text \<open>A return code other than OK gives the outer \<open>err\<close>, which is nil there.\<close>

definition IsNodeIdleOrInvalid :: "'w rpcenv \<Rightarrow> string \<Rightarrow> ('w, bool res) state" where
  "IsNodeIdleOrInvalid N node = do {
     (r, e) \<leftarrow> ask_node N node RPCNodes [];
     ret (case e of Some err \<Rightarrow> (False, Some err)
          | None \<Rightarrow> (if nd_RetCode (the r) \<noteq> OK then (False, None)
                    else (nd_State (the r) = State_String IDLE \<or> nd_State (the r) = State_String INVALID, None))) }"

text \<open>The loop keeps its connections open and closes them, the last one first, when it returns.\<close>

fun leader_loop :: "'w rpcenv \<Rightarrow> string list \<Rightarrow> string list \<Rightarrow> ('w, string) state" where
  "leader_loop N opened [] = do { for_each (nr_close N) opened; ret [] }"
| "leader_loop N opened (node # nodes) = do {
     e \<leftarrow> GetClient N node;
     (if e \<noteq> None then leader_loop N opened nodes
      else do {
        (r, e2) \<leftarrow> reply (NewNodeRPCResponse OK) (nr_node N node RPCNodes NewNodeRPCRequest);
        (if e2 = None \<and> nd_RetCode r = OK \<and> nd_State r = State_String LEADER
         then do { for_each (nr_close N) (node # opened); ret node }
         else leader_loop N (node # opened) nodes) }) }"

definition GetClusterLeader :: "'w rpcenv \<Rightarrow> string \<Rightarrow> ('w, string res) state" where
  "GetClusterLeader N self = do {
     (nodes, e) \<leftarrow> GetNodes N self;
     (case e of Some err \<Rightarrow> ret ([], Some err)
      | None \<Rightarrow> do { leader \<leftarrow> leader_loop N [] nodes; ret (leader, None) }) }"

definition GetMysqlStatusRPC :: "'w rpcenv \<Rightarrow> string \<Rightarrow> ('w, MysqlStatusRPCResponse option res) state" where
  "GetMysqlStatusRPC N node = ask_mysql_status N node"

definition GetGTIDRPC :: "'w rpcenv \<Rightarrow> string \<Rightarrow> ('w, MysqlStatusRPCResponse option res) state" where
  "GetGTIDRPC N node = ask_mysql_status N node"

definition backup_candidate :: "string \<Rightarrow> string \<Rightarrow> GTID \<Rightarrow> bool" where
  "backup_candidate self node gtid \<longleftrightarrow> fst (atoi (Txns_Behind_Master gtid)) < 100 \<and> node \<noteq> self"

text \<open>The replication mode is the constant \<open>ReplModeMGR\<close>, so only the branch of it is taken.\<close>

fun bestone_loop :: "'w rpcenv \<Rightarrow> string \<Rightarrow> string \<Rightarrow> string list \<Rightarrow> ('w, string) state" where
  "bestone_loop N self leader [] = ret leader"
| "bestone_loop N self leader (node # nodes) = do {
     (idle, e) \<leftarrow> IsNodeIdleOrInvalid N node;
     (if e \<noteq> None \<or> idle \<or> node = leader then bestone_loop N self leader nodes
      else do {
        (r, e2) \<leftarrow> GetMysqlStatusRPC N node;
        (if e2 = None \<and> backup_candidate self node (mst_GTID (the r)) then ret node
         else bestone_loop N self leader nodes) }) }"

definition FindBestoneForBackup :: "'w rpcenv \<Rightarrow> string \<Rightarrow> ('w, string res) state" where
  "FindBestoneForBackup N self = do {
     (nodes, e) \<leftarrow> GetNodes N self;
     (case e of Some err \<Rightarrow> ret ([], Some err)
      | None \<Rightarrow> do {
          (leader, e2) \<leftarrow> GetClusterLeader N self;
          (case e2 of Some err \<Rightarrow> ret ([], Some err)
           | None \<Rightarrow> do { best \<leftarrow> bestone_loop N self leader nodes; ret (best, None) }) }) }"

definition gtid_line :: "string \<Rightarrow> string" where
  "gtid_line gtid = (let ss = split_on CHR '':'' gtid in
     if length ss = 2 then ''***:'' @ ss ! 1 @ '','' @ [CHR 0x0A] else [])"

definition GTIDFilter :: "string \<Rightarrow> string" where
  "GTIDFilter input = concat (map gtid_line (split_on CHR '','' input))"


subsection \<open>mysqld\<close>

definition StopMonitorRPC :: "'w rpcenv \<Rightarrow> string \<Rightarrow> ('w, CodeResponse option res) state" where
  "StopMonitorRPC N node = ask_mysqld N node RPCMysqldStopMonitor"

definition StartMonitorRPC :: "'w rpcenv \<Rightarrow> string \<Rightarrow> ('w, CodeResponse option res) state" where
  "StartMonitorRPC N node = ask_mysqld N node RPCMysqldStartMonitor"

definition StartMysqldRPC :: "'w rpcenv \<Rightarrow> string \<Rightarrow> ('w, gerror option) state" where
  "StartMysqldRPC N node = only_err (ask_mysqld N node RPCMysqldStart)"

definition ShutdownMysqldRPC :: "'w rpcenv \<Rightarrow> string \<Rightarrow> ('w, gerror option) state" where
  "ShutdownMysqldRPC N node = only_err (ask_mysqld N node RPCMysqldShutDown)"

definition KillMysqldRPC :: "'w rpcenv \<Rightarrow> string \<Rightarrow> ('w, gerror option) state" where
  "KillMysqldRPC N node = only_err (ask_mysqld N node RPCMysqldKill)"

definition SetMysqlStateRPC :: "'w rpcenv \<Rightarrow> string \<Rightarrow> MysqlState \<Rightarrow> ('w, gerror option) state" where
  "SetMysqlStateRPC N node st = only_err (with_client N node
     (reply OK (nr_set_state N node RPCMysqlSetState st)))"

definition MysqldIsRunningRPC :: "'w rpcenv \<Rightarrow> string \<Rightarrow> ('w, bool res) state" where
  "MysqldIsRunningRPC N node = do {
     (r, e) \<leftarrow> ask_mysqld N node RPCMysqldIsRuning;
     ret (case e of Some err \<Rightarrow> (False, Some err) | None \<Rightarrow> (r = Some OK, None)) }"

definition GetMysqldStatusRPC :: "'w rpcenv \<Rightarrow> string \<Rightarrow> ('w, MysqldStatusRPCResponse option res) state" where
  "GetMysqldStatusRPC N node = with_client N node
     (reply (NewMysqldStatusRPCResponse OK) (nr_mysqld_status N node RPCMysqldStatus))"

definition RequestBackupRPC ::
    "'w rpcenv \<Rightarrow> string \<Rightarrow> MysqlConfig \<Rightarrow> string \<Rightarrow> ('w, CodeResponse option res) state" where
  "RequestBackupRPC N fromnode conf backupdir =
     (let b = the (mc_Backup conf) in
      ask_backup N fromnode RPCBackupDo (NewBackupRPCRequest\<lparr>brq_SSHHost := bk_SSHHost b,
        brq_SSHUser := bk_SSHUser b, brq_SSHPasswd := bk_SSHPasswd b, brq_SSHPort := bk_SSHPort b,
        brq_IOPSLimits := bk_BackupIOPSLimits b, brq_BackupDir := backupdir,
        brq_XtrabackupBinDir := bk_XtrabackupBinDir b\<rparr>))"

definition BackupCancelRPC :: "'w rpcenv \<Rightarrow> string \<Rightarrow> ('w, CodeResponse option res) state" where
  "BackupCancelRPC N self = ask_backup N self RPCBackupCancel NewBackupRPCRequest"

definition DoApplyLogRPC :: "'w rpcenv \<Rightarrow> string \<Rightarrow> string \<Rightarrow> ('w, gerror option) state" where
  "DoApplyLogRPC N node backupdir = only_err (ask_backup N node RPCBackupApplyLog
     (NewBackupRPCRequest\<lparr>brq_BackupDir := backupdir\<rparr>))"


subsection \<open>Waiting\<close>

text \<open>Ask; while the answer is not final, sleep three seconds and ask again.\<close>

definition poll_step :: "'w rpcenv \<Rightarrow> ('w, 'r) state \<Rightarrow> 'r \<times> 'w \<Rightarrow> 'r \<times> 'w" where
  "poll_step N ask s = run_state ask (exec_of (nr_sleep N 3000) (snd s))"

definition polled :: "'w rpcenv \<Rightarrow> ('r \<Rightarrow> bool) \<Rightarrow> ('w, 'r) state \<Rightarrow> 'w \<Rightarrow> ('r \<times> 'w) option" where
  "polled N final ask w = while_option (\<lambda>s. \<not> final (fst s)) (poll_step N ask) (run_state ask w)"

text \<open>
  A waiting helper: \<open>None\<close> if it never returns, in which case the state is of no account.
\<close>

definition wait_until :: "'w rpcenv \<Rightarrow> string \<Rightarrow> ('r \<times> gerror option \<Rightarrow> bool) \<Rightarrow> ('w, 'r res) state \<Rightarrow>
    ('w, gerror option option) state" where
  "wait_until N node final ask = do {
     e \<leftarrow> GetClient N node;
     (case e of Some err \<Rightarrow> ret (Some (Some err))
      | None \<Rightarrow> State (\<lambda>w. case polled N final ask w of
          None \<Rightarrow> (None, w)
        | Some ((r, e2), w') \<Rightarrow> (Some e2, exec_of (nr_close N node) w'))) }"

definition WaitMysqldShutdownRPC :: "'w rpcenv \<Rightarrow> string \<Rightarrow> ('w, gerror option option) state" where
  "WaitMysqldShutdownRPC N node = wait_until N node
     (\<lambda>(code, e). e \<noteq> None \<or> code = ErrorMysqldNotRunning) (reply OK (nr_mysqld N node RPCMysqldIsRuning))"

definition WaitMysqldRunningRPC :: "'w rpcenv \<Rightarrow> string \<Rightarrow> ('w, gerror option option) state" where
  "WaitMysqldRunningRPC N node = wait_until N node
     (\<lambda>(code, e). e \<noteq> None \<or> code = OK) (reply OK (nr_mysqld N node RPCMysqldIsRuning))"

text \<open>This one ignores the errors of the calls.\<close>

definition WaitMysqlWorkingRPC :: "'w rpcenv \<Rightarrow> string \<Rightarrow> ('w, gerror option option) state" where
  "WaitMysqlWorkingRPC N node = wait_until N node
     (\<lambda>(r, e). e = None \<and> mrp_RetCode r = OK) (reply (NewMysqlRPCResponse OK) (nr_mysql N node RPCMysqlIsWorking))"


subsection \<open>Raft\<close>

definition AddNodeRPC :: "'w rpcenv \<Rightarrow> string \<Rightarrow> string list \<Rightarrow> ('w, gerror option) state" where
  "AddNodeRPC N node nodes = only_err (ask_node N node RPCNodesAdd nodes)"

definition AddIdleNodeRPC :: "'w rpcenv \<Rightarrow> string \<Rightarrow> string list \<Rightarrow> ('w, gerror option) state" where
  "AddIdleNodeRPC N node nodes = only_err (ask_node N node RPCIdleNodesAdd nodes)"

definition RemoveNodeRPC :: "'w rpcenv \<Rightarrow> string \<Rightarrow> string list \<Rightarrow> ('w, gerror option) state" where
  "RemoveNodeRPC N node nodes = only_err (ask_node N node RPCNodesRemove nodes)"

definition RemoveIdleNodeRPC :: "'w rpcenv \<Rightarrow> string \<Rightarrow> string list \<Rightarrow> ('w, gerror option) state" where
  "RemoveIdleNodeRPC N node nodes = only_err (ask_node N node RPCIdleNodesRemove nodes)"

definition GetNodesRPC :: "'w rpcenv \<Rightarrow> string \<Rightarrow> ('w, NodeRPCResponse option res) state" where
  "GetNodesRPC N node = ask_node N node RPCNodes []"

definition GetRaftStatusRPC :: "'w rpcenv \<Rightarrow> string \<Rightarrow> ('w, RaftStatusRPCResponse option res) state" where
  "GetRaftStatusRPC N node = ask_raft N node RPCRaftStatus"

definition EnableRaftRPC :: "'w rpcenv \<Rightarrow> string \<Rightarrow> ('w, CodeResponse option res) state" where
  "EnableRaftRPC N node = ask_ha N node RPCHAEnable"

definition DisableRaftRPC :: "'w rpcenv \<Rightarrow> string \<Rightarrow> ('w, CodeResponse option res) state" where
  "DisableRaftRPC N node = ask_ha N node RPCHADisable"

definition SetLearnerRPC :: "'w rpcenv \<Rightarrow> string \<Rightarrow> ('w, CodeResponse option res) state" where
  "SetLearnerRPC N node = ask_ha N node RPCHASetLearner"

definition TryToLeaderRPC :: "'w rpcenv \<Rightarrow> string \<Rightarrow> ('w, CodeResponse option res) state" where
  "TryToLeaderRPC N node = ask_ha N node RPCHATryToLeader"

definition RaftEnablePurgeBinlogRPC :: "'w rpcenv \<Rightarrow> string \<Rightarrow> ('w, gerror option) state" where
  "RaftEnablePurgeBinlogRPC N node = only_err (ask_raft N node RPCRaftEnablePurgeBinlog)"

definition RaftDisablePurgeBinlogRPC :: "'w rpcenv \<Rightarrow> string \<Rightarrow> ('w, gerror option) state" where
  "RaftDisablePurgeBinlogRPC N node = only_err (ask_raft N node RPCRaftDisablePurgeBinlog)"

definition RaftEnableCheckSemiSyncRPC :: "'w rpcenv \<Rightarrow> string \<Rightarrow> ('w, gerror option) state" where
  "RaftEnableCheckSemiSyncRPC N node = only_err (ask_raft N node RPCRaftEnableCheckSemiSync)"

definition RaftDisableCheckSemiSyncRPC :: "'w rpcenv \<Rightarrow> string \<Rightarrow> ('w, gerror option) state" where
  "RaftDisableCheckSemiSyncRPC N node = only_err (ask_raft N node RPCRaftDisableCheckSemiSync)"


subsection \<open>MySQL\<close>

definition MysqlIsWorkingRPC :: "'w rpcenv \<Rightarrow> string \<Rightarrow> ('w, bool res) state" where
  "MysqlIsWorkingRPC N node = do {
     (r, e) \<leftarrow> ask_mysql N node RPCMysqlIsWorking;
     ret (case e of Some err \<Rightarrow> (False, Some err) | None \<Rightarrow> (mrp_RetCode (the r) = OK, None)) }"

definition GetGTIDSubtractRPC :: "'w rpcenv \<Rightarrow> string \<Rightarrow> string \<Rightarrow> string \<Rightarrow>
    ('w, MysqlGTIDSubtractRPCResponse option res) state" where
  "GetGTIDSubtractRPC N node inner full = with_client N node
     (reply (NewMysqlGTIDSubtractRPCResponse OK) (nr_subtract N node RPCMysqlGTIDSubtract
        \<lparr>gsq_From = [], gsq_SubsetGTID = inner, gsq_SetGTID = full\<rparr>))"

definition GetMysqlUserRPC :: "'w rpcenv \<Rightarrow> string \<Rightarrow> ('w, MysqlUserRPCResponse option res) state" where
  "GetMysqlUserRPC N node = ask_user N node RPCMysqlGetUser NewMysqlUserRPCRequest"

definition CreateNormalUserRPC :: "'w rpcenv \<Rightarrow> string \<Rightarrow> string \<Rightarrow> string \<Rightarrow> string \<Rightarrow> string \<Rightarrow>
    ('w, MysqlUserRPCResponse option res) state" where
  "CreateNormalUserRPC N node user host passwd ssl = ask_user N node RPCMysqlCreateNormalUser
     (NewMysqlUserRPCRequest\<lparr>us_User := user, us_Host := host, us_Passwd := passwd, us_SSL := ssl\<rparr>)"

definition CreateSuperUserRPC :: "'w rpcenv \<Rightarrow> string \<Rightarrow> string \<Rightarrow> string \<Rightarrow> string \<Rightarrow> string \<Rightarrow>
    ('w, MysqlUserRPCResponse option res) state" where
  "CreateSuperUserRPC N node user host passwd ssl = ask_user N node RPCMysqlCreateSuperUser
     (NewMysqlUserRPCRequest\<lparr>us_User := user, us_Host := host, us_Passwd := passwd, us_SSL := ssl\<rparr>)"

definition DropUserRPC :: "'w rpcenv \<Rightarrow> string \<Rightarrow> string \<Rightarrow> string \<Rightarrow>
    ('w, MysqlUserRPCResponse option res) state" where
  "DropUserRPC N node user host = ask_user N node RPCMysqlDropUser
     (NewMysqlUserRPCRequest\<lparr>us_User := user, us_Host := host\<rparr>)"

definition CreateUserWithPrivRPC :: "'w rpcenv \<Rightarrow> string \<Rightarrow> string \<Rightarrow> string \<Rightarrow> string \<Rightarrow> string \<Rightarrow>
    string \<Rightarrow> string \<Rightarrow> string \<Rightarrow> ('w, MysqlUserRPCResponse option res) state" where
  "CreateUserWithPrivRPC N node user passwd database table host privs ssl =
     ask_user N node RPCMysqlCreateUserWithPrivileges
       (NewMysqlUserRPCRequest\<lparr>us_User := user, us_Passwd := passwd,
          us_Database := (if database = [] \<or> database = ''*'' then ''*'' else backquoted database),
          us_Table := (if table = [] then ''*'' else table),
          us_Host := (if host = [] then ''%'' else host), us_Privileges := privs, us_SSL := ssl\<rparr>)"

definition ChangeUserPasswordRPC :: "'w rpcenv \<Rightarrow> string \<Rightarrow> string \<Rightarrow> string \<Rightarrow> string \<Rightarrow>
    ('w, MysqlUserRPCResponse option res) state" where
  "ChangeUserPasswordRPC N node user host passwd = ask_user N node RPCMysqlChangePassword
     (NewMysqlUserRPCRequest\<lparr>us_User := user, us_Host := host, us_Passwd := passwd\<rparr>)"

definition SetGlobalVarRPC :: "'w rpcenv \<Rightarrow> string \<Rightarrow> string \<Rightarrow> ('w, CodeResponse option res) state" where
  "SetGlobalVarRPC N node varsql = with_client N node (reply OK (nr_var N node RPCMysqlSetGlobalSysVar varsql))"

definition MysqlResetSlaveAllRPC :: "'w rpcenv \<Rightarrow> string \<Rightarrow> ('w, MysqlRPCResponse option res) state" where
  "MysqlResetSlaveAllRPC N node = ask_mysql N node RPCMysqlResetSlaveAll"

definition MysqlResetMasterRPC :: "'w rpcenv \<Rightarrow> string \<Rightarrow> ('w, MysqlRPCResponse option res) state" where
  "MysqlResetMasterRPC N node = ask_mysql N node RPCMysqlResetMaster"

definition MysqlStopSlaveRPC :: "'w rpcenv \<Rightarrow> string \<Rightarrow> ('w, MysqlRPCResponse option res) state" where
  "MysqlStopSlaveRPC N node = ask_mysql N node RPCMysqlStopSlave"

definition MysqlStartSlaveRPC :: "'w rpcenv \<Rightarrow> string \<Rightarrow> ('w, MysqlRPCResponse option res) state" where
  "MysqlStartSlaveRPC N node = ask_mysql N node RPCMysqlStartSlave"

definition MysqlResetSlaveRPC :: "'w rpcenv \<Rightarrow> string \<Rightarrow> ('w, MysqlRPCResponse option res) state" where
  "MysqlResetSlaveRPC N node = ask_mysql N node RPCMysqlResetSlave"

definition GetXtrabackupGTIDPurged :: "'w rpcenv \<Rightarrow> string \<Rightarrow> string \<Rightarrow> ('w, string res) state" where
  "GetXtrabackupGTIDPurged N node backuppath = do {
     (b, e) \<leftarrow> nr_read N (backuppath @ ''/xtrabackup_binlog_info'');
     ret (case e of Some err \<Rightarrow> ([], Some err)
          | None \<Rightarrow> (let ss = split_on (CHR 0x09) b in
              if length ss \<noteq> 3 then ([], Some (GoErr (''info.file.content.invalid['' @ b @ '']'')))
              else (ss ! 2, None))) }"

definition ServerPingRPC :: "'w rpcenv \<Rightarrow> string \<Rightarrow> ('w, ServerRPCResponse option res) state" where
  "ServerPingRPC N node = with_client N node
     (reply (NewServerRPCResponse OK) (nr_server N node (Some 1000) RRCServerPing))"

definition ServerStatusRPC :: "'w rpcenv \<Rightarrow> string \<Rightarrow> ('w, ServerRPCResponse option res) state" where
  "ServerStatusRPC N node = do {
     (r, e) \<leftarrow> with_client N node (reply (NewServerRPCResponse OK) (nr_server N node None RPCServerStatus));
     ret (if e \<noteq> None then (None, e) else (r, e)) }"

end
