(* ===== verification/Ctl.thy ===== *)
theory Ctl
  imports NeoRpc Config
begin

section \<open>The control tool: configuration and MySQL commands (internal/neohactl)\<close>

text \<open>
  A command runs in the process of the tool: it reads the configuration, makes RPCs, runs shell
  commands and prints. Its outcome is \<open>Completed\<close>, \<open>Panicked\<close> (\<open>log.Panic\<close>, which ends the process
  where it is) or \<open>Waiting\<close>, when a waiting helper never returns. Flags of the command line are
  arguments. \<open>C\<close> is what surrounds the process; JSON is printed as a value of \<open>json\<close>.
\<close>

datatype outcome = Completed | Panicked gerror | Waiting

datatype json = JString string | JBool bool | JList "json list" | JObj "(string \<times> json) list"

record 'w ctl =
  ct_rpc :: "'w rpcenv"
  ct_exec :: "string \<Rightarrow> string list \<Rightarrow> ('w, string res) state"
  ct_stat :: "string \<Rightarrow> 'w \<Rightarrow> gerror option"
  ct_argdir :: "'w \<Rightarrow> string res"
  ct_readfile :: "string \<Rightarrow> 'w \<Rightarrow> string res"
  ct_writefile :: "string \<Rightarrow> string \<Rightarrow> 'w \<Rightarrow> gerror option \<times> 'w"
  ct_jsondec :: decoder
  ct_yamldec :: decoder
  ct_jsonenc :: encoder
  ct_yamlenc :: encoder
  ct_print :: "string \<Rightarrow> ('w, unit) state"
  ct_json :: "json \<Rightarrow> ('w, unit) state"
  ct_table :: "string list \<Rightarrow> string list list \<Rightarrow> ('w, unit) state"
  ct_sleep_ns :: "int \<Rightarrow> ('w, unit) state"

type_synonym 'w run = "('w, outcome) state"


subsection \<open>Errors and the configuration (common.go)\<close>

definition ErrorOK :: "gerror option \<Rightarrow> 'w run \<Rightarrow> 'w run" where
  "ErrorOK e k = (case e of Some err \<Rightarrow> ret (Panicked err) | None \<Rightarrow> k)"

definition RspOK :: "string \<Rightarrow> 'w run \<Rightarrow> 'w run" where
  "RspOK code k = (if code \<noteq> OK then ret (Panicked (GoErr (''rsp['' @ code @ ''] != [OK]''))) else k)"

definition panic :: "string \<Rightarrow> 'w run" where
  "panic t = ret (Panicked (GoErr t))"

text \<open>One section of a command after another.\<close>

definition and_then :: "'w run \<Rightarrow> 'w run \<Rightarrow> 'w run" where
  "and_then m k = do { r \<leftarrow> m; (if r = Completed then k else ret r) }"

text \<open>A waiting helper, whose error the caller checks (\<open>check\<close>) or drops.\<close>

definition waiting :: "('w, gerror option option) state \<Rightarrow> bool \<Rightarrow> 'w run" where
  "waiting m check = do {
     r \<leftarrow> m;
     (case r of None \<Rightarrow> ret Waiting
      | Some e \<Rightarrow> if check then ErrorOK e (ret Completed) else ret Completed) }"

definition too_many_args :: "string list \<Rightarrow> 'w run \<Rightarrow> 'w run" where
  "too_many_args args k = (if args \<noteq> [] then ErrorOK (Some (GoErr ''too.many.args'')) k else k)"

definition config_path :: "'w ctl \<Rightarrow> ('w, string res) state" where
  "config_path C = gets (\<lambda>w.
     if ct_stat C ''config.path'' w \<noteq> None then
       (case ct_argdir C w of
          (d, Some err) \<Rightarrow> ([], Some err)
        | (d, None) \<Rightarrow> (d @ ''/config.path'', None))
     else (''config.path'', None))"

definition GetConfig :: "'w ctl \<Rightarrow> ('w, Config option res) state" where
  "GetConfig C = do {
     (full, e) \<leftarrow> config_path C;
     (case e of Some err \<Rightarrow> ret (None, Some err)
      | None \<Rightarrow> do {
          (data, e1) \<leftarrow> gets (ct_readfile C full);
          (case e1 of Some err \<Rightarrow> ret (None, Some err)
           | None \<Rightarrow> gets (\<lambda>w. LoadConfig (\<lambda>p. ct_readfile C p w) (ct_jsondec C) (ct_yamldec C)
               (trim_space data))) }) }"

definition SaveConfig :: "'w ctl \<Rightarrow> Config \<Rightarrow> ('w, gerror option) state" where
  "SaveConfig C conf = do {
     (full, e) \<leftarrow> config_path C;
     (case e of Some err \<Rightarrow> ret (Some err)
      | None \<Rightarrow> do {
          (data, e1) \<leftarrow> gets (ct_readfile C full);
          (case e1 of Some err \<Rightarrow> ret (Some err)
           | None \<Rightarrow> State (WriteConfig (ct_writefile C) (ct_jsonenc C) (ct_yamlenc C) (trim_space data) conf)) }) }"

text \<open>\<open>conf, err := GetConfig(); ErrorOK(err)\<close>\<close>

definition with_config :: "'w ctl \<Rightarrow> (Config \<Rightarrow> 'w run) \<Rightarrow> 'w run" where
  "with_config C k = do { (conf, e) \<leftarrow> GetConfig C; ErrorOK e (k (the conf)) }"

text \<open>\<open>common.RunCommand\<close>: on failure the output is preceded by the command line.\<close>

definition RunCommand :: "'w ctl \<Rightarrow> string \<Rightarrow> string list \<Rightarrow> ('w, string res) state" where
  "RunCommand C cmds args = do {
     (outs, e) \<leftarrow> ct_exec C cmds args;
     ret (case e of Some err \<Rightarrow> (join '' '' (cmds # args) @ outs, Some err) | None \<Rightarrow> (outs, None)) }"

definition shell :: "'w ctl \<Rightarrow> string \<Rightarrow> (string \<Rightarrow> 'w run) \<Rightarrow> 'w run" where
  "shell C line k = do {
     (outs, e) \<leftarrow> RunCommand C ''bash'' [''-c'', line];
     ErrorOK e (k outs) }"

text \<open>\<open>path.Dir\<close>.\<close>

definition path_dir :: "string \<Rightarrow> string" where
  "path_dir p = path_clean (rev (dropWhile (\<lambda>c. c \<noteq> CHR ''/'') (rev p)))"

definition mysql_conf :: "Config \<Rightarrow> MysqlConfig" where
  "mysql_conf conf = the (db_Mysql (the (Database conf)))"

definition backup_conf :: "Config \<Rightarrow> BackupConfig" where
  "backup_conf conf = the (mc_Backup (mysql_conf conf))"

text \<open>\<open>rsp, err := f(); ErrorOK(err); RspOK(rsp.RetCode)\<close>\<close>

definition checked :: "('w, 'r option res) state \<Rightarrow> ('r \<Rightarrow> string) \<Rightarrow> 'w run \<Rightarrow> 'w run" where
  "checked m code k = do { (r, e) \<leftarrow> m; ErrorOK e (RspOK (code (the r)) k) }"

definition dropped :: "('w, 'a) state \<Rightarrow> 'w run" where
  "dropped m = do { _ \<leftarrow> m; ret Completed }"


subsection \<open>mysqld: start, stop, monitor\<close>

definition mysqlStopMonitorCommandFn :: "'w ctl \<Rightarrow> string list \<Rightarrow> 'w run" where
  "mysqlStopMonitorCommandFn C args = too_many_args args (with_config C (\<lambda>conf.
     checked (StopMonitorRPC (ct_rpc C) (Endpoint conf)) id (ret Completed)))"

definition mysqlStartMonitorCommandFn :: "'w ctl \<Rightarrow> string list \<Rightarrow> 'w run" where
  "mysqlStartMonitorCommandFn C args = too_many_args args (with_config C (\<lambda>conf.
     checked (StartMonitorRPC (ct_rpc C) (Endpoint conf)) id (ret Completed)))"

definition mysqlStartCommandFn :: "'w ctl \<Rightarrow> string list \<Rightarrow> 'w run" where
  "mysqlStartCommandFn C args = too_many_args args (with_config C (\<lambda>conf.
     dropped (StartMysqldRPC (ct_rpc C) (Endpoint conf))))"

definition mysqlShutDownCommandFn :: "'w ctl \<Rightarrow> string list \<Rightarrow> 'w run" where
  "mysqlShutDownCommandFn C args = too_many_args args (with_config C (\<lambda>conf.
     and_then (dropped (ShutdownMysqldRPC (ct_rpc C) (Endpoint conf)))
       (waiting (WaitMysqldShutdownRPC (ct_rpc C) (Endpoint conf)) False)))"

definition mysqlKillCommandFn :: "'w ctl \<Rightarrow> string list \<Rightarrow> 'w run" where
  "mysqlKillCommandFn C args = too_many_args args (with_config C (\<lambda>conf. do {
     e \<leftarrow> KillMysqldRPC (ct_rpc C) (Endpoint conf);
     ErrorOK e (ret Completed) }))"


subsection \<open>Rebuilding a replica\<close>

text \<open>The number of transactions in the ranges of one line of a GTID set.\<close>

definition range_count :: "string \<Rightarrow> int" where
  "range_count diff = (let values = split_on CHR ''-'' diff in
     if length values = 1 then 1
     else fst (atoi (values ! 1)) - fst (atoi (values ! 0)) + 1)"

definition line_count :: "string \<Rightarrow> int" where
  "line_count gtid = (let g = trim_suffix (trim_space gtid) '','' in
     foldl (\<lambda>count diff. wrap64 (count + range_count diff)) 0 (tl (split_on CHR '':'' g)))"

definition trx_count :: "string \<Rightarrow> int" where
  "trx_count subtract = foldl (\<lambda>count gtid. wrap64 (count + line_count gtid)) 0 (split_on (CHR 0x0A) subtract)"

definition executed_set :: "'w rpcenv \<Rightarrow> string \<Rightarrow> string \<Rightarrow> ('w, string res) state" where
  "executed_set N node who = do {
     (r, e) \<leftarrow> GetGTIDRPC N node;
     ret (case e of Some err \<Rightarrow> ([], Some (GoErr (''get.gtid.from.'' @ who @ ''['' @ node @ ''].failed['' @
              err_text err @ '']'')))
          | None \<Rightarrow> (if Executed_GTID_Set (mst_GTID (the r)) = []
                    then ([], Some (GoErr (''the.Executed_GTID_Set.of.'' @ who @ ''['' @ node @ ''].is.null'')))
                    else (Executed_GTID_Set (mst_GTID (the r)), None))) }"

definition getLocalTrxCount :: "'w rpcenv \<Rightarrow> string \<Rightarrow> string \<Rightarrow> ('w, int res) state" where
  "getLocalTrxCount N self bestone = do {
     (fromSet, e1) \<leftarrow> executed_set N bestone ''bestone'';
     (case e1 of Some err \<Rightarrow> ret (-1, Some err)
      | None \<Rightarrow> do {
          (localSet, e2) \<leftarrow> executed_set N self ''myself'';
          (case e2 of Some err \<Rightarrow> ret (-1, Some err)
           | None \<Rightarrow> do {
               (r, e3) \<leftarrow> GetGTIDSubtractRPC N self localSet fromSet;
               ret (case e3 of
                   Some err \<Rightarrow> (-1, Some (GoErr (''get.gtid.subtract.from.self['' @ self @ ''].failed['' @
                     err_text err @ '']'')))
                 | None \<Rightarrow> (if gsp_RetCode (the r) \<noteq> OK
                     then (-1, Some (GoErr (''get.gtid.subtract.from.self['' @ self @ ''].failed['' @
                       gsp_RetCode (the r) @ '']'')))
                     else (trx_count (gsp_Subtract (the r)), None))) }) }) }"

text \<open>S1: the node must be neither the Raft leader nor the primary of its group.\<close>

definition rebuild_S1 :: "'w rpcenv \<Rightarrow> string \<Rightarrow> 'w run" where
  "rebuild_S1 N self = do {
     (leader, e) \<leftarrow> GetClusterLeader N self;
     ErrorOK e
       (if leader = self then panic (''I['' @ self @ ''].am.leader.you.can.not.rebuildme.sir'')
        else do {
          (r, e2) \<leftarrow> GetMysqlStatusRPC N self;
          (if e2 = None \<and> mst_RetCode (the r) = OK then
             (case mst_MGRStatus (the r) of
                None \<Rightarrow> panic ''nil pointer''
              | Some mgr \<Rightarrow> (if mgr_Role mgr = MGRRolePrimary
                  then panic (''['' @ self @ ''].I.am.MGR.leader.you.can.not.rebuildme.sir'') else ret Completed))
           else ret Completed) }) }"

text \<open>S2: choose the source; without \<open>--force\<close> the node may not have too many transactions of its own.\<close>

definition rebuild_source :: "'w rpcenv \<Rightarrow> string \<Rightarrow> string \<Rightarrow> ('w, string res) state" where
  "rebuild_source N self fromStr =
     (if fromStr \<noteq> [] then ret (fromStr, None) else FindBestoneForBackup N self)"

definition rebuild_S2_check :: "'w rpcenv \<Rightarrow> string \<Rightarrow> string \<Rightarrow> bool \<Rightarrow> int \<Rightarrow> 'w run" where
  "rebuild_S2_check N self bestone force maxTrx =
     (if force then ret Completed
      else do {
        (working, e) \<leftarrow> MysqlIsWorkingRPC N self;
        ErrorOK e
          (if \<not> working then panic ''local.mysql.is.not.working.you.cant.rebuildme.sir''
           else do {
             (count, e2) \<leftarrow> getLocalTrxCount N self bestone;
             ErrorOK e2
               (if count > maxTrx then panic (''I['' @ self @ ''].have.['' @ itoa count @
                  ''].local.transactions.more.than.maxAllowedLocalTrxCount['' @ itoa maxTrx @
                  ''].compared.to.from['' @ bestone @ ''].you.cant.rebuildme.sir'')
                else ret Completed) }) })"

text \<open>S3 and S7: the source must not be making a backup already.\<close>

definition rebuild_not_backuping :: "'w rpcenv \<Rightarrow> string \<Rightarrow> 'w run" where
  "rebuild_not_backuping N bestone = do {
     (r, e) \<leftarrow> GetMysqldStatusRPC N bestone;
     ErrorOK e
       (if mds_BackupStatus (the r) = MYSQLD_STATUS_text MYSQLD_BACKUPING
        then panic (''bestone['' @ bestone @ ''].is.backuping....'') else ret Completed) }"

text \<open>S6: kill mysqld, wait until it is gone, record it as dead.\<close>

definition rebuild_S6 :: "'w rpcenv \<Rightarrow> string \<Rightarrow> 'w run" where
  "rebuild_S6 N self = do {
     e \<leftarrow> KillMysqldRPC N self;
     ErrorOK e
       (and_then (waiting (WaitMysqldShutdownRPC N self) True) (do {
          e2 \<leftarrow> SetMysqlStateRPC N self MysqlDead;
          ErrorOK e2 (ret Completed) })) }"

text \<open>S1 to S7, which use RPCs only.\<close>

definition rebuild_checks :: "'w rpcenv \<Rightarrow> string \<Rightarrow> string \<Rightarrow> bool \<Rightarrow> int \<Rightarrow> 'w run" where
  "rebuild_checks N self bestone force maxTrx =
     and_then (rebuild_S2_check N self bestone force maxTrx)
    (and_then (rebuild_not_backuping N bestone)
    (and_then (dropped (SetLearnerRPC N self))
    (and_then (dropped (StopMonitorRPC N self))
    (and_then (rebuild_S6 N self)
              (rebuild_not_backuping N bestone)))))"

definition log_bin_query :: "string \<Rightarrow> string \<Rightarrow> string" where
  "log_bin_query key defaults = ''grep '' @ quoted key @ '' '' @ defaults @ '' | sed -r '' @ quoted ''/^#/d'' @
     '' | awk -F '' @ quoted ''='' @ '' '' @ quoted ''{print $2}'' @ '' | tail -n 1''"

text \<open>
  S8: remove the data files, and binlog and its index where they are elsewhere. The continuation
  gets the prefix and the directory of the binlog.
\<close>

definition rebuild_S8 :: "'w ctl \<Rightarrow> string \<Rightarrow> string \<Rightarrow> (string \<Rightarrow> string \<Rightarrow> 'w run) \<Rightarrow> 'w run" where
  "rebuild_S8 C datadir defaults k =
     shell C (''rm -rf '' @ datadir @ ''/*'') (\<lambda>_.
     shell C (log_bin_query ''log-bin='' defaults) (\<lambda>out.
       let prefix = trim_space out;
           dir = (if prefix \<noteq> [] \<and> has_prefix prefix ''/'' then path_dir prefix else []);
           rest = shell C (log_bin_query ''log-bin-index='' defaults) (\<lambda>index.
             if index \<noteq> [] \<and> has_prefix index ''/'' \<and> path_dir index \<noteq> path_dir (datadir @ ''/'')
             then shell C (''rm -f '' @ index) (\<lambda>_. k prefix dir)
             else k prefix dir)
       in if dir \<noteq> [] \<and> dir \<noteq> path_dir (datadir @ ''/'')
          then shell C (''rm -f '' @ dir @ ''/*'') (\<lambda>_. rest)
          else rest))"

text \<open>S9, S10: back up from the source, apply the log; on 8.0 move the binlog to its directory.\<close>

definition rebuild_S10 :: "'w ctl \<Rightarrow> Config \<Rightarrow> string \<Rightarrow> string \<Rightarrow> string \<Rightarrow> 'w run" where
  "rebuild_S10 C conf datadir prefix dir = do {
     e \<leftarrow> DoApplyLogRPC (ct_rpc C) (Endpoint conf) datadir;
     ErrorOK e
       (let datadir2 = path_dir (datadir @ ''/'') in
        if trim_space (mc_Version (mysql_conf conf)) = ''mysql80'' \<and> dir \<noteq> [] \<and> has_prefix dir ''/'' \<and>
           dir \<noteq> datadir2
        then shell C (''mv '' @ datadir2 @ ''/'' @ path_base prefix @ ''.* '' @ dir) (\<lambda>_. ret Completed)
        else ret Completed) }"

definition rebuild_S14 :: "'w rpcenv \<Rightarrow> Config \<Rightarrow> 'w run" where
  "rebuild_S14 N conf =
     (if mc_ReplMode (mysql_conf conf) = ReplModeSemiSync then dropped (MysqlResetSlaveAllRPC N (Endpoint conf))
      else if trim_space (mc_Version (mysql_conf conf)) = ''mysql80''
      then dropped (MysqlResetSlaveRPC N (Endpoint conf)) else ret Completed)"

definition rebuild_S15 :: "'w rpcenv \<Rightarrow> Config \<Rightarrow> string \<Rightarrow> 'w run" where
  "rebuild_S15 N conf datadir =
     (if trim_space (mc_Version (mysql_conf conf)) = ''mysql80'' then ret Completed
      else do {
        call (MysqlResetMasterRPC N (Endpoint conf));
        (gtid, e) \<leftarrow> GetXtrabackupGTIDPurged N (Endpoint conf) datadir;
        ErrorOK e (checked (SetGlobalVarRPC N (Endpoint conf) (''SET GLOBAL gtid_purged='' @ quoted gtid)) id
          (ret Completed)) })"

definition rebuild_S16 :: "'w rpcenv \<Rightarrow> Config \<Rightarrow> 'w run" where
  "rebuild_S16 N conf =
     (if rc_SuperIDLE (the (el_Raft (the (Election conf)))) then dropped (DisableRaftRPC N (Endpoint conf))
      else dropped (EnableRaftRPC N (Endpoint conf)))"

definition rebuild_S17 :: "'w ctl \<Rightarrow> Config \<Rightarrow> 'w run" where
  "rebuild_S17 C conf = dropped (ct_sleep_ns C (rc_ElectionTimeout (the (el_Raft (the (Election conf))))))"

definition rebuild_S18 :: "'w rpcenv \<Rightarrow> Config \<Rightarrow> 'w run" where
  "rebuild_S18 N conf = (if mc_ReplMode (mysql_conf conf) = ReplModeSemiSync
     then dropped (MysqlStartSlaveRPC N (Endpoint conf)) else ret Completed)"

text \<open>S8 to S18.\<close>

definition rebuild_data :: "'w ctl \<Rightarrow> Config \<Rightarrow> string \<Rightarrow> 'w run" where
  "rebuild_data C conf bestone =
     (let N = ct_rpc C; self = Endpoint conf; datadir = bk_BackupDir (backup_conf conf) in
      rebuild_S8 C datadir (mc_DefaultsFile (mysql_conf conf)) (\<lambda>prefix dir.
        checked (RequestBackupRPC N bestone (mysql_conf conf) datadir) id
       (and_then (rebuild_S10 C conf datadir prefix dir)
       (and_then (dropped (StartMonitorRPC N self))
       (and_then (waiting (WaitMysqldRunningRPC N self) False)
       (and_then (waiting (WaitMysqlWorkingRPC N self) False)
       (and_then (rebuild_S14 N conf)
       (and_then (rebuild_S15 N conf datadir)
       (and_then (rebuild_S16 N conf)
       (and_then (rebuild_S17 C conf)
                 (rebuild_S18 N conf)))))))))))"

definition rebuildme :: "'w ctl \<Rightarrow> Config \<Rightarrow> string \<Rightarrow> bool \<Rightarrow> 'w run" where
  "rebuildme C conf fromStr force =
     (let N = ct_rpc C; self = Endpoint conf in
      and_then (rebuild_S1 N self) (do {
        (bestone, e) \<leftarrow> rebuild_source N self fromStr;
        ErrorOK e
          (and_then (rebuild_checks N self bestone force (bk_MaxAllowedLocalTrxCount (backup_conf conf)))
             (rebuild_data C conf bestone)) }))"

definition mysqlRebuildMeCommandFn :: "'w ctl \<Rightarrow> string list \<Rightarrow> string \<Rightarrow> bool \<Rightarrow> 'w run" where
  "mysqlRebuildMeCommandFn C args fromStr force =
     too_many_args args (with_config C (\<lambda>conf. rebuildme C conf fromStr force))"


subsection \<open>Backups\<close>

definition mysqlDoBackupCommandFn :: "'w ctl \<Rightarrow> string list \<Rightarrow> string \<Rightarrow> 'w run" where
  "mysqlDoBackupCommandFn C args toStr =
     (if args \<noteq> [] \<or> toStr = [] then ErrorOK (Some (GoErr ''args.must.be: --to=backupdir'')) (ret Completed)
      else with_config C (\<lambda>conf. do {
        (bestone, e) \<leftarrow> FindBestoneForBackup (ct_rpc C) (Endpoint conf);
        ErrorOK e (shell C (''rm -rf '' @ toStr @ '' ; mkdir '' @ toStr) (\<lambda>_.
          checked (RequestBackupRPC (ct_rpc C) bestone (mysql_conf conf) toStr) id (do {
            e2 \<leftarrow> DoApplyLogRPC (ct_rpc C) (Endpoint conf) toStr;
            ErrorOK e2 (ret Completed) }))) }))"

definition mysqlCancelBackupCommandFn :: "'w ctl \<Rightarrow> string list \<Rightarrow> 'w run" where
  "mysqlCancelBackupCommandFn C args = too_many_args args (with_config C (\<lambda>conf.
     checked (BackupCancelRPC (ct_rpc C) (Endpoint conf)) id (ret Completed)))"


subsection \<open>Users and variables: on the leader\<close>

text \<open>\<open>leader, err := neorpc.GetClusterLeader(self); ErrorOK(err)\<close>; no leader is the empty name.\<close>

definition at_leader :: "'w ctl \<Rightarrow> (string \<Rightarrow> 'w run) \<Rightarrow> 'w run" where
  "at_leader C k = with_config C (\<lambda>conf. do {
     (leader, e) \<leftarrow> GetClusterLeader (ct_rpc C) (Endpoint conf);
     ErrorOK e (k leader) })"

definition args_count :: "nat \<Rightarrow> string \<Rightarrow> string list \<Rightarrow> 'w run \<Rightarrow> 'w run" where
  "args_count n t args k = (if length args \<noteq> n then panic t else k)"

definition mysqlCreateUserCommandFn :: "'w ctl \<Rightarrow> string list \<Rightarrow> 'w run" where
  "mysqlCreateUserCommandFn C args = args_count 4 ''args.count.error:should.be.4'' args
     (at_leader C (\<lambda>leader. checked
        (CreateNormalUserRPC (ct_rpc C) leader (args ! 0) (args ! 1) (args ! 2) (args ! 3)) usp_RetCode (ret Completed)))"

definition mysqlCreateSuperUserCommandFn :: "'w ctl \<Rightarrow> string list \<Rightarrow> 'w run" where
  "mysqlCreateSuperUserCommandFn C args =
     args_count 4 ''args.count.should.be.4: <user> <host> <password> <YES | NO>'' args
     (at_leader C (\<lambda>leader. checked
        (CreateSuperUserRPC (ct_rpc C) leader (args ! 0) (args ! 1) (args ! 2) (args ! 3)) usp_RetCode (ret Completed)))"

definition mysqlDropUserCommandFn :: "'w ctl \<Rightarrow> string list \<Rightarrow> 'w run" where
  "mysqlDropUserCommandFn C args = args_count 2 ''args.count.error:should.be.2'' args
     (at_leader C (\<lambda>leader. checked
        (DropUserRPC (ct_rpc C) leader (args ! 0) (args ! 1)) usp_RetCode (ret Completed)))"

definition mysqlChangePasswordCommandFn :: "'w ctl \<Rightarrow> string list \<Rightarrow> 'w run" where
  "mysqlChangePasswordCommandFn C args = args_count 3 ''args.count.error:should.be.3'' args
     (at_leader C (\<lambda>leader. checked
        (ChangeUserPasswordRPC (ct_rpc C) leader (args ! 0) (args ! 1) (args ! 2)) usp_RetCode (ret Completed)))"

definition mysqlSetGlobalVarCommandFn :: "'w ctl \<Rightarrow> string list \<Rightarrow> 'w run" where
  "mysqlSetGlobalVarCommandFn C args = args_count 1 ''args.should.be.1'' args
     (with_config C (\<lambda>conf. checked
        (SetGlobalVarRPC (ct_rpc C) (Endpoint conf) (args ! 0)) id (ret Completed)))"

record grant_flags =
  gf_user :: string
  gf_passwd :: string
  gf_database :: string
  gf_table :: string
  gf_host :: string
  gf_privs :: string
  gf_ssl :: string

definition mysqlCreateUserWithPrivilegesCommandFn :: "'w ctl \<Rightarrow> grant_flags \<Rightarrow> 'w run" where
  "mysqlCreateUserWithPrivilegesCommandFn C f = at_leader C (\<lambda>leader. checked
     (CreateUserWithPrivRPC (ct_rpc C) leader (gf_user f) (gf_passwd f) (gf_database f) (gf_table f)
        (gf_host f) (gf_privs f) (gf_ssl f)) usp_RetCode (ret Completed))"

definition mysqlGetUserCommandFn :: "'w ctl \<Rightarrow> string list \<Rightarrow> 'w run" where
  "mysqlGetUserCommandFn C args = too_many_args args (at_leader C (\<lambda>leader. do {
     (r, e) \<leftarrow> GetMysqlUserRPC (ct_rpc C) leader;
     ErrorOK e (RspOK (usp_RetCode (the r)) (dropped (ct_json C (JList (map (\<lambda>(u, h, s).
       JObj [(''User'', JString u), (''Host'', JString h), (''SuperPriv'', JString s)]) (usp_Users (the r))))))) }))"


subsection \<open>Status\<close>

record ctl_status =
  cst_io :: bool
  cst_sql :: bool
  cst_running :: bool
  cst_working :: bool
  cst_behind :: string
  cst_error :: string
  cst_monitor :: string

definition status_json :: "ctl_status \<Rightarrow> json" where
  "status_json s = JObj [(''slave_io_running'', JBool (cst_io s)), (''slave_sql_running'', JBool (cst_sql s)),
     (''mysqld_running'', JBool (cst_running s)), (''mysql_working'', JBool (cst_working s)),
     (''seconds_behind_master'', JString (cst_behind s)), (''last_error'', JString (cst_error s)),
     (''monitor'', JString (cst_monitor s))]"

text \<open>The endpoint is read before the error of \<open>GetConfig\<close> is checked: without a configuration
  a nil pointer.\<close>

definition mysqlStatusCommandFn :: "'w ctl \<Rightarrow> string list \<Rightarrow> 'w run" where
  "mysqlStatusCommandFn C args = too_many_args args (do {
     (conf, e) \<leftarrow> GetConfig C;
     (case conf of None \<Rightarrow> panic ''nil pointer''
      | Some cf \<Rightarrow> ErrorOK e (let N = ct_rpc C; self = Endpoint cf;
          zero = \<lparr>cst_io = False, cst_sql = False, cst_running = False, cst_working = False,
            cst_behind = [], cst_error = [], cst_monitor = []\<rparr>;
          finish = (\<lambda>st. do {
            (r, e2) \<leftarrow> GetMysqldStatusRPC N self;
            dropped (ct_json C (status_json (if e2 = None
              then st\<lparr>cst_monitor := mds_MonitorInfo (the r)\<rparr> else st))) })
        in do {
          (running, e1) \<leftarrow> MysqldIsRunningRPC N self;
          (if e1 = None \<and> running then do {
             (r, e2) \<leftarrow> GetGTIDRPC N self;
             ErrorOK e2 (do {
               (working, e3) \<leftarrow> MysqlIsWorkingRPC N self;
               ErrorOK e3 (let g = mst_GTID (the r) in
                 finish \<lparr>cst_io = Slave_IO_Running g, cst_sql = Slave_SQL_Running g, cst_running = True,
                   cst_working = working, cst_behind = Seconds_Behind_Master g, cst_error = Last_Error g,
                   cst_monitor = []\<rparr>) }) }
           else finish zero) })) })"

end
