(* ===== verification/CtlSafety.thy ===== *)
theory CtlSafety
  imports Ctl
begin

section \<open>Waiting and rebuilding: what the tool guarantees\<close>

text \<open>
  When a waiting helper returns, and with which answer; and that \<open>rebuildme\<close> runs no shell command,
  hence removes nothing, before its checks have passed. That a run ``does not depend on the
  shell'' is stated by exchanging \<open>ct_exec\<close>.
\<close>

subsection \<open>Waiting\<close>

text \<open>The \<open>k\<close>-th answer of the poll, counted from 0, and the world after it.\<close>

definition answer :: "'w rpcenv \<Rightarrow> ('w, 'r) state \<Rightarrow> nat \<Rightarrow> 'w \<Rightarrow> 'r \<times> 'w" where
  "answer N ask k w = (poll_step N ask ^^ k) (run_state ask w)"

lemma least_some:
  fixes P :: "nat \<Rightarrow> bool"
  shows "(if \<exists>k. P k then Some (f (LEAST k. P k)) else None) = Some s \<longleftrightarrow>
    (\<exists>k. P k \<and> (\<forall>j < k. \<not> P j) \<and> s = f k)"
proof (cases "\<exists>k. P k")
  case True
  then have m: "P (LEAST k. P k)" by (rule LeastI_ex)
  have "k = (LEAST k. P k)" if "P k" "\<forall>j < k. \<not> P j" for k
    using that m by (metis linorder_neqE_nat not_less_Least)
  with m True show ?thesis by (auto dest: not_less_Least intro!: exI [of _ "LEAST k. P k"])
qed simp

lemma polled_some:
  "polled N final ask w = Some s \<longleftrightarrow>
     (\<exists>k. final (fst (answer N ask k w)) \<and> (\<forall>j < k. \<not> final (fst (answer N ask j w))) \<and> s = answer N ask k w)"
  unfolding polled_def while_option_def not_not answer_def [symmetric]
  by (rule least_some [of "\<lambda>k. final (fst (answer N ask k w))" "\<lambda>k. answer N ask k w"])

lemma polled_none: "polled N final ask w = None \<longleftrightarrow> (\<forall>k. \<not> final (fst (answer N ask k w)))"
  by (simp add: polled_def while_option_def answer_def)

text \<open>A helper returns exactly when the client fails or some answer is final; then the first such.\<close>

lemma wait_until_returns:
  "val_of (wait_until N node final ask) w = Some e \<longleftrightarrow>
     (let c = run_state (GetClient N node) w in
      case fst c of Some err \<Rightarrow> e = Some err
      | None \<Rightarrow> (\<exists>k. final (fst (answer N ask k (snd c))) \<and> (\<forall>j < k. \<not> final (fst (answer N ask j (snd c)))) \<and>
          e = snd (fst (answer N ask k (snd c)))))"
proof -
  obtain c w1 where c: "run_state (GetClient N node) w = (c, w1)" by fastforce
  show ?thesis
  proof (cases c)
    case None
    show ?thesis
    proof (cases "polled N final ask w1")
      case n: None
      then have "\<forall>k. \<not> final (fst (answer N ask k w1))" by (simp add: polled_none)
      moreover have "val_of (wait_until N node final ask) w = None"
        using None c n by (simp add: wait_until_def)
      ultimately show ?thesis using None c by (simp add: Let_def)
    next
      case s: (Some s)
      obtain k where k: "final (fst (answer N ask k w1))" "\<forall>j<k. \<not> final (fst (answer N ask j w1))"
        "s = answer N ask k w1"
        using s by (auto simp: polled_some)
      have u: "final (fst (answer N ask i w1)) \<Longrightarrow> \<forall>j<i. \<not> final (fst (answer N ask j w1)) \<Longrightarrow> i = k" for i
        using k by (metis linorder_neqE_nat)
      have "val_of (wait_until N node final ask) w = Some (snd (fst (answer N ask k w1)))"
        using None c s k(3) by (simp add: wait_until_def case_prod_beta)
      moreover have "(\<exists>i. final (fst (answer N ask i w1)) \<and> (\<forall>j < i. \<not> final (fst (answer N ask j w1))) \<and>
          e = snd (fst (answer N ask i w1))) \<longleftrightarrow> e = snd (fst (answer N ask k w1))"
        using k(1,2) u by blast
      ultimately show ?thesis using None c by (simp add: Let_def) blast
    qed
  next
    case (Some err)
    then show ?thesis using c by (auto simp: wait_until_def)
  qed
qed

abbreviation running_answer :: "'w rpcenv \<Rightarrow> string \<Rightarrow> nat \<Rightarrow> 'w \<Rightarrow> string res" where
  "running_answer N node k w \<equiv> fst (answer N (reply OK (nr_mysqld N node RPCMysqldIsRuning)) k w)"

text \<open>The answers that end the wait.\<close>

definition ends_wait :: "string res \<Rightarrow> bool" where
  "ends_wait a \<longleftrightarrow> snd a \<noteq> None \<or> fst a = ErrorMysqldNotRunning"

lemma shutdown_wait:
  "WaitMysqldShutdownRPC N node = wait_until N node ends_wait (reply OK (nr_mysqld N node RPCMysqldIsRuning))"
proof -
  have "(\<lambda>(code, e). e \<noteq> None \<or> code = ErrorMysqldNotRunning) = ends_wait"
    by (auto simp: ends_wait_def fun_eq_iff)
  then show ?thesis by (simp add: WaitMysqldShutdownRPC_def)
qed

text \<open>
  The polls of a wait for the shutdown, written out from the calls alone: the world before the
  \<open>k\<close>-th poll, three seconds after the one before, and what it is answered.
\<close>

fun before_poll :: "'w rpcenv \<Rightarrow> string \<Rightarrow> nat \<Rightarrow> 'w \<Rightarrow> 'w" where
  "before_poll N node 0 w = w"
| "before_poll N node (Suc k) w =
     exec_of (nr_sleep N 3000) (exec_of (nr_mysqld N node RPCMysqldIsRuning) (before_poll N node k w))"

definition poll_result :: "'w rpcenv \<Rightarrow> string \<Rightarrow> nat \<Rightarrow> 'w \<Rightarrow> string res" where
  "poll_result N node k w = val_of (nr_mysqld N node RPCMysqldIsRuning) (before_poll N node k w)"

lemma answer_poll:
  "answer N (reply OK (nr_mysqld N node RPCMysqldIsRuning)) k w =
     ((let (code, e) = poll_result N node k w in (if e = None then code else OK, e)),
      exec_of (nr_mysqld N node RPCMysqldIsRuning) (before_poll N node k w))"
  by (induction k)
     (simp_all add: answer_def poll_step_def poll_result_def reply_def case_prod_beta Let_def)

lemma ends_poll:
  "ends_wait (running_answer N node k w) \<longleftrightarrow>
     snd (poll_result N node k w) \<noteq> None \<or> fst (poll_result N node k w) = ErrorMysqldNotRunning"
  by (auto simp: answer_poll ends_wait_def case_prod_beta Let_def)

text \<open>
  C24. Waiting for mysqld to be shut down returns the error at once if the
  node cannot be reached. Otherwise it polls every three seconds and returns if and only if some poll
  fails or is answered that mysqld is not running: then after the first such poll, with its error if
  it has one, and with the connection closed. If every poll is answered something else it never
  returns.
\<close>

theorem shutdown_wait_terminates:
  "let c = run_state (nr_new N node) w; w1 = snd c;
       ends = (\<lambda>k. snd (poll_result N node k w1) \<noteq> None \<or> fst (poll_result N node k w1) = ErrorMysqldNotRunning);
       wait = run_state (WaitMysqldShutdownRPC N node) w
   in (case fst c of
       Some err \<Rightarrow> wait = (Some (Some (GoErr (''get.client.error['' @ err_text err @ '']''))), w1)
     | None \<Rightarrow> if \<exists>k. ends k
         then (let k = LEAST k. ends k in
           wait = (Some (snd (poll_result N node k w1)),
             exec_of (nr_close N node) (exec_of (nr_mysqld N node RPCMysqldIsRuning) (before_poll N node k w1))))
         else fst wait = None)"
proof -
  let ?ask = "reply OK (nr_mysqld N node RPCMysqldIsRuning)"
  obtain c w1 where c: "run_state (nr_new N node) w = (c, w1)" by fastforce
  show ?thesis
  proof (cases c)
    case None
    then have "run_state (WaitMysqldShutdownRPC N node) w = (case polled N ends_wait ?ask w1 of
        None \<Rightarrow> (None, w1) | Some s \<Rightarrow> (Some (snd (fst s)), exec_of (nr_close N node) (snd s)))"
      using c by (simp add: shutdown_wait wait_until_def GetClient_def case_prod_beta split: option.split)
    moreover have "polled N ends_wait ?ask w1 = (if \<exists>k. ends_wait (running_answer N node k w1)
        then Some (answer N ?ask (LEAST k. ends_wait (running_answer N node k w1)) w1) else None)"
      by (simp add: polled_def while_option_def answer_def)
    ultimately show ?thesis
      using None c unfolding ends_poll by (simp add: Let_def answer_poll case_prod_beta)
  qed (use c in \<open>simp add: shutdown_wait wait_until_def GetClient_def\<close>)
qed

text \<open>When it returns without an error, some poll of the run found mysqld not running.\<close>

definition seen_stopped :: "'w rpcenv \<Rightarrow> string \<Rightarrow> 'w \<Rightarrow> bool" where
  "seen_stopped N node w \<longleftrightarrow>
     (\<exists>k. running_answer N node k (exec_of (GetClient N node) w) = (ErrorMysqldNotRunning, None))"

lemma shutdown_seen:
  assumes "val_of (WaitMysqldShutdownRPC N node) w = Some None"
  shows "seen_stopped N node w"
proof -
  obtain k where "running_answer N node k (exec_of (GetClient N node) w) = (ErrorMysqldNotRunning, None)"
    using assms unfolding WaitMysqldShutdownRPC_def wait_until_returns
    by (auto simp: Let_def case_prod_beta split: option.splits) (metis prod.collapse)
  then show ?thesis unfolding seen_stopped_def by blast
qed


subsection \<open>Sections of a command\<close>

lemma and_then_run:
  "run_state (and_then m k) w = (if val_of m w = Completed then run_state k (exec_of m w) else run_state m w)"
  by (simp add: and_then_def case_prod_beta prod_eq_iff)

lemma and_then_completed:
  "val_of (and_then m k) w = Completed \<longleftrightarrow> val_of m w = Completed \<and> val_of k (exec_of m w) = Completed"
  by (simp add: and_then_run)

lemma ErrorOK_completed: "val_of (ErrorOK e k) w = Completed \<longleftrightarrow> e = None \<and> val_of k w = Completed"
  by (simp add: ErrorOK_def split: option.split)

lemma panic_not_completed [simp]: "val_of (panic t) w \<noteq> Completed"
  by (simp add: panic_def)

text \<open>
  As far as its MySQL could be asked, the node is not the primary of a group. Where the status call
  fails or is refused, the code goes on without this check.
\<close>

definition not_group_primary :: "MysqlStatusRPCResponse option res \<Rightarrow> bool" where
  "not_group_primary ans \<longleftrightarrow> (case ans of (r, e) \<Rightarrow>
     e = None \<and> mst_RetCode (the r) = OK \<longrightarrow>
       (\<exists>m. mst_MGRStatus (the r) = Some m \<and> mgr_Role m \<noteq> MGRRolePrimary))"

lemma S1_completed:
  assumes "val_of (rebuild_S1 N self) w = Completed"
  shows "(\<exists>leader. val_of (GetClusterLeader N self) w = (leader, None) \<and> leader \<noteq> self) \<and>
    not_group_primary (val_of (GetMysqlStatusRPC N self) (exec_of (GetClusterLeader N self) w))"
  using assms
  by (auto simp: rebuild_S1_def case_prod_beta ErrorOK_completed prod_eq_iff not_group_primary_def
      split: if_splits option.splits)

lemma S2_completed:
  assumes "val_of (rebuild_S2_check N self bestone force maxTrx) w = Completed"
  shows "force \<or> (\<exists>n. val_of (getLocalTrxCount N self bestone) (exec_of (MysqlIsWorkingRPC N self) w) = (n, None) \<and>
    n \<le> maxTrx)"
  using assms
  by (auto simp: rebuild_S2_check_def case_prod_beta ErrorOK_completed prod_eq_iff not_less split: if_splits)

text \<open>The node answers, and says that it is not making a backup.\<close>

definition not_backuping :: "'w rpcenv \<Rightarrow> string \<Rightarrow> 'w \<Rightarrow> bool" where
  "not_backuping N node w \<longleftrightarrow> (\<exists>r. val_of (GetMysqldStatusRPC N node) w = (r, None) \<and>
     mds_BackupStatus (the r) \<noteq> MYSQLD_STATUS_text MYSQLD_BACKUPING)"

lemma not_backuping_completed:
  assumes "val_of (rebuild_not_backuping N bestone) w = Completed"
  shows "not_backuping N bestone w"
  using assms
  by (auto simp: rebuild_not_backuping_def not_backuping_def case_prod_beta ErrorOK_completed prod_eq_iff
      split: if_splits)

lemma S6_completed:
  assumes "val_of (rebuild_S6 N self) w = Completed"
  shows "seen_stopped N self (exec_of (KillMysqldRPC N self) w)"
proof -
  have "val_of (waiting (WaitMysqldShutdownRPC N self) True) (exec_of (KillMysqldRPC N self) w) = Completed"
    using assms by (auto simp: rebuild_S6_def case_prod_beta ErrorOK_completed and_then_completed)
  then have "val_of (WaitMysqldShutdownRPC N self) (exec_of (KillMysqldRPC N self) w) = Some None"
    by (auto simp: waiting_def case_prod_beta ErrorOK_def split: option.splits)
  then show ?thesis by (rule shutdown_seen)
qed

text \<open>
  Everything \<open>rebuildme\<close> has established before it touches a file, each answer in the state of the
  run in which it was asked for: \<open>w1\<close> after S1, \<open>w2\<close> after the choice of the source, \<open>w3\<close> after S2,
  \<open>w7\<close> after the kill, \<open>w8\<close> after S6.
\<close>

definition rebuild_allowed :: "'w rpcenv \<Rightarrow> Config \<Rightarrow> string \<Rightarrow> bool \<Rightarrow> 'w \<Rightarrow> bool" where
  "rebuild_allowed N conf fromStr force w \<longleftrightarrow>
     (let self = Endpoint conf;
          w1 = exec_of (rebuild_S1 N self) w;
          bestone = fst (val_of (rebuild_source N self fromStr) w1);
          w2 = exec_of (rebuild_source N self fromStr) w1;
          w3 = exec_of (rebuild_S2_check N self bestone force (bk_MaxAllowedLocalTrxCount (backup_conf conf))) w2;
          w4 = exec_of (rebuild_not_backuping N bestone) w3;
          w6 = exec_of (StopMonitorRPC N self) (exec_of (SetLearnerRPC N self) w4);
          w7 = exec_of (KillMysqldRPC N self) w6;
          w8 = exec_of (rebuild_S6 N self) w6
      in (\<exists>leader. val_of (GetClusterLeader N self) w = (leader, None) \<and> leader \<noteq> self) \<and>
         not_group_primary (val_of (GetMysqlStatusRPC N self) (exec_of (GetClusterLeader N self) w)) \<and>
         snd (val_of (rebuild_source N self fromStr) w1) = None \<and>
         (force \<or> (\<exists>n. val_of (getLocalTrxCount N self bestone) (exec_of (MysqlIsWorkingRPC N self) w2) = (n, None) \<and>
            n \<le> bk_MaxAllowedLocalTrxCount (backup_conf conf))) \<and>
         not_backuping N bestone w3 \<and> seen_stopped N self w7 \<and> not_backuping N bestone w8)"

lemma dropped_run: "run_state (dropped m) w = (Completed, exec_of m w)"
  by (simp add: dropped_def case_prod_beta)

lemma checks_completed:
  assumes "val_of (rebuild_checks N self bestone force maxTrx) w = Completed"
  defines "w3 \<equiv> exec_of (rebuild_S2_check N self bestone force maxTrx) w"
  defines "w6 \<equiv> exec_of (StopMonitorRPC N self) (exec_of (SetLearnerRPC N self)
    (exec_of (rebuild_not_backuping N bestone) w3))"
  shows "(force \<or> (\<exists>n. val_of (getLocalTrxCount N self bestone) (exec_of (MysqlIsWorkingRPC N self) w) = (n, None) \<and>
      n \<le> maxTrx))"
    and "not_backuping N bestone w3"
    and "seen_stopped N self (exec_of (KillMysqldRPC N self) w6)"
    and "not_backuping N bestone (exec_of (rebuild_S6 N self) w6)"
  using assms(1) unfolding rebuild_checks_def and_then_completed dropped_run snd_conv w3_def w6_def
  by (blast dest: S2_completed not_backuping_completed S6_completed)+

text \<open>
  C13. If a run of \<open>rebuildme\<close> depends on the shell at all, so if it may have
  removed a file, then in this run the node was found not to be the Raft leader, its MySQL status, if
  it was answered, did not show the primary of a group (a status call that fails skips this check),
  the source was not making a backup (before and after the kill), mysqld was seen stopped by a poll
  made after it was killed, and without \<open>--force\<close> the node's own transactions that the source lacks
  were counted and within the configured limit.
\<close>

theorem rebuildme_guarded:
  assumes "run_state (rebuildme (C\<lparr>ct_exec := sh\<rparr>) conf fromStr force) w \<noteq>
    run_state (rebuildme C conf fromStr force) w"
  shows "rebuild_allowed (ct_rpc C) conf fromStr force w"
proof -
  let ?N = "ct_rpc C" and ?self = "Endpoint conf"
  let ?max = "bk_MaxAllowedLocalTrxCount (backup_conf conf)"
  have s1: "val_of (rebuild_S1 ?N ?self) w = Completed"
    using assms by (auto simp: rebuildme_def Let_def and_then_run split: if_splits)
  define w1 where "w1 = exec_of (rebuild_S1 ?N ?self) w"
  obtain bestone e w2 where src: "run_state (rebuild_source ?N ?self fromStr) w1 = ((bestone, e), w2)"
    by (metis prod.exhaust)
  have e: "e = None"
    using assms s1 src by (auto simp: rebuildme_def Let_def and_then_run w1_def ErrorOK_def split: option.splits)
  have "val_of (rebuild_checks ?N ?self bestone force ?max) w2 = Completed"
    using assms s1 src e
    by (auto simp: rebuildme_def Let_def and_then_run w1_def ErrorOK_def split: if_splits)
  note checks = checks_completed [OF this] and one = S1_completed [OF s1]
  show ?thesis
    unfolding rebuild_allowed_def Let_def w1_def [symmetric] src fst_conv snd_conv
    by (intro conjI conjunct1 [OF one] conjunct2 [OF one] checks e)
qed

text \<open>
  A run in which it does: the node follows B, no service fails, and the shell fails at once, in
  one of two ways.
\<close>

definition calm_env :: "nat rpcenv" where
  "calm_env = \<lparr>
     nr_new = (\<lambda>_. ret None), nr_close = (\<lambda>_. ret ()),
     nr_node = (\<lambda>node _ _. ret ((NewNodeRPCResponse OK)\<lparr>nd_Nodes := [Endpoint DefaultConfig, ''B''],
       nd_State := State_String (if node = ''B'' then LEADER else FOLLOWER)\<rparr>, None)),
     nr_mysqld = (\<lambda>_ _. ret (ErrorMysqldNotRunning, None)),
     nr_mysqld_status = (\<lambda>_ _. ret (NewMysqldStatusRPCResponse OK, None)),
     nr_backup = (\<lambda>_ _ _. ret (OK, None)), nr_ha = (\<lambda>_ _. ret (OK, None)),
     nr_raft_status = (\<lambda>_ _. ret (NewRaftStatusRPCResponse OK, None)),
     nr_mysql = (\<lambda>_ _. ret (NewMysqlRPCResponse OK, None)),
     nr_mysql_status = (\<lambda>_ _. ret ((NewMysqlStatusRPCResponse OK)\<lparr>
       mst_GTID := zero_GTID\<lparr>Executed_GTID_Set := ''u:1-9''\<rparr>,
       mst_MGRStatus := Some \<lparr>mgr_Role = [], mgr_State = [], mgr_PrimaryUUID = []\<rparr>\<rparr>, None)),
     nr_set_state = (\<lambda>_ _ _. ret (OK, None)),
     nr_subtract = (\<lambda>_ _ _. ret (NewMysqlGTIDSubtractRPCResponse OK, None)),
     nr_user = (\<lambda>_ _ _. ret (NewMysqlUserRPCResponse OK, None)),
     nr_var = (\<lambda>_ _ _. ret (OK, None)),
     nr_server = (\<lambda>_ _ _. ret (NewServerRPCResponse OK, None)),
     nr_sleep = (\<lambda>_. ret ()), nr_read = (\<lambda>_. ret ([], None)) \<rparr>"

text \<open>A node whose mysqld takes as many polls to stop as the world says.\<close>

definition stopping_env :: "nat rpcenv" where
  "stopping_env = calm_env\<lparr>
     nr_mysqld := (\<lambda>_ _. gets (\<lambda>w. (if w = 0 then ErrorMysqldNotRunning else OK, None))),
     nr_sleep := (\<lambda>_. modify (\<lambda>w. w - 1))\<rparr>"

lemma stopping_polls:
  "before_poll stopping_env node k w = w - k"
  "poll_result stopping_env node k w = (if w \<le> k then ErrorMysqldNotRunning else OK, None)"
proof -
  show before: "before_poll stopping_env node k w = w - k" for k
    by (induction k) (simp_all add: stopping_env_def)
  show "poll_result stopping_env node k w = (if w \<le> k then ErrorMysqldNotRunning else OK, None)"
    by (simp add: poll_result_def before) (simp add: stopping_env_def)
qed

theorem shutdown_wait_terminates_witness:
  "run_state (WaitMysqldShutdownRPC stopping_env ''B'') 3 = (Some None, 0)"
proof -
  have env: "run_state (nr_new stopping_env node) w = (None, w)" "exec_of (nr_close stopping_env node) w = w"
    "exec_of (nr_mysqld stopping_env node rpc) w = w" for node rpc w
    by (simp_all add: stopping_env_def calm_env_def)
  have ends: "(if b then ErrorMysqldNotRunning else OK) = ErrorMysqldNotRunning \<longleftrightarrow> b" for b
    by (simp add: OK_def ErrorMysqldNotRunning_def)
  have least: "(LEAST k. 3 \<le> k) = (3::nat)" "\<exists>k. (3::nat) \<le> k"
    by (rule Least_equality) (simp_all, blast)
  show ?thesis
    using shutdown_wait_terminates [of stopping_env "''B''" 3]
    by (simp add: env stopping_polls ends least Let_def)
qed

definition failing_shell :: "(nat \<Rightarrow> nat) \<Rightarrow> string \<Rightarrow> string list \<Rightarrow> (nat, string res) state" where
  "failing_shell f cmds args = State (\<lambda>w. (([], Some (GoErr ''no shell'')), f w))"

definition calm_ctl :: "nat ctl" where
  "calm_ctl = \<lparr>ct_rpc = calm_env, ct_exec = failing_shell id, ct_stat = (\<lambda>_ _. None),
     ct_argdir = (\<lambda>_. ([], None)), ct_readfile = (\<lambda>_ _. ([], None)), ct_writefile = (\<lambda>_ _ w. (None, w)),
     ct_jsondec = (\<lambda>_ c. (None, c)), ct_yamldec = (\<lambda>_ c. (None, c)),
     ct_jsonenc = (\<lambda>_. ([], None)), ct_yamlenc = (\<lambda>_. ([], None)), ct_print = (\<lambda>_. ret ()),
     ct_json = (\<lambda>_. ret ()), ct_table = (\<lambda>_ _. ret ()), ct_sleep_ns = (\<lambda>_. ret ())\<rparr>"

lemmas calm_defs = calm_env_def GetClient_def with_client_def reply_def only_err_def ask_node_def
  ask_mysqld_def ask_ha_def ask_mysql_def ask_mysql_status_def GetMysqlStatusRPC_def GetGTIDRPC_def
  SetLearnerRPC_def StopMonitorRPC_def KillMysqldRPC_def SetMysqlStateRPC_def GetMysqldStatusRPC_def
  MysqlIsWorkingRPC_def GetGTIDSubtractRPC_def ErrorOK_def

lemma calm_follows: "run_state (GetClusterLeader calm_env (Endpoint DefaultConfig)) w = ((''B'', None), w)"
  by (simp add: GetClusterLeader_def GetNodes_def calm_defs NewNodeRPCResponse_def DefaultConfig_def
      State_String_def)

lemma calm_S1: "run_state (rebuild_S1 calm_env (Endpoint DefaultConfig)) w = (Completed, w)"
  by (simp add: rebuild_S1_def calm_follows) (simp add: calm_defs NewMysqlStatusRPCResponse_def DefaultConfig_def
    MGRRolePrimary_def)

lemma calm_count: "run_state (getLocalTrxCount calm_env self bestone) w = ((0, None), w)"
  by (simp add: getLocalTrxCount_def executed_set_def calm_defs NewMysqlStatusRPCResponse_def
      NewMysqlGTIDSubtractRPCResponse_def trx_count_def line_count_def) code_simp

lemma calm_shutdown: "run_state (WaitMysqldShutdownRPC calm_env self) w = (Some None, w)"
  by (simp add: WaitMysqldShutdownRPC_def wait_until_def polled_def calm_defs while_option_unfold)

lemma calm_rpcs:
  "run_state (KillMysqldRPC calm_env node) w = (None, w)"
  "run_state (SetMysqlStateRPC calm_env node st) w = (None, w)"
  "run_state (SetLearnerRPC calm_env node) w = ((Some OK, None), w)"
  "run_state (StopMonitorRPC calm_env node) w = ((Some ErrorMysqldNotRunning, None), w)"
  "run_state (GetMysqldStatusRPC calm_env node) w = ((Some (NewMysqldStatusRPCResponse OK), None), w)"
  "run_state (MysqlIsWorkingRPC calm_env node) w = ((True, None), w)"
  by (simp_all add: calm_defs NewMysqlRPCResponse_def)

lemma calm_source: "run_state (rebuild_not_backuping calm_env node) w = (Completed, w)"
  by (simp add: rebuild_not_backuping_def calm_rpcs ErrorOK_def NewMysqldStatusRPCResponse_def)

lemma calm_S2: "run_state (rebuild_S2_check calm_env self bestone False 0) w = (Completed, w)"
  by (simp add: rebuild_S2_check_def calm_rpcs calm_count ErrorOK_def)

lemma calm_S6: "run_state (rebuild_S6 calm_env self) w = (Completed, w)"
  by (simp add: rebuild_S6_def calm_rpcs calm_shutdown ErrorOK_def and_then_run waiting_def)

lemma calm_checks: "run_state (rebuild_checks calm_env self bestone False 0) w = (Completed, w)"
  by (simp add: rebuild_checks_def and_then_run dropped_run calm_source calm_S2 calm_S6 calm_rpcs)

lemma failing_shell_panics:
  "run_state (shell (C\<lparr>ct_exec := failing_shell f\<rparr>) line k) w = (Panicked (GoErr ''no shell''), f w)"
  by (simp add: shell_def RunCommand_def failing_shell_def ErrorOK_def)

lemma calm_rebuildme:
  "exec_of (rebuildme (calm_ctl\<lparr>ct_exec := failing_shell f\<rparr>) DefaultConfig ''B'' False) w = f w"
proof -
  have rpc: "ct_rpc (calm_ctl\<lparr>ct_exec := failing_shell f\<rparr>) = calm_env"
    by (simp add: calm_ctl_def)
  have max: "bk_MaxAllowedLocalTrxCount (backup_conf DefaultConfig) = 0"
    by (simp add: backup_conf_def mysql_conf_def DefaultConfig_def DefaultDatabaseConfig_def DefaultMysqlConfig_def
      DefaultBackupConfig_def)
  show ?thesis
    by (simp add: rebuildme_def rpc max and_then_run calm_S1 rebuild_source_def calm_checks ErrorOK_def
        rebuild_data_def rebuild_S8_def Let_def failing_shell_panics)
qed

theorem rebuildme_guarded_witness:
  "run_state (rebuildme (calm_ctl\<lparr>ct_exec := failing_shell Suc\<rparr>) DefaultConfig ''B'' False) 0 \<noteq>
     run_state (rebuildme calm_ctl DefaultConfig ''B'' False) 0 \<and>
   rebuild_allowed (ct_rpc calm_ctl) DefaultConfig ''B'' False 0"
proof -
  have "exec_of (rebuildme calm_ctl DefaultConfig ''B'' False) 0 = 0"
    using calm_rebuildme [of id] by (simp add: calm_ctl_def)
  then have "run_state (rebuildme (calm_ctl\<lparr>ct_exec := failing_shell Suc\<rparr>) DefaultConfig ''B'' False) 0 \<noteq>
     run_state (rebuildme calm_ctl DefaultConfig ''B'' False) 0"
    using calm_rebuildme [of Suc 0] by (metis nat.distinct(1))
  then show ?thesis using rebuildme_guarded [where C = calm_ctl] by blast
qed

end
