(* ===== verification/Linux.thy ===== *)
theory Linux
  imports Prelude GoStrings
begin

section \<open>Running commands (internal/base/common/linux.go, handler.go)\<close>

text \<open>
  The interface \<open>Command\<close> that mysqld management and the tool use, and its implementation
  \<open>LinuxCommand\<close> over the processes of the operating system, the argument \<open>P\<close>. A process is its
  number. \<open>px_wait\<close> gives the lines of standard output and of standard error that the two scanning
  goroutines have counted when \<open>Wait\<close> returns; \<open>Wait\<close> closes the pipes and nothing waits for the
  goroutines, so these may be fewer than the process wrote.
\<close>

subsection \<open>The interface (handler.go)\<close>

record 'w command_ops =
  cmd_Run :: "string \<Rightarrow> string list \<Rightarrow> ('w, gerror option) state"
  cmd_Scan :: "string \<Rightarrow> int \<Rightarrow> ('w, gerror option) state"
  cmd_Kill :: "('w, gerror option) state"
  cmd_RunCommand :: "string \<Rightarrow> string list \<Rightarrow> ('w, string res) state"
  cmd_RunCommandWithTimeout :: "int \<Rightarrow> string \<Rightarrow> string list \<Rightarrow> ('w, string res) state"


subsection \<open>Processes\<close>

text \<open>A process run with a time limit: it could not be started, ended, or had to be killed.\<close>

datatype ending = NotStarted gerror | Ended "gerror option" | TimedOut

record 'w processes =
  px_output :: "string \<Rightarrow> string list \<Rightarrow> ('w, string res) state"
  px_timed :: "int \<Rightarrow> string \<Rightarrow> string list \<Rightarrow> ('w, ending \<times> string \<times> string) state"
  px_stderr :: "('w, gerror option) state"
  px_stdout :: "('w, gerror option) state"
  px_start :: "string \<Rightarrow> string list \<Rightarrow> ('w, nat res) state"
  px_wait :: "nat \<Rightarrow> ('w, string list \<times> string list) state"
  px_kill :: "nat \<Rightarrow> ('w, gerror option) state"

definition linux_RunCommand :: "'w processes \<Rightarrow> string \<Rightarrow> string list \<Rightarrow> ('w, string res) state" where
  "linux_RunCommand P cmds args = do {
     (outs, e) \<leftarrow> px_output P cmds args;
     ret (case e of Some err \<Rightarrow> (join '' '' (cmds # args) @ outs, Some err) | None \<Rightarrow> (outs, None)) }"

definition command_tmpl :: "string \<Rightarrow> string \<Rightarrow> gerror \<Rightarrow> gerror" where
  "command_tmpl out errs e = GoErr (''Stdout: '' @ out @ '', Stderr: '' @ errs @ '', Error: '' @ err_text e)"

text \<open>A failed start is reported with the output so far, which is empty.\<close>

definition runCommandWithTimeout ::
    "'w processes \<Rightarrow> int \<Rightarrow> string \<Rightarrow> string list \<Rightarrow> ('w, string res) state" where
  "runCommandWithTimeout P timeout cmds args = do {
     (r, out, errs) \<leftarrow> px_timed P timeout cmds args;
     ret (case r of
         NotStarted e \<Rightarrow> ([], Some (command_tmpl [] [] e))
       | Ended None \<Rightarrow> (out, None)
       | Ended (Some e) \<Rightarrow> ([], Some (command_tmpl out errs e))
       | TimedOut \<Rightarrow> ([], Some (command_tmpl out errs (GoErr (''cmd['' @ cmds @ '' '' @ join '' '' args @
           ''].exec.timeout['' @ itoa timeout @ '']''))))) }"


subsection \<open>LinuxCommand\<close>

record 'w linuxc =
  lc_world :: 'w
  lc_cmd :: "nat option"

definition on_os :: "('w, 'a) state \<Rightarrow> ('w linuxc, 'a) state" where
  "on_os m = zoom lc_world (\<lambda>w s. s\<lparr>lc_world := w\<rparr>) m"

definition LinuxCommand_Run :: "'w processes \<Rightarrow> string \<Rightarrow> string list \<Rightarrow> ('w linuxc, gerror option) state" where
  "LinuxCommand_Run P cmds args =
     or_err (on_os (px_stderr P))
    (or_err (on_os (px_stdout P)) (do {
       (p, e) \<leftarrow> on_os (px_start P cmds args);
       (case e of Some err \<Rightarrow> ret (Some err)
        | None \<Rightarrow> do { modify (\<lambda>s. s\<lparr>lc_cmd := Some p\<rparr>); ret None }) }))"

text \<open>Lines that contain the text, counted in an \<open>int32\<close>.\<close>

definition found_lines :: "string \<Rightarrow> string list \<Rightarrow> nat" where
  "found_lines sub lines = length [l \<leftarrow> lines. contains sub l]"

definition founds :: "string \<Rightarrow> string list \<times> string list \<Rightarrow> int" where
  "founds sub outs = sint (of_nat (found_lines sub (fst outs) + found_lines sub (snd outs)) :: 32 word)"

text \<open>Called after a \<open>Run\<close> that returned no error, so there is a process.\<close>

definition LinuxCommand_Scan :: "'w processes \<Rightarrow> string \<Rightarrow> int \<Rightarrow> ('w linuxc, gerror option) state" where
  "LinuxCommand_Scan P sub expects = do {
     p \<leftarrow> gets lc_cmd;
     outs \<leftarrow> on_os (px_wait P (the p));
     ret (if founds sub outs \<noteq> expects
       then Some (GoErr (''cmd.outs.['' @ sub @ ''].found['' @ itoa (founds sub outs) @ '']!=expects['' @
         itoa expects @ '']''))
       else None) }"

definition LinuxCommand_Kill :: "'w processes \<Rightarrow> ('w linuxc, gerror option) state" where
  "LinuxCommand_Kill P = do {
     p \<leftarrow> gets lc_cmd;
     (case p of Some i \<Rightarrow> on_os (px_kill P i) | None \<Rightarrow> ret None) }"

definition LinuxCommand_RunCommand ::
    "'w processes \<Rightarrow> string \<Rightarrow> string list \<Rightarrow> ('w linuxc, string res) state" where
  "LinuxCommand_RunCommand P cmds args = on_os (linux_RunCommand P cmds args)"

definition LinuxCommand_RunCommandWithTimeout ::
    "'w processes \<Rightarrow> int \<Rightarrow> string \<Rightarrow> string list \<Rightarrow> ('w linuxc, string res) state" where
  "LinuxCommand_RunCommandWithTimeout P timeout cmds args = on_os (runCommandWithTimeout P timeout cmds args)"

definition linux_command :: "'w processes \<Rightarrow> 'w linuxc command_ops" where
  "linux_command P = \<lparr>cmd_Run = LinuxCommand_Run P, cmd_Scan = LinuxCommand_Scan P,
     cmd_Kill = LinuxCommand_Kill P, cmd_RunCommand = LinuxCommand_RunCommand P,
     cmd_RunCommandWithTimeout = LinuxCommand_RunCommandWithTimeout P\<rparr>"

lemma scan_passes:
  "val_of (LinuxCommand_Scan P sub expects) s = None \<longleftrightarrow>
     founds sub (val_of (px_wait P (the (lc_cmd s))) (lc_world s)) = expects"
  by (auto simp: LinuxCommand_Scan_def on_os_def)

end
