(* ===== verification/CtlCluster.thy ===== *)
theory CtlCluster
  imports Ctl Linux Ha
begin

section \<open>The control tool: cluster, raft, init and perf commands (internal/neohactl)\<close>

text \<open>
  cluster.go, raft.go, init.go, perf.go, neoha.go. A node that does not answer leaves its fields
  at a default; a response without the part a row reads is a nil pointer, which panics (\<open>None\<close> for
  the row).
\<close>

subsection \<open>Membership (cluster.go)\<close>

definition splitNodeList :: "string \<Rightarrow> string list" where
  "splitNodeList raw = filter (\<lambda>p. p \<noteq> []) (map trim_space (split_on CHR '','' (trim_char CHR '','' raw)))"

text \<open>
  The four commands differ in the RPC only. The error of looking for a leader is logged; without a
  leader the node itself is asked.
\<close>

definition leader_or_self ::
    "'w ctl \<Rightarrow> (string \<Rightarrow> string list \<Rightarrow> ('w, gerror option) state) \<Rightarrow> string list \<Rightarrow> 'w run" where
  "leader_or_self C rpc args =
     (if length args \<noteq> 1 then ErrorOK (Some (GoErr ''node.name.is.nil'')) (ret Completed)
      else with_config C (\<lambda>conf. do {
        (leader, _) \<leftarrow> GetClusterLeader (ct_rpc C) (Endpoint conf);
        e \<leftarrow> rpc (if leader \<noteq> [] then leader else Endpoint conf) (splitNodeList (args ! 0));
        ErrorOK e (ret Completed) }))"

definition clusterAddCommandFn :: "'w ctl \<Rightarrow> string list \<Rightarrow> 'w run" where
  "clusterAddCommandFn C args = leader_or_self C (AddNodeRPC (ct_rpc C)) args"

definition clusterIdleAddCommandFn :: "'w ctl \<Rightarrow> string list \<Rightarrow> 'w run" where
  "clusterIdleAddCommandFn C args = leader_or_self C (AddIdleNodeRPC (ct_rpc C)) args"

definition clusterRemoveCommandFn :: "'w ctl \<Rightarrow> string list \<Rightarrow> 'w run" where
  "clusterRemoveCommandFn C args = leader_or_self C (RemoveNodeRPC (ct_rpc C)) args"

definition clusterIdleRemoveCommandFn :: "'w ctl \<Rightarrow> string list \<Rightarrow> 'w run" where
  "clusterIdleRemoveCommandFn C args = leader_or_self C (RemoveIdleNodeRPC (ct_rpc C)) args"


subsection \<open>Tables over the nodes\<close>

fun collect :: "('x \<Rightarrow> ('w, 'r option) state) \<Rightarrow> 'x list \<Rightarrow> ('w, 'r list option) state" where
  "collect f [] = ret (Some [])"
| "collect f (x # xs) = do {
     r \<leftarrow> f x;
     (case r of None \<Rightarrow> ret None
      | Some y \<Rightarrow> do { ys \<leftarrow> collect f xs; ret (map_option (Cons y) ys) }) }"

definition with_nodes :: "'w ctl \<Rightarrow> (string list \<Rightarrow> 'w run) \<Rightarrow> 'w run" where
  "with_nodes C k = with_config C (\<lambda>conf. do {
     (nodes, e) \<leftarrow> GetNodes (ct_rpc C) (Endpoint conf);
     ErrorOK e (k nodes) })"

definition shown :: "('r list \<Rightarrow> ('w, unit) state) \<Rightarrow> 'r list option \<Rightarrow> 'w run" where
  "shown out rows = (case rows of None \<Rightarrow> panic ''nil pointer'' | Some rs \<Rightarrow> dropped (out rs))"

definition node_table :: "'w ctl \<Rightarrow> string list \<Rightarrow> (string \<Rightarrow> ('w, string list option) state) \<Rightarrow> 'w run" where
  "node_table C columns row = with_nodes C (\<lambda>nodes. do {
     rows \<leftarrow> collect row nodes;
     shown (ct_table C columns) rows })"

definition u64_text :: "64 word \<Rightarrow> string" where
  "u64_text n = dec (unat n)"

definition bool_text :: "bool \<Rightarrow> string" where
  "bool_text b = (if b then ''true'' else ''false'')"

definition unknown :: string where "unknown = ''UNKNOWN''"

definition pair_text :: "string \<Rightarrow> string \<Rightarrow> string" where
  "pair_text a b = ''['' @ a @ ''/'' @ b @ '']''"

definition slave_text :: "GTID \<Rightarrow> string" where
  "slave_text g = pair_text (bool_text (Slave_IO_Running g)) (bool_text (Slave_SQL_Running g))"


subsection \<open>Status\<close>

record node_info =
  ni_raft :: string
  ni_mysqld :: string
  ni_monitor :: string
  ni_backup :: string
  ni_mysql :: string
  ni_slave :: string
  ni_mgr :: string
  ni_leader :: string

definition view_text :: "NodeRPCResponse \<Rightarrow> string" where
  "view_text r = ''[ViewID:'' @ u64_text (nd_ViewID r) @ '' EpochID:'' @ u64_text (nd_EpochID r) @ '']@'' @
     nd_State r"

definition raft_part :: "'w rpcenv \<Rightarrow> string \<Rightarrow> string \<Rightarrow> ('w, string \<times> string \<times> string) state" where
  "raft_part N dflt node = do {
     (r, e) \<leftarrow> GetNodesRPC N node;
     ret (if e = None then (view_text (the r), nd_Leader (the r), nd_State (the r)) else (dflt, dflt, [])) }"

definition mysqld_part :: "'w rpcenv \<Rightarrow> string \<Rightarrow> string \<Rightarrow> ('w, (string \<times> string \<times> string) option) state" where
  "mysqld_part N dflt node = do {
     (r, e) \<leftarrow> GetMysqldStatusRPC N node;
     ret (if e = None \<and> mds_RetCode (the r) = OK then
         map_option (\<lambda>b. (mds_MysqldInfo (the r), mds_MonitorInfo (the r),
           ''state:['' @ mds_BackupInfo (the r) @ '']'' @ [CHR 0x0A] @ ''LastError:'' @ [CHR 0x0A] @
             bs_LastError b)) (mds_BackupStats (the r))
       else Some (dflt, dflt, dflt)) }"

text \<open>The replication mode is a constant here too, semi-sync.\<close>

definition mysql_part ::
    "'w rpcenv \<Rightarrow> string \<Rightarrow> string \<Rightarrow> string \<Rightarrow> ('w, (string \<times> string \<times> string) option) state" where
  "mysql_part N dflt raftState node = do {
     (r, e) \<leftarrow> GetMysqlStatusRPC N node;
     ret (if e = None then
         (let st = mst_Status (the r);
              info = (if st = ''ALIVE'' then ''['' @ st @ ''] ['' @ mst_Options (the r) @ '']''
                      else ''['' @ st @ '']'');
              replMode = ReplModeSemiSync
          in if replMode = ReplModeMGR then
               (if raftState = State_String IDLE then Some (info, dflt, ''[UNKNOWN/UNKNOWN]'')
                else map_option (\<lambda>m. (info, dflt, pair_text (mgr_Role m) (mgr_State m))) (mst_MGRStatus (the r)))
             else Some (info, slave_text (mst_GTID (the r)), dflt))
       else Some (dflt, dflt, dflt)) }"

definition node_status :: "'w rpcenv \<Rightarrow> string \<Rightarrow> string \<Rightarrow> ('w, node_info option) state" where
  "node_status N dflt node = do {
     (raftInfo, leader, raftState) \<leftarrow> raft_part N dflt node;
     d \<leftarrow> mysqld_part N dflt node;
     (case d of None \<Rightarrow> ret None
      | Some (mysqldInfo, monitorInfo, backupInfo) \<Rightarrow> do {
          m \<leftarrow> mysql_part N dflt raftState node;
          ret (map_option (\<lambda>(mysqlInfo, slaveInfo, mgrInfo).
            \<lparr>ni_raft = raftInfo, ni_mysqld = mysqldInfo, ni_monitor = monitorInfo, ni_backup = backupInfo,
             ni_mysql = mysqlInfo, ni_slave = slaveInfo, ni_mgr = mgrInfo, ni_leader = leader\<rparr>) m) }) }"

definition clusterStatusCommandFn :: "'w ctl \<Rightarrow> string list \<Rightarrow> 'w run" where
  "clusterStatusCommandFn C args = node_table C
     [''ID'', ''Raft'', ''Mysqld'', ''Monitor'', ''Backup'', ''Mysql'', ''IO/SQL_RUNNING'', ''Role/State'',
      ''MyLeader'']
     (\<lambda>node. do {
        s \<leftarrow> node_status (ct_rpc C) unknown node;
        ret (map_option (\<lambda>s. [node, ni_raft s, ni_mysqld s, ni_monitor s, trim_space (ni_backup s),
          trim_space (ni_mysql s), trim_space (ni_slave s), trim_space (ni_mgr s), ni_leader s]) s) })"

definition node_status_json :: "string \<Rightarrow> node_info \<Rightarrow> json" where
  "node_status_json node s = JObj [(''id'', JString node), (''raft'', JString (ni_raft s)),
     (''mysqld-info'', JString (ni_mysqld s)), (''monitor-info'', JString (ni_monitor s)),
     (''backup-info'', JString (ni_backup s)), (''mysql-info'', JString (ni_mysql s)),
     (''slave-info'', JString (ni_slave s)), (''mgr-info'', JString (ni_mgr s)),
     (''myleader'', JString (ni_leader s))]"

definition clusterStatusJsonCommandFn :: "'w ctl \<Rightarrow> string list \<Rightarrow> 'w run" where
  "clusterStatusJsonCommandFn C args = too_many_args args (with_nodes C (\<lambda>nodes. do {
     rows \<leftarrow> collect (\<lambda>node. do {
       s \<leftarrow> node_status (ct_rpc C) [] node;
       ret (map_option (node_status_json node) s) }) nodes;
     shown (\<lambda>rs. ct_json C (JObj [(''status'', JList rs)])) rows }))"


subsection \<open>GTIDs\<close>

text \<open>One row per node, the leader's last; the second result is the last node that called itself leader.\<close>

fun gtid_loop :: "'w rpcenv \<Rightarrow> string \<Rightarrow> (string \<Rightarrow> string \<Rightarrow> ('w, 'r) state) \<Rightarrow> string list \<Rightarrow> string \<Rightarrow>
    ('w, 'r list \<times> string) state" where
  "gtid_loop N dflt row [] leader = ret ([], leader)"
| "gtid_loop N dflt row (node # nodes) leader = do {
     (r, e) \<leftarrow> GetNodesRPC N node;
     (if e = None \<and> nd_State (the r) = State_String LEADER then gtid_loop N dflt row nodes node
      else do {
        x \<leftarrow> row node (if e = None then nd_State (the r) else dflt);
        (xs, l) \<leftarrow> gtid_loop N dflt row nodes leader;
        ret (x # xs, l) }) }"

definition gtid_rows ::
    "'w rpcenv \<Rightarrow> string \<Rightarrow> (string \<Rightarrow> string \<Rightarrow> ('w, 'r) state) \<Rightarrow> string list \<Rightarrow> ('w, 'r list) state" where
  "gtid_rows N dflt row nodes = do {
     (xs, leader) \<leftarrow> gtid_loop N dflt row nodes [];
     (if leader \<noteq> [] then do { x \<leftarrow> row leader (State_String LEADER); ret (xs @ [x]) } else ret xs) }"

definition clusterGTIDCommandGetRow :: "'w rpcenv \<Rightarrow> string \<Rightarrow> string \<Rightarrow> ('w, string list) state" where
  "clusterGTIDCommandGetRow N node raftState = do {
     (r, e) \<leftarrow> GetMysqlStatusRPC N node;
     (let g = mst_GTID (the r);
          cells = (if e = None \<and> mst_RetCode (the r) = OK
            then [mst_Status (the r), Executed_GTID_Set g, Retrieved_GTID_Set g, Txns_Behind_Master g]
            else replicate 4 unknown)
      in ret (node # raftState # map trim_space cells)) }"

definition clusterGTIDCommandFn :: "'w ctl \<Rightarrow> string list \<Rightarrow> 'w run" where
  "clusterGTIDCommandFn C args = with_nodes C (\<lambda>nodes. do {
     rows \<leftarrow> gtid_rows (ct_rpc C) unknown (clusterGTIDCommandGetRow (ct_rpc C)) nodes;
     dropped (ct_table C [''ID'', ''Raft'', ''Mysql'', ''Executed_GTID_Set'', ''Retrieved_GTID_Set'',
       ''Txns_Behind_Master''] rows) })"

text \<open>The JSON form never fills in the transactions behind the master.\<close>

definition gtid_json_row :: "'w rpcenv \<Rightarrow> string \<Rightarrow> string \<Rightarrow> ('w, json) state" where
  "gtid_json_row N node raftState = do {
     (r, e) \<leftarrow> GetMysqlStatusRPC N node;
     (let g = mst_GTID (the r);
          one_line = replace_char (CHR 0x0A) [] in
      ret (JObj [(''id'', JString node), (''raft'', JString raftState),
        (''mysql'', JString (if e = None then mst_Status (the r) else [])),
        (''executed-gtid-set'', JString (if e = None then one_line (Executed_GTID_Set g) else [])),
        (''retrieved-gtid-set'', JString (if e = None then one_line (Retrieved_GTID_Set g) else [])),
        (''txns-Behind-master'', JString [])])) }"

definition clusterGTIDJsonCommandFn :: "'w ctl \<Rightarrow> string list \<Rightarrow> 'w run" where
  "clusterGTIDJsonCommandFn C args = too_many_args args (with_nodes C (\<lambda>nodes. do {
     rows \<leftarrow> gtid_rows (ct_rpc C) [] (gtid_json_row (ct_rpc C)) nodes;
     dropped (ct_json C (JObj [(''gtid'', JList rows)])) }))"


subsection \<open>MySQL, raft and server tables\<close>

definition node_state :: "'w rpcenv \<Rightarrow> string \<Rightarrow> ('w, string) state" where
  "node_state N node = do {
     (r, e) \<leftarrow> GetNodesRPC N node;
     ret (if e = None then nd_State (the r) else unknown) }"

definition mysql_cells :: "MysqlStatusRPCResponse \<Rightarrow> string list option" where
  "mysql_cells r = (let g = mst_GTID r;
       cells = (\<lambda>mgr behind err. [trim_space (mst_Status r), mst_Options r,
         pair_text (Master_Log_File g) (u64_text (Read_Master_Log_Pos g)), trim_space (slave_text g),
         Seconds_Behind_Master g, trim_space mgr, behind, err])
     in if mst_ReplMode r = ReplModeSemiSync then Some (cells unknown unknown (Last_Error g))
        else map_option (\<lambda>m. cells (pair_text (mgr_Role m) (mgr_State m)) (Txns_Behind_Master g)
               (Last_Error_Message g)) (mst_MGRStatus r))"

definition clusterMysqlCommandFn :: "'w ctl \<Rightarrow> string list \<Rightarrow> 'w run" where
  "clusterMysqlCommandFn C args = too_many_args args (node_table C
     [''ID'', ''Raft'', ''Mysql'', ''Option'', ''Master_Log_File/Pos'', ''IO/SQL_Running'',
      ''Seconds_Behind'', ''Role/State'', ''Txns_Behind'', ''Last_Error'']
     (\<lambda>node. do {
        st \<leftarrow> node_state (ct_rpc C) node;
        (r, e) \<leftarrow> GetMysqlStatusRPC (ct_rpc C) node;
        ret (map_option (\<lambda>cells. node # st # cells)
          (if e = None then mysql_cells (the r) else Some (replicate 8 unknown))) }))"

definition raft_cells :: "RaftStats \<Rightarrow> string list" where
  "raft_cells s = map u64_text [LeaderPromotes s, LeaderDegrades s, LeaderGetHeartbeatRequests s,
     LeaderGetVoteRequests s, CandidatePromotes s, CandidateDegrades s] @
     [RaftMysqlStatus s, u64_text (StateUptimes s)]"

definition clusterRaftCommandFn :: "'w ctl \<Rightarrow> string list \<Rightarrow> 'w run" where
  "clusterRaftCommandFn C args = too_many_args args (node_table C
     [''ID'', ''Raft'', ''IdleCnt'', ''LPromotes'', ''LDegrades'', ''LGetHeartbeats'', ''LGetVotes'',
      ''CPromotes'', ''CDegrades'', ''Raft@Mysql'', ''StateUptimes(sec)'']
     (\<lambda>node. do {
        (r, e) \<leftarrow> GetRaftStatusRPC (ct_rpc C) node;
        ret (if e = None then map_option (\<lambda>s. node # rsp_State (the r) # u64_text (rsp_IdleCount (the r)) #
               raft_cells s) (rsp_Stats (the r))
             else Some (node # unknown # u64_text 0 # raft_cells zero_RaftStats)) }))"

definition config_line :: "string \<Rightarrow> string \<Rightarrow> string" where
  "config_line name value = CHR 0x0A # replicate 6 (CHR 0x09) @ name @ '':['' @ value @ '']''"

definition config_text :: "ConfigStatus \<Rightarrow> string" where
  "config_text c = concat (map (\<lambda>(n, v). config_line n v)
     [(''LogLevel'', cs_LogLevel c), (''BackupDir'', cs_BackupDir c),
      (''BackupIOPSLimits'', itoa (cs_BackupIOPSLimits c)), (''XtrabackupBinDir'', cs_XtrabackupBinDir c),
      (''MysqldBaseDir'', cs_MysqldBaseDir c), (''MysqldDefaultsFile'', cs_MysqldDefaultsFile c),
      (''Mysql'', cs_MysqlHost c @ '':'' @ itoa (cs_MysqlPort c)), (''MysqlReplUser'', cs_MysqlReplUser c),
      (''MysqlPingTimeout'', itoa (cs_MysqlPingTimeout c)), (''RaftDataDir'', cs_RaftDataDir c),
      (''RaftHeartbeatTimeout'', itoa (cs_RaftHeartbeatTimeout c)),
      (''RaftElectionTimeout'', itoa (cs_RaftElectionTimeout c)),
      (''RaftRPCRequestTimeout'', itoa (cs_RaftRPCRequestTimeout c))]) @
     [CHR 0x0A, CHR 0x0A] @ replicate 6 (CHR 0x09)"

definition clusterNeoHACommandFn :: "'w ctl \<Rightarrow> string list \<Rightarrow> 'w run" where
  "clusterNeoHACommandFn C args = too_many_args args (node_table C
     [''ID'', ''Status'', ''Config'', ''Uptimes'']
     (\<lambda>node. do {
        st \<leftarrow> node_state (ct_rpc C) node;
        (r, e) \<leftarrow> ServerStatusRPC (ct_rpc C) node;
        ret (if e = None \<and> sv_RetCode (the r) = OK then
               (case (sv_Config (the r), sv_Uptimes (the r)) of
                  (Some c, Some u) \<Rightarrow> Some [node, st, config_text c, u64_text u]
                | _ \<Rightarrow> None)
             else Some [node, st, unknown, unknown]) }))"


subsection \<open>Merging the logs\<close>

text \<open>
  The files of the local directory: \<open>fs_walk\<close> is what \<open>filepath.Walk\<close> visits, with the base name
  and whether it is a directory; \<open>fs_lines\<close> the lines of a file up to the error that ends reading.
\<close>

record 'w logfiles =
  fs_mkdir :: "string \<Rightarrow> ('w, gerror option) state"
  fs_walk :: "string \<Rightarrow> 'w \<Rightarrow> (string \<times> bool) list"
  fs_open :: "string \<Rightarrow> 'w \<Rightarrow> gerror option"
  fs_lines :: "string \<Rightarrow> 'w \<Rightarrow> string list \<times> gerror option"
  fs_create :: "string \<Rightarrow> ('w, gerror option) state"
  fs_append :: "string \<Rightarrow> string \<Rightarrow> ('w, unit) state"

type_synonym log_entry = "string \<times> string"

text \<open>The pattern \<open>.neohalog\<close>: some character that is not a newline, then the word.\<close>

fun neohalog_name :: "string \<Rightarrow> bool" where
  "neohalog_name [] = False"
| "neohalog_name (c # cs) = (c \<noteq> CHR 0x0A \<and> has_prefix cs ''neohalog'' \<or> neohalog_name cs)"

text \<open>
  The lines of one file that lie in the window. Reading stops at the first line after it, and the
  error that ended the file is then not seen.
\<close>

fun scan_log :: "string \<Rightarrow> string \<Rightarrow> string list \<Rightarrow> log_entry list \<times> bool" where
  "scan_log start stop [] = ([], False)"
| "scan_log start stop (line # lines) = (let le = split_on (CHR 0x09) line in
     if length le < 3 then scan_log start stop lines
     else let t = trim_space (le ! 0) in
       if t < start then scan_log start stop lines
       else if stop < t then ([], True)
       else let (es, stopped) = scan_log start stop lines in ((t, line @ [CHR 0x0A]) # es, stopped))"

fun read_logs :: "'w logfiles \<Rightarrow> string \<Rightarrow> string \<Rightarrow> string \<Rightarrow> (string \<times> bool) list \<Rightarrow> 'w \<Rightarrow>
    log_entry list res" where
  "read_logs F dir start stop [] w = ([], None)"
| "read_logs F dir start stop ((name, isdir) # files) w =
     (if isdir \<or> \<not> neohalog_name name then read_logs F dir start stop files w
      else let file = path_join [dir, name] in
        (case fs_open F file w of
           Some err \<Rightarrow> ([], Some err)
         | None \<Rightarrow> (let (lines, e) = fs_lines F file w; (es, stopped) = scan_log start stop lines in
             if \<not> stopped \<and> e \<noteq> None then ([], e)
             else let (rest, e2) = read_logs F dir start stop files w in (es @ rest, e2))))"

text \<open>\<open>make([]logEntry, 1024*100)\<close> has that many empty entries; the lines read come after them.\<close>

definition blank_entries :: "log_entry list" where
  "blank_entries = replicate (1024 * 100) ([], [])"

text \<open>\<open>sort.Slice\<close> by time is not stable: \<open>srt\<close> is any function that sorts.\<close>

definition merged_log :: "(log_entry list \<Rightarrow> log_entry list) \<Rightarrow> log_entry list \<Rightarrow> log_entry list" where
  "merged_log srt es = srt (blank_entries @ es)"

definition sync_log :: "'w processes \<Rightarrow> string \<Rightarrow> string \<Rightarrow> string \<Rightarrow> ('w, gerror option) state" where
  "sync_log P logDir logPath node =
     (case SplitHostPort node of
        None \<Rightarrow> ret (Some (GoErr (''address '' @ node)))
      | Some (host, _) \<Rightarrow> do {
          (_, e) \<leftarrow> linux_RunCommand P ''bash'' [''-c'',
            ''scp -o StrictHostKeyChecking=no '' @ host @ '':'' @ logDir @ ''/neoha.log '' @ logPath @ ''/'' @
            host @ ''.neohalog''];
          ret e })"

definition clusterLogCommandFn ::
    "'w ctl \<Rightarrow> 'w processes \<Rightarrow> 'w logfiles \<Rightarrow> (log_entry list \<Rightarrow> log_entry list) \<Rightarrow> string list \<Rightarrow>
     string \<Rightarrow> string \<Rightarrow> string \<Rightarrow> 'w run" where
  "clusterLogCommandFn C P F srt args logDir startTime stopTime = too_many_args args
     (let dir = (if logDir = [] then ''/data/log'' else logDir);
          stop = (if stopTime = [] then ''3017/12/03 13:45:55'' else stopTime);
          logPath = ''cluster.logs'';
          out = path_join [logPath, ''cluster.log'']
      in do {
        e \<leftarrow> fs_mkdir F logPath;
        ErrorOK e (with_nodes C (\<lambda>nodes. do {
          e2 \<leftarrow> until_err (sync_log P dir logPath) nodes;
          ErrorOK e2 (do {
            (es, e3) \<leftarrow> gets (\<lambda>w. read_logs F logPath startTime stop (fs_walk F logPath w) w);
            ErrorOK e3 (do {
              e4 \<leftarrow> fs_create F out;
              ErrorOK e4 (dropped (for_each (\<lambda>le. fs_append F out (snd le)) (merged_log srt es))) }) }) })) })"


subsection \<open>Raft commands (raft.go) and the ping (neoha.go)\<close>

definition to_self :: "'w ctl \<Rightarrow> string list \<Rightarrow> (string \<Rightarrow> 'w run) \<Rightarrow> 'w run" where
  "to_self C args k = too_many_args args (with_config C (\<lambda>conf. k (Endpoint conf)))"

definition raftEnableCommandFn :: "'w ctl \<Rightarrow> string list \<Rightarrow> 'w run" where
  "raftEnableCommandFn C args = to_self C args (\<lambda>self. checked (EnableRaftRPC (ct_rpc C) self) id (ret Completed))"

definition raftDisableCommandFn :: "'w ctl \<Rightarrow> string list \<Rightarrow> 'w run" where
  "raftDisableCommandFn C args = to_self C args (\<lambda>self. checked (DisableRaftRPC (ct_rpc C) self) id (ret Completed))"

definition raftTryToLeaderCommandFn :: "'w ctl \<Rightarrow> string list \<Rightarrow> 'w run" where
  "raftTryToLeaderCommandFn C args = to_self C args (\<lambda>self. checked (TryToLeaderRPC (ct_rpc C) self) id (ret Completed))"

text \<open>Here the names are neither trimmed nor filtered.\<close>

definition raft_nodes_arg :: "string \<Rightarrow> string list" where
  "raft_nodes_arg raw = split_on CHR '','' (trim_char CHR '','' raw)"

definition nodes_to_self ::
    "'w ctl \<Rightarrow> (string \<Rightarrow> string list \<Rightarrow> ('w, gerror option) state) \<Rightarrow> string list \<Rightarrow> 'w run" where
  "nodes_to_self C rpc args =
     (if length args \<noteq> 1 then ErrorOK (Some (GoErr ''node.name.is.nil'')) (ret Completed)
      else with_config C (\<lambda>conf. do {
        e \<leftarrow> rpc (Endpoint conf) (raft_nodes_arg (args ! 0));
        ErrorOK e (ret Completed) }))"

definition raftAddCommandFn :: "'w ctl \<Rightarrow> string list \<Rightarrow> 'w run" where
  "raftAddCommandFn C args = nodes_to_self C (AddNodeRPC (ct_rpc C)) args"

definition raftRemoveCommandFn :: "'w ctl \<Rightarrow> string list \<Rightarrow> 'w run" where
  "raftRemoveCommandFn C args = nodes_to_self C (RemoveNodeRPC (ct_rpc C)) args"

definition raftNodesCommandFn :: "'w ctl \<Rightarrow> string list \<Rightarrow> 'w run" where
  "raftNodesCommandFn C args = too_many_args args (with_nodes C (\<lambda>nodes.
     dropped (ct_table C [''Nodes''] (map (\<lambda>node. [node]) nodes))))"

definition raftStatusCommandFn :: "'w ctl \<Rightarrow> string list \<Rightarrow> 'w run" where
  "raftStatusCommandFn C args = to_self C args (\<lambda>self. do {
     ((st, nodes), e) \<leftarrow> GetRaftState (ct_rpc C) self;
     ErrorOK e (do {
       (r, e2) \<leftarrow> GetNodesRPC (ct_rpc C) self;
       ErrorOK e2 (dropped (ct_json C (JObj [(''state'', JString st),
         (''leader'', JString (nd_Leader (the r))), (''nodes'', JList (map JString nodes))]))) }) })"

definition self_rpc :: "'w ctl \<Rightarrow> (string \<Rightarrow> ('w, gerror option) state) \<Rightarrow> string list \<Rightarrow> 'w run" where
  "self_rpc C rpc args = to_self C args (\<lambda>self. do { e \<leftarrow> rpc self; ErrorOK e (ret Completed) })"

definition raftEnablePurgeBinlogCommandFn :: "'w ctl \<Rightarrow> string list \<Rightarrow> 'w run" where
  "raftEnablePurgeBinlogCommandFn C args = self_rpc C (RaftEnablePurgeBinlogRPC (ct_rpc C)) args"

definition raftDisablePurgeBinlogCommandFn :: "'w ctl \<Rightarrow> string list \<Rightarrow> 'w run" where
  "raftDisablePurgeBinlogCommandFn C args = self_rpc C (RaftDisablePurgeBinlogRPC (ct_rpc C)) args"

definition raftEnableCheckSemiSyncCommandFn :: "'w ctl \<Rightarrow> string list \<Rightarrow> 'w run" where
  "raftEnableCheckSemiSyncCommandFn C args = self_rpc C (RaftEnableCheckSemiSyncRPC (ct_rpc C)) args"

definition raftDisableCheckSemiSyncCommandFn :: "'w ctl \<Rightarrow> string list \<Rightarrow> 'w run" where
  "raftDisableCheckSemiSyncCommandFn C args = self_rpc C (RaftDisableCheckSemiSyncRPC (ct_rpc C)) args"

definition neohaPingCommandFn :: "'w ctl \<Rightarrow> string list \<Rightarrow> 'w run" where
  "neohaPingCommandFn C args = to_self C args (\<lambda>self.
     checked (ServerPingRPC (ct_rpc C) self) sv_RetCode (ret Completed))"


subsection \<open>Writing the configuration (init.go)\<close>

record init_flags =
  in_addr :: string
  in_port :: int
  in_vip :: string
  in_repluser :: string
  in_replpwd :: string

definition checkInitFlags :: "init_flags \<Rightarrow> bool" where
  "checkInitFlags f \<longleftrightarrow> in_addr f \<noteq> [] \<and> in_port f \<noteq> 0 \<and> in_vip f \<noteq> [] \<and> in_repluser f \<noteq> [] \<and>
     in_replpwd f \<noteq> []"

definition getEth :: "'w ctl \<Rightarrow> string \<Rightarrow> ('w, string res) state" where
  "getEth C ip = do {
     (r1, e1) \<leftarrow> RunCommand C ''bash'' [''-c'', ''ip -4 -o addr show | awk -v ip='' @ [CHR 0x22] @ ip @
       [CHR 0x22] @ '' '' @ quoted ''$4 ~ ip {print $2; exit}''];
     (if e1 = None \<and> trim_space r1 \<noteq> [] then ret (trim_space r1, None)
      else do {
        (r2, e2) \<leftarrow> RunCommand C ''bash'' [''-c'', ''ifconfig | grep -B 1 '' @ quoted (''inet addr:'' @ ip) @
          '' | grep HWaddr | awk '' @ quoted ''{print $1}''];
        ret (case e2 of
            Some err \<Rightarrow> ([], Some (GoErr (''cmd.init.getEth['' @ ip @ ''].error['' @ err_text err @ '']'')))
          | None \<Rightarrow> (if trim_space r2 = [] then ([], Some (GoErr (''getEth['' @ ip @ ''].can.not.found.eth'')))
                    else (trim_space r2, None))) }) }"

definition init_raft :: "string \<Rightarrow> string \<Rightarrow> RaftConfig \<Rightarrow> RaftConfig" where
  "init_raft vip eth r = r\<lparr>rc_LeaderStartCommand := ''ip a d '' @ vip @ ''/32 dev '' @ eth,
     rc_LeaderStopCommand := ''ip a a '' @ vip @ ''/32 dev '' @ eth\<rparr>"

definition init_mysql :: "init_flags \<Rightarrow> MysqlConfig \<Rightarrow> MysqlConfig" where
  "init_mysql f m = m\<lparr>mc_ReplUser := in_repluser f, mc_ReplPasswd := in_replpwd f,
     mc_Backup := map_option (\<lambda>b. b\<lparr>bk_SSHHost := in_addr f\<rparr>) (mc_Backup m)\<rparr>"

definition init_config :: "init_flags \<Rightarrow> string \<Rightarrow> Config \<Rightarrow> Config" where
  "init_config f eth conf = conf\<lparr>Endpoint := in_addr f @ '':'' @ itoa (in_port f),
     Database := map_option (\<lambda>d. d\<lparr>db_Mysql := map_option (init_mysql f) (db_Mysql d)\<rparr>) (Database conf),
     Election := map_option (\<lambda>e. e\<lparr>el_Raft := map_option (init_raft (in_vip f) eth) (el_Raft e)\<rparr>)
       (Election conf)\<rparr>"

text \<open>The sections that are assigned to must be there; otherwise a nil pointer.\<close>

definition has_sections :: "Config \<Rightarrow> bool" where
  "has_sections conf \<longleftrightarrow> (case (Database conf, Election conf) of
     (Some d, Some e) \<Rightarrow> el_Raft e \<noteq> None \<and>
       (case db_Mysql d of Some m \<Rightarrow> mc_Backup m \<noteq> None | None \<Rightarrow> False)
   | _ \<Rightarrow> False)"

definition initCommandFn :: "'w ctl \<Rightarrow> init_flags \<Rightarrow> 'w run" where
  "initCommandFn C f =
     (if \<not> checkInitFlags f then ret Completed
      else do {
        (eth, e) \<leftarrow> getEth C (in_addr f);
        ErrorOK e (with_config C (\<lambda>conf.
          if \<not> has_sections conf then panic ''nil pointer''
          else do {
            e2 \<leftarrow> SaveConfig C (init_config f eth conf);
            ErrorOK e2 (ret Completed) })) })"


subsection \<open>Stacks of mysqld (perf.go)\<close>

definition quickStack :: "'w processes \<Rightarrow> ('w, string res) state" where
  "quickStack P = runCommandWithTimeout P (10 * 1000) ''bash''
     [''-c'', ''sudo quickstack -s -k 10 -p `pidof mysqld`'']"

definition quickStackCommandFn :: "'w ctl \<Rightarrow> 'w processes \<Rightarrow> 'w run" where
  "quickStackCommandFn C P = do {
     (outs, e) \<leftarrow> quickStack P;
     ErrorOK e (dropped (ct_print C outs)) }"

definition quickStackJsonCommandFn :: "'w ctl \<Rightarrow> 'w processes \<Rightarrow> 'w run" where
  "quickStackJsonCommandFn C P = do {
     (outs, e) \<leftarrow> quickStack P;
     ErrorOK e (dropped (ct_json C (JObj [(''status'', JString outs)]))) }"

end
