(* ===== verification/CtlLog.thy ===== *)
theory CtlLog
  imports CtlCluster "HOL-Library.Multiset"
begin

section \<open>What the cluster commands guarantee\<close>

text \<open>
  The merged log holds the lines of the window and is ordered by time; names given to the cluster
  commands are never empty; the source of a backup.
\<close>

subsection \<open>The merged log\<close>

definition log_time :: "string \<Rightarrow> string" where
  "log_time line = trim_space (hd (split_on (CHR 0x09) line))"

definition is_entry :: "string \<Rightarrow> bool" where
  "is_entry line \<longleftrightarrow> 3 \<le> length (split_on (CHR 0x09) line)"

definition in_window :: "string \<Rightarrow> string \<Rightarrow> string \<Rightarrow> bool" where
  "in_window start stop line \<longleftrightarrow> is_entry line \<and> start \<le> log_time line \<and> log_time line \<le> stop"

definition entry_of :: "string \<Rightarrow> log_entry" where
  "entry_of line = (log_time line, line @ [CHR 0x0A])"

definition in_time_order :: "string list \<Rightarrow> bool" where
  "in_time_order lines \<longleftrightarrow> sorted (map log_time (filter is_entry lines))"

text \<open>A file whose own lines are in order gives exactly those of the window.\<close>

lemma scan_log_window:
  "in_time_order lines \<Longrightarrow> fst (scan_log start stop lines) = map entry_of (filter (in_window start stop) lines)"
proof (induction lines)
  case (Cons line lines)
  have time: "log_time line = trim_space (split_on (CHR 0x09) line ! 0)"
    by (simp add: log_time_def hd_conv_nth)
  have ordered: "in_time_order lines"
    using Cons.prems by (auto simp: in_time_order_def split: if_splits)
  have IH: "fst (scan_log start stop lines) = map entry_of (filter (in_window start stop) lines)"
    by (rule Cons.IH [OF ordered])
  show ?case
  proof (cases "is_entry line \<and> stop < log_time line \<and> start \<le> log_time line")
    case True
    then have "\<not> in_window start stop x" if "x \<in> set lines" for x
      using Cons.prems that by (auto simp: in_time_order_def in_window_def)
    then show ?thesis
      using True by (auto simp: is_entry_def in_window_def Let_def time [symmetric] filter_empty_conv)
  next
    case False
    then show ?thesis
      using IH in_window_def [of start stop line] is_entry_def [of line] entry_of_def [of line]
      by (auto simp: Let_def time [symmetric] case_prod_beta not_less not_le)
  qed
qed simp

definition log_lines :: "'w logfiles \<Rightarrow> string \<Rightarrow> (string \<times> bool) list \<Rightarrow> 'w \<Rightarrow> string list" where
  "log_lines F dir files w = concat (map (\<lambda>(name, isdir).
     if isdir \<or> \<not> neohalog_name name then [] else fst (fs_lines F (path_join [dir, name]) w)) files)"

definition files_in_order :: "'w logfiles \<Rightarrow> string \<Rightarrow> (string \<times> bool) list \<Rightarrow> 'w \<Rightarrow> bool" where
  "files_in_order F dir files w \<longleftrightarrow>
     (\<forall>(name, isdir) \<in> set files. in_time_order (fst (fs_lines F (path_join [dir, name]) w)))"

lemma read_logs_window:
  "files_in_order F dir files w \<Longrightarrow> read_logs F dir start stop files w = (es, None) \<Longrightarrow>
   es = map entry_of (filter (in_window start stop) (log_lines F dir files w))"
proof (induction files arbitrary: es)
  case (Cons f files)
  obtain name isdir where f: "f = (name, isdir)" by (cases f)
  have rest: "files_in_order F dir files w" and ordered: "in_time_order (fst (fs_lines F (path_join [dir, name]) w))"
    using Cons.prems(1) f by (auto simp: files_in_order_def)
  show ?case
  proof (cases "isdir \<or> \<not> neohalog_name name")
    case True
    then show ?thesis
      using Cons.prems(2) Cons.IH [OF rest] f by (auto simp: log_lines_def)
  next
    case False
    then show ?thesis
      using Cons.prems(2) Cons.IH [OF rest] f scan_log_window [OF ordered, of start stop]
      by (auto simp: log_lines_def Let_def case_prod_beta prod_eq_iff split: option.splits if_splits)
  qed
qed (simp add: log_lines_def)

text \<open>What \<open>sort.Slice\<close> by time promises.\<close>

definition sorts_by_time :: "(log_entry list \<Rightarrow> log_entry list) \<Rightarrow> bool" where
  "sorts_by_time srt \<longleftrightarrow> (\<forall>xs. mset (srt xs) = mset xs \<and> sorted (map fst (srt xs)))"

text \<open>
  C23. If every file of the directory is in time order, the merged log is in
  time order, and the lines it writes are exactly those of the log files whose time lies in the
  window, as often as they occur there. The 102,400 entries it starts from write nothing.
\<close>

theorem cluster_log_merges:
  assumes "sorts_by_time srt" and "files_in_order F dir files w"
    and "read_logs F dir start stop files w = (es, None)"
  shows "sorted (map fst (merged_log srt es)) \<and>
    mset (filter (\<lambda>t. t \<noteq> []) (map snd (merged_log srt es))) =
      mset (map (\<lambda>line. line @ [CHR 0x0A]) (filter (in_window start stop) (log_lines F dir files w)))"
proof
  show "sorted (map fst (merged_log srt es))"
    using assms(1) by (simp add: sorts_by_time_def merged_log_def)
  have es: "es = map entry_of (filter (in_window start stop) (log_lines F dir files w))"
    by (rule read_logs_window [OF assms(2,3)])
  have "mset (merged_log srt es) = mset (blank_entries @ es)"
    using assms(1) by (simp add: sorts_by_time_def merged_log_def)
  then have "mset (filter (\<lambda>t. t \<noteq> []) (map snd (merged_log srt es))) =
      mset (filter (\<lambda>t. t \<noteq> []) (map snd (blank_entries @ es)))"
    by (metis mset_filter mset_map)
  also have "filter (\<lambda>t. t \<noteq> []) (map snd (blank_entries @ es)) = map snd es"
    by (auto simp: blank_entries_def es entry_of_def filter_empty_conv)
  finally show "mset (filter (\<lambda>t. t \<noteq> []) (map snd (merged_log srt es))) =
      mset (map (\<lambda>line. line @ [CHR 0x0A]) (filter (in_window start stop) (log_lines F dir files w)))"
    by (simp add: es entry_of_def comp_def)
qed

text \<open>Two nodes with one log each, whose lines interleave; one line lies after the window.\<close>

definition demo_line :: "char \<Rightarrow> string" where
  "demo_line c = [c, CHR 0x09, CHR ''W'', CHR 0x09, CHR ''x'']"

definition demo_logs :: "unit logfiles" where
  "demo_logs = \<lparr>fs_mkdir = (\<lambda>_. ret None), fs_walk = (\<lambda>_ _. []), fs_open = (\<lambda>_ _. None),
     fs_lines = (\<lambda>f _. (if f = ''d/a.neohalog'' then [demo_line CHR ''1'', demo_line CHR ''4'']
       else [''no fields'', demo_line CHR ''3'', demo_line CHR ''9''], None)),
     fs_create = (\<lambda>_. ret None), fs_append = (\<lambda>_ _. ret ())\<rparr>"

definition demo_files :: "(string \<times> bool) list" where
  "demo_files = [(''d'', True), (''a.neohalog'', False), (''b.neohalog'', False), (''other'', False)]"

lemma sort_key_sorts: "sorts_by_time (sort_key fst)"
  by (simp add: sorts_by_time_def)

lemma demo_files_in_order: "files_in_order demo_logs ''d'' demo_files ()"
  unfolding files_in_order_def demo_files_def in_time_order_def is_entry_def log_time_def by code_simp

lemma demo_read: "read_logs demo_logs ''d'' ''0'' ''5'' demo_files () =
  (map entry_of [demo_line CHR ''1'', demo_line CHR ''4'', demo_line CHR ''3''], None)"
  by code_simp

theorem cluster_log_merges_witness:
  "let out = merged_log (sort_key fst) (map entry_of [demo_line CHR ''1'', demo_line CHR ''4'', demo_line CHR ''3''])
   in sorted (map fst out) \<and>
      mset (filter (\<lambda>t. t \<noteq> []) (map snd out)) =
        mset (map (\<lambda>line. line @ [CHR 0x0A])
          (filter (in_window ''0'' ''5'') (log_lines demo_logs ''d'' demo_files ())))"
  unfolding Let_def by (rule cluster_log_merges [OF sort_key_sorts demo_files_in_order demo_read])


subsection \<open>Names of nodes\<close>

lemma split_node_list_named: "[] \<notin> set (splitNodeList raw)"
  by (simp add: splitNodeList_def)

text \<open>\<open>raft add ,\<close> asks for a node with an empty name; \<open>cluster add ,\<close> for none.\<close>

lemma raft_add_empty_name:
  "raft_nodes_arg '','' = [[]]" "splitNodeList '','' = []"
  by (simp_all add: raft_nodes_arg_def splitNodeList_def trim_char_def trim_space_def)


subsection \<open>The source of a backup\<close>

lemma bestone_source:
  assumes "val_of (bestone_loop N self leader nodes) w = best"
  shows "best = leader \<or> (best \<in> set nodes \<and> best \<noteq> self \<and>
    (\<exists>w' r. val_of (GetMysqlStatusRPC N best) w' = (r, None) \<and>
       fst (atoi (Txns_Behind_Master (mst_GTID (the r)))) < 100))"
  using assms
proof (induction nodes arbitrary: w)
  case (Cons node nodes)
  obtain idle e w1 where a: "run_state (IsNodeIdleOrInvalid N node) w = ((idle, e), w1)"
    by (metis prod.exhaust)
  obtain r e2 w2 where b: "run_state (GetMysqlStatusRPC N node) w1 = ((r, e2), w2)"
    by (metis prod.exhaust)
  consider (asked) "e = None \<and> \<not> idle \<and> node \<noteq> leader \<and> e2 = None \<and> backup_candidate self node (mst_GTID (the r))"
    | (skip) w' where "val_of (bestone_loop N self leader nodes) w' = best"
    using Cons.prems a b by (auto split: if_splits)
  then show ?case
  proof cases
    case asked
    then have "best = node" using Cons.prems a b by auto
    moreover have "val_of (GetMysqlStatusRPC N node) w1 = (r, None)" using b asked by simp
    ultimately show ?thesis using asked unfolding backup_candidate_def by auto
  next
    case skip
    then show ?thesis using Cons.IH by auto
  qed
qed simp

text \<open>A replica whose MySQL is down reports no number of transactions, and counts as close.\<close>

lemma no_number_is_candidate:
  "node \<noteq> self \<Longrightarrow> backup_candidate self node zero_GTID"
  by (simp add: backup_candidate_def zero_GTID_def atoi_def)

end
