(* ===== verification/Mysqld.thy ===== *)
theory Mysqld
  imports RpcModel Config Linux Driver
begin

section \<open>The manager of the local mysqld (internal/manager)\<close>

text \<open>
  mysqld.go, backup.go, linux_args.go, stats.go, the two RPC services and manager.go. The state is
  what \<open>Mysqld\<close> and its \<open>Backup\<close> keep; \<open>E\<close> is their surroundings: the two command handlers, the
  handler of arguments, the configuration, the clock, the ticker. The ticker's goroutine calls
  \<open>monitor\<close> at each tick. \<open>Backup\<close> and \<open>ApplyLog\<close> run for as long as the command does, while other
  requests are served: they are given in the parts between which others can come, and MysqldJobs
  interleaves them.
\<close>

record backupst =
  bk_status :: MYSQLD_STATUS
  bk_stats :: BackupStats
  bk_start :: int

record 'w mysqldc =
  md_world :: 'w
  my_backup :: backupst
  my_monitorRunning :: bool
  my_status :: MYSQLD_STATUS
  my_stats :: MysqldStats

record args_handler =
  ah_Start :: "string list"
  ah_Stop :: "string list"
  ah_IsRunning :: "string list"
  ah_Kill :: "string list"

record 'w mysqldenv =
  me_cmd :: "'w command_ops"
  me_backup_cmd :: "'w command_ops"
  me_args :: args_handler
  me_conf :: BackupConfig
  me_now :: "'w \<Rightarrow> int"
  me_duration :: "int \<Rightarrow> string"
  me_ticker_start :: "int \<Rightarrow> ('w, unit) state"
  me_ticker_stop :: "('w, unit) state"

type_synonym ('w, 'a) myst = "('w mysqldc, 'a) state"

definition on_sys :: "('w, 'a) state \<Rightarrow> ('w, 'a) myst" where
  "on_sys m = zoom md_world (\<lambda>w s. s\<lparr>md_world := w\<rparr>) m"

definition on_backup :: "(backupst \<Rightarrow> backupst) \<Rightarrow> ('w, unit) myst" where
  "on_backup f = modify (\<lambda>s. s\<lparr>my_backup := f (my_backup s)\<rparr>)"

definition bash :: string where "bash = ''bash''"

definition NewMysqld :: "'w \<Rightarrow> 'w mysqldc" where
  "NewMysqld w = \<lparr>md_world = w,
     my_backup = \<lparr>bk_status = MYSQLD_BACKUPNONE, bk_stats = zero_BackupStats, bk_start = 0\<rparr>,
     my_monitorRunning = False, my_status = MYSQLD_NOTRUNNING, my_stats = zero_MysqldStats\<rparr>"


subsection \<open>Command lines (linux_args.go)\<close>

definition LinuxArgs_Start :: "BackupConfig \<Rightarrow> string list" where
  "LinuxArgs_Start c = [''-c'', path_join [bk_Basedir c, ''bin/mysqld_safe''] @ '' --defaults-file='' @
     bk_DefaultsFile c @ '' > /dev/null&'']"

definition LinuxArgs_Stop :: "BackupConfig \<Rightarrow> string list" where
  "LinuxArgs_Stop c = (let admin = path_join [bk_Basedir c, ''bin/mysqladmin''];
       who = admin @ '' -h'' @ bk_Host c @ '' -u'' @ bk_Admin c;
       passwd = (if bk_Passwd c = [] then [] else '' -p'' @ bk_Passwd c)
     in [''-c'', who @ passwd @ '' -P'' @ itoa (bk_Port c) @ '' shutdown''])"

definition LinuxArgs_IsRunning :: "BackupConfig \<Rightarrow> string list" where
  "LinuxArgs_IsRunning c = [''-c'', ''ps aux | grep '' @ [CHR 0x27] @ ''[m]ysqld_safe --defaults-file='' @
     bk_DefaultsFile c @ [CHR 0x27] @ '' | wc -l'']"

definition LinuxArgs_Kill :: "BackupConfig \<Rightarrow> string list" where
  "LinuxArgs_Kill c = [''-c'', ''$(ps aux | grep '' @ [CHR 0x27] @ ''[-]-defaults-file='' @ bk_DefaultsFile c @
     [CHR 0x27] @ '' | grep -v grep | awk '' @ [CHR 0x27] @ ''{print $2}'' @ [CHR 0x27] @ '' | xargs kill -9)'']"

definition NewLinuxArgs :: "BackupConfig \<Rightarrow> args_handler" where
  "NewLinuxArgs c = \<lparr>ah_Start = LinuxArgs_Start c, ah_Stop = LinuxArgs_Stop c,
     ah_IsRunning = LinuxArgs_IsRunning c, ah_Kill = LinuxArgs_Kill c\<rparr>"


subsection \<open>Counters and status (stats.go)\<close>

definition on_stats :: "(BackupStats \<Rightarrow> BackupStats) \<Rightarrow> ('w, unit) myst" where
  "on_stats f = on_backup (\<lambda>b. b\<lparr>bk_stats := f (bk_stats b)\<rparr>)"

definition IncBackups :: "('w, unit) myst" where
  "IncBackups = on_stats (\<lambda>s. s\<lparr>Backups := Backups s + 1\<rparr>)"

definition IncBackupErrs :: "('w, unit) myst" where
  "IncBackupErrs = on_stats (\<lambda>s. s\<lparr>BackupErrs := BackupErrs s + 1\<rparr>)"

definition IncCancels :: "('w, unit) myst" where
  "IncCancels = on_stats (\<lambda>s. s\<lparr>Cancels := Cancels s + 1\<rparr>)"

definition IncApplyLogs :: "('w, unit) myst" where
  "IncApplyLogs = on_stats (\<lambda>s. s\<lparr>AppLogs := AppLogs s + 1\<rparr>)"

definition IncApplyLogErrs :: "('w, unit) myst" where
  "IncApplyLogErrs = on_stats (\<lambda>s. s\<lparr>AppLogErrs := AppLogErrs s + 1\<rparr>)"

text \<open>A copy of the counters; the last error and the last command are not copied.\<close>

definition Backup_getStats :: "backupst \<Rightarrow> BackupStats" where
  "Backup_getStats b = (let s = bk_stats b in
     zero_BackupStats\<lparr>Backups := Backups s, BackupErrs := BackupErrs s, AppLogs := AppLogs s,
       AppLogErrs := AppLogErrs s, Cancels := Cancels s\<rparr>)"

definition IncMysqldStarts :: "('w, unit) myst" where
  "IncMysqldStarts = modify (\<lambda>s. s\<lparr>my_stats := (my_stats s)\<lparr>MysqldStarts := MysqldStarts (my_stats s) + 1\<rparr>\<rparr>)"

definition IncMysqldStops :: "('w, unit) myst" where
  "IncMysqldStops = modify (\<lambda>s. s\<lparr>my_stats := (my_stats s)\<lparr>MysqldStops := MysqldStops (my_stats s) + 1\<rparr>\<rparr>)"

definition IncMonitorStarts :: "('w, unit) myst" where
  "IncMonitorStarts = modify (\<lambda>s. s\<lparr>my_stats := (my_stats s)\<lparr>MonitorStarts := MonitorStarts (my_stats s) + 1\<rparr>\<rparr>)"

definition IncMonitorStops :: "('w, unit) myst" where
  "IncMonitorStops = modify (\<lambda>s. s\<lparr>my_stats := (my_stats s)\<lparr>MonitorStops := MonitorStops (my_stats s) + 1\<rparr>\<rparr>)"

definition Mysqld_getStats :: "'w mysqldc \<Rightarrow> MysqldStats" where
  "Mysqld_getStats s = my_stats s"

definition Mysqld_setStatus :: "MYSQLD_STATUS \<Rightarrow> ('w, unit) myst" where
  "Mysqld_setStatus st = modify (\<lambda>s. s\<lparr>my_status := st\<rparr>)"

definition Backup_setStatus :: "MYSQLD_STATUS \<Rightarrow> ('w, unit) myst" where
  "Backup_setStatus st = on_backup (\<lambda>b. b\<lparr>bk_status := st\<rparr>)"

definition setLastError :: "string \<Rightarrow> ('w, unit) myst" where
  "setLastError t = on_stats (\<lambda>s. s\<lparr>bs_LastError := t\<rparr>)"

definition setLastCMD :: "string \<Rightarrow> ('w, unit) myst" where
  "setLastCMD t = on_stats (\<lambda>s. s\<lparr>bs_LastCMD := t\<rparr>)"

definition getMonitorInfo :: "'w mysqldc \<Rightarrow> string" where
  "getMonitorInfo s = (if my_monitorRunning s then ''ON'' else ''OFF'')"

definition getMysqldInfo :: "'w mysqldc \<Rightarrow> string" where
  "getMysqldInfo s = (if my_monitorRunning s then MYSQLD_STATUS_text (my_status s) else ''UNKNOWN'')"


subsection \<open>Start, stop, kill, monitor (mysqld.go)\<close>

definition limited :: "'w mysqldenv \<Rightarrow> int \<Rightarrow> string list \<Rightarrow> ('w, gerror option) myst" where
  "limited E timeout args = do {
     (_, e) \<leftarrow> on_sys (cmd_RunCommandWithTimeout (me_cmd E) timeout bash args);
     ret e }"

text \<open>A command that fails is taken for ``not running'', output that is no number for ``running''.\<close>

definition isMysqldRunning :: "'w mysqldenv \<Rightarrow> ('w, bool) myst" where
  "isMysqldRunning E = do {
     (outs, e) \<leftarrow> on_sys (cmd_RunCommand (me_cmd E) bash (ah_IsRunning (me_args E)));
     ret (if e \<noteq> None then False
          else (case atoi (trim_space outs) of
              (n, Some err) \<Rightarrow> True
            | (n, None) \<Rightarrow> 0 < n)) }"

definition StartMysqld :: "'w mysqldenv \<Rightarrow> ('w, gerror option) myst" where
  "StartMysqld E = do {
     running \<leftarrow> isMysqldRunning E;
     (if running then ret None
      else or_err (limited E 3000 (ah_Start (me_args E))) (do { IncMysqldStarts; ret None })) }"

definition StopMysqld :: "'w mysqldenv \<Rightarrow> ('w, gerror option) myst" where
  "StopMysqld E = do {
     running \<leftarrow> isMysqldRunning E;
     (if \<not> running then ret None
      else or_err (limited E 5000 (ah_Stop (me_args E)))
        (do { Mysqld_setStatus MYSQLD_SHUTDOWNING; IncMysqldStops; ret None })) }"

definition KillMysqld :: "'w mysqldenv \<Rightarrow> ('w, gerror option) myst" where
  "KillMysqld E = or_err (limited E 3000 (ah_Kill (me_args E)))
     (do { Mysqld_setStatus MYSQLD_SHUTDOWNING; IncMysqldStops; ret None })"

definition monitor :: "'w mysqldenv \<Rightarrow> ('w, unit) myst" where
  "monitor E = do {
     running \<leftarrow> isMysqldRunning E;
     (if \<not> running then do { Mysqld_setStatus MYSQLD_NOTRUNNING; call (StartMysqld E) }
      else Mysqld_setStatus MYSQLD_ISRUNNING) }"

definition MonitorStart :: "'w mysqldenv \<Rightarrow> ('w, unit) myst" where
  "MonitorStart E = do {
     on \<leftarrow> gets my_monitorRunning;
     whenM (\<not> on) (do {
       on_sys (me_ticker_start E (bk_MysqldMonitorInterval (me_conf E)));
       modify (\<lambda>s. s\<lparr>my_monitorRunning := True\<rparr>);
       IncMonitorStarts }) }"

definition MonitorStop :: "'w mysqldenv \<Rightarrow> ('w, unit) myst" where
  "MonitorStop E = do {
     on \<leftarrow> gets my_monitorRunning;
     whenM on (do {
       on_sys (me_ticker_stop E);
       modify (\<lambda>s. s\<lparr>my_monitorRunning := False\<rparr>);
       Mysqld_setStatus MYSQLD_UNKNOWN;
       IncMonitorStops }) }"


subsection \<open>Backups (backup.go)\<close>

definition backupOk :: string where "backupOk = ''completed OK!''"

definition backupOkCheckTimes :: int where "backupOkCheckTimes = 1"

definition port_text :: "BackupRPCRequest \<Rightarrow> string" where
  "port_text req = itoa (brq_SSHPort req)"

definition single_quoted :: "string \<Rightarrow> string" where
  "single_quoted t = [CHR 0x27] @ t @ [CHR 0x27]"

definition ssh_target :: "BackupRPCRequest \<Rightarrow> string" where
  "ssh_target req = brq_SSHUser req @ ''@'' @ brq_SSHHost req @ '' -p '' @ port_text req"

definition checkSSHTunnelWithPass :: "'w mysqldenv \<Rightarrow> BackupRPCRequest \<Rightarrow> ('w, bool) myst" where
  "checkSSHTunnelWithPass E req = do {
     (_, e) \<leftarrow> on_sys (cmd_RunCommand (me_backup_cmd E) bash [''-c'', ''sshpass -V'']);
     (if e \<noteq> None then ret False
      else do {
        (_, e2) \<leftarrow> on_sys (cmd_RunCommand (me_backup_cmd E) bash [''-c'',
          ''sshpass -p '' @ brq_SSHPasswd req @ '' ssh -o '' @ single_quoted ''StrictHostKeyChecking no'' @ '' '' @
          ssh_target req @ '' '' @ single_quoted ''echo 1'']);
        ret (e2 = None) }) }"

definition checkSSHTunnelWithKey :: "'w mysqldenv \<Rightarrow> BackupRPCRequest \<Rightarrow> ('w, bool) myst" where
  "checkSSHTunnelWithKey E req = do {
     (_, e) \<leftarrow> on_sys (cmd_RunCommand (me_backup_cmd E) bash [''-c'',
       ''ssh -o '' @ single_quoted ''StrictHostKeyChecking no'' @ '' '' @ ssh_target req @ '' '' @
       single_quoted ''echo 1'']);
     ret (e = None) }"

definition xtrabackup_line :: "BackupConfig \<Rightarrow> BackupRPCRequest \<Rightarrow> string" where
  "xtrabackup_line c req = bk_XtrabackupBinDir c @ ''/xtrabackup --defaults-file='' @ bk_DefaultsFile c @
     '' --host='' @ bk_Host c @ '' --port='' @ itoa (bk_Port c) @ '' --user='' @ bk_Admin c @
     (if bk_Passwd c = [] then [] else '' --password='' @ bk_Passwd c) @
     '' --backup --throttle='' @ itoa (brq_IOPSLimits req) @ '' --parallel='' @ itoa (bk_Parallel c) @
     '' --stream=xbstream --target-dir=./''"

definition xbstream_line :: "bool \<Rightarrow> BackupRPCRequest \<Rightarrow> string" where
  "xbstream_line iskey req = (if iskey then [] else ''sshpass -p '' @ brq_SSHPasswd req @ '' '') @
     ''ssh -o '' @ single_quoted ''StrictHostKeyChecking=no'' @ '' '' @ ssh_target req @ '' '' @ [CHR 0x22] @
     brq_XtrabackupBinDir req @ ''/xbstream -x -C '' @ brq_BackupDir req @ [CHR 0x22]"

definition backupCommands :: "BackupConfig \<Rightarrow> bool \<Rightarrow> BackupRPCRequest \<Rightarrow> string list" where
  "backupCommands c iskey req = [''-c'', xtrabackup_line c req @ '' | '' @ xbstream_line iskey req]"

definition applylogCommands :: "BackupConfig \<Rightarrow> BackupRPCRequest \<Rightarrow> string list" where
  "applylogCommands c req = [''-c'', bk_XtrabackupBinDir c @ ''/xtrabackup --defaults-file='' @
     bk_DefaultsFile c @ '' --use-memory='' @ bk_UseMemory c @ '' --prepare --target-dir='' @ brq_BackupDir req]"

text \<open>The tunnel: by password, else by key; the value says whether the key is used.\<close>

definition backup_tunnel :: "'w mysqldenv \<Rightarrow> BackupRPCRequest \<Rightarrow> ('w, bool res) myst" where
  "backup_tunnel E req = do {
     pass \<leftarrow> checkSSHTunnelWithPass E req;
     (if pass then ret (False, None)
      else do {
        key \<leftarrow> checkSSHTunnelWithKey E req;
        (if key then ret (True, None)
         else do {
           setLastError ''backup.ssh.tunnel[key].error'';
           ret (False, Some (GoErr (''backup.ssh.tunnel.to['' @ brq_SSHUser req @ ''@'' @ brq_SSHHost req @
             '' port:'' @ port_text req @ '' passwd:'' @ brq_SSHPasswd req @ ''].can.not.connect''))) }) }) }"

text \<open>How a job that failed ends.\<close>

definition job_failed :: "gerror \<Rightarrow> ('w, unit) myst \<Rightarrow> ('w, gerror option) myst" where
  "job_failed err bump = do {
     setLastError (err_text err);
     Backup_setStatus MYSQLD_BACKUPNONE;
     bump;
     ret (Some err) }"

definition backup_begin :: "'w mysqldenv \<Rightarrow> BackupRPCRequest \<Rightarrow> bool \<Rightarrow> ('w, gerror option) myst" where
  "backup_begin E req iskey = do {
     modify (\<lambda>s. s\<lparr>my_backup := (my_backup s)\<lparr>bk_start := me_now E (md_world s)\<rparr>\<rparr>);
     Backup_setStatus MYSQLD_BACKUPING;
     (let args = backupCommands (me_conf E) iskey req in do {
       setLastCMD (join '' '' args);
       e \<leftarrow> on_sys (cmd_Run (me_backup_cmd E) bash args);
       (case e of Some err \<Rightarrow> job_failed err IncBackupErrs | None \<Rightarrow> ret None) }) }"

text \<open>Wait for the command and count the lines that report success.\<close>

definition job_end :: "'w mysqldenv \<Rightarrow> ('w, unit) myst \<Rightarrow> ('w, unit) myst \<Rightarrow> ('w, gerror option) myst" where
  "job_end E bad good = do {
     e \<leftarrow> on_sys (cmd_Scan (me_backup_cmd E) backupOk backupOkCheckTimes);
     (case e of
        Some err \<Rightarrow> job_failed err bad
      | None \<Rightarrow> do { Backup_setStatus MYSQLD_BACKUPNONE; good; ret None }) }"

definition backup_refused :: gerror where
  "backup_refused = GoErr ''do.backup.error[backup.job.is.already.running]''"

definition Backup_Backup :: "'w mysqldenv \<Rightarrow> BackupRPCRequest \<Rightarrow> ('w, gerror option) myst" where
  "Backup_Backup E req = do {
     st \<leftarrow> gets (\<lambda>s. bk_status (my_backup s));
     (if st = MYSQLD_BACKUPING then ret (Some backup_refused)
      else do {
        (iskey, e) \<leftarrow> backup_tunnel E req;
        (case e of Some err \<Rightarrow> ret (Some err)
         | None \<Rightarrow> or_err (backup_begin E req iskey) (job_end E IncBackupErrs IncBackups)) }) }"

definition Backup_Cancel :: "'w mysqldenv \<Rightarrow> ('w, gerror option) myst" where
  "Backup_Cancel E = do {
     Backup_setStatus MYSQLD_BACKUPCANCELED;
     IncCancels;
     on_sys (cmd_Kill (me_backup_cmd E)) }"

definition applylog_refused :: gerror where
  "applylog_refused = GoErr ''applylog.error[backup/applylog.already.running]''"

definition applylog_begin :: "'w mysqldenv \<Rightarrow> BackupRPCRequest \<Rightarrow> ('w, gerror option) myst" where
  "applylog_begin E req = do {
     Backup_setStatus MYSQLD_APPLYLOGGING;
     e \<leftarrow> on_sys (cmd_Run (me_backup_cmd E) bash (applylogCommands (me_conf E) req));
     (case e of Some err \<Rightarrow> job_failed err IncApplyLogErrs | None \<Rightarrow> ret None) }"

definition Backup_ApplyLog :: "'w mysqldenv \<Rightarrow> BackupRPCRequest \<Rightarrow> ('w, gerror option) myst" where
  "Backup_ApplyLog E req = do {
     st \<leftarrow> gets (\<lambda>s. bk_status (my_backup s));
     (if st = MYSQLD_BACKUPING \<or> st = MYSQLD_APPLYLOGGING then ret (Some applylog_refused)
      else or_err (applylog_begin E req) (job_end E IncApplyLogErrs IncApplyLogs)) }"


subsection \<open>The RPC services (rpc_mysqld.go, rpc_backup.go)\<close>

definition code_of :: "gerror option \<Rightarrow> CodeResponse" where
  "code_of e = (case e of Some err \<Rightarrow> err_text err | None \<Rightarrow> OK)"

definition MysqldRPC_StartMonitor :: "'w mysqldenv \<Rightarrow> ('w, CodeResponse) myst" where
  "MysqldRPC_StartMonitor E = do { MonitorStart E; ret OK }"

definition MysqldRPC_StopMonitor :: "'w mysqldenv \<Rightarrow> ('w, CodeResponse) myst" where
  "MysqldRPC_StopMonitor E = do { MonitorStop E; ret OK }"

definition MysqldRPC_Start :: "'w mysqldenv \<Rightarrow> ('w, CodeResponse) myst" where
  "MysqldRPC_Start E = do { e \<leftarrow> StartMysqld E; ret (code_of e) }"

definition MysqldRPC_ShutDown :: "'w mysqldenv \<Rightarrow> ('w, CodeResponse) myst" where
  "MysqldRPC_ShutDown E = do { e \<leftarrow> StopMysqld E; ret (code_of e) }"

definition MysqldRPC_Kill :: "'w mysqldenv \<Rightarrow> ('w, CodeResponse) myst" where
  "MysqldRPC_Kill E = do { e \<leftarrow> KillMysqld E; ret (code_of e) }"

definition MysqldRPC_IsRunning :: "'w mysqldenv \<Rightarrow> ('w, CodeResponse) myst" where
  "MysqldRPC_IsRunning E = do {
     running \<leftarrow> isMysqldRunning E;
     ret (if running then OK else ErrorMysqldNotRunning) }"

definition MysqldRPC_Status :: "'w mysqldenv \<Rightarrow> ('w, MysqldStatusRPCResponse) myst" where
  "MysqldRPC_Status E = gets (\<lambda>s.
     let b = my_backup s; st = MYSQLD_STATUS_text (bk_status b) in
     (NewMysqldStatusRPCResponse OK)\<lparr>mds_MonitorInfo := getMonitorInfo s, mds_MysqldInfo := getMysqldInfo s,
       mds_BackupInfo := (if bk_status b = MYSQLD_BACKUPING
         then ''State:['' @ st @ ''], Time:['' @ me_duration E (me_now E (md_world s) - bk_start b) @ '']'' else st),
       mds_BackupStats := Some (Backup_getStats b), mds_BackupStatus := st,
       mds_MysqldStats := Some (Mysqld_getStats s)\<rparr>)"

definition BackupRPC_DoBackup :: "'w mysqldenv \<Rightarrow> BackupRPCRequest \<Rightarrow> ('w, CodeResponse) myst" where
  "BackupRPC_DoBackup E req = do { e \<leftarrow> Backup_Backup E req; ret (code_of e) }"

definition BackupRPC_DoApplyLog :: "'w mysqldenv \<Rightarrow> BackupRPCRequest \<Rightarrow> ('w, CodeResponse) myst" where
  "BackupRPC_DoApplyLog E req = do { e \<leftarrow> Backup_ApplyLog E req; ret (code_of e) }"

definition BackupRPC_CancelBackup :: "'w mysqldenv \<Rightarrow> ('w, CodeResponse) myst" where
  "BackupRPC_CancelBackup E = do { e \<leftarrow> Backup_Cancel E; ret (code_of e) }"


subsection \<open>The manager (manager.go)\<close>

text \<open>
  For PostgreSQL the manager has no \<open>Mysqld\<close> and every operation is empty. Another type of database
  panics: \<open>Some\<close> error.
\<close>

definition unsupported :: "gerror option" where
  "unsupported = Some (GoErr ''unsupported database type'')"

definition NewNanager :: "int \<Rightarrow> 'w \<Rightarrow> 'w mysqldc option res" where
  "NewNanager dbType w =
     (if dbType = EngineMySQL then (Some (NewMysqld w), None)
      else if dbType = EnginePostgreSQL then (None, None)
      else (None, Some (GoErr ''unsupported database'')))"

definition setupMysqld :: "'w mysqldenv \<Rightarrow> bool \<Rightarrow> ('w, unit) myst" where
  "setupMysqld E monitorDisabled = whenM (\<not> monitorDisabled) (call (StartMysqld E))"

definition on_engine :: "int \<Rightarrow> ('w, unit) myst \<Rightarrow> ('w, gerror option) myst" where
  "on_engine dbType m =
     (if dbType = EngineMySQL then do { m; ret None }
      else if dbType = EnginePostgreSQL then ret None
      else ret unsupported)"

definition SetupManager :: "'w mysqldenv \<Rightarrow> bool \<Rightarrow> int \<Rightarrow> ('w, gerror option) myst" where
  "SetupManager E monitorDisabled dbType = on_engine dbType (setupMysqld E monitorDisabled)"

definition Manager_Start :: "'w mysqldenv \<Rightarrow> bool \<Rightarrow> int \<Rightarrow> ('w, gerror option) myst" where
  "Manager_Start E monitorDisabled dbType = on_engine dbType (whenM (\<not> monitorDisabled) (MonitorStart E))"

definition Manager_Stop :: "'w mysqldenv \<Rightarrow> int \<Rightarrow> ('w, gerror option) myst" where
  "Manager_Stop E dbType = on_engine dbType (MonitorStop E)"

end
