(* ===== verification/Services.thy ===== *)
theory Services
  imports Mysqld RaftMembers RaftNode NeoRpc
begin

section \<open>The RPC services of a node (internal/server, internal/database/mysql)\<close>

text \<open>
  rpc_mysql.go, rpc_node.go, rpc_user.go, rpc_server.go. A handler fills in the response it is
  given and returns no error. With the etcd coordinator a server has no Raft: the node and user
  services then use a nil pointer (\<open>with_raft\<close>, \<open>None\<close>).
\<close>

subsection \<open>MySQL (rpc_mysql.go)\<close>

definition MysqlRPC_SetGlobalSysVar :: "'w dbenv \<Rightarrow> string \<Rightarrow> ('w mysql, CodeResponse) state" where
  "MysqlRPC_SetGlobalSysVar E varsql = do { e \<leftarrow> Mysql_SetGlobalSysVar E varsql; ret (code_of e) }"

definition mysql_rpc :: "('w mysql, gerror option) state \<Rightarrow> ('w mysql, MysqlRPCResponse) state" where
  "mysql_rpc m = do { e \<leftarrow> m; ret (NewMysqlRPCResponse (code_of e)) }"

definition MysqlRPC_ResetMaster :: "'w dbenv \<Rightarrow> ('w mysql, MysqlRPCResponse) state" where
  "MysqlRPC_ResetMaster E = mysql_rpc (Mysql_ResetMaster E)"

definition MysqlRPC_ChangeToMaster :: "'w dbenv \<Rightarrow> ('w mysql, MysqlRPCResponse) state" where
  "MysqlRPC_ChangeToMaster E = mysql_rpc (do { repl \<leftarrow> GetRepl; Mysql_ChangeToMaster E repl })"

text \<open>Named after \<open>RESET SLAVE ALL\<close>; it makes the node a master, as the one above.\<close>

definition MysqlRPC_ResetSlaveAll :: "'w dbenv \<Rightarrow> ('w mysql, MysqlRPCResponse) state" where
  "MysqlRPC_ResetSlaveAll E = mysql_rpc (do { repl \<leftarrow> GetRepl; Mysql_ChangeToMaster E repl })"

definition MysqlRPC_StopSlave :: "'w dbenv \<Rightarrow> ('w mysql, MysqlRPCResponse) state" where
  "MysqlRPC_StopSlave E = mysql_rpc (Mysql_StopSlave E)"

definition MysqlRPC_StartSlave :: "'w dbenv \<Rightarrow> ('w mysql, MysqlRPCResponse) state" where
  "MysqlRPC_StartSlave E = mysql_rpc (Mysql_StartSlave E)"

definition MysqlRPC_ResetSlave :: "'w dbenv \<Rightarrow> ('w mysql, MysqlRPCResponse) state" where
  "MysqlRPC_ResetSlave E = mysql_rpc (Mysql_ResetSlave E)"

definition MysqlRPC_IsWorking :: "('w mysql, MysqlRPCResponse) state" where
  "MysqlRPC_IsWorking = do {
     st \<leftarrow> Mysql_getState;
     ret (NewMysqlRPCResponse (if st = MysqlAlive then OK else ErrorMySQLDown)) }"

definition MysqlRPC_Status :: "'w dbenv \<Rightarrow> ('w mysql, MysqlStatusRPCResponse) state" where
  "MysqlRPC_Status E = do {
     mode \<leftarrow> Mysql_GetReplMode;
     (gtid, e) \<leftarrow> Mysql_GetGTID E;
     (let r = (NewMysqlStatusRPCResponse OK)\<lparr>mst_ReplMode := mode, mst_GTID := gtid\<rparr> in
      case e of Some err \<Rightarrow> ret (r\<lparr>mst_RetCode := err_text err\<rparr>)
      | None \<Rightarrow> do {
          st \<leftarrow> Mysql_getState;
          opt \<leftarrow> Mysql_getOption;
          downs \<leftarrow> Mysql_getStats;
          (mgr, e2) \<leftarrow> Mysql_GetLocalMGRStat E;
          ret (r\<lparr>mst_Status := st, mst_Options := opt, mst_Stats := Some \<lparr>MysqlDowns = downs\<rparr>,
            mst_MGRStatus := Some (if e2 = None then mgr
              else \<lparr>mgr_Role = ''UNKNOWN'', mgr_State = ''UNKNOWN'', mgr_PrimaryUUID = []\<rparr>)\<rparr>) }) }"

definition MysqlRPC_GTIDSubtract ::
    "'w dbenv \<Rightarrow> MysqlGTIDSubtractRPCRequest \<Rightarrow> ('w mysql, MysqlGTIDSubtractRPCResponse) state" where
  "MysqlRPC_GTIDSubtract E req = do {
     (sub, e) \<leftarrow> Mysql_GetGTIDSubtract E (gsq_SubsetGTID req) (gsq_SetGTID req);
     ret \<lparr>gsp_Subtract = sub, gsp_RetCode = code_of e\<rparr> }"

definition MysqlRPC_SetState :: "MysqlState \<Rightarrow> ('w mysql, CodeResponse) state" where
  "MysqlRPC_SetState st = do { Mysql_setState st; ret OK }"


subsection \<open>Nodes (rpc_node.go)\<close>

definition with_raft :: "('w, 'a) rst \<Rightarrow> ('w raft option, 'a option) state" where
  "with_raft m = State (\<lambda>s. case s of None \<Rightarrow> (None, None)
     | Some r \<Rightarrow> (Some (val_of m r), Some (exec_of m r)))"

definition node_rpc ::
    "(string \<Rightarrow> ('w, gerror option) rst) \<Rightarrow> NodeRPCRequest \<Rightarrow> ('w, NodeRPCResponse) rst" where
  "node_rpc f req = do {
     e \<leftarrow> until_err f (ndq_Nodes req);
     ret (NewNodeRPCResponse (code_of e)) }"

definition NodeRPC_AddNodes :: "NodeRPCRequest \<Rightarrow> ('w, NodeRPCResponse) rst" where
  "NodeRPC_AddNodes req = node_rpc AddPeer req"

definition NodeRPC_AddIdleNodes :: "NodeRPCRequest \<Rightarrow> ('w, NodeRPCResponse) rst" where
  "NodeRPC_AddIdleNodes req = node_rpc AddIdlePeer req"

definition NodeRPC_RemoveNodes :: "NodeRPCRequest \<Rightarrow> ('w, NodeRPCResponse) rst" where
  "NodeRPC_RemoveNodes req = node_rpc RemovePeer req"

definition NodeRPC_RemoveIdleNodes :: "NodeRPCRequest \<Rightarrow> ('w, NodeRPCResponse) rst" where
  "NodeRPC_RemoveIdleNodes req = node_rpc RemoveIdlePeer req"

definition NodeRPC_GetNodes :: "NodeRPCRequest \<Rightarrow> ('w, NodeRPCResponse) rst" where
  "NodeRPC_GetNodes req = gets (\<lambda>r. (NewNodeRPCResponse OK)\<lparr>nd_Leader := r_leader r, nd_ViewID := r_ViewID r,
     nd_EpochID := r_EpochID r, nd_State := State_String (r_state r), nd_Nodes := getAllPeers r\<rparr>)"


subsection \<open>Users (rpc_user.go)\<close>

definition user_code :: "('w mysql, gerror option) state \<Rightarrow> ('w, MysqlUserRPCResponse) rst" where
  "user_code m = do { e \<leftarrow> on_mysql m; ret (NewMysqlUserRPCResponse (code_of e)) }"

definition if_leader :: "string \<Rightarrow> ('w, MysqlUserRPCResponse) rst \<Rightarrow> ('w, MysqlUserRPCResponse) rst" where
  "if_leader refusal k = do {
     st \<leftarrow> Raft_getState;
     (if st \<noteq> LEADER then ret (NewMysqlUserRPCResponse refusal) else k) }"

text \<open>Create a user that does not exist yet.\<close>

definition create_new :: "'w dbenv \<Rightarrow> MysqlUserRPCRequest \<Rightarrow> string \<Rightarrow> string \<Rightarrow>
    ('w mysql, gerror option) state \<Rightarrow> ('w, MysqlUserRPCResponse) rst" where
  "create_new E req kind suffix m = if_leader ''nonleader.can.not.createuser'' (do {
     (ok, e) \<leftarrow> on_mysql (Mysql_CheckUserExists E (us_User req) (us_Host req));
     (case e of Some err \<Rightarrow> ret (NewMysqlUserRPCResponse (err_text err))
      | None \<Rightarrow> (if ok then ret (NewMysqlUserRPCResponse (kind @ ''['' @ us_User req @ '']@['' @ us_Host req @
            ''].exists.when.create'' @ suffix))
          else user_code m)) })"

definition UserRPC_CreateNormalUser :: "'w dbenv \<Rightarrow> MysqlUserRPCRequest \<Rightarrow> ('w, MysqlUserRPCResponse) rst" where
  "UserRPC_CreateNormalUser E req = create_new E req ''normaluser'' []
     (or_err (Mysql_CreateUser E (us_User req) (us_Host req) (us_Passwd req) (us_SSL req))
       (Mysql_GrantNormalPrivileges E (us_User req) (us_Host req)))"

definition UserRPC_CreateSuperUser :: "'w dbenv \<Rightarrow> MysqlUserRPCRequest \<Rightarrow> ('w, MysqlUserRPCResponse) rst" where
  "UserRPC_CreateSuperUser E req = create_new E req ''superuser'' []
     (Mysql_GrantAllPrivileges E (us_User req) (us_Host req) (us_Passwd req) (us_SSL req))"

definition UserRPC_CreateUserWithPrivileges ::
    "'w dbenv \<Rightarrow> MysqlUserRPCRequest \<Rightarrow> ('w, MysqlUserRPCResponse) rst" where
  "UserRPC_CreateUserWithPrivileges E req = create_new E req ''user'' ''.with.priv''
     (Mysql_CreateUserWithPrivileges E (us_User req) (us_Passwd req) (us_Database req) (us_Table req)
        (us_Host req) (us_Privileges req) (us_SSL req))"

definition UserRPC_ChangePasword :: "'w dbenv \<Rightarrow> MysqlUserRPCRequest \<Rightarrow> ('w, MysqlUserRPCResponse) rst" where
  "UserRPC_ChangePasword E req = if_leader ''nonleader.can.not.changepassword''
     (user_code (Mysql_ChangeUserPasswd E (us_User req) (us_Host req) (us_Passwd req)))"

definition UserRPC_DropUser :: "'w dbenv \<Rightarrow> MysqlUserRPCRequest \<Rightarrow> ('w, MysqlUserRPCResponse) rst" where
  "UserRPC_DropUser E req = if_leader ''nonleader.can.not.dropuser''
     (user_code (Mysql_DropUser E (us_User req) (us_Host req)))"

definition UserRPC_GetUser :: "'w dbenv \<Rightarrow> ('w, MysqlUserRPCResponse) rst" where
  "UserRPC_GetUser E = if_leader ''nonleader.can.not.get.mysql.user'' (do {
     (users, e) \<leftarrow> on_mysql (Mysql_GetUser E);
     ret \<lparr>usp_Users = map (\<lambda>u. (mu_User u, mu_Host u, mu_SuperPriv u)) users, usp_RetCode = code_of e\<rparr> })"

definition user_services :: "'w dbenv \<Rightarrow> MysqlUserRPCRequest \<Rightarrow> ('w, MysqlUserRPCResponse) rst list" where
  "user_services E req = [UserRPC_CreateNormalUser E req, UserRPC_CreateSuperUser E req,
     UserRPC_CreateUserWithPrivileges E req, UserRPC_ChangePasword E req, UserRPC_DropUser E req,
     UserRPC_GetUser E]"


subsection \<open>The server itself (rpc_server.go, stats.go)\<close>

definition ServerRPC_Ping :: ServerRPCResponse where
  "ServerRPC_Ping = NewServerRPCResponse OK"

text \<open>\<open>uptime\<close> is the number of seconds since the server started.\<close>

definition config_status :: "string \<Rightarrow> MysqlConfig \<Rightarrow> BackupConfig \<Rightarrow> RaftConfig \<Rightarrow> string \<Rightarrow> string \<Rightarrow> ConfigStatus" where
  "config_status level my b r onstart onstop = \<lparr>cs_LogLevel = level, cs_BackupDir = bk_BackupDir b,
     cs_BackupIOPSLimits = bk_BackupIOPSLimits b, cs_XtrabackupBinDir = bk_XtrabackupBinDir b,
     cs_MysqldBaseDir = bk_Basedir b, cs_MysqldDefaultsFile = bk_DefaultsFile b, cs_MysqlAdmin = mc_Admin my,
     cs_MysqlHost = mc_Host my, cs_MysqlPort = mc_Port my, cs_MysqlReplUser = mc_ReplUser my,
     cs_MysqlPingTimeout = mc_PingTimeout my, cs_RaftDataDir = rc_MetaDatadir r,
     cs_RaftHeartbeatTimeout = rc_HeartbeatTimeout r, cs_RaftElectionTimeout = rc_ElectionTimeout r,
     cs_RaftRPCRequestTimeout = rc_RequestTimeout r, cs_RaftStartVipCommand = onstart,
     cs_RaftStopVipCommand = onstop\<rparr>"

text \<open>Missing sections are a nil pointer.\<close>

definition ServerRPC_Status :: "Config \<Rightarrow> 64 word \<Rightarrow> ServerRPCResponse option" where
  "ServerRPC_Status conf uptime =
     (case (LogSection conf, Option.bind (Database conf) db_Mysql, Option.bind (Election conf) el_Raft) of
        (Some l, Some my, Some r) \<Rightarrow>
          map_option (\<lambda>b. (NewServerRPCResponse OK)\<lparr>
            sv_Config := Some (config_status (Level l) my b r (OnPrimaryStart (EffectivePrimaryHooks (Some conf)))
              (OnPrimaryStop (EffectivePrimaryHooks (Some conf)))),
            sv_Uptimes := Some uptime\<rparr>) (mc_Backup my)
      | _ \<Rightarrow> None)"


subsection \<open>Only the leader serves\<close>

lemma if_leader_refuses:
  "r_state r \<noteq> LEADER \<Longrightarrow> run_state (if_leader refusal k) r = (NewMysqlUserRPCResponse refusal, r)"
  by (simp add: if_leader_def Raft_getState_def)

text \<open>
  On a node that is not the leader every user service answers with a
  refusal and neither asks nor changes anything: MySQL is not connected to, the state is the same.
\<close>

lemma user_rpcs_leader_only:
  assumes "r_state r \<noteq> LEADER" and "m \<in> set (user_services E req)"
  shows "exec_of m r = r \<and> usp_RetCode (val_of m r) \<noteq> OK"
  using assms
  by (auto simp: user_services_def UserRPC_CreateNormalUser_def UserRPC_CreateSuperUser_def
      UserRPC_CreateUserWithPrivileges_def UserRPC_ChangePasword_def UserRPC_DropUser_def UserRPC_GetUser_def
      create_new_def if_leader_refuses NewMysqlUserRPCResponse_def OK_def)

lemma user_rpcs_leader_only_example:
  "exec_of (UserRPC_DropUser too_many_env NewMysqlUserRPCRequest) (demo_raft ([''b:1''], [])) = demo_raft ([''b:1''], [])"
  using user_rpcs_leader_only [of "demo_raft ([''b:1''], [])"
      "UserRPC_DropUser too_many_env NewMysqlUserRPCRequest" too_many_env NewMysqlUserRPCRequest]
  by (simp add: demo_raft_fields user_services_def)

text \<open>Resetting the slave through the RPC makes the node a master instead.\<close>

lemma reset_slave_all_makes_master: "MysqlRPC_ResetSlaveAll E = MysqlRPC_ChangeToMaster E"
  by (simp add: MysqlRPC_ResetSlaveAll_def MysqlRPC_ChangeToMaster_def)

text \<open>Without Raft, as with the etcd coordinator, the node services are a nil pointer.\<close>

lemma no_raft_no_nodes: "val_of (with_raft m) None = None"
  by (simp add: with_raft_def)

end
