(* ===== verification/ClusterNet.thy ===== *)
theory ClusterNet
  imports Services CtlCluster
begin

section \<open>The tool against the nodes: changing the membership\<close>

text \<open>
  The command \<open>cluster add\<close> and its kin put together with the services they call. The world of the
  tool is a network: the Raft of every node that can be reached. A call of a node service runs the
  handler on that node and gives the tool its response.
\<close>

type_synonym 'w network = "string \<Rightarrow> 'w raft option"

definition node_service :: "string \<Rightarrow> NodeRPCRequest \<Rightarrow> ('w, NodeRPCResponse res) rst" where
  "node_service rpc req = (let ok = (\<lambda>m. do { r \<leftarrow> m; ret (r, None) }) in
     if rpc = RPCNodes then ok (NodeRPC_GetNodes req)
     else if rpc = RPCNodesAdd then ok (NodeRPC_AddNodes req)
     else if rpc = RPCIdleNodesAdd then ok (NodeRPC_AddIdleNodes req)
     else if rpc = RPCNodesRemove then ok (NodeRPC_RemoveNodes req)
     else if rpc = RPCIdleNodesRemove then ok (NodeRPC_RemoveIdleNodes req)
     else ret (NewNodeRPCResponse [], Some (GoErr (''rpc: can't find service '' @ rpc))))"

definition unreachable :: "string \<Rightarrow> gerror" where
  "unreachable node = GoErr (''dial tcp '' @ node)"

definition on_network :: "'w network rpcenv \<Rightarrow> 'w network rpcenv" where
  "on_network N = N\<lparr>
     nr_new := (\<lambda>node. gets (\<lambda>net. if net node = None then Some (unreachable node) else None)),
     nr_close := (\<lambda>_. ret ()),
     nr_node := (\<lambda>node rpc req. State (\<lambda>net. case net node of
        None \<Rightarrow> ((NewNodeRPCResponse [], Some (unreachable node)), net)
      | Some r \<Rightarrow> (val_of (node_service rpc req) r, net(node := Some (exec_of (node_service rpc req) r)))))\<rparr>"


subsection \<open>Finding the leader\<close>

lemma rpc_names [simp]: "RPCNodes \<noteq> RPCNodesAdd" "RPCNodesAdd \<noteq> RPCNodes" "RPCIdleNodesAdd \<noteq> RPCNodes"
  "RPCNodesRemove \<noteq> RPCNodes" "RPCIdleNodesRemove \<noteq> RPCNodes" "RPCIdleNodesAdd \<noteq> RPCNodesAdd"
  "RPCNodesRemove \<noteq> RPCNodesAdd" "RPCIdleNodesRemove \<noteq> RPCNodesAdd" "RPCNodesRemove \<noteq> RPCIdleNodesAdd"
  "RPCIdleNodesRemove \<noteq> RPCIdleNodesAdd" "RPCIdleNodesRemove \<noteq> RPCNodesRemove"
  by (simp_all add: RPCNodes_def RPCNodesAdd_def RPCIdleNodesAdd_def RPCNodesRemove_def RPCIdleNodesRemove_def)

definition nodes_answer :: "'w raft \<Rightarrow> NodeRPCResponse" where
  "nodes_answer r = (NewNodeRPCResponse OK)\<lparr>nd_Leader := r_leader r, nd_ViewID := r_ViewID r,
     nd_EpochID := r_EpochID r, nd_State := State_String (r_state r), nd_Nodes := getAllPeers r\<rparr>"

lemma nodes_answer_fields [simp]:
  "nd_RetCode (nodes_answer r) = OK" "nd_State (nodes_answer r) = State_String (r_state r)"
  "nd_Nodes (nodes_answer r) = getAllPeers r"
  by (simp_all add: nodes_answer_def NewNodeRPCResponse_def)

lemma nodes_service: "run_state (node_service RPCNodes req) r = ((nodes_answer r, None), r)"
  by (simp add: node_service_def NodeRPC_GetNodes_def nodes_answer_def Let_def)

lemma ask_network:
  "run_state (ask_node (on_network N) node rpc nodes) net = (case net node of
     None \<Rightarrow> ((None, Some (GoErr (''get.client.error['' @ err_text (unreachable node) @ '']''))), net)
   | Some r \<Rightarrow> (let (a, r') = run_state (node_service rpc (NewNodeRPCRequest\<lparr>ndq_Nodes := nodes\<rparr>)) r in
       ((Some (if snd a = None then fst a else NewNodeRPCResponse OK), snd a), net(node := Some r'))))"
  by (simp add: ask_node_def with_client_def GetClient_def on_network_def reply_def case_prod_beta Let_def
      split: option.split)

lemma upd_same: "net node = Some r \<Longrightarrow> net(node := Some r) = net"
  by (rule ext) simp

text \<open>The first node of the list that can be reached and calls itself the leader.\<close>

fun first_leader :: "'w network \<Rightarrow> string list \<Rightarrow> string" where
  "first_leader net [] = []"
| "first_leader net (node # nodes) = (case net node of
     Some r \<Rightarrow> if r_state r = LEADER then node else first_leader net nodes
   | None \<Rightarrow> first_leader net nodes)"

lemma closes_nothing:
  "run_state (nr_close (on_network N) x) net = ((), net)"
  "run_state (for_each (nr_close (on_network N)) xs) net = ((), net)"
  by (simp add: on_network_def) (induction xs, simp_all add: on_network_def)

lemma leader_text: "State_String st = ''LEADER'' \<longleftrightarrow> st = LEADER"
  by (cases st) simp_all

lemma loop_finds: "run_state (leader_loop (on_network N) opened nodes) net = (first_leader net nodes, net)"
proof (induction nodes arbitrary: opened)
  case (Cons node nodes)
  have client: "run_state (GetClient (on_network N) node) net =
      (if net node = None then Some (GoErr (''get.client.error['' @ err_text (unreachable node) @ '']''))
       else None, net)"
    by (simp add: GetClient_def on_network_def)
  have called: "net node = Some r \<Longrightarrow> run_state (reply (NewNodeRPCResponse OK)
      (nr_node (on_network N) node RPCNodes NewNodeRPCRequest)) net = ((nodes_answer r, None), net)" for r
    by (simp add: reply_def on_network_def nodes_service upd_same)
  show ?case
    by (cases "net node")
      (simp_all add: client called closes_nothing Cons.IH leader_text)
qed (simp add: closes_nothing)

lemma leader_found:
  assumes "net self = Some r"
  shows "run_state (GetClusterLeader (on_network N) self) net = ((first_leader net (getAllPeers r), None), net)"
  using assms
  by (simp add: GetClusterLeader_def GetNodes_def ask_network nodes_service upd_same loop_finds)


subsection \<open>Adding nodes\<close>

lemma add_peers:
  "val_of (until_err AddPeer nodes) r = None \<and>
   set (r_peers (exec_of (until_err AddPeer nodes) r)) =
     set (r_peers r) \<union> {c \<in> set nodes. c \<noteq> [] \<and> c \<notin> set (r_idlePeers r) \<and> c \<noteq> r_id r} \<and>
   r_idlePeers (exec_of (until_err AddPeer nodes) r) = r_idlePeers r \<and>
   r_id (exec_of (until_err AddPeer nodes) r) = r_id r"
  by (induction nodes arbitrary: r) (auto simp: run_AddPeer)

lemma add_service:
  "run_state (node_service RPCNodesAdd (NewNodeRPCRequest\<lparr>ndq_Nodes := nodes\<rparr>)) r =
     ((NewNodeRPCResponse OK, None), exec_of (until_err AddPeer nodes) r)"
  using add_peers [of nodes r]
  by (simp add: node_service_def NodeRPC_AddNodes_def node_rpc_def NewNodeRPCRequest_def code_of_def Let_def case_prod_beta)

definition add_target :: "'w network \<Rightarrow> string \<Rightarrow> string" where
  "add_target net self = (let l = first_leader net (getAllPeers (the (net self))) in if l \<noteq> [] then l else self)"

lemma target_choice:
  "net self = Some r0 \<Longrightarrow> (if first_leader net (getAllPeers r0) \<noteq> [] then first_leader net (getAllPeers r0) else self) =
     add_target net self"
  by (simp add: add_target_def Let_def)

lemma add_runs:
  assumes "net to = Some r"
  shows "run_state (AddNodeRPC (on_network N) to nodes) net = (None, net(to := Some (exec_of (until_err AddPeer nodes) r)))"
  using assms by (simp add: AddNodeRPC_def only_err_def ask_network add_service)

lemma tool_add_runs:
  assumes "ct_rpc C = on_network N" and "run_state (GetConfig C) net = ((Some conf, None), net)"
    and "net (Endpoint conf) = Some r0" and "net (add_target net (Endpoint conf)) = Some r"
  shows "run_state (clusterAddCommandFn C [names]) net = (Completed, net(add_target net (Endpoint conf) :=
      Some (exec_of (until_err AddPeer (splitNodeList names)) r)))"
  using assms(1-3) add_runs [of net "add_target net (Endpoint conf)", OF assms(4)]
  by (simp add: clusterAddCommandFn_def leader_or_self_def with_config_def ErrorOK_def leader_found
      target_choice [of net "Endpoint conf", OF assms(3)] cong: if_cong split del: if_split)

text \<open>
  C25. \<open>neohactl cluster add\<close> on a node that is up: if the leader the
  node's members know of can be reached, exactly its peers change, and become the old ones and the
  given names, without empty ones, idle peers and itself; without a leader this happens at the node
  itself. The command completes.
\<close>

theorem cluster_add_reaches_leader:
  assumes "ct_rpc C = on_network N" and "run_state (GetConfig C) net = ((Some conf, None), net)"
    and "net (Endpoint conf) = Some r0" and "net (add_target net (Endpoint conf)) = Some r"
  shows "\<exists>r'. run_state (clusterAddCommandFn C [names]) net =
      (Completed, net(add_target net (Endpoint conf) := Some r')) \<and>
    set (r_peers r') = set (r_peers r) \<union>
      {c \<in> set (splitNodeList names). c \<notin> set (r_idlePeers r) \<and> c \<noteq> r_id r} \<and>
    r_idlePeers r' = r_idlePeers r"
proof -
  let ?nodes = "splitNodeList names"
  have "c \<noteq> []" if "c \<in> set ?nodes" for c
    using that by (auto simp: splitNodeList_def)
  then have "set (r_peers (exec_of (until_err AddPeer ?nodes) r)) = set (r_peers r) \<union>
      {c \<in> set ?nodes. c \<notin> set (r_idlePeers r) \<and> c \<noteq> r_id r} \<and>
      r_idlePeers (exec_of (until_err AddPeer ?nodes) r) = r_idlePeers r"
    using add_peers [of ?nodes r] by blast
  with tool_add_runs [OF assms, of names] show ?thesis
    by (intro exI [of _ "exec_of (until_err AddPeer ?nodes) r"] conjI) blast+
qed

definition demo_network :: "unit network" where
  "demo_network = [Endpoint DefaultConfig \<mapsto> demo_raft ([''B'', ''C''], []),
     ''B'' \<mapsto> (demo_raft ([''C''], [''I'']))\<lparr>r_state := LEADER\<rparr>]"

definition demo_rpc :: "unit network rpcenv" where
  "demo_rpc = \<lparr>nr_new = (\<lambda>_. ret None), nr_close = (\<lambda>_. ret ()),
     nr_node = (\<lambda>_ _ _. ret (NewNodeRPCResponse OK, None)), nr_mysqld = (\<lambda>_ _. ret (OK, None)),
     nr_mysqld_status = (\<lambda>_ _. ret (NewMysqldStatusRPCResponse OK, None)),
     nr_backup = (\<lambda>_ _ _. ret (OK, None)), nr_ha = (\<lambda>_ _. ret (OK, None)),
     nr_raft_status = (\<lambda>_ _. ret (NewRaftStatusRPCResponse OK, None)),
     nr_mysql = (\<lambda>_ _. ret (NewMysqlRPCResponse OK, None)),
     nr_mysql_status = (\<lambda>_ _. ret (NewMysqlStatusRPCResponse OK, None)),
     nr_set_state = (\<lambda>_ _ _. ret (OK, None)),
     nr_subtract = (\<lambda>_ _ _. ret (NewMysqlGTIDSubtractRPCResponse OK, None)),
     nr_user = (\<lambda>_ _ _. ret (NewMysqlUserRPCResponse OK, None)),
     nr_var = (\<lambda>_ _ _. ret (OK, None)), nr_server = (\<lambda>_ _ _. ret (NewServerRPCResponse OK, None)),
     nr_sleep = (\<lambda>_. ret ()), nr_read = (\<lambda>_. ret ([], None))\<rparr>"

definition demo_tool :: "unit network ctl" where
  "demo_tool = \<lparr>ct_rpc = on_network demo_rpc,
     ct_exec = (\<lambda>_ _. ret ([], None)), ct_stat = (\<lambda>_ _. None), ct_argdir = (\<lambda>_. ([], None)),
     ct_readfile = (\<lambda>_ _. (''conf.json'', None)), ct_writefile = (\<lambda>_ _ w. (None, w)),
     ct_jsondec = (\<lambda>_ c. (None, c)), ct_yamldec = (\<lambda>_ c. (None, c)),
     ct_jsonenc = (\<lambda>_. ([], None)), ct_yamlenc = (\<lambda>_. ([], None)), ct_print = (\<lambda>_. ret ()),
     ct_json = (\<lambda>_. ret ()), ct_table = (\<lambda>_ _. ret ()), ct_sleep_ns = (\<lambda>_. ret ())\<rparr>"

lemma demo_load:
  "LoadConfig (\<lambda>p. (''conf.json'', None)) (\<lambda>_ c. (None, c)) (\<lambda>_ c. (None, c)) ''conf.json'' =
     (Some DefaultConfig, None)"
proof -
  have "GetFileType ''conf.json'' = JsonType"
    by (simp add: GetFileType_def path_base_def path_ext_def JsonType_def)
  moreover have "Normalize DefaultConfig = DefaultConfig" by code_simp
  ultimately show ?thesis
    by (simp add: default_valid LoadConfig_def DetectConfigFormat_def isSupportedConfigFormat_def ParseConfig_def)
qed

lemma demo_config: "run_state (GetConfig demo_tool) net = ((Some DefaultConfig, None), net)"
  using demo_load
  by (simp add: GetConfig_def config_path_def demo_tool_def trim_space_def is_space_def)

theorem cluster_add_reaches_leader_witness:
  "\<exists>r'. run_state (clusterAddCommandFn demo_tool ['',D,I, E'']) demo_network =
     (Completed, demo_network(''B'' := Some r')) \<and> set (r_peers r') = {''C'', ''D'', ''E''}"
proof -
  let ?r = "(demo_raft ([''C''], [''I'']))\<lparr>r_state := LEADER\<rparr>"
  have self: "demo_network (Endpoint DefaultConfig) = Some (demo_raft ([''B'', ''C''], []))"
    by (simp add: demo_network_def DefaultConfig_def)
  have to: "add_target demo_network (Endpoint DefaultConfig) = ''B''"
    by (simp add: add_target_def self getAllPeers_def demo_raft_fields sanitizePeerList_def Let_def)
      (simp add: demo_network_def)
  have names: "splitNodeList '',D,I, E'' = [''D'', ''I'', ''E'']"
    by code_simp
  have "\<exists>r'. run_state (clusterAddCommandFn demo_tool ['',D,I, E'']) demo_network =
      (Completed, demo_network(add_target demo_network (Endpoint DefaultConfig) := Some r')) \<and>
    set (r_peers r') = set (r_peers ?r) \<union>
      {c \<in> set (splitNodeList '',D,I, E''). c \<notin> set (r_idlePeers ?r) \<and> c \<noteq> r_id ?r} \<and>
    r_idlePeers r' = r_idlePeers ?r"
    by (rule cluster_add_reaches_leader [of demo_tool demo_rpc demo_network DefaultConfig _ ?r,
          OF _ demo_config self])
      (simp add: demo_tool_def, simp only: to, simp add: demo_network_def)
  then show ?thesis
    unfolding to names by (elim exE) (auto simp: demo_raft_fields sanitizePeerList_def intro!: exI)
qed

end
