(* ===== verification/MysqldJobs.thy ===== *)
theory MysqldJobs
  imports Mysqld
begin

section \<open>Backup jobs while other requests are served\<close>

text \<open>
  Each request for a backup or for applying the log is a job in a goroutine of its own; \<open>pc\<close> says
  how far job \<open>i\<close> has come. Between its parts any other job, a cancellation, a monitor tick or a
  request to start, stop or kill mysqld may run. Waiting for the command is the step that ends it.
\<close>

datatype job_pc =
    NoJob
  | BackupChecked BackupRPCRequest
  | BackupTunnelled BackupRPCRequest bool
  | BackupRunning
  | ApplyChecked BackupRPCRequest
  | ApplyRunning

record 'w jobs =
  jb_state :: "'w mysqldc"
  jb_pc :: "nat \<Rightarrow> job_pc"

abbreviation backup_status :: "'w mysqldc \<Rightarrow> MYSQLD_STATUS" where
  "backup_status s \<equiv> bk_status (my_backup s)"

definition jump :: "'w jobs \<Rightarrow> nat \<Rightarrow> job_pc \<Rightarrow> 'w mysqldc \<Rightarrow> 'w jobs" where
  "jump j i p s = j\<lparr>jb_state := s, jb_pc := (jb_pc j)(i := p)\<rparr>"

lemma jump_fields [simp]: "jb_state (jump j i p s) = s" "jb_pc (jump j i p s) = (jb_pc j)(i := p)"
  by (simp_all add: jump_def)

text \<open>The requests and events that are no job.\<close>

datatype side = Starting | Stopping | Killing | Ticking | MonitorOn | MonitorOff

primrec side_run :: "'w mysqldenv \<Rightarrow> side \<Rightarrow> ('w, unit) myst" where
  "side_run E Starting = call (StartMysqld E)"
| "side_run E Stopping = call (StopMysqld E)"
| "side_run E Killing = call (KillMysqld E)"
| "side_run E Ticking = monitor E"
| "side_run E MonitorOn = MonitorStart E"
| "side_run E MonitorOff = MonitorStop E"

inductive job_step :: "'w mysqldenv \<Rightarrow> 'w jobs \<Rightarrow> 'w jobs \<Rightarrow> bool" for E where
  backup_check: "jb_pc j i = NoJob \<Longrightarrow> backup_status (jb_state j) \<noteq> MYSQLD_BACKUPING \<Longrightarrow>
    job_step E j (jump j i (BackupChecked req) (jb_state j))"
| backup_tunnel: "jb_pc j i = BackupChecked req \<Longrightarrow>
    run_state (backup_tunnel E req) (jb_state j) = ((key, e), s) \<Longrightarrow>
    job_step E j (jump j i (if e = None then BackupTunnelled req key else NoJob) s)"
| backup_begin: "jb_pc j i = BackupTunnelled req key \<Longrightarrow>
    run_state (backup_begin E req key) (jb_state j) = (e, s) \<Longrightarrow>
    job_step E j (jump j i (if e = None then BackupRunning else NoJob) s)"
| backup_end: "jb_pc j i = BackupRunning \<Longrightarrow>
    job_step E j (jump j i NoJob (exec_of (job_end E IncBackupErrs IncBackups) (jb_state j)))"
| log_check: "jb_pc j i = NoJob \<Longrightarrow> backup_status (jb_state j) \<noteq> MYSQLD_BACKUPING \<Longrightarrow>
    backup_status (jb_state j) \<noteq> MYSQLD_APPLYLOGGING \<Longrightarrow>
    job_step E j (jump j i (ApplyChecked req) (jb_state j))"
| log_begin: "jb_pc j i = ApplyChecked req \<Longrightarrow>
    run_state (applylog_begin E req) (jb_state j) = (e, s) \<Longrightarrow>
    job_step E j (jump j i (if e = None then ApplyRunning else NoJob) s)"
| log_end: "jb_pc j i = ApplyRunning \<Longrightarrow>
    job_step E j (jump j i NoJob (exec_of (job_end E IncApplyLogErrs IncApplyLogs) (jb_state j)))"
| cancel: "job_step E j (j\<lparr>jb_state := exec_of (Backup_Cancel E) (jb_state j)\<rparr>)"
| side: "job_step E j (j\<lparr>jb_state := exec_of (side_run E r) (jb_state j)\<rparr>)"

definition jobs_start :: "'w \<Rightarrow> 'w jobs" where
  "jobs_start w = \<lparr>jb_state = NewMysqld w, jb_pc = (\<lambda>_. NoJob)\<rparr>"

inductive jobs_reach :: "'w mysqldenv \<Rightarrow> 'w \<Rightarrow> 'w jobs \<Rightarrow> bool" for E w where
  start: "jobs_reach E w (jobs_start w)"
| step: "jobs_reach E w j \<Longrightarrow> job_step E j j' \<Longrightarrow> jobs_reach E w j'"

inductive_cases job_stepE: "job_step E j j'"


subsection \<open>What each part does to the status\<close>

lemmas status_defs = on_sys_def on_backup_def on_stats_def Backup_setStatus_def setLastError_def
  setLastCMD_def IncBackups_def IncBackupErrs_def IncCancels_def IncApplyLogs_def IncApplyLogErrs_def
  job_failed_def

lemma tunnel_keeps: "backup_status (exec_of (backup_tunnel E req) s) = backup_status s"
  by (simp add: backup_tunnel_def checkSSHTunnelWithPass_def checkSSHTunnelWithKey_def status_defs case_prod_beta)

lemma begin_status:
  "run_state (backup_begin E req key) s = (e, t) \<Longrightarrow>
   backup_status t = (if e = None then MYSQLD_BACKUPING else MYSQLD_BACKUPNONE)"
  by (auto simp: backup_begin_def status_defs case_prod_beta Let_def split: option.splits)

lemma apply_status:
  "run_state (applylog_begin E req) s = (e, t) \<Longrightarrow>
   backup_status t = (if e = None then MYSQLD_APPLYLOGGING else MYSQLD_BACKUPNONE)"
  by (auto simp: applylog_begin_def status_defs case_prod_beta split: option.splits)

lemma end_status:
  assumes "\<And>s. backup_status (exec_of bad s) = backup_status s" "\<And>s. backup_status (exec_of good s) = backup_status s"
  shows "backup_status (exec_of (job_end E bad good) s) = MYSQLD_BACKUPNONE"
  using assms by (simp add: job_end_def status_defs case_prod_beta split: option.split)

lemma backup_end_status [simp]:
  "backup_status (exec_of (job_end E IncBackupErrs IncBackups) s) = MYSQLD_BACKUPNONE"
  by (rule end_status) (simp_all add: status_defs)

lemma apply_end_status [simp]:
  "backup_status (exec_of (job_end E IncApplyLogErrs IncApplyLogs) s) = MYSQLD_BACKUPNONE"
  by (rule end_status) (simp_all add: status_defs)

lemma cancel_status [simp]: "backup_status (exec_of (Backup_Cancel E) s) = MYSQLD_BACKUPCANCELED"
  by (simp add: Backup_Cancel_def status_defs)

lemma side_status [simp]: "backup_status (exec_of (side_run E r) s) = backup_status s"
  by (cases r)
    (simp_all add: StartMysqld_def StopMysqld_def KillMysqld_def monitor_def MonitorStart_def MonitorStop_def
      isMysqldRunning_def limited_def Mysqld_setStatus_def IncMysqldStarts_def IncMysqldStops_def
      IncMonitorStarts_def IncMonitorStops_def on_sys_def case_prod_beta run_or_err split: option.split)


subsection \<open>The status never claims a job that is not there\<close>

primrec claims :: "MYSQLD_STATUS \<Rightarrow> (nat \<Rightarrow> job_pc) \<Rightarrow> bool" where
  "claims MYSQLD_BACKUPNONE pc = True"
| "claims MYSQLD_BACKUPCANCELED pc = True"
| "claims MYSQLD_BACKUPING pc = (\<exists>i. pc i = BackupRunning)"
| "claims MYSQLD_APPLYLOGGING pc = (\<exists>i. pc i = ApplyRunning)"
| "claims MYSQLD_SHUTDOWNING pc = False"
| "claims MYSQLD_ISRUNNING pc = False"
| "claims MYSQLD_NOTRUNNING pc = False"
| "claims MYSQLD_UNKNOWN pc = False"

definition honest :: "'w jobs \<Rightarrow> bool" where
  "honest j \<longleftrightarrow> claims (backup_status (jb_state j)) (jb_pc j)"

lemma honest_jump_iff: "honest (jump j i p s) \<longleftrightarrow> claims (backup_status s) ((jb_pc j)(i := p))"
  by (simp add: honest_def jump_def)

lemma exists_elsewhere: "\<exists>k. pc k = q \<Longrightarrow> pc i \<noteq> q \<Longrightarrow> \<exists>k. (pc(i := p)) k = q"
  by (metis fun_upd_other)

text \<open>A job that was not running its command leaves the ones that are where they are.\<close>

lemma claims_move:
  "claims st pc \<Longrightarrow> pc i \<noteq> BackupRunning \<Longrightarrow> pc i \<noteq> ApplyRunning \<Longrightarrow> claims st (pc(i := p))"
  using exists_elsewhere [of pc _ i p] by (cases st) (simp_all only: claims.simps)

lemma honest_jump:
  assumes "honest j" and "jb_pc j i \<noteq> BackupRunning" "jb_pc j i \<noteq> ApplyRunning"
    and "backup_status s = backup_status (jb_state j)"
  shows "honest (jump j i p s)"
  using assms claims_move [of "backup_status (jb_state j)" "jb_pc j" i p] unfolding honest_jump_iff unfolding honest_def by simp

lemma claims_begun [simp]:
  "claims MYSQLD_BACKUPING (pc(i := BackupRunning))" "claims MYSQLD_APPLYLOGGING (pc(i := ApplyRunning))"
  by (auto intro: exI [of _ i])

lemma honest_step: "job_step E j j' \<Longrightarrow> honest j \<Longrightarrow> honest j'"
proof (induction rule: job_step.induct)
  case (backup_tunnel j i req key e s)
  then show ?case
    using tunnel_keeps [of E req "jb_state j"] by (intro honest_jump) simp_all
next
  case (backup_begin j i req key e s)
  then show ?case
    using begin_status [OF backup_begin(2)] by (cases e) (auto simp: honest_jump_iff intro: exI [of _ i])
next
  case (log_begin j i req e s)
  then show ?case
    using apply_status [OF log_begin(2)] by (cases e) (auto simp: honest_jump_iff intro: exI [of _ i])
next
  case (backup_check j i req)
  then show ?case by (intro honest_jump) simp_all
next
  case (log_check j i req)
  then show ?case by (intro honest_jump) simp_all
next
  case (backup_end j i)
  show ?case by (simp add: honest_jump_iff)
next
  case (log_end j i)
  show ?case by (simp add: honest_jump_iff)
qed (simp_all add: honest_def)

lemma claims_job: "claims st pc \<Longrightarrow> st \<in> {MYSQLD_BACKUPNONE, MYSQLD_BACKUPCANCELED} \<or> (\<exists>i. pc i \<noteq> NoJob)"
  by (cases st) (simp_all, (metis job_pc.distinct)+)

lemma honest_reach: "jobs_reach E w j \<Longrightarrow> honest j"
  by (induction rule: jobs_reach.induct) (simp add: honest_def jobs_start_def NewMysqld_def, rule honest_step)

text \<open>
  C22. In every reachable state, whatever the order of backups, log
  applications, cancellations and monitor ticks: the status BACKUPING is reported only while some
  backup command is running, APPLYLOGGING only while some apply-log command is; with no job left
  the status is NONE or CANCELED, so a new backup is never refused for a job that is gone.
\<close>

theorem backup_status_honest:
  assumes "jobs_reach E w j"
  shows "(backup_status (jb_state j) = MYSQLD_BACKUPING \<longrightarrow> (\<exists>i. jb_pc j i = BackupRunning)) \<and>
    (backup_status (jb_state j) = MYSQLD_APPLYLOGGING \<longrightarrow> (\<exists>i. jb_pc j i = ApplyRunning)) \<and>
    ((\<forall>i. jb_pc j i = NoJob) \<longrightarrow>
       backup_status (jb_state j) = MYSQLD_BACKUPNONE \<or> backup_status (jb_state j) = MYSQLD_BACKUPCANCELED)"
proof -
  have "claims (backup_status (jb_state j)) (jb_pc j)"
    using honest_reach [OF assms] by (simp add: honest_def)
  then show ?thesis using claims_job [of "backup_status (jb_state j)" "jb_pc j"] by auto
qed


subsection \<open>The status is no lock\<close>

text \<open>A machine on which every command succeeds.\<close>

definition calm_command :: "unit command_ops" where
  "calm_command = \<lparr>cmd_Run = (\<lambda>_ _. ret None), cmd_Scan = (\<lambda>_ _. ret None), cmd_Kill = ret None,
     cmd_RunCommand = (\<lambda>_ _. ret (''0'', None)), cmd_RunCommandWithTimeout = (\<lambda>_ _ _. ret ([], None))\<rparr>"

definition calm_mysqld :: "unit mysqldenv" where
  "calm_mysqld = \<lparr>me_cmd = calm_command, me_backup_cmd = calm_command,
     me_args = NewLinuxArgs DefaultBackupConfig, me_conf = DefaultBackupConfig, me_now = (\<lambda>_. 0),
     me_duration = (\<lambda>_. []), me_ticker_start = (\<lambda>_. ret ()), me_ticker_stop = ret ()\<rparr>"

lemma calm_tunnel: "val_of (backup_tunnel calm_mysqld req) s = (False, None)"
  by (simp add: backup_tunnel_def checkSSHTunnelWithPass_def calm_mysqld_def calm_command_def on_sys_def)

lemma calm_begin: "val_of (backup_begin calm_mysqld req key) s = None"
  by (simp add: backup_begin_def calm_mysqld_def calm_command_def on_sys_def on_backup_def on_stats_def
      Backup_setStatus_def setLastCMD_def Let_def)

lemma reach_tunnel:
  assumes "jobs_reach E w j" "jb_pc j i = BackupChecked req" "val_of (backup_tunnel E req) (jb_state j) = (key, None)"
  shows "jobs_reach E w (jump j i (BackupTunnelled req key) (exec_of (backup_tunnel E req) (jb_state j)))"
  using jobs_reach.step [OF assms(1) job_step.backup_tunnel [OF assms(2), where key = key and e = None]] assms(3)
  by (simp add: prod_eq_iff)

lemma reach_begin:
  assumes "jobs_reach E w j" "jb_pc j i = BackupTunnelled req key" "val_of (backup_begin E req key) (jb_state j) = None"
  shows "jobs_reach E w (jump j i BackupRunning (exec_of (backup_begin E req key) (jb_state j)))"
  using jobs_reach.step [OF assms(1) job_step.backup_begin [OF assms(2), where e = None]] assms(3)
  by (simp add: prod_eq_iff)

lemma calm_checked:
  "jobs_reach calm_mysqld () (jump (jump (jobs_start ()) 0 (BackupChecked req) (NewMysqld ()))
     1 (BackupChecked req) (NewMysqld ()))" (is "jobs_reach _ _ (jump ?j 1 _ _)")
proof -
  have one: "jobs_reach calm_mysqld () ?j"
    using jobs_reach.step [OF jobs_reach.start job_step.backup_check [of "jobs_start ()" 0]]
    by (simp add: jobs_start_def NewMysqld_def)
  show ?thesis
    using jobs_reach.step [OF one job_step.backup_check [of ?j 1]]
    by (simp add: jobs_start_def NewMysqld_def)
qed

text \<open>The first of two backups in a run where both passed the check before either began.\<close>

definition one_begun :: "BackupRPCRequest \<Rightarrow> unit jobs" where
  "one_begun req = (let
       j2 = jump (jump (jobs_start ()) 0 (BackupChecked req) (NewMysqld ())) 1 (BackupChecked req) (NewMysqld ());
       j3 = jump j2 0 (BackupTunnelled req False) (exec_of (backup_tunnel calm_mysqld req) (jb_state j2));
       j4 = jump j3 1 (BackupTunnelled req False) (exec_of (backup_tunnel calm_mysqld req) (jb_state j3))
     in jump j4 0 BackupRunning (exec_of (backup_begin calm_mysqld req False) (jb_state j4)))"

lemma reach_one_begun: "jobs_reach calm_mysqld () (one_begun req)"
  unfolding one_begun_def Let_def
  by (intro reach_begin reach_tunnel calm_checked calm_tunnel calm_begin) simp_all

lemma one_begun_status: "backup_status (jb_state (one_begun req)) = MYSQLD_BACKUPING"
  by (simp add: one_begun_def Let_def begin_status [OF surjective_pairing, of calm_mysqld] calm_begin)

theorem backup_status_honest_witness:
  "backup_status (jb_state (one_begun NewBackupRPCRequest)) = MYSQLD_BACKUPING \<and>
   (\<exists>i. jb_pc (one_begun NewBackupRPCRequest) i = BackupRunning)"
  using backup_status_honest [OF reach_one_begun [of NewBackupRPCRequest]]
  by (simp add: one_begun_status)

text \<open>
  The status does not keep two backups apart: it is set only after the ssh
  tunnel has been checked, so two requests can pass the check and both run, on one command handler,
  where the second command takes the place of the first.
\<close>

lemma two_backups_at_once:
  "\<exists>j. jobs_reach calm_mysqld () j \<and> jb_pc j 0 = BackupRunning \<and> jb_pc j 1 = BackupRunning"
proof -
  let ?j = "one_begun NewBackupRPCRequest"
  let ?j' = "jump ?j 1 BackupRunning (exec_of (backup_begin calm_mysqld NewBackupRPCRequest False) (jb_state ?j))"
  have pcs: "jb_pc ?j 1 = BackupTunnelled NewBackupRPCRequest False" "jb_pc ?j 0 = BackupRunning"
    by (simp_all add: one_begun_def Let_def)
  have "jobs_reach calm_mysqld () ?j'"
    by (rule reach_begin [OF reach_one_begun pcs(1) calm_begin])
  moreover have "jb_pc ?j' 0 = BackupRunning" "jb_pc ?j' 1 = BackupRunning"
    using pcs(2) by simp_all
  ultimately show ?thesis by (intro exI [of _ ?j'] conjI)
qed

text \<open>The errors of backups are recorded, and never reported.\<close>

lemma last_error_not_reported:
  "map_option bs_LastError (mds_BackupStats (val_of (MysqldRPC_Status E) s)) = Some []"
  by (simp add: MysqldRPC_Status_def Backup_getStats_def zero_BackupStats_def Let_def)

text \<open>When \<open>ps\<close> fails, mysqld counts as not running: the monitor starts it once more.\<close>

lemma failed_ps_is_not_running:
  assumes "val_of (cmd_RunCommand (me_cmd E) bash (ah_IsRunning (me_args E))) (md_world s) = (outs, Some err)"
  shows "val_of (MysqldRPC_IsRunning E) s = ErrorMysqldNotRunning"
  using assms by (simp add: MysqldRPC_IsRunning_def isMysqldRunning_def on_sys_def)

end
