(* ===== verification/Server.thy ===== *)
theory Server
  imports Services HaNode MysqldJobs
begin

section \<open>The server: selection of the parts, start and shutdown (internal/server)\<close>

text \<open>
  server.go, cmd/neoha/main.go, election.go, database.go, coordination/wire/factory.go. From the
  configuration: the database engine, the kind of election, the coordinator, the options of the
  reconciler, the RPC services. The life cycle is written over the parts made, a record of operations
  with an instance for Raft and MySQL (Raft with the MySQL handle in it), for etcd and MySQL and for
  etcd and PostgreSQL. A panic is \<open>Some\<close> error.
\<close>

subsection \<open>Roles\<close>

datatype ServerState = ServerLeader | ServerFollower | ServerIdle | ServerLearner | ServerUnknown

definition getServerState :: "string \<Rightarrow> ServerState" where
  "getServerState role =
     (if role = ''LEADER'' then ServerLeader
      else if role = ''FOLLOWER'' then ServerFollower
      else if role = ''IDLE'' then ServerIdle
      else if role = [] then ServerLearner
      else ServerUnknown)"

primrec getRaftInitState :: "ServerState \<Rightarrow> State" where
  "getRaftInitState ServerLeader = LEADER"
| "getRaftInitState ServerFollower = FOLLOWER"
| "getRaftInitState ServerIdle = IDLE"
| "getRaftInitState ServerLearner = LEARNER"
| "getRaftInitState ServerUnknown = UNKNOWN"

text \<open>The usage text knows no fourth role: without one Raft is given LEARNER, and starts as FOLLOWER.\<close>

lemma no_role_follows:
  assumes "r_initRole r = getRaftInitState (getServerState [])" "\<not> rc_SuperIDLE (r_conf r)"
  shows "r_state (exec_of Raft_Start r) = FOLLOWER"
  using assms by (simp add: getServerState_def Raft_Start_def Raft_setState_def Raft_setLeader_def)


subsection \<open>Engine, election, coordinator\<close>

definition database_type :: "Config \<Rightarrow> string" where
  "database_type conf = Type (the (Database conf))"

definition server_engine :: "Config \<Rightarrow> int" where
  "server_engine conf = (if database_type conf = ''postgresql'' then EnginePostgreSQL else EngineMySQL)"

datatype ElectionType = ElectionRaft | ElectionEtcd

definition provider_of :: "Config option \<Rightarrow> string" where
  "provider_of conf = Provider (EffectiveCoordination conf)"

text \<open>The kind of election, or the panic.\<close>

definition NewElection :: "Config \<Rightarrow> ElectionType option res" where
  "NewElection conf =
     (if provider_of (Some conf) = ''raft'' then (Some ElectionRaft, None)
      else if provider_of (Some conf) = ''etcd'' then (Some ElectionEtcd, None)
      else (None, Some (GoErr ''unsupported election type'')))"

definition Election_Provider :: "Config option \<Rightarrow> string" where
  "Election_Provider conf = (if conf = None then [] else provider_of conf)"

datatype 'w coordinator = RaftCoordinator adapter | EtcdCoordinator "'w etcdc"

text \<open>\<open>raft\<close> says whether the election has a Raft; \<open>w\<close> is the world of an etcd client.\<close>

definition NewCoordinator :: "Config option \<Rightarrow> bool \<Rightarrow> 'w \<Rightarrow> 'w coordinator option res" where
  "NewCoordinator conf raft w = (case conf of
       None \<Rightarrow> (None, Some (GoErr ''config is nil''))
     | Some cf \<Rightarrow>
       (let provider = provider_of conf in
        if provider = ''raft'' then
          (if \<not> raft then (None, Some (GoErr ''raft coordinator requires *raft.Raft''))
           else (Some (RaftCoordinator \<lparr>localID = Endpoint cf, memberName = cf_Name cf,
                   dbType = database_type cf\<rparr>), None))
        else if provider = ''etcd'' then (map_option EtcdCoordinator (etcd_New conf w), None)
        else if provider \<in> {''consul'', ''kubernetes'', ''zookeeper''} then (None, Some ErrProviderNotImplemented)
        else (None, Some (GoErr (''unsupported coordination provider '' @ quote provider)))))"

text \<open>What the reconciler is given: hooks, interval, whether it applies the role, the port.\<close>

definition server_hooks :: "Config \<Rightarrow> ServerState \<Rightarrow> PrimaryHooks" where
  "server_hooks conf st = (let p = EffectivePrimaryHooks (Some conf);
       h = NewPrimaryHooks (OnPrimaryStart p) (OnPrimaryStop p)
     in if st = ServerLeader then h\<lparr>skipStartOnce := True\<rparr> else h)"

definition ha_options :: "Config \<Rightarrow> ServerState \<Rightarrow> option_arg list" where
  "ha_options conf st =
     [WithPrimaryHooks (Some (server_hooks conf st))] @
     (case HA conf of None \<Rightarrow> []
      | Some h \<Rightarrow>
          (if 0 < ReconcileInterval h then [WithInterval (wrap64 (ReconcileInterval h * 1000 * 1000 * 1000))] else []) @
          (if DelegateDBApply h then [WithApplyPromote True] else [])) @
     (case Option.bind (Database conf) db_Mysql of None \<Rightarrow> [] | Some m \<Rightarrow> [WithMySQLPort (mc_Port m)])"

text \<open>No coordinator, no reconciler: a warning only.\<close>

definition setupHA :: "Config \<Rightarrow> ServerState \<Rightarrow> bool \<Rightarrow> 'w \<Rightarrow> 's \<Rightarrow> ('w coordinator \<times> 's recon) option" where
  "setupHA conf st raft w sys = (case NewCoordinator (Some conf) raft w of
       (Some c, None) \<Rightarrow> Some (c, NewReconciler sys True (map_option Nofailover (Tags conf)) (ha_options conf st))
     | _ \<Rightarrow> None)"

text \<open>The services registered, in order.\<close>

definition server_services :: "bool \<Rightarrow> bool \<Rightarrow> bool \<Rightarrow> string list" where
  "server_services raft mysqld mysql = [''NodeRPC'', ''ServerRPC'', ''UserRPC''] @
     (if raft then [''HARPC'', ''RaftRPC''] else []) @
     (if mysqld then [''MysqldRPC'', ''BackupRPC''] else []) @
     (if mysql then [''MysqlRPC''] else [])"


subsection \<open>NewServer\<close>

text \<open>The database made, for the engine of the server; a missing section is a nil pointer.\<close>

datatype database = DbMysql MysqlConfig | DbPostgresql PostgresqlConfig

definition NewDatabase :: "DatabaseConfig \<Rightarrow> int \<Rightarrow> database option res" where
  "NewDatabase conf engine =
     (if engine = EngineMySQL then
        (case db_Mysql conf of None \<Rightarrow> (None, Some nil_deref) | Some m \<Rightarrow> (Some (DbMysql m), None))
      else if engine = EnginePostgreSQL then
        (case db_Postgresql conf of None \<Rightarrow> (None, Some nil_deref) | Some p \<Rightarrow> (Some (DbPostgresql p), None))
      else (None, Some (GoErr ''unsupported database'')))"

record made =
  ma_db :: database
  ma_queryTimeout :: int
  ma_election :: ElectionType
  ma_role :: State
  ma_rpc :: string

text \<open>
  The panics of making a server. Raft reads the replication mode of the MySQL section whatever the
  engine is, and the query timeout is the election timeout of Raft whatever the provider is.
\<close>

definition NewServer :: "Config \<Rightarrow> ServerState \<Rightarrow> made option res" where
  "NewServer conf st = (case (Database conf, Option.bind (Election conf) el_Raft) of
       (Some db, Some raft) \<Rightarrow>
         (case NewDatabase db (server_engine conf) of
            (None, e) \<Rightarrow> (None, e)
          | (Some d, _) \<Rightarrow>
              (case NewElection conf of
                 (None, e) \<Rightarrow> (None, e)
               | (Some el, _) \<Rightarrow>
                   if el = ElectionRaft \<and> db_Mysql db = None then (None, Some nil_deref)
                   else (Some \<lparr>ma_db = d, ma_queryTimeout = rc_ElectionTimeout raft, ma_election = el,
                     ma_role = getRaftInitState st, ma_rpc = Endpoint conf\<rparr>, None)))
     | _ \<Rightarrow> (None, Some nil_deref))"


subsection \<open>Life cycle\<close>

text \<open>
  The parts that \<open>NewServer\<close> and \<open>setupHA\<close> have made, as operations on their common state: the
  database driver, the election, the coordinator if there is one.
\<close>

record 's parts =
  pa_engine :: int
  pa_raft :: bool
  pa_setup :: "('s, gerror option) state"
  pa_db_start :: "('s, unit) state"
  pa_db_stop :: "('s, unit) state"
  pa_election_start :: "('s, gerror option) state"
  pa_election_stop :: "('s, unit) state"
  pa_coord :: "(('s, gerror option) state \<times> ('s, gerror option) state) option"

record ('s, 'm) server =
  se_sys :: 's
  se_mysqld :: "'m mysqldc"
  se_registered :: "string list"
  se_pinging :: bool
  se_looping :: bool
  se_serving :: bool

type_synonym ('s, 'm, 'a) srv = "(('s, 'm) server, 'a) state"

record ('s, 'm) server_env =
  sx_parts :: "'s parts"
  sx_mysqld :: "'m mysqldenv"
  sx_monitorDisabled :: bool
  sx_register :: "string \<Rightarrow> gerror option"
  sx_rpc_start :: "gerror option"
  sx_reconciler :: bool

definition on_mysqld :: "('m, 'a) myst \<Rightarrow> ('s, 'm, 'a) srv" where
  "on_mysqld k = zoom se_mysqld (\<lambda>m s. s\<lparr>se_mysqld := m\<rparr>) k"

definition on_parts :: "('s, 'a) state \<Rightarrow> ('s, 'm, 'a) srv" where
  "on_parts k = zoom se_sys (\<lambda>n s. s\<lparr>se_sys := n\<rparr>) k"

text \<open>An error of the bootstrap is logged.\<close>

definition Database_SetupDB :: "('s, 'm) server_env \<Rightarrow> ('s, 'm, unit) srv" where
  "Database_SetupDB X = call (on_parts (pa_setup (sx_parts X)))"

text \<open>Only MySQL is pinged.\<close>

definition Database_Start :: "('s, 'm) server_env \<Rightarrow> ('s, 'm, unit) srv" where
  "Database_Start X = do {
     on_parts (pa_db_start (sx_parts X));
     modify (\<lambda>s. s\<lparr>se_pinging := (pa_engine (sx_parts X) = EngineMySQL)\<rparr>) }"

definition Database_Stop :: "('s, 'm) server_env \<Rightarrow> ('s, 'm, unit) srv" where
  "Database_Stop X = do {
     on_parts (pa_db_stop (sx_parts X));
     modify (\<lambda>s. s\<lparr>se_pinging := False\<rparr>) }"

definition Election_Start :: "('s, 'm) server_env \<Rightarrow> ('s, 'm, gerror option) srv" where
  "Election_Start X = do {
     e \<leftarrow> on_parts (pa_election_start (sx_parts X));
     ret (if e = None then None else Some (GoErr ''election.raft.start.error'')) }"

text \<open>The loop of Raft's states ends before \<open>Stop\<close> returns.\<close>

definition Election_Stop :: "('s, 'm) server_env \<Rightarrow> ('s, 'm, unit) srv" where
  "Election_Stop X = on_parts (pa_election_stop (sx_parts X))"

definition register :: "('s, 'm) server_env \<Rightarrow> string \<Rightarrow> ('s, 'm, gerror option) srv" where
  "register X service = (case sx_register X service of
       Some err \<Rightarrow> ret (Some err)
     | None \<Rightarrow> do { modify (\<lambda>s. s\<lparr>se_registered := se_registered s @ [service]\<rparr>); ret None })"

definition setupRPC :: "('s, 'm) server_env \<Rightarrow> ('s, 'm, gerror option) srv" where
  "setupRPC X = (let mysql = (pa_engine (sx_parts X) = EngineMySQL) in
     until_err (register X) (server_services (pa_raft (sx_parts X)) mysql mysql))"

definition Server_Init :: "('s, 'm) server_env \<Rightarrow> ('s, 'm, gerror option) srv" where
  "Server_Init X =
     or_err (on_mysqld (SetupManager (sx_mysqld X) (sx_monitorDisabled X) (pa_engine (sx_parts X)))) (do {
       Database_SetupDB X;
       setupRPC X })"

text \<open>The error of a start is a warning.\<close>

definition coord_start :: "('s, 'm) server_env \<Rightarrow> ('s, 'm, unit) srv" where
  "coord_start X = (case pa_coord (sx_parts X) of None \<Rightarrow> ret () | Some (start, stop) \<Rightarrow> call (on_parts start))"

definition coord_stop :: "('s, 'm) server_env \<Rightarrow> ('s, 'm, unit) srv" where
  "coord_stop X = (case pa_coord (sx_parts X) of None \<Rightarrow> ret () | Some (start, stop) \<Rightarrow> call (on_parts stop))"

text \<open>A panic is recovered: what follows it is left out, and the process goes on.\<close>

definition Server_Start :: "('s, 'm) server_env \<Rightarrow> ('s, 'm, unit) srv" where
  "Server_Start X = call (
     or_err (on_mysqld (Manager_Start (sx_mysqld X) (sx_monitorDisabled X) (pa_engine (sx_parts X)))) (do {
       Database_Start X;
       or_err (Election_Start X) (do {
         coord_start X;
         modify (\<lambda>s. s\<lparr>se_looping := sx_reconciler X\<rparr>);
         (case sx_rpc_start X of
            Some err \<Rightarrow> ret (Some err)
          | None \<Rightarrow> do { modify (\<lambda>s. s\<lparr>se_serving := True\<rparr>); ret None }) }) }))"

definition Server_Shutdown :: "('s, 'm) server_env \<Rightarrow> ('s, 'm, unit) srv" where
  "Server_Shutdown X = do {
     modify (\<lambda>s. s\<lparr>se_looping := False\<rparr>);
     coord_stop X;
     modify (\<lambda>s. s\<lparr>se_serving := False\<rparr>);
     Election_Stop X;
     Database_Stop X;
     call (on_mysqld (Manager_Stop (sx_mysqld X) (pa_engine (sx_parts X)))) }"

text \<open>\<open>Wait\<close>: the first of the signals it listens for ends it.\<close>

datatype os_signal = SIGINT | SIGTERM | SIGHUP | OtherSignal

definition Server_Wait :: "('s, 'm) server_env \<Rightarrow> os_signal list \<Rightarrow> ('s, 'm, bool) srv" where
  "Server_Wait X sigs = (if \<exists>g \<in> set sigs. g \<in> {SIGINT, SIGTERM, SIGHUP}
     then do { Server_Shutdown X; ret True } else ret False)"

definition Server_Address :: "Config \<Rightarrow> string" where
  "Server_Address conf = Endpoint conf"

definition Server_PeerAddress :: "Config \<Rightarrow> string" where
  "Server_PeerAddress conf = PeerAddress conf"

lemma run_server [simp]:
  "run_state (on_mysqld k) s = (val_of k (se_mysqld s), s\<lparr>se_mysqld := exec_of k (se_mysqld s)\<rparr>)"
  "run_state (on_parts m) s = (val_of m (se_sys s), s\<lparr>se_sys := exec_of m (se_sys s)\<rparr>)"
  by (simp_all add: on_mysqld_def on_parts_def)


subsection \<open>The parts: Raft, etcd, MySQL, PostgreSQL\<close>

definition on_handle :: "('w mysql, 'a) state \<Rightarrow> ('w node, 'a) state" where
  "on_handle k = on_raft (on_mysql k)"

text \<open>Raft with the MySQL handle in it. The adapter's own start and stop do nothing.\<close>

definition raft_mysql :: "'w dbenv \<Rightarrow> MysqlConfig \<Rightarrow> nat \<Rightarrow> 'w node parts" where
  "raft_mysql E c rounds = \<lparr>pa_engine = EngineMySQL, pa_raft = True,
     pa_setup = on_handle (Driver_SetupBootstrap E c rounds None),
     pa_db_start = on_handle (PingStart E), pa_db_stop = ret (),
     pa_election_start = do { modify (\<lambda>n. node_start E (n_raft n)); ret None },
     pa_election_stop = modify (node_step E EvStop),
     pa_coord = Some (ret None, ret None)\<rparr>"

text \<open>With etcd the election does nothing, the coordinator is started and stopped.\<close>

definition etcd_mysql :: "'e etcd_ops \<Rightarrow> member_codec \<Rightarrow> 'w dbenv \<Rightarrow> MysqlConfig \<Rightarrow> nat \<Rightarrow>
    ('e etcdc, 'w mysql) node_sys parts" where
  "etcd_mysql Q J E c rounds = \<lparr>pa_engine = EngineMySQL, pa_raft = False,
     pa_setup = on_db (Driver_SetupBootstrap E c rounds None),
     pa_db_start = on_db (PingStart E), pa_db_stop = ret (),
     pa_election_start = ret None, pa_election_stop = ret (),
     pa_coord = Some (on_coord (etcd_Start Q J None), on_coord (etcd_Stop Q))\<rparr>"

definition etcd_postgresql :: "'e etcd_ops \<Rightarrow> member_codec \<Rightarrow> 'w pgenv \<Rightarrow> ('e etcdc, 'w pgsql) node_sys parts" where
  "etcd_postgresql Q J E = \<lparr>pa_engine = EnginePostgreSQL, pa_raft = False,
     pa_setup = on_db (pg_SetupBootstrap E None),
     pa_db_start = on_db pg_Start, pa_db_stop = on_db (pg_Stop E),
     pa_election_start = ret None, pa_election_stop = ret (),
     pa_coord = Some (on_coord (etcd_Start Q J None), on_coord (etcd_Stop Q))\<rparr>"


subsection \<open>What validation promises the start-up\<close>

lemma provider_spelled:
  assumes "Validate c = (None, c')" and "provider_of (Some c') = to_lower (trim_space (provider_of (Some c')))"
  shows "provider_of (Some c') \<in> {''raft'', ''etcd''} \<and> (\<exists>db. Database c' = Some db)"
proof -
  have "usable c'" using assms(1) Validated_usable by blast
  then show ?thesis using assms(2) by (auto simp: usable_def provider_of_def Let_def)
qed

text \<open>The sections that \<open>NewServer\<close> reads besides those that validation asks for.\<close>

definition has_start_sections :: "Config \<Rightarrow> bool" where
  "has_start_sections c \<longleftrightarrow> Option.bind (Election c) el_Raft \<noteq> None \<and>
     (Option.bind (Database c) db_Mysql \<noteq> None \<or>
      provider_of (Some c) = ''etcd'' \<and> database_type c = ''postgresql'')"

lemma validated_database:
  assumes "Validate c = (None, c')" "Database c' = Some db" "database_type c' = ''postgresql''"
  shows "db_Postgresql db \<noteq> None"
proof -
  have "usable c'" using assms(1) Validated_usable by blast
  then show ?thesis
    using assms(2,3) by (auto simp: usable_def Let_def database_type_def
        to_lower_def lower_char_def trim_space_def is_space_def split: if_splits)
qed



text \<open>
  Validation asks for no Raft section with the etcd provider; \<open>NewServer\<close> reads its election timeout.
\<close>

definition etcd_only :: Config where
  "etcd_only = DefaultConfig\<lparr>
     Coordination := Some \<lparr>Provider = ''etcd'', co_Raft = None,
       co_Etcd = Some (DefaultEtcdConfig\<lparr>ec_Host := ''etcd:2379''\<rparr>)\<rparr>,
     Election := map_option (\<lambda>e. e\<lparr>el_Raft := None\<rparr>) (Election DefaultConfig)\<rparr>"

lemma etcd_needs_raft_section:
  "fst (Validate etcd_only) = None" "NewServer (snd (Validate etcd_only)) ServerFollower = (None, Some nil_deref)"
  by code_simp+

text \<open>
  Validation lowers the spelling before it compares, the start-up does not: a configuration with
  provider \<open>Raft\<close> is accepted and panics, one with database type \<open>postgres\<close> is accepted, for its
  PostgreSQL section, and run as MySQL.
\<close>

definition spelled :: "string \<Rightarrow> string \<Rightarrow> Config" where
  "spelled provider db = DefaultConfig\<lparr>
     Coordination := map_option (\<lambda>c. c\<lparr>Provider := provider\<rparr>) (Coordination DefaultConfig),
     Database := map_option (\<lambda>d. d\<lparr>Type := db\<rparr>) (Database DefaultConfig)\<rparr>"

lemma accepted_and_panics:
  "fst (Validate (spelled ''Raft'' ''mysql'')) = None"
  "NewElection (snd (Validate (spelled ''Raft'' ''mysql''))) = (None, Some (GoErr ''unsupported election type''))"
  by code_simp+

lemma accepted_and_mistaken:
  "fst (Validate (spelled ''raft'' ''postgres'')) = None"
  "server_engine (snd (Validate (spelled ''raft'' ''postgres''))) = EngineMySQL"
  by code_simp+


subsection \<open>Shutting down the leader\<close>

definition server_raft :: "('w node, 'm) server \<Rightarrow> 'w raft" where
  "server_raft s = n_raft (se_sys s)"

lemmas shutdown_defs = Server_Shutdown_def coord_stop_def Election_Stop_def Database_Stop_def

lemma leader_exit_mysql:
  assumes "\<not> L_isDegradeToFollower r" "r_jobs r = []"
  shows "r_mysql (exec_of (Leader_stateExit E) r) =
    (if r_delegateDBApply r then r_mysql r
     else if r_hasDriver r then exec_of (Driver_Demote E None) (r_mysql r)
     else exec_of (Mysql_SetReadOnly E) (r_mysql r))"
  using assms
  by (simp add: Leader_stateExit_def demoteReadOnly_def run_on_mysql purgeBinlogStop_def checkSemiSyncStop_def
      checkGTIDStop_def case_prod_beta)

lemma stop_leader:
  assumes "n_loop n = InLeader v" "r_state (n_raft n) = LEADER"
  shows "node_step E EvStop n =
    (let r = exec_of (Leader_stateExit E) (exec_of Raft_Stop (n_raft n));
         (l, r') = run_state (loop_enter E (r_state r)) r
     in \<lparr>n_raft = r', n_loop = l\<rparr>)"
  using assms
  by (simp add: node_step_def loop_event_def outside_event_def settle_raft_def loop_exit_def Raft_getState_def
      Raft_Stop_def Raft_setState_def Raft_setLeader_def Let_def case_prod_beta)

lemma leader_exit_state:
  assumes "r_jobs r = []"
  shows "r_state (exec_of (Leader_stateExit E) r) = r_state r"
  using assms
  by (simp add: Leader_stateExit_def demoteReadOnly_def run_on_mysql purgeBinlogStop_def checkSemiSyncStop_def
      checkGTIDStop_def case_prod_beta)

text \<open>
  C19. Shutting down a server whose Raft leads and has no leader job left to
  finish: the loop of the reconciler, the RPC service and the pings are off and Raft is stopped.
  Where Raft applies the role itself, MySQL is demoted, so unless that fails it is read-only. Where
  that is delegated to the reconciler nobody does: MySQL is as it was, open for writes if it was.
\<close>

theorem shutdown_of_leader:
  fixes s :: "('w node, 'm) server" and X :: "('w node, 'm) server_env"
  assumes "sx_parts X = raft_mysql E conf rounds"
    and "n_loop (se_sys s) = InLeader v" "r_state (server_raft s) = LEADER"
    and "\<not> L_isDegradeToFollower (server_raft s)" "r_jobs (server_raft s) = []"
  defines "s' \<equiv> exec_of (Server_Shutdown X) s"
  shows "\<not> se_looping s' \<and> \<not> se_serving s' \<and> \<not> se_pinging s' \<and> n_loop (se_sys s') = Stopped \<and>
    (if r_delegateDBApply (server_raft s) then r_mysql (server_raft s') = r_mysql (server_raft s)
     else r_hasDriver (server_raft s) \<longrightarrow> val_of (Driver_Demote E None) (r_mysql (server_raft s)) = None \<longrightarrow>
       \<not> raft_open (server_raft s'))"
proof -
  let ?r = "(server_raft s)\<lparr>r_leader := noLeader, r_state := STOPPED\<rparr>"
  have stopped: "exec_of Raft_Stop (server_raft s) = ?r"
    using assms(3) by (simp add: Raft_Stop_def Raft_getState_def Raft_setState_def Raft_setLeader_def)
  have st: "r_state (exec_of (Leader_stateExit E) ?r) = STOPPED"
    using leader_exit_state [of ?r E] assms(5) by simp
  have "node_step E EvStop (se_sys s) = \<lparr>n_raft = exec_of (Leader_stateExit E) ?r, n_loop = Stopped\<rparr>"
    using stop_leader [OF assms(2), of E] assms(3) stopped st
    by (simp add: server_raft_def loop_enter_def Let_def)
  then have node: "se_sys s' = \<lparr>n_raft = exec_of (Leader_stateExit E) ?r, n_loop = Stopped\<rparr>"
    by (simp add: s'_def shutdown_defs assms(1) raft_mysql_def)
  have mysql: "r_mysql (server_raft s') = (if r_delegateDBApply (server_raft s) then r_mysql (server_raft s)
      else if r_hasDriver (server_raft s) then exec_of (Driver_Demote E None) (r_mysql (server_raft s))
      else exec_of (Mysql_SetReadOnly E) (r_mysql (server_raft s)))"
    using leader_exit_mysql [of ?r E] assms(4,5) by (simp add: server_raft_def node)
  have "\<not> mysql_open (exec_of (Driver_Demote E None) m)" if "val_of (Driver_Demote E None) m = None" for m
    using mysql_driver.demote_closes [of E _ _ None m] that by (simp add: mysql_driver_ops_def)
  then show ?thesis
    using mysql node by (auto simp: raft_open_def s'_def shutdown_defs assms(1) raft_mysql_def)
qed

text \<open>A leader that delegates, with an open MySQL: it is stopped and leaves MySQL open.\<close>

definition delegating_leader :: "(unit node, unit) server" where
  "delegating_leader = \<lparr>se_sys = \<lparr>n_raft = (demo_raft ([''a:1'', ''b:1''], []))\<lparr>r_state := LEADER,
       r_delegateDBApply := True, r_mysql := (NewMysql conf0 1000 ())\<lparr>my_option := MysqlReadwrite\<rparr>\<rparr>,
       n_loop = InLeader \<lparr>incView = False, mysqlDown = False, ackGranted = 0, mgrCnt = 0, checkMGR = 0,
         lessHtAcks = 0, lessCmtHtAcks = 0\<rparr>\<rparr>,
     se_mysqld = NewMysqld (), se_registered = [], se_pinging = True, se_looping = True, se_serving = True\<rparr>"

definition demo_server_env :: "(unit node, unit) server_env" where
  "demo_server_env = \<lparr>sx_parts = raft_mysql too_many_env conf0 3, sx_mysqld = calm_mysqld, sx_monitorDisabled = False,
     sx_register = (\<lambda>_. None), sx_rpc_start = None, sx_reconciler = True\<rparr>"

lemma delegating_leader_leads:
  "n_loop (se_sys delegating_leader) = InLeader \<lparr>incView = False, mysqlDown = False, ackGranted = 0, mgrCnt = 0,
     checkMGR = 0, lessHtAcks = 0, lessCmtHtAcks = 0\<rparr>"
  "r_state (server_raft delegating_leader) = LEADER" "\<not> L_isDegradeToFollower (server_raft delegating_leader)"
  "r_jobs (server_raft delegating_leader) = []" "r_delegateDBApply (server_raft delegating_leader)"
  "raft_open (server_raft delegating_leader)"
  by (simp_all add: delegating_leader_def server_raft_def raft_open_def mysql_open_def demo_raft_def raft_on_def
      run_NewRaft raft0_def)

theorem shutdown_of_leader_witness:
  "n_loop (se_sys (exec_of (Server_Shutdown demo_server_env) delegating_leader)) = Stopped \<and>
   raft_open (server_raft (exec_of (Server_Shutdown demo_server_env) delegating_leader))"
proof -
  have "sx_parts demo_server_env = raft_mysql too_many_env conf0 3" by (simp add: demo_server_env_def)
  from shutdown_of_leader [OF this delegating_leader_leads(1-4)] show ?thesis
    using delegating_leader_leads(5,6) by (simp add: raft_open_def)
qed


subsection \<open>Shutting down with etcd\<close>

text \<open>
  What shutting down needs of the parts to leave the database as it is: the locale is met by both
  engines behind the etcd coordinator.
\<close>

locale leaves_open =
  fixes P :: "'s parts" and opened :: "'s \<Rightarrow> bool"
  assumes stop_keeps: "opened (exec_of (pa_db_stop P) s) = opened s"
    and election_keeps: "opened (exec_of (pa_election_stop P) s) = opened s"
    and coord_keeps: "pa_coord P = Some (start, stop) \<Longrightarrow> opened (exec_of stop s) = opened s"
begin

lemma shutdown_keeps:
  assumes "sx_parts X = P"
  shows "opened (se_sys (exec_of (Server_Shutdown X) h)) = opened (se_sys h) \<and>
    \<not> se_looping (exec_of (Server_Shutdown X) h) \<and> \<not> se_serving (exec_of (Server_Shutdown X) h)"
  using assms stop_keeps election_keeps coord_keeps
  by (cases "pa_coord P") (auto simp: shutdown_defs)

end

lemma etcd_stop_leads: "e_isLeader (exec_of (etcd_Stop Q) c) = e_isLeader c"
  by (simp add: etcd_Stop_def on_etcd_def Let_def case_prod_beta)

lemma pg_close_keeps: "px_writable (exec_of (pg_Close E) p) = px_writable p"
  by (auto simp: pg_Close_def split: option.split)

interpretation etcd_with_mysql: leaves_open "etcd_mysql Q J E c rounds"
    "\<lambda>n. e_isLeader (ns_coord n) \<and> mysql_open (ns_db n)" for Q J E c rounds
  by unfold_locales (auto simp: etcd_mysql_def etcd_stop_leads)

interpretation etcd_with_pg: leaves_open "etcd_postgresql Q J E"
    "\<lambda>n. e_isLeader (ns_coord n) \<and> px_writable (ns_db n)" for Q J E
  by unfold_locales (auto simp: etcd_postgresql_def etcd_stop_leads pg_Stop_def pg_close_keeps)

text \<open>
  A server with the etcd coordinator that is shut down while it leads
  with its database open for writes: the reconciler and the RPC service are off, and nobody has
  demoted the database, MySQL or PostgreSQL: it is still open, and the coordinator still calls
  itself the leader.
\<close>

lemma etcd_shutdown_leaves_open:
  fixes X :: "(('e etcdc, 'w mysql) node_sys, 'm) server_env" and Y :: "(('e etcdc, 'v pgsql) node_sys, 'm) server_env"
  assumes "sx_parts X = etcd_mysql Q J E c rounds" "e_isLeader (ns_coord (se_sys s))" "mysql_open (ns_db (se_sys s))"
    and "sx_parts Y = etcd_postgresql Q J F" "e_isLeader (ns_coord (se_sys t))" "px_writable (ns_db (se_sys t))"
  shows "let s' = exec_of (Server_Shutdown X) s; t' = exec_of (Server_Shutdown Y) t in
    \<not> se_looping s' \<and> \<not> se_serving s' \<and> e_isLeader (ns_coord (se_sys s')) \<and> mysql_open (ns_db (se_sys s')) \<and>
    \<not> se_looping t' \<and> \<not> se_serving t' \<and> e_isLeader (ns_coord (se_sys t')) \<and> px_writable (ns_db (se_sys t'))"
  using etcd_with_mysql.shutdown_keeps [OF assms(1), of s] etcd_with_pg.shutdown_keeps [OF assms(4), of t] assms(2,3,5,6)
  by (simp add: Let_def)

definition etcd_server_env :: "'s parts \<Rightarrow> ('s, unit) server_env" where
  "etcd_server_env P = \<lparr>sx_parts = P, sx_mysqld = calm_mysqld, sx_monitorDisabled = False,
     sx_register = (\<lambda>_. None), sx_rpc_start = None, sx_reconciler = True\<rparr>"

definition leading_host :: "'d \<Rightarrow> ((mem_store etcdc, 'd) node_sys, unit) server" where
  "leading_host d = \<lparr>se_sys = \<lparr>ns_coord = (demo_node 0)\<lparr>e_isLeader := True\<rparr>, ns_db = d\<rparr>, se_mysqld = NewMysqld (),
     se_registered = [], se_pinging = True, se_looping = True, se_serving = True\<rparr>"

lemma etcd_shutdown_leaves_open_example:
  "mysql_open (ns_db (se_sys (exec_of (Server_Shutdown (etcd_server_env (etcd_mysql mem_etcd demo_codec too_many_env conf0 3)))
     (leading_host ((NewMysql conf0 1000 ())\<lparr>my_option := MysqlReadwrite\<rparr>))))) \<and>
   px_writable (ns_db (se_sys (exec_of (Server_Shutdown (etcd_server_env (etcd_postgresql mem_etcd demo_codec (pg_answers True))))
     (leading_host ((NewPostgresql DefaultPostgresqlConfig 0)\<lparr>px_writable := True\<rparr>)))))"
  (is "mysql_open (ns_db (se_sys (exec_of (Server_Shutdown ?X) ?s))) \<and> px_writable (ns_db (se_sys (exec_of (Server_Shutdown ?Y) ?t)))")
proof -
  have "sx_parts ?X = etcd_mysql mem_etcd demo_codec too_many_env conf0 3" "e_isLeader (ns_coord (se_sys ?s))"
    "mysql_open (ns_db (se_sys ?s))"
    "sx_parts ?Y = etcd_postgresql mem_etcd demo_codec (pg_answers True)" "e_isLeader (ns_coord (se_sys ?t))"
    "px_writable (ns_db (se_sys ?t))"
    by (simp_all add: etcd_server_env_def leading_host_def mysql_open_def)
  from etcd_shutdown_leaves_open [OF this] show ?thesis by (simp add: Let_def)
qed

end
