(* ===== verification/Nrpc.thy ===== *)
theory Nrpc
  imports RpcModel RaftCandidate
begin

section \<open>The RPC transport (internal/base/nrpc, peer.go)\<close>

text \<open>
  Service and client around Go's \<open>net/rpc\<close>. Sockets and the package \<open>net/rpc\<close> are the argument
  \<open>N\<close>: how opening a listener, dialling, calling and closing are answered. A call is answered
  after a number of milliseconds with a reply and an error; the error \<open>None\<close> means that the reply
  was filled in. What \<open>peer.go\<close> does with its client is \<open>Peer_exchange\<close>.
\<close>

record ('w, 'q, 'r) net =
  nt_listen :: "string \<Rightarrow> ('w, string res) state"
  nt_unlisten :: "string \<Rightarrow> ('w, gerror option) state"
  nt_sleep :: "nat \<Rightarrow> ('w, unit) state"
  nt_dial :: "string \<Rightarrow> int \<Rightarrow> ('w, gerror option) state"
  nt_call :: "string \<Rightarrow> string \<Rightarrow> 'q \<Rightarrow> ('w, nat \<times> 'r res) state"
  nt_hangup :: "string \<Rightarrow> ('w, gerror option) state"


subsection \<open>The service\<close>

record service_opts =
  so_ConnectionStr :: string
  so_Log :: bool

datatype service_option = ConnectionStr string | WithLog

primrec apply_service_option :: "service_option \<Rightarrow> service_opts \<Rightarrow> service_opts" where
  "apply_service_option (ConnectionStr v) so = so\<lparr>so_ConnectionStr := v\<rparr>"
| "apply_service_option WithLog so = so\<lparr>so_Log := True\<rparr>"

definition DefaultConnectionStr :: string where "DefaultConnectionStr = '':8080''"

text \<open>Without a logger it panics.\<close>

definition service_options :: "service_option list \<Rightarrow> service_opts option res" where
  "service_options opts =
     (let so = fold apply_service_option opts \<lparr>so_ConnectionStr = [], so_Log = False\<rparr> in
      if \<not> so_Log so then (None, Some (GoErr ''nrpc.log.handler.is.nil''))
      else (Some (if so_ConnectionStr so = [] then so\<lparr>so_ConnectionStr := DefaultConnectionStr\<rparr> else so), None))"

record rpc_service =
  sv_registered :: bool
  sv_opts :: service_opts
  sv_services :: "string list"
  sv_listener :: "string option"

definition NewService :: "service_option list \<Rightarrow> rpc_service option res" where
  "NewService opts = (let (so, e) = service_options opts in
     (map_option (\<lambda>x. \<lparr>sv_registered = False, sv_opts = x, sv_services = [], sv_listener = None\<rparr>) so, e))"

text \<open>\<open>e\<close> is the answer of \<open>rpc.Server.Register\<close> for the receiver.\<close>

definition RegisterService :: "string \<Rightarrow> gerror option \<Rightarrow> rpc_service \<Rightarrow> gerror option \<times> rpc_service" where
  "RegisterService rcvr e s = (case e of Some err \<Rightarrow> (Some err, s)
     | None \<Rightarrow> (None, s\<lparr>sv_services := sv_services s @ [rcvr], sv_registered := True\<rparr>))"

text \<open>\<open>for retry := 0; retry < 30; retry++\<close>; \<open>last\<close> is the error of the round before.\<close>

fun listen_loop :: "('w, 'q, 'r) net \<Rightarrow> string \<Rightarrow> nat \<Rightarrow> gerror option \<Rightarrow> ('w, string option res) state" where
  "listen_loop N addr 0 lasterr = ret (None, lasterr)"
| "listen_loop N addr (Suc n) lasterr = do {
     (lis, e) \<leftarrow> nt_listen N addr;
     (if e = None then ret (Some lis, None)
      else do { nt_sleep N 1000; listen_loop N addr n e }) }"

definition SetListener :: "('w, 'q, 'r) net \<Rightarrow> string \<Rightarrow> ('w, string option res) state" where
  "SetListener N addr = listen_loop N addr 30 None"

definition Service_Start :: "('w, 'q, 'r) net \<Rightarrow> rpc_service \<Rightarrow> ('w, rpc_service \<times> gerror option) state" where
  "Service_Start N s =
     (if \<not> sv_registered s then ret (s, Some (GoErr ''nrpc.Start.error[Please RegisterService first]''))
      else do {
        (lis, e) \<leftarrow> SetListener N (so_ConnectionStr (sv_opts s));
        ret (case e of Some err \<Rightarrow> (s, Some err) | None \<Rightarrow> (s\<lparr>sv_listener := lis\<rparr>, None)) })"

text \<open>The goroutine of \<open>Start\<close>: the connections it serves, of what \<open>Accept\<close> returns.\<close>

fun accept_loop :: "('c + gerror) list \<Rightarrow> 'c list" where
  "accept_loop [] = []"
| "accept_loop (Inl conn # rest) = conn # accept_loop rest"
| "accept_loop (Inr err # rest) = []"

definition Service_Stop :: "('w, 'q, 'r) net \<Rightarrow> rpc_service \<Rightarrow> ('w, unit) state" where
  "Service_Stop N s = (case sv_listener s of None \<Rightarrow> ret () | Some lis \<Rightarrow> call (nt_unlisten N lis))"


subsection \<open>The client\<close>

record client =
  nc_connStr :: string
  nc_timeout :: int
  nc_rpcClient :: bool

definition getNewRpcClient :: "('w, 'q, 'r) net \<Rightarrow> string \<Rightarrow> int \<Rightarrow> ('w, gerror option) state" where
  "getNewRpcClient N connStr timeout = nt_dial N connStr timeout"

definition NewClient :: "('w, 'q, 'r) net \<Rightarrow> string \<Rightarrow> int \<Rightarrow> ('w, client option res) state" where
  "NewClient N connStr timeout = do {
     e \<leftarrow> getNewRpcClient N connStr timeout;
     ret (case e of Some err \<Rightarrow> (None, Some err)
          | None \<Rightarrow> (Some \<lparr>nc_connStr = connStr, nc_timeout = timeout, nc_rpcClient = True\<rparr>, None)) }"

text \<open>The milliseconds until the answer, the reply (\<open>fresh\<close> if it was not filled in), the error.\<close>

definition Client_Call :: "('w, 'q, 'r) net \<Rightarrow> client \<Rightarrow> string \<Rightarrow> 'q \<Rightarrow> 'r \<Rightarrow> ('w, nat \<times> 'r res) state" where
  "Client_Call N c meth q fresh =
     (if \<not> nc_rpcClient c then ret (0, fresh, Some (GoErr ''nrpc.client.is.closed''))
      else do {
        (ms, r, e) \<leftarrow> nt_call N (nc_connStr c) meth q;
        ret (ms, if e = None then r else fresh, e) })"

text \<open>The error of closing is the library's; the client counts as closed in any case.\<close>

definition Client_Close :: "('w, 'q, 'r) net \<Rightarrow> client \<Rightarrow> ('w, client \<times> gerror option) state" where
  "Client_Close N c =
     (if nc_rpcClient c then do { e \<leftarrow> nt_hangup N (nc_connStr c); ret (c\<lparr>nc_rpcClient := False\<rparr>, e) }
      else ret (c, None))"

text \<open>An answer after the timeout, or none, is given up.\<close>

definition Client_CallTimeout ::
    "('w, 'q, 'r) net \<Rightarrow> client \<Rightarrow> nat \<Rightarrow> string \<Rightarrow> 'q \<Rightarrow> 'r \<Rightarrow> ('w, client \<times> 'r res) state" where
  "Client_CallTimeout N c timeout meth q fresh = do {
     (ms, r, e) \<leftarrow> Client_Call N c meth q fresh;
     (if ms < timeout then ret (c, r, e)
      else do {
        (c', _) \<leftarrow> Client_Close N c;
        ret (c', fresh, Some (GoErr (''rpc.client.call['' @ meth @ ''].timeout''))) }) }"


subsection \<open>Peers (peer.go)\<close>

definition RPCRaftPing :: string where "RPCRaftPing = ''RaftRPC.Ping''"
definition RPCRaftHeartbeat :: string where "RPCRaftHeartbeat = ''RaftRPC.Heartbeat''"
definition RPCRaftRequestVote :: string where "RPCRaftRequestVote = ''RaftRPC.RequestVote''"

record Peer =
  pe_requestTimeout :: nat
  pe_heartbeatTimeout :: nat
  pe_connectionStr :: string

definition NewPeer :: "string \<Rightarrow> nat \<Rightarrow> nat \<Rightarrow> Peer" where
  "NewPeer connectionStr requestTimeout heartbeatTimeout = \<lparr>pe_requestTimeout = requestTimeout,
     pe_heartbeatTimeout = heartbeatTimeout, pe_connectionStr = connectionStr\<rparr>"

definition Peer_NewClient :: "('w, 'q, 'r) net \<Rightarrow> Peer \<Rightarrow> ('w, client option res) state" where
  "Peer_NewClient N p = NewClient N (pe_connectionStr p) (int (pe_requestTimeout p))"

definition rpc_failed :: RaftRPCResponse where
  "rpc_failed = (NewRaftRPCResponse OK)\<lparr>RetCode := ErrorRPCCall\<rparr>"

text \<open>A new connection, the call under its timeout, the connection closed; what goes to the channel.\<close>

definition Peer_exchange ::
    "('w, RaftRPCRequest, RaftRPCResponse) net \<Rightarrow> Peer \<Rightarrow> nat \<Rightarrow> string \<Rightarrow> RaftRPCRequest \<Rightarrow> ('w, RaftRPCResponse) state" where
  "Peer_exchange N p timeout meth q = do {
     (c, e) \<leftarrow> Peer_NewClient N p;
     (case (c, e) of
        (Some cl, None) \<Rightarrow> do {
          (cl', r, e2) \<leftarrow> Client_CallTimeout N cl timeout meth q (NewRaftRPCResponse OK);
          (_, _) \<leftarrow> Client_Close N cl';
          ret (if e2 = None then r else rpc_failed) }
      | _ \<Rightarrow> ret rpc_failed) }"

text \<open>The vote request, the heartbeat with twice the timeout, the ping.\<close>

definition exchange_vote :: "('w, RaftRPCRequest, RaftRPCResponse) net \<Rightarrow> Peer \<Rightarrow> RaftRPCRequest \<Rightarrow> ('w, RaftRPCResponse) state" where
  "exchange_vote N p q = Peer_exchange N p (pe_requestTimeout p) RPCRaftRequestVote q"

definition exchange_heartbeat :: "('w, RaftRPCRequest, RaftRPCResponse) net \<Rightarrow> Peer \<Rightarrow> RaftRPCRequest \<Rightarrow> ('w, RaftRPCResponse) state" where
  "exchange_heartbeat N p q = Peer_exchange N p (pe_requestTimeout p * 2) RPCRaftHeartbeat q"

definition exchange_ping :: "('w, RaftRPCRequest, RaftRPCResponse) net \<Rightarrow> Peer \<Rightarrow> RaftRPCRequest \<Rightarrow> ('w, RaftRPCResponse) state" where
  "exchange_ping N p q = Peer_exchange N p (pe_requestTimeout p) RPCRaftPing q"


subsection \<open>Listening\<close>

text \<open>The world after \<open>k\<close> attempts that failed, and what the next one answers.\<close>

definition after_failures :: "('w, 'q, 'r) net \<Rightarrow> string \<Rightarrow> nat \<Rightarrow> 'w \<Rightarrow> 'w" where
  "after_failures N addr k = (\<lambda>w. exec_of (nt_sleep N 1000) (exec_of (nt_listen N addr) w)) ^^ k"

definition attempt :: "('w, 'q, 'r) net \<Rightarrow> string \<Rightarrow> 'w \<Rightarrow> nat \<Rightarrow> string res" where
  "attempt N addr w k = val_of (nt_listen N addr) (after_failures N addr k w)"

definition first_free :: "('w, 'q, 'r) net \<Rightarrow> string \<Rightarrow> 'w \<Rightarrow> nat \<Rightarrow> nat option" where
  "first_free N addr w n = find (\<lambda>k. snd (attempt N addr w k) = None) [0..<n]"

lemma attempt_Suc:
  "attempt N addr w (Suc k) = attempt N addr (exec_of (nt_sleep N 1000) (exec_of (nt_listen N addr) w)) k"
  by (simp add: attempt_def after_failures_def funpow_Suc_right del: funpow.simps)

lemma find_shift: "find P [Suc 0..<Suc n] = map_option Suc (find (\<lambda>k. P (Suc k)) [0..<n])"
proof -
  have "find P (map f xs) = map_option f (find (\<lambda>k. P (f k)) xs)" for f :: "nat \<Rightarrow> nat" and xs
    by (induction xs) simp_all
  from this [of Suc "[0..<n]"] show ?thesis by (simp add: map_Suc_upt)
qed

lemma first_free_Suc:
  "first_free N addr w (Suc n) = (if snd (attempt N addr w 0) = None then Some 0
     else map_option Suc (first_free N addr (exec_of (nt_sleep N 1000) (exec_of (nt_listen N addr) w)) n))"
proof -
  have "[0..<Suc n] = 0 # [Suc 0..<Suc n]" by (simp add: upt_conv_Cons del: upt_Suc)
  then show ?thesis by (simp add: first_free_def attempt_Suc find_shift del: upt_Suc)
qed

lemma listen_result:
  "val_of (listen_loop N addr n e) w = (case first_free N addr w n of
     Some k \<Rightarrow> (Some (fst (attempt N addr w k)), None)
   | None \<Rightarrow> (None, if n = 0 then e else snd (attempt N addr w (n - 1))))"
proof (induction n arbitrary: e w)
  case 0
  then show ?case by (simp add: first_free_def)
next
  case (Suc n)
  let ?w = "exec_of (nt_sleep N 1000) (exec_of (nt_listen N addr) w)"
  have now: "attempt N addr w 0 = val_of (nt_listen N addr) w"
    by (simp add: attempt_def after_failures_def)
  have last: "n \<noteq> 0 \<Longrightarrow> attempt N addr ?w (n - 1) = attempt N addr w n"
    using attempt_Suc [of N addr w "n - 1"] by simp
  show ?case
    using Suc.IH [of "snd (val_of (nt_listen N addr) w)" ?w] last
    by (auto simp: first_free_Suc now attempt_Suc case_prod_beta split: option.split)
qed

text \<open>
  Opening the listening socket: of up to thirty attempts, a second apart, the
  first that succeeds gives the listener; if none does the error is that of the thirtieth.
\<close>

lemma listener_retries:
  "val_of (SetListener N addr) w = (case first_free N addr w 30 of
     Some k \<Rightarrow> (Some (fst (attempt N addr w k)), None)
   | None \<Rightarrow> (None, snd (attempt N addr w 29)))"
  using listen_result [of N addr 30 None w]
  by (simp add: SetListener_def del: listen_loop.simps cong: option.case_cong)

text \<open>One error of \<open>Accept\<close>, of whatever kind, and no further connection is served.\<close>

lemma accept_error_is_final: "accept_loop (map Inl conns @ Inr err # rest) = conns"
  by (induction conns) simp_all


subsection \<open>Calls\<close>

lemma run_CallTimeout:
  assumes "nc_rpcClient c"
  shows "run_state (Client_CallTimeout N c timeout meth q fresh) w =
    (let ((ms, r, e), w1) = run_state (nt_call N (nc_connStr c) meth q) w in
     if ms < timeout then ((c, if e = None then r else fresh, e), w1)
     else ((c\<lparr>nc_rpcClient := False\<rparr>, fresh, Some (GoErr (''rpc.client.call['' @ meth @ ''].timeout''))),
       exec_of (nt_hangup N (nc_connStr c)) w1))"
  using assms by (simp add: Client_CallTimeout_def Client_Call_def Client_Close_def case_prod_beta Let_def)

text \<open>
  A client that timed out is closed: every later call fails, and nothing is sent.
\<close>

lemma timed_out_client_is_closed:
  assumes "nc_rpcClient c" "timeout \<le> fst (val_of (nt_call N (nc_connStr c) meth q) w)"
    and "c' = fst (val_of (Client_CallTimeout N c timeout meth q fresh) w)"
  shows "run_state (Client_Call N c' meth' q' fresh') w' = ((0, fresh', Some (GoErr ''nrpc.client.is.closed'')), w')"
  using assms by (simp add: run_CallTimeout Client_Call_def case_prod_beta Let_def)

text \<open>What a peer's answer is: the server's, if the connection was made and it came in time.\<close>

lemma exchange_result:
  "val_of (Peer_exchange N p timeout meth q) w =
    (let (e, w1) = run_state (nt_dial N (pe_connectionStr p) (int (pe_requestTimeout p))) w;
         (ms, r, e2) = val_of (nt_call N (pe_connectionStr p) meth q) w1
     in if e = None \<and> ms < timeout \<and> e2 = None then r else rpc_failed)"
  by (simp add: Peer_exchange_def Peer_NewClient_def NewClient_def getNewRpcClient_def run_CallTimeout
      case_prod_beta Let_def split: option.split)

lemma failed_not_counted:
  "voteGranted (val_of (Candidate_processRequestVoteResponse v rpc_failed) r) = voteGranted v"
  by (simp add: Candidate_processRequestVoteResponse_def rpc_failed_def case_prod_beta go_defs)

text \<open>
  C37. Through the transport: a vote that a candidate counts after asking a
  peer was answered by that peer's server, over a connection that was made and within the request
  timeout. A peer that cannot be reached, is late or fails adds nothing.
\<close>

theorem no_vote_without_answer:
  assumes "voteGranted (val_of (Candidate_response v (val_of (exchange_vote N p q) w)) r) \<noteq> voteGranted v"
  shows "\<exists>ms rsp w1. run_state (nt_dial N (pe_connectionStr p) (int (pe_requestTimeout p))) w = (None, w1) \<and>
    val_of (nt_call N (pe_connectionStr p) RPCRaftRequestVote q) w1 = (ms, rsp, None) \<and>
    ms < pe_requestTimeout p \<and> val_of (exchange_vote N p q) w = rsp"
proof -
  have "voteGranted (val_of (Candidate_response v rsp) r) =
      voteGranted (val_of (Candidate_processRequestVoteResponse v rsp) r)" for rsp
    by (simp add: Candidate_response_def case_prod_beta)
  then have "val_of (exchange_vote N p q) w \<noteq> rpc_failed"
    using assms failed_not_counted [of v r] by auto
  then show ?thesis
    by (auto simp: exchange_vote_def exchange_result case_prod_beta Let_def prod_eq_iff split: if_splits intro!: exI)
qed

text \<open>A peer whose server grants the vote in half a second.\<close>

definition granting_net :: "(unit, RaftRPCRequest, RaftRPCResponse) net" where
  "granting_net = \<lparr>nt_listen = (\<lambda>a. ret (a, None)), nt_unlisten = (\<lambda>_. ret None), nt_sleep = (\<lambda>_. ret ()),
     nt_dial = (\<lambda>_ _. ret None), nt_call = (\<lambda>_ _ _. ret (500, NewRaftRPCResponse OK, None)),
     nt_hangup = (\<lambda>_. ret None)\<rparr>"

theorem no_vote_without_answer_witness:
  "\<exists>ms rsp w1. run_state (nt_dial granting_net ''b:1'' 1000) () = (None, w1) \<and>
    val_of (nt_call granting_net ''b:1'' RPCRaftRequestVote NewRaftRPCRequest) w1 = (ms, rsp, None) \<and> ms < (1000 :: nat)"
proof -
  have "NewRaftRPCResponse OK \<noteq> rpc_failed"
    by (simp add: rpc_failed_def go_defs NewRaftRPCResponse_def)
  have "val_of (exchange_vote granting_net (NewPeer ''b:1'' 1000 1000) NewRaftRPCRequest) () = NewRaftRPCResponse OK"
    by (simp add: exchange_vote_def exchange_result NewPeer_def granting_net_def)
  then have "voteGranted (val_of (Candidate_response \<lparr>voteGranted = 1, switchMaster = False\<rparr>
      (val_of (exchange_vote granting_net (NewPeer ''b:1'' 1000 1000) NewRaftRPCRequest) ())) r) \<noteq>
    voteGranted \<lparr>voteGranted = 1, switchMaster = False\<rparr>" for r :: "unit raft"
    by (simp add: Candidate_response_def Candidate_processRequestVoteResponse_def NewRaftRPCResponse_def zero_header_def
        case_prod_beta)
  from no_vote_without_answer [OF this] show ?thesis by (auto simp: NewPeer_def)
qed

text \<open>
  But a candidate that cannot ask its own MySQL answers itself, once for each peer, with
  \<open>ErrorMySQLDown\<close>, which in a group-replication cluster that has worked counts as a vote.
\<close>

lemma own_failure_is_a_vote:
  assumes "snd (val_of (Raft_getUUID E) r) \<noteq> None" "r_mysqlReplMode s = ReplModeMGR" "r_mgrClusterEverOK s"
  shows "\<exists>rsp. val_of (Peer_sendRequestVote E p) r = Some rsp \<and>
    voteGranted (val_of (Candidate_processRequestVoteResponse v rsp) s) = voteGranted v + 1"
proof (intro exI conjI)
  show "val_of (Peer_sendRequestVote E p) r = Some (NewRaftRPCResponse ErrorMySQLDown)"
    using assms(1) by (auto simp: Peer_sendRequestVote_def case_prod_beta)
  show "voteGranted (val_of (Candidate_processRequestVoteResponse v (NewRaftRPCResponse ErrorMySQLDown)) s) =
      voteGranted v + 1"
    using assms(2,3) by (simp add: Candidate_processRequestVoteResponse_def NewRaftRPCResponse_def case_prod_beta go_defs)
qed

end
