(* ===== verification/Nlog.thy ===== *)
theory Nlog
  imports Prelude
begin

section \<open>Logging (internal/base/nlog)\<close>

text \<open>
  The logger: options, level, and what a call writes. The line is without the prefix, time and
  place that Go's \<open>log.Logger\<close> puts in front. \<open>msg\<close> is the text that \<open>fmt.Sprintf(format, v...)\<close>
  gives; \<open>plain\<close> is \<open>fmt.Sprintf\<close> of a format without operands. A call returns, ends the
  process with a status, or panics.
\<close>

type_synonym LogLevel = int

definition DEBUG :: LogLevel where "DEBUG = 1"
definition INFO :: LogLevel where "INFO = 2"
definition WARNING :: LogLevel where "WARNING = 4"
definition ERROR :: LogLevel where "ERROR = 8"
definition FATAL :: LogLevel where "FATAL = 16"
definition PANIC :: LogLevel where "PANIC = 32"

lemmas level_defs = DEBUG_def INFO_def WARNING_def ERROR_def FATAL_def PANIC_def

text \<open>An array indexed by the level; what lies between the levels is empty.\<close>

definition LevelNames :: "string list" where
  "LevelNames = (replicate 33 [])[1 := ''DEBUG'', 2 := ''INFO'', 4 := ''WARNING'', 8 := ''ERROR'',
     16 := ''FATAL'', 32 := ''PANIC'']"


subsection \<open>Options (options.go)\<close>

record Options =
  opt_Name :: string
  opt_Level :: LogLevel

datatype Option = OptName string | OptLevel LogLevel

primrec apply_log_option :: "Option \<Rightarrow> Options \<Rightarrow> Options" where
  "apply_log_option (OptName v) o1 = o1\<lparr>opt_Name := v\<rparr>"
| "apply_log_option (OptLevel v) o1 = o1\<lparr>opt_Level := v\<rparr>"

definition defaultName :: string where "defaultName = '' ''"
definition defaultLevel :: LogLevel where "defaultLevel = DEBUG"

definition newOptions :: "Option list \<Rightarrow> Options" where
  "newOptions opts =
     (let o1 = fold apply_log_option opts \<lparr>opt_Name = [], opt_Level = 0\<rparr>;
          o2 = (if opt_Name o1 = [] then o1\<lparr>opt_Name := defaultName\<rparr> else o1)
      in if opt_Level o2 = 0 then o2\<lparr>opt_Level := defaultLevel\<rparr> else o2)"


subsection \<open>The logger (nlog.go)\<close>

record log =
  lg_opts :: Options
  lg_lines :: "string list"

type_synonym 'a lst = "(log, 'a) state"

datatype log_end = Returned | Exited int | Paniced string

definition NewLog :: "Option list \<Rightarrow> log" where
  "NewLog opts = \<lparr>lg_opts = newOptions opts, lg_lines = []\<rparr>"

text \<open>The logger in use, made at level INFO when there is none.\<close>

definition GetLog :: "log option \<Rightarrow> log" where
  "GetLog defaultlog = (case defaultlog of None \<Rightarrow> NewLog [OptLevel INFO] | Some l \<Rightarrow> l)"

fun level_index :: "nat \<Rightarrow> string list \<Rightarrow> string \<Rightarrow> nat option" where
  "level_index i [] level = None"
| "level_index i (v # vs) level = (if level = v then Some i else level_index (Suc i) vs level)"

definition SetLevel :: "string \<Rightarrow> unit lst" where
  "SetLevel level = modify (\<lambda>t. case level_index 0 LevelNames level of
       None \<Rightarrow> t
     | Some i \<Rightarrow> t\<lparr>lg_opts := (lg_opts t)\<lparr>opt_Level := int i\<rparr>\<rparr>)"

definition tab :: string where "tab = [CHR 0x09]"

text \<open>\<open>t.log(format, v...)\<close>, with its text made.\<close>

definition log_write :: "string \<Rightarrow> unit lst" where
  "log_write text = modify (\<lambda>t. t\<lparr>lg_lines := lg_lines t @ [''   '' @ text @ [CHR 0x0A]]\<rparr>)"

definition level_text :: "string \<Rightarrow> string \<Rightarrow> string" where
  "level_text name msg = tab @ '' ['' @ name @ ''] '' @ tab @ msg"

definition log_at :: "LogLevel \<Rightarrow> string \<Rightarrow> string \<Rightarrow> log_end lst" where
  "log_at l name msg = do {
     level \<leftarrow> gets (\<lambda>t. opt_Level (lg_opts t));
     (if l < level then ret Returned
      else do { log_write (level_text name msg); ret Returned }) }"

definition Log_Debug :: "string \<Rightarrow> log_end lst" where
  "Log_Debug msg = log_at DEBUG ''DEBUG'' msg"

definition Log_Info :: "string \<Rightarrow> log_end lst" where
  "Log_Info msg = log_at INFO ''INFO'' msg"

definition Log_Warning :: "string \<Rightarrow> log_end lst" where
  "Log_Warning msg = log_at WARNING ''WARNING'' msg"

definition Log_Error :: "string \<Rightarrow> log_end lst" where
  "Log_Error msg = log_at ERROR ''ERROR'' msg"

definition Log_Fatal :: "string \<Rightarrow> log_end lst" where
  "Log_Fatal msg = do {
     level \<leftarrow> gets (\<lambda>t. opt_Level (lg_opts t));
     (if FATAL < level then ret Returned
      else do { log_write (level_text ''FATAL+EXIT'' msg); ret (Exited 1) }) }"

text \<open>The finished text is passed to \<open>log\<close> as a format.\<close>

definition Log_Panic :: "(string \<Rightarrow> string) \<Rightarrow> string \<Rightarrow> log_end lst" where
  "Log_Panic plain msg = do {
     level \<leftarrow> gets (\<lambda>t. opt_Level (lg_opts t));
     (if PANIC < level then ret Returned
      else do { log_write (plain (level_text ''PANIC'' msg)); ret (Paniced (level_text ''PANIC'' msg)) }) }"


subsection \<open>Which calls write, and which end the process\<close>

datatype log_call =
    CallSetLevel string | CallDebug string | CallInfo string | CallWarning string | CallError string

primrec log_call_run :: "log_call \<Rightarrow> unit lst" where
  "log_call_run (CallSetLevel s) = SetLevel s"
| "log_call_run (CallDebug s) = call (Log_Debug s)"
| "log_call_run (CallInfo s) = call (Log_Info s)"
| "log_call_run (CallWarning s) = call (Log_Warning s)"
| "log_call_run (CallError s) = call (Log_Error s)"

definition log_session :: "log_call list \<Rightarrow> unit lst" where
  "log_session cs = for_each log_call_run cs"

definition level_of :: "log \<Rightarrow> LogLevel" where
  "level_of t = opt_Level (lg_opts t)"

lemma log_write_level [simp]: "level_of (exec_of (log_write s) t) = level_of t"
  by (simp add: log_write_def level_of_def)

lemma run_log_at [simp]:
  "run_state (log_at l name msg) t = (Returned, if l < level_of t then t else exec_of (log_write (level_text name msg)) t)"
  by (simp add: log_at_def level_of_def case_prod_beta)

lemma level_index_less: "level_index i vs s = Some k \<Longrightarrow> k < i + length vs"
  by (induction i vs s rule: level_index.induct) (auto split: if_splits)

lemma SetLevel_level:
  "level_of (exec_of (SetLevel s) t) = (case level_index 0 LevelNames s of None \<Rightarrow> level_of t | Some i \<Rightarrow> int i)"
  by (simp add: SetLevel_def level_of_def split: option.split)

lemma SetLevel_bound: "level_of t \<le> PANIC \<Longrightarrow> level_of (exec_of (SetLevel s) t) \<le> PANIC"
  using level_index_less [of 0 LevelNames s]
  by (auto simp: SetLevel_level PANIC_def LevelNames_def split: option.split)

lemma call_bound: "level_of t \<le> PANIC \<Longrightarrow> level_of (exec_of (log_call_run c) t) \<le> PANIC"
  by (cases c) (simp_all add: SetLevel_bound Log_Debug_def Log_Info_def Log_Warning_def Log_Error_def)

lemma session_bound: "level_of t \<le> PANIC \<Longrightarrow> level_of (exec_of (log_session cs) t) \<le> PANIC"
  unfolding log_session_def by (induction cs arbitrary: t) (simp_all add: call_bound case_prod_beta)

text \<open>The names of the levels, in the order of their severity.\<close>

definition named_level :: "string \<Rightarrow> LogLevel option" where
  "named_level s = map_of [(''DEBUG'', DEBUG), (''INFO'', INFO), (''WARNING'', WARNING), (''ERROR'', ERROR),
     (''FATAL'', FATAL), (''PANIC'', PANIC)] s"

lemma named_index: "named_level s = Some l \<Longrightarrow> \<exists>i. level_index 0 LevelNames s = Some i \<and> int i = l"
  by (auto simp: named_level_def level_defs LevelNames_def numeral_eq_Suc split: if_splits)

lemma SetLevel_named: "named_level s = Some l \<Longrightarrow> level_of (exec_of (SetLevel s) t) = l"
  using named_index [of s l] by (auto simp: SetLevel_level)

text \<open>
  A logger made at one of the six levels: whatever is logged and
  whatever level is set afterwards, by name or by a text that names none, \<open>Panic\<close> writes a line
  and panics. \<open>Fatal\<close> exits exactly if the level is not PANIC.
\<close>

lemma panic_ends_whatever_level:
  assumes "level_of t \<le> PANIC"
  shows "val_of (Log_Panic plain msg) (exec_of (log_session cs) t) = Paniced (level_text ''PANIC'' msg) \<and>
    lg_lines (exec_of (Log_Panic plain msg) (exec_of (log_session cs) t)) =
      lg_lines (exec_of (log_session cs) t) @ [''   '' @ plain (level_text ''PANIC'' msg) @ [CHR 0x0A]] \<and>
    (val_of (Log_Fatal msg) (exec_of (SetLevel s) t) = Exited 1 \<longleftrightarrow>
      level_of (exec_of (SetLevel s) t) \<le> FATAL)"
  using session_bound [OF assms, of cs]
  by (simp add: Log_Panic_def Log_Fatal_def log_write_def level_of_def not_less)

lemma panic_ends_whatever_level_example:
  "val_of (Log_Panic id ''down'') (exec_of (log_session [CallSetLevel ''PANIC'', CallError ''lost'', CallSetLevel ''loud''])
     (NewLog [OptLevel INFO])) = Paniced (level_text ''PANIC'' ''down'')"
proof -
  have "level_of (NewLog [OptLevel INFO]) \<le> PANIC"
    by (simp add: NewLog_def newOptions_def level_of_def level_defs Let_def)
  from panic_ends_whatever_level [OF this] show ?thesis by blast
qed

text \<open>At level PANIC a fatal error neither exits nor is written.\<close>

lemma fatal_goes_on:
  "run_state (Log_Fatal msg) (exec_of (SetLevel ''PANIC'') t) = (Returned, exec_of (SetLevel ''PANIC'') t)"
  using SetLevel_named [of "''PANIC''" PANIC t]
  by (simp add: Log_Fatal_def level_of_def named_level_def level_defs)

lemma level_filters:
  assumes "named_level s = Some l0"
  shows "lg_lines (exec_of (log_at l name msg) (exec_of (SetLevel s) t)) =
    lg_lines t @ (if l0 \<le> l then [''   '' @ level_text name msg @ [CHR 0x0A]] else [])"
proof -
  have "lg_lines (exec_of (SetLevel s) t) = lg_lines t"
    by (simp add: SetLevel_def split: option.split)
  then show ?thesis using SetLevel_named [OF assms, of t] by (simp add: log_write_def)
qed

end
