(* ===== verification/Api.thy ===== *)
theory Api
  imports ClusterNet Server Nrpc Nlog
begin

section \<open>The REST API (api/admin.go, api/router.go, api/v1)\<close>

text \<open>
  A handler writes parts of a response through the RPC helpers; \<open>rest.Error\<close> writes a status and
  a text, \<open>w.WriteJson\<close> a value. The status of the response is that of the first part, 200 without
  one. \<open>Crashed\<close> is a nil pointer, which the HTTP server recovers and answers by closing the
  connection. Routing by path, the parsing of JSON and of the authorization header are library
  code: a handler is given the decoded body, or its error.
\<close>

record 'j part =
  pt_status :: int
  pt_error :: string
  pt_json :: "'j option"

record raft_status =
  st_state :: string
  st_leader :: string
  st_nodes :: "string list"

datatype http = Replied "raft_status part list" | Crashed

abbreviation StatusInternalServerError :: int where "StatusInternalServerError \<equiv> 500"

definition rest_Error :: "string \<Rightarrow> int \<Rightarrow> raft_status part" where
  "rest_Error msg status = \<lparr>pt_status = status, pt_error = msg, pt_json = None\<rparr>"

definition WriteJson :: "raft_status \<Rightarrow> raft_status part" where
  "WriteJson j = \<lparr>pt_status = 200, pt_error = [], pt_json = Some j\<rparr>"

definition http_status :: "raft_status part list \<Rightarrow> int" where
  "http_status ps = (case ps of [] \<Rightarrow> 200 | p # _ \<Rightarrow> pt_status p)"

definition error_part :: "gerror \<Rightarrow> raft_status part" where
  "error_part err = rest_Error (err_text err) StatusInternalServerError"


subsection \<open>cluster.go\<close>

type_synonym peerParams = "string res"

definition node_names :: "string \<Rightarrow> string list" where
  "node_names address = split_on CHR '','' (trim_char CHR '','' address)"

text \<open>Both handlers; they differ in the RPC and in the name of the handler in the text.\<close>

definition cluster_change :: "'w rpcenv \<Rightarrow> (string \<Rightarrow> string list \<Rightarrow> ('w, gerror option) state) \<Rightarrow> string \<Rightarrow>
    string \<Rightarrow> peerParams \<Rightarrow> ('w, http) state" where
  "cluster_change N rpc what self p = (case p of
       (_, Some err) \<Rightarrow> ret (Replied [error_part err])
     | (address, None) \<Rightarrow>
         if address = [] then
           ret (Replied [rest_Error (''api.v1.cluster.'' @ what @ ''.request.address.is.null'') StatusInternalServerError])
         else do {
           (leader, _) \<leftarrow> GetClusterLeader N self;
           e \<leftarrow> rpc (if leader \<noteq> [] then leader else self) (node_names address);
           ret (Replied (case e of Some err \<Rightarrow> [error_part err] | None \<Rightarrow> [])) })"

definition clusterAddHandler :: "'w rpcenv \<Rightarrow> string \<Rightarrow> peerParams \<Rightarrow> ('w, http) state" where
  "clusterAddHandler N self p = cluster_change N (AddNodeRPC N) ''add'' self p"

definition clusterRemoveHandler :: "'w rpcenv \<Rightarrow> string \<Rightarrow> peerParams \<Rightarrow> ('w, http) state" where
  "clusterRemoveHandler N self p = cluster_change N (RemoveNodeRPC N) ''remove'' self p"


subsection \<open>raft.go, neoha.go\<close>

text \<open>After an error of the second RPC it goes on, and reads the leader of the response.\<close>

definition raftStatusHandler :: "'w rpcenv \<Rightarrow> string \<Rightarrow> ('w, http) state" where
  "raftStatusHandler N address = do {
     ((state, nodes), e) \<leftarrow> GetRaftState N address;
     (case e of Some err \<Rightarrow> ret (Replied [error_part err])
      | None \<Rightarrow> do {
          (rsp, e2) \<leftarrow> GetNodesRPC N address;
          ret (case rsp of
             None \<Rightarrow> Crashed
           | Some r \<Rightarrow> Replied ((case e2 of Some err \<Rightarrow> [error_part err] | None \<Rightarrow> []) @
               [WriteJson \<lparr>st_state = state, st_leader = nd_Leader r, st_nodes = nodes\<rparr>])) }) }"

text \<open>
  \<open>if err != nil\<close>, \<open>if rsp == nil\<close>, \<open>if rsp.RetCode != model.OK\<close>: each writes \<open>err.Error()\<close>, and
  only the second returns.
\<close>

definition code_reply :: "CodeResponse option res \<Rightarrow> http" where
  "code_reply answer = (case answer of
       (None, None) \<Rightarrow> Crashed
     | (None, Some err) \<Rightarrow> Replied [error_part err, error_part err]
     | (Some code, Some err) \<Rightarrow> Replied (if code \<noteq> OK then [error_part err, error_part err] else [error_part err])
     | (Some code, None) \<Rightarrow> (if code \<noteq> OK then Crashed else Replied []))"

definition raftTryToLeaderHandler :: "'w rpcenv \<Rightarrow> string \<Rightarrow> ('w, http) state" where
  "raftTryToLeaderHandler N address = do { a \<leftarrow> TryToLeaderRPC N address; ret (code_reply a) }"

definition raftDisableHandler :: "'w rpcenv \<Rightarrow> string \<Rightarrow> ('w, http) state" where
  "raftDisableHandler N address = do { a \<leftarrow> DisableRaftRPC N address; ret (code_reply a) }"

definition raftDisableCheckSemiSyncHandler :: "'w rpcenv \<Rightarrow> string \<Rightarrow> ('w, http) state" where
  "raftDisableCheckSemiSyncHandler N address = do {
     e \<leftarrow> RaftDisableCheckSemiSyncRPC N address;
     ret (Replied (case e of Some err \<Rightarrow> [error_part err] | None \<Rightarrow> [])) }"

definition neohaPingHandler :: "'w rpcenv \<Rightarrow> string \<Rightarrow> ('w, http) state" where
  "neohaPingHandler N address = do {
     (rsp, e) \<leftarrow> ServerPingRPC N address;
     ret (code_reply (map_option sv_RetCode rsp, e)) }"


subsection \<open>router.go, admin.go\<close>

definition NewRouter :: "'w rpcenv \<Rightarrow> string \<Rightarrow> ((string \<times> string) \<times> (peerParams \<Rightarrow> ('w, http) state)) list" where
  "NewRouter N address =
     [((''POST'', ''/v1/cluster/add''), clusterAddHandler N address),
      ((''POST'', ''/v1/cluster/remove''), clusterRemoveHandler N address),
      ((''GET'', ''/v1/raft/status''), (\<lambda>_. raftStatusHandler N address)),
      ((''POST'', ''/v1/raft/trytoleader''), (\<lambda>_. raftTryToLeaderHandler N address)),
      ((''PUT'', ''/v1/raft/disablechecksemisync''), (\<lambda>_. raftDisableCheckSemiSyncHandler N address)),
      ((''PUT'', ''/v1/raft/disable''), (\<lambda>_. raftDisableHandler N address)),
      ((''GET'', ''/v1/neoha/ping''), (\<lambda>_. neohaPingHandler N address))]"

text \<open>The accessors of the server that the API uses; without a MySQL section a nil pointer.\<close>

definition MySQLAdmin :: "Config \<Rightarrow> string option" where
  "MySQLAdmin conf = map_option mc_Admin (Option.bind (Database conf) db_Mysql)"

definition MySQLPasswd :: "Config \<Rightarrow> string option" where
  "MySQLPasswd conf = map_option mc_Passwd (Option.bind (Database conf) db_Mysql)"

definition Authenticator :: "Config \<Rightarrow> string \<Rightarrow> string \<Rightarrow> bool option" where
  "Authenticator conf user password = (case MySQLAdmin conf of
       None \<Rightarrow> None
     | Some admin \<Rightarrow> if user = admin then map_option ((=) password) (MySQLPasswd conf) else Some False)"

text \<open>\<open>init\<close> of the package listens here for the profiler.\<close>

definition pprof_address :: string where "pprof_address = '':6060''"

text \<open>The listener of the HTTP server; its goroutine panics without one, and so does the process.\<close>

definition Admin_Start :: "('w, 'q, 'r) net \<Rightarrow> Config \<Rightarrow> ('w, log_end) state" where
  "Admin_Start N conf = do {
     (lis, e) \<leftarrow> SetListener N (PeerAddress conf);
     ret (case e of Some err \<Rightarrow> Paniced (level_text ''PANIC'' (err_text err)) | None \<Rightarrow> Returned) }"

lemma default_address_is_taken: "PeerAddress DefaultConfig = pprof_address"
  by (simp add: DefaultConfig_def pprof_address_def)


subsection \<open>Adding nodes, as the tool does\<close>

lemma split_chars: "p \<in> set (split_on c s) \<Longrightarrow> set p \<subseteq> set s"
  by (induction c s arbitrary: p rule: split_on.induct) (fastforce split: if_splits list.splits)+

lemma trim_char_chars: "set (trim_char c s) \<subseteq> set s"
proof
  fix x assume "x \<in> set (trim_char c s)"
  then have "x \<in> set (dropWhile ((=) c) (rev (dropWhile ((=) c) s)))" by (simp add: trim_char_def)
  then show "x \<in> set s" by (auto dest!: set_dropWhileD)
qed

lemma trim_space_none: "\<forall>c \<in> set s. \<not> is_space c \<Longrightarrow> trim_space s = s"
proof -
  have drop: "dropWhile is_space t = t" if "\<forall>c \<in> set t. \<not> is_space c" for t
    using that by (cases t) simp_all
  show "\<forall>c \<in> set s. \<not> is_space c \<Longrightarrow> trim_space s = s"
    using drop [of s] drop [of "rev s"] by (simp add: trim_space_def)
qed

lemma names_without_spaces:
  assumes "\<forall>c \<in> set s. \<not> is_space c"
  shows "splitNodeList s = filter (\<lambda>p. p \<noteq> []) (node_names s)"
proof -
  have "trim_space p = p" if "p \<in> set (node_names s)" for p
    using assms that split_chars [of p] trim_char_chars [of _ s] unfolding node_names_def
    by (intro trim_space_none) blast
  then have "map trim_space (node_names s) = node_names s" by (simp add: map_idI)
  then show ?thesis by (simp add: splitNodeList_def node_names_def)
qed

lemma add_without_empty:
  "run_state (until_err AddPeer (filter (\<lambda>p. p \<noteq> []) names)) r = run_state (until_err AddPeer names) r"
  by (induction names arbitrary: r) (simp_all add: run_AddPeer)

lemma target_up: "net self = Some r0 \<Longrightarrow> \<exists>r. net (add_target net self) = Some r"
proof -
  have "first_leader net nodes \<noteq> [] \<Longrightarrow> \<exists>r. net (first_leader net nodes) = Some r" for nodes
    by (induction nodes) (auto split: option.splits if_splits)
  then show "net self = Some r0 \<Longrightarrow> \<exists>r. net (add_target net self) = Some r"
    by (auto simp: add_target_def Let_def)
qed

lemma rest_add_runs:
  assumes "net self = Some r0" "net (add_target net self) = Some r" "address \<noteq> []"
  shows "run_state (clusterAddHandler (on_network N) self (address, None)) net =
    (Replied [], net(add_target net self := Some (exec_of (until_err AddPeer (node_names address)) r)))"
  using assms(1,3) add_runs [of net "add_target net self", OF assms(2)]
  by (simp add: clusterAddHandler_def cluster_change_def leader_found target_choice [of net self, OF assms(1)]
      cong: if_cong split del: if_split)

text \<open>
  C38. Two ways to add nodes, one effect: for names without white space, a POST
  of \<open>/v1/cluster/add\<close> to a node that is up is answered with 200 and leaves the network exactly as
  \<open>neohactl cluster add\<close> on that node does.
\<close>

theorem rest_add_is_tool_add:
  assumes "ct_rpc C = on_network N" and "run_state (GetConfig C) net = ((Some conf, None), net)"
    and "net (Endpoint conf) \<noteq> None" and "names \<noteq> []" and "\<forall>c \<in> set names. \<not> is_space c"
  shows "run_state (clusterAddHandler (on_network N) (Endpoint conf) (names, None)) net =
      (Replied [], exec_of (clusterAddCommandFn C [names]) net) \<and>
    val_of (clusterAddCommandFn C [names]) net = Completed"
proof -
  obtain r0 where up: "net (Endpoint conf) = Some r0" using assms(3) by blast
  obtain r where to: "net (add_target net (Endpoint conf)) = Some r" using target_up [of net, OF up] by blast
  show ?thesis
    using rest_add_runs [of net "Endpoint conf", OF up to assms(4), of N] tool_add_runs [OF assms(1,2) up to, of names]
    by (simp add: names_without_spaces [OF assms(5)] add_without_empty)
qed

theorem rest_add_is_tool_add_witness:
  "run_state (clusterAddHandler (on_network demo_rpc) (Endpoint DefaultConfig) ('',D,,E'', None)) demo_network =
    (Replied [], exec_of (clusterAddCommandFn demo_tool ['',D,,E'']) demo_network)"
proof -
  have "ct_rpc demo_tool = on_network demo_rpc" by (simp add: demo_tool_def)
  moreover have "demo_network (Endpoint DefaultConfig) \<noteq> None" by (simp add: demo_network_def)
  moreover have "\<forall>c \<in> set '',D,,E''. \<not> is_space c" by (simp add: is_space_def)
  ultimately show ?thesis
    using rest_add_is_tool_add [OF _ demo_config, of demo_rpc demo_network "'',D,,E''"] by simp
qed

text \<open>With a space after the comma the tool adds the name, the API adds it with the space.\<close>

lemma rest_keeps_spaces: "node_names ''a:1, b:1'' = [''a:1'', '' b:1'']" "splitNodeList ''a:1, b:1'' = [''a:1'', ''b:1'']"
  by code_simp+


subsection \<open>A refusal is a crash\<close>

text \<open>The network with the HA service of its nodes too.\<close>

definition ha_service :: "'w dbenv \<Rightarrow> string \<Rightarrow> ('w, CodeResponse res) rst" where
  "ha_service E rpc = (let ok = (\<lambda>m. do { r \<leftarrow> m; ret (r, None) }) in
     if rpc = RPCHADisable then ok HADisable
     else if rpc = RPCHAEnable then ok HAEnable
     else if rpc = RPCHASetLearner then ok HASetLearner
     else if rpc = RPCHATryToLeader then ok (HATryToLeader E)
     else ret ([], Some (GoErr (''rpc: can't find service '' @ rpc))))"

definition with_ha :: "(string \<Rightarrow> 'w dbenv) \<Rightarrow> 'w network rpcenv \<Rightarrow> 'w network rpcenv" where
  "with_ha E N = (on_network N)\<lparr>
     nr_ha := (\<lambda>node rpc. State (\<lambda>net. case net node of
        None \<Rightarrow> (([], Some (unreachable node)), net)
      | Some r \<Rightarrow> (val_of (ha_service (E node) rpc) r, net(node := Some (exec_of (ha_service (E node) rpc) r)))))\<rparr>"

lemma ask_ha_network:
  assumes "net node = Some r"
  shows "run_state (ask_ha (with_ha E N) node rpc) net =
    (let ((code, e), r') = run_state (ha_service (E node) rpc) r in
     ((Some (if e = None then code else OK), e), net(node := Some r')))"
  using assms
  by (simp add: ask_ha_def with_client_def GetClient_def with_ha_def on_network_def reply_def case_prod_beta Let_def)

lemma ha_names [simp]: "RPCHATryToLeader \<noteq> RPCHADisable" "RPCHATryToLeader \<noteq> RPCHAEnable" "RPCHATryToLeader \<noteq> RPCHASetLearner"
  by (simp_all add: RPCHATryToLeader_def RPCHADisable_def RPCHAEnable_def RPCHASetLearner_def)

lemma try_service:
  "run_state (ha_service E RPCHATryToLeader) r = ((val_of (HATryToLeader E) r, None), exec_of (HATryToLeader E) r)"
  by (simp add: ha_service_def Let_def case_prod_beta)

lemma try_ok_state:
  assumes "val_of (HATryToLeader E) r = OK"
    and "\<And>m err. val_of (Mysql_StopSlaveIOThread E) m = Some err \<Longrightarrow> err_text err \<noteq> OK"
  shows "r_state (exec_of (HATryToLeader E) r) \<in> {LEADER, CANDIDATE}"
  using assms
  by (cases "r_state r")
    (auto simp: HATryToLeader_def Raft_setState_def Raft_getState_def IncCandidatePromotes_def upd_stats_def
      Raft_setLeader_def on_mysql_def case_prod_beta go_defs
      split: if_splits option.splits)

text \<open>
  C39. A POST of \<open>/v1/raft/trytoleader\<close> to a node that is up is answered
  with 200 if the node agrees, and then it is candidate or leader; if it refuses, for its state or
  for its data, the handler runs into a nil pointer instead of answering. (No MySQL error
  reads \<open>OK\<close>.)
\<close>

theorem refused_trytoleader_crashes:
  assumes "net node = Some r"
    and "\<And>m err. val_of (Mysql_StopSlaveIOThread (E node)) m = Some err \<Longrightarrow> err_text err \<noteq> OK"
  shows "val_of (raftTryToLeaderHandler (with_ha E N) node) net =
      (if val_of (HATryToLeader (E node)) r = OK then Replied [] else Crashed) \<and>
    (\<exists>r'. exec_of (raftTryToLeaderHandler (with_ha E N) node) net = net(node := Some r') \<and>
      (if val_of (HATryToLeader (E node)) r = OK then r_state r' \<in> {LEADER, CANDIDATE} else True))"
  using try_ok_state [of "E node" r, OF _ assms(2)]
  by (auto simp: raftTryToLeaderHandler_def TryToLeaderRPC_def ask_ha_network [of net, OF assms(1)] try_service code_reply_def
      case_prod_beta)

text \<open>The leader agrees, an idle node does not.\<close>

theorem refused_trytoleader_crashes_witness:
  "val_of (raftTryToLeaderHandler (with_ha (\<lambda>_. too_many_env) demo_rpc) ''B'')
     (demo_network(''B'' := Some ((demo_raft ([''C''], []))\<lparr>r_state := IDLE\<rparr>))) = Crashed"
proof -
  let ?r = "(demo_raft ([''C''], []))\<lparr>r_state := IDLE\<rparr>"
  have none: "val_of (Mysql_StopSlaveIOThread too_many_env) m = Some err \<Longrightarrow> err_text err \<noteq> OK" for m err
    by (simp add: Mysql_StopSlaveIOThread_def with_db_def Mysql_getDB_def MysqlBase_StopSlaveIOThread_def
        ExecuteWithTimeout_def on_world_def too_many_env_def case_prod_beta split: if_splits)
  have "val_of (raftTryToLeaderHandler (with_ha (\<lambda>_. too_many_env) demo_rpc) ''B'') (demo_network(''B'' := Some ?r)) =
    (if val_of (HATryToLeader too_many_env) ?r = OK then Replied [] else Crashed)"
    by (rule refused_trytoleader_crashes [of "demo_network(''B'' := Some ?r)" "''B''" ?r "\<lambda>_. too_many_env",
          THEN conjunct1]) (use none in simp_all)
  moreover have "val_of (HATryToLeader too_many_env) ?r = ErrorInvalidRequest"
    by (simp add: HATryToLeader_def Raft_getState_def)
  ultimately show ?thesis by (simp add: go_defs)
qed

text \<open>
  The status page: the second RPC may fail to connect where the first did not, and then the
  handler reads the response that there is none of.
\<close>

lemma status_crashes:
  assumes "val_of (GetRaftState N a) w = (x, None)" "val_of (GetNodesRPC N a) (exec_of (GetRaftState N a) w) = (None, e)"
  shows "val_of (raftStatusHandler N a) w = Crashed"
  using assms by (simp add: raftStatusHandler_def case_prod_beta)

end
