(* ===== verification/CtlCommands.thy ===== *)
theory CtlCommands
  imports CtlCluster
begin

section \<open>The command line of the tool (cmd/neohactl, the constructors of internal/neohactl)\<close>

text \<open>
  Which name runs which command, with which flags. A command is what its constructor gives to the
  command line library: the usage line, the flags with the variable each sets and its default, the
  function, the subcommands. How the library splits a command line is not modelled; it takes the
  first word of the usage line as the name (\<open>cmd_name\<close>). Help texts are left out.
\<close>

record ctl_flags =
  fl_init :: init_flags
  fl_from :: string
  fl_force :: bool
  fl_to :: string
  fl_grant :: grant_flags
  fl_logdir :: string
  fl_start :: string
  fl_stop :: string

datatype flag =
    StringVar string string "string \<Rightarrow> ctl_flags \<Rightarrow> ctl_flags"
  | IntVar string int "int \<Rightarrow> ctl_flags \<Rightarrow> ctl_flags"
  | BoolVar string bool "bool \<Rightarrow> ctl_flags \<Rightarrow> ctl_flags"

datatype 'w command = Command (cmd_use: string) (cmd_flags: "flag list")
  (cmd_fun: "(ctl_flags \<Rightarrow> string list \<Rightarrow> 'w run) option") (cmd_sub: "'w command list")

record build_info =
  bi_Tag :: string
  bi_Time :: string
  bi_Git :: string
  bi_GoVersion :: string
  bi_Platform :: string

record 'w tool =
  tl_ctl :: "'w ctl"
  tl_procs :: "'w processes"
  tl_files :: "'w logfiles"
  tl_sort :: "log_entry list \<Rightarrow> log_entry list"
  tl_build :: build_info

definition versionCommandFn :: "'w tool \<Rightarrow> string list \<Rightarrow> 'w run" where
  "versionCommandFn T args = (let b = tl_build T in dropped (ct_print (tl_ctl T)
     (''neohactl:[{Tag:'' @ bi_Tag b @ '' Time:'' @ bi_Time b @ '' Git:'' @ bi_Git b @ '' GoVersion:'' @
      bi_GoVersion b @ '' Platform:'' @ bi_Platform b @ ''}]'' @ [CHR 0x0A])))"


subsection \<open>Commands\<close>

definition NewVersionCommand :: "'w tool \<Rightarrow> 'w command" where
  "NewVersionCommand T = Command ''version'' []
     (Some (\<lambda>f. versionCommandFn T)) []"

definition NewInitCommand :: "'w tool \<Rightarrow> 'w command" where
  "NewInitCommand T = Command ''init''
     [StringVar ''address'' [] (\<lambda>v fl. fl\<lparr>fl_init := (fl_init fl)\<lparr>in_addr := v\<rparr>\<rparr>),
      IntVar ''port'' 0 (\<lambda>v fl. fl\<lparr>fl_init := (fl_init fl)\<lparr>in_port := v\<rparr>\<rparr>),
      StringVar ''vip'' [] (\<lambda>v fl. fl\<lparr>fl_init := (fl_init fl)\<lparr>in_vip := v\<rparr>\<rparr>),
      StringVar ''repluser'' [] (\<lambda>v fl. fl\<lparr>fl_init := (fl_init fl)\<lparr>in_repluser := v\<rparr>\<rparr>),
      StringVar ''replpwd'' [] (\<lambda>v fl. fl\<lparr>fl_init := (fl_init fl)\<lparr>in_replpwd := v\<rparr>\<rparr>)]
     (Some (\<lambda>f args. initCommandFn (tl_ctl T) (fl_init f))) []"

definition NewMysqlStartMonitorCommand :: "'w tool \<Rightarrow> 'w command" where
  "NewMysqlStartMonitorCommand T = Command ''startmonitor'' []
     (Some (\<lambda>f. mysqlStartMonitorCommandFn (tl_ctl T))) []"

definition NewMysqlStopMonitorCommand :: "'w tool \<Rightarrow> 'w command" where
  "NewMysqlStopMonitorCommand T = Command ''stopmonitor'' []
     (Some (\<lambda>f. mysqlStopMonitorCommandFn (tl_ctl T))) []"

definition NewMysqlStartCommand :: "'w tool \<Rightarrow> 'w command" where
  "NewMysqlStartCommand T = Command ''start'' []
     (Some (\<lambda>f. mysqlStartCommandFn (tl_ctl T))) []"

definition NewMysqlShutDownCommand :: "'w tool \<Rightarrow> 'w command" where
  "NewMysqlShutDownCommand T = Command ''shutdown'' []
     (Some (\<lambda>f. mysqlShutDownCommandFn (tl_ctl T))) []"

definition NewMysqlRebuildMeCommand :: "'w tool \<Rightarrow> 'w command" where
  "NewMysqlRebuildMeCommand T = Command ''rebuildme [--from=endpoint][--force]''
     [StringVar ''from'' [] (\<lambda>v fl. fl\<lparr>fl_from := v\<rparr>),
      BoolVar ''force'' False (\<lambda>v fl. fl\<lparr>fl_force := v\<rparr>)]
     (Some (\<lambda>f args. mysqlRebuildMeCommandFn (tl_ctl T) args (fl_from f) (fl_force f))) []"

definition NewMysqlDoBackupCommand :: "'w tool \<Rightarrow> 'w command" where
  "NewMysqlDoBackupCommand T = Command ''backup --to=backupdir''
     [StringVar ''to'' [] (\<lambda>v fl. fl\<lparr>fl_to := v\<rparr>)]
     (Some (\<lambda>f args. mysqlDoBackupCommandFn (tl_ctl T) args (fl_to f))) []"

definition NewMysqlCancelBackupCommand :: "'w tool \<Rightarrow> 'w command" where
  "NewMysqlCancelBackupCommand T = Command ''cancelbackup'' []
     (Some (\<lambda>f. mysqlCancelBackupCommandFn (tl_ctl T))) []"

definition NewMysqlCreateUserCommand :: "'w tool \<Rightarrow> 'w command" where
  "NewMysqlCreateUserCommand T = Command ''createuser <user> <host> <password> <YES | NO>'' []
     (Some (\<lambda>f. mysqlCreateUserCommandFn (tl_ctl T))) []"

definition NewMysqlCreateSuperUserCommand :: "'w tool \<Rightarrow> 'w command" where
  "NewMysqlCreateSuperUserCommand T = Command ''createsuperuser <user> <host> <password> <YES | NO>'' []
     (Some (\<lambda>f. mysqlCreateSuperUserCommandFn (tl_ctl T))) []"

definition NewMysqlDropUserCommand :: "'w tool \<Rightarrow> 'w command" where
  "NewMysqlDropUserCommand T = Command ''dropuser <user> <host>'' []
     (Some (\<lambda>f. mysqlDropUserCommandFn (tl_ctl T))) []"

definition NewMysqlChangePasswordCommand :: "'w tool \<Rightarrow> 'w command" where
  "NewMysqlChangePasswordCommand T = Command ''changepassword <user> <host> <password>'' []
     (Some (\<lambda>f. mysqlChangePasswordCommandFn (tl_ctl T))) []"

definition NewMysqlSetVarCommand :: "'w tool \<Rightarrow> 'w command" where
  "NewMysqlSetVarCommand T = Command ''sysvar'' []
     (Some (\<lambda>f. mysqlSetGlobalVarCommandFn (tl_ctl T))) []"

definition NewMysqlKillCommand :: "'w tool \<Rightarrow> 'w command" where
  "NewMysqlKillCommand T = Command ''kill'' []
     (Some (\<lambda>f. mysqlKillCommandFn (tl_ctl T))) []"

definition NewMysqlStatusCommand :: "'w tool \<Rightarrow> 'w command" where
  "NewMysqlStatusCommand T = Command ''status'' []
     (Some (\<lambda>f. mysqlStatusCommandFn (tl_ctl T))) []"

definition NewMysqlCreateUserWithPrivilegesCommand :: "'w tool \<Rightarrow> 'w command" where
  "NewMysqlCreateUserWithPrivilegesCommand T = Command ''createuserwithgrants''
     [StringVar ''user'' [] (\<lambda>v fl. fl\<lparr>fl_grant := (fl_grant fl)\<lparr>gf_user := v\<rparr>\<rparr>),
      StringVar ''passwd'' [] (\<lambda>v fl. fl\<lparr>fl_grant := (fl_grant fl)\<lparr>gf_passwd := v\<rparr>\<rparr>),
      StringVar ''database'' [] (\<lambda>v fl. fl\<lparr>fl_grant := (fl_grant fl)\<lparr>gf_database := v\<rparr>\<rparr>),
      StringVar ''table'' [] (\<lambda>v fl. fl\<lparr>fl_grant := (fl_grant fl)\<lparr>gf_table := v\<rparr>\<rparr>),
      StringVar ''host'' [] (\<lambda>v fl. fl\<lparr>fl_grant := (fl_grant fl)\<lparr>gf_host := v\<rparr>\<rparr>),
      StringVar ''privs'' ''for example:SELECT,CREATE(comma-separated)'' 
        (\<lambda>v fl. fl\<lparr>fl_grant := (fl_grant fl)\<lparr>gf_privs := v\<rparr>\<rparr>),
      StringVar ''ssl'' ''NO'' (\<lambda>v fl. fl\<lparr>fl_grant := (fl_grant fl)\<lparr>gf_ssl := v\<rparr>\<rparr>)]
     (Some (\<lambda>f args. mysqlCreateUserWithPrivilegesCommandFn (tl_ctl T) (fl_grant f))) []"

definition NewMysqlGetUserCommand :: "'w tool \<Rightarrow> 'w command" where
  "NewMysqlGetUserCommand T = Command ''getuser'' []
     (Some (\<lambda>f. mysqlGetUserCommandFn (tl_ctl T))) []"

definition NewMysqlCommand :: "'w tool \<Rightarrow> 'w command" where
  "NewMysqlCommand T = Command ''mysql <subcommand>'' [] None
     [NewMysqlStartMonitorCommand T,
      NewMysqlStopMonitorCommand T,
      NewMysqlStartCommand T,
      NewMysqlShutDownCommand T,
      NewMysqlRebuildMeCommand T,
      NewMysqlDoBackupCommand T,
      NewMysqlCancelBackupCommand T,
      NewMysqlCreateUserCommand T,
      NewMysqlCreateSuperUserCommand T,
      NewMysqlDropUserCommand T,
      NewMysqlChangePasswordCommand T,
      NewMysqlSetVarCommand T,
      NewMysqlKillCommand T,
      NewMysqlStatusCommand T,
      NewMysqlCreateUserWithPrivilegesCommand T,
      NewMysqlGetUserCommand T]"

definition NewClusterAddCommand :: "'w tool \<Rightarrow> 'w command" where
  "NewClusterAddCommand T = Command ''add nodename1,nodename2'' []
     (Some (\<lambda>f. clusterAddCommandFn (tl_ctl T))) []"

definition NewClusterIdleAddCommand :: "'w tool \<Rightarrow> 'w command" where
  "NewClusterIdleAddCommand T = Command ''addidle nodename1,nodename2'' []
     (Some (\<lambda>f. clusterIdleAddCommandFn (tl_ctl T))) []"

definition NewClusterRemoveCommand :: "'w tool \<Rightarrow> 'w command" where
  "NewClusterRemoveCommand T = Command ''remove nodename1,nodename2'' []
     (Some (\<lambda>f. clusterRemoveCommandFn (tl_ctl T))) []"

definition NewClusterIdleRemoveCommand :: "'w tool \<Rightarrow> 'w command" where
  "NewClusterIdleRemoveCommand T = Command ''removeidle nodename1,nodename2'' []
     (Some (\<lambda>f. clusterIdleRemoveCommandFn (tl_ctl T))) []"

definition NewClusterStatusJsonCommand :: "'w tool \<Rightarrow> 'w command" where
  "NewClusterStatusJsonCommand T = Command ''json'' []
     (Some (\<lambda>f. clusterStatusJsonCommandFn (tl_ctl T))) []"

definition NewClusterStatusCommand :: "'w tool \<Rightarrow> 'w command" where
  "NewClusterStatusCommand T = Command ''status'' []
     (Some (\<lambda>f. clusterStatusCommandFn (tl_ctl T)))
     [NewClusterStatusJsonCommand T]"

definition NewClusterMysqlCommand :: "'w tool \<Rightarrow> 'w command" where
  "NewClusterMysqlCommand T = Command ''mysql'' []
     (Some (\<lambda>f. clusterMysqlCommandFn (tl_ctl T))) []"

definition NewClusterGTIDJsonCommand :: "'w tool \<Rightarrow> 'w command" where
  "NewClusterGTIDJsonCommand T = Command ''json'' []
     (Some (\<lambda>f. clusterGTIDJsonCommandFn (tl_ctl T))) []"

definition NewClusterGTIDCommand :: "'w tool \<Rightarrow> 'w command" where
  "NewClusterGTIDCommand T = Command ''gtid'' []
     (Some (\<lambda>f. clusterGTIDCommandFn (tl_ctl T)))
     [NewClusterGTIDJsonCommand T]"

definition NewClusterRaftCommand :: "'w tool \<Rightarrow> 'w command" where
  "NewClusterRaftCommand T = Command ''raft'' []
     (Some (\<lambda>f. clusterRaftCommandFn (tl_ctl T))) []"

definition NewClusterNeoHACommand :: "'w tool \<Rightarrow> 'w command" where
  "NewClusterNeoHACommand T = Command ''neoha'' []
     (Some (\<lambda>f. clusterNeoHACommandFn (tl_ctl T))) []"

definition NewClusterLogCommand :: "'w tool \<Rightarrow> 'w command" where
  "NewClusterLogCommand T = Command ''log [--logdir=neoha.log dir]''
     [StringVar ''logdir'' [] (\<lambda>v fl. fl\<lparr>fl_logdir := v\<rparr>),
      StringVar ''start-datetime'' [] (\<lambda>v fl. fl\<lparr>fl_start := v\<rparr>),
      StringVar ''stop-datetime'' [] (\<lambda>v fl. fl\<lparr>fl_stop := v\<rparr>)]
     (Some (\<lambda>f args. clusterLogCommandFn (tl_ctl T) (tl_procs T) (tl_files T) (tl_sort T) args
       (fl_logdir f) (fl_start f) (fl_stop f))) []"

definition NewClusterCommand :: "'w tool \<Rightarrow> 'w command" where
  "NewClusterCommand T = Command ''cluster <subcommand>'' [] None
     [NewClusterAddCommand T,
      NewClusterIdleAddCommand T,
      NewClusterRemoveCommand T,
      NewClusterIdleRemoveCommand T,
      NewClusterStatusCommand T,
      NewClusterMysqlCommand T,
      NewClusterGTIDCommand T,
      NewClusterRaftCommand T,
      NewClusterNeoHACommand T,
      NewClusterLogCommand T]"

definition NewRaftEnableCommand :: "'w tool \<Rightarrow> 'w command" where
  "NewRaftEnableCommand T = Command ''enable'' []
     (Some (\<lambda>f. raftEnableCommandFn (tl_ctl T))) []"

definition NewRaftDisableCommand :: "'w tool \<Rightarrow> 'w command" where
  "NewRaftDisableCommand T = Command ''disable'' []
     (Some (\<lambda>f. raftDisableCommandFn (tl_ctl T))) []"

definition NewRaftTryToLeaderCommand :: "'w tool \<Rightarrow> 'w command" where
  "NewRaftTryToLeaderCommand T = Command ''trytoleader'' []
     (Some (\<lambda>f. raftTryToLeaderCommandFn (tl_ctl T))) []"

definition NewRaftAddCommand :: "'w tool \<Rightarrow> 'w command" where
  "NewRaftAddCommand T = Command ''add nodename1,nodename2'' []
     (Some (\<lambda>f. raftAddCommandFn (tl_ctl T))) []"

definition NewRaftRemoveCommand :: "'w tool \<Rightarrow> 'w command" where
  "NewRaftRemoveCommand T = Command ''remove nodename1,nodename2'' []
     (Some (\<lambda>f. raftRemoveCommandFn (tl_ctl T))) []"

definition NewRaftNodesCommand :: "'w tool \<Rightarrow> 'w command" where
  "NewRaftNodesCommand T = Command ''nodes'' []
     (Some (\<lambda>f. raftNodesCommandFn (tl_ctl T))) []"

definition NewRaftStatusCommand :: "'w tool \<Rightarrow> 'w command" where
  "NewRaftStatusCommand T = Command ''status'' []
     (Some (\<lambda>f. raftStatusCommandFn (tl_ctl T))) []"

definition NewRaftEnablePurgeBinlogCommand :: "'w tool \<Rightarrow> 'w command" where
  "NewRaftEnablePurgeBinlogCommand T = Command ''enablepurgebinlog'' []
     (Some (\<lambda>f. raftEnablePurgeBinlogCommandFn (tl_ctl T))) []"

definition NewRaftDisablePurgeBinlogCommand :: "'w tool \<Rightarrow> 'w command" where
  "NewRaftDisablePurgeBinlogCommand T = Command ''disablepurgebinlog'' []
     (Some (\<lambda>f. raftDisablePurgeBinlogCommandFn (tl_ctl T))) []"

definition NewRaftEnableCheckSemiSyncCommand :: "'w tool \<Rightarrow> 'w command" where
  "NewRaftEnableCheckSemiSyncCommand T = Command ''enablechecksemisync'' []
     (Some (\<lambda>f. raftEnableCheckSemiSyncCommandFn (tl_ctl T))) []"

definition NewRaftDisableCheckSemiSyncCommand :: "'w tool \<Rightarrow> 'w command" where
  "NewRaftDisableCheckSemiSyncCommand T = Command ''disablechecksemisync'' []
     (Some (\<lambda>f. raftDisableCheckSemiSyncCommandFn (tl_ctl T))) []"

definition NewRaftCommand :: "'w tool \<Rightarrow> 'w command" where
  "NewRaftCommand T = Command ''raft <subcommand>'' [] None
     [NewRaftEnableCommand T,
      NewRaftDisableCommand T,
      NewRaftTryToLeaderCommand T,
      NewRaftAddCommand T,
      NewRaftRemoveCommand T,
      NewRaftNodesCommand T,
      NewRaftStatusCommand T,
      NewRaftEnablePurgeBinlogCommand T,
      NewRaftDisablePurgeBinlogCommand T,
      NewRaftEnableCheckSemiSyncCommand T,
      NewRaftDisableCheckSemiSyncCommand T]"

definition NewNeoHAStatusCommand :: "'w tool \<Rightarrow> 'w command" where
  "NewNeoHAStatusCommand T = Command ''ping'' []
     (Some (\<lambda>f. neohaPingCommandFn (tl_ctl T))) []"

definition NewNeoHACommand :: "'w tool \<Rightarrow> 'w command" where
  "NewNeoHACommand T = Command ''neoha <subcommand>'' [] None
     [NewNeoHAStatusCommand T]"

definition NewQuickStackJsonCommand :: "'w tool \<Rightarrow> 'w command" where
  "NewQuickStackJsonCommand T = Command ''json''
     []
     (Some (\<lambda>f args. quickStackJsonCommandFn (tl_ctl T) (tl_procs T))) []"

definition NewQuickStackCommand :: "'w tool \<Rightarrow> 'w command" where
  "NewQuickStackCommand T = Command ''quickstack''
     []
     (Some (\<lambda>f args. quickStackCommandFn (tl_ctl T) (tl_procs T)))
     [NewQuickStackJsonCommand T]"

definition NewPerfCommand :: "'w tool \<Rightarrow> 'w command" where
  "NewPerfCommand T = Command ''perf <subcommand>'' [] None
     [NewQuickStackCommand T]"

definition rootCmd :: "'w tool \<Rightarrow> 'w command" where
  "rootCmd T = Command ''neohactl'' [] None
     [NewVersionCommand T, NewInitCommand T, NewClusterCommand T, NewMysqlCommand T, NewRaftCommand T,
      NewNeoHACommand T, NewPerfCommand T]"


subsection \<open>Names and defaults\<close>

definition cmd_name :: "'w command \<Rightarrow> string" where
  "cmd_name c = hd (split_on CHR '' '' (cmd_use c))"

text \<open>Parsing a command line starts from the defaults, set when the command was constructed.\<close>

primrec set_default :: "flag \<Rightarrow> ctl_flags \<Rightarrow> ctl_flags" where
  "set_default (StringVar n d f) = f d"
| "set_default (IntVar n d f) = f d"
| "set_default (BoolVar n d f) = f d"

primrec unambiguous :: "'w command \<Rightarrow> bool" where
  "unambiguous (Command use flags run sub) \<longleftrightarrow>
     distinct (map cmd_name sub) \<and> (\<forall>b \<in> set (map unambiguous sub). b)"

lemmas command_defs = NewVersionCommand_def NewInitCommand_def NewMysqlStartMonitorCommand_def
  NewMysqlStopMonitorCommand_def NewMysqlStartCommand_def NewMysqlShutDownCommand_def
  NewMysqlRebuildMeCommand_def NewMysqlDoBackupCommand_def NewMysqlCancelBackupCommand_def
  NewMysqlCreateUserCommand_def NewMysqlCreateSuperUserCommand_def NewMysqlDropUserCommand_def
  NewMysqlChangePasswordCommand_def NewMysqlSetVarCommand_def NewMysqlKillCommand_def
  NewMysqlStatusCommand_def NewMysqlCreateUserWithPrivilegesCommand_def
  NewMysqlGetUserCommand_def NewMysqlCommand_def NewClusterAddCommand_def
  NewClusterIdleAddCommand_def NewClusterRemoveCommand_def NewClusterIdleRemoveCommand_def
  NewClusterStatusJsonCommand_def NewClusterStatusCommand_def NewClusterMysqlCommand_def
  NewClusterGTIDJsonCommand_def NewClusterGTIDCommand_def NewClusterRaftCommand_def
  NewClusterNeoHACommand_def NewClusterLogCommand_def NewClusterCommand_def
  NewRaftEnableCommand_def NewRaftDisableCommand_def NewRaftTryToLeaderCommand_def
  NewRaftAddCommand_def NewRaftRemoveCommand_def NewRaftNodesCommand_def
  NewRaftStatusCommand_def NewRaftEnablePurgeBinlogCommand_def
  NewRaftDisablePurgeBinlogCommand_def NewRaftEnableCheckSemiSyncCommand_def
  NewRaftDisableCheckSemiSyncCommand_def NewRaftCommand_def NewNeoHAStatusCommand_def
  NewNeoHACommand_def NewQuickStackJsonCommand_def NewQuickStackCommand_def NewPerfCommand_def

lemma commands_unambiguous: "unambiguous (rootCmd T)"
  by (simp add: rootCmd_def command_defs cmd_name_def)

text \<open>
  The default of \<open>--privs\<close> is its help text: without the flag, this is asked for as privileges.
\<close>

lemma default_privs_are_help:
  "gf_privs (fl_grant (foldr set_default (cmd_flags (NewMysqlCreateUserWithPrivilegesCommand T)) f)) =
     ''for example:SELECT,CREATE(comma-separated)''"
  by (simp add: NewMysqlCreateUserWithPrivilegesCommand_def)

end
