(* ===== verification/Programs.thy ===== *)
theory Programs
  imports Server Nlog CtlCommands
begin

section \<open>The programs and the utilities (cmd, build, common.go)\<close>

text \<open>
  The main functions of the agent and of the tool, over the flags, the loaded configuration and a
  server whose parts have been made; the small helpers of \<open>common.go\<close>. A program ends by a status
  or a panic, or it goes on running.
\<close>

subsection \<open>common.go\<close>

text \<open>What \<open>os.Stat\<close> says: nothing, \<open>IsNotExist\<close>, another error.\<close>

datatype stat_answer = StatOK | StatNotExist | StatError gerror

definition PathExists :: "stat_answer \<Rightarrow> bool res" where
  "PathExists st = (case st of
       StatOK \<Rightarrow> (True, None)
     | StatNotExist \<Rightarrow> (False, None)
     | StatError err \<Rightarrow> (False, Some err))"

text \<open>\<open>j\<close> is the value of \<open>rand.Intn(delta)\<close>.\<close>

definition RandomPort :: "int \<Rightarrow> int \<Rightarrow> int \<Rightarrow> int" where
  "RandomPort lo hi j = (let delta = hi - lo in if delta > 0 then lo + j else lo)"

text \<open>A Go timer: it is armed, or its tick is in the channel, or neither.\<close>

record gotimer =
  tm_armed :: bool
  tm_ticked :: bool

definition NormalTimeout :: gotimer where
  "NormalTimeout = \<lparr>tm_armed = True, tm_ticked = False\<rparr>"

definition timer_fires :: "gotimer \<Rightarrow> gotimer" where
  "timer_fires t = (if tm_armed t then \<lparr>tm_armed = False, tm_ticked = True\<rparr> else t)"

text \<open>\<open>Stop\<close> says whether it was armed; if not, a tick that nobody has received is taken out.\<close>

definition NormalTimerRelaese :: "gotimer option \<Rightarrow> gotimer option" where
  "NormalTimerRelaese t = map_option (\<lambda>x. if tm_armed x then x\<lparr>tm_armed := False\<rparr> else x\<lparr>tm_ticked := False\<rparr>) t"

lemma released_timer_is_quiet:
  assumes "t = (timer_fires ^^ n) NormalTimeout"
  shows "NormalTimerRelaese (Some t) = Some \<lparr>tm_armed = False, tm_ticked = False\<rparr>"
proof -
  have "t = NormalTimeout \<or> t = timer_fires NormalTimeout"
    unfolding assms by (induction n) (auto simp: timer_fires_def NormalTimeout_def)
  then show ?thesis by (auto simp: NormalTimerRelaese_def timer_fires_def NormalTimeout_def)
qed


subsection \<open>Flags (cmd/neoha/main.go)\<close>

record flags =
  fl_conf :: string
  fl_log :: string
  fl_role :: string

definition default_flags :: flags where
  "default_flags = \<lparr>fl_conf = [], fl_log = [], fl_role = []\<rparr>"

datatype log_kind = StdLog | SysLog

text \<open>The log type is looked at before the command line is parsed.\<close>

definition main_log :: "flags \<Rightarrow> log_kind" where
  "main_log parsed = (if fl_log default_flags = ''SYS'' then SysLog else StdLog)"

lemma never_syslog: "main_log \<lparr>fl_conf = c, fl_log = ''SYS'', fl_role = r\<rparr> = StdLog"
  by (simp add: main_log_def default_flags_def)


subsection \<open>main of neoha\<close>

text \<open>The sections that \<open>printConfig\<close> reads through: without one a nil pointer.\<close>

definition printConfig :: "Config \<Rightarrow> gerror option" where
  "printConfig conf = (if RestAPI conf = None \<or> Election conf = None \<or> Bootstrap conf = None \<or> Database conf = None
     then Some nil_deref else None)"

definition level_name :: "Config \<Rightarrow> string option" where
  "level_name conf = map_option Level (LogSection conf)"

text \<open>Up to \<open>NewServer\<close>: the parts made and the level of the logger, or how the program ends.\<close>

definition main_prepare :: "(string \<Rightarrow> Config option res) \<Rightarrow> flags \<Rightarrow> log_end + made \<times> log" where
  "main_prepare load fl =
     (if fl_conf fl = [] then Inl (Exited 1)
      else case load (fl_conf fl) of
        (_, Some err) \<Rightarrow> Inl (Paniced (level_text ''PANIC'' (''neoha.loadconfig.error['' @ err_text err @ '']'')))
      | (None, None) \<Rightarrow> Inl (Paniced (err_text nil_deref))
      | (Some conf, None) \<Rightarrow>
          (case (printConfig conf, level_name conf) of
             (Some err, _) \<Rightarrow> Inl (Paniced (err_text err))
           | (None, None) \<Rightarrow> Inl (Paniced (err_text nil_deref))
           | (None, Some l) \<Rightarrow>
               (case NewServer conf (getServerState (fl_role fl)) of
                  (Some m, None) \<Rightarrow> Inr (m, exec_of (SetLevel l) (NewLog [OptLevel DEBUG]))
                | (_, e) \<Rightarrow> Inl (Paniced (case e of None \<Rightarrow> [] | Some err \<Rightarrow> err_text err)))))"

text \<open>Validation asks for no REST section, and \<open>printConfig\<close> reads through it.\<close>

lemma accepted_and_crashes:
  "fst (Validate (DefaultConfig\<lparr>RestAPI := None\<rparr>)) = None"
  "printConfig (snd (Validate (DefaultConfig\<lparr>RestAPI := None\<rparr>))) = Some nil_deref"
  by code_simp+

datatype program = StillRunning | Ended log_end

text \<open>The rest: a panic of \<open>Init\<close> is not recovered; a signal shuts down and \<open>main\<close> returns.\<close>

definition main_run :: "('s, 'm) server_env \<Rightarrow> os_signal list \<Rightarrow> ('s, 'm, program) srv" where
  "main_run X sigs = do {
     e \<leftarrow> Server_Init X;
     (case e of Some err \<Rightarrow> ret (Ended (Paniced (err_text err)))
      | None \<Rightarrow> do {
          Server_Start X;
          stopped \<leftarrow> Server_Wait X sigs;
          ret (if stopped then Ended (Exited 0) else StillRunning) }) }"

text \<open>\<open>main\<close> of the tool: the error of the command is printed, the status is that of \<open>os.Exit(-1)\<close>.\<close>

definition neohactl_main :: "gerror option \<Rightarrow> log_end" where
  "neohactl_main e = (case e of None \<Rightarrow> Exited 0 | Some err \<Rightarrow> Exited (-1 mod 256))"


subsection \<open>build/info.go\<close>

record Info =
  bi_Tag :: string
  bi_Time :: string
  bi_Git :: string
  bi_GoVersion :: string
  bi_Platform :: string

text \<open>The linker sets the tag, else it is unknown.\<close>

definition GetInfo :: "string option \<Rightarrow> string \<Rightarrow> string \<Rightarrow> string \<Rightarrow> string \<Rightarrow> string \<Rightarrow> Info" where
  "GetInfo linkTag git time goversion goos goarch = \<lparr>
     bi_Tag = (case linkTag of None \<Rightarrow> ''unknown'' | Some t \<Rightarrow> t), bi_Time = time, bi_Git = git,
     bi_GoVersion = goversion, bi_Platform = goos @ '' '' @ goarch\<rparr>"


subsection \<open>What a start leaves running\<close>

definition engine_known :: "('s, 'm) server_env \<Rightarrow> bool" where
  "engine_known X \<longleftrightarrow> pa_engine (sx_parts X) \<in> {EngineMySQL, EnginePostgreSQL}"

lemma engine_ok [simp]:
  assumes "engine_known X"
  shows "val_of (SetupManager E b (pa_engine (sx_parts X))) m = None"
    "val_of (Manager_Start E b (pa_engine (sx_parts X))) m = None"
    "val_of (Manager_Stop E (pa_engine (sx_parts X))) m = None"
  using assms by (auto simp: engine_known_def SetupManager_def Manager_Start_def Manager_Stop_def on_engine_def
      EngineMySQL_def EnginePostgreSQL_def case_prod_beta)

lemma registers_all:
  assumes "\<And>x. x \<in> set xs \<Longrightarrow> sx_register X x = None"
  shows "run_state (until_err (register X) xs) s = (None, s\<lparr>se_registered := se_registered s @ xs\<rparr>)"
  using assms by (induction xs arbitrary: s) (simp_all add: register_def)

definition up_services :: "('s, 'm) server_env \<Rightarrow> string list" where
  "up_services X = (let mysql = (pa_engine (sx_parts X) = EngineMySQL) in
     server_services (pa_raft (sx_parts X)) mysql mysql)"

lemma init_runs:
  assumes "engine_known X" "\<And>x. sx_register X x = None"
  shows "val_of (Server_Init X) s = None"
    "se_registered (exec_of (Server_Init X) s) = se_registered s @ up_services X"
  using assms by (simp_all add: Server_Init_def run_or_err setupRPC_def registers_all Database_SetupDB_def
      up_services_def Let_def)

lemma start_runs:
  assumes "engine_known X" "\<And>t. val_of (pa_election_start (sx_parts X)) t = None"
  shows "se_looping (exec_of (Server_Start X) s) = sx_reconciler X \<and>
    se_pinging (exec_of (Server_Start X) s) = (pa_engine (sx_parts X) = EngineMySQL) \<and>
    se_registered (exec_of (Server_Start X) s) = se_registered s \<and>
    se_serving (exec_of (Server_Start X) s) = (sx_rpc_start X = None \<or> se_serving s)"
  using assms
  by (cases "sx_rpc_start X"; cases "pa_coord (sx_parts X)")
    (auto simp: Server_Start_def run_or_err Database_Start_def Election_Start_def coord_start_def)

lemma shutdown_flags:
  "\<not> se_looping (exec_of (Server_Shutdown X) s) \<and> \<not> se_serving (exec_of (Server_Shutdown X) s) \<and>
   \<not> se_pinging (exec_of (Server_Shutdown X) s)"
  by (cases "pa_coord (sx_parts X)") (auto simp: shutdown_defs)

text \<open>
  The agent on parts of either engine, whose services can be registered and
  whose election starts, until a signal comes: it is running, its services are registered in
  order, MySQL is pinged, and the reconciler's loop is on, whether or not the RPC port could be
  opened; it serves exactly if that could. A signal that it waits for ends it with status 0, and
  then nothing of this is left on.
\<close>

lemma server_comes_up:
  fixes X :: "('s, 'm) server_env" and s :: "('s, 'm) server"
  assumes "engine_known X" "\<And>x. sx_register X x = None" "\<And>t. val_of (pa_election_start (sx_parts X)) t = None"
    and "se_registered s = []" "\<not> se_serving s"
  shows "let up = exec_of (main_run X []) s; down = exec_of (main_run X [OtherSignal, SIGTERM]) s in
      val_of (main_run X []) s = StillRunning \<and> se_registered up = up_services X \<and>
      se_looping up = sx_reconciler X \<and> se_pinging up = (pa_engine (sx_parts X) = EngineMySQL) \<and>
      se_serving up = (sx_rpc_start X = None) \<and>
      val_of (main_run X [OtherSignal, SIGTERM]) s = Ended (Exited 0) \<and>
      \<not> se_looping down \<and> \<not> se_serving down \<and> \<not> se_pinging down"
proof -
  let ?s1 = "exec_of (Server_Init X) s"
  have quiet: "se_serving ?s1 = se_serving s"
    using assms(1,2) by (simp add: Server_Init_def run_or_err setupRPC_def registers_all Database_SetupDB_def Let_def)
  note init = init_runs [OF assms(1,2), of s] and start = start_runs [OF assms(1,3), of ?s1]
  show ?thesis
    using init start quiet assms(4,5) shutdown_flags [of X]
    by (simp add: main_run_def Server_Wait_def Let_def case_prod_beta)
qed

lemma server_comes_up_example:
  "let up = exec_of (main_run demo_server_env []) (delegating_leader\<lparr>se_serving := False\<rparr>) in
   se_serving up \<and> se_pinging up \<and> se_looping up \<and>
   se_registered up = [''NodeRPC'', ''ServerRPC'', ''UserRPC'', ''HARPC'', ''RaftRPC'', ''MysqldRPC'', ''BackupRPC'', ''MysqlRPC'']"
proof -
  let ?s = "delegating_leader\<lparr>se_serving := False\<rparr>"
  have "engine_known demo_server_env" "\<And>x. sx_register demo_server_env x = None"
    "\<And>t. val_of (pa_election_start (sx_parts demo_server_env)) t = None" "se_registered ?s = []" "\<not> se_serving ?s"
    by (simp_all add: engine_known_def demo_server_env_def raft_mysql_def delegating_leader_def)
  from server_comes_up [OF this] show ?thesis
    by (simp add: Let_def demo_server_env_def raft_mysql_def up_services_def server_services_def)
qed

end
