(* ===== verification/Spec2Isabelle.thy ===== *)
theory Spec2Isabelle
  imports RaftSpec RaftTimers RaftSafety HaNode HaGaps EtcdLock CtlSafety CtlLog Api Programs
begin

text \<open>
  \<^bold>\<open>What is modelled.\<close> NeoHA keeps one database of a cluster writable. Each node runs an agent
  of these layers: a coordinator elects a leader (the embedded Raft of
  \<open>internal/election/raft\<close>, or a leader key in etcd), a reconciler (\<open>internal/ha\<close>) compares
  leadership with the role of the local database every few seconds and moves the database with a
  driver (\<open>internal/database\<close>, MySQL or PostgreSQL), a manager (\<open>internal/manager\<close>) keeps mysqld
  running and makes backups, a server (\<open>internal/server\<close>) chooses these parts from the configuration
  (\<open>internal/config\<close>) and offers RPCs, and a control tool (\<open>internal/neohactl\<close>) is their client.

  \<^item> \<open>Prelude\<close>, \<open>GoStrings\<close>: Go methods as programs of the state monad, errors as values, the
    relation \<open>state_io_rel\<close> used as a frame calculus (locale \<open>effect_rel\<close>), and the functions
    of \<open>strings\<close>, \<open>strconv\<close>, \<open>path\<close> and \<open>fmt\<close> that the code calls.
  \<^item> \<open>Model\<close>, \<open>RpcModel\<close> (\<open>internal/base/model\<close>): requests, responses, GTID, replication target,
    statistics, names of the RPCs.
  \<^item> \<open>SqlConn\<close>, \<open>MysqlBase\<close>, \<open>GtidSet\<close>, \<open>Mysql\<close> (\<open>internal/database/mysql\<close>): statements over
    a session (\<open>mysql_connect.go\<close>), the handlers of MySQL 5.6, 5.7 and 8.0 (\<open>mysqlbase.go\<close>,
    \<open>mysql56.go\<close>, \<open>mysql57.go\<close>, \<open>mysql80.go\<close>), \<open>GTIDSetUnion\<close> (\<open>api.go\<close>, \<open>sort.go\<close>) and
    the struct \<open>Mysql\<close> with its ping state machine (\<open>mysql.go\<close>, \<open>api.go\<close>, \<open>attr.go\<close>).
  \<^item> \<open>Driver\<close>, \<open>MysqlDriver\<close>, \<open>Postgres\<close>, \<open>PgDriver\<close> (\<open>internal/database/driver\<close>,
    \<open>mysql/driver.go\<close>, \<open>internal/database/postgresql\<close>): the driver interface as a record of operations,
    what a client may rely on as the locales \<open>driver_fence\<close> and \<open>driver_contract\<close>; the MySQL driver
    is an instance of both, the PostgreSQL driver of the first.
  \<^item> \<open>RaftState\<close>, \<open>RaftCore\<close>, \<open>RaftMembers\<close>: the struct \<open>Raft\<close> (\<open>raft.go\<close>, \<open>attr.go\<close>, \<open>stats.go\<close>,
    \<open>dbops.go\<close>), membership and the peers file (\<open>api.go\<close>, \<open>peer_json.go\<close>), messages (\<open>peer.go\<close>).
  \<^item> \<open>RaftFollower\<close>, \<open>RaftCandidate\<close>, \<open>RaftLeader\<close>, \<open>RaftPassive\<close>: the handlers, timers, background
    workers and asynchronous jobs of each state (\<open>follower.go\<close>, \<open>candidate.go\<close>, \<open>leader.go\<close>,
    \<open>idle.go\<close>, \<open>invalid.go\<close>, \<open>learner.go\<close>).
  \<^item> \<open>RaftNode\<close>: a running node, with one step for each case of a \<open>select\<close>, and the RPCs of
    \<open>rpc_ha.go\<close> and \<open>rpc_raft.go\<close>. \<open>RaftTimers\<close>: the \<open>Loop\<close> functions with the timers they reset
    (\<open>common.go\<close>), and a node with a clock.
  \<^item> \<open>RaftMail\<close>, \<open>RaftPost\<close>, \<open>RaftCluster\<close>, \<open>RaftElected\<close>, \<open>RaftWins\<close>: a cluster of such nodes that exchange
    the vote requests and heartbeats of their outboxes, as a step relation; \<open>RaftSpec\<close>: the ballot
    box that it refines.
  \<^item> \<open>Coordination\<close> (\<open>internal/coordination\<close>): the coordinator interface and the adapter that makes
    Raft one. \<open>Etcd\<close> (\<open>etcd/coordinator.go\<close>, \<open>keys.go\<close>, \<open>member.go\<close>): the etcd coordinator over an
    etcd client; \<open>EtcdLease\<close>: several nodes on one etcd as a step relation; \<open>EtcdLock\<close>: the lock it is.
  \<^item> \<open>Ha\<close> (\<open>reconcile.go\<close>, \<open>primary_hook.go\<close>, \<open>primary_ref.go\<close>): the reconciler over any
    coordinator and driver. \<open>HaRaft\<close>: on Raft and MySQL in one struct. \<open>HaNode\<close>: on a coordinator and
    a driver with states of their own. \<open>HaGaps\<close>: when its rounds change nothing.
  \<^item> \<open>Config\<close> (\<open>config.go\<close>, \<open>config_validate.go\<close>, \<open>config_format.go\<close>).
  \<^item> \<open>Linux\<close> (\<open>internal/base/common/linux.go\<close>, \<open>handler.go\<close>): running commands. \<open>Mysqld\<close>
    (\<open>internal/manager\<close>): mysqld and its backups; \<open>MysqldJobs\<close>: their interleavings as a step relation.
  \<^item> \<open>Services\<close> (\<open>rpc_mysql.go\<close>, \<open>rpc_node.go\<close>, \<open>rpc_user.go\<close>, \<open>rpc_server.go\<close>): the handlers of the
    RPCs. \<open>Server\<close> (\<open>server.go\<close>, \<open>election.go\<close>, \<open>database.go\<close>, \<open>wire/factory.go\<close>): which parts a
    configuration selects, and initialisation, start and shutdown over a record of parts, whose
    instances are Raft with MySQL, etcd with MySQL and etcd with PostgreSQL.
  \<^item> \<open>Nlog\<close>, \<open>Nrpc\<close> (\<open>internal/base/nlog\<close>, \<open>internal/base/nrpc\<close>, \<open>peer.go\<close>): the logger; listener, RPC
    service and client, and a peer's exchange. \<open>Programs\<close> (\<open>cmd\<close>, \<open>build\<close>, \<open>common.go\<close>): the main
    functions. \<open>Api\<close> (\<open>api\<close>): the REST handlers.
  \<^item> \<open>NeoRpc\<close> (\<open>internal/neorpc\<close>): the client helpers. \<open>Ctl\<close>, \<open>CtlCluster\<close> (\<open>internal/neohactl\<close>): the
    commands; \<open>CtlCommands\<close>: the tree of commands and flags. \<open>ClusterNet\<close>: the tool against the
    services of several nodes.

  \<^bold>\<open>How.\<close> A method of a struct is a program \<open>('s, 'a) state\<close> over the record of the struct;
  \<open>val_of\<close> is what it returns and \<open>exec_of\<close> the state it leaves. \<open>(T, error)\<close> is
  \<open>'a res = 'a \<times> gerror option\<close>. Logging is left out. What surrounds a component is an argument, a
  record of operations on a world \<open>'w\<close>: a MySQL server (\<open>dbenv\<close>), PostgreSQL with its files and
  commands (\<open>pgenv\<close>), an etcd client (\<open>etcd_ops\<close>), processes (\<open>processes\<close>), the network
  (\<open>rpcenv\<close>), sockets and \<open>net/rpc\<close> (\<open>net\<close>), the terminal and the shell (\<open>ctl\<close>). A theorem for all of them holds for every
  answer, timeouts and lost connections included. Identifiers of views and epochs are 64-bit words;
  their difference is taken as a signed number as the code does (\<open>id_diff\<close>). A Go \<open>map\<close> of
  peers is the list of its keys. Goroutines of a Raft state are jobs in \<open>r_jobs\<close>: a job runs when the
  event \<open>EvJob\<close> picks it, or at the latest when its loop ends and waits for it, and once started
  runs to its end. RPCs go to \<open>r_outbox\<close>; an answer comes back as an event, in any order and at any
  time (also the answer that a node gives itself when it cannot ask its own MySQL). A theorem about
  \<open>node_run E evs n\<close> for all \<open>evs\<close> thus holds for all interleavings of these steps. The rounds
  of the etcd coordinator and the jobs of the backup are cut where another node or request can come
  in between, and interleaved by \<open>esys_step\<close> and \<open>job_step\<close>. A command of the tool ends as
  \<open>Completed\<close>, \<open>Panicked\<close> or \<open>Waiting\<close>, the last if a waiting loop never ends.

  \<^bold>\<open>What the lemmas show.\<close> \<open>RaftBallot\<close> and \<open>RaftVotes\<close>: what each handler may do to view
  and vote, by the effect relation \<open>moves\<close>, up to one vote per view and growing views.
  \<open>RaftElection\<close>: which steps reach LEADER (the relation \<open>moves_to\<close>), a leader has a quorum,
  a leader that nobody answers leaves office whatever else happens. \<open>RaftMembers\<close>: member lists and
  tables in step, also after a restart. \<open>RaftMail\<close> to \<open>RaftElected\<close>: what a node sends, the invariant of
  the cluster (votes granted, answers under way, votes counted) part by part, and from it
  that two leaders of one round are one (locale \<open>quorum_system\<close>). \<open>RaftWins\<close>: a candidate whom a
  majority may vote for can win; a round that is led twice, and what a restart breaks. \<open>RaftSpec\<close>:
  every move of the cluster is some steps of the box, whose safety is a few lines. \<open>RaftTimers\<close>: the loops do what
  the events of \<open>RaftNode\<close> do, when an election timer can fire, and how long a leader that is cut
  off overlaps with its successor. \<open>RaftSafety\<close>: requests of strangers and of stale leaders, what
  a follower does with a heartbeat, when it stands for election, whom it votes for, the binlogs a
  leader purges. \<open>EtcdLease\<close>, \<open>EtcdLock\<close>: under the laws of leases and transactions that etcd
  documents (\<open>etcd_laws\<close>, which an in-memory store meets), the leader key is a lock, and two leaders
  with live leases are one. \<open>HaRaft\<close>, \<open>HaNode\<close>: fencing, hooks, endpoints, proved once for each
  locale of \<open>Ha\<close> and used on three pairs of coordinator and driver. \<open>HaGaps\<close>: a node at rest is a
  fixed point of reconciliation, a demotion reaches the server, and what no round repairs. \<open>PgDriver\<close>: a replica is in
  recovery. \<open>GtidSet\<close>: union of GTID sets as sets of transactions. \<open>Mysql\<close>: pings, read-only
  switching, comparison of binlog positions. \<open>CtlSafety\<close>: when waiting ends, and what a rebuild has
  checked before it removes data. \<open>CtlLog\<close>: the merge of the logs. \<open>MysqldJobs\<close>: the status of
  backups. \<open>Nrpc\<close>: no vote is counted without an answer; \<open>Server\<close>, \<open>Programs\<close>: what a start leaves
  running and a shutdown leaves behind. \<open>ClusterNet\<close>, \<open>Api\<close> and this theory: properties across components. Where the code does
  something that its documentation or its other parts do not expect, a lemma states what it does,
  for example \<open>stale_denial_lowers_view\<close>, \<open>empty_file_forgets_minimum\<close>, \<open>lost_renewal_orphans\<close>,
  \<open>two_backups_at_once\<close>, \<open>accepted_and_panics\<close> and \<open>reset_slave_all_makes_master\<close>.

  \<^bold>\<open>Bounds.\<close> Views and epochs are taken below \<open>2 ^ 63\<close> where signed differences are compared; a run
  of \<open>k\<close> steps raises a view by at most \<open>3 * (k + 1)\<close> beyond those it is sent, so the cluster's
  theorems ask for \<open>V + 3 * n < 2 ^ 63\<close> after \<open>n\<close> steps from views up to \<open>V\<close>. The delegated
  set-up of group replication polls 600 times, five minutes at 500 ms. \<open>WaitMysqlWorks\<close>
  gets the number of pings that fit into its timeout, \<open>WaitReady\<close> of PostgreSQL the 60 or 120 seconds of
  its context as so many ticks. Binlog positions are compared below \<open>10 ^ 16\<close>, the width of the
  padding. The waiting loops of the client helpers have no bound: they are \<open>while_option\<close>, and
  \<open>None\<close> means that they never end. No other definition has fuel.

  \<^bold>\<open>What is not modelled.\<close> Mutexes; how the library reads the command line, routes HTTP requests and
  decodes JSON; the test doubles (\<open>mock.go\<close>, the integration harness). The calls of the logger are
  left out of the other components. Raft on a node that keeps no MySQL would dereference a nil
  pointer in the code and is outside the model, as are data races between goroutines that the
  mutexes of the code do not order (the backup status, which has no mutex, is treated at the
  grain of its statements) and the late write of a reply that a timed-out call has given up.

  The cluster has fixed members in semi-sync mode, at least three, and nodes that do not restart:
  with fewer members, or in group-replication mode, answers of a dead MySQL count as votes
  (\<open>own_failure_is_a_vote\<close>), and votes are not stored (\<open>restart_makes_two_leaders\<close>). A next part is a cluster whose membership
  changes.
\<close>

section \<open>Properties that span components\<close>

text \<open>
  A reconcile cycle \<open>rec\<close> of a running node that reports no error and leaves MySQL open for writes.
\<close>

definition writable_after :: "('w raft recon, gerror option) state \<Rightarrow> 'w raft recon \<Rightarrow> 'w node \<Rightarrow> bool" where
  "writable_after rec q n \<longleftrightarrow> re_wired q \<and> re_sys q = n_raft n \<and> loop_state (n_loop n) \<noteq> STOPPED \<and>
     val_of rec q = None \<and> my_option (r_mysql (re_sys (exec_of rec q))) = MysqlReadwrite"

lemma writable_leads:
  assumes "writable_after (reconcile_raft E cf rounds a sh ctx) q n" "settled n"
  shows "loop_state (n_loop n) = LEADER"
proof -
  have q: "re_wired q" "re_sys q = n_raft n" "loop_state (n_loop n) \<noteq> STOPPED"
    "val_of (reconcile_raft E cf rounds a sh ctx) q = None"
    "my_option (r_mysql (re_sys (exec_of (reconcile_raft E cf rounds a sh ctx) q))) = MysqlReadwrite"
    using assms(1) by (auto simp: writable_after_def)
  have "wants_primary (raft_coord a) (driver_on_raft (mysql_driver_ops E cf rounds)) ctx q"
    using raft_reconciled.fenced [OF q(1) _ q(4)] q(5) by (auto simp: raft_open_def mysql_open_def)
  then have "r_state (n_raft n) = LEADER" using raft_wants_primary q(2) by metis
  with assms(2) q(3) show ?thesis by (auto simp: settled_def)
qed

text \<open>
  C2. From the votes to the databases: take any reachable state of the cluster,
  and let the reconcilers of two of its nodes run a cycle each. If both report no error and leave
  the MySQL of their node open for writes, and both nodes asked for votes last in the same
  round, they are one node: a round has one writable database.
\<close>

theorem one_writer_per_round:
  assumes "cl_reach D M V n c" "V + 3 * n < 2 ^ 63" "i \<in> M" "j \<in> M" "cl_round c i = cl_round c j"
    and "writable_after (reconcile_raft E1 cf1 rounds1 a1 sh1 ctx1) p (cl_node c i)"
    and "writable_after (reconcile_raft E2 cf2 rounds2 a2 sh2 ctx2) q (cl_node c j)"
  shows "i = j"
proof -
  have inv: "cl_inv M (V + 3 * n) c" by (rule reach_inv [OF assms(1,2)])
  then have seat: "settled (cl_node c k)" if "k \<in> M" for k
    using seatsD(3) that by (auto simp: cl_inv_def)
  show ?thesis
    by (rule sole_leader [OF inv assms(3,4) writable_leads [OF assms(6)] writable_leads [OF assms(7)] assms(5)])
       (use seat assms(3,4) in simp_all)
qed

text \<open>The leader of the three members has prepared its MySQL, and each member runs a cycle.\<close>

definition trio_open :: "unit cluster" where
  "trio_open = deliver quiet_env (EvJob 0) ''a:1'' trio4"

definition trio_cycle :: "unit cluster \<Rightarrow> string \<Rightarrow> bool" where
  "trio_cycle c k = writable_after (reconcile_raft quiet_env conf0 3 demo_adapter quiet_shell None)
     (NewReconciler (n_raft (cl_node c k)) True None []) (cl_node c k)"

lemma trio_open_cycle:
  "let q = NewReconciler (n_raft (cl_node trio_open ''a:1'')) True None []; rec = reconcile_raft quiet_env conf0 3 demo_adapter quiet_shell None
   in re_wired q \<and> loop_state (n_loop (cl_node trio_open ''a:1'')) = LEADER \<and> cl_round trio_open ''a:1'' = 1 \<and>
     (case val_of rec q of None \<Rightarrow> True | Some err \<Rightarrow> False) \<and> my_option (r_mysql (re_sys (exec_of rec q))) = MysqlReadwrite"
  by code_simp

theorem one_writer_per_round_witness:
  "{k \<in> set trio. cl_round trio_open k = 1 \<and> trio_cycle trio_open k} = {''a:1''}"
proof -
  have M: "''a:1'' \<in> set trio" by (simp add: trio_def)
  have "cl_move (\<lambda>i. quiet_env) (set trio) trio4 trio_open"
    unfolding trio_open_def using M by (rule cl_move.local) (simp add: local_event_def)
  from cl_reach.step [OF trio_reach this] have reach: "cl_reach (\<lambda>i. quiet_env) (set trio) 0 5 trio_open" by simp
  have a: "trio_cycle trio_open ''a:1''" "cl_round trio_open ''a:1'' = 1"
    using trio_open_cycle by (auto simp: trio_cycle_def writable_after_def Let_def NewReconciler_def split: option.splits)
  have "k = ''a:1''" if "k \<in> set trio" "cl_round trio_open k = 1" "trio_cycle trio_open k" for k
    by (rule one_writer_per_round [OF reach _ that(1) M _ that(3) [unfolded trio_cycle_def] a(1) [unfolded trio_cycle_def]])
       (use that(2) a(2) in simp_all)
  with M a show ?thesis by blast
qed

text \<open>The same with etcd: a cycle of the node \<open>c\<close> of the coordinator.\<close>

definition etcd_writable :: "(('e etcdc, 'w mysql) node_sys recon, gerror option) state \<Rightarrow>
    ('e etcdc, 'w mysql) node_sys recon \<Rightarrow> 'e etcdc \<Rightarrow> bool" where
  "etcd_writable rec q c \<longleftrightarrow> re_wired q \<and> ns_coord (re_sys q) = c \<and>
     val_of rec q = None \<and> my_option (ns_db (re_sys (exec_of rec q))) = MysqlReadwrite"

lemma etcd_writable_leads:
  assumes "etcd_writable (reconcile_etcd T J E cf rounds sh ctx) q (node_of s i)"
  shows "e_isLeader (s_node s i)"
  using assms etcd_node_fenced [of q T J E cf rounds sh ctx] by (auto simp: etcd_writable_def node_of_def)

text \<open>
  C9. From the leases to the databases: take any reachable state of the nodes on one
  etcd, and let the reconcilers of two of them run a cycle each. If both report no error and
  leave the MySQL of their node open for writes, and the leases of both are live, the nodes
  have the same identifier, which the leader key holds: with distinct endpoints a cluster has one
  writable database as long as no lease has run out.
\<close>

theorem one_etcd_writer:
  assumes "etcd_laws T V" "esys_reach T J V K s"
    and "e_leaseID (s_node s i) \<in> live (V (s_world s))" "e_leaseID (s_node s j) \<in> live (V (s_world s))"
    and "etcd_writable (reconcile_etcd T J E1 cf1 rounds1 sh1 ctx1) p (node_of s i)"
    and "etcd_writable (reconcile_etcd T J E2 cf2 rounds2 sh2 ctx2) q (node_of s j)"
  shows "e_localID (s_node s i) = e_localID (s_node s j) \<and>
    lock_of V K s = Some (e_localID (s_node s i), e_leaseID (s_node s i))"
  using one_holder [OF assms(1,2) etcd_writable_leads [OF assms(5)] assms(3) etcd_writable_leads [OF assms(6)] assms(4)]
  by simp

definition etcd_cycle_node :: "(mem_store etcdc, unit mysql) node_sys recon" where
  "etcd_cycle_node = (NewReconciler
     \<lparr>ns_coord = node_of demo_leads 0, ns_db = (NewMysql conf0 1000 ())\<lparr>my_state := MysqlAlive\<rparr>\<rparr> True None [])\<lparr>re_applyPromote := True\<rparr>"

lemma etcd_cycle_opens:
  "let rec = reconcile_etcd mem_etcd demo_codec quiet_env conf0 3 quiet_shell None
   in (case val_of rec etcd_cycle_node of None \<Rightarrow> True | Some err \<Rightarrow> False) \<and>
      my_option (ns_db (re_sys (exec_of rec etcd_cycle_node))) = MysqlReadwrite"
  by code_simp

theorem one_etcd_writer_witness:
  "my_option (ns_db (re_sys (exec_of (reconcile_etcd mem_etcd demo_codec quiet_env conf0 3 quiet_shell None) etcd_cycle_node)))
     = MysqlReadwrite \<and> lock_of mem_view ''/service/database/leader'' demo_leads = Some (''a:1'', 1)"
proof -
  have w: "etcd_writable (reconcile_etcd mem_etcd demo_codec quiet_env conf0 3 quiet_shell None) etcd_cycle_node (node_of demo_leads 0)"
    using etcd_cycle_opens
    by (auto simp: etcd_writable_def Let_def split: option.splits) (simp_all add: etcd_cycle_node_def NewReconciler_def)
  show ?thesis
    using one_etcd_writer [OF mem_laws demo_reach(2) _ _ w w] etcd_cycle_opens by (simp add: demo_leads_view Let_def)
qed

text \<open>
  C11. From the heartbeat timer to the database: take any run of a
  semi-sync leader that keeps more than two members, in which no other member answers its
  heartbeats and it counts no votes, and which has \<open>admit-defeat-hearbeat-count\<close>
  heartbeat ticks. After this run its MySQL, dead or alive, is not open for writes once a
  reconcile cycle reports no error.
\<close>

theorem isolated_leader_is_fenced:
  assumes "n_loop n = InLeader v" "ackGranted v \<le> 1" "0 \<le> lessHtAcks v" "r_state (n_raft n) = LEADER"
    and "\<And>rsp. EvHeartbeatResponse rsp \<in> set evs \<Longrightarrow> RetCode rsp \<noteq> OK \<or> StateName (rsp_Raft rsp) = State_String IDLE"
    and "\<And>k. k < length evs \<Longrightarrow> (let r = n_raft (node_run E (take k evs) n) in
      r_mysqlReplMode r = ReplModeSemiSync \<and> getMembers r > 2 \<and> rc_AdmitDefeatHtCnt (r_conf r) = int d)"
    and "d \<le> length (filter (\<lambda>ev. ev = EvHeartbeatTick) evs)" "0 < d"
    and "EvCheckVotesTick \<notin> set evs" "\<And>rsp. EvVoteResponse rsp \<notin> set evs"
    and "re_wired q" "re_sys q = n_raft (node_run E evs n)" "loop_state (n_loop (node_run E evs n)) \<noteq> STOPPED"
    and "val_of (reconcile_raft E c rounds a sh ctx) q = None"
  shows "my_option (r_mysql (re_sys (exec_of (reconcile_raft E c rounds a sh ctx) q))) \<noteq> MysqlReadwrite"
proof -
  have "loop_state (n_loop (node_run E evs n)) \<noteq> LEADER \<and> settled (node_run E evs n)"
    by (rule out_of_office [OF assms(1-4) unheardI [OF assms(5)] assms(6) _ assms(8-10)])
       (use assms(7) in \<open>simp_all add: ticks_def\<close>)
  then have "r_state (re_sys q) \<noteq> LEADER"
    using assms(12,13) by (auto simp: settled_def)
  then have "\<not> wants_primary (raft_coord a) (driver_on_raft (mysql_driver_ops E c rounds)) ctx q"
    using raft_wants_primary by blast
  from raft_reconciled.fenced [OF assms(11) this assms(14)] show ?thesis
    by (simp add: raft_open_def mysql_open_def)
qed

theorem isolated_leader_is_fenced_witness:
  "my_option (r_mysql (re_sys (exec_of (reconcile_raft too_many_env conf0 3 demo_adapter quiet_shell None)
     (NewReconciler (n_raft (node_run too_many_env (replicate 10 EvHeartbeatTick) three_nodes)) True None []))))
   \<noteq> MysqlReadwrite"
proof -
  have f: "r_state (n_raft (node_run too_many_env (replicate 10 EvHeartbeatTick) three_nodes)) = FOLLOWER"
    "loop_state (n_loop (node_run too_many_env (replicate 10 EvHeartbeatTick) three_nodes)) \<noteq> STOPPED"
    using isolated_run [OF three_nodes_isolated(1), of 10] by (simp_all add: three_nodes_isolated(2))
  then have quiet: "val_of (reconcile_raft too_many_env conf0 3 demo_adapter quiet_shell None)
     (NewReconciler (n_raft (node_run too_many_env (replicate 10 EvHeartbeatTick) three_nodes)) True None []) = None"
    by (intro quiet_cycle) (simp_all add: NewReconciler_def)
  have v: "n_loop three_nodes = InLeader lvars0" "ackGranted lvars0 \<le> 1" "0 \<le> lessHtAcks lvars0"
    "r_state (n_raft three_nodes) = LEADER"
    by (simp_all add: three_nodes_def Let_def lvars0_def)
  show ?thesis
    by (rule isolated_leader_is_fenced [OF v, where d = 10 and evs = "replicate 10 EvHeartbeatTick", OF _ _ _ _ _ _ _ _ f(2) quiet])
       (use three_nodes_wait in \<open>simp_all add: NewReconciler_def\<close>)
qed

text \<open>
  C32. In semi-sync mode and with database changes delegated to the
  reconciler, a follower that takes a heartbeat of a member of its cluster, of its view or a newer
  one and with a database endpoint, is given, as the primary to replicate from,
  that member and this endpoint.
\<close>

theorem delegated_replica_target:
  assumes "GetFrom req \<in> set (r_peers r)" "r_ViewID r \<le> GetViewID req" "unat (GetViewID req) < 2 ^ 63"
    and "r_mysqlReplMode r = ReplModeSemiSync" "r_delegateDBApply r" "r_state r = FOLLOWER"
    and "Master_Host (req_Repl req) \<noteq> []" "Master_Port (req_Repl req) > 0" "GetFrom req \<noteq> []"
    and "re_sys q = exec_of (Follower_processHeartbeatRequest E req) r"
  shows "Primary (val_of (computeDesired (raft_coord a) D ctx) q) =
    \<lparr>MemberID = GetFrom req, pr_Host = Master_Host (req_Repl req), pr_Port = Master_Port (req_Repl req)\<rparr>"
proof -
  have v: "unat (r_ViewID r) < 2 ^ 63"
    using assms(2,3) by (simp add: word_le_nat_alt)
  have d: "\<not> id_diff (r_ViewID r) (GetViewID req) > 0"
    using id_diff_sign(2) [OF v assms(3)] assms(2) by auto
  have mode: "ReplModeSemiSync \<noteq> ReplModeMGR" by (simp add: ReplModeSemiSync_def ReplModeMGR_def)
  have "r_leader (re_sys q) = GetFrom req \<and> r_state (re_sys q) = FOLLOWER \<and>
      r_leaderDBHost (re_sys q) = Master_Host (req_Repl req) \<and> r_leaderDBPort (re_sys q) = Master_Port (req_Repl req)"
    unfolding assms(10) using assms(1-9) d mode
    by (simp add: Follower_processHeartbeatRequest_def checkRequest_def Let_def case_prod_beta
        RecordLeaderDatabase_def Raft_setLeader_def applyEpochView_def whenM_def updateView_def run_updateEpoch)
  with assms(7-9) show ?thesis
    by (simp add: computeDesired_def run_on_sys raft_IsLeader_def Raft_getState_def raft_ClusterView_def
        GetLeaderDatabaseEndpoint_def case_prod_beta Let_def zero_PrimaryRef_def)
qed

theorem delegated_replica_target_witness:
  "Primary (val_of (computeDesired (raft_coord demo_adapter) (driver_on_raft (mysql_driver_ops too_many_env conf0 3)) None)
     (NewReconciler (exec_of (Follower_processHeartbeatRequest too_many_env
         ((beat 7)\<lparr>req_Repl := zero_Repl\<lparr>Master_Host := ''db2'', Master_Port := 3307\<rparr>\<rparr>))
       ((demo_raft ([''a:1'', ''b:1''], []))\<lparr>r_delegateDBApply := True\<rparr>)) True None []))
   = \<lparr>MemberID = ''b:1'', pr_Host = ''db2'', pr_Port = 3307\<rparr>"
proof -
  have "r_mysqlReplMode (demo_raft ([''a:1'', ''b:1''], [])) = ReplModeSemiSync"
    by (simp add: demo_raft_def raft_on_def run_NewRaft raft0_def conf0_def NewMysql_def)
  then show ?thesis
    by (subst delegated_replica_target [where E = too_many_env and
          r = "(demo_raft ([''a:1'', ''b:1''], []))\<lparr>r_delegateDBApply := True\<rparr>" and
          req = "(beat 7)\<lparr>req_Repl := zero_Repl\<lparr>Master_Host := ''db2'', Master_Port := 3307\<rparr>\<rparr>"])
       (simp_all add: beat_def NewRaftRPCRequest_def demo_raft_fields sanitizePeerList_def NewReconciler_def)
qed

end
